(* ===== verification/Prelude.thy ===== *)
theory Prelude
  imports Main "HOL-Library.AList" "HOL-Library.Char_ord" "HOL-Library.List_Lexorder"
    "HOL-Library.Product_Lexorder" "HOL-Library.Option_ord"
begin

text \<open>
  Shared vocabulary of the development: the Python values the backend moves around, the
  parts of the Python standard library its code relies on (integer and UUID text,
  ISO timestamps), rows kept in tables, and the generic lemmas and named collections the
  component theories use.

  A UUID is represented by its canonical text, so \<open>str(id)\<close> is the identity and two
  UUIDs are equal exactly when their texts are.  An instant is the number of microseconds
  since 1970-01-01T00:00:00 UTC; every \<open>datetime\<close> of the modelled code is timezone-aware.
  Text is ASCII.
\<close>

named_theorems row_simps \<open>how table operations read and write rows\<close>
named_theorems frame_simps \<open>what an operation leaves unchanged\<close>

type_synonym uuid = string
type_synonym time = int

abbreviation seconds :: "int \<Rightarrow> time" where "seconds n \<equiv> n * 1000000"
abbreviation minutes :: "int \<Rightarrow> time" where "minutes n \<equiv> n * 60000000"
abbreviation days :: "int \<Rightarrow> time" where "days n \<equiv> n * 86400000000"

section \<open>Python values\<close>

datatype pyfloat = Finite int int | PosInf | NegInf | NaN
  \<comment> \<open>\<open>Finite m e\<close> is the float \<open>m * 2 ^ e\<close>\<close>

datatype pykey = KStr string | KObj string
  \<comment> \<open>a text key, or a key of a class that is neither text, number, nor UUID, by class name\<close>

datatype pyval =
    PNone | PBool bool | PInt int | PFloat pyfloat | PStr string | PUuid uuid | PTime time
  | PList "pyval list" | PTuple "pyval list" | PDict "(pykey \<times> pyval) list"
  | POther string \<comment> \<open>an object of a class the code does not inspect, by its class name\<close>

type_synonym pydict = "(pykey \<times> pyval) list"

definition dict_get :: "pydict \<Rightarrow> string \<Rightarrow> pyval option" where
  "dict_get d k = map_of d (KStr k)"

definition dict_set :: "pydict \<Rightarrow> pykey \<Rightarrow> pyval \<Rightarrow> pydict" where
  "dict_set d k v = AList.update k v d"

fun opt_val :: "('a \<Rightarrow> pyval) \<Rightarrow> 'a option \<Rightarrow> pyval" where
  "opt_val f None = PNone"
| "opt_val f (Some x) = f x"

lemma dict_get_set [simp]: "dict_get (dict_set d (KStr k) v) k = Some v"
  by (simp add: dict_get_def dict_set_def update_conv)

lemma dict_get_set_other [simp]: "k \<noteq> k' \<Longrightarrow> dict_get (dict_set d (KStr k) v) k' = dict_get d k'"
  by (simp add: dict_get_def dict_set_def update_conv)

section \<open>Numbers and text\<close>

function nat_str :: "nat \<Rightarrow> string" where
  "nat_str n = (if n < 10 then [char_of (48 + n)] else nat_str (n div 10) @ [char_of (48 + n mod 10)])"
  by pat_completeness auto
termination by (relation "measure id") auto

declare nat_str.simps [simp del]

definition int_str :: "int \<Rightarrow> string" where
  "int_str i = (if i < 0 then CHR ''-'' # nat_str (nat (- i)) else nat_str (nat i))"

definition pad_left :: "nat \<Rightarrow> string \<Rightarrow> string" where
  "pad_left w s = replicate (w - length s) CHR ''0'' @ s"

fun lower_char :: "char \<Rightarrow> char" where
  "lower_char c = (let n = (of_char c :: nat) in if 65 \<le> n \<and> n \<le> 90 then char_of (n + 32) else c)"

definition lower :: "string \<Rightarrow> string" where
  "lower = map lower_char"

fun is_space :: "char \<Rightarrow> bool" where
  "is_space c = (let n = (of_char c :: nat) in n = 32 \<or> (9 \<le> n \<and> n \<le> 13) \<or> (28 \<le> n \<and> n \<le> 31))"

definition strip :: "string \<Rightarrow> string" where
  "strip s = rev (dropWhile is_space (rev (dropWhile is_space s)))"

fun starts_with :: "'a list \<Rightarrow> 'a list \<Rightarrow> bool" where
  "starts_with [] s = True"
| "starts_with (p # ps) [] = False"
| "starts_with (p # ps) (c # cs) = (p = c \<and> starts_with ps cs)"

definition ends_with :: "'a list \<Rightarrow> 'a list \<Rightarrow> bool" where
  "ends_with p s = starts_with (rev p) (rev s)"

fun contains :: "string \<Rightarrow> string \<Rightarrow> bool" where
  "contains p [] = (p = [])"
| "contains p (c # cs) = (starts_with p (c # cs) \<or> contains p cs)"

text \<open>\<open>str.replace(p, '')\<close> for a non-empty \<open>p\<close>: occurrences are removed left to right.\<close>

function remove_all :: "string \<Rightarrow> string \<Rightarrow> string" where
  "remove_all p s =
     (case s of [] \<Rightarrow> [] | c # cs \<Rightarrow>
        if p \<noteq> [] \<and> starts_with p s then remove_all p (drop (length p) s) else c # remove_all p cs)"
  by pat_completeness auto
termination by (relation "measure (\<lambda>(p, s). length s)") auto

declare remove_all.simps [simp del]

fun hex_digit :: "char \<Rightarrow> int option" where
  "hex_digit c = (let n = (of_char c :: int) in
     if 48 \<le> n \<and> n \<le> 57 then Some (n - 48)
     else if 97 \<le> n \<and> n \<le> 102 then Some (n - 87)
     else if 65 \<le> n \<and> n \<le> 70 then Some (n - 55) else None)"

text \<open>The digits of \<open>int(s, 16)\<close>: single underscores may separate digits.\<close>

fun hex_digits :: "bool \<Rightarrow> int \<Rightarrow> string \<Rightarrow> int option" where
  "hex_digits after_digit acc [] = (if after_digit then Some acc else None)"
| "hex_digits after_digit acc (c # cs) =
     (if c = CHR ''_'' then (if after_digit then hex_digits False acc cs else None)
      else case hex_digit c of None \<Rightarrow> None | Some d \<Rightarrow> hex_digits True (16 * acc + d) cs)"

definition py_int16 :: "string \<Rightarrow> int option" where
  "py_int16 s =
     (let t = strip s;
          neg = starts_with ''-'' t;
          u = (if neg \<or> starts_with ''+'' t then tl t else t);
          v = (if starts_with ''0x'' u \<or> starts_with ''0X'' u
               then (if starts_with ''_'' (drop 2 u) then drop 3 u else drop 2 u) else u)
      in map_option (\<lambda>n. if neg then - n else n) (hex_digits False 0 v))"

fun hex_char :: "int \<Rightarrow> char" where
  "hex_char n = (if n < 10 then char_of (48 + n) else char_of (87 + n))"

fun hex_text :: "nat \<Rightarrow> int \<Rightarrow> string" where
  "hex_text 0 n = []"
| "hex_text (Suc w) n = hex_text w (n div 16) @ [hex_char (n mod 16)]"

definition uuid_text :: "int \<Rightarrow> uuid" where
  "uuid_text n =
     (let h = hex_text 32 n
      in take 8 h @ ''-'' @ take 4 (drop 8 h) @ ''-'' @ take 4 (drop 12 h) @ ''-'' @
         take 4 (drop 16 h) @ ''-'' @ drop 20 h)"

definition strip_braces :: "string \<Rightarrow> string" where
  "strip_braces s = (let b = (\<lambda>c. c = CHR ''{'' \<or> c = CHR ''}'') in
     rev (dropWhile b (rev (dropWhile b s))))"

text \<open>\<open>uuid.UUID(s)\<close>: \<open>None\<close> is its \<open>ValueError\<close>.\<close>

definition parse_uuid :: "string \<Rightarrow> uuid option" where
  "parse_uuid s =
     (let h = remove_all ''-'' (strip_braces (remove_all ''uuid:'' (remove_all ''urn:'' s)))
      in if length h \<noteq> 32 then None
         else case py_int16 h of None \<Rightarrow> None
              | Some i \<Rightarrow> if 0 \<le> i \<and> i < 2 ^ 128 then Some (uuid_text i) else None)"

text \<open>
  \<open>UUID(str(v))\<close> for a JSON value.  Besides text only an integer can print as 32
  hexadecimal digits; the text of any other value holds quotes, brackets, a point or a
  word and is refused.
\<close>

fun val_uuid :: "pyval \<Rightarrow> uuid option" where
  "val_uuid (PStr s) = parse_uuid s"
| "val_uuid (PInt i) = parse_uuid (int_str i)"
| "val_uuid (PUuid u) = Some u"
| "val_uuid _ = None"

text \<open>The text an f-string or \<open>str\<close> gives a value; \<open>other\<close> formats the values that are no plain scalars.\<close>

fun py_text :: "(pyval \<Rightarrow> string) \<Rightarrow> pyval \<Rightarrow> string" where
  "py_text other (PStr s) = s"
| "py_text other (PUuid u) = u"
| "py_text other (PInt i) = int_str i"
| "py_text other (PBool b) = (if b then ''True'' else ''False'')"
| "py_text other PNone = ''None''"
| "py_text other v = other v"

text \<open>\<open>datetime.isoformat()\<close> of an aware UTC value.\<close>

definition civil_from_days :: "int \<Rightarrow> int \<times> int \<times> int" where
  "civil_from_days z0 =
     (let z = z0 + 719468;
          era = z div 146097;
          doe = z mod 146097;
          yoe = (doe - doe div 1460 + doe div 36524 - doe div 146096) div 365;
          doy = doe - (365 * yoe + yoe div 4 - yoe div 100);
          mp = (5 * doy + 2) div 153;
          d = doy - (153 * mp + 2) div 5 + 1;
          m = (if mp < 10 then mp + 3 else mp - 9)
      in (yoe + era * 400 + (if m \<le> 2 then 1 else 0), m, d))"

definition isoformat :: "time \<Rightarrow> string" where
  "isoformat t =
     (let dy = t div days 1; r = t mod days 1; (y, m, d) = civil_from_days dy;
          us = r mod seconds 1; s = r div seconds 1;
          p = (\<lambda>w i. pad_left w (int_str i))
      in p 4 y @ ''-'' @ p 2 m @ ''-'' @ p 2 d @ ''T'' @ p 2 (s div 3600) @ '':'' @
         p 2 (s mod 3600 div 60) @ '':'' @ p 2 (s mod 60) @
         (if us = 0 then [] else ''.'' @ p 6 us) @ ''+00:00'')"

section \<open>Results\<close>

text \<open>\<open>Inl\<close> is a raised exception, \<open>Inr\<close> a returned value.\<close>

definition result_bind :: "'e + 'a \<Rightarrow> ('a \<Rightarrow> 'e + 'b) \<Rightarrow> 'e + 'b" where
  "result_bind r f = (case r of Inl e \<Rightarrow> Inl e | Inr x \<Rightarrow> f x)"

lemma result_bind_simps [simp]:
  "result_bind (Inl e) f = Inl e"
  "result_bind (Inr x) f = f x"
  by (simp_all add: result_bind_def)

lemma result_bind_eq_Inr: "result_bind r f = Inr y \<longleftrightarrow> (\<exists>x. r = Inr x \<and> f x = Inr y)"
  by (cases r) auto

lemma result_bind_eq_Inl: "result_bind r f = Inl e \<longleftrightarrow> r = Inl e \<or> (\<exists>x. r = Inr x \<and> f x = Inl e)"
  by (cases r) auto

lemma map_sum_eq_Inr: "map_sum f g r = Inr y \<longleftrightarrow> (\<exists>x. r = Inr x \<and> y = g x)"
  by (cases r) auto

section \<open>Tables\<close>

text \<open>
  A table is a list of rows in storage order.  \<open>set_rows p f\<close> writes the rows a
  predicate selects, as an ORM flush does for the objects the code changed.
\<close>

definition set_rows :: "('r \<Rightarrow> bool) \<Rightarrow> ('r \<Rightarrow> 'r) \<Rightarrow> 'r list \<Rightarrow> 'r list" where
  "set_rows p f rs = map (\<lambda>r. if p r then f r else r) rs"

text \<open>
  The second flush of an object that outlives a commit: a column is written when its value differs from
  the one that was loaded.
\<close>

definition written :: "'a \<Rightarrow> 'a \<Rightarrow> 'a \<Rightarrow> 'a" where
  "written loaded new stored = (if new = loaded then stored else new)"

lemma written_stored [simp]: "written a b a = b"
  by (simp add: written_def)

lemma written_same [simp]: "written a a b = b"
  by (simp add: written_def)

lemma set_rows_simps [row_simps]:
  "set_rows p f [] = []"
  "set_rows p f (r # rs) = (if p r then f r else r) # set_rows p f rs"
  by (simp_all add: set_rows_def)

lemma length_set_rows [simp]: "length (set_rows p f rs) = length rs"
  by (simp add: set_rows_def)

lemma in_set_rows: "r \<in> set (set_rows p f rs) \<longleftrightarrow> (\<exists>q\<in>set rs. r = (if p q then f q else q))"
  by (auto simp: set_rows_def)

lemma set_rows_cong:
  "(\<And>r. r \<in> set rs \<Longrightarrow> p r \<Longrightarrow> f r = g r) \<Longrightarrow> set_rows p f rs = set_rows p g rs"
  by (simp add: set_rows_def)

lemma set_rows_none: "(\<And>r. r \<in> set rs \<Longrightarrow> \<not> p r) \<Longrightarrow> set_rows p f rs = rs"
  by (simp add: set_rows_def map_idI)

lemma map_set_rows: "(\<And>r. r \<in> set rs \<Longrightarrow> p r \<Longrightarrow> k (f r) = k r) \<Longrightarrow> map k (set_rows p f rs) = map k rs"
  by (simp add: set_rows_def)

lemma find_Some_in: "find p xs = Some x \<Longrightarrow> x \<in> set xs \<and> p x"
  by (auto simp: find_Some_iff)

lemma find_unique:
  assumes "distinct (map k rs)" "r \<in> set rs"
  shows "find (\<lambda>q. k q = k r) rs = Some r"
  using assms by (induction rs) (auto simp: image_iff)

lemma find_set_rows_same:
  assumes "\<And>r. k r = i \<Longrightarrow> k (f r) = i"
  shows "find (\<lambda>r. k r = i) (set_rows (\<lambda>r. k r = i) f rs) = map_option f (find (\<lambda>r. k r = i) rs)"
  using assms by (induction rs) (simp_all add: row_simps)

lemma find_set_rows_other:
  assumes "\<And>r. k r = i \<Longrightarrow> k (f r) = i" "i \<noteq> j"
  shows "find (\<lambda>r. k r = j) (set_rows (\<lambda>r. k r = i) f rs) = find (\<lambda>r. k r = j) rs"
proof (induction rs)
  case (Cons r rs)
  then show ?case using assms by (cases "k r = i") (simp_all add: row_simps)
qed (simp add: row_simps)

lemma find_append: "find p (xs @ ys) = (case find p xs of None \<Rightarrow> find p ys | Some x \<Rightarrow> Some x)"
  by (induction xs) auto

lemma find_cong_set: "(\<And>x. x \<in> set xs \<Longrightarrow> p x = q x) \<Longrightarrow> find p xs = find q xs"
  by (induction xs) auto

lemma map_enumerate_snd: "map (\<lambda>x. g (snd x)) (List.enumerate n xs) = map g xs"
  by (induction xs arbitrary: n) simp_all

end
