(* ===== verification/Redaction.thy ===== *)
theory Redaction
  imports Prelude
begin

text \<open>
  The structural part of \<open>redact_secrets\<close> in \<open>app/core/redaction.py\<close> over the values
  that reach job payloads, results and events, and the one exemption of
  \<open>app/jobs/secret_policy.py\<close>.  The text redactor \<open>redact_string\<close> is the argument
  \<open>rs\<close> of every definition here: the facts below hold whatever it does to text.
\<close>

section \<open>Which keys are secret\<close>

definition SAFE_NUMERIC_KEYS :: "string list" where
  "SAFE_NUMERIC_KEYS =
     [''input_tokens'', ''max_input_tokens'', ''max_output_tokens'', ''max_tokens'',
      ''output_tokens'', ''session_count'', ''token_count'', ''tokens_per_second'']"

definition SAFE_NUMERIC_CONTAINER_KEYS :: "string list" where
  "SAFE_NUMERIC_CONTAINER_KEYS = [''token_usage'']"

definition MAX_MAPPING_ITEMS :: nat where "MAX_MAPPING_ITEMS = 500"
definition MAX_MAPPING_KEY_CHARS :: nat where "MAX_MAPPING_KEY_CHARS = 512"
definition MAX_SEQUENCE_ITEMS :: nat where "MAX_SEQUENCE_ITEMS = 1000"

definition normalized_key :: "string \<Rightarrow> string" where
  "normalized_key k = map (\<lambda>c. if c = CHR ''-'' \<or> c = CHR '' '' then CHR ''_'' else c) (lower k)"

text \<open>
  The alternatives of \<open>SECRET_KEY_PATTERN\<close>; the separators it allows between words
  have become underscores by normalisation.
\<close>

definition SECRET_WORDS :: "string list" where
  "SECRET_WORDS =
     [''authorization'', ''cookie'', ''token'', ''secret'', ''password'', ''apikey'', ''api_key'',
      ''privatekey'', ''private_key'', ''session'', ''credential'', ''databaseurl'', ''database_url'']"

definition secret_key :: "string \<Rightarrow> bool" where
  "secret_key k = list_ex (\<lambda>w. contains w (normalized_key k)) SECRET_WORDS"

fun safe_numeric_value :: "pyval \<Rightarrow> bool" where
  "safe_numeric_value (PInt i) = True"
| "safe_numeric_value (PFloat (Finite m e)) = True"
| "safe_numeric_value _ = False"

fun safe_mapping_key :: "pykey \<Rightarrow> string \<times> bool" where
  "safe_mapping_key (KStr s) = (if length s > MAX_MAPPING_KEY_CHARS then (''[str]'', False) else (s, True))"
| "safe_mapping_key (KObj t) = (''['' @ t @ '']'', False)"

definition safe_numeric_entry :: "pykey \<times> pyval \<Rightarrow> bool" where
  "safe_numeric_entry e =
     (let (name, inspectable) = safe_mapping_key (fst e) in
      inspectable \<and> safe_numeric_value (snd e) \<and>
      (secret_key name \<longrightarrow> normalized_key name \<in> set SAFE_NUMERIC_KEYS))"

fun safe_numeric_mapping :: "pyval \<Rightarrow> bool" where
  "safe_numeric_mapping (PDict d) = (d \<noteq> [] \<and> list_all safe_numeric_entry d)"
| "safe_numeric_mapping _ = False"

definition safe_secret_value :: "string \<Rightarrow> pyval \<Rightarrow> bool" where
  "safe_secret_value k v =
     (let n = normalized_key k in
      if n \<in> set SAFE_NUMERIC_KEYS then safe_numeric_value v
      else if n \<in> set SAFE_NUMERIC_CONTAINER_KEYS then safe_numeric_mapping v
      else False)"

definition redact_key_value :: "string \<Rightarrow> pyval \<Rightarrow> bool" where
  "redact_key_value k v = (secret_key k \<and> \<not> safe_secret_value k v)"

section \<open>Redaction of a value\<close>

text \<open>
  \<open>islice\<close> is the count of entries still to take; a mapping is rebuilt entry by entry,
  a later entry replacing an earlier one of the same redacted name.
\<close>

fun redact_secrets :: "(string \<Rightarrow> string) \<Rightarrow> nat \<Rightarrow> pyval \<Rightarrow> pyval"
  and redact_mapping :: "(string \<Rightarrow> string) \<Rightarrow> nat \<Rightarrow> nat \<Rightarrow> pydict \<Rightarrow> pydict \<Rightarrow> pydict"
  and redact_iterable :: "(string \<Rightarrow> string) \<Rightarrow> nat \<Rightarrow> nat \<Rightarrow> pyval list \<Rightarrow> pyval list" where
  "redact_secrets rs depth v =
     (if depth > 20 then PStr ''[MAX_DEPTH]''
      else case v of
        PNone \<Rightarrow> PNone | PBool b \<Rightarrow> PBool b | PInt i \<Rightarrow> PInt i | PFloat f \<Rightarrow> PFloat f
      | PUuid u \<Rightarrow> PStr u
      | PTime t \<Rightarrow> PStr (isoformat t)
      | PStr s \<Rightarrow> PStr (rs s)
      | PDict d \<Rightarrow> PDict (redact_mapping rs depth MAX_MAPPING_ITEMS [] d)
      | PList xs \<Rightarrow> PList (redact_iterable rs depth MAX_SEQUENCE_ITEMS xs)
      | PTuple xs \<Rightarrow> PList (redact_iterable rs depth MAX_SEQUENCE_ITEMS xs)
      | POther t \<Rightarrow> PStr (''['' @ t @ '']''))"
| "redact_mapping rs depth n acc [] = acc"
| "redact_mapping rs depth n acc ((k, v) # d) =
     (if n = 0 then acc
      else let (original, inspectable) = safe_mapping_key k in
        redact_mapping rs depth (n - 1)
          (dict_set acc (KStr (rs original))
            (if \<not> inspectable \<or> redact_key_value original v then PStr ''[REDACTED]''
             else redact_secrets rs (depth + 1) v)) d)"
| "redact_iterable rs depth n [] = []"
| "redact_iterable rs depth n (x # xs) =
     (if n = 0 then [] else redact_secrets rs (depth + 1) x # redact_iterable rs depth (n - 1) xs)"

declare redact_secrets.simps [simp del]

lemma redact_dict: "redact_secrets rs 0 (PDict d) = PDict (redact_mapping rs 0 MAX_MAPPING_ITEMS [] d)"
  by (simp add: redact_secrets.simps)

text \<open>\<open>redact_event_data\<close>: the result of redacting a mapping is a mapping.\<close>

fun redact_event_data :: "(string \<Rightarrow> string) \<Rightarrow> pydict \<Rightarrow> pydict" where
  "redact_event_data rs d = (case redact_secrets rs 0 (PDict d) of PDict r \<Rightarrow> r | _ \<Rightarrow> [])"

section \<open>Every entry of a redacted mapping\<close>

definition redacted_entry :: "(string \<Rightarrow> string) \<Rightarrow> nat \<Rightarrow> pykey \<times> pyval \<Rightarrow> pykey \<times> pyval" where
  "redacted_entry rs depth e =
     (let (original, inspectable) = safe_mapping_key (fst e) in
      (KStr (rs original),
       if \<not> inspectable \<or> redact_key_value original (snd e) then PStr ''[REDACTED]''
       else redact_secrets rs (depth + 1) (snd e)))"

lemma redact_mapping_fold:
  "redact_mapping rs depth n acc d =
     foldl (\<lambda>acc e. dict_set acc (fst (redacted_entry rs depth e)) (snd (redacted_entry rs depth e))) acc (take n d)"
proof (induction d arbitrary: n acc)
  case (Cons e d)
  obtain k v where "e = (k, v)" by force
  then show ?case
    using Cons by (cases n) (auto simp: redacted_entry_def split: prod.splits)
qed simp

lemma set_dict_set: "set (dict_set d k v) \<subseteq> insert (k, v) (set d)"
  unfolding dict_set_def by (induction d) auto

lemma set_foldl_dict_set:
  "set (foldl (\<lambda>acc e. dict_set acc (fst (f e)) (snd (f e))) acc es) \<subseteq> set acc \<union> f ` set es"
proof (induction es arbitrary: acc)
  case (Cons e es)
  have "set (dict_set acc (fst (f e)) (snd (f e))) \<subseteq> insert (f e) (set acc)"
    using set_dict_set [of acc "fst (f e)" "snd (f e)"] by simp
  then show ?case
    using Cons [of "dict_set acc (fst (f e)) (snd (f e))"] by auto
qed simp

lemma redact_mapping_entry:
  "e \<in> set (redact_mapping rs depth n [] d) \<Longrightarrow> \<exists>e0\<in>set d. e = redacted_entry rs depth e0"
  using set_foldl_dict_set [of "redacted_entry rs depth" "[]" "take n d"]
  by (auto simp: redact_mapping_fold dest: in_set_takeD)

lemma redact_mapping_distinct:
  "distinct (map fst acc) \<Longrightarrow> distinct (map fst (redact_mapping rs depth n acc d))"
proof -
  have "distinct (map fst acc) \<Longrightarrow>
    distinct (map fst (foldl (\<lambda>acc e. dict_set acc (fst (f e)) (snd (f e))) acc es))" for f and es :: pydict
    by (induction es arbitrary: acc) (auto simp: dict_set_def distinct_update)
  then show "distinct (map fst acc) \<Longrightarrow> ?thesis" by (simp add: redact_mapping_fold)
qed

section \<open>The exemption of the retention job\<close>

fun lower_hex_char :: "char \<Rightarrow> bool" where
  "lower_hex_char c = (let n = (of_char c :: nat) in (48 \<le> n \<and> n \<le> 57) \<or> (97 \<le> n \<and> n \<le> 102))"

definition preview_token_shape :: "string \<Rightarrow> bool" where
  "preview_token_shape s = (length s = 64 \<and> list_all lower_hex_char s)"

definition restore_exempt_secrets :: "string \<Rightarrow> pydict \<Rightarrow> pydict \<Rightarrow> pydict" where
  "restore_exempt_secrets job_type payload sanitized =
     (if job_type \<noteq> ''execute_retention'' then sanitized
      else case dict_get payload ''preview_token'' of
        Some (PStr s) \<Rightarrow>
          if preview_token_shape s then dict_set sanitized (KStr ''preview_token'') (PStr s) else sanitized
      | _ \<Rightarrow> sanitized)"

end
