(* ===== verification/Job_Types.thy ===== *)
theory Job_Types
  imports Redaction
begin

text \<open>
  The vocabulary of the job queue: \<open>app/jobs/types.py\<close> (status, error class, origin and
  type enumerations, the frozen payload, the \<open>JobExecution\<close> snapshot a handler receives),
  \<open>app/jobs/errors.py\<close>, and the handler table of \<open>app/jobs/registry.py\<close>.
\<close>

section \<open>Enumerations\<close>

datatype job_status = QUEUED | RUNNING | SUCCEEDED | FAILED | NEEDS_REVIEW | CANCELLED

fun job_status_value :: "job_status \<Rightarrow> string" where
  "job_status_value QUEUED = ''queued''"
| "job_status_value RUNNING = ''running''"
| "job_status_value SUCCEEDED = ''succeeded''"
| "job_status_value FAILED = ''failed''"
| "job_status_value NEEDS_REVIEW = ''needs_review''"
| "job_status_value CANCELLED = ''cancelled''"

datatype job_error_class = RETRYABLE | REVIEW_CLASS | PERMANENT

fun job_error_class_value :: "job_error_class \<Rightarrow> string" where
  "job_error_class_value RETRYABLE = ''retryable''"
| "job_error_class_value REVIEW_CLASS = ''needs_review''"
| "job_error_class_value PERMANENT = ''permanent''"

datatype job_origin = MANUAL | SCHEDULER | AUTOMATION | RETRY

fun job_origin_value :: "job_origin \<Rightarrow> string" where
  "job_origin_value MANUAL = ''manual''"
| "job_origin_value SCHEDULER = ''scheduler''"
| "job_origin_value AUTOMATION = ''automation''"
| "job_origin_value RETRY = ''retry''"

definition job_origin_of :: "string \<Rightarrow> job_origin option" where
  "job_origin_of s = find (\<lambda>r. job_origin_value r = s) [MANUAL, SCHEDULER, AUTOMATION, RETRY]"

datatype job_type =
    CANARY_SOURCE_GENERATION | INGEST_COLLECT | INGEST_COLLECTION_CONTINUOUS_CYCLE | MANUAL_INTAKE
  | STORY_GROUP_PENDING | SOURCE_ICON_DISCOVERY | TELEGRAM_ROUTE_BACKFILL | TELEGRAM_ROUTE_DRY_RUN
  | TELEGRAM_ROUTE_INITIALIZE | TELEGRAM_ROUTE_POLL | AUTOMATION_RUN_START | BUILD_EXPORT
  | CONTENT_PACK_GENERATE | CONTENT_PACK_GENERATE_TELEGRAM | CONTENT_PACK_REGENERATE
  | EXECUTE_RETENTION | TELEGRAM_ROUTE_PROCESS | RESEARCH_STORY | CANARY_PUBLISHING
  | TELEGRAM_DESTINATION_CHECK | TELEGRAM_PROXY_CHECK | TELEGRAM_PUBLISH

definition job_types_all :: "job_type list" where
  "job_types_all =
     [CANARY_SOURCE_GENERATION, INGEST_COLLECT, INGEST_COLLECTION_CONTINUOUS_CYCLE, MANUAL_INTAKE,
      STORY_GROUP_PENDING, SOURCE_ICON_DISCOVERY, TELEGRAM_ROUTE_BACKFILL, TELEGRAM_ROUTE_DRY_RUN,
      TELEGRAM_ROUTE_INITIALIZE, TELEGRAM_ROUTE_POLL, AUTOMATION_RUN_START, BUILD_EXPORT,
      CONTENT_PACK_GENERATE, CONTENT_PACK_GENERATE_TELEGRAM, CONTENT_PACK_REGENERATE,
      EXECUTE_RETENTION, TELEGRAM_ROUTE_PROCESS, RESEARCH_STORY, CANARY_PUBLISHING,
      TELEGRAM_DESTINATION_CHECK, TELEGRAM_PROXY_CHECK, TELEGRAM_PUBLISH]"

fun job_type_value :: "job_type \<Rightarrow> string" where
  "job_type_value CANARY_SOURCE_GENERATION = ''operations.canary.source_generation''"
| "job_type_value INGEST_COLLECT = ''ingest.collect''"
| "job_type_value INGEST_COLLECTION_CONTINUOUS_CYCLE = ''ingest.collection.continuous_cycle''"
| "job_type_value MANUAL_INTAKE = ''manual_intake''"
| "job_type_value STORY_GROUP_PENDING = ''story.group_pending''"
| "job_type_value SOURCE_ICON_DISCOVERY = ''source.icon.discover''"
| "job_type_value TELEGRAM_ROUTE_BACKFILL = ''telegram.route.backfill''"
| "job_type_value TELEGRAM_ROUTE_DRY_RUN = ''telegram.route.dry_run''"
| "job_type_value TELEGRAM_ROUTE_INITIALIZE = ''telegram.route.initialize''"
| "job_type_value TELEGRAM_ROUTE_POLL = ''telegram.route.poll''"
| "job_type_value AUTOMATION_RUN_START = ''automation.run.start''"
| "job_type_value BUILD_EXPORT = ''build_export''"
| "job_type_value CONTENT_PACK_GENERATE = ''content_pack.generate''"
| "job_type_value CONTENT_PACK_GENERATE_TELEGRAM = ''content_pack.generate_telegram''"
| "job_type_value CONTENT_PACK_REGENERATE = ''content_pack.regenerate''"
| "job_type_value EXECUTE_RETENTION = ''execute_retention''"
| "job_type_value TELEGRAM_ROUTE_PROCESS = ''telegram.route.process''"
| "job_type_value RESEARCH_STORY = ''research_story''"
| "job_type_value CANARY_PUBLISHING = ''operations.canary.publishing''"
| "job_type_value TELEGRAM_DESTINATION_CHECK = ''telegram.destination.check''"
| "job_type_value TELEGRAM_PROXY_CHECK = ''telegram.proxy.check''"
| "job_type_value TELEGRAM_PUBLISH = ''telegram.publish''"

section \<open>Errors\<close>

datatype job_error =
    InvalidJobTransition uuid string string \<comment> \<open>job, action, status\<close>
  | JobCapabilityUnavailable string string int \<comment> \<open>code, job type, retry-after seconds\<close>
  | UnknownJobTypeError string
  | DuplicateJobHandlerError string
  | ValueError string
  | TypeError string
  | IntegrityError string \<comment> \<open>a database constraint refused the write\<close>

text \<open>\<open>' '.join(str(message).split())\<close>, cut to 500 characters.\<close>

function words :: "string \<Rightarrow> string list" where
  "words s =
     (let t = dropWhile is_space s in
      if t = [] then [] else takeWhile (\<lambda>c. \<not> is_space c) t # words (dropWhile (\<lambda>c. \<not> is_space c) t))"
  by pat_completeness auto
termination
proof (relation "measure length", simp)
  fix s t :: string
  assume "t = dropWhile is_space s" "t \<noteq> []"
  then have "\<not> is_space (hd t)" by (metis hd_dropWhile)
  then have "length (dropWhile (\<lambda>c. \<not> is_space c) t) < length t"
    using \<open>t \<noteq> []\<close> by (cases t) (auto simp: le_imp_less_Suc length_dropWhile_le)
  also have "length t \<le> length s"
    using \<open>t = dropWhile is_space s\<close> by (simp add: length_dropWhile_le)
  finally show "(dropWhile (\<lambda>c. \<not> is_space c) t, s) \<in> measure length" by simp
qed

declare words.simps [simp del]

fun join_space :: "string list \<Rightarrow> string" where
  "join_space [] = []"
| "join_space [w] = w"
| "join_space (w # ws) = w @ '' '' @ join_space ws"

definition sanitize_handler_message :: "string \<Rightarrow> string" where
  "sanitize_handler_message m =
     (let s = join_space (words m) in take 500 (if s = [] then ''Job handler failed'' else s))"

lemma sanitize_handler_message_bound: "length (sanitize_handler_message m) \<le> 500"
  by (simp add: sanitize_handler_message_def Let_def)

text \<open>What a handler may raise; a retryable error carries an optional due time.\<close>

datatype handler_error =
    RetryableJobError string string "time option"
  | NeedsReviewJobError string string
  | PermanentJobError string string
  | OtherException

section \<open>Frozen payloads\<close>

fun freeze_json :: "pyval \<Rightarrow> job_error + pyval"
  and freeze_items :: "pydict \<Rightarrow> job_error + pydict"
  and freeze_list :: "pyval list \<Rightarrow> job_error + pyval list" where
  "freeze_json v =
     (case v of
        PNone \<Rightarrow> Inr v | PStr s \<Rightarrow> Inr v | PBool b \<Rightarrow> Inr v | PInt i \<Rightarrow> Inr v
      | PFloat f \<Rightarrow>
          (case f of Finite m e \<Rightarrow> Inr v
           | _ \<Rightarrow> Inl (ValueError ''job execution payload contains a non-finite number''))
      | PDict d \<Rightarrow> result_bind (freeze_items d) (\<lambda>r. Inr (PDict r))
      | PList xs \<Rightarrow> result_bind (freeze_list xs) (\<lambda>r. Inr (PTuple r))
      | PTuple xs \<Rightarrow> result_bind (freeze_list xs) (\<lambda>r. Inr (PTuple r))
      | PUuid u \<Rightarrow> Inl (TypeError ''job execution payload contains unsupported UUID'')
      | PTime t \<Rightarrow> Inl (TypeError ''job execution payload contains unsupported datetime'')
      | POther t \<Rightarrow> Inl (TypeError (''job execution payload contains unsupported '' @ t)))"
| "freeze_items [] = Inr []"
| "freeze_items ((k, v) # d) =
     (case k of
        KObj t \<Rightarrow> Inl (TypeError ''job execution payload keys must be strings'')
      | KStr s \<Rightarrow> result_bind (freeze_json v) (\<lambda>v'. result_bind (freeze_items d) (\<lambda>d'. Inr ((k, v') # d'))))"
| "freeze_list [] = Inr []"
| "freeze_list (x # xs) =
     result_bind (freeze_json x) (\<lambda>x'. result_bind (freeze_list xs) (\<lambda>xs'. Inr (x' # xs')))"

fun thaw_json :: "pyval \<Rightarrow> pyval"
  and thaw_items :: "pydict \<Rightarrow> pydict"
  and thaw_list :: "pyval list \<Rightarrow> pyval list" where
  "thaw_json (PDict d) = PDict (thaw_items d)"
| "thaw_json (PTuple xs) = PList (thaw_list xs)"
| "thaw_json v = v"
| "thaw_items [] = []"
| "thaw_items ((k, v) # d) = (k, thaw_json v) # thaw_items d"
| "thaw_list [] = []"
| "thaw_list (x # xs) = thaw_json x # thaw_list xs"

declare freeze_json.simps [simp del]

text \<open>The JSON values: what a JSONB column holds.\<close>

fun is_json :: "pyval \<Rightarrow> bool"
  and json_items :: "pydict \<Rightarrow> bool"
  and json_list :: "pyval list \<Rightarrow> bool" where
  "is_json (PFloat f) = (\<exists>m e. f = Finite m e)"
| "is_json (PDict d) = json_items d"
| "is_json (PList xs) = json_list xs"
| "is_json (PTuple xs) = False"
| "is_json (PUuid u) = False"
| "is_json (PTime t) = False"
| "is_json (POther t) = False"
| "is_json v = True"
| "json_items [] = True"
| "json_items ((k, v) # d) = ((\<exists>s. k = KStr s) \<and> is_json v \<and> json_items d)"
| "json_list [] = True"
| "json_list (x # xs) = (is_json x \<and> json_list xs)"

text \<open>Freezing a JSON value succeeds, and thawing it gives the value back.\<close>

lemma freeze_thaw:
  "is_json v \<Longrightarrow> \<exists>f. freeze_json v = Inr f \<and> thaw_json f = v"
  "json_items d \<Longrightarrow> \<exists>f. freeze_items d = Inr f \<and> thaw_items f = d"
  "json_list xs \<Longrightarrow> \<exists>f. freeze_list xs = Inr f \<and> thaw_list f = xs"
  by (induction v and d and xs rule: is_json_json_items_json_list.induct)
    (auto simp: freeze_json.simps split: pyfloat.splits)

section \<open>The snapshot a handler receives\<close>

record job_execution =
  je_id :: uuid
  je_job_type :: string
  je_payload :: pydict
  je_attempt_count :: int
  je_max_attempts :: int
  je_origin :: job_origin
  je_lease_owner :: string
  je_created_at :: time
  je_scheduled_for :: "time option"
  je_priority :: int
  je_pause_sensitive :: bool
  je_automation_run_id :: "uuid option"
  je_automation_node_run_id :: "uuid option"

definition reject_secret_payload :: "(string \<Rightarrow> string) \<Rightarrow> string \<Rightarrow> pydict \<Rightarrow> job_error + unit" where
  "reject_secret_payload rs job_type payload =
     (let sanitized = (case redact_secrets rs 0 (PDict payload) of
            PDict d \<Rightarrow> PDict (restore_exempt_secrets job_type payload d)
          | v \<Rightarrow> v)
      in if sanitized \<noteq> PDict payload
         then Inl (ValueError ''job execution payload contains a secret value'') else Inr ())"

text \<open>
  The constructor: the fields' Python types and the awareness of the two times hold by
  the model's types; every other check of \<open>__post_init__\<close> follows in its order.
\<close>

definition job_execution ::
  "(string \<Rightarrow> string) \<Rightarrow> uuid \<Rightarrow> string \<Rightarrow> pydict \<Rightarrow> int \<Rightarrow> int \<Rightarrow> string \<Rightarrow> string \<Rightarrow> time \<Rightarrow>
   time option \<Rightarrow> int \<Rightarrow> bool \<Rightarrow> uuid option \<Rightarrow> uuid option \<Rightarrow> job_error + job_execution" where
  "job_execution rs i ty payload attempts max_attempts origin owner created sched prio sensitive run node =
     (if strip ty = [] then Inl (ValueError ''job execution type must be non-empty'')
      else if attempts \<le> 0 then Inl (ValueError ''job execution attempt count must be positive'')
      else if max_attempts \<le> 0 then Inl (ValueError ''job execution max attempts must be positive'')
      else if attempts > max_attempts then Inl (ValueError ''job execution attempt count exceeds max attempts'')
      else if strip owner = [] then Inl (ValueError ''job execution lease owner must be non-empty'')
      else case job_origin_of origin of
        None \<Rightarrow> Inl (ValueError ''job execution origin is invalid'')
      | Some org \<Rightarrow>
          result_bind (freeze_items payload) (\<lambda>frozen.
          result_bind (reject_secret_payload rs ty (thaw_items frozen)) (\<lambda>_.
            Inr \<lparr>je_id = i, je_job_type = ty, je_payload = frozen, je_attempt_count = attempts,
                 je_max_attempts = max_attempts, je_origin = org, je_lease_owner = owner,
                 je_created_at = created, je_scheduled_for = sched, je_priority = prio,
                 je_pause_sensitive = sensitive, je_automation_run_id = run,
                 je_automation_node_run_id = node\<rparr>)))"

definition payload_copy :: "job_execution \<Rightarrow> pydict" where
  "payload_copy e = thaw_items (je_payload e)"

definition with_payload :: "(string \<Rightarrow> string) \<Rightarrow> job_execution \<Rightarrow> pydict \<Rightarrow> job_error + job_execution" where
  "with_payload rs e payload =
     job_execution rs (je_id e) (je_job_type e) payload (je_attempt_count e) (je_max_attempts e)
       (job_origin_value (je_origin e)) (je_lease_owner e) (je_created_at e) (je_scheduled_for e)
       (je_priority e) (je_pause_sensitive e) (je_automation_run_id e) (je_automation_node_run_id e)"

lemma job_execution_attempts:
  "job_execution rs i ty p a m org own cr sch pr sen run node = Inr e \<Longrightarrow>
     0 < a \<and> a \<le> m \<and> je_attempt_count e = a \<and> je_max_attempts e = m \<and> je_id e = i \<and>
     je_job_type e = ty \<and> je_lease_owner e = own"
  by (auto simp: job_execution_def result_bind_eq_Inr split: if_splits option.splits)

lemma job_execution_exhausted:
  "a > m \<Longrightarrow> \<exists>err. job_execution rs i ty p a m org own cr sch pr sen run node = Inl err"
  by (auto simp: job_execution_def)

section \<open>The handler table\<close>

type_synonym 'h handler_registry = "(string \<times> 'h) list"

definition register :: "'h handler_registry \<Rightarrow> string \<Rightarrow> 'h \<Rightarrow> job_error + 'h handler_registry" where
  "register reg key h =
     (if key \<in> set (map fst reg) then Inl (DuplicateJobHandlerError key) else Inr (reg @ [(key, h)]))"

definition get_handler :: "'h handler_registry \<Rightarrow> string \<Rightarrow> job_error + 'h" where
  "get_handler reg key = (case map_of reg key of None \<Rightarrow> Inl (UnknownJobTypeError key) | Some h \<Rightarrow> Inr h)"

definition registry_job_types :: "'h handler_registry \<Rightarrow> string list" where
  "registry_job_types reg = sort (map fst reg)"

fun register_all :: "'h handler_registry \<Rightarrow> (string \<times> 'h) list \<Rightarrow> job_error + 'h handler_registry" where
  "register_all reg [] = Inr reg"
| "register_all reg ((k, h) # xs) = result_bind (register reg k h) (\<lambda>reg'. register_all reg' xs)"

text \<open>
  The optional dependencies of \<open>build_default_registry\<close>: present or absent.  The
  handler registered for a job type is named by the type itself.
\<close>

record registry_config =
  rc_capabilities :: "string list option"
  rc_source_registry :: bool
  rc_media_stager :: bool
  rc_profile_resolver :: bool
  rc_telegram_client :: bool
  rc_secret_resolver :: bool
  rc_research_resolver :: bool
  rc_icon_service :: bool

definition selected_capabilities :: "registry_config \<Rightarrow> string list" where
  "selected_capabilities c =
     (case rc_capabilities c of
        Some caps \<Rightarrow> caps
      | None \<Rightarrow> [''ingestion''] @
          (if rc_source_registry c \<or> rc_media_stager c then [''source''] else []) @
          (if rc_profile_resolver c then [''generation''] else []) @
          (if rc_telegram_client c \<or> rc_secret_resolver c then [''publishing''] else []))"

fun join_comma :: "string list \<Rightarrow> string" where
  "join_comma [] = []"
| "join_comma [x] = x"
| "join_comma (x # y # zs) = x @ '', '' @ join_comma (y # zs)"

definition check_registry_config :: "registry_config \<Rightarrow> job_error + unit" where
  "check_registry_config c =
     (let sel = selected_capabilities c;
          unknown = filter (\<lambda>x. x \<notin> set [''ingestion'', ''source'', ''generation'', ''publishing'']) sel
      in if unknown \<noteq> []
         then Inl (ValueError (''unsupported worker capabilities: '' @ join_comma (sort (remdups unknown))))
         else if rc_source_registry c \<noteq> rc_media_stager c then
           Inl (ValueError ''source_registry and media_stager must be supplied together'')
         else if rc_telegram_client c \<noteq> rc_secret_resolver c then
           Inl (ValueError ''telegram_client and destination_secret_resolver must be supplied together'')
         else if ''source'' \<in> set sel \<and> \<not> rc_source_registry c then
           Inl (ValueError ''source capability requires source_registry and media_stager'')
         else if ''generation'' \<in> set sel \<and> \<not> rc_profile_resolver c then
           Inl (ValueError ''generation capability requires profile_resolver'')
         else if ''publishing'' \<in> set sel \<and> \<not> rc_telegram_client c then
           Inl (ValueError ''publishing capability requires telegram_client and destination_secret_resolver'')
         else Inr ())"

definition registry_plan :: "registry_config \<Rightarrow> job_type list" where
  "registry_plan c =
     (let sel = selected_capabilities c in
      (if ''ingestion'' \<in> set sel then
         [CANARY_SOURCE_GENERATION, INGEST_COLLECT, INGEST_COLLECTION_CONTINUOUS_CYCLE, MANUAL_INTAKE,
          STORY_GROUP_PENDING] else []) @
      (if ''source'' \<in> set sel then
         [TELEGRAM_ROUTE_BACKFILL, TELEGRAM_ROUTE_DRY_RUN, TELEGRAM_ROUTE_INITIALIZE, TELEGRAM_ROUTE_POLL] @
         (if rc_icon_service c then [SOURCE_ICON_DISCOVERY] else []) else []) @
      (if ''generation'' \<in> set sel then
         [TELEGRAM_ROUTE_PROCESS, CONTENT_PACK_GENERATE, CONTENT_PACK_GENERATE_TELEGRAM,
          CONTENT_PACK_REGENERATE, AUTOMATION_RUN_START, BUILD_EXPORT, EXECUTE_RETENTION] else []) @
      (if rc_research_resolver c then [RESEARCH_STORY] else []) @
      (if ''publishing'' \<in> set sel then
         [CANARY_PUBLISHING, TELEGRAM_DESTINATION_CHECK, TELEGRAM_PROXY_CHECK, TELEGRAM_PUBLISH] else []))"

definition build_default_registry :: "registry_config \<Rightarrow> job_error + job_type handler_registry" where
  "build_default_registry c =
     result_bind (check_registry_config c)
       (\<lambda>_. register_all [] (map (\<lambda>t. (job_type_value t, t)) (registry_plan c)))"

lemma register_all_distinct:
  "distinct (map fst (reg @ xs)) \<Longrightarrow> register_all reg xs = Inr (reg @ xs)"
  by (induction reg xs rule: register_all.induct) (auto simp: register_def)

lemma job_type_value_inj: "job_type_value a = job_type_value b \<Longrightarrow> a = b"
  by (cases a; cases b; simp)

lemma registry_plan_distinct: "distinct (registry_plan c)"
  unfolding registry_plan_def Let_def
  by (cases "''ingestion'' \<in> set (selected_capabilities c)"; cases "''source'' \<in> set (selected_capabilities c)";
      cases "''generation'' \<in> set (selected_capabilities c)"; cases "''publishing'' \<in> set (selected_capabilities c)";
      cases "rc_icon_service c"; cases "rc_research_resolver c"; simp)

lemma build_default_registry_ok:
  "check_registry_config c = Inr () \<Longrightarrow>
     build_default_registry c = Inr (map (\<lambda>t. (job_type_value t, t)) (registry_plan c))"
proof -
  assume ok: "check_registry_config c = Inr ()"
  have "distinct (map (\<lambda>t. job_type_value t) (registry_plan c))"
    using registry_plan_distinct by (simp add: distinct_map inj_on_def job_type_value_inj)
  with ok show ?thesis
    by (simp add: build_default_registry_def register_all_distinct comp_def)
qed

end
