(* ===== verification/Job_Store.thy ===== *)
theory Job_Store
  imports Job_Types
begin

text \<open>
  The rows the job queue reads and writes: \<open>app/jobs/models.py\<close>, the publishing rows of
  \<open>app/publishing/models.py\<close>, and the retention, research, generation and dispatch rows the queue
  touches when it recovers an expired lease.  A row record has every column of its class, except that
  \<open>updated_at\<close>, which the database stamps, is kept only for the rows whose order or answers depend
  on it, and that \<open>attempt_row\<close> has the columns its two classes share.  A database is a record of
  tables; a transaction reads its clock, its fresh identifiers and the locks of other
  transactions from an environment.
\<close>

section \<open>Rows\<close>

record workflow_job =
  wj_id :: uuid
  wj_job_type :: string
  wj_status :: job_status
  wj_payload :: pydict
  wj_result :: pydict
  wj_priority :: int
  wj_idempotency_key :: string
  wj_origin :: string
  wj_automation_run_id :: "uuid option"
  wj_automation_node_run_id :: "uuid option"
  wj_pause_sensitive :: bool
  wj_scheduled_for :: "time option"
  wj_attempt_count :: int
  wj_max_attempts :: int
  wj_lease_owner :: "string option"
  wj_lease_expires_at :: "time option"
  wj_heartbeat_at :: "time option"
  wj_progress :: int
  wj_progress_message :: "string option"
  wj_error_class :: "string option"
  wj_error_code :: "string option"
  wj_error_message :: "string option"
  wj_started_at :: "time option"
  wj_finished_at :: "time option"
  wj_created_at :: time
  wj_updated_at :: time

record workflow_event =
  we_id :: uuid
  we_workflow_job_id :: "uuid option"
  we_event_type :: string
  we_actor :: string
  we_event_data :: pydict
  we_created_at :: time

record automation_control =
  ac_global_pause :: bool
  ac_dry_run :: bool
  ac_pause_reason :: "string option"
  ac_paused_at :: "time option"
  ac_updated_at :: time

record retention_run =
  rr_id :: uuid
  rr_workflow_job_id :: "uuid option"
  rr_status :: string
  rr_preview_token :: string
  rr_schema_revision :: string
  rr_policy_snapshot :: pydict
  rr_candidate_snapshot :: "pyval list"
  rr_cleanup_intent_snapshot :: "pyval list"
  rr_count_snapshot :: pydict
  rr_error_snapshot :: "pydict list"
  rr_previewed_at :: time
  rr_preview_expires_at :: time
  rr_queued_at :: "time option"
  rr_started_at :: "time option"
  rr_finished_at :: "time option"
  rr_created_at :: time

record research_run =
  sr_id :: uuid
  sr_story_id :: uuid
  sr_requested_mode :: string
  sr_provider_profile_id :: "uuid option"
  sr_status :: string
  sr_query_budget :: int
  sr_page_budget :: int
  sr_time_budget_seconds :: int
  sr_result_story_revision_id :: "uuid option"
  sr_created_at :: time
  sr_started_at :: "time option"
  sr_finished_at :: "time option"

text \<open>The columns \<open>ResearchAttempt\<close> and \<open>GenerationAttempt\<close> share; \<open>at_run_id\<close> is the foreign key.\<close>

record attempt_row =
  at_run_id :: uuid
  at_attempt_number :: int
  at_status :: string
  at_error_class :: "string option"
  at_error_code :: "string option"
  at_error_message :: "string option"
  at_finished_at :: "time option"

record automation_dispatch =
  ad_id :: uuid
  ad_creation_sequence :: int
  ad_route_id :: uuid
  ad_source_item_id :: uuid
  ad_story_revision_id :: uuid
  ad_source_key :: string
  ad_source_fingerprint :: string
  ad_source_message_ids :: "int list"
  ad_dispatch_kind :: string
  ad_status :: string
  ad_generation_run_id :: "uuid option"
  ad_variant_revision_id :: "uuid option"
  ad_publish_job_id :: "uuid option"
  ad_automation_run_id :: "uuid option"
  ad_automation_node_run_id :: "uuid option"
  ad_error_code :: "string option"
  ad_error_message :: "string option"
  ad_created_at :: time

record generation_run =
  gr_id :: uuid
  gr_story_revision_id :: "uuid option"
  gr_provider_profile_id :: "uuid option"
  gr_prompt_template_version_id :: uuid
  gr_requested_model :: "string option"
  gr_status :: string
  gr_input_hash :: string
  gr_request_payload :: pydict
  gr_output_payload :: pydict
  gr_error_class :: "string option"
  gr_error_code :: "string option"
  gr_error_message :: "string option"
  gr_started_at :: "time option"
  gr_finished_at :: "time option"
  gr_created_at :: time

record publish_job =
  pj_id :: uuid
  pj_workflow_job_id :: "uuid option"
  pj_destination_id :: uuid
  pj_platform_variant_revision_id :: uuid
  pj_status :: string
  pj_idempotency_key :: string
  pj_payload_hash :: string
  pj_scheduled_for :: "time option"
  pj_created_at :: time
  pj_updated_at :: time

record publish_receipt =
  po_id :: uuid
  po_publish_job_id :: uuid
  po_operation_index :: int
  po_operation_key :: string
  po_method :: string
  po_request_hash :: string
  po_status :: string
  po_attempt_count :: int
  po_remote_message_ids :: "int list"
  po_response_metadata :: pydict
  po_next_attempt_at :: "time option"
  po_ambiguous_at :: "time option"
  po_completed_at :: "time option"
  po_created_at :: time
  po_updated_at :: time

record publish_attempt =
  pa_id :: uuid
  pa_publish_job_id :: uuid
  pa_attempt_number :: int
  pa_sanitized_payload :: pydict
  pa_payload_hash :: string
  pa_status :: string
  pa_http_status :: "int option"
  pa_remote_response :: pydict
  pa_error_class :: "string option"
  pa_error_code :: "string option"
  pa_error_message :: "string option"
  pa_started_at :: time
  pa_finished_at :: "time option"

section \<open>The database and the environment of a transaction\<close>

record db =
  db_jobs :: "workflow_job list"
  db_events :: "workflow_event list"
  db_control :: "automation_control option" \<comment> \<open>the row with id \<open>global\<close>\<close>
  db_retention_runs :: "retention_run list"
  db_research_runs :: "research_run list"
  db_research_attempts :: "attempt_row list"
  db_dispatches :: "automation_dispatch list"
  db_generation_runs :: "generation_run list"
  db_generation_attempts :: "attempt_row list"
  db_publish_jobs :: "publish_job list"
  db_publish_receipts :: "publish_receipt list"
  db_publish_attempts :: "publish_attempt list"
  db_seq :: nat \<comment> \<open>how many identifiers \<open>uuid4\<close> has given\<close>

text \<open>
  The API's capability gate: job types with their number of fresh workers (absent when
  the worker snapshot cannot be taken), the queue ceiling and the retry delay of the settings.
\<close>

record capability_gate =
  cg_coverage :: "(string \<times> int) list option"
  cg_queue_ceiling :: int
  cg_retry_after :: int

record env =
  env_redact :: "string \<Rightarrow> string" \<comment> \<open>the text redactor\<close>
  env_uuid :: "nat \<Rightarrow> uuid"
  env_now :: time \<comment> \<open>\<open>datetime.now(UTC)\<close>\<close>
  env_db_now :: time \<comment> \<open>\<open>now()\<close> of the transaction\<close>
  env_locked :: "uuid \<Rightarrow> bool" \<comment> \<open>job rows another transaction holds, which \<open>SKIP LOCKED\<close> passes over\<close>
  env_gate :: "capability_gate option" \<comment> \<open>present in an API session that enforces the gate\<close>
  env_continuation :: "pyval \<Rightarrow> uuid option"
    \<comment> \<open>the dispatch of a continuation descriptor the schema library accepts\<close>

definition empty_db :: db where
  "empty_db = \<lparr>db_jobs = [], db_events = [], db_control = None, db_retention_runs = [],
     db_research_runs = [], db_research_attempts = [], db_dispatches = [], db_generation_runs = [],
     db_generation_attempts = [], db_publish_jobs = [], db_publish_receipts = [],
     db_publish_attempts = [], db_seq = 0\<rparr>"

section \<open>Reading and writing jobs\<close>

definition find_job :: "uuid \<Rightarrow> db \<Rightarrow> workflow_job option" where
  "find_job i db = find (\<lambda>j. wj_id j = i) (db_jobs db)"

definition find_key :: "string \<Rightarrow> db \<Rightarrow> workflow_job option" where
  "find_key k db = find (\<lambda>j. wj_idempotency_key j = k) (db_jobs db)"

text \<open>
  A flush emits an \<open>UPDATE\<close> only for a row with a net change, and \<open>onupdate\<close> then
  stamps \<open>updated_at\<close> with the transaction's time.
\<close>

definition flush_job :: "env \<Rightarrow> workflow_job \<Rightarrow> workflow_job \<Rightarrow> workflow_job" where
  "flush_job env old new = (if new = old then old else new\<lparr>wj_updated_at := env_db_now env\<rparr>)"

definition put_job :: "env \<Rightarrow> workflow_job \<Rightarrow> db \<Rightarrow> db" where
  "put_job env j db =
     db\<lparr>db_jobs := set_rows (\<lambda>r. wj_id r = wj_id j) (\<lambda>r. flush_job env r j) (db_jobs db)\<rparr>"

lemma flush_job_simps [simp]:
  "wj_id (flush_job env old new) = wj_id new"
  "wj_job_type (flush_job env old new) = wj_job_type new"
  "wj_status (flush_job env old new) = wj_status new"
  "wj_payload (flush_job env old new) = wj_payload new"
  "wj_result (flush_job env old new) = wj_result new"
  "wj_priority (flush_job env old new) = wj_priority new"
  "wj_idempotency_key (flush_job env old new) = wj_idempotency_key new"
  "wj_origin (flush_job env old new) = wj_origin new"
  "wj_automation_run_id (flush_job env old new) = wj_automation_run_id new"
  "wj_automation_node_run_id (flush_job env old new) = wj_automation_node_run_id new"
  "wj_pause_sensitive (flush_job env old new) = wj_pause_sensitive new"
  "wj_scheduled_for (flush_job env old new) = wj_scheduled_for new"
  "wj_attempt_count (flush_job env old new) = wj_attempt_count new"
  "wj_max_attempts (flush_job env old new) = wj_max_attempts new"
  "wj_lease_owner (flush_job env old new) = wj_lease_owner new"
  "wj_lease_expires_at (flush_job env old new) = wj_lease_expires_at new"
  "wj_heartbeat_at (flush_job env old new) = wj_heartbeat_at new"
  "wj_progress (flush_job env old new) = wj_progress new"
  "wj_progress_message (flush_job env old new) = wj_progress_message new"
  "wj_error_class (flush_job env old new) = wj_error_class new"
  "wj_error_code (flush_job env old new) = wj_error_code new"
  "wj_error_message (flush_job env old new) = wj_error_message new"
  "wj_started_at (flush_job env old new) = wj_started_at new"
  "wj_finished_at (flush_job env old new) = wj_finished_at new"
  "wj_created_at (flush_job env old new) = wj_created_at new"
  by (simp_all add: flush_job_def)

lemma find_job_id: "find_job i db = Some j \<Longrightarrow> wj_id j = i \<and> j \<in> set (db_jobs db)"
  by (auto simp: find_job_def dest: find_Some_in)

lemma put_job_frame [frame_simps]:
  "db_events (put_job env j db) = db_events db"
  "db_control (put_job env j db) = db_control db"
  "db_retention_runs (put_job env j db) = db_retention_runs db"
  "db_research_runs (put_job env j db) = db_research_runs db"
  "db_research_attempts (put_job env j db) = db_research_attempts db"
  "db_dispatches (put_job env j db) = db_dispatches db"
  "db_generation_runs (put_job env j db) = db_generation_runs db"
  "db_generation_attempts (put_job env j db) = db_generation_attempts db"
  "db_publish_jobs (put_job env j db) = db_publish_jobs db"
  "db_publish_receipts (put_job env j db) = db_publish_receipts db"
  "db_publish_attempts (put_job env j db) = db_publish_attempts db"
  "db_seq (put_job env j db) = db_seq db"
  by (simp_all add: put_job_def)

lemma find_job_put_other [row_simps]: "i \<noteq> wj_id j \<Longrightarrow> find_job i (put_job env j db) = find_job i db"
  by (simp add: find_job_def put_job_def find_set_rows_other)

lemma find_job_put [row_simps]:
  "find_job (wj_id j) db = Some r \<Longrightarrow> find_job (wj_id j) (put_job env j db) = Some (flush_job env r j)"
  by (simp add: find_job_def put_job_def find_set_rows_same)

section \<open>A concrete environment\<close>

text \<open>A session without gate and without concurrent locks, for evaluating the model on examples.\<close>

definition plain_env :: env where
  "plain_env = \<lparr>env_redact = (\<lambda>s. s), env_uuid = (\<lambda>n. ''id-'' @ nat_str n), env_now = 1000, env_db_now = 1000,
     env_locked = (\<lambda>i. False), env_gate = None, env_continuation = (\<lambda>v. None)\<rparr>"

end
