(* ===== verification/Job_Repository.thy ===== *)
theory Job_Repository
  imports Job_Store
begin

text \<open>
  The job queue, \<open>app/jobs/repository.py\<close>: one definition per method of \<open>JobRepository\<close>,
  the capability gate of \<open>app/jobs/capability_gate.py\<close> it calls, and the control row of
  \<open>app/jobs/control.py\<close>.  Every method runs in one transaction: it returns an error, and
  then nothing is written, or its result with the new database.  Where the code takes an
  optional \<open>now\<close>, \<open>None\<close> stands for the wall clock.  Payloads and results are JSON values.
\<close>

section \<open>Helpers\<close>

definition observed :: "env \<Rightarrow> time option \<Rightarrow> time" where
  "observed env now = (case now of None \<Rightarrow> env_now env | Some t \<Rightarrow> t)"

definition redact_dict :: "env \<Rightarrow> pydict \<Rightarrow> pydict option" where
  "redact_dict env d = (case redact_secrets (env_redact env) 0 (PDict d) of PDict r \<Rightarrow> Some r | _ \<Rightarrow> None)"

definition redact_job_payload :: "env \<Rightarrow> string \<Rightarrow> pydict \<Rightarrow> pydict" where
  "redact_job_payload env job_type payload =
     (case redact_dict env payload of
        None \<Rightarrow> []
      | Some sanitized \<Rightarrow> restore_exempt_secrets job_type payload sanitized)"

definition redact_text :: "env \<Rightarrow> string \<Rightarrow> string" where
  "redact_text env s = (case redact_secrets (env_redact env) 0 (PStr s) of PStr r \<Rightarrow> r | _ \<Rightarrow> s)"

definition append_event :: "env \<Rightarrow> uuid option \<Rightarrow> string \<Rightarrow> string \<Rightarrow> pydict \<Rightarrow> db \<Rightarrow> db" where
  "append_event env i event_type actor data db =
     db\<lparr>db_events := db_events db @
           [\<lparr>we_id = env_uuid env (db_seq db), we_workflow_job_id = i, we_event_type = event_type,
             we_actor = actor, we_event_data = redact_event_data (env_redact env) data,
             we_created_at = env_db_now env\<rparr>],
         db_seq := Suc (db_seq db)\<rparr>"

definition locked_expired_job :: "env \<Rightarrow> uuid \<Rightarrow> db \<Rightarrow> workflow_job option" where
  "locked_expired_job env i db = (if env_locked env i then None else find_job i db)"

definition locked_retention_run :: "uuid \<Rightarrow> db \<Rightarrow> retention_run option" where
  "locked_retention_run i db = find (\<lambda>r. rr_workflow_job_id r = Some i) (db_retention_runs db)"

definition put_retention_run :: "retention_run option \<Rightarrow> (retention_run \<Rightarrow> retention_run) \<Rightarrow> db \<Rightarrow> db" where
  "put_retention_run run f db =
     (case run of None \<Rightarrow> db
      | Some r \<Rightarrow> db\<lparr>db_retention_runs :=
          set_rows (\<lambda>q. rr_id q = rr_id r) (\<lambda>q. f r) (db_retention_runs db)\<rparr>)"

definition clear_lease :: "workflow_job \<Rightarrow> workflow_job" where
  "clear_lease j = j\<lparr>wj_lease_owner := None, wj_lease_expires_at := None, wj_heartbeat_at := None\<rparr>"

definition has_active_lease :: "workflow_job \<Rightarrow> string \<Rightarrow> time \<Rightarrow> bool" where
  "has_active_lease j worker now =
     (wj_status j = RUNNING \<and> wj_lease_owner j = Some worker \<and>
      (case wj_lease_expires_at j of None \<Rightarrow> False | Some e \<Rightarrow> e > now))"

definition invalid :: "uuid \<Rightarrow> string \<Rightarrow> workflow_job option \<Rightarrow> job_error" where
  "invalid i action j =
     InvalidJobTransition i action (case j of None \<Rightarrow> ''missing'' | Some r \<Rightarrow> job_status_value (wj_status r))"

text \<open>The job a lease holder may change, or the refusal of the named action.\<close>

definition leased_job :: "db \<Rightarrow> uuid \<Rightarrow> string \<Rightarrow> time \<Rightarrow> string \<Rightarrow> job_error + workflow_job" where
  "leased_job db i worker now action =
     (case find_job i db of
        None \<Rightarrow> Inl (invalid i action None)
      | Some j \<Rightarrow> if has_active_lease j worker now then Inr j else Inl (invalid i action (Some j)))"

section \<open>The capability gate\<close>

definition active_count :: "string \<Rightarrow> db \<Rightarrow> int" where
  "active_count ty db =
     int (length (filter (\<lambda>j. wj_job_type j = ty \<and> (wj_status j = QUEUED \<or> wj_status j = RUNNING)) (db_jobs db)))"

definition require_available_job_type :: "env \<Rightarrow> string \<Rightarrow> db \<Rightarrow> job_error + unit" where
  "require_available_job_type env ty db =
     (case env_gate env of
        None \<Rightarrow> Inr ()
      | Some g \<Rightarrow>
          (case cg_coverage g of
             None \<Rightarrow> Inl (JobCapabilityUnavailable ''job_capability_unknown'' ty (cg_retry_after g))
           | Some coverage \<Rightarrow>
               if (case map_of coverage ty of None \<Rightarrow> 0 | Some n \<Rightarrow> n) < 1
               then Inl (JobCapabilityUnavailable ''job_capability_unavailable'' ty (cg_retry_after g))
               else if active_count ty db \<ge> cg_queue_ceiling g
               then Inl (JobCapabilityUnavailable ''job_queue_capacity_exceeded'' ty (cg_retry_after g))
               else Inr ()))"

fun gate_char :: "char \<Rightarrow> bool" where
  "gate_char c = (let n = (of_char c :: nat) in
     (97 \<le> n \<and> n \<le> 122) \<or> (48 \<le> n \<and> n \<le> 57) \<or> c = CHR ''_'' \<or> c = CHR ''.'')"

fun lower_letter :: "char \<Rightarrow> bool" where
  "lower_letter c = (let n = (of_char c :: nat) in 97 \<le> n \<and> n \<le> 122)"

definition safe_gate_job_type :: "string \<Rightarrow> string" where
  "safe_gate_job_type s =
     (case s of [] \<Rightarrow> ''unknown''
      | c # cs \<Rightarrow> if lower_letter c \<and> list_all gate_char cs \<and> length cs \<le> 127 then s else ''unknown'')"

definition safe_gate_code :: "string \<Rightarrow> string" where
  "safe_gate_code code =
     (if code \<in> set [''job_capability_unavailable'', ''job_capability_unknown'', ''job_queue_capacity_exceeded'']
      then code else ''job_capability_unknown'')"

section \<open>Enqueueing\<close>

record enqueue_request =
  eq_job_type :: string
  eq_payload :: pydict
  eq_idempotency_key :: string
  eq_origin :: job_origin
  eq_priority :: int
  eq_scheduled_for :: "time option"
  eq_max_attempts :: int
  eq_pause_sensitive :: bool
  eq_automation_run_id :: "uuid option"
  eq_automation_node_run_id :: "uuid option"

definition existing_job_result ::
  "env \<Rightarrow> string \<Rightarrow> time \<Rightarrow> db \<Rightarrow> ((workflow_job \<times> bool) \<times> db) option" where
  "existing_job_result env key effective db =
     (case find_key key db of
        None \<Rightarrow> None
      | Some j \<Rightarrow>
          if wj_scheduled_for j = None
          then let j' = flush_job env j (j\<lparr>wj_scheduled_for := Some effective\<rparr>)
               in Some ((j', False), put_job env (j\<lparr>wj_scheduled_for := Some effective\<rparr>) db)
          else Some ((j, False), db))"

definition new_job :: "env \<Rightarrow> uuid \<Rightarrow> enqueue_request \<Rightarrow> time \<Rightarrow> workflow_job" where
  "new_job env i r effective =
     \<lparr>wj_id = i, wj_job_type = eq_job_type r, wj_status = QUEUED,
      wj_payload = redact_job_payload env (eq_job_type r) (eq_payload r), wj_result = [],
      wj_priority = eq_priority r, wj_idempotency_key = eq_idempotency_key r,
      wj_origin = job_origin_value (eq_origin r), wj_automation_run_id = eq_automation_run_id r,
      wj_automation_node_run_id = eq_automation_node_run_id r,
      wj_pause_sensitive = eq_pause_sensitive r, wj_scheduled_for = Some effective,
      wj_attempt_count = 0, wj_max_attempts = eq_max_attempts r, wj_lease_owner = None,
      wj_lease_expires_at = None, wj_heartbeat_at = None, wj_progress = 0,
      wj_progress_message = None, wj_error_class = None, wj_error_code = None,
      wj_error_message = None, wj_started_at = None, wj_finished_at = None,
      wj_created_at = env_db_now env, wj_updated_at = env_db_now env\<rparr>"

text \<open>
  The insert: the conflict clause covers the idempotency key only, a taken primary key is
  an integrity error.
\<close>

definition insert_job :: "env \<Rightarrow> enqueue_request \<Rightarrow> time \<Rightarrow> db \<Rightarrow> job_error + (workflow_job \<times> bool) \<times> db" where
  "insert_job env r effective db =
     (let i = env_uuid env (db_seq db) in
      case existing_job_result env (eq_idempotency_key r) effective (db\<lparr>db_seq := Suc (db_seq db)\<rparr>) of
        Some res \<Rightarrow> Inr res
      | None \<Rightarrow>
          if find_job i db \<noteq> None then Inl (IntegrityError ''workflow_jobs_pkey'')
          else let j = new_job env i r effective;
                   db1 = db\<lparr>db_jobs := db_jobs db @ [j], db_seq := Suc (db_seq db)\<rparr>
               in Inr ((j, True),
                    append_event env (Some i) ''job.enqueued'' (job_origin_value (eq_origin r))
                      [(KStr ''job_type'', PStr (eq_job_type r)),
                       (KStr ''origin'', PStr (job_origin_value (eq_origin r)))] db1))"

definition enqueue_job :: "env \<Rightarrow> enqueue_request \<Rightarrow> db \<Rightarrow> job_error + (workflow_job \<times> bool) \<times> db" where
  "enqueue_job env r db =
     (let effective = observed env (eq_scheduled_for r) in
      case env_gate env of
        None \<Rightarrow> insert_job env r effective db
      | Some g \<Rightarrow>
          (case existing_job_result env (eq_idempotency_key r) effective db of
             Some res \<Rightarrow> Inr res
           | None \<Rightarrow> result_bind (require_available_job_type env (eq_job_type r) db)
                       (\<lambda>_. insert_job env r effective db)))"

section \<open>Claiming\<close>

definition claimable :: "string list option \<Rightarrow> bool \<Rightarrow> time \<Rightarrow> workflow_job \<Rightarrow> bool" where
  "claimable allowed pause now j =
     (wj_status j = QUEUED \<and>
      (case wj_scheduled_for j of None \<Rightarrow> True | Some t \<Rightarrow> t \<le> now) \<and>
      (case allowed of None \<Rightarrow> True | Some ts \<Rightarrow> wj_job_type j \<in> set ts) \<and>
      (pause \<longrightarrow> wj_origin j = ''manual'' \<and> \<not> wj_pause_sensitive j))"

definition claim_order :: "workflow_job \<Rightarrow> int \<times> time option \<times> time" where
  "claim_order j = (- wj_priority j, wj_scheduled_for j, wj_created_at j)"

text \<open>\<open>None\<close> is the least due time, as in \<open>nulls_first\<close>; equal keys keep storage order.\<close>

definition claim_candidates :: "env \<Rightarrow> string list option \<Rightarrow> bool \<Rightarrow> time \<Rightarrow> db \<Rightarrow> workflow_job list" where
  "claim_candidates env allowed pause now db =
     sort_key claim_order
       (filter (\<lambda>j. claimable allowed pause now j \<and> \<not> env_locked env (wj_id j)) (db_jobs db))"

definition global_pause :: "db \<Rightarrow> bool" where
  "global_pause db = (case db_control db of None \<Rightarrow> False | Some c \<Rightarrow> ac_global_pause c)"

definition claimed :: "string \<Rightarrow> int \<Rightarrow> time \<Rightarrow> workflow_job \<Rightarrow> workflow_job" where
  "claimed worker lease_seconds now j =
     j\<lparr>wj_status := RUNNING, wj_attempt_count := wj_attempt_count j + 1,
       wj_lease_owner := Some worker, wj_lease_expires_at := Some (now + seconds lease_seconds),
       wj_heartbeat_at := Some now, wj_started_at := Some now, wj_finished_at := None,
       wj_progress := 0, wj_progress_message := None, wj_error_class := None,
       wj_error_code := None, wj_error_message := None\<rparr>"

definition claim_next_job ::
  "env \<Rightarrow> string \<Rightarrow> int \<Rightarrow> string list option \<Rightarrow> time option \<Rightarrow> db \<Rightarrow> workflow_job option \<times> db" where
  "claim_next_job env worker lease_seconds allowed now db =
     (if allowed = Some [] then (None, db)
      else let t = observed env now in
        case claim_candidates env allowed (global_pause db) t db of
          [] \<Rightarrow> (None, db)
        | j # _ \<Rightarrow>
            let j' = claimed worker lease_seconds t j
            in (Some (flush_job env j j'),
                append_event env (Some (wj_id j)) ''job.claimed'' worker
                  [(KStr ''worker_id'', PStr worker),
                   (KStr ''attempt_count'', PInt (wj_attempt_count j')),
                   (KStr ''lease_expires_at'', PStr (isoformat (t + seconds lease_seconds)))]
                  (put_job env j' db)))"

section \<open>Lease-holder operations\<close>

definition progress_ok :: "int \<Rightarrow> bool" where
  "progress_ok p = (0 \<le> p \<and> p \<le> 100)"

text \<open>The check constraint \<open>ck_workflow_jobs_progress\<close> refuses the flush of any other value.\<close>

definition heartbeat_job ::
  "env \<Rightarrow> uuid \<Rightarrow> string \<Rightarrow> int \<Rightarrow> int option \<Rightarrow> string option \<Rightarrow> time option \<Rightarrow> db \<Rightarrow> job_error + bool \<times> db" where
  "heartbeat_job env i worker lease_seconds progress message now db =
     (let t = observed env now in
      case leased_job db i worker t ''heartbeat'' of
        Inl _ \<Rightarrow> Inr (False, db)
      | Inr j \<Rightarrow>
          let j' = j\<lparr>wj_heartbeat_at := Some t,
                     wj_lease_expires_at := Some (t + seconds lease_seconds),
                     wj_progress := (case progress of None \<Rightarrow> wj_progress j | Some p \<Rightarrow> p),
                     wj_progress_message := (case message of None \<Rightarrow> wj_progress_message j
                                             | Some m \<Rightarrow> Some (redact_text env m))\<rparr>
          in if \<not> progress_ok (wj_progress j') then Inl (IntegrityError ''ck_workflow_jobs_progress'')
             else Inr (True,
               append_event env (Some i) ''job.heartbeat'' worker
                 [(KStr ''worker_id'', PStr worker), (KStr ''progress'', PInt (wj_progress j')),
                  (KStr ''progress_message'', opt_val PStr (wj_progress_message j'))]
                 (put_job env j' db)))"

definition update_progress ::
  "env \<Rightarrow> uuid \<Rightarrow> string \<Rightarrow> int \<Rightarrow> string option \<Rightarrow> time option \<Rightarrow> db \<Rightarrow> bool \<times> db" where
  "update_progress env i worker progress message now db =
     (case leased_job db i worker (observed env now) ''progress'' of
        Inl _ \<Rightarrow> (False, db)
      | Inr j \<Rightarrow>
          (True, put_job env
             (j\<lparr>wj_progress := max 0 (min 100 progress),
                wj_progress_message := (case message of None \<Rightarrow> wj_progress_message j
                                        | Some m \<Rightarrow> Some (redact_text env m))\<rparr>) db))"

definition checkpoint_job ::
  "env \<Rightarrow> uuid \<Rightarrow> string \<Rightarrow> pydict option \<Rightarrow> pydict option \<Rightarrow> time option \<Rightarrow> db \<Rightarrow> job_error + db" where
  "checkpoint_job env i worker payload result now db =
     (if payload = None \<and> result = None
      then Inl (ValueError ''a job checkpoint requires payload or result'')
      else result_bind (leased_job db i worker (observed env now) ''checkpoint'') (\<lambda>j.
        result_bind (case payload of
            None \<Rightarrow> Inr j
          | Some p \<Rightarrow>
              (let safe = redact_job_payload env (wj_job_type j) p in
               if safe \<noteq> p then Inl (ValueError ''job checkpoint payload contains a secret value'')
               else Inr (j\<lparr>wj_payload := safe\<rparr>))) (\<lambda>j1.
        result_bind (case result of
            None \<Rightarrow> Inr j1
          | Some r \<Rightarrow>
              (case redact_dict env r of
                 None \<Rightarrow> Inl (TypeError ''job checkpoint result must be a mapping'')
               | Some safe \<Rightarrow> Inr (j1\<lparr>wj_result := safe\<rparr>))) (\<lambda>j2.
        Inr (put_job env j2 db)))))"

definition finish_job ::
  "env \<Rightarrow> uuid \<Rightarrow> string \<Rightarrow> pydict \<Rightarrow> time option \<Rightarrow> db \<Rightarrow> job_error + workflow_job \<times> db" where
  "finish_job env i worker result now db =
     (let t = observed env now in
      result_bind (leased_job db i worker t ''finish'') (\<lambda>j.
        case redact_dict env result of
          None \<Rightarrow> Inl (TypeError ''job result must remain a dictionary'')
        | Some safe \<Rightarrow>
            let j' = clear_lease (j\<lparr>wj_status := SUCCEEDED, wj_result := safe, wj_progress := 100,
                                     wj_finished_at := Some t\<rparr>)
            in Inr (flush_job env j j',
                 append_event env (Some i) ''job.succeeded'' worker [(KStr ''result'', PDict safe)]
                   (put_job env j' db))))"

section \<open>Retention runs follow their job\<close>

definition workflow_phase :: "pydict \<Rightarrow> bool" where
  "workflow_phase e = (dict_get e ''phase'' = Some (PStr ''workflow''))"

definition sync_retention_terminal :: "job_status \<Rightarrow> time \<Rightarrow> retention_run \<Rightarrow> retention_run" where
  "sync_retention_terminal status t r =
     (if rr_status r \<in> {''succeeded'', ''expired''} then r
      else let (code, message) =
             (case status of
                CANCELLED \<Rightarrow> (''retention_job_cancelled'', ''Retention workflow job was cancelled before completion'')
              | NEEDS_REVIEW \<Rightarrow> (''retention_job_needs_review'', ''Retention workflow job requires operator review'')
              | _ \<Rightarrow> (''retention_job_failed'', ''Retention workflow job failed before completion''))
           in r\<lparr>rr_status := (if rr_status r = ''running'' then ''partial''
                              else if rr_status r \<in> {''previewed'', ''queued''} then ''failed'' else rr_status r),
                rr_finished_at := Some t,
                rr_error_snapshot := filter (\<lambda>e. \<not> workflow_phase e) (rr_error_snapshot r) @
                  [[(KStr ''phase'', PStr ''workflow''), (KStr ''code'', PStr code),
                    (KStr ''message'', PStr message)]]\<rparr>)"

definition sync_retention_retry :: "time \<Rightarrow> retention_run \<Rightarrow> retention_run" where
  "sync_retention_retry t r =
     (let r1 = r\<lparr>rr_error_snapshot := filter (\<lambda>e. \<not> workflow_phase e) (rr_error_snapshot r)\<rparr>
      in if rr_status r = ''failed'' \<and> rr_started_at r = None
         then r1\<lparr>rr_status := ''queued'', rr_finished_at := None, rr_queued_at := Some t\<rparr>
         else r1)"

section \<open>Failure, retry and cancellation\<close>

definition fail_job ::
  "env \<Rightarrow> uuid \<Rightarrow> string \<Rightarrow> job_error_class \<Rightarrow> string \<Rightarrow> string \<Rightarrow> time option \<Rightarrow> time option \<Rightarrow> db \<Rightarrow>
   job_error + workflow_job \<times> db" where
  "fail_job env i worker cls code message retry_at now db =
     (let t = observed env now; run = locked_retention_run i db in
      result_bind (leased_job db i worker t ''fail'') (\<lambda>j.
        let safe_code = redact_text env code;
            safe_message = redact_text env message;
            j1 = clear_lease (j\<lparr>wj_error_class := Some (job_error_class_value cls),
                                wj_error_code := Some safe_code, wj_error_message := Some safe_message\<rparr>);
            event_data = [(KStr ''error_class'', PStr (job_error_class_value cls)),
                          (KStr ''error_code'', PStr safe_code), (KStr ''error_message'', PStr safe_message)];
            due = (case retry_at of None \<Rightarrow> t | Some r \<Rightarrow> r);
            (j', event_type, data) =
              (if cls = RETRYABLE \<and> wj_attempt_count j < wj_max_attempts j
               then (j1\<lparr>wj_status := QUEUED, wj_scheduled_for := Some due, wj_finished_at := None\<rparr>,
                     ''job.retry_scheduled'', event_data @ [(KStr ''retry_at'', PStr (isoformat due))])
               else if cls = REVIEW_CLASS
               then (j1\<lparr>wj_status := NEEDS_REVIEW, wj_finished_at := Some t\<rparr>, ''job.needs_review'', event_data)
               else (j1\<lparr>wj_status := FAILED, wj_finished_at := Some t\<rparr>, ''job.failed'', event_data));
            db1 = (if wj_status j' = FAILED \<or> wj_status j' = NEEDS_REVIEW
                   then put_retention_run run (sync_retention_terminal (wj_status j') t) db else db)
        in Inr (flush_job env j j', append_event env (Some i) event_type worker data (put_job env j' db1))))"

definition retry_job :: "env \<Rightarrow> uuid \<Rightarrow> time option \<Rightarrow> db \<Rightarrow> job_error + workflow_job \<times> db" where
  "retry_job env i now db =
     (let run = locked_retention_run i db in
      case find_job i db of
        None \<Rightarrow> Inl (invalid i ''retry'' None)
      | Some j \<Rightarrow>
          if wj_status j \<notin> {FAILED, NEEDS_REVIEW} then Inl (invalid i ''retry'' (Some j))
          else result_bind (require_available_job_type env (wj_job_type j) db) (\<lambda>_.
            let t = observed env now;
                j' = clear_lease (j\<lparr>wj_status := QUEUED, wj_scheduled_for := Some t, wj_finished_at := None,
                                    wj_started_at := None, wj_progress := 0, wj_progress_message := None,
                                    wj_error_class := None, wj_error_code := None, wj_error_message := None\<rparr>)
            in Inr (flush_job env j j',
                 append_event env (Some i) ''job.retried'' ''operator''
                   [(KStr ''previous_status'', PStr (job_status_value (wj_status j)))]
                   (put_job env j' (put_retention_run run (sync_retention_retry t) db)))))"

definition cancel_job :: "env \<Rightarrow> uuid \<Rightarrow> time option \<Rightarrow> db \<Rightarrow> job_error + workflow_job \<times> db" where
  "cancel_job env i now db =
     (let run = locked_retention_run i db in
      case find_job i db of
        None \<Rightarrow> Inl (invalid i ''cancel'' None)
      | Some j \<Rightarrow>
          if wj_status j \<noteq> QUEUED then Inl (invalid i ''cancel'' (Some j))
          else let t = observed env now;
                   j' = j\<lparr>wj_status := CANCELLED, wj_finished_at := Some t\<rparr>
               in Inr (flush_job env j j',
                    append_event env (Some i) ''job.cancelled'' ''operator'' []
                      (put_job env j' (put_retention_run run (sync_retention_terminal CANCELLED t) db))))"

section \<open>Recovery of expired leases\<close>

text \<open>
  The rows \<open>_lock_expired_lease_dependents\<close> selects.  The order in which it locks them
  has no influence on what is written and is left out.
\<close>

record expired_lease_dependents =
  ed_retention_run :: "retention_run option"
  ed_research_runs :: "research_run list"
  ed_research_attempts :: "attempt_row list"
  ed_automation_dispatches :: "automation_dispatch list"
  ed_generation_runs :: "generation_run list"
  ed_generation_attempts :: "attempt_row list"
  ed_publish_jobs :: "publish_job list"
  ed_publish_receipts :: "publish_receipt list"
  ed_publish_attempts :: "publish_attempt list"

definition payload_uuid :: "pydict \<Rightarrow> string \<Rightarrow> uuid option" where
  "payload_uuid d k = (case dict_get d k of None \<Rightarrow> None | Some v \<Rightarrow> val_uuid v)"

definition payload_dispatch_ids :: "env \<Rightarrow> pydict \<Rightarrow> uuid list" where
  "payload_dispatch_ids env payload =
     (case payload_uuid payload ''dispatch_id'' of None \<Rightarrow> [] | Some i \<Rightarrow> [i]) @
     (case dict_get payload ''continuations'' of
        Some (PList ds) \<Rightarrow> List.map_filter (env_continuation env) ds
      | _ \<Rightarrow> [])"

definition execution_names :: "generation_run \<Rightarrow> string \<Rightarrow> uuid \<Rightarrow> bool" where
  "execution_names g k i =
     (case dict_get (gr_request_payload g) ''execution'' of
        Some (PDict e) \<Rightarrow> dict_get e k = Some (PStr i)
      | _ \<Rightarrow> False)"

definition lock_expired_lease_dependents :: "env \<Rightarrow> uuid \<Rightarrow> pydict \<Rightarrow> db \<Rightarrow> expired_lease_dependents" where
  "lock_expired_lease_dependents env i payload db =
     (let runs = (case payload_uuid payload ''run_id'' of None \<Rightarrow> []
                  | Some k \<Rightarrow> filter (\<lambda>r. sr_id r = k) (db_research_runs db));
          dispatch_ids = payload_dispatch_ids env payload;
          gens = filter (\<lambda>g. execution_names g ''workflow_job_id'' i \<or> execution_names g ''active_workflow_job_id'' i)
                   (db_generation_runs db);
          pjs = filter (\<lambda>p. pj_workflow_job_id p = Some i) (db_publish_jobs db)
      in \<lparr>ed_retention_run = locked_retention_run i db,
          ed_research_runs = runs,
          ed_research_attempts = filter (\<lambda>a. at_run_id a \<in> set (map sr_id runs)) (db_research_attempts db),
          ed_automation_dispatches = filter (\<lambda>d. ad_id d \<in> set dispatch_ids) (db_dispatches db),
          ed_generation_runs = gens,
          ed_generation_attempts = filter (\<lambda>a. at_run_id a \<in> set (map gr_id gens)) (db_generation_attempts db),
          ed_publish_jobs = pjs,
          ed_publish_receipts = filter (\<lambda>r. po_publish_job_id r \<in> set (map pj_id pjs)) (db_publish_receipts db),
          ed_publish_attempts = filter (\<lambda>a. pa_publish_job_id a \<in> set (map pj_id pjs)) (db_publish_attempts db)\<rparr>)"

definition flush_publish_job :: "env \<Rightarrow> publish_job \<Rightarrow> publish_job \<Rightarrow> publish_job" where
  "flush_publish_job env old new = (if new = old then old else new\<lparr>pj_updated_at := env_db_now env\<rparr>)"

definition flush_receipt :: "env \<Rightarrow> publish_receipt \<Rightarrow> publish_receipt \<Rightarrow> publish_receipt" where
  "flush_receipt env old new = (if new = old then old else new\<lparr>po_updated_at := env_db_now env\<rparr>)"

definition fail_publish_attempt ::
  "string \<Rightarrow> string \<Rightarrow> string \<Rightarrow> string \<Rightarrow> time \<Rightarrow> publish_attempt \<Rightarrow> publish_attempt" where
  "fail_publish_attempt status cls code message t a =
     a\<lparr>pa_status := status, pa_error_class := Some cls, pa_error_code := Some code,
       pa_error_message := Some message, pa_finished_at := Some t\<rparr>"

definition dispatching_of :: "expired_lease_dependents \<Rightarrow> publish_job \<Rightarrow> publish_receipt list" where
  "dispatching_of d p =
     filter (\<lambda>r. po_publish_job_id r = pj_id p \<and> po_status r = ''dispatching'') (ed_publish_receipts d)"

definition mark_ambiguous :: "env \<Rightarrow> time \<Rightarrow> publish_job \<Rightarrow> db \<Rightarrow> db" where
  "mark_ambiguous env t p db =
     db\<lparr>db_publish_receipts :=
          set_rows (\<lambda>r. po_publish_job_id r = pj_id p \<and> po_status r = ''dispatching'')
            (\<lambda>r. flush_receipt env r (r\<lparr>po_status := ''ambiguous'', po_ambiguous_at := Some t\<rparr>))
            (db_publish_receipts db),
        db_publish_jobs :=
          set_rows (\<lambda>q. pj_id q = pj_id p)
            (\<lambda>q. flush_publish_job env q (q\<lparr>pj_status := ''reconciliation_required''\<rparr>)) (db_publish_jobs db),
        db_publish_attempts :=
          set_rows (\<lambda>a. pa_publish_job_id a = pj_id p \<and> pa_status a = ''running'')
            (fail_publish_attempt ''needs_review'' ''needs_review'' ''telegram_publish_ambiguous''
               ''Telegram publish outcome is ambiguous after worker interruption'' t)
            (db_publish_attempts db)\<rparr>"

definition sync_expired_publish_ambiguity ::
  "env \<Rightarrow> expired_lease_dependents \<Rightarrow> time \<Rightarrow> db \<Rightarrow> bool \<times> db" where
  "sync_expired_publish_ambiguity env d t db =
     foldl (\<lambda>(review, db) p. if dispatching_of d p = [] then (review, db) else (True, mark_ambiguous env t p db))
       (False, db) (ed_publish_jobs d)"

definition LEASE_CODE :: string where "LEASE_CODE = ''worker_lease_expired''"
definition LEASE_MESSAGE :: string where
  "LEASE_MESSAGE = ''Worker lease expired after the final configured attempt''"

definition fail_attempt :: "time \<Rightarrow> attempt_row \<Rightarrow> attempt_row" where
  "fail_attempt t a =
     a\<lparr>at_status := ''failed'', at_error_class := Some ''retryable'', at_error_code := Some LEASE_CODE,
       at_error_message := Some LEASE_MESSAGE, at_finished_at := Some t\<rparr>"

definition stop_dispatch :: "automation_dispatch \<Rightarrow> automation_dispatch" where
  "stop_dispatch a =
     (if ad_status a \<in> {''captured'', ''retryable'', ''generating''}
      then a\<lparr>ad_status := ''failed'', ad_error_code := Some LEASE_CODE, ad_error_message := Some LEASE_MESSAGE\<rparr>
      else if ad_status a = ''researching''
      then a\<lparr>ad_status := ''needs_review'', ad_error_code := Some LEASE_CODE, ad_error_message := Some LEASE_MESSAGE\<rparr>
      else a)"

definition sync_terminal_expired_lease_dependents ::
  "env \<Rightarrow> expired_lease_dependents \<Rightarrow> time \<Rightarrow> db \<Rightarrow> db" where
  "sync_terminal_expired_lease_dependents env d t db =
     db\<lparr>db_research_runs :=
          set_rows (\<lambda>r. sr_id r \<in> set (map sr_id (ed_research_runs d)) \<and> sr_status r \<in> {''queued'', ''running''})
            (\<lambda>r. r\<lparr>sr_status := ''failed'', sr_finished_at := Some t\<rparr>) (db_research_runs db),
        db_research_attempts :=
          set_rows (\<lambda>a. at_run_id a \<in> set (map at_run_id (ed_research_attempts d)) \<and> at_status a = ''running'')
            (fail_attempt t) (db_research_attempts db),
        db_generation_runs :=
          set_rows (\<lambda>r. gr_id r \<in> set (map gr_id (ed_generation_runs d)) \<and> gr_status r = ''running'')
            (\<lambda>r. r\<lparr>gr_status := ''failed'', gr_error_class := Some ''retryable'', gr_error_code := Some LEASE_CODE,
                    gr_error_message := Some LEASE_MESSAGE, gr_finished_at := Some t\<rparr>) (db_generation_runs db),
        db_generation_attempts :=
          set_rows (\<lambda>a. at_run_id a \<in> set (map at_run_id (ed_generation_attempts d)) \<and> at_status a = ''running'')
            (fail_attempt t) (db_generation_attempts db),
        db_dispatches :=
          set_rows (\<lambda>a. ad_id a \<in> set (map ad_id (ed_automation_dispatches d))) stop_dispatch (db_dispatches db),
        db_publish_attempts :=
          set_rows (\<lambda>a. pa_publish_job_id a \<in> set (map pj_id (ed_publish_jobs d)) \<and> pa_status a = ''running'')
            (fail_publish_attempt ''failed'' ''retryable'' ''telegram_publish_attempt_interrupted''
               ''Telegram publish attempt ended when its worker lease expired'' t) (db_publish_attempts db),
        db_publish_jobs :=
          set_rows (\<lambda>q. pj_id q \<in> set (map pj_id (ed_publish_jobs d)) \<and>
                        pj_status q \<in> {''queued'', ''scheduled'', ''dispatching''})
            (\<lambda>q. flush_publish_job env q (q\<lparr>pj_status := ''attention''\<rparr>)) (db_publish_jobs db)\<rparr>"

definition lease_expired :: "time \<Rightarrow> workflow_job \<Rightarrow> bool" where
  "lease_expired t j =
     (wj_status j = RUNNING \<and> (case wj_lease_expires_at j of None \<Rightarrow> False | Some e \<Rightarrow> e \<le> t))"

definition recovered :: "bool \<Rightarrow> time \<Rightarrow> workflow_job \<Rightarrow> workflow_job" where
  "recovered review t j =
     clear_lease
       (if review then
          j\<lparr>wj_finished_at := Some t, wj_status := NEEDS_REVIEW, wj_error_class := Some ''needs_review'',
            wj_error_code := Some ''telegram_publish_ambiguous'',
            wj_error_message := Some ''Telegram publish outcome is ambiguous after worker interruption''\<rparr>
        else if wj_attempt_count j \<ge> wj_max_attempts j then
          j\<lparr>wj_finished_at := Some t, wj_status := FAILED, wj_error_class := Some ''retryable'',
            wj_error_code := Some LEASE_CODE, wj_error_message := Some LEASE_MESSAGE\<rparr>
        else j\<lparr>wj_status := QUEUED, wj_scheduled_for := Some t\<rparr>)"

definition recover_job :: "env \<Rightarrow> expired_lease_dependents \<Rightarrow> time \<Rightarrow> workflow_job \<Rightarrow> db \<Rightarrow> db" where
  "recover_job env d t j db =
     (let (review, db1) = sync_expired_publish_ambiguity env d t db;
          exhausted = (wj_attempt_count j \<ge> wj_max_attempts j);
          j' = recovered review t j;
          db2 = (if review then put_retention_run (ed_retention_run d) (sync_retention_terminal NEEDS_REVIEW t) db1
                 else if exhausted then
                   put_retention_run (ed_retention_run d) (sync_retention_terminal FAILED t)
                     (sync_terminal_expired_lease_dependents env d t db1)
                 else db1);
          db3 = append_event env (Some (wj_id j)) ''job.lease_expired'' ''system''
                  [(KStr ''lease_owner'', opt_val PStr (wj_lease_owner j)),
                   (KStr ''lease_expired_at'', opt_val (\<lambda>e. PStr (isoformat e)) (wj_lease_expires_at j))]
                  (put_job env j' db2)
      in if exhausted \<or> review then
           append_event env (Some (wj_id j)) (if review then ''job.needs_review'' else ''job.failed'') ''system''
             [(KStr ''error_class'', opt_val PStr (wj_error_class j')),
              (KStr ''error_code'', opt_val PStr (wj_error_code j')),
              (KStr ''error_message'', opt_val PStr (wj_error_message j')),
              (KStr ''attempt_count'', PInt (wj_attempt_count j)),
              (KStr ''max_attempts'', PInt (wj_max_attempts j))] db3
         else db3)"

fun requeue_loop :: "env \<Rightarrow> time \<Rightarrow> workflow_job list \<Rightarrow> nat \<times> db \<Rightarrow> nat \<times> db" where
  "requeue_loop env t [] (n, db) = (n, db)"
| "requeue_loop env t (c # cs) (n, db) =
     (let d = lock_expired_lease_dependents env (wj_id c) (wj_payload c) db in
      case locked_expired_job env (wj_id c) db of
        None \<Rightarrow> requeue_loop env t cs (n, db)
      | Some j \<Rightarrow> if lease_expired t j then requeue_loop env t cs (Suc n, recover_job env d t j db)
                  else requeue_loop env t cs (n, db))"

definition requeue_expired_leases :: "env \<Rightarrow> time option \<Rightarrow> db \<Rightarrow> nat \<times> db" where
  "requeue_expired_leases env now db =
     (let t = observed env now in
      requeue_loop env t
        (sort_key (\<lambda>j. (wj_lease_expires_at j, wj_created_at j)) (filter (lease_expired t) (db_jobs db))) (0, db))"

section \<open>Queries\<close>

definition get_job :: "uuid \<Rightarrow> db \<Rightarrow> workflow_job option" where
  "get_job i db = find_job i db"

definition list_jobs ::
  "job_status list \<Rightarrow> string option \<Rightarrow> job_error_class option \<Rightarrow> nat \<Rightarrow> db \<Rightarrow> workflow_job list" where
  "list_jobs statuses ty cls limit db =
     take limit (sort_key (\<lambda>j. (- wj_updated_at j, - wj_created_at j))
       (filter (\<lambda>j. (statuses = [] \<or> wj_status j \<in> set statuses) \<and>
                    (case ty of None \<Rightarrow> True | Some k \<Rightarrow> wj_job_type j = k) \<and>
                    (case cls of None \<Rightarrow> True | Some c \<Rightarrow> wj_error_class j = Some (job_error_class_value c)))
         (db_jobs db)))"

section \<open>The automation control row\<close>

definition get_control :: "env \<Rightarrow> db \<Rightarrow> automation_control \<times> db" where
  "get_control env db =
     (case db_control db of
        Some c \<Rightarrow> (c, db)
      | None \<Rightarrow>
          let c = \<lparr>ac_global_pause = False, ac_dry_run = False, ac_pause_reason = None, ac_paused_at = None,
                   ac_updated_at = env_db_now env\<rparr>
          in (c, db\<lparr>db_control := Some c\<rparr>))"

text \<open>An argument left unset is \<open>None\<close>; a pause reason may be set to none (\<open>Some None\<close>).\<close>

definition update_control ::
  "env \<Rightarrow> bool option \<Rightarrow> bool option \<Rightarrow> string option option \<Rightarrow> time option \<Rightarrow> db \<Rightarrow>
   automation_control \<times> db" where
  "update_control env pause dry reason now db =
     (let t = observed env now;
          (c0, db0) = get_control env db;
          (c1, ch1) = (case pause of
              Some p \<Rightarrow>
                if p \<noteq> ac_global_pause c0 then
                  (if p then (c0\<lparr>ac_global_pause := True, ac_paused_at := Some t\<rparr>,
                              [(KStr ''global_pause'', PBool True), (KStr ''paused_at'', PStr (isoformat t))])
                   else (c0\<lparr>ac_global_pause := False, ac_paused_at := None, ac_pause_reason := None\<rparr>,
                         [(KStr ''global_pause'', PBool False), (KStr ''paused_at'', PNone),
                          (KStr ''pause_reason'', PNone)]))
                else (c0, [])
            | None \<Rightarrow> (c0, []));
          (c2, ch2) = (case dry of
              Some d \<Rightarrow> if d \<noteq> ac_dry_run c1
                         then (c1\<lparr>ac_dry_run := d\<rparr>, [(KStr ''dry_run'', PBool d)]) else (c1, [])
            | None \<Rightarrow> (c1, []));
          (c3, ch3) = (case reason of
              Some r \<Rightarrow>
                if ac_global_pause c2 \<and> map_option (env_redact env) r \<noteq> ac_pause_reason c2
                then (c2\<lparr>ac_pause_reason := map_option (env_redact env) r\<rparr>,
                      [(KStr ''pause_reason'', opt_val PStr (map_option (env_redact env) r))])
                else (c2, [])
            | None \<Rightarrow> (c2, []));
          changes = ch1 @ ch2 @ ch3
      in if changes = [] then (c3, db0)
         else let c4 = c3\<lparr>ac_updated_at := t\<rparr> in
           (c4, db0\<lparr>db_control := Some c4,
              db_events := db_events db0 @
                [\<lparr>we_id = env_uuid env (db_seq db0), we_workflow_job_id = None,
                  we_event_type = ''automation.control_updated'', we_actor = ''operator'',
                  we_event_data = redact_event_data (env_redact env) changes, we_created_at = t\<rparr>],
              db_seq := Suc (db_seq db0)\<rparr>))"

end
