(* ===== verification/Job_Queue.thy ===== *)
theory Job_Queue
  imports Job_Repository
begin

text \<open>
  The job queue as a transition system: the operations of \<open>JobRepository\<close> as labels, each
  run in its own transaction, and what holds of every database they can produce.
\<close>

section \<open>What an operation leaves unchanged\<close>

lemma append_event_frame [frame_simps]:
  "db_jobs (append_event env i ty actor data db) = db_jobs db"
  "db_control (append_event env i ty actor data db) = db_control db"
  "db_retention_runs (append_event env i ty actor data db) = db_retention_runs db"
  "db_research_runs (append_event env i ty actor data db) = db_research_runs db"
  "db_research_attempts (append_event env i ty actor data db) = db_research_attempts db"
  "db_dispatches (append_event env i ty actor data db) = db_dispatches db"
  "db_generation_runs (append_event env i ty actor data db) = db_generation_runs db"
  "db_generation_attempts (append_event env i ty actor data db) = db_generation_attempts db"
  "db_publish_jobs (append_event env i ty actor data db) = db_publish_jobs db"
  "db_publish_receipts (append_event env i ty actor data db) = db_publish_receipts db"
  "db_publish_attempts (append_event env i ty actor data db) = db_publish_attempts db"
  by (simp_all add: append_event_def)

lemma put_retention_run_frame [frame_simps]:
  "db_jobs (put_retention_run run f db) = db_jobs db"
  "db_events (put_retention_run run f db) = db_events db"
  "db_control (put_retention_run run f db) = db_control db"
  "db_research_runs (put_retention_run run f db) = db_research_runs db"
  "db_research_attempts (put_retention_run run f db) = db_research_attempts db"
  "db_dispatches (put_retention_run run f db) = db_dispatches db"
  "db_generation_runs (put_retention_run run f db) = db_generation_runs db"
  "db_generation_attempts (put_retention_run run f db) = db_generation_attempts db"
  "db_publish_jobs (put_retention_run run f db) = db_publish_jobs db"
  "db_publish_receipts (put_retention_run run f db) = db_publish_receipts db"
  "db_publish_attempts (put_retention_run run f db) = db_publish_attempts db"
  "db_seq (put_retention_run run f db) = db_seq db"
  by (simp_all add: put_retention_run_def split: option.split)

lemma mark_ambiguous_frame [frame_simps]:
  "db_jobs (mark_ambiguous env t p db) = db_jobs db"
  "db_events (mark_ambiguous env t p db) = db_events db"
  "db_control (mark_ambiguous env t p db) = db_control db"
  "db_retention_runs (mark_ambiguous env t p db) = db_retention_runs db"
  "db_research_runs (mark_ambiguous env t p db) = db_research_runs db"
  "db_research_attempts (mark_ambiguous env t p db) = db_research_attempts db"
  "db_dispatches (mark_ambiguous env t p db) = db_dispatches db"
  "db_generation_runs (mark_ambiguous env t p db) = db_generation_runs db"
  "db_generation_attempts (mark_ambiguous env t p db) = db_generation_attempts db"
  "db_seq (mark_ambiguous env t p db) = db_seq db"
  by (simp_all add: mark_ambiguous_def)

lemma append_event_log [row_simps]:
  "db_events (append_event env i ty actor data db) =
     db_events db @ [\<lparr>we_id = env_uuid env (db_seq db), we_workflow_job_id = i, we_event_type = ty, we_actor = actor,
       we_event_data = redact_event_data (env_redact env) data, we_created_at = env_db_now env\<rparr>]"
  by (simp add: append_event_def)

lemma find_job_frame [frame_simps]:
  "find_job k (append_event env i ty actor data db) = find_job k db"
  "find_job k (put_retention_run run g db) = find_job k db"
  "find_job k (mark_ambiguous env t p db) = find_job k db"
  "find_job k (sync_terminal_expired_lease_dependents env d t db) = find_job k db"
  by (simp_all add: find_job_def frame_simps sync_terminal_expired_lease_dependents_def)

lemma db_jobs_put_cong: "db_jobs db = db_jobs db' \<Longrightarrow> db_jobs (put_job env j db) = db_jobs (put_job env j db')"
  by (simp add: put_job_def)

lemma sync_ambiguity_frame [frame_simps]:
  "db_jobs (snd (sync_expired_publish_ambiguity env d t db)) = db_jobs db"
  "db_events (snd (sync_expired_publish_ambiguity env d t db)) = db_events db"
proof -
  have *: "db_jobs (snd (foldl (\<lambda>(review, db) p. if dispatching_of d p = [] then (review, db) else (True, mark_ambiguous env t p db)) acc ps)) = db_jobs (snd acc) \<and>
     db_events (snd (foldl (\<lambda>(review, db) p. if dispatching_of d p = [] then (review, db) else (True, mark_ambiguous env t p db)) acc ps)) = db_events (snd acc)" for acc ps
    by (induction ps arbitrary: acc) (simp_all add: frame_simps split: prod.split)
  show "db_jobs (snd (sync_expired_publish_ambiguity env d t db)) = db_jobs db"
    "db_events (snd (sync_expired_publish_ambiguity env d t db)) = db_events db"
    using * [of "(False, db)" "ed_publish_jobs d"] by (simp_all add: sync_expired_publish_ambiguity_def)
qed

section \<open>Labels\<close>

datatype queue_op =
    Enqueue enqueue_request
  | Claim string int "string list option" "time option"
  | Heartbeat uuid string int "int option" "string option" "time option"
  | Progress uuid string int "string option" "time option"
  | Checkpoint uuid string "pydict option" "pydict option" "time option"
  | Finish uuid string pydict "time option"
  | Fail uuid string job_error_class string string "time option" "time option"
  | Retry uuid "time option"
  | Cancel uuid "time option"
  | Requeue "time option"
  | Control "bool option" "bool option" "string option option" "time option"

fun run_op :: "env \<Rightarrow> queue_op \<Rightarrow> db \<Rightarrow> job_error + db" where
  "run_op env (Enqueue r) db = map_sum id snd (enqueue_job env r db)"
| "run_op env (Claim w l a now) db = Inr (snd (claim_next_job env w l a now db))"
| "run_op env (Heartbeat i w l p m now) db = map_sum id snd (heartbeat_job env i w l p m now db)"
| "run_op env (Progress i w p m now) db = Inr (snd (update_progress env i w p m now db))"
| "run_op env (Checkpoint i w p r now) db = checkpoint_job env i w p r now db"
| "run_op env (Finish i w r now) db = map_sum id snd (finish_job env i w r now db)"
| "run_op env (Fail i w c code m at now) db = map_sum id snd (fail_job env i w c code m at now db)"
| "run_op env (Retry i now) db = map_sum id snd (retry_job env i now db)"
| "run_op env (Cancel i now) db = map_sum id snd (cancel_job env i now db)"
| "run_op env (Requeue now) db = Inr (snd (requeue_expired_leases env now db))"
| "run_op env (Control p d r now) db = Inr (snd (update_control env p d r now db))"

text \<open>An exception rolls the transaction back.\<close>

definition apply_op :: "env \<Rightarrow> queue_op \<Rightarrow> db \<Rightarrow> db" where
  "apply_op env op db = (case run_op env op db of Inl _ \<Rightarrow> db | Inr db' \<Rightarrow> db')"

inductive queue_step :: "db \<Rightarrow> db \<Rightarrow> bool" where
  step: "run_op env op db = Inr db' \<Longrightarrow> queue_step db db'"
| rollback: "run_op env op db = Inl e \<Longrightarrow> queue_step db db"

inductive queue_reach :: "db \<Rightarrow> bool" where
  initial: "db_jobs db = [] \<Longrightarrow> queue_reach db"
| reach: "queue_reach db \<Longrightarrow> queue_step db db' \<Longrightarrow> queue_reach db'"

section \<open>How an operation may change a job\<close>

text \<open>
  \<open>edit env op pause j j'\<close>: the operation may replace the row \<open>j\<close> by \<open>j'\<close>; it names the
  guard that protects the write.  \<open>edit_jobs\<close> is the effect of a whole operation on the table,
  which writes each row at most once.
\<close>

inductive edit :: "env \<Rightarrow> queue_op \<Rightarrow> bool \<Rightarrow> workflow_job \<Rightarrow> workflow_job \<Rightarrow> bool" where
  backfill: "wj_scheduled_for j = None \<Longrightarrow> edit env (Enqueue r) p j (j\<lparr>wj_scheduled_for := Some t\<rparr>)"
| claim: "claimable a p (observed env now) j \<Longrightarrow>
    edit env (Claim w l a now) p j (claimed w l (observed env now) j)"
| heartbeat: "has_active_lease j w (observed env now) \<Longrightarrow> progress_ok g \<Longrightarrow>
    edit env (Heartbeat (wj_id j) w l pr m now) p j
      (j\<lparr>wj_heartbeat_at := Some (observed env now),
         wj_lease_expires_at := Some (observed env now + seconds l), wj_progress := g, wj_progress_message := m'\<rparr>)"
| progress: "has_active_lease j w (observed env now) \<Longrightarrow> progress_ok g \<Longrightarrow>
    edit env (Progress (wj_id j) w pr m now) p j (j\<lparr>wj_progress := g, wj_progress_message := m'\<rparr>)"
| checkpoint: "has_active_lease j w (observed env now) \<Longrightarrow>
    edit env (Checkpoint (wj_id j) w pl res now) p j (j\<lparr>wj_payload := x, wj_result := y\<rparr>)"
| finish: "has_active_lease j w (observed env now) \<Longrightarrow>
    edit env (Finish (wj_id j) w res now) p j
      (clear_lease (j\<lparr>wj_status := SUCCEEDED, wj_result := y, wj_progress := 100,
                      wj_finished_at := Some (observed env now)\<rparr>))"
| fail_requeue: "has_active_lease j w (observed env now) \<Longrightarrow> c = RETRYABLE \<Longrightarrow>
    wj_attempt_count j < wj_max_attempts j \<Longrightarrow>
    edit env (Fail (wj_id j) w c code m at now) p j
      ((clear_lease (j\<lparr>wj_error_class := Some (job_error_class_value c), wj_error_code := x, wj_error_message := y\<rparr>))
         \<lparr>wj_status := QUEUED, wj_scheduled_for := Some due, wj_finished_at := None\<rparr>)"
| fail_end: "has_active_lease j w (observed env now) \<Longrightarrow> \<not> (c = RETRYABLE \<and> wj_attempt_count j < wj_max_attempts j) \<Longrightarrow>
    edit env (Fail (wj_id j) w c code m at now) p j
      ((clear_lease (j\<lparr>wj_error_class := Some (job_error_class_value c), wj_error_code := x, wj_error_message := y\<rparr>))
         \<lparr>wj_status := (if c = REVIEW_CLASS then NEEDS_REVIEW else FAILED), wj_finished_at := Some (observed env now)\<rparr>)"
| retry: "wj_status j \<in> {FAILED, NEEDS_REVIEW} \<Longrightarrow>
    edit env (Retry (wj_id j) now) p j
      (clear_lease (j\<lparr>wj_status := QUEUED, wj_scheduled_for := Some (observed env now), wj_finished_at := None,
                      wj_started_at := None, wj_progress := 0, wj_progress_message := None,
                      wj_error_class := None, wj_error_code := None, wj_error_message := None\<rparr>))"
| cancel: "wj_status j = QUEUED \<Longrightarrow>
    edit env (Cancel (wj_id j) now) p j (j\<lparr>wj_status := CANCELLED, wj_finished_at := Some (observed env now)\<rparr>)"
| requeue: "lease_expired (observed env now) j \<Longrightarrow>
    edit env (Requeue now) p j (recovered review (observed env now) j)"

inductive edit_jobs :: "env \<Rightarrow> queue_op \<Rightarrow> bool \<Rightarrow> workflow_job list \<Rightarrow> workflow_job list \<Rightarrow> bool" where
  none: "edit_jobs env op p js js"
| update: "edit_jobs env op p js ks \<Longrightarrow> find (\<lambda>r. wj_id r = wj_id j') ks = Some j \<Longrightarrow>
    find (\<lambda>r. wj_id r = wj_id j') js = Some j \<Longrightarrow> edit env op p j j' \<Longrightarrow>
    edit_jobs env op p js (set_rows (\<lambda>r. wj_id r = wj_id j') (\<lambda>r. flush_job env r j') ks)"
| insert: "edit_jobs env (Enqueue r) p js ks \<Longrightarrow> i \<notin> set (map wj_id ks) \<Longrightarrow>
    eq_idempotency_key r \<notin> set (map wj_idempotency_key ks) \<Longrightarrow>
    edit_jobs env (Enqueue r) p js (ks @ [new_job env i r t])"

lemma edit_id: "edit env op p j j' \<Longrightarrow> wj_id j' = wj_id j \<and> wj_idempotency_key j' = wj_idempotency_key j"
  by (cases rule: edit.cases, assumption) (simp_all add: claimed_def clear_lease_def recovered_def)

lemma edit_one:
  assumes "find_job i db = Some j" "edit env op p j j'" "db_jobs db' = db_jobs (put_job env j' db)"
  shows "edit_jobs env op p (db_jobs db) (db_jobs db')"
proof -
  have "wj_id j' = i" using assms edit_id find_job_id by metis
  with assms show ?thesis
    using edit_jobs.update [OF edit_jobs.none, of j' "db_jobs db" j env op p] by (simp add: put_job_def find_job_def)
qed

lemma leased_job_Inr: "leased_job db i w t a = Inr j \<longleftrightarrow> find_job i db = Some j \<and> has_active_lease j w t"
  by (auto simp: leased_job_def split: option.splits)

lemma find_key_None: "find_key k db = None \<longleftrightarrow> k \<notin> set (map wj_idempotency_key (db_jobs db))"
  by (auto simp: find_key_def find_None_iff)

lemma find_job_None: "find_job i db = None \<longleftrightarrow> i \<notin> set (map wj_id (db_jobs db))"
  by (auto simp: find_job_def find_None_iff)

lemma edit_existing:
  assumes "existing_job_result env key t db = Some ((j, c), db')" "distinct (map wj_id (db_jobs db))"
  shows "edit_jobs env (Enqueue r) p (db_jobs db) (db_jobs db') \<and> \<not> c \<and> wj_idempotency_key j = key"
proof -
  obtain k where k: "find_key key db = Some k" using assms by (auto simp: existing_job_result_def split: option.splits)
  then have kk: "k \<in> set (db_jobs db)" "wj_idempotency_key k = key" by (auto simp: find_key_def dest: find_Some_in)
  then have f: "find_job (wj_id k) db = Some k" using assms(2) by (simp add: find_job_def find_unique)
  show ?thesis
  proof (cases "wj_scheduled_for k = None")
    case True
    then have "db_jobs db' = db_jobs (put_job env (k\<lparr>wj_scheduled_for := Some t\<rparr>) db)" "\<not> c" "wj_idempotency_key j = key"
      using k assms kk by (auto simp: existing_job_result_def Let_def)
    then show ?thesis using edit_one [OF f edit.backfill [OF True]] by blast
  next
    case False
    then show ?thesis using k assms kk by (auto simp: existing_job_result_def intro: edit_jobs.none)
  qed
qed

lemma edit_insert_job:
  assumes "insert_job env r t db = Inr ((j, c), db')" "distinct (map wj_id (db_jobs db))"
  shows "edit_jobs env (Enqueue r) p (db_jobs db) (db_jobs db')"
proof (cases "existing_job_result env (eq_idempotency_key r) t (db\<lparr>db_seq := Suc (db_seq db)\<rparr>)")
  case (Some res)
  then have "existing_job_result env (eq_idempotency_key r) t (db\<lparr>db_seq := Suc (db_seq db)\<rparr>) = Some ((j, c), db')"
    using assms by (simp add: insert_job_def)
  from edit_existing [OF this] assms(2) show ?thesis by simp
next
  case None
  then have "find_key (eq_idempotency_key r) db = None"
    by (auto simp: existing_job_result_def find_key_def split: option.splits if_splits)
  moreover have "find_job (env_uuid env (db_seq db)) db = None"
    "db_jobs db' = db_jobs db @ [new_job env (env_uuid env (db_seq db)) r t]"
    using None assms by (auto simp: insert_job_def frame_simps Let_def split: if_splits)
  ultimately show ?thesis
    using edit_jobs.insert [OF edit_jobs.none] by (simp add: find_key_None find_job_None)
qed

lemma edit_enqueue:
  assumes "enqueue_job env r db = Inr ((j, c), db')" "distinct (map wj_id (db_jobs db))"
  shows "edit_jobs env (Enqueue r) p (db_jobs db) (db_jobs db')"
proof (cases "env_gate env")
  case None
  then show ?thesis using assms edit_insert_job by (simp add: enqueue_job_def Let_def)
next
  case (Some g)
  show ?thesis
  proof (cases "existing_job_result env (eq_idempotency_key r) (observed env (eq_scheduled_for r)) db")
    case None
    then show ?thesis using assms Some edit_insert_job by (auto simp: enqueue_job_def Let_def result_bind_eq_Inr)
  next
    case (Some res)
    then have "existing_job_result env (eq_idempotency_key r) (observed env (eq_scheduled_for r)) db = Some ((j, c), db')"
      using assms \<open>env_gate env = Some g\<close> by (simp add: enqueue_job_def Let_def)
    from edit_existing [OF this assms(2)] show ?thesis by simp
  qed
qed

lemma claim_Some:
  assumes "claim_next_job env w l a now db = (Some j, db')"
  shows "\<exists>k ks. claim_candidates env a (global_pause db) (observed env now) db = k # ks \<and>
    j = flush_job env k (claimed w l (observed env now) k) \<and>
    db_jobs db' = db_jobs (put_job env (claimed w l (observed env now) k) db) \<and>
    k \<in> set (db_jobs db) \<and> claimable a (global_pause db) (observed env now) k \<and> \<not> env_locked env (wj_id k)"
proof -
  from assms obtain k ks where *: "claim_candidates env a (global_pause db) (observed env now) db = k # ks"
    by (auto simp: claim_next_job_def Let_def split: if_splits list.splits)
  then have "k \<in> set (claim_candidates env a (global_pause db) (observed env now) db)" by simp
  then have "k \<in> set (db_jobs db) \<and> claimable a (global_pause db) (observed env now) k \<and> \<not> env_locked env (wj_id k)"
    by (simp add: claim_candidates_def)
  with * assms show ?thesis by (auto simp: claim_next_job_def Let_def frame_simps split: if_splits)
qed

lemma claim_None: "claim_next_job env w l a now db = (None, db') \<Longrightarrow> db' = db"
  by (auto simp: claim_next_job_def Let_def split: if_splits list.splits)

lemma edit_claim:
  assumes "distinct (map wj_id (db_jobs db))"
  shows "edit_jobs env (Claim w l a now) (global_pause db) (db_jobs db) (db_jobs (snd (claim_next_job env w l a now db)))"
proof (cases "claim_next_job env w l a now db")
  case (Pair r db')
  show ?thesis
  proof (cases r)
    case None
    then show ?thesis using Pair claim_None edit_jobs.none by fastforce
  next
    case (Some j)
    with Pair claim_Some obtain k where k: "db_jobs db' = db_jobs (put_job env (claimed w l (observed env now) k) db)"
      "k \<in> set (db_jobs db)" "claimable a (global_pause db) (observed env now) k" by blast
    then have "find_job (wj_id k) db = Some k" using assms by (simp add: find_job_def find_unique)
    from edit_one [OF this edit.claim [OF k(3)] k(1)] show ?thesis using Pair by simp
  qed
qed

lemma edit_heartbeat:
  "heartbeat_job env i w l pr m now db = Inr (b, db') \<Longrightarrow>
     edit_jobs env (Heartbeat i w l pr m now) p (db_jobs db) (db_jobs db')"
proof (cases "leased_job db i w (observed env now) ''heartbeat''")
  case (Inr j)
  assume run: "heartbeat_job env i w l pr m now db = Inr (b, db')"
  from Inr have j: "find_job i db = Some j" "has_active_lease j w (observed env now)" "wj_id j = i"
    by (auto simp: leased_job_Inr dest: find_job_id)
  from run Inr have "progress_ok (case pr of None \<Rightarrow> wj_progress j | Some p \<Rightarrow> p)"
    by (auto simp: heartbeat_job_def Let_def split: if_splits)
  moreover from run Inr have "\<exists>m'. db_jobs db' = db_jobs (put_job env (j\<lparr>wj_heartbeat_at := Some (observed env now),
      wj_lease_expires_at := Some (observed env now + seconds l),
      wj_progress := (case pr of None \<Rightarrow> wj_progress j | Some p \<Rightarrow> p), wj_progress_message := m'\<rparr>) db)"
    by (auto simp: heartbeat_job_def Let_def frame_simps split: if_splits)
  ultimately show ?thesis using edit_one [OF j(1) edit.heartbeat [OF j(2)]] j(3) by blast
qed (auto simp: heartbeat_job_def intro: edit_jobs.none)

lemma edit_progress:
  "edit_jobs env (Progress i w pr m now) p (db_jobs db) (db_jobs (snd (update_progress env i w pr m now db)))"
proof (cases "leased_job db i w (observed env now) ''progress''")
  case (Inr j)
  then have j: "find_job i db = Some j" "has_active_lease j w (observed env now)" "wj_id j = i"
    by (auto simp: leased_job_Inr dest: find_job_id)
  have "progress_ok (max 0 (min 100 pr))" by (simp add: progress_ok_def)
  from edit_one [OF j(1) edit.progress [OF j(2) this]] j(3) show ?thesis
    unfolding update_progress_def Inr by simp blast
qed (auto simp: update_progress_def intro: edit_jobs.none)

lemma edit_checkpoint:
  assumes "checkpoint_job env i w pl res now db = Inr db'"
  shows "edit_jobs env (Checkpoint i w pl res now) p (db_jobs db) (db_jobs db')"
proof -
  from assms obtain j where j: "find_job i db = Some j" "has_active_lease j w (observed env now)" "wj_id j = i"
    and l: "leased_job db i w (observed env now) ''checkpoint'' = Inr j"
    by (auto simp: checkpoint_job_def Let_def result_bind_eq_Inr leased_job_Inr split: if_splits dest: find_job_id)
  have "db' = put_job env (j\<lparr>wj_payload := (case pl of None \<Rightarrow> wj_payload j | Some p \<Rightarrow> p),
      wj_result := (case res of None \<Rightarrow> wj_result j | Some r \<Rightarrow> the (redact_dict env r))\<rparr>) db"
    using assms l by (cases pl; cases res)
      (auto simp: checkpoint_job_def Let_def result_bind_eq_Inr split: option.splits if_splits)
  then show ?thesis using edit_one [OF j(1) edit.checkpoint [OF j(2)]] j(3) by blast
qed

lemma edit_finish:
  assumes "finish_job env i w res now db = Inr (j', db')"
  shows "edit_jobs env (Finish i w res now) p (db_jobs db) (db_jobs db')"
proof -
  from assms obtain j where j: "find_job i db = Some j" "has_active_lease j w (observed env now)" "wj_id j = i"
    and l: "leased_job db i w (observed env now) ''finish'' = Inr j"
    by (auto simp: finish_job_def Let_def result_bind_eq_Inr leased_job_Inr dest: find_job_id)
  from assms l have "\<exists>y. db_jobs db' = db_jobs (put_job env (clear_lease (j\<lparr>wj_status := SUCCEEDED, wj_result := y,
      wj_progress := 100, wj_finished_at := Some (observed env now)\<rparr>)) db)"
    by (auto simp: finish_job_def Let_def frame_simps split: option.splits)
  then show ?thesis using edit_one [OF j(1) edit.finish [OF j(2)]] j(3) by blast
qed

lemma edit_fail:
  assumes "fail_job env i w c code m at now db = Inr (j', db')"
  shows "edit_jobs env (Fail i w c code m at now) p (db_jobs db) (db_jobs db')"
proof -
  from assms obtain j where j: "find_job i db = Some j" "has_active_lease j w (observed env now)" "wj_id j = i"
    and l: "leased_job db i w (observed env now) ''fail'' = Inr j"
    by (auto simp: fail_job_def Let_def result_bind_eq_Inr leased_job_Inr dest: find_job_id)
  show ?thesis
  proof (cases "c = RETRYABLE \<and> wj_attempt_count j < wj_max_attempts j")
    case True
    then have "db_jobs db' = db_jobs (put_job env ((clear_lease (j\<lparr>wj_error_class := Some (job_error_class_value c),
        wj_error_code := Some (redact_text env code), wj_error_message := Some (redact_text env m)\<rparr>))
        \<lparr>wj_status := QUEUED, wj_scheduled_for := Some (case at of None \<Rightarrow> observed env now | Some r \<Rightarrow> r),
        wj_finished_at := None\<rparr>) db)"
      using assms l by (auto simp: fail_job_def Let_def frame_simps clear_lease_def simp del: job_error_class_value.simps)
    with True show ?thesis using edit_one [OF j(1) edit.fail_requeue [OF j(2)]] j(3) by blast
  next
    case False
    then have "db_jobs db' = db_jobs (put_job env ((clear_lease (j\<lparr>wj_error_class := Some (job_error_class_value c),
        wj_error_code := Some (redact_text env code), wj_error_message := Some (redact_text env m)\<rparr>))
        \<lparr>wj_status := (if c = REVIEW_CLASS then NEEDS_REVIEW else FAILED),
        wj_finished_at := Some (observed env now)\<rparr>) db)"
      using assms l by (auto simp: fail_job_def Let_def frame_simps clear_lease_def put_job_def split: if_splits)
    then show ?thesis using edit_one [OF j(1) edit.fail_end [OF j(2) False]] j(3) by blast
  qed
qed

lemma edit_retry:
  assumes "retry_job env i now db = Inr (j', db')"
  shows "edit_jobs env (Retry i now) p (db_jobs db) (db_jobs db')"
proof -
  from assms obtain j where j: "find_job i db = Some j" "wj_status j \<in> {FAILED, NEEDS_REVIEW}"
    by (auto simp: retry_job_def Let_def result_bind_eq_Inr split: option.splits if_splits)
  then have i: "wj_id j = i" by (auto dest: find_job_id)
  have "db_jobs db' = db_jobs (put_job env (clear_lease (j\<lparr>wj_status := QUEUED,
      wj_scheduled_for := Some (observed env now), wj_finished_at := None,
      wj_started_at := None, wj_progress := 0, wj_progress_message := None,
      wj_error_class := None, wj_error_code := None, wj_error_message := None\<rparr>)) db)"
    using assms j by (auto simp: retry_job_def Let_def result_bind_eq_Inr put_job_def frame_simps)
  then show ?thesis using edit_one [OF j(1) edit.retry [OF j(2)]] i by blast
qed

lemma edit_cancel:
  assumes "cancel_job env i now db = Inr (j', db')"
  shows "edit_jobs env (Cancel i now) p (db_jobs db) (db_jobs db')"
proof -
  from assms obtain j where j: "find_job i db = Some j" "wj_status j = QUEUED"
    by (auto simp: cancel_job_def Let_def split: option.splits if_splits)
  then have i: "wj_id j = i" by (auto dest: find_job_id)
  have "db_jobs db' = db_jobs (put_job env (j\<lparr>wj_status := CANCELLED, wj_finished_at := Some (observed env now)\<rparr>) db)"
    using assms j by (auto simp: cancel_job_def Let_def put_job_def frame_simps)
  then show ?thesis using edit_one [OF j(1) edit.cancel [OF j(2)]] i by blast
qed

lemma recover_job_frame [frame_simps]:
  "db_jobs (recover_job env d t j db) =
     db_jobs (put_job env (recovered (fst (sync_expired_publish_ambiguity env d t db)) t j) db)"
  by (simp add: recover_job_def Let_def split_beta frame_simps put_job_def sync_terminal_expired_lease_dependents_def)

lemma recovered_fields:
  "wj_id (recovered review t j) = wj_id j"
  "\<not> lease_expired t' (flush_job env k (recovered review t j))"
  by (simp_all add: recovered_def clear_lease_def lease_expired_def)

definition loop_inv :: "time \<Rightarrow> workflow_job list \<Rightarrow> db \<Rightarrow> bool" where
  "loop_inv t js db = (\<forall>i. find_job i db = find (\<lambda>r. wj_id r = i) js \<or>
     (\<exists>j. find_job i db = Some j \<and> \<not> lease_expired t j))"

lemma loop_inv_recover:
  assumes "loop_inv t js db" "find_job (wj_id j) db = Some j"
  shows "loop_inv t js (put_job env (recovered review t j) db)"
  unfolding loop_inv_def
proof
  fix i
  let ?j = "recovered review t j"
  show "find_job i (put_job env ?j db) = find (\<lambda>r. wj_id r = i) js \<or>
     (\<exists>k. find_job i (put_job env ?j db) = Some k \<and> \<not> lease_expired t k)"
  proof (cases "i = wj_id j")
    case True
    then have "find_job i (put_job env ?j db) = Some (flush_job env j ?j)"
      using assms(2) find_job_put [of ?j db j env] by (simp add: recovered_fields)
    then show ?thesis using recovered_fields(2) [of t env j review t j] by blast
  next
    case False
    then have "find_job i (put_job env ?j db) = find_job i db"
      by (simp add: find_job_put_other recovered_fields)
    then show ?thesis using assms(1) by (simp add: loop_inv_def)
  qed
qed

lemma loop_inv_cong: "db_jobs db = db_jobs db' \<Longrightarrow> loop_inv t js db = loop_inv t js db'"
  by (simp add: loop_inv_def find_job_def)

lemma edit_requeue_loop:
  "edit_jobs env (Requeue now) p js (db_jobs db) \<Longrightarrow> loop_inv (observed env now) js db \<Longrightarrow>
     edit_jobs env (Requeue now) p js (db_jobs (snd (requeue_loop env (observed env now) cs (n, db))))"
proof (induction cs arbitrary: n db)
  case (Cons c cs)
  let ?t = "observed env now"
  show ?case
  proof (cases "locked_expired_job env (wj_id c) db")
    case (Some j)
    then have c: "find_job (wj_id c) db = Some j" by (auto simp: locked_expired_job_def split: if_splits)
    then have "wj_id j = wj_id c" using find_job_id by blast
    with c have j: "find_job (wj_id j) db = Some j" by simp
    show ?thesis
    proof (cases "lease_expired ?t j")
      case True
      let ?d = "lock_expired_lease_dependents env (wj_id c) (wj_payload c) db"
      let ?j = "recovered (fst (sync_expired_publish_ambiguity env ?d ?t db)) ?t j"
      have "find (\<lambda>r. wj_id r = wj_id j) js = Some j"
        using Cons.prems(2) j True unfolding loop_inv_def by (metis option.inject)
      with j have "find (\<lambda>r. wj_id r = wj_id ?j) (db_jobs db) = Some j" "find (\<lambda>r. wj_id r = wj_id ?j) js = Some j"
        by (simp_all add: find_job_def recovered_fields)
      from edit_jobs.update [OF Cons.prems(1) this edit.requeue [OF True]]
      have "edit_jobs env (Requeue now) p js (db_jobs (recover_job env ?d ?t j db))"
        by (simp add: put_job_def frame_simps)
      moreover have "loop_inv ?t js (recover_job env ?d ?t j db)"
        using loop_inv_recover [OF Cons.prems(2) j] loop_inv_cong [OF recover_job_frame] by blast
      ultimately show ?thesis using True Some Cons.IH by (simp add: Let_def)
    qed (use Some Cons in \<open>simp add: Let_def\<close>)
  qed (use Cons in \<open>simp add: Let_def\<close>)
qed simp

lemma update_control_jobs [frame_simps]: "db_jobs (snd (update_control env pa d r now db)) = db_jobs db"
  by (simp add: update_control_def get_control_def Let_def split: option.split prod.split)

lemma map_sum_Inr: "map_sum id snd r = Inr y \<longleftrightarrow> (\<exists>x. r = Inr (x, y))"
  by (cases r) auto

text \<open>Every operation changes the table by edits only.\<close>

lemma run_op_edit:
  assumes "run_op env op db = Inr db'" "distinct (map wj_id (db_jobs db))"
  shows "edit_jobs env op (global_pause db) (db_jobs db) (db_jobs db')"
proof (cases op)
  case (Requeue now)
  have "loop_inv (observed env now) (db_jobs db) db" by (simp add: loop_inv_def find_job_def)
  with Requeue show ?thesis
    using assms edit_requeue_loop [OF edit_jobs.none, of env now db]
    by (auto simp: requeue_expired_leases_def Let_def)
qed (use assms in \<open>auto simp: frame_simps map_sum_Inr intro: edit_enqueue edit_claim edit_heartbeat edit_progress
      edit_checkpoint edit_finish edit_fail edit_retry edit_cancel edit_jobs.none\<close>)

section \<open>The fate of a row\<close>

lemma edit_jobs_row:
  assumes "edit_jobs env op p js ks" "find (\<lambda>r. wj_id r = i) js = Some j"
  shows "find (\<lambda>r. wj_id r = i) ks = Some j \<or>
    (\<exists>j'. edit env op p j j' \<and> find (\<lambda>r. wj_id r = i) ks = Some (flush_job env j j'))"
  using assms
proof (induction rule: edit_jobs.induct)
  case (update env op p js ks j' k)
  show ?case
  proof (cases "i = wj_id j'")
    case True
    then have "k = j" using update by simp
    then show ?thesis
      using update find_set_rows_same [of wj_id "wj_id j'" "\<lambda>r. flush_job env r j'" ks] True by auto
  next
    case False
    then show ?thesis
      using update find_set_rows_other [of wj_id "wj_id j'" "\<lambda>r. flush_job env r j'" i ks] by auto
  qed
qed (auto simp: find_append)

lemma run_op_row:
  assumes "run_op env op db = Inr db'" "distinct (map wj_id (db_jobs db))" "find_job i db = Some j"
  shows "find_job i db' = Some j \<or>
    (\<exists>j'. edit env op (global_pause db) j j' \<and> find_job i db' = Some (flush_job env j j'))"
  using edit_jobs_row [OF run_op_edit [OF assms(1,2)]] assms(3) by (simp add: find_job_def)

section \<open>The invariant\<close>

text \<open>
  A well-formed job: the lease columns are set exactly while it runs, the finish time
  exactly in the four states a worker does not touch, the progress is a percentage.
\<close>

definition job_ok :: "workflow_job \<Rightarrow> bool" where
  "job_ok j =
     ((wj_lease_owner j \<noteq> None) = (wj_status j = RUNNING) \<and>
      (wj_lease_expires_at j \<noteq> None) = (wj_status j = RUNNING) \<and>
      (wj_heartbeat_at j \<noteq> None) = (wj_status j = RUNNING) \<and>
      (wj_finished_at j \<noteq> None) = (wj_status j \<in> {SUCCEEDED, FAILED, NEEDS_REVIEW, CANCELLED}) \<and>
      progress_ok (wj_progress j) \<and> (wj_status j = SUCCEEDED \<longrightarrow> wj_progress j = 100) \<and>
      0 \<le> wj_attempt_count j \<and> (wj_status j = RUNNING \<longrightarrow> 0 < wj_attempt_count j))"

definition queue_ok :: "workflow_job list \<Rightarrow> bool" where
  "queue_ok js = (distinct (map wj_id js) \<and> distinct (map wj_idempotency_key js) \<and> list_all job_ok js)"

lemma job_ok_flush: "job_ok (flush_job env old new) = job_ok new"
  by (simp add: flush_job_def job_ok_def)

lemma edit_ok:
  assumes "edit env op p j j'" "job_ok j"
  shows "job_ok j'"
  using assms
  by (cases rule: edit.cases)
    (simp_all add: job_ok_def claimed_def clear_lease_def recovered_def claimable_def has_active_lease_def
      lease_expired_def progress_ok_def)

lemma new_job_ok: "job_ok (new_job env i r t)"
  by (simp add: job_ok_def new_job_def progress_ok_def)

lemma edit_jobs_ok:
  assumes "edit_jobs env op p js ks" "queue_ok js"
  shows "queue_ok ks"
  using assms
proof (induction rule: edit_jobs.induct)
  case (update env op p js ks j' j)
  then have ok: "queue_ok ks" by simp
  have j: "j \<in> set ks" "wj_id j = wj_id j'" "wj_idempotency_key j = wj_idempotency_key j'"
    using update find_Some_in edit_id by metis+
  have keys: "wj_idempotency_key r = wj_idempotency_key j'" if "r \<in> set ks" "wj_id r = wj_id j'" for r
    using that j ok eq_key_imp_eq_value by (metis distinct_map inj_onD queue_ok_def)
  have "job_ok j'" using update edit_ok j ok by (auto simp: queue_ok_def list_all_iff)
  then show ?case
    using ok keys
    by (auto simp: queue_ok_def list_all_iff in_set_rows job_ok_flush map_set_rows)
next
  case (insert env r p js ks i t)
  have "wj_id (new_job env i r t) = i" "wj_idempotency_key (new_job env i r t) = eq_idempotency_key r"
    by (simp_all add: new_job_def)
  with insert new_job_ok show ?case by (auto simp: queue_ok_def)
qed simp

lemma run_op_ok: "run_op env op db = Inr db' \<Longrightarrow> queue_ok (db_jobs db) \<Longrightarrow> queue_ok (db_jobs db')"
  using edit_jobs_ok [OF run_op_edit] by (simp add: queue_ok_def)

lemma queue_reach_ok: "queue_reach db \<Longrightarrow> queue_ok (db_jobs db)"
  by (induction rule: queue_reach.induct) (auto simp: queue_ok_def elim!: queue_step.cases dest: run_op_ok)

text \<open>
  C1: in every database the queue's operations can reach, in any order, by any callers, with
  any clock values, no two jobs share an id or an idempotency key, a job carries a lease exactly
  while it is running, a finish time exactly once it has ended, a progress between 0 and 100, and
  a running job has been claimed at least once.
\<close>

theorem reachable_queue_invariant:
  assumes "queue_reach db"
  shows "distinct (map wj_id (db_jobs db)) \<and> distinct (map wj_idempotency_key (db_jobs db)) \<and>
    (\<forall>j\<in>set (db_jobs db).
       (wj_status j = RUNNING \<longleftrightarrow> wj_lease_owner j \<noteq> None) \<and>
       (wj_status j = RUNNING \<longleftrightarrow> wj_lease_expires_at j \<noteq> None) \<and>
       (wj_finished_at j \<noteq> None \<longleftrightarrow> wj_status j \<notin> {QUEUED, RUNNING}) \<and>
       0 \<le> wj_progress j \<and> wj_progress j \<le> 100 \<and>
       (wj_status j = RUNNING \<longrightarrow> 0 < wj_attempt_count j))"
proof -
  from queue_reach_ok [OF assms] have ok: "queue_ok (db_jobs db)" .
  moreover have "(wj_finished_at j \<noteq> None) = (wj_status j \<notin> {QUEUED, RUNNING})" if "job_ok j" for j
    using that by (cases "wj_status j") (simp_all add: job_ok_def)
  ultimately show ?thesis by (auto simp: queue_ok_def list_all_iff job_ok_def progress_ok_def)
qed

section \<open>The abstract life cycle\<close>

fun next_status :: "job_status \<Rightarrow> job_status set" where
  "next_status QUEUED = {RUNNING, CANCELLED}"
| "next_status RUNNING = {QUEUED, SUCCEEDED, FAILED, NEEDS_REVIEW}"
| "next_status FAILED = {QUEUED}"
| "next_status NEEDS_REVIEW = {QUEUED}"
| "next_status SUCCEEDED = {}"
| "next_status CANCELLED = {}"

lemma edit_status:
  assumes "edit env op p j j'"
  shows "wj_status j' = wj_status j \<or> wj_status j' \<in> next_status (wj_status j)"
  using assms
  by (cases rule: edit.cases)
    (auto simp: claimed_def claimable_def has_active_lease_def clear_lease_def recovered_def lease_expired_def)

lemma edit_closed:
  assumes "edit env op p j j'" "wj_status j \<in> {SUCCEEDED, CANCELLED}"
  shows "\<exists>t. j' = j\<lparr>wj_scheduled_for := Some t\<rparr> \<and> wj_scheduled_for j = None"
  using assms
  by (cases rule: edit.cases) (auto simp: claimable_def has_active_lease_def lease_expired_def)

text \<open>
  C5: every operation refines the abstract life cycle.  Whatever one does, a job that exists
  before a successful operation still exists after it, and its status is unchanged or takes one
  edge of the life cycle; no operation ever removes a job, changes its key or moves a succeeded or
  cancelled job.
\<close>

theorem operations_refine_life_cycle:
  assumes "queue_reach db" "run_op env op db = Inr db'" "find_job i db = Some j"
  shows "\<exists>j'. find_job i db' = Some j' \<and> wj_idempotency_key j' = wj_idempotency_key j \<and>
    (wj_status j' = wj_status j \<or> wj_status j' \<in> next_status (wj_status j))"
proof -
  have "distinct (map wj_id (db_jobs db))" using queue_reach_ok [OF assms(1)] by (simp add: queue_ok_def)
  from run_op_row [OF assms(2) this assms(3)] show ?thesis
  proof (elim disjE exE conjE)
    fix j' assume e: "edit env op (global_pause db) j j'" "find_job i db' = Some (flush_job env j j')"
    from edit_status [OF e(1)] edit_id [OF e(1)] show ?thesis
      by (intro exI [of _ "flush_job env j j'"]) (simp add: e(2))
  qed simp
qed

section \<open>Sequences of transactions\<close>

fun run_ops :: "(env \<times> queue_op) list \<Rightarrow> db \<Rightarrow> db" where
  "run_ops [] db = db"
| "run_ops ((env, op) # ops) db = run_ops ops (apply_op env op db)"

fun op_worker :: "queue_op \<Rightarrow> string option" where
  "op_worker (Heartbeat i w l p m now) = Some w"
| "op_worker (Progress i w p m now) = Some w"
| "op_worker (Checkpoint i w p r now) = Some w"
| "op_worker (Finish i w r now) = Some w"
| "op_worker (Fail i w c code m at now) = Some w"
| "op_worker _ = None"

fun op_time :: "env \<Rightarrow> queue_op \<Rightarrow> time" where
  "op_time env (Requeue now) = observed env now"
| "op_time env _ = env_now env"

lemma apply_op_ok: "queue_ok (db_jobs db) \<Longrightarrow> queue_ok (db_jobs (apply_op env op db))"
  by (auto simp: apply_op_def dest: run_op_ok split: sum.split)

lemma apply_op_row:
  assumes "queue_ok (db_jobs db)" "find_job i db = Some j"
  shows "find_job i (apply_op env op db) = Some j \<or>
    (\<exists>j'. edit env op (global_pause db) j j' \<and> find_job i (apply_op env op db) = Some (flush_job env j j'))"
proof (cases "run_op env op db")
  case (Inr db')
  have "distinct (map wj_id (db_jobs db))" using assms(1) by (simp add: queue_ok_def)
  from run_op_row [OF Inr this assms(2)] show ?thesis by (simp add: apply_op_def Inr)
qed (simp add: apply_op_def assms)

text \<open>The part of a row that belongs to the lease holder.\<close>

definition holder_view :: "workflow_job \<Rightarrow> string option \<times> time option \<times> job_status \<times> int \<times> pydict \<times> pydict \<times> int" where
  "holder_view j = (wj_lease_owner j, wj_lease_expires_at j, wj_status j, wj_attempt_count j,
     wj_payload j, wj_result j, wj_progress j)"

lemma holder_view_flush: "holder_view (flush_job env old new) = holder_view new"
  by (simp add: holder_view_def flush_job_def)

lemma edit_other:
  assumes "edit env op p j j'" "wj_status j = RUNNING" "wj_lease_owner j = Some w" "wj_lease_expires_at j = Some e"
    and "op_worker op \<noteq> Some w" "op_time env op < e"
  shows "holder_view j' = holder_view j"
  using assms
  by (cases rule: edit.cases) (auto simp: claimable_def has_active_lease_def lease_expired_def holder_view_def)

text \<open>
  C2: mutual exclusion of workers.  While a job is leased, no sequence of transactions of other
  callers, and no recovery sweep observed before the expiry, changes its owner, expiry, status,
  attempt count, payload, result or progress; in particular nobody else can claim, finish or fail it.
\<close>

theorem lease_is_exclusive:
  assumes "queue_ok (db_jobs db)" "find_job i db = Some j" "wj_status j = RUNNING"
    and "wj_lease_owner j = Some w" "wj_lease_expires_at j = Some e"
    and "\<forall>(env, op)\<in>set ops. op_worker op \<noteq> Some w \<and> op_time env op < e"
  shows "\<exists>j'. find_job i (run_ops ops db) = Some j' \<and> holder_view j' = holder_view j"
  using assms
proof (induction ops arbitrary: db j)
  case (Cons eo ops)
  obtain env op where eo: "eo = (env, op)" by force
  have op: "op_worker op \<noteq> Some w" "op_time env op < e" using Cons.prems(6) eo by auto
  obtain k where k: "find_job i (apply_op env op db) = Some k" "holder_view k = holder_view j"
    using apply_op_row [OF Cons.prems(1,2), of env op] edit_other [OF _ Cons.prems(3-5) op]
    by (auto simp: holder_view_flush)
  then have "wj_status k = RUNNING" "wj_lease_owner k = Some w" "wj_lease_expires_at k = Some e"
    using Cons.prems by (simp_all add: holder_view_def)
  from Cons.IH [OF apply_op_ok [OF Cons.prems(1)] k(1) this] Cons.prems(6) k(2)
  show ?case by (simp add: eo)
qed auto

section \<open>The attempt budget\<close>

definition in_budget :: "workflow_job \<Rightarrow> bool" where
  "in_budget j = (wj_attempt_count j \<le> wj_max_attempts j \<and>
     (wj_status j = QUEUED \<longrightarrow> wj_attempt_count j < wj_max_attempts j))"

fun budgeted_op :: "queue_op \<Rightarrow> bool" where
  "budgeted_op (Enqueue r) = (1 \<le> eq_max_attempts r)"
| "budgeted_op (Retry i now) = False"
| "budgeted_op _ = True"

lemma edit_budget:
  assumes "edit env op p j j'" "in_budget j" "budgeted_op op"
  shows "in_budget j'"
  using assms
  by (cases rule: edit.cases) (auto simp: in_budget_def claimed_def claimable_def clear_lease_def recovered_def)

lemma edit_jobs_budget:
  assumes "edit_jobs env op p js ks" "list_all in_budget js" "budgeted_op op"
  shows "list_all in_budget ks"
  using assms
proof (induction rule: edit_jobs.induct)
  case (update env op p js ks j' j)
  then have "in_budget j" using find_Some_in by (fastforce simp: list_all_iff)
  then have "in_budget j'" using update edit_budget by blast
  with update show ?case by (auto simp: list_all_iff in_set_rows in_budget_def)
qed (auto simp: new_job_def in_budget_def)

text \<open>
  C27: as long as no operator retries a job, a job enqueued with a positive budget is never
  claimed more often than \<open>max_attempts\<close> says, whatever workers, failures and lease recoveries do,
  and a job waiting in the queue always has an attempt left.
\<close>

theorem attempts_stay_in_budget:
  assumes "db_jobs db0 = []" "\<forall>(env, op)\<in>set ops. budgeted_op op"
  shows "\<forall>j\<in>set (db_jobs (run_ops ops db0)). wj_attempt_count j \<le> wj_max_attempts j \<and>
    (wj_status j = QUEUED \<longrightarrow> wj_attempt_count j < wj_max_attempts j)"
proof -
  have "queue_ok (db_jobs db) \<Longrightarrow> list_all in_budget (db_jobs db) \<Longrightarrow> \<forall>(env, op)\<in>set ops. budgeted_op op \<Longrightarrow>
      list_all in_budget (db_jobs (run_ops ops db))" for db
  proof (induction ops arbitrary: db)
    case (Cons eo ops)
    obtain env op where eo: "eo = (env, op)" by force
    have "list_all in_budget (db_jobs (apply_op env op db))"
    proof (cases "run_op env op db")
      case (Inr db')
      have "distinct (map wj_id (db_jobs db))" using Cons.prems(1) by (simp add: queue_ok_def)
      from edit_jobs_budget [OF run_op_edit [OF Inr this]] Cons.prems eo show ?thesis by (simp add: apply_op_def Inr)
    qed (use Cons.prems in \<open>simp add: apply_op_def\<close>)
    with Cons.IH [OF apply_op_ok [OF Cons.prems(1)]] Cons.prems(3) show ?case by (simp add: eo)
  qed simp
  from this [of db0] assms show ?thesis by (simp add: queue_ok_def list_all_iff in_budget_def)
qed

section \<open>Claiming\<close>

lemma sorted_hd_least:
  assumes "sort_key f xs = k # ks" "x \<in> set xs"
  shows "f k \<le> f x"
proof -
  have "sorted (map f (k # ks))" using sorted_sort_key [of f xs] assms(1) by simp
  moreover have "x \<in> set (k # ks)" using assms by (metis set_sort)
  ultimately show ?thesis by auto
qed

text \<open>
  C28: a claim returns the most urgent job that may run.  The job was queued, due and of an
  allowed type; under a global pause it is a manual job that is not pause-sensitive; no other such
  job that is not locked elsewhere has a higher priority, or the same priority and an earlier due time (an
  unset one counting as earliest), or equal both and an earlier creation.  The row it returns is running, leased to the
  caller until \<open>lease_seconds\<close> after the observed time, and counts one attempt more.
\<close>

theorem claim_takes_the_first_job:
  assumes "queue_ok (db_jobs db)" "claim_next_job env w l a now db = (Some j, db')"
  shows "\<exists>k. find_job (wj_id k) db = Some k \<and> wj_id j = wj_id k \<and> wj_status k = QUEUED \<and>
    (\<forall>t. wj_scheduled_for k = Some t \<longrightarrow> t \<le> observed env now) \<and> (\<forall>ts. a = Some ts \<longrightarrow> wj_job_type k \<in> set ts) \<and>
    (global_pause db \<longrightarrow> wj_origin k = ''manual'' \<and> \<not> wj_pause_sensitive k) \<and>
    (\<forall>x\<in>set (db_jobs db). claimable a (global_pause db) (observed env now) x \<and> \<not> env_locked env (wj_id x) \<longrightarrow>
       wj_priority x < wj_priority k \<or> wj_priority x = wj_priority k \<and> (wj_scheduled_for k < wj_scheduled_for x \<or>
         wj_scheduled_for k = wj_scheduled_for x \<and> wj_created_at k \<le> wj_created_at x)) \<and>
    find_job (wj_id k) db' = Some j \<and> has_active_lease j w (observed env now + seconds l - 1) \<and>
    wj_attempt_count j = wj_attempt_count k + 1"
proof -
  from claim_Some [OF assms(2)] obtain k ks where k:
    "claim_candidates env a (global_pause db) (observed env now) db = k # ks"
    "j = flush_job env k (claimed w l (observed env now) k)"
    "db_jobs db' = db_jobs (put_job env (claimed w l (observed env now) k) db)"
    "k \<in> set (db_jobs db)" "claimable a (global_pause db) (observed env now) k" by blast
  have id: "wj_id (claimed w l (observed env now) k) = wj_id k" by (simp add: claimed_def)
  have f: "find_job (wj_id k) db = Some k" using k(4) assms(1) by (simp add: find_job_def find_unique queue_ok_def)
  have "find_job (wj_id k) db' = find_job (wj_id k) (put_job env (claimed w l (observed env now) k) db)"
    using k(3) by (simp add: find_job_def)
  then have "find_job (wj_id k) db' = Some j" using find_job_put [of "claimed w l (observed env now) k" db k env] f k(2) id by simp
  moreover have "has_active_lease j w (observed env now + seconds l - 1)" "wj_attempt_count j = wj_attempt_count k + 1"
    using k(2) by (simp_all add: has_active_lease_def claimed_def)
  moreover have "wj_priority x < wj_priority k \<or> wj_priority x = wj_priority k \<and> (wj_scheduled_for k < wj_scheduled_for x \<or>
         wj_scheduled_for k = wj_scheduled_for x \<and> wj_created_at k \<le> wj_created_at x)"
    if "x \<in> set (db_jobs db)" "claimable a (global_pause db) (observed env now) x" "\<not> env_locked env (wj_id x)" for x
    using sorted_hd_least [OF k(1) [unfolded claim_candidates_def], of x] that by (auto simp: claim_order_def)
  moreover have "wj_status k = QUEUED" "\<forall>t. wj_scheduled_for k = Some t \<longrightarrow> t \<le> observed env now"
    "\<forall>ts. a = Some ts \<longrightarrow> wj_job_type k \<in> set ts" "global_pause db \<longrightarrow> wj_origin k = ''manual'' \<and> \<not> wj_pause_sensitive k"
    using k(5) by (auto simp: claimable_def)
  moreover have "wj_id j = wj_id k" using k(2) id by simp
  ultimately show ?thesis using f by (intro exI [of _ k]) blast
qed

end
