(* ===== verification/Enqueue_Contract.thy ===== *)
theory Enqueue_Contract
  imports Job_Repository
begin

text \<open>
  What the clients of the job queue rely on when they enqueue: the contract of \<open>enqueue_job\<close>, and what
  follows for a client that enqueues any number of requests and otherwise leaves the job table alone.
\<close>

text \<open>A client's run; the list tells, in order, which of its requests created a job.\<close>

inductive enqueue_run ::
  "(enqueue_request \<Rightarrow> 'd \<Rightarrow> job_error + (workflow_job \<times> bool) \<times> 'd) \<Rightarrow> ('d \<Rightarrow> 'd \<Rightarrow> bool) \<Rightarrow> 'd \<Rightarrow> bool list \<Rightarrow> 'd \<Rightarrow> bool"
  for enq silent where
  stop: "enqueue_run enq silent d [] d"
| silent: "enqueue_run enq silent d cs d1 \<Longrightarrow> silent d1 d' \<Longrightarrow> enqueue_run enq silent d cs d'"
| enqueue: "enqueue_run enq silent d cs d1 \<Longrightarrow> enq r d1 = Inr ((j, c), d') \<Longrightarrow> enqueue_run enq silent d (cs @ [c]) d'"

inductive_cases enqueue_runE: "enqueue_run enq silent d cs d'"

lemma enqueue_run_trans:
  assumes "enqueue_run enq silent d cs d1" "enqueue_run enq silent d1 ds d'"
  shows "enqueue_run enq silent d (cs @ ds) d'"
  using assms(2,1)
proof (induction rule: enqueue_run.induct)
  case (enqueue d2 ds d3 r j c d')
  then show ?case using enqueue_run.enqueue [of enq silent d "cs @ ds" d3 r j c d'] by simp
qed (simp_all add: enqueue_run.silent)

locale enqueue_contract =
  fixes enq :: "enqueue_request \<Rightarrow> 'd \<Rightarrow> job_error + (workflow_job \<times> bool) \<times> 'd"
    and silent :: "'d \<Rightarrow> 'd \<Rightarrow> bool"
    and ok :: "'d \<Rightarrow> bool"
    and key_job :: "string \<Rightarrow> 'd \<Rightarrow> uuid option"
    and jobs :: "'d \<Rightarrow> nat"
  assumes silent_ok: "silent d d' \<Longrightarrow> ok d \<Longrightarrow> ok d'"
    and silent_same: "silent d d' \<Longrightarrow> key_job k d' = key_job k d \<and> jobs d' = jobs d"
    and enq_ok: "ok d \<Longrightarrow> enq r d = Inr ((j, c), d') \<Longrightarrow> ok d'"
    and enq_found: "ok d \<Longrightarrow> enq r d = Inr ((j, c), d') \<Longrightarrow> key_job (eq_idempotency_key r) d' = Some (wj_id j)"
    and enq_created: "ok d \<Longrightarrow> enq r d = Inr ((j, c), d') \<Longrightarrow> c \<longleftrightarrow> key_job (eq_idempotency_key r) d = None"
    and enq_kept: "ok d \<Longrightarrow> enq r d = Inr ((j, c), d') \<Longrightarrow> key_job k d = Some i \<Longrightarrow> key_job k d' = Some i"
    and enq_jobs: "ok d \<Longrightarrow> enq r d = Inr ((j, c), d') \<Longrightarrow> jobs d' = jobs d + (if c then 1 else 0)"
begin

lemma run_ok: "enqueue_run enq silent d cs d' \<Longrightarrow> ok d \<Longrightarrow> ok d'"
  by (induction rule: enqueue_run.induct) (auto intro: silent_ok enq_ok)

lemma run_jobs: "enqueue_run enq silent d cs d' \<Longrightarrow> ok d \<Longrightarrow> jobs d' = jobs d + length (filter id cs)"
proof (induction rule: enqueue_run.induct)
  case (enqueue d cs d1 r j c d')
  then show ?case using enq_jobs [OF run_ok] by simp
qed (simp_all add: silent_same)

lemma run_kept: "enqueue_run enq silent d cs d' \<Longrightarrow> ok d \<Longrightarrow> key_job k d = Some i \<Longrightarrow> key_job k d' = Some i"
proof (induction rule: enqueue_run.induct)
  case (enqueue d cs d1 r j c d')
  then show ?case using enq_kept [OF run_ok] by blast
qed (simp_all add: silent_same)

text \<open>A request that was enqueued once is answered with the same job from then on, and creates nothing.\<close>

lemma run_answers:
  assumes "ok d" "enq r d = Inr ((j, c), d1)" "enqueue_run enq silent d1 cs d2" "enq r' d2 = Inr ((j', c'), d3)"
    and "eq_idempotency_key r' = eq_idempotency_key r"
  shows "\<not> c' \<and> wj_id j' = wj_id j"
proof -
  note ok1 = enq_ok [OF assms(1,2)] and found = enq_found [OF assms(1,2)]
  note ok2 = run_ok [OF assms(3) ok1]
  have k: "key_job (eq_idempotency_key r') d2 = Some (wj_id j)" using run_kept [OF assms(3) ok1 found] assms(5) by simp
  then have "\<not> c'" using enq_created [OF ok2 assms(4)] by simp
  moreover have "wj_id j' = wj_id j" using enq_kept [OF ok2 assms(4) k] enq_found [OF ok2 assms(4)] by simp
  ultimately show ?thesis by blast
qed

end

end
