(* ===== verification/Job_Enqueue.thy ===== *)
theory Job_Enqueue
  imports Job_Queue Enqueue_Contract
begin

text \<open>
  Enqueueing: the idempotency contract of \<open>enqueue_job\<close> and the bound the capability gate puts on
  the queue.
\<close>

section \<open>Enqueueing is idempotent\<close>

lemma existing_none: "existing_job_result env key t db = None \<longleftrightarrow> find_key key db = None"
  by (auto simp: existing_job_result_def Let_def split: option.split)

lemma find_key_seq [simp]: "find_key k (db\<lparr>db_seq := n\<rparr>) = find_key k db"
  by (simp add: find_key_def)

lemma existing_key:
  assumes "existing_job_result env key t db = Some ((j, c), db')" "distinct (map wj_id (db_jobs db))"
  shows "\<not> c \<and> (\<exists>k. find_key key db = Some k \<and> wj_id j = wj_id k \<and> length (db_jobs db') = length (db_jobs db) \<and>
     find_key key db' = Some j \<and> db_events db' = db_events db)"
proof -
  obtain k where k: "find_key key db = Some k" using assms by (auto simp: existing_job_result_def split: option.splits)
  show ?thesis
  proof (cases "wj_scheduled_for k = None")
    case True
    let ?k = "k\<lparr>wj_scheduled_for := Some t\<rparr>"
    have "find_key key (put_job env ?k db) = Some (flush_job env k ?k)"
    proof -
      have "distinct (map wj_id js) \<Longrightarrow> find (\<lambda>j. wj_idempotency_key j = key) js = Some k \<Longrightarrow>
          find (\<lambda>j. wj_idempotency_key j = key) (set_rows (\<lambda>r. wj_id r = wj_id k) (\<lambda>r. flush_job env r ?k) js) =
            Some (flush_job env k ?k)" for js
      proof (induction js)
        case (Cons r js)
        then show ?case
        proof (cases "wj_idempotency_key r = key")
          case False
          with Cons.prems have "find (\<lambda>j. wj_idempotency_key j = key) js = Some k" by simp
          then have "k \<in> set js" by (auto dest: find_Some_in)
          with Cons.prems have "wj_id r \<noteq> wj_id k" by auto
          with False Cons show ?thesis by (simp add: row_simps)
        qed (simp add: row_simps)
      qed simp
      then show ?thesis using k assms(2) by (simp add: find_key_def put_job_def)
    qed
    then show ?thesis using k True assms(1)
      by (auto simp: existing_job_result_def Let_def frame_simps) (simp add: put_job_def)
  next
    case False
    then show ?thesis using k assms(1) by (auto simp: existing_job_result_def)
  qed
qed

lemma new_job_key [simp]: "wj_idempotency_key (new_job env i r t) = eq_idempotency_key r"
  by (simp add: new_job_def)

lemma insert_job_cases:
  assumes "insert_job env r t db = Inr ((j, c), db')" "distinct (map wj_id (db_jobs db))"
  shows "find_key (eq_idempotency_key r) db' = Some j \<and>
    (case find_key (eq_idempotency_key r) db of
       None \<Rightarrow> c \<and> db_jobs db' = db_jobs db @ [j] \<and> j = new_job env (env_uuid env (db_seq db)) r t
     | Some k \<Rightarrow> \<not> c \<and> wj_id j = wj_id k \<and> length (db_jobs db') = length (db_jobs db) \<and> db_events db' = db_events db)"
proof (cases "existing_job_result env (eq_idempotency_key r) t (db\<lparr>db_seq := Suc (db_seq db)\<rparr>)")
  case (Some res)
  then have "existing_job_result env (eq_idempotency_key r) t (db\<lparr>db_seq := Suc (db_seq db)\<rparr>) = Some ((j, c), db')"
    using assms by (simp add: insert_job_def)
  from existing_key [OF this] assms(2) show ?thesis by auto
next
  case None
  then have k: "find_key (eq_idempotency_key r) db = None" by (simp add: existing_none)
  with None assms have "c" "j = new_job env (env_uuid env (db_seq db)) r t" "db_jobs db' = db_jobs db @ [j]"
    by (auto simp: insert_job_def frame_simps Let_def split: if_splits)
  with k show ?thesis by (simp add: find_key_def find_append)
qed

lemma enqueue_cases:
  assumes "queue_ok (db_jobs db)" "enqueue_job env r db = Inr ((j, c), db')"
  shows "find_key (eq_idempotency_key r) db' = Some j \<and>
    (case find_key (eq_idempotency_key r) db of
       None \<Rightarrow> c \<and> db_jobs db' = db_jobs db @ [j] \<and>
         j = new_job env (env_uuid env (db_seq db)) r (observed env (eq_scheduled_for r)) \<and>
         require_available_job_type env (eq_job_type r) db = Inr ()
     | Some k \<Rightarrow> \<not> c \<and> wj_id j = wj_id k \<and> length (db_jobs db') = length (db_jobs db) \<and> db_events db' = db_events db)"
proof -
  have d: "distinct (map wj_id (db_jobs db))" using assms(1) by (simp add: queue_ok_def)
  let ?e = "observed env (eq_scheduled_for r)"
  show ?thesis
  proof (cases "env_gate env")
    case None
    then have "insert_job env r ?e db = Inr ((j, c), db')" "require_available_job_type env (eq_job_type r) db = Inr ()"
      using assms(2) by (simp_all add: enqueue_job_def require_available_job_type_def Let_def)
    with insert_job_cases [OF this(1) d] show ?thesis by (simp split: option.splits)
  next
    case (Some g)
    show ?thesis
    proof (cases "existing_job_result env (eq_idempotency_key r) ?e db")
      case None
      with Some have "insert_job env r ?e db = Inr ((j, c), db')" "require_available_job_type env (eq_job_type r) db = Inr ()"
        using assms(2) by (auto simp: enqueue_job_def Let_def result_bind_eq_Inr)
      with insert_job_cases [OF this(1) d] show ?thesis by (simp split: option.splits)
    next
      case (Some res)
      with \<open>env_gate env = Some g\<close> assms(2)
      have "existing_job_result env (eq_idempotency_key r) ?e db = Some ((j, c), db')" by (simp add: enqueue_job_def Let_def)
      from existing_key [OF this d] show ?thesis by auto
    qed
  qed
qed

lemma enqueue_again:
  assumes "distinct (map wj_id (db_jobs db))" "find_key (eq_idempotency_key r) db = Some j"
  shows "\<exists>j' db'. enqueue_job env r db = Inr ((j', False), db') \<and> wj_id j' = wj_id j"
proof -
  have ex: "\<exists>j' db'. existing_job_result env (eq_idempotency_key r) t db1 = Some ((j', False), db') \<and> wj_id j' = wj_id j"
    if "db1 = db \<or> db1 = db\<lparr>db_seq := Suc (db_seq db)\<rparr>" for t db1
  proof -
    have f: "find_key (eq_idempotency_key r) db1 = Some j" "distinct (map wj_id (db_jobs db1))"
      using assms that by auto
    then obtain j' c' db2 where e: "existing_job_result env (eq_idempotency_key r) t db1 = Some ((j', c'), db2)"
      using existing_none [of env "eq_idempotency_key r" t db1] by (metis not_Some_eq prod.exhaust)
    from existing_key [OF e f(2)] f(1) e show ?thesis by auto
  qed
  show ?thesis
  proof (cases "env_gate env")
    case None
    then show ?thesis using ex [of "db\<lparr>db_seq := Suc (db_seq db)\<rparr>" "observed env (eq_scheduled_for r)"]
      by (auto simp: enqueue_job_def insert_job_def Let_def)
  next
    case (Some g)
    then show ?thesis using ex [of db "observed env (eq_scheduled_for r)"] by (auto simp: enqueue_job_def Let_def)
  qed
qed

section \<open>The contract of enqueueing\<close>

definition key_job :: "string \<Rightarrow> db \<Rightarrow> uuid option" where
  "key_job k db = map_option wj_id (find_key k db)"

definition same_jobs :: "db \<Rightarrow> db \<Rightarrow> bool" where
  "same_jobs db db' = (db_jobs db' = db_jobs db)"

lemma enqueue_result:
  assumes "queue_ok (db_jobs db)" "enqueue_job env r db = Inr ((j, c), db')"
  shows "queue_ok (db_jobs db')" "key_job (eq_idempotency_key r) db' = Some (wj_id j)"
    "c \<longleftrightarrow> key_job (eq_idempotency_key r) db = None" "length (db_jobs db') = length (db_jobs db) + (if c then 1 else 0)"
proof -
  note cs = enqueue_cases [OF assms]
  have "run_op env (Enqueue r) db = Inr db'" using assms(2) by simp
  then show "queue_ok (db_jobs db')" using run_op_ok assms(1) by blast
  show "key_job (eq_idempotency_key r) db' = Some (wj_id j)" using cs by (simp add: key_job_def)
  show "c \<longleftrightarrow> key_job (eq_idempotency_key r) db = None" using cs by (auto simp: key_job_def split: option.splits)
  show "length (db_jobs db') = length (db_jobs db) + (if c then 1 else 0)" using cs by (auto split: option.splits)
qed

lemma find_key_by_id:
  assumes "distinct (map wj_idempotency_key js)" "j \<in> set js" "wj_idempotency_key j = k"
  shows "find (\<lambda>j. wj_idempotency_key j = k) js = Some j"
  using find_unique [OF assms(1,2)] assms(3) by simp

text \<open>A job keeps its key, whatever the operation.\<close>

lemma run_op_key_job:
  assumes "queue_ok (db_jobs db)" "run_op env op db = Inr db'" "key_job k db = Some i"
  shows "key_job k db' = Some i"
proof -
  from assms(3) obtain j where j: "find_key k db = Some j" "wj_id j = i" by (auto simp: key_job_def)
  then have "j \<in> set (db_jobs db)" "wj_idempotency_key j = k" unfolding find_key_def using find_Some_in by fastforce+
  then have "find_job i db = Some j" using find_unique [of wj_id "db_jobs db" j] assms(1) j(2)
    by (simp add: find_job_def queue_ok_def)
  from run_op_row [OF assms(2) _ this] edit_id assms(1) obtain j' where
    j': "find_job i db' = Some j'" "wj_idempotency_key j' = k" "wj_id j' = i"
    using \<open>wj_idempotency_key j = k\<close> j(2) by (metis find_job_id flush_job_simps(1,7) queue_ok_def)
  moreover have "j' \<in> set (db_jobs db')" using j'(1) find_job_id by blast
  ultimately have "find_key k db' = Some j'"
    unfolding find_key_def using find_key_by_id [OF _ _ j'(2)] run_op_ok [OF assms(2,1)] by (simp add: queue_ok_def)
  then show ?thesis using j'(3) by (simp add: key_job_def)
qed

interpretation queue: enqueue_contract "enqueue_job env" same_jobs "\<lambda>db. queue_ok (db_jobs db)" key_job
  "\<lambda>db. length (db_jobs db)" for env
proof
  show "queue_ok (db_jobs d')" if "same_jobs d d'" "queue_ok (db_jobs d)" for d d' using that by (simp add: same_jobs_def)
  show "key_job k d' = key_job k d \<and> length (db_jobs d') = length (db_jobs d)" if "same_jobs d d'" for d d' k
    using that by (simp add: same_jobs_def key_job_def find_key_def)
  show "key_job k d' = Some i"
    if "queue_ok (db_jobs d)" "enqueue_job env r d = Inr ((j, c), d')" "key_job k d = Some i" for d r j c d' k i
    using run_op_key_job [of d env "Enqueue r" d' k i] that by simp
qed (rule enqueue_result; assumption)+

text \<open>
  C18: enqueueing is idempotent by key.  A successful enqueue returns the one job that holds the
  key afterwards; it is created exactly when no job held the key before, and otherwise it is the job
  that already existed, whatever the new payload, type or schedule says, with no row and no event added.
  A second enqueue under the same key, whatever else it asks for, then returns the same job.
\<close>

theorem enqueue_is_idempotent:
  assumes "queue_ok (db_jobs db)" "enqueue_job env r db = Inr ((j, c), db')"
  shows "find_key (eq_idempotency_key r) db' = Some j \<and>
    (c \<longleftrightarrow> find_key (eq_idempotency_key r) db = None) \<and>
    (\<not> c \<longrightarrow> (\<exists>k. find_key (eq_idempotency_key r) db = Some k \<and> wj_id k = wj_id j) \<and>
       length (db_jobs db') = length (db_jobs db) \<and> db_events db' = db_events db) \<and>
    (\<forall>env' r'. eq_idempotency_key r' = eq_idempotency_key r \<longrightarrow>
       (\<exists>j' db''. enqueue_job env' r' db' = Inr ((j', False), db'') \<and> wj_id j' = wj_id j))"
proof -
  note c = enqueue_cases [OF assms]
  have d: "distinct (map wj_id (db_jobs db'))"
    using run_op_ok [of env "Enqueue r" db db'] assms by (simp add: queue_ok_def)
  have "\<exists>j' db''. enqueue_job env' r' db' = Inr ((j', False), db'') \<and> wj_id j' = wj_id j"
    if "eq_idempotency_key r' = eq_idempotency_key r" for env' r'
    using enqueue_again [OF d] c that by simp
  with c show ?thesis by (auto split: option.splits)
qed

text \<open>
  The capability gate bounds the queue.  In a session that enforces the gate, a job is
  created only when a fresh worker covers its type, and afterwards the queued and running jobs of that
  type are at most \<open>capability_queue_ceiling\<close>; a key that is already taken is answered without asking the gate.
\<close>

theorem gate_bounds_the_queue:
  assumes "queue_ok (db_jobs db)" "env_gate env = Some g" "enqueue_job env r db = Inr ((j, c), db')"
  shows "c \<longrightarrow> active_count (eq_job_type r) db' \<le> cg_queue_ceiling g \<and>
    (\<exists>coverage n. cg_coverage g = Some coverage \<and> map_of coverage (eq_job_type r) = Some n \<and> 1 \<le> n)"
proof
  assume c
  with enqueue_cases [OF assms(1,3)] have
    "require_available_job_type env (eq_job_type r) db = Inr ()" and
    jobs: "db_jobs db' = db_jobs db @ [j]" "j = new_job env (env_uuid env (db_seq db)) r (observed env (eq_scheduled_for r))"
    by (auto split: option.splits)
  then have "active_count (eq_job_type r) db < cg_queue_ceiling g"
    "\<exists>coverage n. cg_coverage g = Some coverage \<and> map_of coverage (eq_job_type r) = Some n \<and> 1 \<le> n"
    using assms(2) by (auto simp: require_available_job_type_def split: option.splits if_splits)
  moreover have "active_count (eq_job_type r) db' = active_count (eq_job_type r) db + 1"
    by (simp add: active_count_def jobs) (simp add: new_job_def)
  ultimately show "active_count (eq_job_type r) db' \<le> cg_queue_ceiling g \<and>
    (\<exists>coverage n. cg_coverage g = Some coverage \<and> map_of coverage (eq_job_type r) = Some n \<and> 1 \<le> n)" by simp
qed

end
