(* ===== verification/Capability_Status.thy ===== *)
theory Capability_Status
  imports Job_Repository
begin

text \<open>
  What the control plane knows of the workers' external capabilities: the projection of worker
  heartbeats in \<open>app/jobs/credential_capabilities.py\<close>, from which the scheduler and the API decide
  whether a resource can be used.  The schema library's reading of one stored observation is an argument.
\<close>

datatype resource_type = Provider_Resource | Source_Resource | Destination_Resource

datatype resource_capability = Can_Generate | Can_Research | Can_Source | Can_Publish

datatype projected_state = Is_Available | Is_Unavailable | Is_Unknown | Is_Stale

record capability_observation =
  co_resource_type :: resource_type
  co_resource_id :: uuid
  co_capability :: resource_capability
  co_available :: bool \<comment> \<open>\<open>state\<close> is one of \<open>available\<close> and \<open>unavailable\<close>\<close>
  co_failure_code :: string

record capability_status =
  ct_status :: projected_state
  ct_owner :: "string option"
  ct_observed_at :: "time option"
  ct_expires_at :: "time option"
  ct_failure_code :: string

record runtime_heartbeat =
  hb_component_id :: string
  hb_component_type :: string
  hb_capabilities :: "string list"
  hb_observed_at :: time
  hb_runtime_metadata :: pydict

fun OWNER_CAPABILITY :: "resource_capability \<Rightarrow> string" where
  "OWNER_CAPABILITY Can_Generate = ''generation''"
| "OWNER_CAPABILITY Can_Research = ''generation''"
| "OWNER_CAPABILITY Can_Source = ''source''"
| "OWNER_CAPABILITY Can_Publish = ''publishing''"

definition SAFE_FAILURE_CODES :: "string list" where
  "SAFE_FAILURE_CODES =
     [''available'', ''credential_missing'', ''credential_invalid'', ''disabled'', ''executable_unavailable'',
      ''health_check_failed'', ''generation_profile_unqualified'', ''invalid_configuration'', ''observation_missing'',
      ''observation_stale'', ''ownership_mismatch'', ''research_configuration_missing'']"

definition component_char :: "char \<Rightarrow> bool" where
  "component_char c = (let n = (of_char c :: nat) in
     (65 \<le> n \<and> n \<le> 90) \<or> (97 \<le> n \<and> n \<le> 122) \<or> (48 \<le> n \<and> n \<le> 57) \<or> c \<in> set ''_.:-'')"

definition safe_owner :: "string \<Rightarrow> string option" where
  "safe_owner s = (if 1 \<le> length s \<and> length s \<le> 128 \<and> list_all component_char s then Some s else None)"

definition safe_failure_code :: "string \<Rightarrow> string" where
  "safe_failure_code code = (if code \<in> set SAFE_FAILURE_CODES then code else ''invalid_configuration'')"

definition parse_observations :: "(pyval \<Rightarrow> capability_observation option) \<Rightarrow> pydict \<Rightarrow> capability_observation list" where
  "parse_observations load metadata =
     (case dict_get metadata ''external_capabilities'' of
        Some (PList vs) \<Rightarrow> List.map_filter load vs
      | _ \<Rightarrow> [])"

definition about :: "resource_type \<Rightarrow> uuid \<Rightarrow> resource_capability \<Rightarrow> capability_observation \<Rightarrow> bool" where
  "about ty i cap ob = (co_resource_type ob = ty \<and> co_resource_id ob = i \<and> co_capability ob = cap)"

fun project_loop ::
  "(pyval \<Rightarrow> capability_observation option) \<Rightarrow> resource_type \<Rightarrow> uuid \<Rightarrow> resource_capability \<Rightarrow> time \<Rightarrow> int \<Rightarrow>
   runtime_heartbeat option \<Rightarrow> runtime_heartbeat list \<Rightarrow> capability_status" where
  "project_loop load ty i cap now ttl mismatch [] =
     (case mismatch of
        Some h \<Rightarrow> \<lparr>ct_status = Is_Unknown, ct_owner = safe_owner (hb_component_id h),
                   ct_observed_at = Some (hb_observed_at h), ct_expires_at = None, ct_failure_code = ''ownership_mismatch''\<rparr>
      | None \<Rightarrow> \<lparr>ct_status = Is_Unknown, ct_owner = None, ct_observed_at = None, ct_expires_at = None,
                   ct_failure_code = ''observation_missing''\<rparr>)"
| "project_loop load ty i cap now ttl mismatch (h # hs) =
     (case find (about ty i cap) (parse_observations load (hb_runtime_metadata h)) of
        None \<Rightarrow> project_loop load ty i cap now ttl mismatch hs
      | Some ob \<Rightarrow>
          if OWNER_CAPABILITY cap \<notin> set (hb_capabilities h) then project_loop load ty i cap now ttl (Some h) hs
          else let expires = hb_observed_at h + seconds ttl in
            if expires \<le> now then
              \<lparr>ct_status = Is_Stale, ct_owner = safe_owner (hb_component_id h), ct_observed_at = Some (hb_observed_at h),
               ct_expires_at = Some expires, ct_failure_code = ''observation_stale''\<rparr>
            else
              \<lparr>ct_status = (if co_available ob then Is_Available else Is_Unavailable),
               ct_owner = safe_owner (hb_component_id h), ct_observed_at = Some (hb_observed_at h),
               ct_expires_at = Some expires, ct_failure_code = safe_failure_code (co_failure_code ob)\<rparr>)"

definition project_capability_status ::
  "(pyval \<Rightarrow> capability_observation option) \<Rightarrow> runtime_heartbeat list \<Rightarrow> resource_type \<Rightarrow> uuid \<Rightarrow> resource_capability \<Rightarrow>
   time \<Rightarrow> int \<Rightarrow> capability_status" where
  "project_capability_status load hs ty i cap now ttl =
     project_loop load ty i cap now ttl None (sort_key (\<lambda>h. - hb_observed_at h) hs)"

text \<open>The snapshot a service reads once: at most 10000 worker rows, newest first.\<close>

definition worker_heartbeats :: "runtime_heartbeat list \<Rightarrow> runtime_heartbeat list" where
  "worker_heartbeats rows =
     take 10000 (sort_key (\<lambda>h. - hb_observed_at h) (filter (\<lambda>h. hb_component_type h = ''worker'') rows))"

definition is_available :: "capability_status \<Rightarrow> bool" where
  "is_available s = (ct_status s = Is_Available)"

definition require_available ::
  "(pyval \<Rightarrow> capability_observation option) \<Rightarrow> runtime_heartbeat list \<Rightarrow> resource_type \<Rightarrow> uuid \<Rightarrow> resource_capability \<Rightarrow>
   time \<Rightarrow> int \<Rightarrow> int \<Rightarrow> string \<Rightarrow> job_error + capability_status" where
  "require_available load rows ty i cap now ttl retry_after job_type =
     (let s = project_capability_status load (worker_heartbeats rows) ty i cap now ttl in
      if is_available s then Inr s
      else Inl (JobCapabilityUnavailable
                  (if ct_status s \<in> {Is_Unknown, Is_Stale} then ''job_capability_unknown'' else ''job_capability_unavailable'')
                  job_type retry_after))"

section \<open>What the projection promises\<close>

text \<open>A heartbeat speaks for a capability when it comes from a worker that owns it and observes the resource.\<close>

definition speaks_for ::
  "(pyval \<Rightarrow> capability_observation option) \<Rightarrow> resource_type \<Rightarrow> uuid \<Rightarrow> resource_capability \<Rightarrow> runtime_heartbeat \<Rightarrow> bool" where
  "speaks_for load ty i cap h =
     (OWNER_CAPABILITY cap \<in> set (hb_capabilities h) \<and>
      find (about ty i cap) (parse_observations load (hb_runtime_metadata h)) \<noteq> None)"

lemma project_loop_available:
  "ct_status (project_loop load ty i cap now ttl m hs) = Is_Available \<longleftrightarrow>
     (\<exists>h ob. find (speaks_for load ty i cap) hs = Some h \<and>
        find (about ty i cap) (parse_observations load (hb_runtime_metadata h)) = Some ob \<and>
        co_available ob \<and> now < hb_observed_at h + seconds ttl)"
  by (induction load ty i cap now ttl m hs rule: project_loop.induct)
    (simp_all add: speaks_for_def Let_def split: option.split)

lemma sorted_desc: "sorted (map (\<lambda>h. - hb_observed_at h) (sort_key (\<lambda>h. - hb_observed_at h) hs))"
  by simp

lemma find_newest:
  assumes "find P (sort_key (\<lambda>h. - hb_observed_at h) hs) = Some h"
  shows "h \<in> set hs \<and> P h \<and> (\<forall>k\<in>set hs. P k \<longrightarrow> hb_observed_at k \<le> hb_observed_at h)"
proof -
  let ?s = "sort_key (\<lambda>h. - hb_observed_at h) hs"
  from assms obtain n where n: "n < length ?s" "P (?s ! n)" "h = ?s ! n" "\<forall>j<n. \<not> P (?s ! j)"
    by (auto simp: find_Some_iff)
  have "hb_observed_at k \<le> hb_observed_at h" if "k \<in> set hs" "P k" for k
  proof -
    from that(1) have "k \<in> set ?s" by simp
    then obtain j where j: "j < length ?s" "?s ! j = k" by (metis in_set_conv_nth)
    with n(4) that(2) have "n \<le> j" by (meson not_le)
    then have "map (\<lambda>h. - hb_observed_at h) ?s ! n \<le> map (\<lambda>h. - hb_observed_at h) ?s ! j"
      using sorted_nth_mono [OF sorted_desc [of hs], of n j] j(1) by (simp only: length_map)
    then show ?thesis using n(1,3) j by simp
  qed
  moreover have "h \<in> set ?s" using n(1,3) nth_mem by metis
  ultimately show ?thesis using n by simp
qed

text \<open>
  C32: A capability counts as available only on evidence: some worker's heartbeat that owns the
  capability and observes the resource is unexpired and reports it available, and no heartbeat that
  speaks for the capability is newer than it.
\<close>

theorem availability_needs_evidence:
  assumes "require_available load rows ty i cap now ttl retry_after job_type = Inr s"
  shows "\<exists>h\<in>set rows. hb_component_type h = ''worker'' \<and> speaks_for load ty i cap h \<and>
    now < hb_observed_at h + seconds ttl \<and>
    (\<exists>ob. find (about ty i cap) (parse_observations load (hb_runtime_metadata h)) = Some ob \<and> co_available ob) \<and>
    (\<forall>k\<in>set (worker_heartbeats rows). speaks_for load ty i cap k \<longrightarrow> hb_observed_at k \<le> hb_observed_at h)"
proof -
  let ?hs = "worker_heartbeats rows"
  have "ct_status (project_capability_status load ?hs ty i cap now ttl) = Is_Available"
    using assms by (simp add: require_available_def is_available_def Let_def split: if_splits)
  then obtain h ob where h: "find (speaks_for load ty i cap) (sort_key (\<lambda>h. - hb_observed_at h) ?hs) = Some h"
    "find (about ty i cap) (parse_observations load (hb_runtime_metadata h)) = Some ob" "co_available ob"
    "now < hb_observed_at h + seconds ttl"
    unfolding project_capability_status_def project_loop_available by blast
  from find_newest [OF h(1)] have n: "h \<in> set ?hs" "speaks_for load ty i cap h"
    "\<forall>k\<in>set ?hs. speaks_for load ty i cap k \<longrightarrow> hb_observed_at k \<le> hb_observed_at h" by simp_all
  from n(1) have "h \<in> set rows" "hb_component_type h = ''worker''"
    unfolding worker_heartbeats_def by (auto dest: in_set_takeD)
  with n h show ?thesis by blast
qed

definition sample_heartbeat :: runtime_heartbeat where
  "sample_heartbeat = \<lparr>hb_component_id = ''worker:1'', hb_component_type = ''worker'', hb_capabilities = [''source''],
     hb_observed_at = 0, hb_runtime_metadata = [(KStr ''external_capabilities'', PList [PStr ''s''])]\<rparr>"

definition sample_load :: "pyval \<Rightarrow> capability_observation option" where
  "sample_load v = (case v of PStr s \<Rightarrow> Some \<lparr>co_resource_type = Source_Resource, co_resource_id = s, co_capability = Can_Source,
      co_available = True, co_failure_code = ''available''\<rparr> | _ \<Rightarrow> None)"

lemma availability_needs_evidence_witness:
  "\<exists>h\<in>set [sample_heartbeat]. speaks_for sample_load Source_Resource ''s'' Can_Source h"
proof -
  have "isl (require_available sample_load [sample_heartbeat] Source_Resource ''s'' Can_Source 1000 60 30 ''t'') = False"
    by code_simp
  then obtain s where "require_available sample_load [sample_heartbeat] Source_Resource ''s'' Can_Source 1000 60 30 ''t'' = Inr s"
    by (cases "require_available sample_load [sample_heartbeat] Source_Resource ''s'' Can_Source 1000 60 30 ''t''") auto
  from availability_needs_evidence [OF this] show ?thesis by blast
qed

end
