(* ===== verification/Scheduler.thy ===== *)
theory Scheduler
  imports Job_Enqueue Capability_Status
begin

text \<open>
  The scheduler, \<open>app/jobs/scheduler.py\<close>: the reconciliation of sources with their collection
  schedules, the enqueueing of due routes, schedules, continuous collection cycles and icon discoveries,
  and the tick that composes them in one transaction.  The time-zone database, the messages of the
  standard library's errors, the schema library's reading of an observation and the row locks of other
  transactions are part of the environment.
\<close>

section \<open>Rows and settings\<close>

text \<open>The rows have every column of their classes but \<open>updated_at\<close>, which only the schedules keep.\<close>

record source_row =
  so_id :: uuid
  so_platform :: string
  so_name :: string
  so_feed_url :: "string option"
  so_homepage_url :: "string option"
  so_telegram_username :: "string option"
  so_source_group :: string
  so_language_hint :: "string option"
  so_default_timezone :: string
  so_normalization_profile :: pydict
  so_fetch_interval_minutes :: int
  so_etag :: "string option"
  so_last_modified :: "string option"
  so_active :: bool
  so_last_fetch_at :: "time option"
  so_next_fetch_at :: "time option"
  so_last_success_at :: "time option"
  so_last_failure_at :: "time option"
  so_failure_count :: int
  so_last_http_status :: "int option"
  so_last_error_type :: "string option"
  so_last_error_message :: "string option"
  so_last_parse_count :: int
  so_last_suitable_count :: int
  so_last_media_count :: int
  so_health_status :: string
  so_disabled_reason :: "string option"
  so_deleted_at :: "time option"
  so_icon_url :: "string option"
  so_icon_source :: "string option"
  so_icon_updated_at :: "time option"
  so_icon_status :: string
  so_icon_storage_path :: "string option"
  so_icon_original_url :: "string option"
  so_icon_mime_type :: "string option"
  so_icon_width :: "int option"
  so_icon_height :: "int option"
  so_icon_failure_count :: int
  so_icon_next_retry_at :: "time option"
  so_icon_last_error :: "string option"
  so_icon_enqueued_at :: "time option"
  so_icon_attempt :: int
  so_created_at :: time

record workflow_schedule =
  sc_id :: uuid
  sc_schedule_key :: string
  sc_source_id :: "uuid option"
  sc_name :: string
  sc_job_type :: string
  sc_payload :: pydict
  sc_schedule_kind :: string
  sc_timezone :: string
  sc_local_time :: "string option"
  sc_interval_minutes :: "int option"
  sc_next_run_at :: "time option"
  sc_enabled :: bool
  sc_pause_sensitive :: bool
  sc_last_enqueued_at :: "time option"
  sc_created_at :: time
  sc_updated_at :: time

record ingestion_subscription =
  sb_id :: uuid
  sb_source_collection_id :: "uuid option"
  sb_source_collection_name_at_start :: "string option"
  sb_mode :: string
  sb_idempotency_key :: string
  sb_created_by :: string
  sb_status :: string
  sb_interval_minutes :: int
  sb_created_at :: time
  sb_started_at :: "time option"
  sb_stopped_at :: "time option"
  sb_last_cycle_at :: "time option"
  sb_next_cycle_at :: "time option"
  sb_last_success_at :: "time option"
  sb_cycle_count :: int
  sb_last_cycle_status :: "string option"
  sb_last_error :: "string option"
  sb_current_cycle_job_id :: "uuid option"
  sb_current_cycle_run_id :: "uuid option"

record automation_route =
  rt_id :: uuid
  rt_name :: string
  rt_source_id :: uuid
  rt_destination_id :: uuid
  rt_brand_profile_id :: uuid
  rt_prompt_template_version_id :: uuid
  rt_prompt_policy :: string
  rt_ai_provider_profile_id :: uuid
  rt_access_mode :: string
  rt_research_mode :: string
  rt_content_filters :: pydict
  rt_media_policy :: string
  rt_attribution_policy :: string
  rt_custom_footer :: "string option"
  rt_publishing_policy :: string
  rt_poll_interval_seconds :: int
  rt_quiet_hours :: pydict
  rt_retry_policy :: pydict
  rt_cursor_state :: pydict
  rt_enabled :: bool
  rt_paused_at :: "time option"
  rt_last_polled_at :: "time option"
  rt_next_poll_at :: "time option"
  rt_backfill_limit :: "int option"
  rt_backfill_since :: "time option"
  rt_created_at :: time

record sched_db =
  sx_db :: db
  sx_sources :: "source_row list"
  sx_schedules :: "workflow_schedule list"
  sx_subscriptions :: "ingestion_subscription list"
  sx_routes :: "automation_route list"
  sx_heartbeats :: "runtime_heartbeat list"

record sched_settings =
  st_scheduler_timezone :: string
  st_daily_collection_time :: string
  st_icon_ttl_days :: int
  st_icon_batch_size :: nat
  st_worker_lease_seconds :: int
  st_capability_ttl_seconds :: int

text \<open>A time zone converts instants to wall-clock time and back; an ambiguous wall time is read as its first occurrence.\<close>

record zone =
  zn_local :: "time \<Rightarrow> int"
  zn_instant :: "int \<Rightarrow> time"

record sched_env =
  se_env :: env
  se_settings :: sched_settings
  se_zone :: "string \<Rightarrow> zone option"
  se_zone_error :: "string \<Rightarrow> string"
  se_time_error :: "string \<Rightarrow> string"
  se_locked :: "uuid \<Rightarrow> bool"
  se_text :: "pyval \<Rightarrow> string"
  se_observation :: "pyval \<Rightarrow> capability_observation option"

section \<open>Daily runs\<close>

fun digit_of :: "char \<Rightarrow> int option" where
  "digit_of c = (let n = (of_char c :: nat) in if 48 \<le> n \<and> n \<le> 57 then Some (int n - 48) else None)"

fun number_of :: "string \<Rightarrow> int option" where
  "number_of [a] = digit_of a"
| "number_of [a, b] =
     (case (digit_of a, digit_of b) of (Some x, Some y) \<Rightarrow> Some (10 * x + y) | _ \<Rightarrow> None)"
| "number_of _ = None"

text \<open>\<open>strptime\<close> with \<open>%H:%M\<close>: one or two digits each; the result is minutes since midnight.\<close>

definition strptime_hm :: "string \<Rightarrow> int option" where
  "strptime_hm s =
     (let h = takeWhile (\<lambda>c. c \<noteq> CHR '':'') s; m = drop (Suc (length h)) s in
      if length h = length s then None
      else case (number_of h, number_of m) of
        (Some x, Some y) \<Rightarrow> if x < 24 \<and> y < 60 then Some (60 * x + y) else None
      | _ \<Rightarrow> None)"

definition strftime_hm :: "int \<Rightarrow> string" where
  "strftime_hm n = pad_left 2 (int_str (n div 60)) @ '':'' @ pad_left 2 (int_str (n mod 60))"

definition parse_local_time :: "sched_env \<Rightarrow> string \<Rightarrow> job_error + int" where
  "parse_local_time se v =
     (case strptime_hm v of
        None \<Rightarrow> Inl (ValueError (se_time_error se v))
      | Some n \<Rightarrow> if strftime_hm n \<noteq> v then Inl (ValueError ''local_time must use zero-padded HH:MM'') else Inr n)"

definition zone_info :: "sched_env \<Rightarrow> string \<Rightarrow> job_error + zone" where
  "zone_info se tz = (case se_zone se tz of None \<Rightarrow> Inl (ValueError (se_zone_error se tz)) | Some z \<Rightarrow> Inr z)"

text \<open>
  Both sides of the comparison carry the same zone object, so Python compares their wall-clock
  times, and adding a day moves the wall clock.
\<close>

definition next_wall_run :: "zone \<Rightarrow> int \<Rightarrow> time \<Rightarrow> time" where
  "next_wall_run z lt after =
     (let local_after = zn_local z after;
          candidate = (local_after div days 1) * days 1 + minutes lt
      in zn_instant z (if candidate \<le> local_after then candidate + days 1 else candidate))"

definition next_daily_run :: "sched_env \<Rightarrow> time \<Rightarrow> string \<Rightarrow> string \<Rightarrow> job_error + time" where
  "next_daily_run se after tz local_time =
     result_bind (zone_info se tz) (\<lambda>z.
     result_bind (parse_local_time se local_time) (\<lambda>lt. Inr (next_wall_run z lt after)))"

section \<open>Tables\<close>

text \<open>A flush stamps \<open>updated_at\<close> of a changed schedule with the transaction's time.\<close>

definition put_schedule :: "sched_env \<Rightarrow> workflow_schedule \<Rightarrow> sched_db \<Rightarrow> sched_db" where
  "put_schedule se s x =
     x\<lparr>sx_schedules := set_rows (\<lambda>r. sc_id r = sc_id s)
         (\<lambda>r. if r = s then s else s\<lparr>sc_updated_at := env_db_now (se_env se)\<rparr>) (sx_schedules x)\<rparr>"

definition put_source :: "source_row \<Rightarrow> sched_db \<Rightarrow> sched_db" where
  "put_source s x = x\<lparr>sx_sources := set_rows (\<lambda>r. so_id r = so_id s) (\<lambda>_. s) (sx_sources x)\<rparr>"

definition put_subscription :: "ingestion_subscription \<Rightarrow> sched_db \<Rightarrow> sched_db" where
  "put_subscription s x = x\<lparr>sx_subscriptions := set_rows (\<lambda>r. sb_id r = sb_id s) (\<lambda>_. s) (sx_subscriptions x)\<rparr>"

definition list_sources :: "sched_db \<Rightarrow> source_row list" where
  "list_sources x = sort_key so_name (sx_sources x)"

definition get_schedule :: "string \<Rightarrow> sched_db \<Rightarrow> workflow_schedule option" where
  "get_schedule key x = find (\<lambda>s. sc_schedule_key s = key) (sx_schedules x)"

definition is_paused :: "sched_db \<Rightarrow> bool" where
  "is_paused x = global_pause (sx_db x)"

section \<open>Schedules of sources\<close>

definition schedule_key_of :: "uuid \<Rightarrow> string" where
  "schedule_key_of i = ''source:'' @ i"

definition collect_payload :: "source_row \<Rightarrow> pydict" where
  "collect_payload so = [(KStr ''source_ids'', PList [PStr (so_id so)]), (KStr ''platforms'', PNone)]"

definition schedulable :: "source_row \<Rightarrow> bool" where
  "schedulable so = (so_active so \<and> (case so_disabled_reason so of None \<Rightarrow> True | Some r \<Rightarrow> r = []))"

definition new_next_run :: "sched_env \<Rightarrow> source_row \<Rightarrow> time \<Rightarrow> job_error + time option" where
  "new_next_run se so now =
     (if \<not> schedulable so then Inr None
      else if so_fetch_interval_minutes so = 1440
      then map_sum id Some (next_daily_run se now (st_scheduler_timezone (se_settings se)) (st_daily_collection_time (se_settings se)))
      else let base = (case so_last_fetch_at so of Some t \<Rightarrow> max now t | None \<Rightarrow> now)
           in Inr (Some (base + minutes (so_fetch_interval_minutes so))))"

definition new_source_schedule ::
  "sched_env \<Rightarrow> uuid \<Rightarrow> source_row \<Rightarrow> time \<Rightarrow> job_error + workflow_schedule \<times> source_row" where
  "new_source_schedule se i so now =
     (let daily = (so_fetch_interval_minutes so = 1440); cfg = se_settings se in
      map_sum id (\<lambda>next_run.
        (\<lparr>sc_id = i, sc_schedule_key = schedule_key_of (so_id so), sc_source_id = Some (so_id so),
          sc_name = ''Collect '' @ so_name so, sc_job_type = ''ingest.collect'', sc_payload = collect_payload so,
          sc_schedule_kind = (if daily then ''daily'' else ''interval''), sc_timezone = st_scheduler_timezone cfg,
          sc_local_time = (if daily then Some (st_daily_collection_time cfg) else None),
          sc_interval_minutes = (if daily then None else Some (so_fetch_interval_minutes so)),
          sc_next_run_at = next_run, sc_enabled = schedulable so, sc_pause_sensitive = True,
          sc_last_enqueued_at = None, sc_created_at = env_db_now (se_env se), sc_updated_at = env_db_now (se_env se)\<rparr>,
         so\<lparr>so_next_fetch_at := next_run\<rparr>))
      (new_next_run se so now))"

text \<open>\<open>str(exc)\<close> of the exception an invalid schedule raises.\<close>

definition schedule_problem :: "sched_env \<Rightarrow> workflow_schedule \<Rightarrow> string option" where
  "schedule_problem se s =
     (case zone_info se (sc_timezone s) of
        Inl (ValueError m) \<Rightarrow> Some m
      | Inl _ \<Rightarrow> Some []
      | Inr _ \<Rightarrow>
          if sc_schedule_kind s = ''daily'' then
            (case sc_local_time s of
               None \<Rightarrow> Some ''daily schedule is missing local_time''
             | Some lt \<Rightarrow> (case parse_local_time se lt of Inl (ValueError m) \<Rightarrow> Some m | Inl _ \<Rightarrow> Some [] | Inr _ \<Rightarrow> None))
          else if sc_schedule_kind s = ''interval'' then
            (case sc_interval_minutes s of
               None \<Rightarrow> Some ''interval schedule must have a positive interval''
             | Some n \<Rightarrow> if n \<le> 0 then Some ''interval schedule must have a positive interval'' else None)
          else Some ''unsupported schedule kind'')"

definition report_invalid :: "sched_env \<Rightarrow> workflow_schedule \<Rightarrow> string \<Rightarrow> time \<Rightarrow> db \<Rightarrow> db" where
  "report_invalid se s reason now db =
     db\<lparr>db_events := db_events db @
           [\<lparr>we_id = env_uuid (se_env se) (db_seq db), we_workflow_job_id = None, we_event_type = ''schedule.invalid'',
             we_actor = ''scheduler'',
             we_event_data = redact_event_data (env_redact (se_env se))
               [(KStr ''schedule_id'', PStr (sc_id s)), (KStr ''schedule_key'', PStr (sc_schedule_key s)),
                (KStr ''reason'', PStr reason)],
             we_created_at = now\<rparr>],
        db_seq := Suc (db_seq db)\<rparr>"

definition valid_schedule :: "sched_env \<Rightarrow> workflow_schedule \<Rightarrow> time \<Rightarrow> sched_db \<Rightarrow> bool \<times> sched_db" where
  "valid_schedule se s now x =
     (case schedule_problem se s of
        None \<Rightarrow> (True, x)
      | Some reason \<Rightarrow>
          (False, (put_schedule se (s\<lparr>sc_enabled := False\<rparr>) x)\<lparr>sx_db := report_invalid se s reason now (sx_db x)\<rparr>))"

definition refresh_source_schedule ::
  "sched_env \<Rightarrow> workflow_schedule \<Rightarrow> source_row \<Rightarrow> time \<Rightarrow> job_error + workflow_schedule" where
  "refresh_source_schedule se s so now =
     (let cfg = se_settings se; tz = st_scheduler_timezone cfg; n = so_fetch_interval_minutes so in
      if n = 1440 then
        (let config_changed = (sc_schedule_kind s \<noteq> ''daily'' \<or> sc_timezone s \<noteq> tz \<or>
               sc_local_time s \<noteq> Some (st_daily_collection_time cfg) \<or> sc_interval_minutes s \<noteq> None);
             s1 = s\<lparr>sc_enabled := True, sc_schedule_kind := ''daily'', sc_timezone := tz,
                    sc_local_time := Some (st_daily_collection_time cfg), sc_interval_minutes := None,
                    sc_payload := collect_payload so\<rparr>
         in if config_changed \<or> sc_next_run_at s = None
            then map_sum id (\<lambda>t. s1\<lparr>sc_next_run_at := Some t\<rparr>) (next_daily_run se now tz (st_daily_collection_time cfg))
            else Inr s1)
      else
        (let config_changed = (sc_schedule_kind s \<noteq> ''interval'' \<or> sc_timezone s \<noteq> tz \<or>
               sc_local_time s \<noteq> None \<or> sc_interval_minutes s \<noteq> Some n);
             s1 = s\<lparr>sc_enabled := True, sc_schedule_kind := ''interval'', sc_timezone := tz, sc_local_time := None,
                    sc_interval_minutes := Some n, sc_payload := collect_payload so\<rparr>;
             fetched_next = map_option (\<lambda>t. t + minutes n) (so_last_fetch_at so)
         in Inr (if config_changed then
                   s1\<lparr>sc_next_run_at := Some (max now (case so_last_fetch_at so of Some t \<Rightarrow> t | None \<Rightarrow> now) + minutes n)\<rparr>
                 else case sc_next_run_at s of
                   None \<Rightarrow> s1\<lparr>sc_next_run_at := Some (max now (case so_last_fetch_at so of Some t \<Rightarrow> t | None \<Rightarrow> now) + minutes n)\<rparr>
                 | Some nx \<Rightarrow> (case fetched_next of
                     Some f \<Rightarrow> if f > nx then s1\<lparr>sc_next_run_at := Some f\<rparr> else s1
                   | None \<Rightarrow> s1))))"

definition reconcile_source :: "sched_env \<Rightarrow> time \<Rightarrow> source_row \<Rightarrow> sched_db \<Rightarrow> job_error + nat \<times> sched_db" where
  "reconcile_source se now so x =
     (case get_schedule (schedule_key_of (so_id so)) x of
        None \<Rightarrow>
          let i = env_uuid (se_env se) (db_seq (sx_db x)) in
          result_bind (new_source_schedule se i so now) (\<lambda>(s, so').
            if i \<in> set (map sc_id (sx_schedules x)) then Inl (IntegrityError ''workflow_schedules_pkey'')
            else Inr (0, (put_source so' x)\<lparr>sx_schedules := sx_schedules x @ [s],
                                            sx_db := (sx_db x)\<lparr>db_seq := Suc (db_seq (sx_db x))\<rparr>\<rparr>))
      | Some s \<Rightarrow>
          if \<not> schedulable so then
            Inr (0, put_source (so\<lparr>so_next_fetch_at := None\<rparr>) (put_schedule se (s\<lparr>sc_enabled := False\<rparr>) x))
          else let (ok, x1) = valid_schedule se s now x in
            if \<not> ok then Inr (1, put_source (so\<lparr>so_next_fetch_at := None\<rparr>) x1)
            else map_sum id (\<lambda>s'. (0, put_source (so\<lparr>so_next_fetch_at := sc_next_run_at s'\<rparr>) (put_schedule se s' x1)))
                   (refresh_source_schedule se s so now))"

fun reconcile_loop :: "sched_env \<Rightarrow> time \<Rightarrow> source_row list \<Rightarrow> nat \<times> nat \<Rightarrow> sched_db \<Rightarrow> job_error + (nat \<times> nat) \<times> sched_db" where
  "reconcile_loop se now [] c x = Inr (c, x)"
| "reconcile_loop se now (so # sos) (reconciled, bad) x =
     result_bind (reconcile_source se now so x)
       (\<lambda>(n, x'). reconcile_loop se now sos (Suc reconciled, bad + n) x')"

definition reconcile_sources :: "sched_env \<Rightarrow> time \<Rightarrow> sched_db \<Rightarrow> job_error + (nat \<times> nat) \<times> sched_db" where
  "reconcile_sources se now x = reconcile_loop se now (list_sources x) (0, 0) x"

definition advance_schedule :: "sched_env \<Rightarrow> workflow_schedule \<Rightarrow> time \<Rightarrow> job_error + time" where
  "advance_schedule se s due =
     (if sc_schedule_kind s = ''daily''
      then next_daily_run se (due + 1) (sc_timezone s) (case sc_local_time s of Some lt \<Rightarrow> lt | None \<Rightarrow> [])
      else case sc_interval_minutes s of
        None \<Rightarrow> Inl (ValueError ''interval schedule is missing interval_minutes'')
      | Some n \<Rightarrow> Inr (due + minutes n))"

section \<open>Enqueueing due work\<close>

definition sched_request :: "string \<Rightarrow> pydict \<Rightarrow> string \<Rightarrow> time \<Rightarrow> enqueue_request" where
  "sched_request job_type payload key due =
     \<lparr>eq_job_type = job_type, eq_payload = payload, eq_idempotency_key = key, eq_origin = SCHEDULER, eq_priority = 0,
      eq_scheduled_for = Some due, eq_max_attempts = 3, eq_pause_sensitive = True, eq_automation_run_id = None,
      eq_automation_node_run_id = None\<rparr>"

definition enqueue_in :: "sched_env \<Rightarrow> enqueue_request \<Rightarrow> sched_db \<Rightarrow> job_error + (workflow_job \<times> bool) \<times> sched_db" where
  "enqueue_in se r x = map_sum id (\<lambda>(res, db'). (res, x\<lparr>sx_db := db'\<rparr>)) (enqueue_job (se_env se) r (sx_db x))"

text \<open>Jobs created and jobs that were already there.\<close>

type_synonym counts = "nat \<times> nat"

fun count :: "bool \<Rightarrow> counts \<Rightarrow> counts" where
  "count created (enqueued, deduplicated) = (if created then (Suc enqueued, deduplicated) else (enqueued, Suc deduplicated))"

definition due :: "time option \<Rightarrow> time \<Rightarrow> bool" where
  "due t now = (case t of None \<Rightarrow> False | Some d \<Rightarrow> d \<le> now)"

section \<open>Routes\<close>

definition due_routes :: "sched_env \<Rightarrow> time \<Rightarrow> sched_db \<Rightarrow> automation_route list" where
  "due_routes se now x =
     sort_key (\<lambda>r. (rt_next_poll_at r, rt_created_at r))
       (filter (\<lambda>r. rt_enabled r \<and> rt_paused_at r = None \<and> due (rt_next_poll_at r) now \<and>
          dict_get (rt_cursor_state r) ''status'' = Some (PStr ''ready'') \<and> \<not> se_locked se (rt_id r)) (sx_routes x))"

definition capability_in :: "sched_env \<Rightarrow> sched_db \<Rightarrow> time \<Rightarrow> resource_type \<Rightarrow> uuid \<Rightarrow> resource_capability \<Rightarrow> bool" where
  "capability_in se x now ty i cap =
     is_available (project_capability_status (se_observation se) (worker_heartbeats (sx_heartbeats x)) ty i cap now
       (st_capability_ttl_seconds (se_settings se)))"

definition route_capabilities_available :: "sched_env \<Rightarrow> sched_db \<Rightarrow> time \<Rightarrow> automation_route \<Rightarrow> bool" where
  "route_capabilities_available se x now r =
     (let profile = dict_get (rt_content_filters r) ''research_provider_profile_id'';
          researches = (rt_research_mode r \<noteq> ''off'' \<and> profile \<noteq> None \<and> profile \<noteq> Some PNone) in
      capability_in se x now Source_Resource (rt_source_id r) Can_Source \<and>
      capability_in se x now Provider_Resource (rt_ai_provider_profile_id r) Can_Generate \<and>
      (researches \<longrightarrow> (case val_uuid (the profile) of None \<Rightarrow> False
         | Some i \<Rightarrow> capability_in se x now Provider_Resource i Can_Research)) \<and>
      (rt_publishing_policy r = ''auto_publish'' \<longrightarrow>
         capability_in se x now Destination_Resource (rt_destination_id r) Can_Publish))"

definition route_request :: "automation_route \<Rightarrow> time \<Rightarrow> enqueue_request" where
  "route_request r t =
     (sched_request ''telegram.route.poll'' [(KStr ''route_id'', PStr (rt_id r))]
        (''telegram-route-poll:'' @ rt_id r @ '':'' @ isoformat t) t)\<lparr>eq_priority := 10\<rparr>"

fun route_loop :: "sched_env \<Rightarrow> time \<Rightarrow> automation_route list \<Rightarrow> counts \<Rightarrow> sched_db \<Rightarrow> job_error + counts \<times> sched_db" where
  "route_loop se now [] c x = Inr (c, x)"
| "route_loop se now (r # rs) c x =
     (if \<not> route_capabilities_available se x now r then route_loop se now rs c x
      else case rt_next_poll_at r of
        None \<Rightarrow> route_loop se now rs c x
      | Some t \<Rightarrow> result_bind (enqueue_in se (route_request r t) x)
          (\<lambda>((j, created), x'). route_loop se now rs (count created c) x'))"

section \<open>Due schedules\<close>

definition due_schedules :: "sched_env \<Rightarrow> time \<Rightarrow> sched_db \<Rightarrow> workflow_schedule list" where
  "due_schedules se now x =
     sort_key (\<lambda>s. (sc_next_run_at s, sc_created_at s))
       (filter (\<lambda>s. sc_enabled s \<and> due (sc_next_run_at s) now \<and> \<not> se_locked se (sc_id s)) (sx_schedules x))"

definition schedule_run_key :: "uuid \<Rightarrow> time \<Rightarrow> string" where
  "schedule_run_key i t = ''schedule:'' @ i @ '':'' @ isoformat t"

definition schedule_request :: "workflow_schedule \<Rightarrow> time \<Rightarrow> enqueue_request" where
  "schedule_request s t =
     (sched_request (sc_job_type s) (sc_payload s) (schedule_run_key (sc_id s) t) t)
       \<lparr>eq_pause_sensitive := sc_pause_sensitive s\<rparr>"

definition set_next_fetch :: "uuid option \<Rightarrow> time \<Rightarrow> sched_db \<Rightarrow> sched_db" where
  "set_next_fetch i t x =
     (case i of
        None \<Rightarrow> x
      | Some k \<Rightarrow> (case find (\<lambda>so. so_id so = k) (list_sources x) of
            None \<Rightarrow> x
          | Some so \<Rightarrow> put_source (so\<lparr>so_next_fetch_at := Some t\<rparr>) x))"

definition run_schedule :: "sched_env \<Rightarrow> workflow_schedule \<Rightarrow> time \<Rightarrow> sched_db \<Rightarrow> job_error + bool \<times> sched_db" where
  "run_schedule se s t x =
     result_bind (enqueue_in se (schedule_request s t) x) (\<lambda>((j, created), x1).
     result_bind (advance_schedule se s t) (\<lambda>next.
       Inr (created, set_next_fetch (sc_source_id s) next
         (put_schedule se (s\<lparr>sc_last_enqueued_at := Some t, sc_next_run_at := Some next\<rparr>) x1))))"

fun schedule_loop ::
  "sched_env \<Rightarrow> time \<Rightarrow> workflow_schedule list \<Rightarrow> counts \<times> nat \<Rightarrow> sched_db \<Rightarrow> job_error + (counts \<times> nat) \<times> sched_db" where
  "schedule_loop se now [] c x = Inr (c, x)"
| "schedule_loop se now (s # ss) (c, bad) x =
     (let (ok, x1) = valid_schedule se s now x in
      if \<not> ok then schedule_loop se now ss (c, Suc bad) x1
      else case sc_next_run_at s of
        None \<Rightarrow> schedule_loop se now ss (c, bad) x1
      | Some t \<Rightarrow> result_bind (run_schedule se s t x1)
          (\<lambda>(created, x'). schedule_loop se now ss (count created c, bad) x'))"

section \<open>Continuous collection cycles\<close>

definition ACTIVE_STATUSES :: "string list" where
  "ACTIVE_STATUSES = [''starting'', ''running'', ''stopping'']"

definition due_subscriptions :: "sched_env \<Rightarrow> time \<Rightarrow> sched_db \<Rightarrow> ingestion_subscription list" where
  "due_subscriptions se now x =
     take 100 (sort_key (\<lambda>b. (sb_next_cycle_at b, sb_created_at b))
       (filter (\<lambda>b. sb_status b \<in> set ACTIVE_STATUSES \<and> due (sb_next_cycle_at b) now \<and> \<not> se_locked se (sb_id b))
          (sx_subscriptions x)))"

text \<open>\<open>int(value)\<close> of a stored JSON value; \<open>None\<close> is a \<open>TypeError\<close> or \<open>ValueError\<close>.\<close>

definition int_text :: "string \<Rightarrow> int option" where
  "int_text s =
     (let t = strip s;
          (neg, u) = (case t of c # cs \<Rightarrow> if c = CHR ''-'' then (True, cs) else if c = CHR ''+'' then (False, cs) else (False, t)
                      | [] \<Rightarrow> (False, []));
          ds = filter (\<lambda>c. c \<noteq> CHR ''_'') u;
          grouped = (u \<noteq> [] \<and> hd u \<noteq> CHR ''_'' \<and> last u \<noteq> CHR ''_'' \<and> \<not> contains ''__'' u \<and>
                     list_all (\<lambda>c. digit_of c \<noteq> None) ds);
          n = foldl (\<lambda>acc c. 10 * acc + the (digit_of c)) 0 ds
      in if grouped then Some (if neg then - n else n) else None)"

fun py_int :: "pyval \<Rightarrow> int option" where
  "py_int (PInt i) = Some i"
| "py_int (PBool b) = Some (if b then 1 else 0)"
| "py_int (PStr s) = int_text s"
| "py_int (PFloat (Finite m e)) =
     Some (if e \<ge> 0 then m * 2 ^ nat e else if m \<ge> 0 then m div 2 ^ nat (- e) else - ((- m) div 2 ^ nat (- e)))"
| "py_int _ = None"

definition cycle_number_from_job :: "workflow_job \<Rightarrow> int \<Rightarrow> int" where
  "cycle_number_from_job j fallback =
     (case (case dict_get (wj_payload j) ''cycle_number'' of None \<Rightarrow> Some fallback | Some v \<Rightarrow> py_int v) of
        None \<Rightarrow> fallback
      | Some v \<Rightarrow> max 1 v)"

text \<open>\<open>str((job.result or {}).get('status') or 'succeeded')\<close>.\<close>

fun falsy :: "pyval \<Rightarrow> bool" where
  "falsy PNone = True"
| "falsy (PBool b) = (\<not> b)"
| "falsy (PInt i) = (i = 0)"
| "falsy (PFloat (Finite m e)) = (m = 0)"
| "falsy (PStr s) = (s = [])"
| "falsy (PList xs) = (xs = [])"
| "falsy (PTuple xs) = (xs = [])"
| "falsy (PDict d) = (d = [])"
| "falsy _ = False"

definition result_status :: "sched_env \<Rightarrow> workflow_job \<Rightarrow> string" where
  "result_status se j =
     (case dict_get (wj_result j) ''status'' of
        None \<Rightarrow> ''succeeded''
      | Some v \<Rightarrow> if falsy v then ''succeeded'' else py_text (se_text se) v)"

definition fail_cycle :: "time \<Rightarrow> workflow_job \<Rightarrow> ingestion_subscription \<Rightarrow> ingestion_subscription" where
  "fail_cycle now j b =
     b\<lparr>sb_status := ''error'', sb_stopped_at := Some now, sb_next_cycle_at := None,
       sb_last_error := Some (case wj_error_message j of None \<Rightarrow> ''Continuous ingestion cycle did not complete.''
          | Some m \<Rightarrow> if m = [] then ''Continuous ingestion cycle did not complete.'' else m),
       sb_current_cycle_job_id := None, sb_current_cycle_run_id := None\<rparr>"

definition settle_cycle :: "sched_env \<Rightarrow> time \<Rightarrow> workflow_job \<Rightarrow> ingestion_subscription \<Rightarrow> ingestion_subscription" where
  "settle_cycle se now j b =
     (let n = cycle_number_from_job j (sb_cycle_count b + 1); status = result_status se j in
      b\<lparr>sb_cycle_count := max (sb_cycle_count b) n, sb_last_cycle_at := Some now, sb_last_cycle_status := Some status,
        sb_last_success_at := (if status = ''succeeded'' then Some now else sb_last_success_at b),
        sb_last_error := (if status = ''succeeded'' then None else sb_last_error b),
        sb_current_cycle_job_id := None, sb_current_cycle_run_id := None, sb_status := ''running'',
        sb_next_cycle_at := Some (now + minutes (sb_interval_minutes b))\<rparr>)"

definition cycle_key :: "uuid \<Rightarrow> int \<Rightarrow> string" where
  "cycle_key i n = ''continuous-source-collection-cycle:'' @ i @ '':'' @ int_str n"

definition cycle_request :: "time \<Rightarrow> ingestion_subscription \<Rightarrow> enqueue_request" where
  "cycle_request now b =
     (let n = sb_cycle_count b + 1 in
      (sched_request ''ingest.collection.continuous_cycle''
         [(KStr ''subscription_id'', PStr (sb_id b)), (KStr ''cycle_number'', PInt n)] (cycle_key (sb_id b) n)
         (case sb_next_cycle_at b of Some t \<Rightarrow> t | None \<Rightarrow> now))\<lparr>eq_priority := 5, eq_pause_sensitive := False\<rparr>)"

definition start_cycle ::
  "sched_env \<Rightarrow> time \<Rightarrow> ingestion_subscription \<Rightarrow> counts \<Rightarrow> sched_db \<Rightarrow> job_error + counts \<times> sched_db" where
  "start_cycle se now b c x =
     map_sum id (\<lambda>((j, created), x'). (count created c,
         put_subscription (b\<lparr>sb_current_cycle_job_id := Some (wj_id j), sb_status := ''running'',
           sb_started_at := Some (case sb_started_at b of None \<Rightarrow> now | Some t \<Rightarrow> t)\<rparr>) x'))
       (enqueue_in se (cycle_request now b) x)"

definition cycle_step ::
  "sched_env \<Rightarrow> time \<Rightarrow> ingestion_subscription \<Rightarrow> counts \<Rightarrow> sched_db \<Rightarrow> job_error + counts \<times> sched_db" where
  "cycle_step se now b c x =
     (case sb_current_cycle_job_id b of
        None \<Rightarrow> start_cycle se now b c x
      | Some i \<Rightarrow>
          (case find_job i (sx_db x) of
             None \<Rightarrow> start_cycle se now (b\<lparr>sb_current_cycle_job_id := None, sb_current_cycle_run_id := None\<rparr>) c x
           | Some j \<Rightarrow>
               if wj_status j \<in> {QUEUED, RUNNING} then Inr (c, x)
               else if wj_status j \<in> {FAILED, NEEDS_REVIEW, CANCELLED} then Inr (c, put_subscription (fail_cycle now j b) x)
               else Inr (c, put_subscription (settle_cycle se now j b) x)))"

fun cycle_loop ::
  "sched_env \<Rightarrow> time \<Rightarrow> ingestion_subscription list \<Rightarrow> counts \<Rightarrow> sched_db \<Rightarrow> job_error + counts \<times> sched_db" where
  "cycle_loop se now [] c x = Inr (c, x)"
| "cycle_loop se now (b # bs) c x = result_bind (cycle_step se now b c x) (\<lambda>(c', x'). cycle_loop se now bs c' x')"

section \<open>Icon discovery\<close>

definition icon_eligible :: "sched_settings \<Rightarrow> time \<Rightarrow> source_row \<Rightarrow> bool" where
  "icon_eligible cfg now so =
     (let stale_before = now - days (st_icon_ttl_days cfg);
          abandoned_before = now - seconds (max (st_worker_lease_seconds cfg * 2) 300);
          due_retry = (case so_icon_next_retry_at so of None \<Rightarrow> True | Some t \<Rightarrow> t \<le> now) in
      so_icon_status so = ''pending'' \<or>
      (so_icon_status so \<in> {''retryable'', ''unavailable''} \<and> due_retry) \<or>
      (so_icon_status so = ''resolved'' \<and>
         (case so_icon_updated_at so of None \<Rightarrow> True | Some t \<Rightarrow> t \<le> stale_before) \<and> due_retry) \<or>
      (so_icon_status so = ''queued'' \<and>
         (case so_icon_enqueued_at so of None \<Rightarrow> True | Some t \<Rightarrow> t \<le> abandoned_before)))"

definition due_source_icons :: "sched_env \<Rightarrow> time \<Rightarrow> sched_db \<Rightarrow> source_row list" where
  "due_source_icons se now x =
     take (st_icon_batch_size (se_settings se)) (sort_key (\<lambda>so. (so_created_at so, so_id so))
       (filter (\<lambda>so. so_deleted_at so = None \<and> so_active so \<and> so_platform so \<in> {''rss'', ''atom''} \<and>
          icon_eligible (se_settings se) now so \<and> \<not> se_locked se (so_id so)) (sx_sources x)))"

definition icon_key :: "uuid \<Rightarrow> int \<Rightarrow> string" where
  "icon_key i n = ''source-icon:'' @ i @ '':'' @ int_str n"

definition icon_request :: "source_row \<Rightarrow> int \<Rightarrow> time \<Rightarrow> enqueue_request" where
  "icon_request so n now =
     (sched_request ''source.icon.discover'' [(KStr ''source_id'', PStr (so_id so)), (KStr ''attempt'', PInt n)]
        (icon_key (so_id so) n) now)\<lparr>eq_priority := -1, eq_max_attempts := 1, eq_pause_sensitive := False\<rparr>"

fun icon_loop :: "sched_env \<Rightarrow> time \<Rightarrow> source_row list \<Rightarrow> counts \<Rightarrow> sched_db \<Rightarrow> job_error + counts \<times> sched_db" where
  "icon_loop se now [] c x = Inr (c, x)"
| "icon_loop se now (so # sos) c x =
     (let n = so_icon_attempt so + 1;
          queued = so\<lparr>so_icon_status := ''queued'', so_icon_enqueued_at := Some now, so_icon_attempt := n\<rparr> in
      case enqueue_in se (icon_request so n now) (put_source queued x) of
        Inl (JobCapabilityUnavailable code ty after) \<Rightarrow>
          icon_loop se now sos c (put_source (queued\<lparr>so_icon_status := ''pending'', so_icon_enqueued_at := None\<rparr>) x)
      | Inl e \<Rightarrow> Inl e
      | Inr ((j, created), x') \<Rightarrow> icon_loop se now sos (count created c) x')"

section \<open>The tick\<close>

record tick_result =
  tk_expired_leases :: nat
  tk_reconciled :: nat
  tk_enqueued :: nat
  tk_deduplicated :: nat
  tk_invalid :: nat
  tk_paused :: bool
  tk_continuous_enqueued :: nat
  tk_continuous_deduplicated :: nat
  tk_source_icon_enqueued :: nat
  tk_source_icon_deduplicated :: nat

text \<open>The part of the tick that a pause skips.\<close>

definition enqueue_due :: "sched_env \<Rightarrow> time \<Rightarrow> sched_db \<Rightarrow> job_error + ((counts \<times> nat) \<times> counts \<times> counts) \<times> sched_db" where
  "enqueue_due se now x =
     result_bind (route_loop se now (due_routes se now x) (0, 0) x) (\<lambda>(c1, x1).
     result_bind (schedule_loop se now (due_schedules se now x1) (c1, 0) x1) (\<lambda>(c2, x2).
     result_bind (cycle_loop se now (due_subscriptions se now x2) (0, 0) x2) (\<lambda>(c3, x3).
     result_bind (icon_loop se now (due_source_icons se now x3) (0, 0) x3) (\<lambda>(c4, x4).
       Inr ((c2, c3, c4), x4)))))"

definition tick_body :: "sched_env \<Rightarrow> time \<Rightarrow> sched_db \<Rightarrow> job_error + tick_result \<times> sched_db" where
  "tick_body se now x =
     (let (expired, db1) = requeue_expired_leases (se_env se) (Some now) (sx_db x) in
      result_bind (reconcile_sources se now (x\<lparr>sx_db := db1\<rparr>)) (\<lambda>((reconciled, bad), x2).
        if is_paused x2 then
          Inr (\<lparr>tk_expired_leases = expired, tk_reconciled = reconciled, tk_enqueued = 0, tk_deduplicated = 0,
                tk_invalid = bad, tk_paused = True, tk_continuous_enqueued = 0, tk_continuous_deduplicated = 0,
                tk_source_icon_enqueued = 0, tk_source_icon_deduplicated = 0\<rparr>, x2)
        else map_sum id (\<lambda>((((e, d), bad'), (ce, cd), (ie, ide)), x3).
          (\<lparr>tk_expired_leases = expired, tk_reconciled = reconciled, tk_enqueued = e, tk_deduplicated = d,
            tk_invalid = bad + bad', tk_paused = False, tk_continuous_enqueued = ce, tk_continuous_deduplicated = cd,
            tk_source_icon_enqueued = ie, tk_source_icon_deduplicated = ide\<rparr>, x3)) (enqueue_due se now x2)))"

text \<open>One transaction: an exception rolls back everything.\<close>

definition tick :: "sched_env \<Rightarrow> time option \<Rightarrow> sched_db \<Rightarrow> (job_error + tick_result) \<times> sched_db" where
  "tick se now x =
     (case tick_body se (observed (se_env se) now) x of
        Inl e \<Rightarrow> (Inl e, x)
      | Inr (res, x') \<Rightarrow> (Inr res, x'))"

end
