(* ===== verification/Source_Collections.thy ===== *)
theory Source_Collections
  imports Scheduler
begin

text \<open>
  Source collections, \<open>app/source_collections/repository.py\<close>: naming, membership with its size limit, and
  the snapshot of a collection that an ingestion run works on (\<open>app/ingestion/runs.py\<close>).  Rows have
  every column of their classes but \<open>updated_at\<close>.  Sources, subscriptions and jobs are those of the scheduler.
\<close>

section \<open>Rows\<close>

record source_collection =
  cl_id :: uuid
  cl_name :: string
  cl_normalized_name :: string
  cl_description :: "string option"
  cl_created_at :: time

record collection_membership =
  mb_collection_id :: uuid
  mb_source_id :: uuid
  mb_created_at :: time

record ingest_run =
  ir_id :: uuid
  ir_started_at :: time
  ir_finished_at :: "time option"
  ir_trigger :: string
  ir_parser_version :: string
  ir_status :: string
  ir_stats :: pydict
  ir_error :: "string option"
  ir_source_collection_id :: "uuid option"
  ir_source_collection_name_at_start :: "string option"
  ir_continuous_subscription_id :: "uuid option"
  ir_continuous_cycle_number :: "int option"
  ir_source_count :: int
  ir_processed_count :: int
  ir_success_count :: int
  ir_failure_count :: int

record run_source_snapshot =
  ss_id :: uuid
  ss_ingest_run_id :: uuid
  ss_source_id :: "uuid option"
  ss_position :: nat
  ss_source_name :: string
  ss_platform :: string
  ss_feed_url :: "string option"
  ss_telegram_username :: "string option"
  ss_default_timezone :: string
  ss_etag :: "string option"
  ss_last_modified :: "string option"
  ss_status :: string
  ss_started_at :: "time option"
  ss_completed_at :: "time option"
  ss_error :: "string option"
  ss_created_at :: time

record coll_db =
  co_sched :: sched_db
  co_collections :: "source_collection list"
  co_members :: "collection_membership list"
  co_runs :: "ingest_run list"
  co_snapshots :: "run_source_snapshot list"

datatype coll_error =
    Coll_Lookup string
  | Coll_Value string
  | Coll_Limit uuid nat nat
  | Coll_Conflict string string "uuid option"
  | Coll_Integrity string
  | Coll_Job job_error

definition SOURCE_COLLECTION_MAX_SIZE :: nat where
  "SOURCE_COLLECTION_MAX_SIZE = 100"

section \<open>Names\<close>

definition normalize_source_collection_name :: "string \<Rightarrow> coll_error + string \<times> string" where
  "normalize_source_collection_name value =
     (let name = strip value in
      if \<not> (1 \<le> length name \<and> length name \<le> 60)
      then Inl (Coll_Value ''source collection name must contain between 1 and 60 characters'')
      else Inr (name, lower name))"

definition normalize_description :: "string option \<Rightarrow> coll_error + string option" where
  "normalize_description value =
     (case value of
        None \<Rightarrow> Inr None
      | Some v \<Rightarrow>
          let d = strip v in
          if length d > 500 then Inl (Coll_Value ''source collection description must contain at most 500 characters'')
          else Inr (if d = [] then None else Some d))"

section \<open>Identifiers and reads\<close>

definition fresh_id :: "env \<Rightarrow> coll_db \<Rightarrow> uuid" where
  "fresh_id env x = env_uuid env (db_seq (sx_db (co_sched x)))"

definition take_id :: "coll_db \<Rightarrow> coll_db" where
  "take_id x = x\<lparr>co_sched := (co_sched x)\<lparr>sx_db := (sx_db (co_sched x))\<lparr>db_seq := Suc (db_seq (sx_db (co_sched x)))\<rparr>\<rparr>\<rparr>"

definition get_collection :: "coll_db \<Rightarrow> uuid \<Rightarrow> source_collection option" where
  "get_collection x i = find (\<lambda>c. cl_id c = i) (co_collections x)"

definition member_ids :: "coll_db \<Rightarrow> uuid \<Rightarrow> uuid list" where
  "member_ids x i = map mb_source_id (filter (\<lambda>m. mb_collection_id m = i) (co_members x))"

definition live_ids :: "coll_db \<Rightarrow> uuid list" where
  "live_ids x = map so_id (filter (\<lambda>s. so_deleted_at s = None) (sx_sources (co_sched x)))"

definition live_members :: "coll_db \<Rightarrow> uuid \<Rightarrow> source_row list" where
  "live_members x i =
     filter (\<lambda>s. so_id s \<in> set (member_ids x i) \<and> so_deleted_at s = None) (sx_sources (co_sched x))"

definition collection_source_count :: "coll_db \<Rightarrow> uuid \<Rightarrow> nat" where
  "collection_source_count x i = length (live_members x i)"

section \<open>Creating and renaming\<close>

definition name_taken :: "coll_db \<Rightarrow> uuid \<Rightarrow> string \<Rightarrow> bool" where
  "name_taken x i n = list_ex (\<lambda>c. cl_id c \<noteq> i \<and> cl_normalized_name c = n) (co_collections x)"

definition create_collection ::
  "env \<Rightarrow> string \<Rightarrow> string option \<Rightarrow> coll_db \<Rightarrow> coll_error + source_collection \<times> coll_db" where
  "create_collection env name description x =
     result_bind (normalize_source_collection_name name) (\<lambda>(n, key).
     result_bind (normalize_description description) (\<lambda>d.
       let c = \<lparr>cl_id = fresh_id env x, cl_name = n, cl_normalized_name = key, cl_description = d,
                cl_created_at = env_db_now env\<rparr> in
       if name_taken x (cl_id c) key \<or> get_collection x (cl_id c) \<noteq> None
       then Inl (Coll_Value ''source collection name already exists'')
       else Inr (c, (take_id x)\<lparr>co_collections := co_collections x @ [c]\<rparr>)))"

definition update_collection ::
  "source_collection \<Rightarrow> string option \<Rightarrow> string option \<Rightarrow> bool \<Rightarrow> coll_db \<Rightarrow> coll_error + source_collection \<times> coll_db" where
  "update_collection c name description provided x =
     result_bind (case name of None \<Rightarrow> Inr (cl_name c, cl_normalized_name c)
                  | Some v \<Rightarrow> normalize_source_collection_name v) (\<lambda>(n, key).
     result_bind (if provided then normalize_description description else Inr (cl_description c)) (\<lambda>d.
       let c' = c\<lparr>cl_name := n, cl_normalized_name := key, cl_description := d\<rparr> in
       if name_taken x (cl_id c) key then Inl (Coll_Value ''source collection name already exists'')
       else Inr (c', x\<lparr>co_collections := set_rows (\<lambda>r. cl_id r = cl_id c) (\<lambda>_. c') (co_collections x)\<rparr>)))"

section \<open>Membership\<close>

record membership_change =
  mc_collection_id :: uuid
  mc_added :: "uuid list"
  mc_removed :: "uuid list"
  mc_already :: "uuid list"
  mc_missing :: "uuid list"
  mc_source_count :: nat

text \<open>\<open>dict.fromkeys\<close> keeps the first occurrence of each id.\<close>

fun from_keys :: "uuid list \<Rightarrow> uuid list" where
  "from_keys [] = []"
| "from_keys (i # is) = i # filter (\<lambda>k. k \<noteq> i) (from_keys is)"

definition add_members :: "env \<Rightarrow> uuid \<Rightarrow> uuid list \<Rightarrow> coll_db \<Rightarrow> coll_error + membership_change \<times> coll_db" where
  "add_members env i source_ids x =
     (case get_collection x i of
        None \<Rightarrow> Inl (Coll_Lookup ''source collection not found'')
      | Some c \<Rightarrow>
          let requested = from_keys source_ids;
              current = member_ids x i;
              valid = filter (\<lambda>k. k \<in> set requested) (live_ids x);
              additions = filter (\<lambda>k. k \<in> set valid \<and> k \<notin> set current) requested in
          if length (remdups current) + length additions > SOURCE_COLLECTION_MAX_SIZE
          then Inl (Coll_Limit i (length (remdups current)) (length additions))
          else Inr (\<lparr>mc_collection_id = i, mc_added = additions, mc_removed = [],
                     mc_already = filter (\<lambda>k. k \<in> set current) requested,
                     mc_missing = filter (\<lambda>k. k \<notin> set valid) requested,
                     mc_source_count = length (remdups current) + length additions\<rparr>,
                   x\<lparr>co_members := co_members x @
                       map (\<lambda>k. \<lparr>mb_collection_id = i, mb_source_id = k, mb_created_at = env_db_now env\<rparr>) additions\<rparr>))"

definition remove_members :: "uuid \<Rightarrow> uuid list \<Rightarrow> coll_db \<Rightarrow> coll_error + membership_change \<times> coll_db" where
  "remove_members i source_ids x =
     (case get_collection x i of
        None \<Rightarrow> Inl (Coll_Lookup ''source collection not found'')
      | Some c \<Rightarrow>
          let requested = from_keys source_ids;
              existing = filter (\<lambda>k. k \<in> set requested) (member_ids x i);
              removed = filter (\<lambda>k. k \<in> set existing) requested;
              x' = x\<lparr>co_members := filter (\<lambda>m. \<not> (mb_collection_id m = i \<and> mb_source_id m \<in> set removed)) (co_members x)\<rparr>
          in Inr (\<lparr>mc_collection_id = i, mc_added = [], mc_removed = removed,
                   mc_already = filter (\<lambda>k. k \<notin> set existing) requested, mc_missing = [],
                   mc_source_count = length (member_ids x' i)\<rparr>, x'))"

section \<open>The snapshot of a collection\<close>

definition initial_ingest_stats :: pydict where
  "initial_ingest_stats =
     [(KStr ''checked'', PInt 0), (KStr ''fetched'', PInt 0), (KStr ''skipped'', PInt 0), (KStr ''failed'', PInt 0),
      (KStr ''items'', PInt 0), (KStr ''media_candidates'', PInt 0), (KStr ''errors'', PList [])]"

definition new_ingest_run ::
  "uuid \<Rightarrow> time \<Rightarrow> string \<Rightarrow> string \<Rightarrow> string \<Rightarrow> uuid option \<Rightarrow> string option \<Rightarrow> int \<Rightarrow> ingest_run" where
  "new_ingest_run i started trigger parser status collection name n =
     \<lparr>ir_id = i, ir_started_at = started, ir_finished_at = None, ir_trigger = trigger, ir_parser_version = parser,
      ir_status = status, ir_stats = initial_ingest_stats, ir_error = None, ir_source_collection_id = collection,
      ir_source_collection_name_at_start = name, ir_continuous_subscription_id = None,
      ir_continuous_cycle_number = None, ir_source_count = n, ir_processed_count = 0, ir_success_count = 0,
      ir_failure_count = 0\<rparr>"

definition run_active :: "ingest_run \<Rightarrow> bool" where
  "run_active r = (ir_status r \<in> {''queued'', ''running''})"

definition snapshot_of :: "env \<Rightarrow> uuid \<Rightarrow> (nat \<Rightarrow> uuid) \<Rightarrow> nat \<Rightarrow> source_row \<Rightarrow> run_source_snapshot" where
  "snapshot_of env run ids p s =
     \<lparr>ss_id = ids p, ss_ingest_run_id = run, ss_source_id = Some (so_id s), ss_position = p, ss_source_name = so_name s,
      ss_platform = so_platform s, ss_feed_url = so_feed_url s, ss_telegram_username = so_telegram_username s,
      ss_default_timezone = (if so_default_timezone s = [] then ''UTC'' else so_default_timezone s),
      ss_etag = so_etag s, ss_last_modified = so_last_modified s, ss_status = ''queued'', ss_started_at = None,
      ss_completed_at = None, ss_error = None, ss_created_at = env_db_now env\<rparr>"

fun take_ids :: "nat \<Rightarrow> coll_db \<Rightarrow> coll_db" where
  "take_ids 0 x = x"
| "take_ids (Suc n) x = take_ids n (take_id x)"

definition snapshot_members :: "coll_db \<Rightarrow> uuid \<Rightarrow> source_row list" where
  "snapshot_members x i = sort_key (\<lambda>s. (so_source_group s, so_name s, so_id s)) (live_members x i)"

text \<open>
  The flush of the run meets the unique index \<open>uq_ingest_runs_active_source_collection\<close>: one queued or
  running run per collection.
\<close>

definition create_collection_ingest_snapshot ::
  "env \<Rightarrow> uuid \<Rightarrow> string \<Rightarrow> string \<Rightarrow> coll_db \<Rightarrow> coll_error + ingest_run \<times> coll_db" where
  "create_collection_ingest_snapshot env i trigger parser x =
     (case get_collection x i of
        None \<Rightarrow> Inl (Coll_Lookup ''source collection not found'')
      | Some c \<Rightarrow>
          let members = snapshot_members x i; n = length members; seq = db_seq (sx_db (co_sched x)) in
          if members = [] then Inl (Coll_Value ''source collection must contain at least one source'')
          else if list_ex (\<lambda>r. run_active r \<and> ir_source_collection_id r = Some i) (co_runs x)
          then Inl (Coll_Integrity ''uq_ingest_runs_active_source_collection'')
          else let run = new_ingest_run (env_uuid env seq) (env_now env) trigger parser ''queued'' (Some (cl_id c))
                           (Some (cl_name c)) (int n);
                   ids = (\<lambda>p. env_uuid env (seq + 1 + p))
               in Inr (run, (take_ids (Suc n) x)
                    \<lparr>co_runs := co_runs x @ [run],
                     co_snapshots := co_snapshots x @
                       map (\<lambda>(p, s). snapshot_of env (ir_id run) ids p s) (List.enumerate 0 members)\<rparr>))"

end
