(* ===== verification/Continuous.thy ===== *)
theory Continuous
  imports Source_Collections
begin

text \<open>
  Continuous ingestion of a collection: starting and stopping a subscription
  (\<open>app/source_collections/continuous.py\<close>), the deletion of a collection (\<open>app/api/source_collections.py\<close>)
  and the handlers of \<open>app/jobs/handlers.py\<close>.  The scheduler's part, which enqueues the cycles, is in \<open>Scheduler\<close>.

  The cycle handler commits twice and keeps its ORM objects across the commits: the sessions are made with
  \<open>expire_on_commit=False\<close>, so the second flush compares with the values the handler loaded and writes
  the columns that differ from those, whatever other transactions stored in between.
\<close>

section \<open>Subscriptions\<close>

definition get_subscription :: "coll_db \<Rightarrow> uuid \<Rightarrow> ingestion_subscription option" where
  "get_subscription x i = find (\<lambda>b. sb_id b = i) (sx_subscriptions (co_sched x))"

definition get_latest_subscription :: "coll_db \<Rightarrow> uuid \<Rightarrow> ingestion_subscription option" where
  "get_latest_subscription x c =
     (case rev (sort_key (\<lambda>b. (sb_created_at b, sb_id b))
              (filter (\<lambda>b. sb_source_collection_id b = Some c) (sx_subscriptions (co_sched x)))) of
        [] \<Rightarrow> None | b # _ \<Rightarrow> Some b)"

definition on_sched :: "(sched_db \<Rightarrow> sched_db) \<Rightarrow> coll_db \<Rightarrow> coll_db" where
  "on_sched f x = x\<lparr>co_sched := f (co_sched x)\<rparr>"

definition on_jobs :: "db \<Rightarrow> coll_db \<Rightarrow> coll_db" where
  "on_jobs d = on_sched (\<lambda>s. s\<lparr>sx_db := d\<rparr>)"

definition is_active :: "ingestion_subscription \<Rightarrow> bool" where
  "is_active b = (sb_status b \<in> set ACTIVE_STATUSES)"

definition active_in :: "coll_db \<Rightarrow> uuid \<Rightarrow> ingestion_subscription list" where
  "active_in x c = filter (\<lambda>b. sb_source_collection_id b = Some c \<and> is_active b) (sx_subscriptions (co_sched x))"

definition new_subscription :: "env \<Rightarrow> uuid \<Rightarrow> source_collection \<Rightarrow> string \<Rightarrow> string \<Rightarrow> int \<Rightarrow> time \<Rightarrow> ingestion_subscription" where
  "new_subscription env i c key by interval t =
     \<lparr>sb_id = i, sb_source_collection_id = Some (cl_id c), sb_source_collection_name_at_start = Some (cl_name c),
      sb_mode = ''continuous'', sb_idempotency_key = key, sb_created_by = by, sb_status = ''starting'',
      sb_interval_minutes = interval, sb_created_at = env_db_now env, sb_started_at = Some t, sb_stopped_at = None,
      sb_last_cycle_at = None, sb_next_cycle_at = Some t, sb_last_success_at = None, sb_cycle_count = 0,
      sb_last_cycle_status = None, sb_last_error = None, sb_current_cycle_job_id = None, sb_current_cycle_run_id = None\<rparr>"

definition start_subscription ::
  "env \<Rightarrow> int \<Rightarrow> uuid \<Rightarrow> string \<Rightarrow> string \<Rightarrow> int option \<Rightarrow> time option \<Rightarrow> coll_db \<Rightarrow>
   coll_error + (ingestion_subscription \<times> bool) \<times> coll_db" where
  "start_subscription env default_interval c key by interval now x =
     (let t = observed env now;
          n = (case interval of None \<Rightarrow> default_interval | Some k \<Rightarrow> k) in
      if \<not> (1 \<le> n \<and> n \<le> 1440)
      then Inl (Coll_Value ''continuous ingestion interval must be between 1 and 1440 minutes'')
      else case get_collection x c of
        None \<Rightarrow> Inl (Coll_Lookup ''source collection not found'')
      | Some cl \<Rightarrow>
          (case find (\<lambda>b. sb_idempotency_key b = key) (sx_subscriptions (co_sched x)) of
             Some b \<Rightarrow>
               if sb_source_collection_id b \<noteq> Some c then
                 Inl (Coll_Conflict ''continuous_ingestion_idempotency_key_reused''
                   ''This continuous ingestion request was already used for another Source Collection.'' (Some (sb_id b)))
               else Inr ((b, True), x)
           | None \<Rightarrow>
               (case sort_key (\<lambda>b. - sb_created_at b) (active_in x c) of
                  b # _ \<Rightarrow> Inl (Coll_Conflict ''continuous_ingestion_already_running''
                    ''Continuous ingestion is already active for this Source Collection.'' (Some (sb_id b)))
                | [] \<Rightarrow>
                    if list_ex (\<lambda>r. ir_source_collection_id r = Some c \<and> run_active r) (co_runs x) then
                      Inl (Coll_Conflict ''collection_ingest_already_running''
                        ''An ingestion run for this Source Collection is already active.'' None)
                    else if get_subscription x (fresh_id env x) \<noteq> None
                    then Inl (Coll_Integrity ''source_collection_ingestion_subscriptions_pkey'')
                    else let b = new_subscription env (fresh_id env x) cl key by n t in
                      Inr ((b, False),
                        on_sched (\<lambda>s. s\<lparr>sx_subscriptions := sx_subscriptions s @ [b]\<rparr>) (take_id x)))))"

definition with_reason :: "string option \<Rightarrow> ingestion_subscription \<Rightarrow> ingestion_subscription" where
  "with_reason reason b =
     (case reason of None \<Rightarrow> b | Some r \<Rightarrow> if r = [] then b else b\<lparr>sb_last_error := Some r\<rparr>)"

definition mark_stopped :: "time \<Rightarrow> string option \<Rightarrow> ingestion_subscription \<Rightarrow> ingestion_subscription" where
  "mark_stopped t reason b =
     with_reason reason (b\<lparr>sb_status := ''stopped'', sb_stopped_at := Some t, sb_next_cycle_at := None\<rparr>)"

definition stop_one ::
  "env \<Rightarrow> time \<Rightarrow> string option \<Rightarrow> ingestion_subscription \<Rightarrow> coll_db \<Rightarrow> coll_error + ingestion_subscription \<times> coll_db" where
  "stop_one env t reason b x =
     (let job = (case sb_current_cycle_job_id b of None \<Rightarrow> None | Some i \<Rightarrow> find_job i (sx_db (co_sched x)));
          stopped = mark_stopped t reason (b\<lparr>sb_current_cycle_job_id := None, sb_current_cycle_run_id := None\<rparr>);
          put = (\<lambda>b'. on_sched (put_subscription b')) in
      case job of
        None \<Rightarrow> Inr (stopped, put stopped x)
      | Some j \<Rightarrow>
          if wj_status j = RUNNING then
            let b' = with_reason reason (b\<lparr>sb_status := ''stopping'', sb_next_cycle_at := None\<rparr>) in Inr (b', put b' x)
          else if wj_status j = QUEUED then
            (case cancel_job env (wj_id j) (Some t) (sx_db (co_sched x)) of
               Inl e \<Rightarrow> Inl (Coll_Job e)
             | Inr (_, d) \<Rightarrow> Inr (stopped, put stopped (on_jobs d x)))
          else Inr (stopped, put stopped x))"

definition stop_subscription ::
  "env \<Rightarrow> uuid \<Rightarrow> time option \<Rightarrow> string option \<Rightarrow> coll_db \<Rightarrow> coll_error + ingestion_subscription \<times> coll_db" where
  "stop_subscription env i now reason x =
     (case get_subscription x i of
        None \<Rightarrow> Inl (Coll_Lookup ''continuous ingestion subscription not found'')
      | Some b \<Rightarrow>
          if sb_status b \<in> {''stopped'', ''error''} then Inr (b, x)
          else stop_one env (observed env now) reason b x)"

fun stop_all :: "env \<Rightarrow> time \<Rightarrow> ingestion_subscription list \<Rightarrow> coll_db \<Rightarrow> coll_error + coll_db" where
  "stop_all env t [] x = Inr x"
| "stop_all env t (b # bs) x =
     result_bind (stop_one env t (Some ''Source Collection was deleted.'') b x) (\<lambda>(_, x'). stop_all env t bs x')"

definition stop_subscriptions_for_collection_delete :: "env \<Rightarrow> uuid \<Rightarrow> time option \<Rightarrow> coll_db \<Rightarrow> coll_error + coll_db" where
  "stop_subscriptions_for_collection_delete env c now x = stop_all env (observed env now) (active_in x c) x"

text \<open>Deleting the row cascades to the memberships and clears the references of subscriptions and runs.\<close>

definition drop_collection :: "uuid \<Rightarrow> coll_db \<Rightarrow> coll_db" where
  "drop_collection c x =
     (on_sched (\<lambda>s. s\<lparr>sx_subscriptions := set_rows (\<lambda>b. sb_source_collection_id b = Some c)
         (\<lambda>b. b\<lparr>sb_source_collection_id := None\<rparr>) (sx_subscriptions s)\<rparr>) x)
       \<lparr>co_collections := filter (\<lambda>r. cl_id r \<noteq> c) (co_collections x),
        co_members := filter (\<lambda>m. mb_collection_id m \<noteq> c) (co_members x),
        co_runs := set_rows (\<lambda>r. ir_source_collection_id r = Some c) (\<lambda>r. r\<lparr>ir_source_collection_id := None\<rparr>) (co_runs x)\<rparr>"

definition delete_collection :: "env \<Rightarrow> uuid \<Rightarrow> coll_db \<Rightarrow> coll_error + coll_db" where
  "delete_collection env c x =
     (case get_collection x c of
        None \<Rightarrow> Inl (Coll_Lookup ''source collection not found'')
      | Some _ \<Rightarrow> map_sum id (drop_collection c) (stop_subscriptions_for_collection_delete env c (Some (env_now env)) x))"

section \<open>The cycle of a subscription\<close>

definition stop_without_cycle :: "time \<Rightarrow> string \<Rightarrow> string option \<Rightarrow> ingestion_subscription \<Rightarrow> ingestion_subscription" where
  "stop_without_cycle t status error b =
     with_reason error
       (b\<lparr>sb_status := ''stopped'', sb_stopped_at := Some t, sb_next_cycle_at := None, sb_current_cycle_job_id := None,
          sb_current_cycle_run_id := None, sb_last_cycle_status := Some status\<rparr>)"

definition defer_cycle :: "time \<Rightarrow> string \<Rightarrow> ingestion_subscription \<Rightarrow> ingestion_subscription" where
  "defer_cycle t status b =
     b\<lparr>sb_status := ''running'', sb_cycle_count := sb_cycle_count b + 1, sb_last_cycle_at := Some t,
       sb_last_cycle_status := Some status, sb_next_cycle_at := Some (t + minutes (sb_interval_minutes b)),
       sb_current_cycle_job_id := None, sb_current_cycle_run_id := None\<rparr>"

definition finish_cycle :: "int \<Rightarrow> time \<Rightarrow> string \<Rightarrow> bool \<Rightarrow> string option \<Rightarrow> ingestion_subscription \<Rightarrow> ingestion_subscription" where
  "finish_cycle n t status successful error b =
     (let b1 = b\<lparr>sb_cycle_count := max (sb_cycle_count b) n, sb_last_cycle_at := Some t, sb_last_cycle_status := Some status,
                 sb_last_success_at := (if successful then Some t else sb_last_success_at b),
                 sb_current_cycle_job_id := None, sb_current_cycle_run_id := None,
                 sb_last_error := (case error of Some m \<Rightarrow> if m \<noteq> [] then Some m else if successful then None else sb_last_error b
                                   | None \<Rightarrow> if successful then None else sb_last_error b)\<rparr>
      in if sb_status b = ''stopping'' then
           b1\<lparr>sb_status := ''stopped'', sb_stopped_at := Some t, sb_next_cycle_at := None\<rparr>
         else if sb_status b \<in> {''starting'', ''running''} then
           b1\<lparr>sb_status := ''running'', sb_next_cycle_at := Some (t + minutes (sb_interval_minutes b))\<rparr>
         else b1)"

definition flush_subscription ::
  "ingestion_subscription \<Rightarrow> ingestion_subscription \<Rightarrow> ingestion_subscription \<Rightarrow> ingestion_subscription" where
  "flush_subscription b b' r =
     r\<lparr>sb_status := written (sb_status b) (sb_status b') (sb_status r),
       sb_stopped_at := written (sb_stopped_at b) (sb_stopped_at b') (sb_stopped_at r),
       sb_last_cycle_at := written (sb_last_cycle_at b) (sb_last_cycle_at b') (sb_last_cycle_at r),
       sb_next_cycle_at := written (sb_next_cycle_at b) (sb_next_cycle_at b') (sb_next_cycle_at r),
       sb_last_success_at := written (sb_last_success_at b) (sb_last_success_at b') (sb_last_success_at r),
       sb_cycle_count := written (sb_cycle_count b) (sb_cycle_count b') (sb_cycle_count r),
       sb_last_cycle_status := written (sb_last_cycle_status b) (sb_last_cycle_status b') (sb_last_cycle_status r),
       sb_last_error := written (sb_last_error b) (sb_last_error b') (sb_last_error r),
       sb_current_cycle_job_id := written (sb_current_cycle_job_id b) (sb_current_cycle_job_id b') (sb_current_cycle_job_id r),
       sb_current_cycle_run_id := written (sb_current_cycle_run_id b) (sb_current_cycle_run_id b') (sb_current_cycle_run_id r)\<rparr>"

definition put_flushed :: "ingestion_subscription \<Rightarrow> ingestion_subscription \<Rightarrow> coll_db \<Rightarrow> coll_db" where
  "put_flushed b b' = on_sched (\<lambda>s. s\<lparr>sx_subscriptions :=
     set_rows (\<lambda>r. sb_id r = sb_id b) (flush_subscription b b') (sx_subscriptions s)\<rparr>)"

definition cycle_args :: "pydict \<Rightarrow> (uuid \<times> int) option" where
  "cycle_args p =
     (case (payload_uuid p ''subscription_id'', dict_get p ''cycle_number'') of
        (Some i, Some v) \<Rightarrow> map_option (\<lambda>n. (i, n)) (py_int v)
      | _ \<Rightarrow> None)"

datatype cycle_phase =
    Cycle_Done pydict
  | Cycle_Run ingestion_subscription uuid int

definition cycle_answer :: "string \<Rightarrow> uuid \<Rightarrow> (pykey \<times> pyval) list \<Rightarrow> pydict" where
  "cycle_answer status i rest = [(KStr ''status'', PStr status), (KStr ''subscription_id'', PStr i)] @ rest"

definition collection_busy :: "coll_db \<Rightarrow> uuid \<Rightarrow> uuid \<Rightarrow> bool" where
  "collection_busy x c i =
     list_ex (\<lambda>r. ir_source_collection_id r = Some c \<and> run_active r \<and> ir_continuous_subscription_id r \<noteq> Some i) (co_runs x)"

definition find_run :: "coll_db \<Rightarrow> uuid \<Rightarrow> ingest_run option" where
  "find_run x i = find (\<lambda>r. ir_id r = i) (co_runs x)"

definition cycle_run :: "coll_db \<Rightarrow> pydict \<Rightarrow> uuid \<Rightarrow> int \<Rightarrow> ingest_run option" where
  "cycle_run x p i n =
     (case (case dict_get p ''ingest_run_id'' of None \<Rightarrow> None
            | Some v \<Rightarrow> if falsy v then None else case val_uuid v of None \<Rightarrow> None | Some k \<Rightarrow> find_run x k) of
        Some r \<Rightarrow> Some r
      | None \<Rightarrow>
          (case rev (sort_key (\<lambda>r. (ir_started_at r, ir_id r))
                   (filter (\<lambda>r. ir_continuous_subscription_id r = Some i \<and> ir_continuous_cycle_number r = Some n) (co_runs x))) of
             [] \<Rightarrow> None | r # _ \<Rightarrow> Some r))"

definition put_sub :: "ingestion_subscription \<Rightarrow> coll_db \<Rightarrow> coll_db" where
  "put_sub b = on_sched (put_subscription b)"

text \<open>The end of the first transaction: the run and the checkpoint of the job's payload are stored.\<close>

definition begin_run ::
  "env \<Rightarrow> job_execution \<Rightarrow> pydict \<Rightarrow> ingestion_subscription \<Rightarrow> int \<Rightarrow> ingest_run \<Rightarrow> coll_db \<Rightarrow>
   handler_error + cycle_phase \<times> coll_db" where
  "begin_run env e p b n run x =
     (let b' = b\<lparr>sb_current_cycle_run_id := Some (ir_id run)\<rparr>;
          p' = dict_set (dict_set p (KStr ''ingest_run_id'') (PStr (ir_id run))) (KStr ''cycle_number'') (PInt n) in
      case checkpoint_job env (je_id e) (je_lease_owner e) (Some p') None None (sx_db (co_sched x)) of
        Inl _ \<Rightarrow> Inl OtherException
      | Inr d \<Rightarrow> Inr (Cycle_Run b' (ir_id run) n, put_sub b' (on_jobs d x)))"

definition wait_for_sources :: "env \<Rightarrow> ingestion_subscription \<Rightarrow> int \<Rightarrow> coll_db \<Rightarrow> cycle_phase \<times> coll_db" where
  "wait_for_sources env b n x =
     (Cycle_Done (cycle_answer ''waiting_for_sources'' (sb_id b) [(KStr ''cycle_number'', PInt n)]),
      put_sub (finish_cycle n (env_now env) ''waiting_for_sources'' False None b) x)"

definition link_run :: "ingestion_subscription \<Rightarrow> int \<Rightarrow> ingest_run \<Rightarrow> ingest_run" where
  "link_run b n r = r\<lparr>ir_continuous_subscription_id := Some (sb_id b), ir_continuous_cycle_number := Some n\<rparr>"

definition collection_gone :: "env \<Rightarrow> ingestion_subscription \<Rightarrow> coll_db \<Rightarrow> coll_db" where
  "collection_gone env b =
     put_sub (stop_without_cycle (env_now env) ''collection_deleted'' (Some ''Source Collection was deleted.'') b)"

definition open_run ::
  "env \<Rightarrow> string \<Rightarrow> job_execution \<Rightarrow> pydict \<Rightarrow> ingestion_subscription \<Rightarrow> uuid \<Rightarrow> int \<Rightarrow> coll_db \<Rightarrow>
   handler_error + cycle_phase \<times> coll_db" where
  "open_run env parser e p b c n x =
     (case cycle_run x p (sb_id b) n of
        Some r \<Rightarrow> begin_run env e p b n r x
      | None \<Rightarrow>
          if collection_source_count x c = 0 then Inr (wait_for_sources env b n x)
          else case create_collection_ingest_snapshot env c ''source_collection_continuous'' parser x of
            Inl (Coll_Lookup _) \<Rightarrow>
              Inr (Cycle_Done (cycle_answer ''stopped'' (sb_id b) []), collection_gone env b x)
          | Inl (Coll_Value m) \<Rightarrow>
              if collection_source_count x c = 0 then Inr (wait_for_sources env b n x)
              else Inl (RetryableJobError ''continuous_snapshot_failed'' m None)
          | Inl _ \<Rightarrow> Inl OtherException
          | Inr (run, x1) \<Rightarrow>
              begin_run env e p b n (link_run b n run)
                (x1\<lparr>co_runs := set_rows (\<lambda>r. ir_id r = ir_id run) (link_run b n) (co_runs x1)\<rparr>))"

definition prepare_cycle ::
  "env \<Rightarrow> string \<Rightarrow> job_execution \<Rightarrow> coll_db \<Rightarrow> handler_error + cycle_phase \<times> coll_db" where
  "prepare_cycle env parser e x =
     (let p = payload_copy e in
      case cycle_args p of
        None \<Rightarrow> Inl (PermanentJobError ''continuous_cycle_payload_invalid'' ''Continuous ingestion cycle payload is invalid.'')
      | Some (i, n) \<Rightarrow>
          if n < 1 then
            Inl (PermanentJobError ''continuous_cycle_number_invalid'' ''Continuous ingestion cycle number is invalid.'')
          else case get_subscription x i of
            None \<Rightarrow> Inr (Cycle_Done (cycle_answer ''orphaned'' i []), x)
          | Some b \<Rightarrow>
              if sb_cycle_count b \<ge> n \<and> sb_current_cycle_job_id b = None then
                Inr (Cycle_Done (cycle_answer ''already_completed'' i [(KStr ''cycle_number'', PInt n)]), x)
              else if sb_status b = ''stopping'' then
                Inr (Cycle_Done (cycle_answer ''stopped'' i []),
                     put_sub (stop_without_cycle (env_now env) ''stopped'' None b) x)
              else if sb_status b \<notin> {''starting'', ''running''} then
                Inr (Cycle_Done (cycle_answer (sb_status b) i []), x)
              else case (case sb_source_collection_id b of None \<Rightarrow> None | Some c \<Rightarrow> get_collection x c) of
                None \<Rightarrow>
                  Inr (Cycle_Done (cycle_answer ''stopped'' i [(KStr ''reason'', PStr ''collection_deleted'')]),
                       collection_gone env b x)
              | Some c \<Rightarrow>
                  if collection_busy x (cl_id c) i then
                    Inr (Cycle_Done (cycle_answer ''deferred'' i [(KStr ''reason'', PStr ''collection_busy'')]),
                         put_sub (defer_cycle (env_now env) ''waiting_for_collection'' b) x)
                  else open_run env parser e p b (cl_id c) n x)"

section \<open>Ingestion and the second commit\<close>

text \<open>
  The workflow downloads and stores a run's sources in transactions of its own, beside those of the rest of the
  system: it returns the statistics or fails, with the database it and the others left.  What the handler
  writes after it is only stored when the handler returns.
\<close>

type_synonym workflow = "pydict \<Rightarrow> coll_db \<Rightarrow> (handler_error + pydict) \<times> coll_db"

definition group_request :: "uuid \<Rightarrow> enqueue_request" where
  "group_request i =
     \<lparr>eq_job_type = ''story.group_pending'',
      eq_payload = [(KStr ''limit'', PInt 100), (KStr ''root_ingest_job_id'', PStr i)],
      eq_idempotency_key = ''story-group:'' @ i, eq_origin = AUTOMATION, eq_priority = 0, eq_scheduled_for = None,
      eq_max_attempts = 3, eq_pause_sensitive = True, eq_automation_run_id = None, eq_automation_node_run_id = None\<rparr>"

definition stat :: "pydict \<Rightarrow> string \<Rightarrow> int option" where
  "stat d k = (case dict_get d k of None \<Rightarrow> Some 0 | Some v \<Rightarrow> py_int v)"

definition ingest_collect_payload ::
  "env \<Rightarrow> job_execution \<Rightarrow> workflow \<Rightarrow> pydict \<Rightarrow> coll_db \<Rightarrow> (handler_error + pydict \<times> coll_db) \<times> coll_db" where
  "ingest_collect_payload env e workflow p x =
     (case workflow p x of
        (Inl err, x1) \<Rightarrow> (Inl err, x1)
      | (Inr stats, x1) \<Rightarrow>
          (let no_run = (case dict_get p ''ingest_run_id'' of None \<Rightarrow> True | Some v \<Rightarrow> falsy v) in
           case stat stats ''failed'' of
             None \<Rightarrow> (Inl OtherException, x1)
           | Some failed \<Rightarrow>
               if failed > 0 \<and> no_run
               then (Inl (RetryableJobError ''ingest_partial'' ''One or more ingestion sources failed'' None), x1)
               else (case enqueue_job env (group_request (je_id e)) (sx_db (co_sched x1)) of
                       Inl _ \<Rightarrow> (Inl OtherException, x1)
                     | Inr (_, d) \<Rightarrow> (Inr (stats, on_jobs d x1), x1))))"

text \<open>The worker commits what a handler returned, and rolls back what it had not committed when it failed.\<close>

definition commit_handler :: "(handler_error + pydict \<times> coll_db) \<times> coll_db \<Rightarrow> (handler_error + pydict) \<times> coll_db" where
  "commit_handler r = (case r of (Inl err, x) \<Rightarrow> (Inl err, x) | (Inr (d, x'), _) \<Rightarrow> (Inr d, x'))"

definition handle_ingest_collect :: "env \<Rightarrow> job_execution \<Rightarrow> workflow \<Rightarrow> coll_db \<Rightarrow> (handler_error + pydict) \<times> coll_db" where
  "handle_ingest_collect env e workflow x = commit_handler (ingest_collect_payload env e workflow (payload_copy e) x)"

definition dict_merge :: "pydict \<Rightarrow> pydict \<Rightarrow> pydict" where
  "dict_merge d d' = foldl (\<lambda>acc (k, v). dict_set acc k v) d d'"

text \<open>The partial unique index on the active subscriptions of a collection, checked by the flush.\<close>

definition active_clash :: "coll_db \<Rightarrow> bool" where
  "active_clash x =
     (let bs = sx_subscriptions (co_sched x) in
      list_ex (\<lambda>b. is_active b \<and> sb_source_collection_id b \<noteq> None \<and>
        list_ex (\<lambda>r. sb_id r \<noteq> sb_id b \<and> is_active r \<and> sb_source_collection_id r = sb_source_collection_id b) bs) bs)"

definition complete_cycle ::
  "env \<Rightarrow> ingestion_subscription \<Rightarrow> uuid \<Rightarrow> int \<Rightarrow> pydict \<Rightarrow> coll_db \<Rightarrow> handler_error + pydict \<times> coll_db" where
  "complete_cycle env b run n stats x =
     (case stat stats ''failed'' of
        None \<Rightarrow> Inl OtherException
      | Some k \<Rightarrow>
          let failed = (k > 0 \<or> (case find_run x run of None \<Rightarrow> False | Some r \<Rightarrow> ir_status r = ''failed''));
              status = (if failed then ''partial'' else ''succeeded'');
              error = (if failed then Some ''One or more sources failed.'' else None);
              x' = put_flushed b (finish_cycle n (env_now env) status (\<not> failed) error b) x in
          if active_clash x' then Inl OtherException
          else Inr (dict_merge (cycle_answer status (sb_id b)
                      [(KStr ''cycle_number'', PInt n), (KStr ''run_id'', PStr run)]) stats, x'))"

definition run_cycle ::
  "env \<Rightarrow> job_execution \<Rightarrow> workflow \<Rightarrow> ingestion_subscription \<Rightarrow> uuid \<Rightarrow> int \<Rightarrow> coll_db \<Rightarrow>
   (handler_error + pydict) \<times> coll_db" where
  "run_cycle env e workflow b run n x =
     (case find_run x run of
        None \<Rightarrow> (Inl OtherException, x)
      | Some r \<Rightarrow>
          if ir_status r \<in> {''succeeded'', ''partial'', ''failed''}
          then commit_handler (complete_cycle env b run n (ir_stats r) x, x)
          else
            let p = dict_set (dict_set (payload_copy e) (KStr ''ingest_run_id'') (PStr run)) (KStr ''cycle_number'') (PInt n) in
            (case ingest_collect_payload env e workflow p x of
               (Inl err, x1) \<Rightarrow> (Inl err, x1)
             | (Inr (stats, x2), x1) \<Rightarrow> commit_handler (complete_cycle env b run n stats x2, x1)))"

definition handle_continuous_cycle ::
  "env \<Rightarrow> env \<Rightarrow> string \<Rightarrow> job_execution \<Rightarrow> workflow \<Rightarrow> coll_db \<Rightarrow> (handler_error + pydict) \<times> coll_db" where
  "handle_continuous_cycle env env' parser e workflow x =
     (case prepare_cycle env parser e x of
        Inl err \<Rightarrow> (Inl err, x)
      | Inr (Cycle_Done d, x1) \<Rightarrow> (Inr d, x1)
      | Inr (Cycle_Run b run n, x1) \<Rightarrow> run_cycle env' e workflow b run n x1)"

end
