(* ===== verification/Scheduler_Spec.thy ===== *)
theory Scheduler_Spec
  imports Scheduler
begin

text \<open>
  What a scheduler tick does to the queue and to the schedules: it is a run of the enqueue contract,
  it accounts for every job it creates, every due schedule gets its job and moves on, and a continuous
  subscription has one cycle at a time.
\<close>

section \<open>Every loop is a run of the enqueue contract\<close>

abbreviation sched_run :: "sched_env \<Rightarrow> sched_db \<Rightarrow> bool list \<Rightarrow> sched_db \<Rightarrow> bool" where
  "sched_run se x cs x' \<equiv> enqueue_run (enqueue_job (se_env se)) same_jobs (sx_db x) cs (sx_db x')"

definition created_of :: "bool list \<Rightarrow> nat" where
  "created_of cs = length (filter id cs)"

lemma created_of_simps [simp]:
  "created_of [] = 0" "created_of (cs @ ds) = created_of cs + created_of ds" "created_of (c # cs) = (if c then 1 else 0) + created_of cs"
  by (simp_all add: created_of_def)

lemma count_fst: "fst (count c n) = fst n + (if c then 1 else 0)"
  by (cases n) simp

lemma put_frame [frame_simps]:
  "sx_db (put_schedule se s x) = sx_db x" "sx_db (put_source so x) = sx_db x" "sx_db (put_subscription b x) = sx_db x"
  "sx_db (set_next_fetch i t x) = sx_db x" "sx_schedules (put_source so x) = sx_schedules x"
  "sx_schedules (put_subscription b x) = sx_schedules x" "sx_schedules (set_next_fetch i t x) = sx_schedules x"
  "sx_subscriptions (put_source so x) = sx_subscriptions x" "sx_subscriptions (put_schedule se s x) = sx_subscriptions x"
  "sx_sources (put_schedule se s x) = sx_sources x"
  by (simp_all add: put_schedule_def put_source_def put_subscription_def set_next_fetch_def split: option.split)

lemma enqueue_in_Inr:
  "enqueue_in se r x = Inr ((j, c), x') \<longleftrightarrow>
     (\<exists>db'. enqueue_job (se_env se) r (sx_db x) = Inr ((j, c), db') \<and> x' = x\<lparr>sx_db := db'\<rparr>)"
  by (cases "enqueue_job (se_env se) r (sx_db x)") (auto simp: enqueue_in_def)

lemma run_one: "enqueue_in se r x = Inr ((j, c), x') \<Longrightarrow> sched_run se x [c] x'"
  using enqueue_run.enqueue [OF enqueue_run.stop] by (fastforce simp: enqueue_in_Inr)

lemma run_silent: "db_jobs (sx_db x') = db_jobs (sx_db x) \<Longrightarrow> sched_run se x [] x'"
  by (rule enqueue_run.silent [OF enqueue_run.stop]) (simp add: same_jobs_def)

lemma route_loop_run:
  "route_loop se now rs c x = Inr (c', x') \<Longrightarrow> \<exists>cs. sched_run se x cs x' \<and> fst c' = fst c + created_of cs"
proof (induction rs arbitrary: c x)
  case Nil
  then show ?case using run_silent [of x x se] by force
next
  case (Cons r rs)
  show ?case
  proof (cases "route_capabilities_available se x now r \<and> rt_next_poll_at r \<noteq> None")
    case True
    then obtain t j created x1 where e: "enqueue_in se (route_request r t) x = Inr ((j, created), x1)"
      "route_loop se now rs (count created c) x1 = Inr (c', x')"
      using Cons.prems by (auto simp: result_bind_eq_Inr)
    from Cons.IH [OF e(2)] run_one [OF e(1)] show ?thesis
      using enqueue_run_trans by (fastforce simp: count_fst)
  qed (use Cons in \<open>auto split: if_splits\<close>)
qed

lemma valid_schedule_frame: "valid_schedule se s now x = (ok, x1) \<Longrightarrow> db_jobs (sx_db x1) = db_jobs (sx_db x) \<and>
    db_control (sx_db x1) = db_control (sx_db x)"
  by (auto simp: valid_schedule_def report_invalid_def frame_simps split: option.splits)

lemma run_schedule_Inr:
  "run_schedule se s t x = Inr (created, x') \<longleftrightarrow>
     (\<exists>j x1 next. enqueue_in se (schedule_request s t) x = Inr ((j, created), x1) \<and> advance_schedule se s t = Inr next \<and>
        x' = set_next_fetch (sc_source_id s) next
          (put_schedule se (s\<lparr>sc_last_enqueued_at := Some t, sc_next_run_at := Some next\<rparr>) x1))"
  by (auto simp: run_schedule_def result_bind_eq_Inr)

lemma run_schedule_run: "run_schedule se s t x = Inr (c, x') \<Longrightarrow> sched_run se x [c] x'"
  unfolding run_schedule_Inr using run_one by (auto simp: frame_simps)

lemma schedule_loop_run:
  "schedule_loop se now ss (c, b) x = Inr ((c', b'), x') \<Longrightarrow> \<exists>cs. sched_run se x cs x' \<and> fst c' = fst c + created_of cs"
proof (induction ss arbitrary: c b x)
  case Nil
  then show ?case using run_silent [of x x se] by force
next
  case (Cons s ss)
  obtain ok x1 where v: "valid_schedule se s now x = (ok, x1)" by force
  have first: "sched_run se x [] x1" using valid_schedule_frame [OF v] by (simp add: run_silent)
  show ?case
  proof (cases "ok \<and> sc_next_run_at s \<noteq> None")
    case True
    then obtain t created x2 where e: "run_schedule se s t x1 = Inr (created, x2)"
      "schedule_loop se now ss (count created c, b) x2 = Inr ((c', b'), x')"
      using Cons.prems v by (auto simp: result_bind_eq_Inr)
    from Cons.IH [OF e(2)] obtain cs where cs: "sched_run se x2 cs x'" "fst c' = fst (count created c) + created_of cs" by blast
    have "sched_run se x ([created] @ cs) x'"
      using enqueue_run_trans [OF enqueue_run_trans [OF first run_schedule_run [OF e(1)]] cs(1)] by simp
    with cs(2) show ?thesis by (intro exI [of _ "[created] @ cs"]) (simp add: count_fst)
  next
    case False
    have "\<exists>b1. schedule_loop se now ss (c, b1) x1 = Inr ((c', b'), x')"
      using Cons.prems v False by (cases "sc_next_run_at s") (auto split: if_splits)
    then obtain b1 where "schedule_loop se now ss (c, b1) x1 = Inr ((c', b'), x')" by blast
    from Cons.IH [OF this] first show ?thesis using enqueue_run_trans by fastforce
  qed
qed

lemma cycle_step_run:
  assumes "cycle_step se now b c x = Inr (c', x')"
  shows "\<exists>cs. sched_run se x cs x' \<and> fst c' = fst c + created_of cs"
proof -
  have start: "\<exists>cs. sched_run se x cs x' \<and> fst c' = fst c + created_of cs" if "start_cycle se now b' c x = Inr (c', x')" for b'
  proof -
    from that obtain j created x1 where e: "enqueue_in se (cycle_request now b') x = Inr ((j, created), x1)"
      "c' = count created c" "sx_db x' = sx_db x1"
      by (cases "enqueue_in se (cycle_request now b') x") (auto simp: start_cycle_def frame_simps)
    with run_one [OF e(1)] show ?thesis by (intro exI [of _ "[created]"]) (simp add: count_fst)
  qed
  have idle: "\<exists>cs. sched_run se x cs x' \<and> fst c' = fst c + created_of cs" if "c' = c" "sx_db x' = sx_db x"
    using run_silent [of x' x se] that by (intro exI [of _ "[]"]) simp
  have "(\<exists>b'. start_cycle se now b' c x = Inr (c', x')) \<or> (c' = c \<and> sx_db x' = sx_db x)"
    using assms by (auto simp: cycle_step_def frame_simps split: option.splits if_splits)
  with start idle show ?thesis by blast
qed

lemma cycle_loop_run:
  "cycle_loop se now bs c x = Inr (c', x') \<Longrightarrow> \<exists>cs. sched_run se x cs x' \<and> fst c' = fst c + created_of cs"
proof (induction bs arbitrary: c x)
  case Nil
  then show ?case using run_silent [of x x se] by force
next
  case (Cons b bs)
  then obtain c1 x1 where e: "cycle_step se now b c x = Inr (c1, x1)" "cycle_loop se now bs c1 x1 = Inr (c', x')"
    by (auto simp: result_bind_eq_Inr)
  from Cons.IH [OF e(2)] cycle_step_run [OF e(1)] show ?case using enqueue_run_trans by fastforce
qed

lemma icon_loop_run:
  "icon_loop se now sos c x = Inr (c', x') \<Longrightarrow> \<exists>cs. sched_run se x cs x' \<and> fst c' = fst c + created_of cs"
proof (induction sos arbitrary: c x)
  case Nil
  then show ?case using run_silent [of x x se] by force
next
  case (Cons so sos)
  let ?n = "so_icon_attempt so + 1"
  let ?q = "so\<lparr>so_icon_status := ''queued'', so_icon_enqueued_at := Some now, so_icon_attempt := ?n\<rparr>"
  show ?case
  proof (cases "enqueue_in se (icon_request so ?n now) (put_source ?q x)")
    case (Inr res)
    then obtain j created x1 where e: "enqueue_in se (icon_request so ?n now) (put_source ?q x) = Inr ((j, created), x1)"
      by (metis prod.exhaust)
    then have "icon_loop se now sos (count created c) x1 = Inr (c', x')" using Cons.prems by (simp add: Let_def)
    from Cons.IH [OF this] run_one [OF e] show ?thesis
      using enqueue_run_trans by (fastforce simp: count_fst frame_simps)
  next
    case (Inl e)
    then obtain so' where "icon_loop se now sos c (put_source so' x) = Inr (c', x')"
      using Cons.prems by (cases e) (auto simp: Let_def)
    from Cons.IH [OF this] show ?thesis by (simp add: frame_simps)
  qed
qed

section \<open>The other parts of the tick\<close>

lemma reconcile_source_frame:
  assumes "reconcile_source se now so x = Inr (n, x')"
  shows "db_jobs (sx_db x') = db_jobs (sx_db x) \<and> db_control (sx_db x') = db_control (sx_db x)"
proof -
  have "db_jobs (sx_db (snd (valid_schedule se s now x))) = db_jobs (sx_db x) \<and>
      db_control (sx_db (snd (valid_schedule se s now x))) = db_control (sx_db x)" for s
    using valid_schedule_frame [OF prod.collapse [symmetric]] .
  then show ?thesis
    using assms by (auto simp: reconcile_source_def split_beta Let_def frame_simps map_sum_eq_Inr result_bind_eq_Inr split: option.splits if_splits)
qed

lemma reconcile_loop_frame:
  "reconcile_loop se now sos c x = Inr (c', x') \<Longrightarrow>
     db_jobs (sx_db x') = db_jobs (sx_db x) \<and> db_control (sx_db x') = db_control (sx_db x)"
  by (induction se now sos c x rule: reconcile_loop.induct)
    (auto simp: result_bind_eq_Inr dest: reconcile_source_frame)

lemma requeue_rows: "edit_jobs env op p js ks \<Longrightarrow> op = Requeue now \<Longrightarrow> length ks = length js"
  by (induction rule: edit_jobs.induct) simp_all

lemma ambiguity_control: "db_control (snd (sync_expired_publish_ambiguity env d t db)) = db_control db"
proof -
  have "db_control (snd (foldl (\<lambda>(review, db) p. if dispatching_of d p = [] then (review, db) else (True, mark_ambiguous env t p db)) acc ps)) =
      db_control (snd acc)" for acc ps
    by (induction ps arbitrary: acc) (simp_all add: frame_simps split: prod.split)
  then show ?thesis by (simp add: sync_expired_publish_ambiguity_def)
qed

lemma recover_job_control: "db_control (recover_job env d t j db) = db_control db"
  by (simp add: ambiguity_control recover_job_def sync_terminal_expired_lease_dependents_def split_beta frame_simps Let_def)

lemma requeue_loop_control: "db_control (snd (requeue_loop env t cs (n, db))) = db_control db"
  by (induction cs arbitrary: n db) (simp_all add: recover_job_control Let_def split: option.split)

lemma requeue_frame:
  assumes "requeue_expired_leases env now db = (n, db')" "queue_ok (db_jobs db)"
  shows "queue_ok (db_jobs db')" "length (db_jobs db') = length (db_jobs db)" "db_control db' = db_control db"
    "key_job k db = Some i \<Longrightarrow> key_job k db' = Some i"
proof -
  have op: "run_op env (Requeue now) db = Inr db'" using assms(1) by simp
  then show "queue_ok (db_jobs db')" using run_op_ok assms(2) by blast
  have "edit_jobs env (Requeue now) (global_pause db) (db_jobs db) (db_jobs db')"
    using run_op_edit [OF op] assms(2) by (simp add: queue_ok_def)
  then show "length (db_jobs db') = length (db_jobs db)" using requeue_rows by blast
  show "db_control db' = db_control db"
    using assms(1) requeue_loop_control by (auto simp: requeue_expired_leases_def Let_def) (metis snd_conv)
  show "key_job k db = Some i \<Longrightarrow> key_job k db' = Some i" using run_op_key_job [OF assms(2) op] .
qed

lemma enqueue_due_run:
  assumes "enqueue_due se now x = Inr (((c1, b), c2, c3), x')"
  shows "\<exists>cs. sched_run se x cs x' \<and> fst c1 + fst c2 + fst c3 = created_of cs"
proof -
  from assms obtain d1 x1 x2 x3 where l:
    "route_loop se now (due_routes se now x) (0, 0) x = Inr (d1, x1)"
    "schedule_loop se now (due_schedules se now x1) (d1, 0) x1 = Inr ((c1, b), x2)"
    "cycle_loop se now (due_subscriptions se now x2) (0, 0) x2 = Inr (c2, x3)"
    "icon_loop se now (due_source_icons se now x3) (0, 0) x3 = Inr (c3, x')"
    by (auto simp: enqueue_due_def result_bind_eq_Inr)
  obtain r1 where r1: "sched_run se x r1 x1" "fst d1 = created_of r1" using route_loop_run [OF l(1)] by auto
  obtain r2 where r2: "sched_run se x1 r2 x2" "fst c1 = fst d1 + created_of r2" using schedule_loop_run [OF l(2)] by auto
  obtain r3 where r3: "sched_run se x2 r3 x3" "fst c2 = created_of r3" using cycle_loop_run [OF l(3)] by auto
  obtain r4 where r4: "sched_run se x3 r4 x'" "fst c3 = created_of r4" using icon_loop_run [OF l(4)] by auto
  have "sched_run se x (((r1 @ r2) @ r3) @ r4) x'"
    by (rule enqueue_run_trans [OF enqueue_run_trans [OF enqueue_run_trans [OF r1(1) r2(1)] r3(1)] r4(1)])
  then show ?thesis using r1(2) r2(2) r3(2) r4(2) by (intro exI [of _ "((r1 @ r2) @ r3) @ r4"]) simp
qed

text \<open>
  C19: A scheduler tick accounts for every job.  It keeps the queue's invariant and every job that was
  there, the table grows by exactly the numbers of jobs the tick reports as enqueued, for routes and
  schedules, for continuous cycles and for icons, and under a global pause it creates nothing.  A tick
  that fails changes nothing at all.
\<close>

theorem tick_accounts_for_jobs:
  assumes "queue_ok (db_jobs (sx_db x))" "tick se now x = (r, x')"
  shows "queue_ok (db_jobs (sx_db x')) \<and> (key_job k (sx_db x) = Some i \<longrightarrow> key_job k (sx_db x') = Some i) \<and>
    (case r of
       Inl e \<Rightarrow> x' = x
     | Inr t \<Rightarrow> length (db_jobs (sx_db x')) = length (db_jobs (sx_db x)) +
           tk_enqueued t + tk_continuous_enqueued t + tk_source_icon_enqueued t \<and>
         tk_paused t = global_pause (sx_db x) \<and>
         (tk_paused t \<longrightarrow> tk_enqueued t = 0 \<and> tk_continuous_enqueued t = 0 \<and> tk_source_icon_enqueued t = 0))"
proof (cases "tick_body se (observed (se_env se) now) x")
  case (Inl e)
  then show ?thesis using assms by (auto simp: tick_def)
next
  case (Inr res)
  let ?now = "observed (se_env se) now"
  obtain t where t: "r = Inr t" "tick_body se ?now x = Inr (t, x')"
    using assms(2) Inr by (cases res) (simp add: tick_def)
  obtain n db1 where q: "requeue_expired_leases (se_env se) (Some ?now) (sx_db x) = (n, db1)" by force
  note rq = requeue_frame [OF q assms(1)]
  obtain c x2 where rec: "reconcile_sources se ?now (x\<lparr>sx_db := db1\<rparr>) = Inr (c, x2)"
    using t(2) q by (auto simp: tick_body_def result_bind_eq_Inr)
  have f: "db_jobs (sx_db x2) = db_jobs db1" "db_control (sx_db x2) = db_control (sx_db x)"
    using reconcile_loop_frame [OF rec [unfolded reconcile_sources_def]] rq(3) by simp_all
  have ok2: "queue_ok (db_jobs (sx_db x2))" "length (db_jobs (sx_db x2)) = length (db_jobs (sx_db x))"
    using rq(1,2) f(1) by simp_all
  have key2: "key_job k (sx_db x) = Some i \<Longrightarrow> key_job k (sx_db x2) = Some i"
    using rq(4) f(1) by (simp add: key_job_def find_key_def)
  have p: "is_paused x2 = global_pause (sx_db x)" using f(2) by (simp add: is_paused_def global_pause_def)
  show ?thesis
  proof (cases "is_paused x2")
    case True
    have "x' = x2 \<and> tk_enqueued t = 0 \<and> tk_continuous_enqueued t = 0 \<and> tk_source_icon_enqueued t = 0 \<and> tk_paused t"
      using t(2) q rec True by (cases c) (auto simp: tick_body_def result_bind_def)
    then show ?thesis using t(1) ok2 key2 p True by simp
  next
    case False
    obtain c1 b c2 c3 where e: "enqueue_due se ?now x2 = Inr (((c1, b), c2, c3), x')"
      "tk_enqueued t = fst c1" "tk_continuous_enqueued t = fst c2" "tk_source_icon_enqueued t = fst c3" "\<not> tk_paused t"
      using t(2) q rec False by (cases c; cases "enqueue_due se ?now x2") (auto simp: tick_body_def result_bind_def)
    from enqueue_due_run [OF e(1)] obtain cs where cs: "sched_run se x2 cs x'" "fst c1 + fst c2 + fst c3 = created_of cs" by blast
    have "length (db_jobs (sx_db x')) = length (db_jobs (sx_db x2)) + created_of cs"
      using queue.run_jobs [OF cs(1) ok2(1)] by (simp add: created_of_def)
    moreover have "queue_ok (db_jobs (sx_db x'))" by (rule queue.run_ok [OF cs(1) ok2(1)])
    moreover have "key_job k (sx_db x) = Some i \<longrightarrow> key_job k (sx_db x') = Some i"
      using queue.run_kept [OF cs(1) ok2(1)] key2 by blast
    ultimately show ?thesis using t(1) e cs(2) ok2(2) p False by simp
  qed
qed

section \<open>Due schedules\<close>

lemma find_schedule_put:
  assumes "find (\<lambda>r. sc_id r = sc_id s') (sx_schedules x) = Some r"
  shows "find (\<lambda>r. sc_id r = sc_id s') (sx_schedules (put_schedule se s' x)) =
    Some (if r = s' then s' else s'\<lparr>sc_updated_at := env_db_now (se_env se)\<rparr>)"
  using assms find_set_rows_same [of sc_id "sc_id s'" "\<lambda>r. if r = s' then s' else s'\<lparr>sc_updated_at := env_db_now (se_env se)\<rparr>"]
  by (simp add: put_schedule_def)

lemma find_schedule_put_fields:
  assumes "find (\<lambda>r. sc_id r = sc_id s') (sx_schedules x) = Some r"
  shows "\<exists>q. find (\<lambda>r. sc_id r = sc_id s') (sx_schedules (put_schedule se s' x)) = Some q \<and>
    sc_last_enqueued_at q = sc_last_enqueued_at s' \<and> sc_next_run_at q = sc_next_run_at s' \<and> sc_enabled q = sc_enabled s'"
  unfolding find_schedule_put [OF assms] by (cases "r = s'") simp_all

lemma find_schedule_put_other:
  assumes "i \<noteq> sc_id s'"
  shows "find (\<lambda>r. sc_id r = i) (sx_schedules (put_schedule se s' x)) = find (\<lambda>r. sc_id r = i) (sx_schedules x)"
  using assms find_set_rows_other [of sc_id "sc_id s'" "\<lambda>r. if r = s' then s' else s'\<lparr>sc_updated_at := env_db_now (se_env se)\<rparr>"]
  by (simp add: put_schedule_def)

lemma schedule_loop_others:
  "schedule_loop se now ss (c, b) x = Inr (r, x') \<Longrightarrow> i \<notin> set (map sc_id ss) \<Longrightarrow>
     find (\<lambda>r. sc_id r = i) (sx_schedules x') = find (\<lambda>r. sc_id r = i) (sx_schedules x)"
proof (induction ss arbitrary: c b x)
  case (Cons s ss)
  obtain ok x1 where v: "valid_schedule se s now x = (ok, x1)" by force
  have i: "i \<noteq> sc_id s" "i \<notin> set (map sc_id ss)" using Cons.prems(2) by auto
  have 1: "find (\<lambda>r. sc_id r = i) (sx_schedules x1) = find (\<lambda>r. sc_id r = i) (sx_schedules x)"
    using v find_schedule_put_other [of i "s\<lparr>sc_enabled := False\<rparr>" se x] i(1)
    by (auto simp: valid_schedule_def split: option.splits)
  show ?case
  proof (cases "ok \<and> sc_next_run_at s \<noteq> None")
    case True
    then obtain t created x2 where e: "run_schedule se s t x1 = Inr (created, x2)"
      "schedule_loop se now ss (count created c, b) x2 = Inr (r, x')"
      using Cons.prems(1) v by (auto simp: result_bind_eq_Inr)
    have "find (\<lambda>r. sc_id r = i) (sx_schedules x2) = find (\<lambda>r. sc_id r = i) (sx_schedules x1)"
      using e(1) i(1) by (auto simp: run_schedule_Inr enqueue_in_Inr frame_simps find_schedule_put_other)
    with Cons.IH [OF e(2) i(2)] 1 show ?thesis by simp
  next
    case False
    have "\<exists>b1. schedule_loop se now ss (c, b1) x1 = Inr (r, x')"
      using Cons.prems v False by (cases "sc_next_run_at s") (auto split: if_splits)
    then obtain b1 where "schedule_loop se now ss (c, b1) x1 = Inr (r, x')" by blast
    from Cons.IH [OF this i(2)] 1 show ?thesis by simp
  qed
qed simp

lemma schedule_loop_due:
  "schedule_loop se now ss (c, b) x = Inr (r, x') \<Longrightarrow> distinct (map sc_id ss) \<Longrightarrow>
     \<forall>s\<in>set ss. find (\<lambda>r. sc_id r = sc_id s) (sx_schedules x) = Some s \<Longrightarrow> queue_ok (db_jobs (sx_db x)) \<Longrightarrow>
     s \<in> set ss \<Longrightarrow> schedule_problem se s = None \<Longrightarrow> sc_next_run_at s = Some t \<Longrightarrow>
     key_job (schedule_run_key (sc_id s) t) (sx_db x') \<noteq> None \<and>
     (\<exists>s' next. find (\<lambda>r. sc_id r = sc_id s) (sx_schedules x') = Some s' \<and> advance_schedule se s t = Inr next \<and>
        sc_last_enqueued_at s' = Some t \<and> sc_next_run_at s' = Some next \<and> sc_enabled s' = sc_enabled s)"
proof (induction ss arbitrary: c b x)
  case (Cons s0 ss)
  obtain ok x1 where v: "valid_schedule se s0 now x = (ok, x1)" by force
  have frame: "queue_ok (db_jobs (sx_db x1))" using valid_schedule_frame [OF v] Cons.prems(4) by simp
  have rows1: "find (\<lambda>r. sc_id r = i) (sx_schedules x1) = find (\<lambda>r. sc_id r = i) (sx_schedules x)" if "i \<noteq> sc_id s0" for i
    using v find_schedule_put_other [of i "s0\<lparr>sc_enabled := False\<rparr>" se x] that
    by (auto simp: valid_schedule_def split: option.splits)
  show ?case
  proof (cases "s = s0")
    case True
    then have x1: "ok" "x1 = x" using v Cons.prems(6) by (simp_all add: valid_schedule_def)
    then obtain created x2 where e: "run_schedule se s t x = Inr (created, x2)"
      "schedule_loop se now ss (count created c, b) x2 = Inr (r, x')"
      using Cons.prems(1,7) v True by (auto simp: result_bind_eq_Inr)
    obtain j y "next" where q: "enqueue_in se (schedule_request s t) x = Inr ((j, created), y)" "advance_schedule se s t = Inr next"
      "x2 = set_next_fetch (sc_source_id s) next (put_schedule se (s\<lparr>sc_last_enqueued_at := Some t, sc_next_run_at := Some next\<rparr>) y)"
      using e(1) unfolding run_schedule_Inr by blast
    obtain db' where db': "enqueue_job (se_env se) (schedule_request s t) (sx_db x) = Inr ((j, created), db')" "y = x\<lparr>sx_db := db'\<rparr>"
      using q(1) unfolding enqueue_in_Inr by blast
    have k: "eq_idempotency_key (schedule_request s t) = schedule_run_key (sc_id s) t"
      by (simp add: schedule_request_def sched_request_def)
    have "queue_ok (db_jobs db')" "key_job (schedule_run_key (sc_id s) t) db' \<noteq> None"
      using enqueue_result [OF Cons.prems(4) db'(1)] by (simp_all add: k)
    moreover have "sx_db x2 = db'" by (simp add: q(3) db'(2) frame_simps)
    moreover obtain cs where "sched_run se x2 cs x'" using schedule_loop_run e(2) by (metis prod.collapse)
    ultimately have key: "key_job (schedule_run_key (sc_id s) t) (sx_db x') \<noteq> None"
      using queue.run_kept by fastforce
    have "find (\<lambda>r. sc_id r = sc_id s) (sx_schedules x) = Some s" using Cons.prems(3,5) by blast
    then have "\<exists>s'. find (\<lambda>r. sc_id r = sc_id s) (sx_schedules x2) = Some s' \<and> sc_last_enqueued_at s' = Some t \<and>
        sc_next_run_at s' = Some next \<and> sc_enabled s' = sc_enabled s"
      using find_schedule_put_fields [of "s\<lparr>sc_last_enqueued_at := Some t, sc_next_run_at := Some next\<rparr>" y s se]
      by (simp add: q(3) db'(2) frame_simps)
    moreover have "sc_id s \<notin> set (map sc_id ss)" using Cons.prems(2) True by simp
    ultimately show ?thesis using key q(2) schedule_loop_others [OF e(2)] by metis
  next
    case False
    then have s: "s \<in> set ss" using Cons.prems(5) by simp
    have ne: "\<forall>q\<in>set ss. sc_id q \<noteq> sc_id s0" using Cons.prems(2) by (auto simp: image_iff)
    have rest: "\<forall>s\<in>set ss. find (\<lambda>r. sc_id r = sc_id s) (sx_schedules x1) = Some s"
      using Cons.prems(3) rows1 ne by simp
    show ?thesis
    proof (cases "ok \<and> sc_next_run_at s0 \<noteq> None")
      case True
      then obtain u created x2 where e: "run_schedule se s0 u x1 = Inr (created, x2)"
        "schedule_loop se now ss (count created c, b) x2 = Inr (r, x')"
        using Cons.prems(1) v by (auto simp: result_bind_eq_Inr)
      have "queue_ok (db_jobs (sx_db x2))" using queue.run_ok [OF run_schedule_run [OF e(1)] frame] .
      moreover have "find (\<lambda>r. sc_id r = i) (sx_schedules x2) = find (\<lambda>r. sc_id r = i) (sx_schedules x1)" if "i \<noteq> sc_id s0" for i
        using e(1) that by (auto simp: run_schedule_Inr enqueue_in_Inr frame_simps find_schedule_put_other)
      then have "\<forall>s\<in>set ss. find (\<lambda>r. sc_id r = sc_id s) (sx_schedules x2) = Some s"
        using ne rest by simp
      ultimately show ?thesis using Cons.IH [OF e(2) _ _ _ s Cons.prems(6,7)] Cons.prems(2) by simp
    next
      case False
      have "\<exists>b1. schedule_loop se now ss (c, b1) x1 = Inr (r, x')"
        using Cons.prems(1) v False by (cases "sc_next_run_at s0") (auto split: if_splits)
      then obtain b1 where "schedule_loop se now ss (c, b1) x1 = Inr (r, x')" by blast
      from Cons.IH [OF this _ rest frame s Cons.prems(6,7)] Cons.prems(2) show ?thesis by simp
    qed
  qed
qed simp

text \<open>
  C26: No due schedule is forgotten.  When the tick's enqueueing part succeeds, every enabled, valid
  schedule that was due and not locked by another transaction has a job under the key of its due time,
  records that time as its last run, stays enabled, and its next run is the advanced one.
\<close>

theorem due_schedules_are_enqueued:
  assumes "queue_ok (db_jobs (sx_db x))" "distinct (map sc_id (sx_schedules x))"
    and "enqueue_due se now x = Inr (r, x')"
    and "s \<in> set (sx_schedules x)" "sc_enabled s" "\<not> se_locked se (sc_id s)" "schedule_problem se s = None"
    and "sc_next_run_at s = Some t" "t \<le> now"
  shows "key_job (schedule_run_key (sc_id s) t) (sx_db x') \<noteq> None \<and>
    (\<exists>s' next. find (\<lambda>r. sc_id r = sc_id s) (sx_schedules x') = Some s' \<and> advance_schedule se s t = Inr next \<and>
       sc_last_enqueued_at s' = Some t \<and> sc_next_run_at s' = Some next \<and> sc_enabled s')"
proof -
  have cycles: "sx_schedules x3 = sx_schedules x2" if "cycle_loop se now bs c x2 = Inr (c', x3)" for bs c x2 c' x3
    using that
  proof (induction bs arbitrary: c x2)
    case (Cons b bs)
    then obtain c1 y where y: "cycle_step se now b c x2 = Inr (c1, y)" "cycle_loop se now bs c1 y = Inr (c', x3)"
      by (auto simp: result_bind_eq_Inr)
    have "sx_schedules y = sx_schedules x2"
      using y(1) by (auto simp: cycle_step_def start_cycle_def enqueue_in_def frame_simps map_sum_eq_Inr split: option.splits if_splits sum.splits)
    with Cons.IH [OF y(2)] show ?case by simp
  qed simp
  have icons: "sx_schedules x3 = sx_schedules x2" if "icon_loop se now sos c x2 = Inr (c', x3)" for sos c x2 c' x3
    using that
  proof (induction sos arbitrary: c x2)
    case (Cons so sos)
    let ?n = "so_icon_attempt so + 1"
    let ?q = "so\<lparr>so_icon_status := ''queued'', so_icon_enqueued_at := Some now, so_icon_attempt := ?n\<rparr>"
    show ?case
    proof (cases "enqueue_in se (icon_request so ?n now) (put_source ?q x2)")
      case (Inr res)
      then obtain j created y where e: "enqueue_in se (icon_request so ?n now) (put_source ?q x2) = Inr ((j, created), y)"
        by (metis prod.exhaust)
      then have "icon_loop se now sos (count created c) y = Inr (c', x3)" using Cons.prems by (simp add: Let_def)
      from Cons.IH [OF this] e show ?thesis by (auto simp: enqueue_in_Inr frame_simps)
    next
      case (Inl e)
      then obtain so' where "icon_loop se now sos c (put_source so' x2) = Inr (c', x3)"
        using Cons.prems by (cases e) (auto simp: Let_def)
      from Cons.IH [OF this] show ?thesis by (simp add: frame_simps)
    qed
  qed simp
  have routes: "sx_schedules x3 = sx_schedules x2" if "route_loop se now rs c x2 = Inr (c', x3)" for rs c x2 c' x3
    using that
  proof (induction rs arbitrary: c x2)
    case (Cons r rs)
    show ?case
    proof (cases "route_capabilities_available se x2 now r \<and> rt_next_poll_at r \<noteq> None")
      case True
      then obtain t j created y where e: "enqueue_in se (route_request r t) x2 = Inr ((j, created), y)"
        "route_loop se now rs (count created c) y = Inr (c', x3)"
        using Cons.prems by (auto simp: result_bind_eq_Inr)
      from Cons.IH [OF e(2)] e(1) show ?thesis by (auto simp: enqueue_in_Inr)
    next
      case False
      then have "route_loop se now rs c x2 = Inr (c', x3)" using Cons.prems by (auto split: if_splits)
      then show ?thesis by (rule Cons.IH)
    qed
  qed simp
  obtain d1 x1 d2 x2 d3 x3 d4 where l:
    "route_loop se now (due_routes se now x) (0, 0) x = Inr (d1, x1)"
    "schedule_loop se now (due_schedules se now x1) (d1, 0) x1 = Inr (d2, x2)"
    "cycle_loop se now (due_subscriptions se now x2) (0, 0) x2 = Inr (d3, x3)"
    "icon_loop se now (due_source_icons se now x3) (0, 0) x3 = Inr (d4, x')"
    using assms(3) by (auto simp: enqueue_due_def result_bind_eq_Inr)
  obtain c1 c3 c4 where runs: "sched_run se x c1 x1" "sched_run se x2 c3 x3" "sched_run se x3 c4 x'"
    using route_loop_run [OF l(1)] cycle_loop_run [OF l(3)] icon_loop_run [OF l(4)] by blast
  obtain c2 where run2: "sched_run se x1 c2 x2" using schedule_loop_run l(2) by (metis prod.collapse)
  have ok1: "queue_ok (db_jobs (sx_db x1))" by (rule queue.run_ok [OF runs(1) assms(1)])
  have ok2: "queue_ok (db_jobs (sx_db x2))" by (rule queue.run_ok [OF run2 ok1])
  have rows: "sx_schedules x1 = sx_schedules x" by (rule routes [OF l(1)])
  have mem: "s \<in> set (due_schedules se now x1)" using assms(4-6,8,9) rows by (simp add: due_schedules_def due_def)
  have "distinct (map sc_id (due_schedules se now x1))"
    using assms(2) rows by (simp add: due_schedules_def distinct_map inj_on_def)
  moreover have "\<forall>s\<in>set (due_schedules se now x1). find (\<lambda>r. sc_id r = sc_id s) (sx_schedules x1) = Some s"
    using find_unique [OF assms(2)] rows by (simp add: due_schedules_def)
  ultimately have d: "key_job (schedule_run_key (sc_id s) t) (sx_db x2) \<noteq> None \<and>
     (\<exists>s' next. find (\<lambda>r. sc_id r = sc_id s) (sx_schedules x2) = Some s' \<and> advance_schedule se s t = Inr next \<and>
        sc_last_enqueued_at s' = Some t \<and> sc_next_run_at s' = Some next \<and> sc_enabled s' = sc_enabled s)"
    using schedule_loop_due [OF _ _ _ ok1 mem assms(7,8)] l(2) by (metis prod.collapse)
  have "key_job (schedule_run_key (sc_id s) t) (sx_db x') \<noteq> None"
    using d queue.run_kept [OF runs(3)] queue.run_kept [OF runs(2) ok2] queue.run_ok [OF runs(2) ok2] by fastforce
  moreover have "sx_schedules x' = sx_schedules x2" using cycles [OF l(3)] icons [OF l(4)] by simp
  ultimately show ?thesis using d assms(5) by simp
qed

section \<open>Schedules move forward\<close>

lemma digit_of_range: "digit_of c = Some d \<Longrightarrow> 0 \<le> d \<and> d \<le> 9"
  by (auto simp: Let_def split: if_splits)

lemma number_of_range: "number_of s = Some n \<Longrightarrow> 0 \<le> n"
  by (cases s rule: number_of.cases) (auto split: option.splits dest!: digit_of_range simp del: digit_of.simps)

lemma strptime_range: "strptime_hm s = Some n \<Longrightarrow> 0 \<le> n \<and> n < 1440"
  by (auto simp: strptime_hm_def Let_def split: option.splits if_splits dest!: number_of_range)

lemma parse_local_time_range: "parse_local_time se v = Inr n \<Longrightarrow> 0 \<le> n \<and> n < 1440"
  by (auto simp: parse_local_time_def split: option.splits if_splits dest: strptime_range)

text \<open>A zone without a change of offset, such as the default \<open>Asia/Tehran\<close> today.\<close>

definition fixed_offset :: "zone \<Rightarrow> int \<Rightarrow> bool" where
  "fixed_offset z off = ((\<forall>t. zn_local z t = t + off) \<and> (\<forall>w. zn_instant z w = w - off))"

lemma next_wall_run_fixed:
  assumes "fixed_offset z off" "0 \<le> lt" "lt < 1440"
  shows "t < next_wall_run z lt t \<and> next_wall_run z lt t \<le> t + days 1 \<and> zn_local z (next_wall_run z lt t) mod days 1 = minutes lt"
proof -
  let ?l = "t + off"
  have l: "?l = ?l div days 1 * days 1 + ?l mod days 1" "0 \<le> ?l mod days 1" "?l mod days 1 < days 1" by simp_all
  have n: "next_wall_run z lt t = (if ?l div days 1 * days 1 + minutes lt \<le> ?l then ?l div days 1 * days 1 + minutes lt + days 1
      else ?l div days 1 * days 1 + minutes lt) - off"
    using assms(1) by (simp add: next_wall_run_def fixed_offset_def Let_def)
  have m: "(?l div days 1 * days 1 + minutes lt) mod days 1 = minutes lt"
    using assms(2,3) by (simp only: mod_mult_self3) simp
  then have "(?l div days 1 * days 1 + minutes lt + days 1) mod days 1 = minutes lt" by (simp only: mod_add_self2)
  with m have "zn_local z (next_wall_run z lt t) mod days 1 = minutes lt" using assms(1) by (simp add: n fixed_offset_def)
  moreover have "t < next_wall_run z lt t \<and> next_wall_run z lt t \<le> t + days 1"
    using l assms(2,3) unfolding n by (simp split: if_split) linarith
  ultimately show ?thesis by blast
qed

text \<open>
  Advancing a valid schedule always succeeds and always moves forward: an interval schedule by its
  interval, a daily one, in a zone with a fixed offset, by at most a day and to the wall-clock time it asks for.
\<close>

theorem schedules_move_forward:
  assumes "schedule_problem se s = None"
    and "\<And>z. sc_schedule_kind s = ''daily'' \<Longrightarrow> se_zone se (sc_timezone s) = Some z \<Longrightarrow> fixed_offset z off"
  shows "\<exists>n. advance_schedule se s t = Inr n \<and> t < n \<and>
    (if sc_schedule_kind s = ''daily''
     then \<exists>z lt. se_zone se (sc_timezone s) = Some z \<and> n = next_wall_run z lt (t + 1) \<and>
            n \<le> t + 1 + days 1 \<and> zn_local z n mod days 1 = minutes lt
     else \<exists>m. sc_interval_minutes s = Some m \<and> n = t + minutes m)"
proof (cases "sc_schedule_kind s = ''daily''")
  case True
  from assms(1) True obtain z lt n where z: "se_zone se (sc_timezone s) = Some z" "sc_local_time s = Some lt"
    "parse_local_time se lt = Inr n"
    by (auto simp: schedule_problem_def zone_info_def split: option.splits sum.splits job_error.splits)
  have "fixed_offset z off" using assms(2) True z(1) by blast
  from next_wall_run_fixed [OF this] parse_local_time_range [OF z(3)]
  have "t + 1 < next_wall_run z n (t + 1) \<and> next_wall_run z n (t + 1) \<le> t + 1 + days 1 \<and>
      zn_local z (next_wall_run z n (t + 1)) mod days 1 = minutes n" by blast
  then show ?thesis using True z
    by (auto simp: advance_schedule_def next_daily_run_def zone_info_def result_bind_def intro!: exI [of _ z] exI [of _ n])
next
  case False
  with assms(1) show ?thesis
    by (auto simp: schedule_problem_def advance_schedule_def zone_info_def split: option.splits sum.splits if_splits job_error.splits)
qed

text \<open>
  A zone that sets its clocks back by one hour at 01:00 UTC of the day after day 0, as central Europe
  does in October: the wall-clock hour from 02:00 to 03:00 occurs twice, and reads as its first occurrence.
\<close>

definition autumn_zone :: zone where
  "autumn_zone = \<lparr>zn_local = (\<lambda>t. if t < days 1 + minutes 60 then t + minutes 120 else t + minutes 60),
                  zn_instant = (\<lambda>w. if w < days 1 + minutes 180 then w - minutes 120 else w - minutes 60)\<rparr>"

text \<open>
  A daily schedule that is set up during the repeated hour of a zone that sets its clocks back gets
  a first run that already lies in the past: at 01:10 UTC, the second 02:10 of that day, the next run at
  02:30 is computed as 00:30 UTC.
\<close>

theorem daily_run_can_lie_in_the_past:
  assumes "se_zone se tz = Some autumn_zone"
  shows "next_daily_run se (days 1 + minutes 70) tz ''02:30'' = Inr (days 1 + minutes 30)"
proof -
  have "strptime_hm ''02:30'' = Some 150 \<and> strftime_hm 150 = ''02:30''" by code_simp
  then have "parse_local_time se ''02:30'' = Inr 150" by (simp add: parse_local_time_def)
  then show ?thesis
    using assms by (simp add: next_daily_run_def zone_info_def result_bind_def next_wall_run_def autumn_zone_def Let_def)
qed

section \<open>One cycle at a time\<close>

lemma find_subscription_put:
  assumes "find (\<lambda>r. sb_id r = sb_id b) (sx_subscriptions x) = Some r" "sb_id b' = sb_id b"
  shows "find (\<lambda>r. sb_id r = sb_id b) (sx_subscriptions (put_subscription b' x)) = Some b'"
  using assms find_set_rows_same [of sb_id "sb_id b'" "\<lambda>_. b'" "sx_subscriptions x"] by (simp add: put_subscription_def)

definition unfinished :: "sched_db \<Rightarrow> uuid option \<Rightarrow> bool" where
  "unfinished x i = (case i of None \<Rightarrow> False | Some k \<Rightarrow>
     (case find_job k (sx_db x) of None \<Rightarrow> False | Some j \<Rightarrow> wj_status j \<in> {QUEUED, RUNNING}))"

definition ended :: "sched_db \<Rightarrow> uuid option \<Rightarrow> workflow_job option" where
  "ended x i = (case i of None \<Rightarrow> None | Some k \<Rightarrow>
     (case find_job k (sx_db x) of None \<Rightarrow> None | Some j \<Rightarrow> if wj_status j \<in> {QUEUED, RUNNING} then None else Some j))"

lemma start_cycle_row:
  assumes "queue_ok (db_jobs (sx_db x))" "find (\<lambda>r. sb_id r = sb_id b) (sx_subscriptions x) = Some r"
    and "start_cycle se now b c x = Inr (c', x')"
  shows "\<exists>b'. find (\<lambda>r. sb_id r = sb_id b) (sx_subscriptions x') = Some b' \<and> sb_current_cycle_job_id b' \<noteq> None \<and>
    sb_status b' = ''running'' \<and> sb_cycle_count b' = sb_cycle_count b \<and>
    key_job (cycle_key (sb_id b) (sb_cycle_count b + 1)) (sx_db x') = sb_current_cycle_job_id b'"
proof -
  from assms(3) obtain j created db' where e: "enqueue_job (se_env se) (cycle_request now b) (sx_db x) = Inr ((j, created), db')"
    "x' = put_subscription (b\<lparr>sb_current_cycle_job_id := Some (wj_id j), sb_status := ''running'',
           sb_started_at := Some (case sb_started_at b of None \<Rightarrow> now | Some t \<Rightarrow> t)\<rparr>) (x\<lparr>sx_db := db'\<rparr>)"
    by (auto simp: start_cycle_def enqueue_in_def map_sum_eq_Inr)
  have "eq_idempotency_key (cycle_request now b) = cycle_key (sb_id b) (sb_cycle_count b + 1)"
    by (simp add: cycle_request_def sched_request_def Let_def)
  with enqueue_result(2) [OF assms(1) e(1)] show ?thesis
    using find_subscription_put [of b "x\<lparr>sx_db := db'\<rparr>" r "b\<lparr>sb_current_cycle_job_id := Some (wj_id j), sb_status := ''running'',
           sb_started_at := Some (case sb_started_at b of None \<Rightarrow> now | Some t \<Rightarrow> t)\<rparr>"] assms(2)
    by (simp add: e(2) frame_simps)
qed

text \<open>
  C31: A continuous subscription runs its cycles one after the other.  While its current job is queued
  or running a step changes nothing; an ended job is settled, without starting anything: success raises the
  count of cycles to the number the job carries, by one when it carries none, and sets the next cycle after
  the interval, any other end stops the subscription with an error and counts nothing;
  only with no job left does a step point the subscription to the job of the next cycle number.
\<close>

theorem cycles_run_one_at_a_time:
  assumes "queue_ok (db_jobs (sx_db x))" "find (\<lambda>r. sb_id r = sb_id b) (sx_subscriptions x) = Some b"
    and "cycle_step se now b c x = Inr (c', x')"
  shows "if unfinished x (sb_current_cycle_job_id b) then x' = x \<and> c' = c
    else \<exists>b'. find (\<lambda>r. sb_id r = sb_id b) (sx_subscriptions x') = Some b' \<and>
      (case ended x (sb_current_cycle_job_id b) of
         Some j \<Rightarrow> sx_db x' = sx_db x \<and> sb_current_cycle_job_id b' = None \<and>
           (if wj_status j = SUCCEEDED
            then sb_status b' = ''running'' \<and> sb_last_cycle_at b' = Some now \<and>
                 (\<forall>n. dict_get (wj_payload j) ''cycle_number'' = Some (PInt n) \<longrightarrow> 1 \<le> n \<longrightarrow>
                      sb_cycle_count b' = max (sb_cycle_count b) n) \<and>
                 (dict_get (wj_payload j) ''cycle_number'' = None \<longrightarrow> 0 \<le> sb_cycle_count b \<longrightarrow>
                      sb_cycle_count b' = sb_cycle_count b + 1) \<and>
                 sb_cycle_count b \<le> sb_cycle_count b' \<and>
                 sb_next_cycle_at b' = Some (now + minutes (sb_interval_minutes b))
            else sb_status b' = ''error'' \<and> sb_last_error b' \<notin> {None, Some []} \<and> sb_next_cycle_at b' = None \<and>
                 sb_cycle_count b' = sb_cycle_count b)
       | None \<Rightarrow> sb_current_cycle_job_id b' \<noteq> None \<and> sb_status b' = ''running'' \<and> sb_cycle_count b' = sb_cycle_count b \<and>
           key_job (cycle_key (sb_id b) (sb_cycle_count b + 1)) (sx_db x') = sb_current_cycle_job_id b')"
proof (cases "sb_current_cycle_job_id b")
  case None
  then have "start_cycle se now b c x = Inr (c', x')" using assms(3) by (simp add: cycle_step_def)
  from start_cycle_row [OF assms(1,2) this] None show ?thesis by (simp add: unfinished_def ended_def)
next
  case i: (Some i)
  show ?thesis
  proof (cases "find_job i (sx_db x)")
    case None
    then have "start_cycle se now (b\<lparr>sb_current_cycle_job_id := None, sb_current_cycle_run_id := None\<rparr>) c x = Inr (c', x')"
      using assms(3) i by (simp add: cycle_step_def)
    from start_cycle_row [OF assms(1) _ this, of b] assms(2) i None show ?thesis by (simp add: unfinished_def ended_def)
  next
    case (Some j)
    have put: "find (\<lambda>r. sb_id r = sb_id b) (sx_subscriptions (put_subscription b' x)) = Some b'" if "sb_id b' = sb_id b" for b'
      using find_subscription_put [OF assms(2) that] .
    have f: "sb_id (fail_cycle now j b) = sb_id b" "sb_current_cycle_job_id (fail_cycle now j b) = None"
      "sb_status (fail_cycle now j b) = ''error''" "sb_next_cycle_at (fail_cycle now j b) = None"
      "sb_cycle_count (fail_cycle now j b) = sb_cycle_count b" "sb_last_error (fail_cycle now j b) \<notin> {None, Some []}"
      by (simp_all add: fail_cycle_def split: option.split)
    have g: "sb_id (settle_cycle se now j b) = sb_id b" "sb_current_cycle_job_id (settle_cycle se now j b) = None"
      "sb_status (settle_cycle se now j b) = ''running''" "sb_cycle_count b \<le> sb_cycle_count (settle_cycle se now j b)"
      "sb_next_cycle_at (settle_cycle se now j b) = Some (now + minutes (sb_interval_minutes b))"
      "sb_last_cycle_at (settle_cycle se now j b) = Some now"
      by (simp_all add: settle_cycle_def Let_def)
    have n: "sb_cycle_count (settle_cycle se now j b) = max (sb_cycle_count b) n"
      if "dict_get (wj_payload j) ''cycle_number'' = Some (PInt n)" "1 \<le> n" for n
      using that by (simp add: settle_cycle_def cycle_number_from_job_def Let_def)
    have none: "sb_cycle_count (settle_cycle se now j b) = sb_cycle_count b + 1"
      if "dict_get (wj_payload j) ''cycle_number'' = None" "0 \<le> sb_cycle_count b"
      using that by (simp add: settle_cycle_def cycle_number_from_job_def Let_def)
    show ?thesis
      using assms(3) i Some f g n none put [OF f(1)] put [OF g(1)]
      by (cases "wj_status j") (auto simp: unfinished_def ended_def cycle_step_def frame_simps)
  qed
qed

section \<open>Sources and their schedules\<close>

lemma find_set_rows_key:
  assumes "\<And>r. r \<in> set rs \<Longrightarrow> p r \<Longrightarrow> k r \<noteq> i \<and> k (f r) \<noteq> i"
  shows "find (\<lambda>r. k r = i) (set_rows p f rs) = find (\<lambda>r. k r = i) rs"
  using assms by (induction rs) (auto simp: row_simps)

lemma find_set_rows_at:
  assumes "find (\<lambda>r. k r = i) rs = Some r" "p r" "\<And>q. p q \<Longrightarrow> k (f q) = i" "\<And>q. q \<in> set rs \<Longrightarrow> p q \<Longrightarrow> k q = i"
  shows "find (\<lambda>r. k r = i) (set_rows p f rs) = Some (f r)"
  using assms by (induction rs) (auto simp: row_simps split: if_splits)

definition tables_ok :: "sched_db \<Rightarrow> bool" where
  "tables_ok x = (distinct (map sc_id (sx_schedules x)) \<and> distinct (map sc_schedule_key (sx_schedules x)) \<and>
     distinct (map so_id (sx_sources x)))"

lemma same_row: "distinct (map f rs) \<Longrightarrow> a \<in> set rs \<Longrightarrow> b \<in> set rs \<Longrightarrow> f a = f b \<Longrightarrow> a = b"
  by (auto simp: distinct_map dest: inj_onD)

lemma get_schedule_put:
  assumes "tables_ok x" "get_schedule k x = Some s" "sc_id s' = sc_id s" "sc_schedule_key s' = k"
  shows "\<exists>q. get_schedule k (put_schedule se s' x) = Some q \<and> sc_next_run_at q = sc_next_run_at s' \<and> sc_enabled q = sc_enabled s'"
proof -
  let ?f = "\<lambda>r. if r = s' then s' else s'\<lparr>sc_updated_at := env_db_now (se_env se)\<rparr>"
  have s: "s \<in> set (sx_schedules x)" "sc_schedule_key s = k" using assms(2) find_Some_in unfolding get_schedule_def by fastforce+
  have "find (\<lambda>r. sc_schedule_key r = k) (set_rows (\<lambda>r. sc_id r = sc_id s') ?f (sx_schedules x)) = Some (?f s)"
  proof (rule find_set_rows_at)
    show "find (\<lambda>r. sc_schedule_key r = k) (sx_schedules x) = Some s" using assms(2) by (simp add: get_schedule_def)
    show "sc_schedule_key q = k" if "q \<in> set (sx_schedules x)" "sc_id q = sc_id s'" for q
      using same_row [of sc_id "sx_schedules x" q s] assms(1,3) that s by (simp add: tables_ok_def)
  qed (use assms(3,4) in simp_all)
  then show ?thesis by (simp add: get_schedule_def put_schedule_def)
qed

lemma get_schedule_put_other:
  assumes "tables_ok x" "get_schedule k x = Some s" "sc_id s' = sc_id s" "sc_schedule_key s' = k" "k' \<noteq> k"
  shows "get_schedule k' (put_schedule se s' x) = get_schedule k' x"
proof -
  have s: "s \<in> set (sx_schedules x)" "sc_schedule_key s = k" using assms(2) find_Some_in unfolding get_schedule_def by fastforce+
  have "sc_schedule_key q = k" if "q \<in> set (sx_schedules x)" "sc_id q = sc_id s'" for q
    using same_row [of sc_id "sx_schedules x" q s] assms(1,3) that s by (simp add: tables_ok_def)
  then show ?thesis
    unfolding get_schedule_def put_schedule_def using assms(4,5) by (simp add: find_set_rows_key)
qed

lemma put_schedule_tables:
  assumes "tables_ok x" "get_schedule k x = Some s" "sc_id s' = sc_id s" "sc_schedule_key s' = k"
  shows "tables_ok (put_schedule se s' x)"
proof -
  have s: "s \<in> set (sx_schedules x)" "sc_schedule_key s = k" using assms(2) find_Some_in unfolding get_schedule_def by fastforce+
  have "sc_schedule_key q = k" if "q \<in> set (sx_schedules x)" "sc_id q = sc_id s'" for q
    using same_row [of sc_id "sx_schedules x" q s] assms(1,3) that s by (simp add: tables_ok_def)
  then have "map sc_schedule_key (sx_schedules (put_schedule se s' x)) = map sc_schedule_key (sx_schedules x)"
    unfolding put_schedule_def using assms(4) by (simp add: map_set_rows)
  moreover have "map sc_id (sx_schedules (put_schedule se s' x)) = map sc_id (sx_schedules x)"
    by (simp add: put_schedule_def map_set_rows)
  ultimately show ?thesis using assms(1) by (simp add: tables_ok_def frame_simps)
qed

lemma put_source_tables: "tables_ok (put_source so x) = tables_ok x"
  by (simp add: tables_ok_def put_source_def map_set_rows)

lemma get_schedule_put_source [simp]: "get_schedule k (put_source so x) = get_schedule k x"
  by (simp add: get_schedule_def frame_simps)

lemma find_source_put:
  assumes "find (\<lambda>r. so_id r = so_id so) (sx_sources x) = Some r"
  shows "find (\<lambda>r. so_id r = so_id so) (sx_sources (put_source so x)) = Some so"
  using assms find_set_rows_same [of so_id "so_id so" "\<lambda>_. so" "sx_sources x"] by (simp add: put_source_def)

lemma find_source_put_other:
  assumes "i \<noteq> so_id so"
  shows "find (\<lambda>r. so_id r = i) (sx_sources (put_source so x)) = find (\<lambda>r. so_id r = i) (sx_sources x)"
  using assms find_set_rows_other [of so_id "so_id so" "\<lambda>_. so" i "sx_sources x"] by (simp add: put_source_def)

text \<open>The source and its schedule agree: the schedule is enabled only for a source to be collected, and the
  source shows the schedule's next run exactly while it is enabled.\<close>

definition in_step :: "source_row \<Rightarrow> sched_db \<Rightarrow> bool" where
  "in_step so x = (case (get_schedule (schedule_key_of (so_id so)) x, find (\<lambda>r. so_id r = so_id so) (sx_sources x)) of
     (Some s, Some so') \<Rightarrow>
       if sc_enabled s then schedulable so \<and> sc_next_run_at s \<noteq> None \<and> so_next_fetch_at so' = sc_next_run_at s
       else so_next_fetch_at so' = None
   | _ \<Rightarrow> False)"

lemma refresh_fields:
  assumes "refresh_source_schedule se s so now = Inr s'"
  shows "sc_id s' = sc_id s" "sc_schedule_key s' = sc_schedule_key s" "sc_enabled s'" "sc_next_run_at s' \<noteq> None"
  using assms by (auto simp: refresh_source_schedule_def Let_def map_sum_eq_Inr split: if_splits option.splits)

lemma new_schedule_fields:
  assumes "new_source_schedule se i so now = Inr (s, so')"
  shows "new_next_run se so now = Inr (sc_next_run_at s)" "so' = so\<lparr>so_next_fetch_at := sc_next_run_at s\<rparr>"
    "sc_schedule_key s = schedule_key_of (so_id so)" "sc_id s = i" "sc_enabled s = schedulable so"
  using assms by (auto simp: new_source_schedule_def Let_def map_sum_eq_Inr)

lemma new_next_run_Some: "new_next_run se so now = Inr t \<Longrightarrow> t \<noteq> None \<longleftrightarrow> schedulable so"
  by (cases t) (auto simp: new_next_run_def Let_def map_sum_eq_Inr split: if_splits)

text \<open>What reconciling one source does: its own pair is in step afterwards, every other one is untouched.\<close>

lemma reconcile_source_effect:
  assumes "reconcile_source se now so x = Inr (n, x')" "tables_ok x"
    and "find (\<lambda>r. so_id r = so_id so) (sx_sources x) = Some r"
  shows "tables_ok x' \<and> in_step so x' \<and>
    (\<forall>i. i \<noteq> so_id so \<longrightarrow> get_schedule (schedule_key_of i) x' = get_schedule (schedule_key_of i) x \<and>
       find (\<lambda>r. so_id r = i) (sx_sources x') = find (\<lambda>r. so_id r = i) (sx_sources x))"
proof -
  let ?k = "schedule_key_of (so_id so)"
  have inj: "schedule_key_of i \<noteq> ?k" if "i \<noteq> so_id so" for i using that by (simp add: schedule_key_of_def)
  have src: "find (\<lambda>r. so_id r = so_id so) (sx_sources (put_source so' y)) = Some so'"
    if "so_id so' = so_id so" "sx_sources y = sx_sources x" for so' y
    using find_source_put [of so' y r] assms(3) that by simp
  have src_other: "find (\<lambda>r. so_id r = i) (sx_sources (put_source so' y)) = find (\<lambda>r. so_id r = i) (sx_sources x)"
    if "i \<noteq> so_id so" "so_id so' = so_id so" "sx_sources y = sx_sources x" for i so' y
    using find_source_put_other [of i so' y] that by simp
  show ?thesis
  proof (cases "get_schedule ?k x")
    case None
    let ?i = "env_uuid (se_env se) (db_seq (sx_db x))"
    obtain s so' where n: "new_source_schedule se ?i so now = Inr (s, so')"
      and s8: "?i \<notin> set (map sc_id (sx_schedules x))"
      "x' = (put_source so' x)\<lparr>sx_schedules := sx_schedules x @ [s], sx_db := (sx_db x)\<lparr>db_seq := Suc (db_seq (sx_db x))\<rparr>\<rparr>"
      using assms(1) None by (auto simp: reconcile_source_def Let_def result_bind_eq_Inr split: if_splits)
    note s = new_schedule_fields [OF n]
    have nk: "?k \<notin> set (map sc_schedule_key (sx_schedules x))"
      using None by (auto simp: get_schedule_def find_None_iff)
    have "tables_ok x'" using assms(2) s(3,4) s8(1) nk by (simp add: s8(2) tables_ok_def put_source_def map_set_rows)
    moreover have "get_schedule ?k x' = Some s" "\<And>k. k \<noteq> ?k \<Longrightarrow> get_schedule k x' = get_schedule k x"
      using None s(3) by (simp_all add: s8(2) get_schedule_def find_append split: option.split)
    moreover have "sc_next_run_at s \<noteq> None \<longleftrightarrow> schedulable so"
      using new_next_run_Some [OF s(1)] .
    moreover have "sx_sources x' = sx_sources (put_source so' x)" by (simp add: s8(2))
    ultimately show ?thesis using src [of so' x] src_other [of _ so' x] inj s(2,5) by (auto simp: in_step_def)
  next
    case (Some s)
    have key: "sc_schedule_key s = ?k" using Some find_Some_in unfolding get_schedule_def by fastforce
    show ?thesis
    proof (cases "schedulable so \<and> schedule_problem se s = None")
      case True
      then obtain s' where s': "refresh_source_schedule se s so now = Inr s'"
        "x' = put_source (so\<lparr>so_next_fetch_at := sc_next_run_at s'\<rparr>) (put_schedule se s' x)"
        using assms(1) Some by (auto simp: reconcile_source_def valid_schedule_def map_sum_eq_Inr)
      note f = refresh_fields [OF s'(1)]
      obtain q where q: "get_schedule ?k (put_schedule se s' x) = Some q" "sc_next_run_at q = sc_next_run_at s'" "sc_enabled q"
        using get_schedule_put [OF assms(2) Some f(1)] f(2,3) key by auto
      have "get_schedule (schedule_key_of i) x' = get_schedule (schedule_key_of i) x" if "i \<noteq> so_id so" for i
        using get_schedule_put_other [OF assms(2) Some f(1)] f(2) key inj [OF that] by (simp add: s'(2))
      then show ?thesis
        using q f True src [of "so\<lparr>so_next_fetch_at := sc_next_run_at s'\<rparr>" "put_schedule se s' x"]
          src_other [of _ "so\<lparr>so_next_fetch_at := sc_next_run_at s'\<rparr>" "put_schedule se s' x"]
          put_schedule_tables [OF assms(2) Some f(1)] key
        by (simp add: s'(2) in_step_def put_source_tables frame_simps)
    next
      case False
      let ?s = "s\<lparr>sc_enabled := False\<rparr>" and ?so = "so\<lparr>so_next_fetch_at := None\<rparr>"
      have x': "\<exists>d. x' = put_source ?so ((put_schedule se ?s x)\<lparr>sx_db := d\<rparr>)"
      proof (cases "schedulable so")
        case True
        then obtain m where "schedule_problem se s = Some m" using False by auto
        then show ?thesis using assms(1) Some True
          by (intro exI [of _ "report_invalid se s m now (sx_db x)"]) (simp add: reconcile_source_def valid_schedule_def)
      next
        case no: False
        have "(put_schedule se ?s x)\<lparr>sx_db := sx_db x\<rparr> = put_schedule se ?s x" by (simp add: put_schedule_def)
        then show ?thesis using assms(1) Some no by (intro exI [of _ "sx_db x"]) (simp add: reconcile_source_def)
      qed
      then obtain d where d: "x' = put_source ?so ((put_schedule se ?s x)\<lparr>sx_db := d\<rparr>)" by blast
      have g: "get_schedule k x' = get_schedule k (put_schedule se ?s x)" for k by (simp add: d get_schedule_def frame_simps)
      have t: "tables_ok x' = tables_ok (put_schedule se ?s x)"
        unfolding d put_source_tables by (simp add: tables_ok_def)
      obtain q where q: "get_schedule ?k x' = Some q" "\<not> sc_enabled q"
        using get_schedule_put [OF assms(2) Some, of ?s] key by (auto simp: g)
      have "get_schedule (schedule_key_of i) x' = get_schedule (schedule_key_of i) x" if "i \<noteq> so_id so" for i
        using get_schedule_put_other [OF assms(2) Some, of ?s] key inj [OF that] by (simp add: g)
      then show ?thesis
        using q src [of ?so "(put_schedule se ?s x)\<lparr>sx_db := d\<rparr>"] src_other [of _ ?so "(put_schedule se ?s x)\<lparr>sx_db := d\<rparr>"]
          put_schedule_tables [OF assms(2) Some, of ?s] key t
        by (simp add: in_step_def frame_simps d [symmetric])
    qed
  qed
qed

lemma reconcile_loop_effect:
  "reconcile_loop se now sos (a, b) x = Inr (c, x') \<Longrightarrow> tables_ok x \<Longrightarrow> distinct (map so_id sos) \<Longrightarrow>
     \<forall>so\<in>set sos. find (\<lambda>r. so_id r = so_id so) (sx_sources x) \<noteq> None \<Longrightarrow>
     fst c = a + length sos \<and> tables_ok x' \<and> (\<forall>so\<in>set sos. in_step so x') \<and>
     (\<forall>i. i \<notin> set (map so_id sos) \<longrightarrow> get_schedule (schedule_key_of i) x' = get_schedule (schedule_key_of i) x \<and>
        find (\<lambda>r. so_id r = i) (sx_sources x') = find (\<lambda>r. so_id r = i) (sx_sources x))"
proof (induction sos arbitrary: a b x)
  case (Cons so sos)
  then obtain n x1 where e: "reconcile_source se now so x = Inr (n, x1)" "reconcile_loop se now sos (Suc a, b + n) x1 = Inr (c, x')"
    by (auto simp: result_bind_eq_Inr)
  obtain r where "find (\<lambda>r. so_id r = so_id so) (sx_sources x) = Some r" using Cons.prems(4) by auto
  note eff = reconcile_source_effect [OF e(1) Cons.prems(2) this]
  have ne: "so_id q \<noteq> so_id so" if "q \<in> set sos" for q using Cons.prems(3) that by (auto simp: image_iff)
  then have "\<forall>q\<in>set sos. find (\<lambda>r. so_id r = so_id q) (sx_sources x1) \<noteq> None" using eff Cons.prems(4) by simp
  with Cons.IH [OF e(2)] eff Cons.prems(3) have IH: "fst c = Suc a + length sos" "tables_ok x'" "\<forall>q\<in>set sos. in_step q x'"
    "\<forall>i. i \<notin> set (map so_id sos) \<longrightarrow> get_schedule (schedule_key_of i) x' = get_schedule (schedule_key_of i) x1 \<and>
        find (\<lambda>r. so_id r = i) (sx_sources x') = find (\<lambda>r. so_id r = i) (sx_sources x1)" by simp_all
  have "so_id so \<notin> set (map so_id sos)" using Cons.prems(3) by simp
  then have "in_step so x'" using IH(4) eff by (simp add: in_step_def)
  with IH eff show ?case by simp
qed auto

text \<open>
  Reconciliation brings every source in step with its schedule.  It visits each source once, keeps
  ids and keys unique, and afterwards every source has its schedule, which is enabled only when the source
  is active and not disabled; an enabled schedule has a next run and the source shows it, a disabled one
  leaves the source without a next fetch.
\<close>

theorem reconciliation_covers_sources:
  assumes "tables_ok x" "reconcile_sources se now x = Inr (c, x')"
  shows "fst c = length (sx_sources x) \<and> tables_ok x' \<and> (\<forall>so\<in>set (sx_sources x). in_step so x')"
proof -
  have d: "distinct (map so_id (list_sources x))"
    using assms(1) by (simp add: list_sources_def tables_ok_def distinct_map)
  have "\<forall>so\<in>set (list_sources x). find (\<lambda>r. so_id r = so_id so) (sx_sources x) \<noteq> None"
    by (auto simp: list_sources_def find_None_iff)
  from reconcile_loop_effect [OF assms(2) [unfolded reconcile_sources_def] assms(1) d this] show ?thesis
    by (simp add: list_sources_def)
qed

section \<open>A sample\<close>

definition tehran_zone :: zone where
  "tehran_zone = \<lparr>zn_local = (\<lambda>t. t + minutes 210), zn_instant = (\<lambda>w. w - minutes 210)\<rparr>"

definition sample_sched_env :: sched_env where
  "sample_sched_env = \<lparr>se_env = plain_env,
     se_settings = \<lparr>st_scheduler_timezone = ''Asia/Tehran'', st_daily_collection_time = ''06:00'', st_icon_ttl_days = 30,
       st_icon_batch_size = 25, st_worker_lease_seconds = 120, st_capability_ttl_seconds = 60\<rparr>,
     se_zone = (\<lambda>tz. if tz = ''Asia/Tehran'' then Some tehran_zone else if tz = ''Europe/Berlin'' then Some autumn_zone else None),
     se_zone_error = (\<lambda>tz. tz), se_time_error = (\<lambda>s. s), se_locked = (\<lambda>i. False), se_text = (\<lambda>v. []),
     se_observation = sample_load\<rparr>"

definition sample_source :: source_row where
  "sample_source = \<lparr>so_id = ''s'', so_platform = ''rss'', so_name = ''feed'',
     so_feed_url = Some ''https://feed'', so_homepage_url = None, so_telegram_username = None,
     so_source_group = ''news'', so_language_hint = None, so_default_timezone = ''UTC'', so_normalization_profile = [],
     so_fetch_interval_minutes = 1440, so_etag = None, so_last_modified = None, so_active = True,
     so_last_fetch_at = None, so_next_fetch_at = None, so_last_success_at = None, so_last_failure_at = None,
     so_failure_count = 0, so_last_http_status = None, so_last_error_type = None, so_last_error_message = None,
     so_last_parse_count = 0, so_last_suitable_count = 0, so_last_media_count = 0, so_health_status = ''unknown'',
     so_disabled_reason = None, so_deleted_at = None, so_icon_url = None, so_icon_source = None,
     so_icon_updated_at = None, so_icon_status = ''pending'', so_icon_storage_path = None, so_icon_original_url = None,
     so_icon_mime_type = None, so_icon_width = None, so_icon_height = None, so_icon_failure_count = 0,
     so_icon_next_retry_at = None, so_icon_last_error = None, so_icon_enqueued_at = None, so_icon_attempt = 0,
     so_created_at = 0\<rparr>"

definition sample_schedule :: workflow_schedule where
  "sample_schedule = \<lparr>sc_id = ''k'', sc_schedule_key = ''digest'', sc_source_id = None, sc_name = ''Digest'',
     sc_job_type = ''digest'', sc_payload = [], sc_schedule_kind = ''interval'', sc_timezone = ''Asia/Tehran'',
     sc_local_time = None, sc_interval_minutes = Some 30, sc_next_run_at = Some 500, sc_enabled = True,
     sc_pause_sensitive = True, sc_last_enqueued_at = None, sc_created_at = 0, sc_updated_at = 0\<rparr>"

definition sample_subscription :: ingestion_subscription where
  "sample_subscription = \<lparr>sb_id = ''b'', sb_source_collection_id = Some ''c'', sb_source_collection_name_at_start = Some ''C'',
     sb_mode = ''continuous'', sb_idempotency_key = ''x'', sb_created_by = ''operator'', sb_status = ''starting'',
     sb_interval_minutes = 15, sb_created_at = 0, sb_started_at = Some 0, sb_stopped_at = None, sb_last_cycle_at = None,
     sb_next_cycle_at = Some 0, sb_last_success_at = None, sb_cycle_count = 0, sb_last_cycle_status = None,
     sb_last_error = None, sb_current_cycle_job_id = None, sb_current_cycle_run_id = None\<rparr>"

definition sample_sched_db :: sched_db where
  "sample_sched_db = \<lparr>sx_db = empty_db, sx_sources = [sample_source], sx_schedules = [sample_schedule],
     sx_subscriptions = [sample_subscription], sx_routes = [], sx_heartbeats = []\<rparr>"

lemma sample_tick:
  "case fst (tick sample_sched_env None sample_sched_db) of Inl _ \<Rightarrow> False
   | Inr t \<Rightarrow> tk_enqueued t = 1 \<and> tk_continuous_enqueued t = 1 \<and> tk_source_icon_enqueued t = 1"
  by code_simp

lemma tick_accounts_for_jobs_witness:
  "\<exists>t x'. tick sample_sched_env None sample_sched_db = (Inr t, x') \<and> length (db_jobs (sx_db x')) = 3 \<and> queue_ok (db_jobs (sx_db x'))"
proof -
  have ok: "queue_ok (db_jobs (sx_db sample_sched_db))" by (simp add: sample_sched_db_def empty_db_def queue_ok_def)
  obtain r x' where t: "tick sample_sched_env None sample_sched_db = (r, x')" by force
  from sample_tick obtain t where r: "r = Inr t" "tk_enqueued t = 1" "tk_continuous_enqueued t = 1" "tk_source_icon_enqueued t = 1"
    by (cases r) (simp_all add: t)
  from tick_accounts_for_jobs [OF ok t] r have "length (db_jobs (sx_db x')) = 3 \<and> queue_ok (db_jobs (sx_db x'))"
    by (simp add: sample_sched_db_def empty_db_def)
  with t r(1) show ?thesis by blast
qed

lemma due_schedules_are_enqueued_witness:
  "\<exists>r x'. enqueue_due sample_sched_env 1000 sample_sched_db = Inr (r, x') \<and>
     key_job (schedule_run_key ''k'' 500) (sx_db x') \<noteq> None"
proof -
  have "\<not> isl (enqueue_due sample_sched_env 1000 sample_sched_db)" by code_simp
  then obtain r x' where e: "enqueue_due sample_sched_env 1000 sample_sched_db = Inr (r, x')"
    by (cases "enqueue_due sample_sched_env 1000 sample_sched_db") auto
  have "schedule_problem sample_sched_env sample_schedule = None" by code_simp
  then have "key_job (schedule_run_key (sc_id sample_schedule) 500) (sx_db x') \<noteq> None"
    using due_schedules_are_enqueued [OF _ _ e, of sample_schedule 500]
    by (simp add: sample_sched_db_def empty_db_def queue_ok_def sample_schedule_def sample_sched_env_def)
  moreover have "sc_id sample_schedule = ''k''" by (simp add: sample_schedule_def)
  ultimately show ?thesis using e by metis
qed

lemma schedules_move_forward_witness:
  "\<exists>n. advance_schedule sample_sched_env (sample_schedule\<lparr>sc_schedule_kind := ''daily'', sc_local_time := Some ''06:00''\<rparr>) 500 = Inr n \<and> 500 < n"
proof -
  let ?s = "sample_schedule\<lparr>sc_schedule_kind := ''daily'', sc_local_time := Some ''06:00''\<rparr>"
  have p: "schedule_problem sample_sched_env ?s = None" by code_simp
  have "fixed_offset z (minutes 210)" if "se_zone sample_sched_env (sc_timezone ?s) = Some z" for z
    using that by (simp add: sample_sched_env_def sample_schedule_def tehran_zone_def fixed_offset_def) auto
  from schedules_move_forward [OF p this] show ?thesis by blast
qed

lemma daily_run_can_lie_in_the_past_witness:
  "next_daily_run sample_sched_env (days 1 + minutes 70) ''Europe/Berlin'' ''02:30'' = Inr (days 1 + minutes 30)"
  by (rule daily_run_can_lie_in_the_past) (simp add: sample_sched_env_def)

lemma cycles_run_one_at_a_time_witness:
  "\<exists>c x' b'. cycle_step sample_sched_env 1000 sample_subscription (0, 0) sample_sched_db = Inr (c, x') \<and>
     find (\<lambda>r. sb_id r = ''b'') (sx_subscriptions x') = Some b' \<and> sb_current_cycle_job_id b' \<noteq> None"
proof -
  have "\<not> isl (cycle_step sample_sched_env 1000 sample_subscription (0, 0) sample_sched_db)" by code_simp
  then obtain c x' where e: "cycle_step sample_sched_env 1000 sample_subscription (0, 0) sample_sched_db = Inr (c, x')"
    by (cases "cycle_step sample_sched_env 1000 sample_subscription (0, 0) sample_sched_db") auto
  have "queue_ok (db_jobs (sx_db sample_sched_db))"
    "find (\<lambda>r. sb_id r = sb_id sample_subscription) (sx_subscriptions sample_sched_db) = Some sample_subscription"
    "sb_current_cycle_job_id sample_subscription = None" "sb_id sample_subscription = ''b''"
    by (simp_all add: sample_sched_db_def empty_db_def queue_ok_def sample_subscription_def)
  from cycles_run_one_at_a_time [OF this(1,2) e] this(3,4) e show ?thesis by (auto simp: unfinished_def ended_def)
qed

lemma reconciliation_covers_sources_witness:
  "\<exists>c x'. reconcile_sources sample_sched_env 1000 sample_sched_db = Inr (c, x') \<and> in_step sample_source x'"
proof -
  have "\<not> isl (reconcile_sources sample_sched_env 1000 sample_sched_db)" by code_simp
  then obtain c x' where e: "reconcile_sources sample_sched_env 1000 sample_sched_db = Inr (c, x')"
    by (cases "reconcile_sources sample_sched_env 1000 sample_sched_db") auto
  have "tables_ok sample_sched_db" by (simp add: tables_ok_def sample_sched_db_def)
  from reconciliation_covers_sources [OF this e] e show ?thesis by (simp add: sample_sched_db_def)
qed

end
