(* ===== verification/Job_Worker.thy ===== *)
theory Job_Worker
  imports Job_Queue
begin

text \<open>
  The worker, \<open>app/jobs/worker.py\<close>: \<open>WorkerRunner.run_once\<close> with its claim, handler and
  terminal transactions.  A handler is an argument: it reads the execution snapshot and a database
  and either raises or returns a result with the database it commits.  What other transactions (its own
  lease heartbeats among them) do between the three transactions is an argument too.
\<close>

definition execution_of_job :: "env \<Rightarrow> workflow_job \<Rightarrow> job_error + job_execution" where
  "execution_of_job env j =
     (case wj_lease_owner j of
        None \<Rightarrow> Inl (ValueError ''job execution lease owner must be non-empty'')
      | Some owner \<Rightarrow>
          job_execution (env_redact env) (wj_id j) (wj_job_type j) (wj_payload j) (wj_attempt_count j)
            (wj_max_attempts j) (wj_origin j) owner (wj_created_at j) (wj_scheduled_for j) (wj_priority j)
            (wj_pause_sensitive j) (wj_automation_run_id j) (wj_automation_node_run_id j))"

datatype claim_outcome =
    NoClaim
  | InvalidClaim uuid string int
  | Claimed job_execution

definition claim_execution ::
  "env \<Rightarrow> 'h handler_registry \<Rightarrow> string \<Rightarrow> int \<Rightarrow> time \<Rightarrow> db \<Rightarrow> claim_outcome \<times> db" where
  "claim_execution env reg worker lease_seconds t db =
     (case claim_next_job env worker lease_seconds (Some (registry_job_types reg)) (Some t) db of
        (None, db') \<Rightarrow> (NoClaim, db')
      | (Some j, db') \<Rightarrow>
          (case execution_of_job env j of
             Inl _ \<Rightarrow> (InvalidClaim (wj_id j) (wj_job_type j) (wj_attempt_count j), db')
           | Inr e \<Rightarrow>
               if je_lease_owner e \<noteq> worker
               then (InvalidClaim (je_id e) (je_job_type e) (je_attempt_count e), db')
               else (Claimed e, db')))"

type_synonym job_failure = "job_error_class \<times> string \<times> string \<times> time option"

fun failure_of :: "handler_error \<Rightarrow> job_failure" where
  "failure_of (RetryableJobError code message at) = (RETRYABLE, code, sanitize_handler_message message, at)"
| "failure_of (NeedsReviewJobError code message) = (REVIEW_CLASS, code, sanitize_handler_message message, None)"
| "failure_of (PermanentJobError code message) = (PERMANENT, code, sanitize_handler_message message, None)"
| "failure_of OtherException = (RETRYABLE, ''unhandled_exception'', ''Unhandled job handler exception'', None)"

text \<open>A failure rolls the handler's session back; a result commits it.\<close>

definition execute_handler ::
  "'h handler_registry \<Rightarrow> ('h \<Rightarrow> job_execution \<Rightarrow> db \<Rightarrow> handler_error + pydict \<times> db) \<Rightarrow> job_execution \<Rightarrow> db \<Rightarrow>
   (job_failure + pydict) \<times> db" where
  "execute_handler reg run e db =
     (case get_handler reg (je_job_type e) of
        Inl _ \<Rightarrow> (Inl (failure_of (PermanentJobError ''unknown_job_type''
                    ''No handler is registered for this job type'')), db)
      | Inr h \<Rightarrow>
          (case run h e db of
             Inl err \<Rightarrow> (Inl (failure_of err), db)
           | Inr (result, db') \<Rightarrow> (Inr result, db')))"

definition retry_time :: "job_failure \<Rightarrow> time \<Rightarrow> time option" where
  "retry_time f completion =
     (case f of (cls, code, message, requested) \<Rightarrow>
        if cls = RETRYABLE
        then Some (case requested of Some t \<Rightarrow> t | None \<Rightarrow> completion + seconds 30) else None)"

definition finish_execution :: "env \<Rightarrow> job_execution \<Rightarrow> pydict \<Rightarrow> time \<Rightarrow> db \<Rightarrow> job_error + db" where
  "finish_execution env e result t db =
     map_sum id snd (finish_job env (je_id e) (je_lease_owner e) result (Some t) db)"

definition fail_execution :: "env \<Rightarrow> job_execution \<Rightarrow> job_failure \<Rightarrow> time \<Rightarrow> db \<Rightarrow> job_error + db" where
  "fail_execution env e f t db =
     (case f of (cls, code, message, requested) \<Rightarrow>
        map_sum id snd (fail_job env (je_id e) (je_lease_owner e) cls code message (retry_time f t) (Some t) db))"

definition fail_invalid_claim :: "env \<Rightarrow> string \<Rightarrow> uuid \<Rightarrow> time \<Rightarrow> db \<Rightarrow> job_error + db" where
  "fail_invalid_claim env worker i t db =
     map_sum id snd (fail_job env i worker PERMANENT ''job_execution_invalid''
       ''Claimed job could not be materialized safely'' None (Some t) db)"

text \<open>A stale claim (an invalid transition) is reported and dropped; any other error leaves the loop.\<close>

definition drop_stale :: "job_error + db \<Rightarrow> db \<Rightarrow> (job_error + bool) \<times> db" where
  "drop_stale r db =
     (case r of
        Inr db' \<Rightarrow> (Inr True, db')
      | Inl (InvalidJobTransition i a s) \<Rightarrow> (Inr True, db)
      | Inl e \<Rightarrow> (Inl e, db))"

definition run_once ::
  "env \<Rightarrow> 'h handler_registry \<Rightarrow> ('h \<Rightarrow> job_execution \<Rightarrow> db \<Rightarrow> handler_error + pydict \<times> db) \<Rightarrow> (db \<Rightarrow> db) \<Rightarrow>
   string \<Rightarrow> int \<Rightarrow> time \<Rightarrow> time \<Rightarrow> db \<Rightarrow> (job_error + bool) \<times> db" where
  "run_once env reg run others worker lease_seconds claim_time completion_time db =
     (case claim_execution env reg worker lease_seconds claim_time db of
        (NoClaim, db1) \<Rightarrow> (Inr False, db1)
      | (InvalidClaim i ty n, db1) \<Rightarrow>
          (case fail_invalid_claim env worker i completion_time db1 of
             Inl e \<Rightarrow> (Inl e, db1)
           | Inr db2 \<Rightarrow> (Inr True, db2))
      | (Claimed e, db1) \<Rightarrow>
          (case execute_handler reg run e (others db1) of
             (Inr result, db2) \<Rightarrow>
               drop_stale (finish_execution env e result completion_time (others db2)) (others db2)
           | (Inl f, db2) \<Rightarrow>
               drop_stale (fail_execution env e f completion_time (others db2)) (others db2)))"

section \<open>Terminal transitions\<close>

lemma find_set_rows_const:
  assumes "find p rs = Some r" "p (g r)"
  shows "find p (set_rows (\<lambda>q. k q = k r) (\<lambda>q. g r) rs) = Some (g r)"
  using assms by (induction rs) (auto simp: row_simps split: if_splits)

lemma find_job_write:
  assumes "find_job i db = Some j" "wj_id j' = wj_id j" "db_jobs db1 = db_jobs db"
  shows "find_job i (append_event env k ty a d (put_job env j' db1)) = Some (flush_job env j j')"
proof -
  have i: "wj_id j = i" using assms(1) find_job_id by blast
  have "find_job (wj_id j') db1 = Some j" using assms i by (simp add: find_job_def)
  from find_job_put [OF this, of env] i assms(2) show ?thesis by (simp add: frame_simps)
qed

definition fail_status :: "job_error_class \<Rightarrow> workflow_job \<Rightarrow> job_status" where
  "fail_status c j = (if c = RETRYABLE \<and> wj_attempt_count j < wj_max_attempts j then QUEUED
     else if c = REVIEW_CLASS then NEEDS_REVIEW else FAILED)"

lemma fail_job_runs:
  assumes "find_job i db = Some j" "has_active_lease j w (observed env now)"
  shows "\<exists>j' db'. fail_job env i w c code m at now db = Inr (j', db') \<and> find_job i db' = Some j' \<and>
    wj_lease_owner j' = None \<and> wj_attempt_count j' = wj_attempt_count j \<and> wj_max_attempts j' = wj_max_attempts j \<and>
    wj_status j' = fail_status c j \<and> wj_error_code j' = Some (redact_text env code) \<and>
    (fail_status c j = QUEUED \<longrightarrow>
       wj_scheduled_for j' = Some (case at of None \<Rightarrow> observed env now | Some r \<Rightarrow> r) \<and>
       db_retention_runs db' = db_retention_runs db) \<and>
    (fail_status c j \<noteq> QUEUED \<longrightarrow>
       db_retention_runs db' = db_retention_runs
         (put_retention_run (locked_retention_run i db) (sync_retention_terminal (fail_status c j) (observed env now)) db))"
proof -
  have "leased_job db i w (observed env now) ''fail'' = Inr j" using assms by (simp add: leased_job_def)
  then show ?thesis
    using find_job_write [OF assms(1)]
    by (simp add: fail_job_def Let_def fail_status_def clear_lease_def frame_simps)
qed

lemma fail_job_lease:
  assumes "fail_job env i w c code m at now db = Inr (j', db')"
  shows "\<exists>j. find_job i db = Some j \<and> has_active_lease j w (observed env now)"
  using assms by (auto simp: fail_job_def Let_def result_bind_eq_Inr leased_job_Inr)

text \<open>
  C30: the outcome of a failure.  Only the lease holder can record one.  The job loses its lease
  and keeps its attempt count; a retryable failure with attempts left queues it again, due at the requested
  time, and leaves its retention run alone; a review failure parks it for an operator and every other one
  fails it, and then its retention run, unless already succeeded or expired, is no longer waiting or running
  and ends with exactly one workflow error.
\<close>

theorem failure_outcome:
  assumes "fail_job env i w c code m at now db = Inr (j', db')"
  shows "\<exists>j. find_job i db = Some j \<and> has_active_lease j w (observed env now) \<and> find_job i db' = Some j' \<and>
    wj_lease_owner j' = None \<and> wj_attempt_count j' = wj_attempt_count j \<and> wj_status j' = fail_status c j \<and>
    (wj_status j' = QUEUED \<longrightarrow> wj_scheduled_for j' = Some (case at of None \<Rightarrow> observed env now | Some r \<Rightarrow> r) \<and>
       db_retention_runs db' = db_retention_runs db) \<and>
    (wj_status j' \<noteq> QUEUED \<longrightarrow> (\<forall>r. locked_retention_run i db = Some r \<and> rr_status r \<notin> {''succeeded'', ''expired''} \<longrightarrow>
       (\<exists>r'. locked_retention_run i db' = Some r' \<and> rr_status r' \<notin> {''previewed'', ''queued'', ''running''} \<and>
             length (filter workflow_phase (rr_error_snapshot r')) = 1)))"
proof -
  from fail_job_lease [OF assms] obtain j where j: "find_job i db = Some j" "has_active_lease j w (observed env now)" by blast
  let ?s = "fail_status c j"
  have run: "\<exists>r'. locked_retention_run i db' = Some r' \<and> rr_status r' \<notin> {''previewed'', ''queued'', ''running''} \<and>
       length (filter workflow_phase (rr_error_snapshot r')) = 1"
    if r: "locked_retention_run i db = Some r" "rr_status r \<notin> {''succeeded'', ''expired''}" and
      db: "db_retention_runs db' = db_retention_runs (put_retention_run (locked_retention_run i db)
             (sync_retention_terminal ?s (observed env now)) db)" for r
  proof -
    let ?r = "sync_retention_terminal ?s (observed env now) r"
    have "rr_workflow_job_id ?r = rr_workflow_job_id r"
      by (simp add: sync_retention_terminal_def Let_def split_beta)
    moreover have "rr_workflow_job_id r = Some i" using r(1) by (auto simp: locked_retention_run_def dest: find_Some_in)
    ultimately have "locked_retention_run i db' = Some ?r"
      using r(1) find_set_rows_const [of "\<lambda>r. rr_workflow_job_id r = Some i" "db_retention_runs db" r _ rr_id]
      by (simp add: locked_retention_run_def db put_retention_run_def)
    moreover have "rr_status ?r \<notin> {''previewed'', ''queued'', ''running''}" "length (filter workflow_phase (rr_error_snapshot ?r)) = 1"
      using r(2) by (simp_all add: sync_retention_terminal_def Let_def split_beta workflow_phase_def dict_get_def filter_empty_conv)
    ultimately show ?thesis by blast
  qed
  from fail_job_runs [OF j, of c code m at] assms obtain "find_job i db' = Some j'" "wj_lease_owner j' = None"
    "wj_attempt_count j' = wj_attempt_count j" "wj_status j' = ?s"
    "?s = QUEUED \<longrightarrow> wj_scheduled_for j' = Some (case at of None \<Rightarrow> observed env now | Some r \<Rightarrow> r) \<and>
       db_retention_runs db' = db_retention_runs db"
    "?s \<noteq> QUEUED \<longrightarrow> db_retention_runs db' = db_retention_runs (put_retention_run (locked_retention_run i db)
         (sync_retention_terminal ?s (observed env now)) db)" by auto
  with j run show ?thesis by (intro exI [of _ j]) simp
qed

section \<open>A worker's turn\<close>

lemma redact_dict_total: "\<exists>d'. redact_dict env d = Some d'"
  by (simp add: redact_dict_def Redaction.redact_dict)

lemma finish_job_runs:
  assumes "find_job i db = Some j" "has_active_lease j w (observed env now)"
  shows "\<exists>j' db'. finish_job env i w r now db = Inr (j', db') \<and> find_job i db' = Some j' \<and>
    wj_status j' = SUCCEEDED \<and> wj_progress j' = 100 \<and> wj_lease_owner j' = None \<and> Some (wj_result j') = redact_dict env r"
proof -
  have "leased_job db i w (observed env now) ''finish'' = Inr j" using assms by (simp add: leased_job_def)
  moreover obtain d where "redact_dict env r = Some d" using redact_dict_total by blast
  ultimately show ?thesis
    using find_job_write [OF assms(1)] by (simp add: finish_job_def Let_def clear_lease_def)
qed

definition holds_lease :: "db \<Rightarrow> uuid \<Rightarrow> string \<Rightarrow> time \<Rightarrow> bool" where
  "holds_lease db i w t = (case find_job i db of None \<Rightarrow> False | Some j \<Rightarrow> has_active_lease j w t)"

lemma no_lease_invalid:
  assumes "\<not> holds_lease db i w t"
  shows "\<exists>a b c. finish_job env i w r (Some t) db = Inl (InvalidJobTransition a b c)"
    and "\<exists>a b c. fail_job env i w cls code m at (Some t) db = Inl (InvalidJobTransition a b c)"
  using assms
  by (auto simp: finish_job_def fail_job_def leased_job_def holds_lease_def observed_def invalid_def Let_def
      split: option.splits)

lemma claimed_execution:
  assumes "claim_execution env reg w l t db = (Claimed e, db1)"
  shows "je_lease_owner e = w \<and> 0 < je_attempt_count e \<and> je_attempt_count e \<le> je_max_attempts e \<and>
    (\<exists>j. claim_next_job env w l (Some (registry_job_types reg)) (Some t) db = (Some j, db1) \<and> je_id e = wj_id j \<and>
         je_attempt_count e = wj_attempt_count j \<and> je_max_attempts e = wj_max_attempts j)"
  using assms
  by (auto simp: claim_execution_def execution_of_job_def split: prod.splits option.splits sum.splits if_splits
      dest!: job_execution_attempts)

text \<open>
  What one turn of a worker does with a claimed job.  Whatever ran beside it, at the end of
  the turn: if the worker no longer holds the lease, it writes nothing and the stale outcome is dropped; if
  it does and the handler returned a result, the job has succeeded with that result redacted; if it does and
  the handler raised, the job has the status the failure class and the attempts left call for.
\<close>

theorem worker_turn_outcome:
  assumes "claim_execution env reg w l t db = (Claimed e, db1)"
    and "execute_handler reg run e (others db1) = (outcome, db2)"
    and "run_once env reg run others w l t t' db = (r, db')"
  shows "r = Inr True \<and>
    (\<not> holds_lease (others db2) (je_id e) w t' \<longrightarrow> db' = others db2) \<and>
    (holds_lease (others db2) (je_id e) w t' \<longrightarrow> (\<exists>j. find_job (je_id e) db' = Some j \<and> wj_lease_owner j = None \<and>
       (case outcome of
          Inr result \<Rightarrow> wj_status j = SUCCEEDED \<and> Some (wj_result j) = redact_dict env result
        | Inl (cls, code, message, at) \<Rightarrow>
            wj_status j = fail_status cls (the (find_job (je_id e) (others db2))) \<and>
            wj_error_code j = Some (redact_text env code))))"
proof -
  have w: "je_lease_owner e = w" using claimed_execution [OF assms(1)] by blast
  show ?thesis
  proof (cases "holds_lease (others db2) (je_id e) w t'")
    case False
    show ?thesis
    proof (cases outcome)
      case (Inr result)
      then show ?thesis
        using assms w False no_lease_invalid(1) [OF False, of env result]
        by (auto simp: run_once_def finish_execution_def drop_stale_def)
    next
      case (Inl f)
      obtain cls code message at where f: "f = (cls, code, message, at)" by (cases f)
      show ?thesis
        using assms w False Inl f no_lease_invalid(2) [OF False, of env cls code message "retry_time f t'"]
        by (auto simp: run_once_def fail_execution_def drop_stale_def)
    qed
  next
    case True
    then obtain j where j: "find_job (je_id e) (others db2) = Some j" "has_active_lease j w (observed env (Some t'))"
      by (auto simp: holds_lease_def observed_def split: option.splits)
    show ?thesis
    proof (cases outcome)
      case (Inr result)
      then show ?thesis
        using assms w True finish_job_runs [OF j, of result]
        by (auto simp: run_once_def finish_execution_def drop_stale_def)
    next
      case (Inl f)
      obtain cls code message at where f: "f = (cls, code, message, at)" by (cases f)
      show ?thesis
        using assms w True Inl f j(1) fail_job_runs [OF j, of cls code message "retry_time f t'"]
        by (auto simp: run_once_def fail_execution_def drop_stale_def)
    qed
  qed
qed

lemma retry_job_row:
  assumes "find_job i db = Some j" "retry_job env i now db = Inr (j', db1)"
  shows "find_job i db1 = Some j'" "wj_status j' = QUEUED" "wj_attempt_count j' = wj_attempt_count j"
    "wj_max_attempts j' = wj_max_attempts j"
proof -
  let ?j = "clear_lease (j\<lparr>wj_status := QUEUED, wj_scheduled_for := Some (observed env now), wj_finished_at := None,
      wj_started_at := None, wj_progress := 0, wj_progress_message := None,
      wj_error_class := None, wj_error_code := None, wj_error_message := None\<rparr>)"
  from assms have j': "j' = flush_job env j ?j" and f: "find_job i db1 = Some j'"
    using find_job_write [OF assms(1), of ?j]
    by (auto simp: retry_job_def Let_def result_bind_eq_Inr clear_lease_def frame_simps split: if_splits)
  then show "find_job i db1 = Some j'" "wj_status j' = QUEUED" "wj_attempt_count j' = wj_attempt_count j"
    "wj_max_attempts j' = wj_max_attempts j" by (simp_all add: clear_lease_def)
qed

text \<open>
  C34: an operator's retry of an exhausted job is in vain.  A retry keeps the attempt count, so
  when the job had used up its attempts, no later claim, by any worker at any time, while the queued row stays as the retry
  left it, can hand it to a handler: the snapshot of a claimed row refuses an attempt count above the maximum.
\<close>

theorem retry_of_exhausted_job_never_runs:
  assumes "find_job i db = Some j" "wj_max_attempts j \<le> wj_attempt_count j"
    and "retry_job env i now db = Inr (j', db1)"
    and "find_job i db2 = Some j'" "queue_ok (db_jobs db2)"
  shows "wj_status j' = QUEUED \<and> wj_attempt_count j' = wj_attempt_count j \<and> find_job i db1 = Some j' \<and>
    (\<forall>env' (reg :: 'h handler_registry) w l t c db3. claim_execution env' reg w l t db2 = (c, db3) \<longrightarrow>
       (\<forall>e. c = Claimed e \<longrightarrow> je_id e \<noteq> i))"
proof -
  note a = retry_job_row [OF assms(1,3)]
  have "je_id e \<noteq> i" if c: "claim_execution env' reg w l t db2 = (Claimed e, db3)"
    for env' w l t e db3 and reg :: "'h handler_registry"
  proof
    assume i: "je_id e = i"
    from claimed_execution [OF c] obtain k where k: "claim_next_job env' w l (Some (registry_job_types reg)) (Some t) db2 = (Some k, db3)"
      "je_id e = wj_id k" "je_attempt_count e = wj_attempt_count k" "je_max_attempts e = wj_max_attempts k"
      "je_attempt_count e \<le> je_max_attempts e" by blast
    from claim_Some [OF k(1)] obtain q where q: "k = flush_job env' q (claimed w l (observed env' (Some t)) q)" "q \<in> set (db_jobs db2)"
      by blast
    then have "wj_id q = i" using i k(2) by (simp add: claimed_def)
    then have "q = j'" using assms(4,5) q(2) find_unique [of wj_id "db_jobs db2" q] by (simp add: find_job_def queue_ok_def)
    then show False using k(3-5) q(1) a(2-4) assms(2) by (simp add: claimed_def)
  qed
  with a(1-3) show ?thesis by blast
qed

end
