(* ===== verification/Continuous_Spec.thy ===== *)
theory Continuous_Spec
  imports Continuous Scheduler_Spec Job_Worker "HOL-Library.Multiset"
begin

text \<open>
  What collections and continuous subscriptions promise: the tables stay well-formed under every
  operation, a snapshot holds the live members, and what stopping a subscription achieves and does not.
\<close>

section \<open>Names and rows\<close>

definition collection_ok :: "source_collection \<Rightarrow> bool" where
  "collection_ok c = (cl_name c = strip (cl_name c) \<and> 1 \<le> length (cl_name c) \<and> length (cl_name c) \<le> 60 \<and>
     cl_normalized_name c = lower (cl_name c) \<and>
     (case cl_description c of None \<Rightarrow> True | Some d \<Rightarrow> d = strip d \<and> d \<noteq> [] \<and> length d \<le> 500))"

lemma drop_both_ends: "dropWhile p (rev (dropWhile p (rev (dropWhile p s)))) = rev (dropWhile p (rev (dropWhile p s)))"
proof -
  let ?a = "dropWhile p s"
  obtain us where us: "rev ?a = us @ dropWhile p (rev ?a)" by (metis takeWhile_dropWhile_id)
  then have a: "?a = rev (dropWhile p (rev ?a)) @ rev us" by (metis rev_append rev_rev_ident)
  show ?thesis
  proof (cases "rev (dropWhile p (rev ?a))")
    case (Cons c cs)
    then have "?a = c # (cs @ rev us)" using a by simp
    then have "\<not> p c" by (simp add: dropWhile_eq_Cons_conv)
    with Cons show ?thesis by simp
  next
    case Nil
    show ?thesis unfolding Nil by simp
  qed
qed

lemma strip_strip [simp]: "strip (strip s) = strip s"
  unfolding strip_def by (simp only: rev_rev_ident drop_both_ends dropWhile_idem)

lemma normalized_name_ok:
  "normalize_source_collection_name v = Inr (n, key) \<Longrightarrow>
     n = strip n \<and> 1 \<le> length n \<and> length n \<le> 60 \<and> key = lower n"
  by (auto simp: normalize_source_collection_name_def Let_def split: if_splits)

lemma normalized_description_ok:
  "normalize_description v = Inr d \<Longrightarrow> (case d of None \<Rightarrow> True | Some t \<Rightarrow> t = strip t \<and> t \<noteq> [] \<and> length t \<le> 500)"
  by (auto simp: normalize_description_def Let_def split: if_splits option.splits)

definition known :: "ingestion_subscription \<Rightarrow> bool" where
  "known b = (sb_status b \<in> {''starting'', ''running'', ''stopping'', ''stopped'', ''error''})"

definition tables_well_formed :: "coll_db \<Rightarrow> bool" where
  "tables_well_formed x =
     (list_all collection_ok (co_collections x) \<and> distinct (map cl_id (co_collections x)) \<and>
      distinct (map cl_normalized_name (co_collections x)) \<and>
      distinct (map (\<lambda>m. (mb_collection_id m, mb_source_id m)) (co_members x)) \<and>
      (\<forall>c. length (member_ids x c) \<le> SOURCE_COLLECTION_MAX_SIZE) \<and>
      distinct (map sb_id (sx_subscriptions (co_sched x))) \<and> list_all known (sx_subscriptions (co_sched x)) \<and> \<not> active_clash x)"

section \<open>Every operation keeps the tables well-formed\<close>

lemma from_keys_spec: "distinct (from_keys is) \<and> set (from_keys is) = set is"
  by (induction "is" rule: from_keys.induct) auto

lemma name_taken_not: "\<not> name_taken x i n \<longleftrightarrow> (\<forall>c\<in>set (co_collections x). cl_id c \<noteq> i \<longrightarrow> cl_normalized_name c \<noteq> n)"
  by (auto simp: name_taken_def list_ex_iff)

lemma get_collection_none: "get_collection x i = None \<longleftrightarrow> i \<notin> set (map cl_id (co_collections x))"
  by (auto simp: get_collection_def find_None_iff)

lemma take_id_frame [frame_simps]:
  "co_collections (take_id x) = co_collections x" "co_members (take_id x) = co_members x" "co_runs (take_id x) = co_runs x"
  "co_snapshots (take_id x) = co_snapshots x" "sx_subscriptions (co_sched (take_id x)) = sx_subscriptions (co_sched x)"
  "sx_sources (co_sched (take_id x)) = sx_sources (co_sched x)" "db_jobs (sx_db (co_sched (take_id x))) = db_jobs (sx_db (co_sched x))"
  by (simp_all add: take_id_def)

lemma on_sched_frame [frame_simps]:
  "co_collections (on_sched f x) = co_collections x" "co_members (on_sched f x) = co_members x" "co_runs (on_sched f x) = co_runs x"
  "co_snapshots (on_sched f x) = co_snapshots x" "co_sched (on_sched f x) = f (co_sched x)"
  by (simp_all add: on_sched_def)

lemma on_jobs_frame [frame_simps]:
  "co_collections (on_jobs d x) = co_collections x" "co_members (on_jobs d x) = co_members x" "co_runs (on_jobs d x) = co_runs x"
  "sx_subscriptions (co_sched (on_jobs d x)) = sx_subscriptions (co_sched x)" "sx_db (co_sched (on_jobs d x)) = d"
  "co_snapshots (on_jobs d x) = co_snapshots x"
  by (simp_all add: on_jobs_def frame_simps)

lemma take_ids_frame [frame_simps]:
  "co_collections (take_ids n x) = co_collections x" "co_members (take_ids n x) = co_members x" "co_runs (take_ids n x) = co_runs x"
  "co_snapshots (take_ids n x) = co_snapshots x" "sx_subscriptions (co_sched (take_ids n x)) = sx_subscriptions (co_sched x)"
  by (induction n arbitrary: x) (simp_all add: frame_simps)

lemma active_clash_same: "sx_subscriptions (co_sched x') = sx_subscriptions (co_sched x) \<Longrightarrow> active_clash x' = active_clash x"
  by (simp add: active_clash_def)

text \<open>The collection tables and the subscriptions can be treated apart.\<close>

definition collections_ok :: "coll_db \<Rightarrow> bool" where
  "collections_ok x =
     (list_all collection_ok (co_collections x) \<and> distinct (map cl_id (co_collections x)) \<and>
      distinct (map cl_normalized_name (co_collections x)))"

definition members_ok :: "coll_db \<Rightarrow> bool" where
  "members_ok x =
     (distinct (map (\<lambda>m. (mb_collection_id m, mb_source_id m)) (co_members x)) \<and>
      (\<forall>c. length (member_ids x c) \<le> SOURCE_COLLECTION_MAX_SIZE))"

definition subs_ok :: "coll_db \<Rightarrow> bool" where
  "subs_ok x = (distinct (map sb_id (sx_subscriptions (co_sched x))) \<and>
     list_all known (sx_subscriptions (co_sched x)) \<and> \<not> active_clash x)"

lemma tables_split: "tables_well_formed x \<longleftrightarrow> collections_ok x \<and> members_ok x \<and> subs_ok x"
  by (auto simp: tables_well_formed_def collections_ok_def members_ok_def subs_ok_def)

lemma collections_ok_same: "co_collections x' = co_collections x \<Longrightarrow> collections_ok x' = collections_ok x"
  by (simp add: collections_ok_def)

lemma members_ok_same: "co_members x' = co_members x \<Longrightarrow> members_ok x' = members_ok x"
  by (simp add: members_ok_def member_ids_def)

lemma subs_ok_same: "sx_subscriptions (co_sched x') = sx_subscriptions (co_sched x) \<Longrightarrow> subs_ok x' = subs_ok x"
  by (simp add: subs_ok_def active_clash_def)

lemmas ok_same = collections_ok_same members_ok_same subs_ok_same

lemma create_collection_ok:
  assumes "create_collection env n d x = Inr (c, x')" "tables_well_formed x"
  shows "tables_well_formed x'"
proof -
  from assms(1) obtain name key dd where c: "normalize_source_collection_name n = Inr (name, key)" "normalize_description d = Inr dd"
    "c = \<lparr>cl_id = fresh_id env x, cl_name = name, cl_normalized_name = key, cl_description = dd, cl_created_at = env_db_now env\<rparr>"
    "\<not> name_taken x (cl_id c) key" "get_collection x (cl_id c) = None" "x' = (take_id x)\<lparr>co_collections := co_collections x @ [c]\<rparr>"
    by (auto simp: create_collection_def result_bind_eq_Inr Let_def split: if_splits)
  have "collection_ok c" using normalized_name_ok [OF c(1)] normalized_description_ok [OF c(2)] c(3) by (simp add: collection_ok_def)
  moreover have "cl_id c \<notin> set (map cl_id (co_collections x))" using c(5) by (simp add: get_collection_none)
  moreover have "key \<notin> set (map cl_normalized_name (co_collections x))"
  proof
    assume "key \<in> set (map cl_normalized_name (co_collections x))"
    then obtain r where r: "r \<in> set (co_collections x)" "cl_normalized_name r = key" by auto
    with c(4) have "cl_id r = cl_id c" unfolding name_taken_not by blast
    with r(1) calculation(2) show False by (metis image_eqI list.set_map)
  qed
  moreover have "cl_normalized_name c = key" using c(3) by simp
  ultimately have "collections_ok x'" using assms(2) c(6) by (auto simp: tables_split collections_ok_def)
  moreover have "members_ok x' = members_ok x" "subs_ok x' = subs_ok x" using c(6) by (auto intro!: ok_same simp: frame_simps)
  ultimately show ?thesis using assms(2) by (simp add: tables_split)
qed

lemma update_collection_ok:
  assumes "get_collection x i = Some c" "update_collection c n d p x = Inr (c', x')" "tables_well_formed x"
  shows "tables_well_formed x'"
proof -
  have c: "c \<in> set (co_collections x)" "cl_id c = i" using assms(1) find_Some_in unfolding get_collection_def by fastforce+
  with assms(3) have okc: "collection_ok c" by (simp add: tables_well_formed_def list_all_iff)
  from assms(2) obtain name key dd where u: "(case n of None \<Rightarrow> Inr (cl_name c, cl_normalized_name c) | Some v \<Rightarrow> normalize_source_collection_name v) = Inr (name, key)"
    "(if p then normalize_description d else Inr (cl_description c)) = Inr dd"
    "c' = c\<lparr>cl_name := name, cl_normalized_name := key, cl_description := dd\<rparr>" "\<not> name_taken x (cl_id c) key"
    "x' = x\<lparr>co_collections := set_rows (\<lambda>r. cl_id r = cl_id c) (\<lambda>_. c') (co_collections x)\<rparr>"
    by (auto simp: update_collection_def result_bind_eq_Inr Let_def split: if_splits)
  have name: "name = strip name \<and> 1 \<le> length name \<and> length name \<le> 60 \<and> key = lower name"
    using u(1) okc normalized_name_ok by (cases n) (auto simp: collection_ok_def)
  have desc: "case dd of None \<Rightarrow> True | Some t \<Rightarrow> t = strip t \<and> t \<noteq> [] \<and> length t \<le> 500"
    using u(2) okc normalized_description_ok [of d dd] by (cases p) (auto simp: collection_ok_def)
  have okc': "collection_ok c'" using name desc u(3) by (simp add: collection_ok_def)
  have rows: "co_collections x' = set_rows (\<lambda>r. cl_id r = cl_id c) (\<lambda>_. c') (co_collections x)" using u(5) by simp
  have ids: "map cl_id (co_collections x') = map cl_id (co_collections x)" unfolding rows using u(3) by (simp add: map_set_rows)
  have "distinct (map cl_normalized_name (co_collections x'))"
  proof -
    have other: "\<forall>r\<in>set rs. cl_id r \<noteq> cl_id c \<longrightarrow> cl_normalized_name r \<noteq> key" if "set rs \<subseteq> set (co_collections x)" for rs
      using u(4) that unfolding name_taken_not by blast
    have "distinct (map cl_normalized_name (set_rows (\<lambda>r. cl_id r = cl_id c) (\<lambda>_. c') rs))"
      if "set rs \<subseteq> set (co_collections x)" "distinct (map cl_normalized_name rs)" "distinct (map cl_id rs)" for rs
      using that
    proof (induction rs)
      case (Cons r rs)
      have sub: "set rs \<subseteq> set (co_collections x)" using Cons.prems(1) by simp
      show ?case
      proof (cases "cl_id r = cl_id c")
        case True
        moreover have "cl_id r \<notin> cl_id ` set rs" using Cons.prems(3) by simp
        ultimately have "\<forall>q\<in>set rs. cl_id q \<noteq> cl_id c" by (metis image_eqI)
        then have "set_rows (\<lambda>r. cl_id r = cl_id c) (\<lambda>_. c') rs = rs" by (intro set_rows_none) auto
        moreover have "key \<notin> cl_normalized_name ` set rs" using other [OF sub] \<open>\<forall>q\<in>set rs. cl_id q \<noteq> cl_id c\<close> by blast
        ultimately show ?thesis using True Cons.prems(2) u(3) by (simp add: row_simps)
      next
        case False
        have "cl_normalized_name r \<noteq> key" using other [OF Cons.prems(1)] False by simp
        moreover have "cl_normalized_name r \<notin> cl_normalized_name ` set rs" using Cons.prems(2) by simp
        ultimately have "cl_normalized_name r \<notin> cl_normalized_name ` set (set_rows (\<lambda>r. cl_id r = cl_id c) (\<lambda>_. c') rs)"
          using u(3) by (auto simp: in_set_rows split: if_splits)
        then show ?thesis using False Cons by (simp add: row_simps)
      qed
    qed (simp add: row_simps)
    then show ?thesis unfolding rows using assms(3) by (simp add: tables_well_formed_def)
  qed
  moreover have "list_all collection_ok (co_collections x')"
    unfolding rows using okc' assms(3) by (auto simp: list_all_iff in_set_rows tables_well_formed_def)
  ultimately have "collections_ok x'" using assms(3) ids by (simp add: tables_split collections_ok_def)
  moreover have "members_ok x' = members_ok x" "subs_ok x' = subs_ok x" using u(5) by (auto intro!: ok_same)
  ultimately show ?thesis using assms(3) by (simp add: tables_split)
qed

lemma member_ids_add: "co_members x' = co_members x @ map (\<lambda>k. \<lparr>mb_collection_id = i, mb_source_id = k, mb_created_at = t\<rparr>) ks \<Longrightarrow>
    member_ids x' c = member_ids x c @ (if c = i then ks else [])"
  by (simp add: member_ids_def comp_def)

lemma member_ids_distinct:
  assumes "members_ok x"
  shows "distinct (member_ids x c)"
proof -
  have key: "distinct (map (\<lambda>m. (mb_collection_id m, mb_source_id m)) ms) \<Longrightarrow>
      distinct (map mb_source_id (filter (\<lambda>m. mb_collection_id m = c) ms))" for ms
    by (induction ms) (auto simp: image_iff)
  have "distinct (map (\<lambda>m. (mb_collection_id m, mb_source_id m)) (co_members x))" using assms by (simp add: members_ok_def)
  from key [OF this] show ?thesis by (simp add: member_ids_def)
qed

lemma add_members_ok:
  assumes "add_members env i ids x = Inr (m, x')" "tables_well_formed x"
  shows "tables_well_formed x'"
proof -
  from assms(1) obtain ks where a: "x' = x\<lparr>co_members := co_members x @
      map (\<lambda>k. \<lparr>mb_collection_id = i, mb_source_id = k, mb_created_at = env_db_now env\<rparr>) ks\<rparr>"
    "ks = filter (\<lambda>k. k \<in> set (filter (\<lambda>k. k \<in> set (from_keys ids)) (live_ids x)) \<and> k \<notin> set (member_ids x i)) (from_keys ids)"
    "length (remdups (member_ids x i)) + length ks \<le> SOURCE_COLLECTION_MAX_SIZE"
    by (auto simp: add_members_def Let_def not_less split: option.splits if_splits)
  have ok: "members_ok x" using assms(2) by (simp add: tables_split)
  have ks: "distinct ks" "set ks \<inter> set (member_ids x i) = {}" using a(2) from_keys_spec by auto
  have new: "co_members x' = co_members x @ map (\<lambda>k. \<lparr>mb_collection_id = i, mb_source_id = k, mb_created_at = env_db_now env\<rparr>) ks"
    using a(1) by simp
  have "(i, k) \<notin> (\<lambda>m. (mb_collection_id m, mb_source_id m)) ` set (co_members x)" if "k \<in> set ks" for k
    using ks(2) that by (auto simp: member_ids_def)
  then have "distinct (map (\<lambda>m. (mb_collection_id m, mb_source_id m)) (co_members x'))"
    unfolding new using ok ks(1) by (auto simp: members_ok_def distinct_map inj_on_def)
  moreover have "length (member_ids x' c) \<le> SOURCE_COLLECTION_MAX_SIZE" for c
    using member_ids_add [OF new, of c] a(3) ok member_ids_distinct [OF ok, of i]
    by (auto simp: members_ok_def distinct_remdups_id)
  ultimately have "members_ok x'" by (simp add: members_ok_def)
  moreover have "collections_ok x' = collections_ok x" "subs_ok x' = subs_ok x" using a(1) by (auto intro!: ok_same)
  ultimately show ?thesis using assms(2) by (simp add: tables_split)
qed

lemma members_filter_ok:
  assumes "members_ok x" "co_members x' = filter p (co_members x)"
  shows "members_ok x'"
proof -
  have "length (filter q (filter p ms)) \<le> length (filter q ms)" for q and ms :: "collection_membership list"
    by (induction ms) auto
  then have "length (member_ids x' c) \<le> length (member_ids x c)" for c using assms(2) by (simp add: member_ids_def del: filter_filter)
  moreover have "distinct (map (\<lambda>m. (mb_collection_id m, mb_source_id m)) (co_members x'))"
    using assms by (simp add: members_ok_def distinct_map_filter)
  ultimately show ?thesis using assms(1) unfolding members_ok_def by (meson le_trans)
qed

text \<open>
  A removal answers the requested sources that were no members as \<open>already_member_source_ids\<close>; nothing is
  ever missing.
\<close>

lemma removal_calls_strangers_members:
  assumes "remove_members i ids x = Inr (m, x')"
  shows "set (mc_already m) = set ids - set (member_ids x i) \<and> mc_missing m = []"
proof -
  have keys: "set (from_keys ks) = set ks" for ks by (induction ks) auto
  show ?thesis using assms by (auto simp: remove_members_def Let_def keys split: option.splits)
qed

lemma remove_members_ok:
  assumes "remove_members i ids x = Inr (m, x')" "tables_well_formed x"
  shows "tables_well_formed x'"
proof -
  from assms(1) obtain p where r: "x' = x\<lparr>co_members := filter p (co_members x)\<rparr>"
    by (auto simp: remove_members_def Let_def split: option.splits)
  then have "members_ok x'" using assms(2) members_filter_ok [of x x' p] by (simp add: tables_split)
  moreover have "collections_ok x' = collections_ok x" "subs_ok x' = subs_ok x" using r by (auto intro!: ok_same)
  ultimately show ?thesis using assms(2) by (simp add: tables_split)
qed

section \<open>At most one active subscription per collection\<close>

definition subs_wf :: "ingestion_subscription list \<Rightarrow> bool" where
  "subs_wf bs \<longleftrightarrow> distinct (map sb_id bs) \<and> list_all known bs \<and>
     (\<forall>b\<in>set bs. \<forall>r\<in>set bs. is_active b \<and> is_active r \<and> sb_source_collection_id b \<noteq> None \<and>
        sb_source_collection_id r = sb_source_collection_id b \<longrightarrow> sb_id r = sb_id b)"

lemma subs_ok_wf: "subs_ok x \<longleftrightarrow> subs_wf (sx_subscriptions (co_sched x))"
  unfolding subs_ok_def subs_wf_def active_clash_def Let_def list_ex_iff by blast

lemma subs_wf_map:
  assumes "subs_wf bs" "\<And>r. r \<in> set bs \<Longrightarrow> sb_id (f r) = sb_id r \<and> known (f r) \<and> (is_active (f r) \<longrightarrow> is_active r) \<and>
      (sb_source_collection_id (f r) = sb_source_collection_id r \<or> sb_source_collection_id (f r) = None)"
  shows "subs_wf (map f bs)"
proof -
  have "map sb_id (map f bs) = map sb_id bs" using assms(2) by simp
  then have "distinct (map sb_id (map f bs))" using assms(1) by (simp only: subs_wf_def)
  moreover have "sb_id r' = sb_id b'" if h: "b' \<in> set (map f bs)" "r' \<in> set (map f bs)" "is_active b'" "is_active r'"
      "sb_source_collection_id b' \<noteq> None" "sb_source_collection_id r' = sb_source_collection_id b'" for b' r'
  proof -
    obtain b r where br: "b \<in> set bs" "b' = f b" "r \<in> set bs" "r' = f r" using h(1,2) by auto
    note f = assms(2) [OF br(1)] assms(2) [OF br(3)]
    have "is_active b" "is_active r" using f h(3,4) br(2,4) by simp_all
    moreover have "sb_source_collection_id b = sb_source_collection_id b'" "sb_source_collection_id r = sb_source_collection_id r'"
      using f h(5,6) br(2,4) by auto
    ultimately have "is_active b" "is_active r" "sb_source_collection_id b \<noteq> None" "sb_source_collection_id r = sb_source_collection_id b"
      using h(5,6) by simp_all
    then have "sb_id r = sb_id b" using assms(1) br(1,3) unfolding subs_wf_def by blast
    then show ?thesis using assms(2) [OF br(1)] assms(2) [OF br(3)] br(2,4) by simp
  qed
  moreover have "list_all known (map f bs)" using assms(2) by (simp add: list_all_iff)
  ultimately show ?thesis unfolding subs_wf_def by blast
qed

definition successor :: "ingestion_subscription \<Rightarrow> ingestion_subscription \<Rightarrow> bool" where
  "successor b b' \<longleftrightarrow> sb_id b' = sb_id b \<and> sb_source_collection_id b' = sb_source_collection_id b \<and> known b' \<and>
     (is_active b' \<longrightarrow> is_active b)"

lemma subs_wf_put:
  assumes "subs_wf bs" "b \<in> set bs" "successor b b'"
  shows "subs_wf (set_rows (\<lambda>r. sb_id r = sb_id b') (\<lambda>_. b') bs)"
  unfolding set_rows_def
proof (rule subs_wf_map [OF assms(1)])
  fix r assume r: "r \<in> set bs"
  have "distinct (map sb_id bs)" using assms(1) unfolding subs_wf_def by blast
  from same_row [OF this r assms(2)] have "r = b" if "sb_id r = sb_id b'" using that assms(3) by (simp only: successor_def)
  moreover have "known r" using assms(1) r by (simp add: subs_wf_def list_all_iff)
  ultimately show "sb_id (if sb_id r = sb_id b' then b' else r) = sb_id r \<and> known (if sb_id r = sb_id b' then b' else r) \<and>
      (is_active (if sb_id r = sb_id b' then b' else r) \<longrightarrow> is_active r) \<and>
      (sb_source_collection_id (if sb_id r = sb_id b' then b' else r) = sb_source_collection_id r \<or>
       sb_source_collection_id (if sb_id r = sb_id b' then b' else r) = None)"
    using assms(3) by (auto simp: successor_def)
qed

lemma get_subscription_in: "get_subscription x i = Some b \<Longrightarrow> b \<in> set (sx_subscriptions (co_sched x)) \<and> sb_id b = i"
  unfolding get_subscription_def by (drule find_Some_in) simp

lemma put_subs [frame_simps]:
  "sx_subscriptions (put_subscription b s) = set_rows (\<lambda>r. sb_id r = sb_id b) (\<lambda>_. b) (sx_subscriptions s)"
  by (simp add: put_subscription_def)

lemma with_reason_simps [simp]:
  "sb_id (with_reason r b) = sb_id b" "sb_source_collection_id (with_reason r b) = sb_source_collection_id b"
  "sb_status (with_reason r b) = sb_status b" "sb_next_cycle_at (with_reason r b) = sb_next_cycle_at b"
  "sb_current_cycle_job_id (with_reason r b) = sb_current_cycle_job_id b"
  by (simp_all add: with_reason_def split: option.splits)

lemma stop_one_put:
  assumes "stop_one env t reason b x = Inr (b', x')" "is_active b"
  shows "successor b b' \<and> sx_subscriptions (co_sched x') = set_rows (\<lambda>r. sb_id r = sb_id b') (\<lambda>_. b') (sx_subscriptions (co_sched x)) \<and>
    co_collections x' = co_collections x \<and> co_members x' = co_members x \<and> co_runs x' = co_runs x"
  using assms
  by (auto simp: stop_one_def Let_def mark_stopped_def successor_def frame_simps is_active_def ACTIVE_STATUSES_def known_def
      split: option.splits if_splits sum.splits)

lemma cycle_step_put:
  assumes "cycle_step se now b c s = Inr (c', s')" "is_active b"
  shows "sx_subscriptions s' = sx_subscriptions s \<or>
    (\<exists>b'. successor b b' \<and> sx_subscriptions s' = set_rows (\<lambda>r. sb_id r = sb_id b') (\<lambda>_. b') (sx_subscriptions s))"
proof -
  have start: "\<exists>b'. successor b b' \<and> sx_subscriptions s' = set_rows (\<lambda>r. sb_id r = sb_id b') (\<lambda>_. b') (sx_subscriptions s)"
    if "start_cycle se now r c s = Inr (c', s')" "sb_id r = sb_id b" "sb_source_collection_id r = sb_source_collection_id b" for r
  proof -
    from that(1) obtain j k s1 where e: "enqueue_in se (cycle_request now r) s = Inr ((j, k), s1)"
      "s' = put_subscription (r\<lparr>sb_current_cycle_job_id := Some (wj_id j), sb_status := ''running'',
           sb_started_at := Some (case sb_started_at r of None \<Rightarrow> now | Some t \<Rightarrow> t)\<rparr>) s1"
      by (auto simp: start_cycle_def map_sum_eq_Inr)
    have subs: "sx_subscriptions s1 = sx_subscriptions s" using e(1) by (auto simp: enqueue_in_Inr)
    show ?thesis
    proof (intro exI conjI)
      show "successor b (r\<lparr>sb_current_cycle_job_id := Some (wj_id j), sb_status := ''running'',
           sb_started_at := Some (case sb_started_at r of None \<Rightarrow> now | Some t \<Rightarrow> t)\<rparr>)"
        using that(2,3) assms(2) by (simp add: successor_def known_def)
    qed (simp add: e(2) frame_simps subs)
  qed
  have "successor b (fail_cycle now j b)" "successor b (settle_cycle se now j b)" for j
    using assms(2) by (simp_all add: successor_def fail_cycle_def settle_cycle_def Let_def known_def)
  note put = this
  show ?thesis
  proof (cases "sb_current_cycle_job_id b")
    case None
    then show ?thesis using assms(1) start [of b] by (simp add: cycle_step_def)
  next
    case i: (Some i)
    show ?thesis
    proof (cases "find_job i (sx_db s)")
      case None
      then show ?thesis using assms(1) i start [of "b\<lparr>sb_current_cycle_job_id := None, sb_current_cycle_run_id := None\<rparr>"]
        by (simp add: cycle_step_def)
    next
      case (Some j)
      then have "s' = s \<or> s' = put_subscription (fail_cycle now j b) s \<or> s' = put_subscription (settle_cycle se now j b) s"
        using assms(1) i by (auto simp: cycle_step_def split: if_splits)
      then show ?thesis using put [of j] put_subs by metis
    qed
  qed
qed

lemma put_other_row:
  assumes "distinct (map sb_id bs)" "b \<in> set bs" "sb_id b \<noteq> sb_id b'"
  shows "b \<in> set (set_rows (\<lambda>r. sb_id r = sb_id b') (\<lambda>_. b') bs)"
  using assms(2,3) by (auto simp: in_set_rows)

lemma cycle_loop_subs:
  assumes "cycle_loop se now bs c s = Inr (c', s')" "subs_wf (sx_subscriptions s)" "set bs \<subseteq> set (sx_subscriptions s)"
    "distinct (map sb_id bs)" "\<forall>b\<in>set bs. is_active b"
  shows "subs_wf (sx_subscriptions s')"
  using assms
proof (induction bs arbitrary: c s)
  case (Cons b bs)
  from Cons.prems(1) obtain c1 s1 where step: "cycle_step se now b c s = Inr (c1, s1)" "cycle_loop se now bs c1 s1 = Inr (c', s')"
    by (auto simp: result_bind_eq_Inr)
  have sub: "set bs \<subseteq> set (sx_subscriptions s)" "distinct (map sb_id bs)" "\<forall>b\<in>set bs. is_active b" "b \<in> set (sx_subscriptions s)"
    using Cons.prems by auto
  from cycle_step_put [OF step(1)] Cons.prems(5) consider "sx_subscriptions s1 = sx_subscriptions s"
    | b' where "successor b b'" "sx_subscriptions s1 = set_rows (\<lambda>r. sb_id r = sb_id b') (\<lambda>_. b') (sx_subscriptions s)" by auto
  then show ?case
  proof cases
    case 1
    then show ?thesis using Cons.IH [OF step(2)] Cons.prems(2) sub by simp
  next
    case 2
    have "set bs \<subseteq> set (sx_subscriptions s1)"
    proof
      fix r assume r: "r \<in> set bs"
      then have "sb_id r \<noteq> sb_id b'" using Cons.prems(4) 2(1) by (auto simp: successor_def image_iff)
      then show "r \<in> set (sx_subscriptions s1)" unfolding 2(2) using r sub(1) by (auto simp: in_set_rows)
    qed
    moreover have "subs_wf (sx_subscriptions s1)" unfolding 2(2) using subs_wf_put [OF Cons.prems(2) sub(4) 2(1)] .
    ultimately show ?thesis using Cons.IH [OF step(2)] sub by simp
  qed
qed simp

lemma stop_all_subs:
  assumes "stop_all env t bs x = Inr x'" "subs_wf (sx_subscriptions (co_sched x))" "set bs \<subseteq> set (sx_subscriptions (co_sched x))"
    "distinct (map sb_id bs)" "\<forall>b\<in>set bs. is_active b"
  shows "subs_wf (sx_subscriptions (co_sched x')) \<and> co_collections x' = co_collections x \<and> co_members x' = co_members x"
  using assms
proof (induction bs arbitrary: x)
  case (Cons b bs)
  from Cons.prems(1) obtain b' x1 where step: "stop_one env t (Some ''Source Collection was deleted.'') b x = Inr (b', x1)"
    "stop_all env t bs x1 = Inr x'" by (auto simp: result_bind_eq_Inr)
  have sub: "set bs \<subseteq> set (sx_subscriptions (co_sched x))" "distinct (map sb_id bs)" "\<forall>b\<in>set bs. is_active b"
    "b \<in> set (sx_subscriptions (co_sched x))" "is_active b" using Cons.prems by auto
  note put = stop_one_put [OF step(1) sub(5)]
  have rows: "sx_subscriptions (co_sched x1) = set_rows (\<lambda>r. sb_id r = sb_id b') (\<lambda>_. b') (sx_subscriptions (co_sched x))" using put by blast
  have "set bs \<subseteq> set (sx_subscriptions (co_sched x1))"
  proof
    fix r assume r: "r \<in> set bs"
    then have "sb_id r \<noteq> sb_id b'" using Cons.prems(4) put by (auto simp: successor_def image_iff)
    then show "r \<in> set (sx_subscriptions (co_sched x1))" unfolding rows using r sub(1) by (auto simp: in_set_rows)
  qed
  moreover have "subs_wf (sx_subscriptions (co_sched x1))" unfolding rows using subs_wf_put [OF Cons.prems(2) sub(4)] put by blast
  ultimately show ?case using Cons.IH [OF step(2)] sub put by simp
qed simp

lemma delete_collection_ok:
  assumes "delete_collection env c x = Inr x'" "tables_well_formed x"
  shows "tables_well_formed x'"
proof -
  from assms(1) obtain x1 where d: "stop_all env (env_now env) (active_in x c) x = Inr x1" "x' = drop_collection c x1"
    by (auto simp: delete_collection_def stop_subscriptions_for_collection_delete_def observed_def map_sum_eq_Inr split: option.splits)
  have "distinct (map sb_id (sx_subscriptions (co_sched x)))" using assms(2) by (simp add: tables_well_formed_def)
  then have bs: "set (active_in x c) \<subseteq> set (sx_subscriptions (co_sched x))" "distinct (map sb_id (active_in x c))"
    "\<forall>b\<in>set (active_in x c). is_active b" by (auto simp: active_in_def distinct_map_filter)
  have x1: "subs_wf (sx_subscriptions (co_sched x1))" "co_collections x1 = co_collections x" "co_members x1 = co_members x"
    using stop_all_subs [OF d(1) _ bs] assms(2) by (simp_all add: tables_split subs_ok_wf)
  let ?f = "\<lambda>b. if sb_source_collection_id b = Some c then b\<lparr>sb_source_collection_id := None\<rparr> else b"
  have "subs_wf (map ?f (sx_subscriptions (co_sched x1)))"
  proof (rule subs_wf_map [OF x1(1)])
    fix r assume "r \<in> set (sx_subscriptions (co_sched x1))"
    with x1(1) have "known r" by (simp add: subs_wf_def list_all_iff)
    then show "sb_id (?f r) = sb_id r \<and> known (?f r) \<and> (is_active (?f r) \<longrightarrow> is_active r) \<and>
        (sb_source_collection_id (?f r) = sb_source_collection_id r \<or> sb_source_collection_id (?f r) = None)"
      by (simp add: known_def is_active_def)
  qed
  then have "subs_wf (sx_subscriptions (co_sched x'))" by (simp add: d(2) drop_collection_def frame_simps set_rows_def)
  moreover have "collections_ok x'" using assms(2) x1(2) d(2)
    by (auto simp: tables_split collections_ok_def drop_collection_def distinct_map_filter list_all_iff)
  moreover have "members_ok x'"
    by (rule members_filter_ok [of x _ "\<lambda>m. mb_collection_id m \<noteq> c"]) (use assms(2) x1(3) d(2) in \<open>simp_all add: tables_split drop_collection_def\<close>)
  ultimately show ?thesis by (simp add: tables_split subs_ok_wf)
qed

lemma stop_subscription_ok:
  assumes "stop_subscription env i now reason x = Inr (b', x')" "tables_well_formed x"
  shows "tables_well_formed x'"
proof -
  from assms(1) obtain b where b: "get_subscription x i = Some b" by (auto simp: stop_subscription_def split: option.splits)
  note row = get_subscription_in [OF b]
  show ?thesis
  proof (cases "sb_status b \<in> {''stopped'', ''error''}")
    case True
    then show ?thesis using assms b by (simp add: stop_subscription_def)
  next
    case False
    then have step: "stop_one env (observed env now) reason b x = Inr (b', x')" using assms(1) b by (simp add: stop_subscription_def)
    moreover have "is_active b" using False row assms(2)
      by (auto simp: tables_well_formed_def list_all_iff known_def is_active_def ACTIVE_STATUSES_def)
    ultimately show ?thesis
      using assms(2) subs_wf_put [of "sx_subscriptions (co_sched x)" b b'] row stop_one_put [OF step]
        collections_ok_same [of x' x] members_ok_same [of x' x] by (simp add: tables_split subs_ok_wf)
  qed
qed

lemma subs_wf_add:
  assumes "subs_wf bs" "sb_id b \<notin> set (map sb_id bs)" "known b"
    "\<And>r. r \<in> set bs \<Longrightarrow> is_active r \<Longrightarrow> sb_source_collection_id r \<noteq> sb_source_collection_id b"
  shows "subs_wf (bs @ [b])"
proof -
  have "sb_id r = sb_id q" if h: "q \<in> set (bs @ [b])" "r \<in> set (bs @ [b])" "is_active q \<and> is_active r \<and>
      sb_source_collection_id q \<noteq> None \<and> sb_source_collection_id r = sb_source_collection_id q" for q r
  proof (cases "q = b \<or> r = b")
    case True
    then show ?thesis using h assms(4) by (metis in_set_conv_decomp insert_iff list.set(2) rotate1.simps(2) set_rotate1)
  next
    case False
    then have "q \<in> set bs" "r \<in> set bs" using h(1,2) by auto
    then show ?thesis using assms(1) h(3) unfolding subs_wf_def by blast
  qed
  moreover have "distinct (map sb_id (bs @ [b]))" "list_all known (bs @ [b])" using assms(1-3) by (auto simp: subs_wf_def)
  ultimately show ?thesis unfolding subs_wf_def by blast
qed

lemma get_subscription_none: "get_subscription x i = None \<longleftrightarrow> i \<notin> set (map sb_id (sx_subscriptions (co_sched x)))"
  by (auto simp: get_subscription_def find_None_iff)

lemma sort_key_nil: "sort_key f xs = [] \<longleftrightarrow> xs = []"
  by (metis length_0_conv length_sort)

lemma start_new:
  assumes "start_subscription env dflt c key by n now x = Inr ((b, known_key), x')"
  shows "(known_key \<and> x' = x \<and> b \<in> set (sx_subscriptions (co_sched x)) \<and> sb_idempotency_key b = key \<and> sb_source_collection_id b = Some c) \<or>
    (\<not> known_key \<and> (\<exists>cl m. get_collection x c = Some cl \<and> 1 \<le> m \<and> m \<le> 1440 \<and>
        b = new_subscription env (fresh_id env x) cl key by m (observed env now)) \<and>
     find (\<lambda>b. sb_idempotency_key b = key) (sx_subscriptions (co_sched x)) = None \<and>
     active_in x c = [] \<and> get_subscription x (fresh_id env x) = None \<and>
     x' = on_sched (\<lambda>s. s\<lparr>sx_subscriptions := sx_subscriptions s @ [b]\<rparr>) (take_id x))"
  using assms find_Some_in [of "\<lambda>b. sb_idempotency_key b = key" "sx_subscriptions (co_sched x)"]
  by (auto simp: start_subscription_def Let_def sort_key_nil split: if_splits option.splits list.splits)

lemma start_subscription_ok:
  assumes "start_subscription env dflt c key by n now x = Inr ((b, known_key), x')" "tables_well_formed x"
  shows "tables_well_formed x'"
proof (cases known_key)
  case True
  then show ?thesis using start_new [OF assms(1)] assms(2) by blast
next
  case False
  with start_new [OF assms(1)] obtain cl m where b: "get_collection x c = Some cl"
    "b = new_subscription env (fresh_id env x) cl key by m (observed env now)"
    "active_in x c = []" "get_subscription x (fresh_id env x) = None"
    "x' = on_sched (\<lambda>s. s\<lparr>sx_subscriptions := sx_subscriptions s @ [b]\<rparr>) (take_id x)" by blast
  have cl: "cl_id cl = c" using b(1) unfolding get_collection_def by (auto dest: find_Some_in)
  have "subs_wf (sx_subscriptions (co_sched x) @ [b])"
  proof (rule subs_wf_add)
    show "subs_wf (sx_subscriptions (co_sched x))" using assms(2) by (simp add: tables_split subs_ok_wf)
    show "sb_id b \<notin> set (map sb_id (sx_subscriptions (co_sched x)))" using b(2,4) by (simp add: get_subscription_none new_subscription_def)
    show "known b" using b(2) by (simp add: known_def new_subscription_def)
    show "sb_source_collection_id r \<noteq> sb_source_collection_id b" if "r \<in> set (sx_subscriptions (co_sched x))" "is_active r" for r
      using b(2,3) that cl by (auto simp: active_in_def filter_empty_conv new_subscription_def)
  qed
  then show ?thesis using assms(2) b(5) collections_ok_same [of x' x] members_ok_same [of x' x]
    by (simp add: tables_split subs_ok_wf frame_simps)
qed

lemma put_sub_ok:
  assumes "tables_well_formed x1" "b \<in> set (sx_subscriptions (co_sched x1))" "successor b b'"
  shows "tables_well_formed (put_sub b' x1)"
  using assms subs_wf_put [of "sx_subscriptions (co_sched x1)" b b'] collections_ok_same [of "put_sub b' x1" x1]
    members_ok_same [of "put_sub b' x1" x1]
  by (simp add: tables_split subs_ok_wf put_sub_def frame_simps)

lemma tables_same:
  "co_collections x' = co_collections x \<Longrightarrow> co_members x' = co_members x \<Longrightarrow>
     sx_subscriptions (co_sched x') = sx_subscriptions (co_sched x) \<Longrightarrow> tables_well_formed x' = tables_well_formed x"
  using collections_ok_same [of x' x] members_ok_same [of x' x] subs_ok_same [of x' x] unfolding tables_split by blast

lemma cycle_successors:
  assumes "is_active b"
  shows "successor b (finish_cycle n t st ok err b)" "successor b (defer_cycle t st b)" "successor b (stop_without_cycle t st err b)"
    "successor b (b\<lparr>sb_current_cycle_run_id := r\<rparr>)"
  using assms
  by (auto simp: successor_def finish_cycle_def defer_cycle_def stop_without_cycle_def known_def is_active_def ACTIVE_STATUSES_def Let_def)

lemma snapshot_frame:
  assumes "create_collection_ingest_snapshot env c trigger parser x = Inr (run, x')"
  shows "co_collections x' = co_collections x \<and> co_members x' = co_members x \<and>
    sx_subscriptions (co_sched x') = sx_subscriptions (co_sched x)"
  using assms by (auto simp: create_collection_ingest_snapshot_def Let_def frame_simps simp del: take_ids.simps split: option.splits if_splits)

lemma begin_run_ok:
  assumes "begin_run env e p b n run x = Inr (ph, x')" "tables_well_formed x" "b \<in> set (sx_subscriptions (co_sched x))" "is_active b"
  shows "tables_well_formed x'"
proof -
  from assms(1) obtain d where x': "x' = put_sub (b\<lparr>sb_current_cycle_run_id := Some (ir_id run)\<rparr>) (on_jobs d x)"
    by (auto simp: begin_run_def Let_def split: sum.splits)
  show ?thesis unfolding x'
    by (rule put_sub_ok [OF _ _ cycle_successors(4) [OF assms(4)]]) (use assms(2,3) in \<open>simp_all add: frame_simps tables_same [of "on_jobs d x" x]\<close>)
qed

lemma open_run_ok:
  assumes "open_run env parser e p b c n x = Inr (ph, x')" "tables_well_formed x" "b \<in> set (sx_subscriptions (co_sched x))" "is_active b"
  shows "tables_well_formed x'"
proof -
  have wait: "tables_well_formed (snd (wait_for_sources env b n x))"
    unfolding wait_for_sources_def snd_conv by (rule put_sub_ok [OF assms(2,3) cycle_successors(1) [OF assms(4)]])
  have gone: "tables_well_formed (collection_gone env b x)"
    unfolding collection_gone_def by (rule put_sub_ok [OF assms(2,3) cycle_successors(3) [OF assms(4)]])
  show ?thesis
  proof (cases "cycle_run x p (sb_id b) n")
    case (Some r)
    then show ?thesis using assms begin_run_ok by (simp add: open_run_def)
  next
    case None
    show ?thesis
    proof (cases "create_collection_ingest_snapshot env c ''source_collection_continuous'' parser x")
      case (Inl err)
      then show ?thesis using assms(1) None wait gone by (cases err) (auto simp: open_run_def split: if_splits)
    next
      case (Inr rx)
      obtain run x1 where rx: "rx = (run, x1)" by force
      note fr = snapshot_frame [OF Inr [unfolded rx]]
      let ?x2 = "x1\<lparr>co_runs := set_rows (\<lambda>r. ir_id r = ir_id run) (link_run b n) (co_runs x1)\<rparr>"
      have "tables_well_formed ?x2" using assms(2) fr tables_same [of ?x2 x] by simp
      then show ?thesis using assms None Inr rx wait fr begin_run_ok [of env e p b n "link_run b n run" ?x2 ph x']
        by (auto simp: open_run_def split: if_splits)
    qed
  qed
qed

lemma prepare_cycle_ok:
  assumes "prepare_cycle env parser e x = Inr (ph, x')" "tables_well_formed x"
  shows "tables_well_formed x'"
proof -
  obtain i n where a: "cycle_args (payload_copy e) = Some (i, n)" "\<not> n < 1"
    using assms(1) by (auto simp: prepare_cycle_def Let_def split: option.splits if_splits)
  show ?thesis
  proof (cases "get_subscription x i")
    case None
    then show ?thesis using assms a by (simp add: prepare_cycle_def)
  next
    case (Some b)
    note row = get_subscription_in [OF Some]
    show ?thesis
    proof (cases "is_active b")
      case False
      then show ?thesis using assms a Some
        by (auto simp: prepare_cycle_def is_active_def ACTIVE_STATUSES_def split: if_splits)
    next
      case True
      note puts = put_sub_ok [OF assms(2) _ cycle_successors(2) [OF True]] put_sub_ok [OF assms(2) _ cycle_successors(3) [OF True]]
      have gone: "tables_well_formed (collection_gone env b x)" unfolding collection_gone_def using puts(2) row by blast
      show ?thesis
      proof (cases "case sb_source_collection_id b of None \<Rightarrow> None | Some c \<Rightarrow> get_collection x c")
        case None
        then show ?thesis using assms a Some gone puts(2) row
          by (auto simp: prepare_cycle_def Let_def split: if_splits)
      next
        case c: (Some c)
        then show ?thesis using assms a Some puts row open_run_ok [of env parser e "payload_copy e" b "cl_id c" n x ph x'] True
          by (auto simp: prepare_cycle_def Let_def split: if_splits)
      qed
    qed
  qed
qed

lemma complete_cycle_Inr:
  assumes "complete_cycle env b run n stats x = Inr (d, x')"
  shows "\<exists>status ok err. (if ok then status = ''succeeded'' \<and> err = None else status = ''partial'' \<and> err = Some ''One or more sources failed.'') \<and>
    (ok \<longleftrightarrow> (\<exists>k. stat stats ''failed'' = Some k \<and> k \<le> 0) \<and> \<not> (\<exists>r. find_run x run = Some r \<and> ir_status r = ''failed'')) \<and>
    x' = put_flushed b (finish_cycle n (env_now env) status ok err b) x \<and> \<not> active_clash x'"
proof -
  obtain k where k: "stat stats ''failed'' = Some k" using assms by (auto simp: complete_cycle_def split: option.splits)
  define bad where "bad = (k > 0 \<or> (case find_run x run of None \<Rightarrow> False | Some r \<Rightarrow> ir_status r = ''failed''))"
  have "x' = put_flushed b (finish_cycle n (env_now env) (if bad then ''partial'' else ''succeeded'') (\<not> bad)
      (if bad then Some ''One or more sources failed.'' else None) b) x \<and> \<not> active_clash x'"
    using assms k by (cases bad) (auto simp: complete_cycle_def Let_def bad_def split: if_splits)
  then show ?thesis
    by (intro exI [of _ "if bad then ''partial'' else ''succeeded''"] exI [of _ "\<not> bad"]
        exI [of _ "if bad then Some ''One or more sources failed.'' else None"])
      (use k in \<open>auto simp: bad_def split: option.splits\<close>)
qed

lemma flush_simps [simp]:
  "sb_id (flush_subscription b b' r) = sb_id r"
  "sb_source_collection_id (flush_subscription b b' r) = sb_source_collection_id r"
  "sb_status (flush_subscription b b' r) = written (sb_status b) (sb_status b') (sb_status r)"
  "sb_next_cycle_at (flush_subscription b b' r) = written (sb_next_cycle_at b) (sb_next_cycle_at b') (sb_next_cycle_at r)"
  "sb_cycle_count (flush_subscription b b' r) = written (sb_cycle_count b) (sb_cycle_count b') (sb_cycle_count r)"
  "sb_current_cycle_job_id (flush_subscription b b' r) =
     written (sb_current_cycle_job_id b) (sb_current_cycle_job_id b') (sb_current_cycle_job_id r)"
  by (simp_all add: flush_subscription_def)

lemma complete_cycle_ok:
  assumes "complete_cycle env b run n stats x = Inr (d, x')" "tables_well_formed x"
  shows "tables_well_formed x'"
proof -
  from complete_cycle_Inr [OF assms(1)] obtain status ok err where
    c: "x' = put_flushed b (finish_cycle n (env_now env) status ok err b) x" "\<not> active_clash x'" by blast
  let ?b' = "finish_cycle n (env_now env) status ok err b"
  have rows: "sx_subscriptions (co_sched x') = set_rows (\<lambda>r. sb_id r = sb_id b) (flush_subscription b ?b') (sx_subscriptions (co_sched x))"
    by (simp add: c(1) put_flushed_def frame_simps)
  have "sb_status ?b' = sb_status b \<or> sb_status ?b' \<in> {''running'', ''stopped''}" by (simp add: finish_cycle_def Let_def)
  then have "known (flush_subscription b ?b' r)" if "known r" for r using that by (auto simp: known_def written_def)
  then have "list_all known (sx_subscriptions (co_sched x'))"
    unfolding rows using assms(2) by (auto simp: tables_well_formed_def list_all_iff in_set_rows)
  moreover have "map sb_id (sx_subscriptions (co_sched x')) = map sb_id (sx_subscriptions (co_sched x))"
    unfolding rows by (simp add: map_set_rows)
  moreover have "co_collections x' = co_collections x" "co_members x' = co_members x" by (simp_all add: c(1) put_flushed_def frame_simps)
  ultimately show ?thesis using assms(2) c(2) collections_ok_same [of x' x] members_ok_same [of x' x]
    by (simp add: tables_split subs_ok_def)
qed

lemma due_are_active: "b \<in> set (due_subscriptions se now s) \<Longrightarrow> b \<in> set (sx_subscriptions s) \<and> is_active b"
  by (auto simp: due_subscriptions_def is_active_def dest: in_set_takeD)

lemma due_distinct:
  assumes "distinct (map sb_id (sx_subscriptions s))"
  shows "distinct (map sb_id (due_subscriptions se now s))"
proof -
  have "distinct (map sb_id (sort_key f (filter p (sx_subscriptions s))))" for f :: "ingestion_subscription \<Rightarrow> time option \<times> time" and p
    using assms by (simp add: distinct_map inj_on_def)
  then show ?thesis unfolding due_subscriptions_def by (simp add: take_map [symmetric])
qed

text \<open>The databases the operations on collections and subscriptions lead to; other operations leave their tables alone.\<close>

inductive coll_reach :: "coll_db \<Rightarrow> bool" where
  initial: "co_collections x = [] \<Longrightarrow> co_members x = [] \<Longrightarrow> sx_subscriptions (co_sched x) = [] \<Longrightarrow> coll_reach x"
| create: "coll_reach x \<Longrightarrow> create_collection env n d x = Inr (c, x') \<Longrightarrow> coll_reach x'"
| update: "coll_reach x \<Longrightarrow> get_collection x i = Some c \<Longrightarrow> update_collection c n' d p x = Inr (c', x') \<Longrightarrow> coll_reach x'"
| add: "coll_reach x \<Longrightarrow> add_members env i ids x = Inr (m, x') \<Longrightarrow> coll_reach x'"
| remove: "coll_reach x \<Longrightarrow> remove_members i ids x = Inr (m, x') \<Longrightarrow> coll_reach x'"
| delete: "coll_reach x \<Longrightarrow> delete_collection env i x = Inr x' \<Longrightarrow> coll_reach x'"
| snapshot: "coll_reach x \<Longrightarrow> create_collection_ingest_snapshot env i trigger parser x = Inr (run, x') \<Longrightarrow> coll_reach x'"
| start: "coll_reach x \<Longrightarrow> start_subscription env dflt i key by mins now x = Inr ((b, k), x') \<Longrightarrow> coll_reach x'"
| stop: "coll_reach x \<Longrightarrow> stop_subscription env i now reason x = Inr (b, x') \<Longrightarrow> coll_reach x'"
| cycles: "coll_reach x \<Longrightarrow> cycle_loop se t (due_subscriptions se t (co_sched x)) c (co_sched x) = Inr (c', s') \<Longrightarrow>
    coll_reach (on_sched (\<lambda>_. s') x)"
| prepare: "coll_reach x \<Longrightarrow> prepare_cycle env parser e x = Inr (ph, x') \<Longrightarrow> coll_reach x'"
| complete: "coll_reach x \<Longrightarrow> complete_cycle env b r k stats x = Inr (d, x') \<Longrightarrow> coll_reach x'"
| outside: "coll_reach x \<Longrightarrow> co_collections x' = co_collections x \<Longrightarrow> co_members x' = co_members x \<Longrightarrow>
    sx_subscriptions (co_sched x') = sx_subscriptions (co_sched x) \<Longrightarrow> coll_reach x'"

lemma coll_reach_ok: "coll_reach x \<Longrightarrow> tables_well_formed x"
proof (induction rule: coll_reach.induct)
  case (initial x)
  then show ?case by (simp add: tables_well_formed_def member_ids_def active_clash_def)
next
  case (snapshot x env i trigger parser run x')
  then show ?case using snapshot_frame tables_same by blast
next
  case (cycles x se t c c' s')
  have "subs_wf (sx_subscriptions s')"
  proof (rule cycle_loop_subs [OF cycles.hyps(2)])
    show "subs_wf (sx_subscriptions (co_sched x))" using cycles.IH by (simp add: tables_split subs_ok_wf)
    show "distinct (map sb_id (due_subscriptions se t (co_sched x)))"
      using cycles.IH by (intro due_distinct) (simp add: tables_well_formed_def)
  qed (use due_are_active in auto)
  then show ?case using cycles.IH collections_ok_same [of "on_sched (\<lambda>_. s') x" x] members_ok_same [of "on_sched (\<lambda>_. s') x" x]
    by (simp add: tables_split subs_ok_wf frame_simps)
next
  case (outside x x')
  then show ?case using tables_same by blast
qed (blast intro: create_collection_ok update_collection_ok add_members_ok remove_members_ok delete_collection_ok
    start_subscription_ok stop_subscription_ok prepare_cycle_ok complete_cycle_ok)+

lemma one_id:
  assumes "distinct (map f xs)" "\<And>a b. a \<in> set xs \<Longrightarrow> b \<in> set xs \<Longrightarrow> f b = f a"
  shows "length xs \<le> 1"
proof (cases xs)
  case (Cons a ys)
  show ?thesis
  proof (cases ys)
    case (Cons b zs)
    with \<open>xs = a # ys\<close> assms(1) have "f a \<noteq> f b" by simp
    moreover have "f b = f a" using assms(2) [of a b] \<open>xs = a # ys\<close> Cons by simp
    ultimately show ?thesis by simp
  qed (simp add: \<open>xs = a # ys\<close>)
qed simp

text \<open>
  C37: Collections and subscriptions stay well-formed under every sequence of operations, cycle handlers
  whose rows changed underneath them included: names are trimmed, of 1 to 60 characters and unique up to case,
  a collection has each source at most once and at most 100 of them, and at most one of its
  subscriptions is active.
\<close>

theorem collections_stay_well_formed:
  assumes "coll_reach x"
  shows "(\<forall>c\<in>set (co_collections x). cl_name c = strip (cl_name c) \<and> 1 \<le> length (cl_name c) \<and> length (cl_name c) \<le> 60 \<and>
       cl_normalized_name c = lower (cl_name c)) \<and>
    distinct (map cl_normalized_name (co_collections x)) \<and>
    (\<forall>i. distinct (member_ids x i) \<and> length (member_ids x i) \<le> 100) \<and> (\<forall>i. length (active_in x i) \<le> 1)"
proof -
  note ok = coll_reach_ok [OF assms]
  have wf: "subs_wf (sx_subscriptions (co_sched x))" using ok by (simp add: tables_split subs_ok_wf)
  have "length (active_in x i) \<le> 1" for i
  proof -
    have "distinct (map sb_id (active_in x i))" using wf by (simp add: active_in_def subs_wf_def distinct_map_filter)
    moreover have "sb_id r = sb_id b" if "b \<in> set (active_in x i)" "r \<in> set (active_in x i)" for b r
      using wf that unfolding subs_wf_def active_in_def by auto
    ultimately show ?thesis by (rule one_id)
  qed
  moreover have "\<forall>c\<in>set (co_collections x). cl_name c = strip (cl_name c) \<and> 1 \<le> length (cl_name c) \<and> length (cl_name c) \<le> 60 \<and>
       cl_normalized_name c = lower (cl_name c)"
    using ok by (simp add: tables_well_formed_def list_all_iff collection_ok_def)
  moreover have m: "members_ok x" using ok by (simp add: tables_split)
  moreover have "distinct (member_ids x i) \<and> length (member_ids x i) \<le> 100" for i
    using member_ids_distinct [OF m] m by (simp add: members_ok_def SOURCE_COLLECTION_MAX_SIZE_def)
  moreover have "distinct (map cl_normalized_name (co_collections x))" using ok by (simp add: tables_well_formed_def)
  ultimately show ?thesis by blast
qed

section \<open>The snapshot of a collection\<close>

lemma in_map_filter: "k \<in> set (map f (filter P xs)) \<longleftrightarrow> (\<exists>m\<in>set xs. P m \<and> f m = k)"
  by auto

text \<open>A waiting row with everything the ingestion of a source reads.\<close>

definition holds_source :: "run_source_snapshot \<Rightarrow> source_row \<Rightarrow> bool" where
  "holds_source r s \<longleftrightarrow>
     ss_source_id r = Some (so_id s) \<and> ss_source_name r = so_name s \<and> ss_platform r = so_platform s \<and>
     ss_feed_url r = so_feed_url s \<and> ss_telegram_username r = so_telegram_username s \<and>
     (so_default_timezone s = [] \<longrightarrow> ss_default_timezone r = ''UTC'') \<and>
     (so_default_timezone s \<noteq> [] \<longrightarrow> ss_default_timezone r = so_default_timezone s) \<and>
     ss_etag r = so_etag s \<and> ss_last_modified r = so_last_modified s \<and> ss_status r = ''queued'' \<and>
     ss_started_at r = None \<and> ss_completed_at r = None \<and> ss_error r = None"

text \<open>
  C38: The snapshot an ingestion run works on holds exactly the collection's live sources: one row per
  member that is not deleted, in the order of group, name and id, numbered from 0, queued and with the source's
  name, platform, addresses, time zone and validators at that moment; the new run counts them and is the only
  active run of the collection.
\<close>

theorem snapshot_holds_the_live_members:
  assumes "create_collection_ingest_snapshot env c trigger parser x = Inr (run, x')"
  shows "\<exists>ms ss. mset ms = mset (filter (\<lambda>s. so_deleted_at s = None \<and>
        (\<exists>m\<in>set (co_members x). mb_collection_id m = c \<and> mb_source_id m = so_id s)) (sx_sources (co_sched x))) \<and>
    length ms = collection_source_count x c \<and> ms \<noteq> [] \<and>
    sorted (map (\<lambda>s. (so_source_group s, so_name s, so_id s)) ms) \<and>
    co_snapshots x' = co_snapshots x @ ss \<and> map ss_position ss = [0..<length ms] \<and>
    list_all2 holds_source ss ms \<and> (\<forall>s\<in>set ss. ss_ingest_run_id s = ir_id run) \<and>
    ir_source_count run = int (length ms) \<and>
    filter (\<lambda>r. run_active r \<and> ir_source_collection_id r = Some c) (co_runs x') = [run]"
proof -
  obtain cl where cl: "get_collection x c = Some cl" using assms by (auto simp: create_collection_ingest_snapshot_def split: option.splits)
  then have id: "cl_id cl = c" unfolding get_collection_def by (auto dest: find_Some_in)
  have ids: "k \<in> set (member_ids x c) \<longleftrightarrow> (\<exists>m\<in>set (co_members x). mb_collection_id m = c \<and> mb_source_id m = k)" for k
    unfolding member_ids_def by (rule in_map_filter)
  define ms where "ms = snapshot_members x c"
  define seq where "seq = db_seq (sx_db (co_sched x))"
  define ss where "ss = map (\<lambda>(p, s). snapshot_of env (env_uuid env seq) (\<lambda>p. env_uuid env (seq + 1 + p)) p s) (List.enumerate 0 ms)"
  have x': "ms \<noteq> []" "\<not> list_ex (\<lambda>r. run_active r \<and> ir_source_collection_id r = Some c) (co_runs x)"
    "run = new_ingest_run (env_uuid env seq) (env_now env) trigger parser ''queued'' (Some (cl_id cl)) (Some (cl_name cl)) (int (length ms))"
    "co_runs x' = co_runs x @ [run]" "co_snapshots x' = co_snapshots x @ ss"
    using assms cl unfolding ms_def [symmetric] seq_def [symmetric] ss_def
    by (auto simp: create_collection_ingest_snapshot_def Let_def ms_def [symmetric] seq_def [symmetric] frame_simps new_ingest_run_def
        simp del: take_ids.simps split: if_splits)
  have "map ss_position ss = [0..<length ms]"
    using map_fst_enumerate [of 0 ms] by (simp add: ss_def snapshot_of_def comp_def case_prod_beta)
  moreover have "list_all2 holds_source ss ms"
    by (simp add: list_all2_conv_all_nth ss_def nth_enumerate_eq snapshot_of_def holds_source_def)
  moreover have "\<forall>s\<in>set ss. ss_ingest_run_id s = ir_id run"
    using x'(3) by (auto simp: ss_def snapshot_of_def new_ingest_run_def)
  moreover have "filter (\<lambda>r. run_active r \<and> ir_source_collection_id r = Some c) (co_runs x') = [run]"
    using x'(2,3,4) id by (simp add: list_ex_iff filter_empty_conv new_ingest_run_def run_active_def)
  moreover have "mset ms = mset (filter (\<lambda>s. so_deleted_at s = None \<and>
        (\<exists>m\<in>set (co_members x). mb_collection_id m = c \<and> mb_source_id m = so_id s)) (sx_sources (co_sched x)))"
    using ids by (simp add: ms_def snapshot_members_def live_members_def conj_commute)
  moreover have "length ms = collection_source_count x c"
    "sorted (map (\<lambda>s. (so_source_group s, so_name s, so_id s)) ms)"
    by (simp_all add: ms_def snapshot_members_def collection_source_count_def)
  moreover have "ir_source_count run = int (length ms)" using x'(3) by (simp add: new_ingest_run_def)
  ultimately show ?thesis using x'(1,5) by blast
qed

section \<open>Stopping\<close>

lemma get_subscription_put:
  assumes "get_subscription x i = Some b" "sb_id b' = i" "sx_subscriptions (co_sched x') =
      set_rows (\<lambda>r. sb_id r = sb_id b') (\<lambda>_. b') (sx_subscriptions (co_sched x))"
  shows "get_subscription x' i = Some b'"
  using assms find_set_rows_same [of sb_id i "\<lambda>_. b'" "sx_subscriptions (co_sched x)"] by (simp add: get_subscription_def)

lemma not_due:
  assumes "distinct (map sb_id (sx_subscriptions (co_sched x)))" "get_subscription x i = Some b" "\<not> is_active b \<or> sb_next_cycle_at b = None"
  shows "i \<notin> sb_id ` set (due_subscriptions se t (co_sched x))"
proof
  assume "i \<in> sb_id ` set (due_subscriptions se t (co_sched x))"
  then obtain r where r: "r \<in> set (due_subscriptions se t (co_sched x))" "sb_id r = i" by auto
  then have "r \<in> set (sx_subscriptions (co_sched x))" "is_active r" using due_are_active by blast+
  moreover have "due (sb_next_cycle_at r) t" using r(1) by (auto simp: due_subscriptions_def dest: in_set_takeD)
  moreover have "r = b" using same_row [OF assms(1) calculation(1)] get_subscription_in [OF assms(2)] r(2) by simp
  ultimately show False using assms(3) by (auto simp: due_def)
qed

text \<open>
  C39: Stopping a subscription works at once or waits for the running cycle. A queued cycle job is
  cancelled and an unfinished one asked to end: afterwards the subscription is over (stopped, or in error before),
  or it is stopping and its current job is running. In no case does a scheduler tick pick it up as it is.
\<close>

theorem stopping_ends_the_cycles:
  assumes "tables_well_formed x" "stop_subscription env i now reason x = Inr (b', x')" "get_subscription x i = Some b"
  shows "get_subscription x' i = Some b' \<and>
    (sb_status b' \<in> {''stopped'', ''error''} \<or>
     sb_status b' = ''stopping'' \<and> (\<exists>k j. sb_current_cycle_job_id b' = Some k \<and> find_job k (sx_db (co_sched x')) = Some j \<and> wj_status j = RUNNING)) \<and>
    (\<forall>k j. is_active b \<and> sb_current_cycle_job_id b = Some k \<and> find_job k (sx_db (co_sched x)) = Some j \<and> wj_status j = QUEUED \<longrightarrow>
       (\<exists>j'. find_job k (sx_db (co_sched x')) = Some j' \<and> wj_status j' = CANCELLED)) \<and>
    (\<forall>se t. i \<notin> sb_id ` set (due_subscriptions se t (co_sched x')))"
proof (cases "sb_status b \<in> {''stopped'', ''error''}")
  case True
  then have "b' = b" "x' = x" using assms(2,3) by (simp_all add: stop_subscription_def)
  moreover have "\<not> is_active b" using True by (auto simp: is_active_def ACTIVE_STATUSES_def)
  moreover have "distinct (map sb_id (sx_subscriptions (co_sched x)))" using assms(1) by (simp add: tables_well_formed_def)
  ultimately show ?thesis using assms(3) True not_due [of x i b] by blast
next
  case False
  note row = get_subscription_in [OF assms(3)]
  have act: "is_active b" using False row assms(1) by (auto simp: tables_well_formed_def list_all_iff known_def is_active_def ACTIVE_STATUSES_def)
  have step: "stop_one env (observed env now) reason b x = Inr (b', x')" using False assms(2,3) by (simp add: stop_subscription_def)
  note put = stop_one_put [OF step act]
  have g: "get_subscription x' i = Some b'" using get_subscription_put [OF assms(3)] put row by (simp add: successor_def)
  have next': "sb_next_cycle_at b' = None"
    using step by (auto simp: stop_one_def Let_def mark_stopped_def split: option.splits if_splits sum.splits)
  have status: "sb_status b' = ''stopped'' \<or>
     sb_status b' = ''stopping'' \<and> (\<exists>k j. sb_current_cycle_job_id b' = Some k \<and> find_job k (sx_db (co_sched x')) = Some j \<and> wj_status j = RUNNING)"
    using step by (auto simp: stop_one_def Let_def mark_stopped_def frame_simps split: option.splits if_splits sum.splits)
  have cancelled: "\<exists>j'. find_job k (sx_db (co_sched x')) = Some j' \<and> wj_status j' = CANCELLED"
    if h: "sb_current_cycle_job_id b = Some k" "find_job k (sx_db (co_sched x)) = Some j" "wj_status j = QUEUED" for k j
  proof -
    have k: "wj_id j = k" using h(2) find_job_id by blast
    obtain q d where c: "cancel_job env k (Some (observed env now)) (sx_db (co_sched x)) = Inr (q, d)" "sx_db (co_sched x') = d"
      using step h k by (auto simp: stop_one_def Let_def frame_simps split: sum.splits)
    let ?j = "j\<lparr>wj_status := CANCELLED, wj_finished_at := Some (observed env now)\<rparr>"
    have "find_job k d = Some (flush_job env j ?j)"
      using c(1) h(2,3) k find_job_write [OF h(2), of ?j] by (auto simp: cancel_job_def Let_def observed_def frame_simps)
    then have "find_job k d = Some (flush_job env j ?j) \<and> wj_status (flush_job env j ?j) = CANCELLED" by simp
    then show ?thesis using c(2) by blast
  qed
  have "distinct (map sb_id (sx_subscriptions (co_sched x')))"
    using stop_subscription_ok [OF assms(2,1)] by (simp add: tables_well_formed_def)
  then show ?thesis using g status cancelled not_due [of x' i b'] next' by blast
qed

text \<open>
  C40: A stop that arrives while a cycle is being ingested is lost. The handler keeps the subscription it
  loaded before the stop; its final flush leaves the stopping status, which it never changed, and writes a next
  cycle: the row is stopping and due again, and the tick that finds it due starts a new cycle and makes it running.
\<close>

theorem stop_during_a_cycle_is_lost:
  assumes "get_subscription x i = Some b" "sb_status b = ''running''" "sb_next_cycle_at b = Some u" "u \<le> env_now env" "1 \<le> sb_interval_minutes b"
    and "sb_current_cycle_job_id b = Some k" "find_job k (sx_db (co_sched x)) = Some j" "wj_status j = RUNNING"
    and "stop_subscription env1 i now reason x = Inr (b1, x1)" "get_subscription x2 i = get_subscription x1 i"
    and "complete_cycle env b run n stats x2 = Inr (d, x3)"
  shows "\<exists>r. get_subscription x3 i = Some r \<and> sb_status b1 = ''stopping'' \<and> sb_status r = ''stopping'' \<and>
    sb_current_cycle_job_id r = None \<and> sb_next_cycle_at r = Some (env_now env + minutes (sb_interval_minutes b)) \<and>
    (\<forall>se t c c' s'. env_now env + minutes (sb_interval_minutes b) \<le> t \<longrightarrow>
       sb_status r \<in> set ACTIVE_STATUSES \<and> due (sb_next_cycle_at r) t \<and>
       (queue_ok (db_jobs (sx_db (co_sched x3))) \<and> cycle_step se t r c (co_sched x3) = Inr (c', s') \<longrightarrow>
        (\<exists>r'. find (\<lambda>q. sb_id q = i) (sx_subscriptions s') = Some r' \<and> sb_status r' = ''running'' \<and> sb_current_cycle_job_id r' \<noteq> None)))"
proof -
  have id: "sb_id b = i" using get_subscription_in [OF assms(1)] by simp
  have b1: "b1 = with_reason reason (b\<lparr>sb_status := ''stopping'', sb_next_cycle_at := None\<rparr>)"
    using assms(1,2,6-9) by (simp add: stop_subscription_def stop_one_def Let_def)
  have act: "is_active b" using assms(2) by (simp add: is_active_def ACTIVE_STATUSES_def)
  have "stop_one env1 (observed env1 now) reason b x = Inr (b1, x1)" using assms(1,2,9) by (simp add: stop_subscription_def)
  then have "get_subscription x1 i = Some b1" using stop_one_put [OF _ act] get_subscription_put [OF assms(1)] id by (simp add: successor_def)
  then have row: "get_subscription x2 i = Some b1" using assms(10) by simp
  from complete_cycle_Inr [OF assms(11)] obtain status ok err where
    x3: "x3 = put_flushed b (finish_cycle n (env_now env) status ok err b) x2" by blast
  define r where "r = flush_subscription b (finish_cycle n (env_now env) status ok err b) b1"
  have r3: "get_subscription x3 i = Some r"
    using row find_set_rows_same [of sb_id i "flush_subscription b (finish_cycle n (env_now env) status ok err b)" "sx_subscriptions (co_sched x2)"]
    by (simp add: x3 put_flushed_def get_subscription_def frame_simps id r_def)
  have f: "sb_status (finish_cycle n (env_now env) status ok err b) = ''running''"
    "sb_next_cycle_at (finish_cycle n (env_now env) status ok err b) = Some (env_now env + minutes (sb_interval_minutes b))"
    "sb_current_cycle_job_id (finish_cycle n (env_now env) status ok err b) = None"
    using assms(2) by (simp_all add: finish_cycle_def Let_def)
  have s: "sb_status r = ''stopping''" "sb_next_cycle_at r = Some (env_now env + minutes (sb_interval_minutes b))"
    "sb_current_cycle_job_id r = None" "sb_id r = i"
    using f assms(2-6) id by (simp_all add: r_def written_def b1)
  have step: "\<exists>r'. find (\<lambda>q. sb_id q = i) (sx_subscriptions s') = Some r' \<and> sb_status r' = ''running'' \<and> sb_current_cycle_job_id r' \<noteq> None"
    if "queue_ok (db_jobs (sx_db (co_sched x3)))" "cycle_step se t r c (co_sched x3) = Inr (c', s')" for se t c c' s'
  proof -
    have start: "start_cycle se t r c (co_sched x3) = Inr (c', s')" using that(2) s(3) by (simp add: cycle_step_def)
    from start_cycle_row [OF that(1) _ this] r3 s(4) show ?thesis by (auto simp: get_subscription_def)
  qed
  have "sb_status b1 = ''stopping''" by (simp add: b1)
  then show ?thesis using r3 s step by (auto simp: ACTIVE_STATUSES_def due_def)
qed

lemma flush_unchanged: "flush_subscription b (finish_cycle n t st ok err b) b = finish_cycle n t st ok err b"
  by (cases b) (simp add: flush_subscription_def finish_cycle_def Let_def)

text \<open>
  A cycle is counted once. When nobody touched the subscription while a cycle ran, its end is recorded in
  full: the cycle is counted, no job is current, the next cycle is due after the interval, and a stopping
  subscription is stopped instead. If the worker then dies before the job is finished, running the job again
  answers that the cycle is completed and changes nothing, whatever the workflow would do.
\<close>

theorem finished_cycle_is_not_repeated:
  assumes "get_subscription x i = Some b" "complete_cycle env b run n stats x = Inr (d, x')"
    and "cycle_args (payload_copy e) = Some (i, n)" "1 \<le> n"
  shows "\<exists>r. get_subscription x' i = Some r \<and> sb_cycle_count r = max (sb_cycle_count b) n \<and> sb_current_cycle_job_id r = None \<and>
    sb_last_cycle_at r = Some (env_now env) \<and>
    (sb_status b \<in> {''starting'', ''running''} \<longrightarrow> sb_status r = ''running'' \<and>
       sb_next_cycle_at r = Some (env_now env + minutes (sb_interval_minutes b))) \<and>
    (sb_status b = ''stopping'' \<longrightarrow> sb_status r = ''stopped'' \<and> sb_next_cycle_at r = None) \<and>
    handle_continuous_cycle env2 env3 parser e workflow x' =
      (Inr (cycle_answer ''already_completed'' i [(KStr ''cycle_number'', PInt n)]), x')"
proof -
  have id: "sb_id b = i" using get_subscription_in [OF assms(1)] by simp
  from complete_cycle_Inr [OF assms(2)] obtain status ok err where
    x': "x' = put_flushed b (finish_cycle n (env_now env) status ok err b) x" by blast
  let ?r = "finish_cycle n (env_now env) status ok err b"
  have r: "get_subscription x' i = Some ?r"
    using assms(1) find_set_rows_same [of sb_id i "flush_subscription b ?r" "sx_subscriptions (co_sched x)"]
    by (simp add: x' put_flushed_def get_subscription_def frame_simps id flush_unchanged)
  have f: "sb_cycle_count ?r = max (sb_cycle_count b) n" "sb_current_cycle_job_id ?r = None" "sb_last_cycle_at ?r = Some (env_now env)"
    "sb_status b \<in> {''starting'', ''running''} \<longrightarrow> sb_status ?r = ''running'' \<and>
       sb_next_cycle_at ?r = Some (env_now env + minutes (sb_interval_minutes b))"
    "sb_status b = ''stopping'' \<longrightarrow> sb_status ?r = ''stopped'' \<and> sb_next_cycle_at ?r = None"
    by (auto simp: finish_cycle_def Let_def)
  have "prepare_cycle env2 parser e x' = Inr (Cycle_Done (cycle_answer ''already_completed'' i [(KStr ''cycle_number'', PInt n)]), x')"
    using r f(1,2) assms(3,4) by (simp add: prepare_cycle_def)
  then show ?thesis using r f by (simp add: handle_continuous_cycle_def)
qed

end
