(* ===== verification/Job_Audit.thy ===== *)
theory Job_Audit
  imports Job_Queue
begin

text \<open>
  The event log \<open>workflow_events\<close>: append-only, with an event for every status change.
\<close>

section \<open>The event log\<close>

text \<open>The log only grows, and every job whose status changed, or that is new, has a new event.\<close>

definition logged :: "db \<Rightarrow> db \<Rightarrow> bool" where
  "logged db db' = (\<exists>es. db_events db' = db_events db @ es \<and>
     (\<forall>i. map_option wj_status (find_job i db) \<noteq> map_option wj_status (find_job i db') \<longrightarrow>
          (\<exists>e\<in>set es. we_workflow_job_id e = Some i)))"

lemma logged_refl: "logged db db"
  by (auto simp: logged_def)

lemma logged_trans: "logged a b \<Longrightarrow> logged b c \<Longrightarrow> logged a c"
  unfolding logged_def
proof (elim exE conjE)
  fix es fs
  assume "db_events b = db_events a @ es" "db_events c = db_events b @ fs"
    "\<forall>i. map_option wj_status (find_job i a) \<noteq> map_option wj_status (find_job i b) \<longrightarrow> (\<exists>e\<in>set es. we_workflow_job_id e = Some i)"
    "\<forall>i. map_option wj_status (find_job i b) \<noteq> map_option wj_status (find_job i c) \<longrightarrow> (\<exists>e\<in>set fs. we_workflow_job_id e = Some i)"
  then show "\<exists>es. db_events c = db_events a @ es \<and>
     (\<forall>i. map_option wj_status (find_job i a) \<noteq> map_option wj_status (find_job i c) \<longrightarrow>
          (\<exists>e\<in>set es. we_workflow_job_id e = Some i))"
    by (intro exI [of _ "es @ fs"]) (metis Un_iff append.assoc set_append)
qed

lemma logged_one:
  assumes "db_events db' = db_events db"
    and "\<And>k. map_option wj_status (find_job k db) \<noteq> map_option wj_status (find_job k db') \<Longrightarrow> k = i"
  shows "logged db (append_event env (Some i) ty actor data db')"
proof -
  let ?e = "\<lparr>we_id = env_uuid env (db_seq db'), we_workflow_job_id = Some i, we_event_type = ty, we_actor = actor,
       we_event_data = redact_event_data (env_redact env) data, we_created_at = env_db_now env\<rparr>"
  have "db_events (append_event env (Some i) ty actor data db') = db_events db @ [?e]"
    using assms(1) by (simp add: append_event_def)
  moreover have "\<exists>e\<in>set [?e]. we_workflow_job_id e = Some k"
    if "map_option wj_status (find_job k db) \<noteq> map_option wj_status (find_job k (append_event env (Some i) ty actor data db'))" for k
    using assms(2) that by (simp add: frame_simps)
  ultimately show ?thesis unfolding logged_def by blast
qed

lemma logged_put:
  assumes "db_jobs db1 = db_jobs db" "db_events db1 = db_events db" "wj_id j' = i"
  shows "logged db (append_event env (Some i) ty actor data (put_job env j' db1))"
proof -
  have "k = i" if "find_job k (put_job env j' db1) \<noteq> find_job k db" for k
    using that assms find_job_put_other [of k j' env db1] by (auto simp: find_job_def)
  then have "k = i" if "map_option wj_status (find_job k db) \<noteq> map_option wj_status (find_job k (put_job env j' db1))" for k
    using that by metis
  then show ?thesis using assms(2) by (intro logged_one) (simp_all add: frame_simps)
qed

lemma logged_append: "logged a b \<Longrightarrow> logged a (append_event env i ty actor data b)"
  unfolding logged_def by (auto simp: row_simps frame_simps)

lemma logged_same:
  assumes "\<And>r. wj_status (f r) = wj_status r" "\<And>r. wj_id (f r) = wj_id r" "db_events db' = db_events db"
    and "db_jobs db' = set_rows p f (db_jobs db)"
  shows "logged db db'"
proof -
  have "map_option wj_status (find (\<lambda>r. wj_id r = i) (set_rows p f rs)) = map_option wj_status (find (\<lambda>r. wj_id r = i) rs)" for i rs
    by (induction rs) (simp_all add: row_simps assms)
  then show ?thesis by (auto simp: logged_def assms find_job_def)
qed

lemma logged_write_status:
  assumes "find_job (wj_id j) db = Some j" "wj_id j' = wj_id j" "wj_status j' = wj_status j"
  shows "logged db (put_job env j' db)"
proof -
  have "map_option wj_status (find_job i (put_job env j' db)) = map_option wj_status (find_job i db)" for i
    using assms find_job_put [of j' db j env] find_job_put_other [of i j' env db] by (cases "i = wj_id j") auto
  then show ?thesis by (simp add: logged_def put_job_def)
qed

lemma logged_existing:
  assumes "existing_job_result env key t db = Some (res, db')" "distinct (map wj_id (db_jobs db))"
  shows "logged db db'"
proof -
  obtain k where k: "find_key key db = Some k" using assms by (auto simp: existing_job_result_def split: option.splits)
  then have "find_job (wj_id k) db = Some k"
    using assms(2) by (auto simp: find_key_def find_job_def find_unique dest: find_Some_in)
  then have "logged db (put_job env (k\<lparr>wj_scheduled_for := Some t\<rparr>) db)" by (rule logged_write_status) simp_all
  with k assms show ?thesis by (auto simp: existing_job_result_def Let_def logged_refl split: if_splits)
qed

lemma logged_insert_job:
  assumes "insert_job env r t db = Inr (res, db')" "distinct (map wj_id (db_jobs db))"
  shows "logged db db'"
proof (cases "existing_job_result env (eq_idempotency_key r) t (db\<lparr>db_seq := Suc (db_seq db)\<rparr>)")
  case (Some x)
  have "logged (db\<lparr>db_seq := Suc (db_seq db)\<rparr>) db'"
    using Some assms logged_existing [of env "eq_idempotency_key r" t "db\<lparr>db_seq := Suc (db_seq db)\<rparr>" res db']
    by (simp add: insert_job_def)
  then show ?thesis by (simp add: logged_def find_job_def)
next
  case None
  let ?i = "env_uuid env (db_seq db)"
  let ?db1 = "db\<lparr>db_jobs := db_jobs db @ [new_job env ?i r t], db_seq := Suc (db_seq db)\<rparr>"
  have "k = ?i" if "map_option wj_status (find_job k db) \<noteq> map_option wj_status (find_job k ?db1)" for k
    using that by (auto simp: find_job_def find_append new_job_def split: option.splits if_splits)
  then have "logged db (append_event env (Some ?i) ty actor data ?db1)" for ty actor data
    by (intro logged_one) simp_all
  with None assms show ?thesis by (auto simp: insert_job_def Let_def split: if_splits)
qed

lemma logged_requeue_loop: "logged db (snd (requeue_loop env t cs (n, db)))"
proof (induction cs arbitrary: n db)
  case (Cons c cs)
  have "logged db (recover_job env d t j db)" for d j
  proof -
    have "logged db (append_event env (Some (wj_id j)) ty actor data (put_job env (recovered review t j) db1))"
      if "db_jobs db1 = db_jobs db" "db_events db1 = db_events db" for db1 ty actor data review
      using that logged_put recovered_fields(1) by blast
    then show ?thesis
      unfolding recover_job_def Let_def split_beta
      by (simp add: logged_append frame_simps sync_terminal_expired_lease_dependents_def)
  qed
  then show ?case using Cons logged_trans by (simp add: Let_def split: option.split) blast
qed (simp add: logged_refl)

lemma logged_control: "logged db (snd (update_control env pa d r now db))"
proof -
  have "\<exists>es. db_events (snd (update_control env pa d r now db)) = db_events db @ es"
    by (auto simp: update_control_def get_control_def Let_def split_beta split: option.split)
  then show ?thesis by (auto simp: logged_def find_job_def frame_simps)
qed

lemma logged_lease_op:
  assumes "leased_job db i w t a = Inr j"
  shows "wj_id j = i" "find_job (wj_id j) db = Some j"
  using assms find_job_id by (auto simp: leased_job_Inr)

lemma logged_checkpoint:
  assumes "checkpoint_job env i w pl res now db = Inr db'"
  shows "logged db db'"
proof -
  from assms obtain j where l: "leased_job db i w (observed env now) ''checkpoint'' = Inr j"
    by (auto simp: checkpoint_job_def result_bind_eq_Inr split: if_splits)
  have "logged db (put_job env (j\<lparr>wj_payload := x, wj_result := y\<rparr>) db)" for x y
    using logged_lease_op [OF l] by (intro logged_write_status) simp_all
  moreover have "logged db (put_job env (j\<lparr>wj_payload := x\<rparr>) db)" "logged db (put_job env (j\<lparr>wj_result := x\<rparr>) db)"
    "logged db (put_job env j db)" for x
    using logged_lease_op [OF l] by (auto intro!: logged_write_status [of j])
  ultimately show ?thesis using assms l
    by (cases pl; cases res) (auto simp: checkpoint_job_def Let_def result_bind_eq_Inr split: option.splits if_splits)
qed

lemma logged_heartbeat: "heartbeat_job env i w l p m now db = Inr (b, db') \<Longrightarrow> logged db db'"
  by (auto simp: heartbeat_job_def Let_def logged_refl frame_simps
      split: sum.splits if_splits intro!: logged_put dest: logged_lease_op(1))

lemma logged_progress: "logged db (snd (update_progress env i w p m now db))"
  by (auto simp: update_progress_def logged_refl split: sum.splits intro!: logged_write_status dest: logged_lease_op)

lemma logged_finish:
  assumes "finish_job env i w r now db = Inr (j, db')"
  shows "logged db db'"
proof -
  from assms obtain k where l: "leased_job db i w (observed env now) ''finish'' = Inr k"
    by (auto simp: finish_job_def Let_def result_bind_eq_Inr)
  with assms logged_lease_op(1) [OF l] show ?thesis
    by (auto simp: finish_job_def Let_def clear_lease_def split: option.splits intro!: logged_put)
qed

lemma logged_fail: "fail_job env i w c code m at now db = Inr (j, db') \<Longrightarrow> logged db db'"
  by (auto simp: fail_job_def Let_def result_bind_eq_Inr clear_lease_def frame_simps
      split: if_splits intro!: logged_put dest: logged_lease_op(1))

lemma logged_operator_ops:
  "retry_job env i now db = Inr (j, db') \<Longrightarrow> logged db db'"
  "cancel_job env i now db = Inr (j, db') \<Longrightarrow> logged db db'"
  by (auto simp: retry_job_def cancel_job_def Let_def result_bind_eq_Inr clear_lease_def frame_simps
      split: if_splits option.splits intro!: logged_put dest: find_job_id)

lemma logged_claim: "logged db (snd (claim_next_job env w l a now db))"
  by (auto simp: claim_next_job_def Let_def logged_refl claimed_def split: list.split intro!: logged_put)

lemma run_op_logged:
  assumes "run_op env op db = Inr db'" "distinct (map wj_id (db_jobs db))"
  shows "logged db db'"
proof (cases op)
  case (Enqueue r)
  with assms obtain res where "enqueue_job env r db = Inr (res, db')" by (auto simp: map_sum_Inr)
  then show ?thesis using assms(2)
    by (auto simp: enqueue_job_def Let_def result_bind_eq_Inr split: option.splits
        intro: logged_insert_job logged_existing)
qed (use assms in \<open>auto simp: map_sum_Inr requeue_expired_leases_def Let_def
       intro: logged_claim logged_heartbeat logged_progress logged_checkpoint logged_finish logged_fail
         logged_operator_ops logged_requeue_loop logged_control\<close>)

text \<open>
  C29: the audit trail is complete and append-only.  No operation removes or changes an event,
  and every job whose status an operation changed, and every job it created, has an event of its own among
  those the same transaction appended.
\<close>

theorem status_changes_are_logged:
  assumes "queue_reach db" "run_op env op db = Inr db'"
  shows "\<exists>es. db_events db' = db_events db @ es \<and>
    (\<forall>i. map_option wj_status (find_job i db) \<noteq> map_option wj_status (find_job i db') \<longrightarrow>
         (\<exists>e\<in>set es. we_workflow_job_id e = Some i))"
  using run_op_logged [OF assms(2)] queue_reach_ok [OF assms(1)] by (simp add: logged_def queue_ok_def)

end
