(* ===== verification/Job_Recovery.thy ===== *)
theory Job_Recovery
  imports Job_Queue
begin

text \<open>
  Recovery of expired leases: what one sweep of \<open>requeue_expired_leases\<close> does to every job, and
  that it never repeats a publication that may already have been sent.
\<close>

section \<open>Recovery of expired leases\<close>

lemma find_job_recover:
  assumes "find_job (wj_id j) db = Some k"
  shows "find_job i (recover_job env d t j db) =
    (if i = wj_id j then Some (flush_job env k (recovered (fst (sync_expired_publish_ambiguity env d t db)) t j))
     else find_job i db)"
proof -
  let ?j = "recovered (fst (sync_expired_publish_ambiguity env d t db)) t j"
  have "find_job i (recover_job env d t j db) = find_job i (put_job env ?j db)"
    by (simp add: find_job_def frame_simps)
  then show ?thesis
    using assms find_job_put [of ?j db k env] find_job_put_other [of i ?j env db] by (simp add: recovered_fields)
qed

lemma requeue_loop_append:
  "requeue_loop env t (cs @ ds) acc = requeue_loop env t ds (requeue_loop env t cs acc)"
  by (induction env t cs acc rule: requeue_loop.induct) (simp_all add: Let_def split: option.split)

lemma requeue_loop_other:
  "i \<notin> set (map wj_id cs) \<Longrightarrow> find_job i (snd (requeue_loop env t cs (n, db))) = find_job i db"
proof (induction cs arbitrary: n db)
  case (Cons c cs)
  have "find_job i (recover_job env d t j db) = find_job i db" if "find_job (wj_id c) db = Some j" for d j
    using that Cons.prems find_job_recover [of j db j i env d t] find_job_id [OF that] by auto
  then show ?case using Cons by (simp add: Let_def locked_expired_job_def split: option.split)
qed simp

lemma requeue_loop_spec:
  assumes "distinct (map wj_id cs)"
    and "\<forall>c\<in>set cs. find_job (wj_id c) db = Some c \<and> lease_expired t c \<and> \<not> env_locked env (wj_id c)"
  shows "fst (requeue_loop env t cs (n, db)) = n + length cs \<and>
    (\<forall>c\<in>set cs. \<exists>review. find_job (wj_id c) (snd (requeue_loop env t cs (n, db))) =
       Some (flush_job env c (recovered review t c)))"
  using assms
proof (induction cs arbitrary: n db)
  case (Cons c cs)
  let ?d = "lock_expired_lease_dependents env (wj_id c) (wj_payload c) db"
  let ?db = "recover_job env ?d t c db"
  have f: "find_job (wj_id c) db = Some c" using Cons.prems by simp
  have step: "requeue_loop env t (c # cs) (n, db) = requeue_loop env t cs (Suc n, ?db)"
    using Cons.prems f by (simp add: Let_def locked_expired_job_def)
  have "\<forall>x\<in>set cs. find_job (wj_id x) ?db = Some x \<and> lease_expired t x \<and> \<not> env_locked env (wj_id x)"
  proof
    fix x assume x: "x \<in> set cs"
    then have "wj_id x \<noteq> wj_id c" using Cons.prems(1) by (metis distinct.simps(2) image_eqI list.set_map list.simps(9))
    then show "find_job (wj_id x) ?db = Some x \<and> lease_expired t x \<and> \<not> env_locked env (wj_id x)"
      using Cons.prems(2) x find_job_recover [OF f, of "wj_id x" env ?d t] by simp
  qed
  with Cons.prems have "fst (requeue_loop env t cs (Suc n, ?db)) = Suc n + length cs \<and>
    (\<forall>c\<in>set cs. \<exists>review. find_job (wj_id c) (snd (requeue_loop env t cs (Suc n, ?db))) =
       Some (flush_job env c (recovered review t c)))" by (intro Cons.IH) auto
  moreover have "\<exists>review. find_job (wj_id c) (snd (requeue_loop env t cs (Suc n, ?db))) =
      Some (flush_job env c (recovered review t c))"
    using Cons.prems find_job_recover [OF f, of "wj_id c" env ?d t]
      requeue_loop_other [of "wj_id c" cs env t "Suc n" ?db] by auto
  ultimately show ?case unfolding step by simp
qed simp

lemma candidates_spec:
  fixes t :: time
  assumes "queue_ok (db_jobs db)"
  defines "cs \<equiv> sort_key (\<lambda>j. (wj_lease_expires_at j, wj_created_at j)) (filter (lease_expired t) (db_jobs db))"
  shows "distinct (map wj_id cs)" "\<forall>c\<in>set cs. find_job (wj_id c) db = Some c \<and> lease_expired t c"
    "length cs = length (filter (lease_expired t) (db_jobs db))"
    "\<And>j. j \<in> set (db_jobs db) \<Longrightarrow> lease_expired t j \<Longrightarrow> j \<in> set cs"
proof -
  have "distinct (map wj_id (db_jobs db))" using assms(1) by (simp add: queue_ok_def)
  moreover from this have "distinct (map wj_id (filter (lease_expired t) (db_jobs db)))"
    by (rule distinct_map_filter)
  ultimately show "distinct (map wj_id cs)" "\<forall>c\<in>set cs. find_job (wj_id c) db = Some c \<and> lease_expired t c"
    by (auto simp: cs_def distinct_map find_job_def find_unique)
qed (simp_all add: cs_def)

text \<open>
  C16: the recovery sweep is complete and touches nothing else.  When no row is locked elsewhere,
  it processes exactly the jobs whose lease has expired at the observed time; afterwards none of them is
  running, each is queued again, failed, or waiting for review, without a lease and with its attempts
  counted as before, it is queued only if it had an attempt left, and every other job is unchanged.
\<close>

theorem recovery_sweep_is_complete:
  assumes "queue_ok (db_jobs db)" "\<forall>i. \<not> env_locked env i"
    and "requeue_expired_leases env now db = (n, db')"
  shows "n = length (filter (lease_expired (observed env now)) (db_jobs db)) \<and>
    (\<forall>i j. find_job i db = Some j \<and> \<not> lease_expired (observed env now) j \<longrightarrow> find_job i db' = Some j) \<and>
    (\<forall>i j. find_job i db = Some j \<and> lease_expired (observed env now) j \<longrightarrow>
       (\<exists>j'. find_job i db' = Some j' \<and> wj_status j' \<in> {QUEUED, FAILED, NEEDS_REVIEW} \<and> wj_lease_owner j' = None \<and>
             wj_lease_expires_at j' = None \<and> wj_attempt_count j' = wj_attempt_count j \<and>
             (wj_status j' = QUEUED \<longrightarrow> wj_attempt_count j < wj_max_attempts j)))"
proof -
  let ?t = "observed env now"
  define cs where "cs = sort_key (\<lambda>j. (wj_lease_expires_at j, wj_created_at j)) (filter (lease_expired ?t) (db_jobs db))"
  note c = candidates_spec [OF assms(1), where t = ?t, folded cs_def]
  have run: "requeue_loop env ?t cs (0, db) = (n, db')"
    using assms(3) by (simp add: requeue_expired_leases_def Let_def cs_def)
  have spec: "n = length cs" "\<forall>c\<in>set cs. \<exists>review. find_job (wj_id c) db' = Some (flush_job env c (recovered review ?t c))"
    using requeue_loop_spec [OF c(1), of db ?t env 0] c(2) assms(2) unfolding run by auto
  have others: "find_job i db' = Some j" if "find_job i db = Some j" "\<not> lease_expired ?t j" for i j
  proof -
    have "i \<notin> set (map wj_id cs)" using that c(2) by auto
    from requeue_loop_other [OF this, of env ?t 0 db] that run show ?thesis by simp
  qed
  have "\<exists>j'. find_job i db' = Some j' \<and> wj_status j' \<in> {QUEUED, FAILED, NEEDS_REVIEW} \<and> wj_lease_owner j' = None \<and>
      wj_lease_expires_at j' = None \<and> wj_attempt_count j' = wj_attempt_count j \<and>
      (wj_status j' = QUEUED \<longrightarrow> wj_attempt_count j < wj_max_attempts j)"
    if "find_job i db = Some j" "lease_expired ?t j" for i j
  proof -
    from find_job_id [OF that(1)] c(4) that(2) have "j \<in> set cs" "wj_id j = i" by simp_all
    with spec(2) obtain review where "find_job i db' = Some (flush_job env j (recovered review ?t j))" by blast
    then show ?thesis by (simp add: recovered_def clear_lease_def)
  qed
  with others spec(1) c(3) show ?thesis by blast
qed

section \<open>Publications in doubt\<close>

text \<open>
  A publish job is in doubt when one of its operations was being sent: the message may or may
  not have reached the channel.
\<close>

definition in_doubt :: "uuid \<Rightarrow> db \<Rightarrow> bool" where
  "in_doubt q db = list_ex (\<lambda>r. po_publish_job_id r = q \<and> po_status r = ''dispatching'') (db_publish_receipts db)"

definition publish_owners :: "db \<Rightarrow> (uuid \<times> uuid option) list" where
  "publish_owners db = map (\<lambda>p. (pj_id p, pj_workflow_job_id p)) (db_publish_jobs db)"

definition doubtful_job :: "uuid \<Rightarrow> db \<Rightarrow> bool" where
  "doubtful_job i db = (\<exists>q. (q, Some i) \<in> set (publish_owners db) \<and> in_doubt q db)"

lemma flush_publish_simps [simp]:
  "pj_id (flush_publish_job env p q) = pj_id q" "pj_workflow_job_id (flush_publish_job env p q) = pj_workflow_job_id q"
  "po_publish_job_id (flush_receipt env r r') = po_publish_job_id r'" "po_status (flush_receipt env r r') = po_status r'"
  by (simp_all add: flush_publish_job_def flush_receipt_def)

lemma mark_ambiguous_doubt:
  "in_doubt q (mark_ambiguous env t p db) = (in_doubt q db \<and> q \<noteq> pj_id p)"
proof -
  have "list_ex (\<lambda>r. po_publish_job_id r = q \<and> po_status r = ''dispatching'')
      (set_rows (\<lambda>r. po_publish_job_id r = pj_id p \<and> po_status r = ''dispatching'')
         (\<lambda>r. flush_receipt env r (r\<lparr>po_status := ''ambiguous'', po_ambiguous_at := Some t\<rparr>)) rs) =
    (list_ex (\<lambda>r. po_publish_job_id r = q \<and> po_status r = ''dispatching'') rs \<and> q \<noteq> pj_id p)" for rs
    by (induction rs) (auto simp: row_simps)
  then show ?thesis by (simp add: in_doubt_def mark_ambiguous_def)
qed

lemma mark_ambiguous_owners: "publish_owners (mark_ambiguous env t p db) = publish_owners db"
  by (simp add: publish_owners_def mark_ambiguous_def map_set_rows)

lemma ambiguity_fold:
  "(let (b', db') = foldl (\<lambda>(review, db) p. if dispatching_of d p = [] then (review, db)
                                       else (True, mark_ambiguous env t p db)) (b, db) ps
    in b' = (b \<or> (\<exists>p\<in>set ps. dispatching_of d p \<noteq> [])) \<and> publish_owners db' = publish_owners db \<and>
       (\<forall>q. in_doubt q db' = (in_doubt q db \<and> \<not> (\<exists>p\<in>set ps. pj_id p = q \<and> dispatching_of d p \<noteq> []))))"
proof (induction ps arbitrary: b db)
  case (Cons p ps)
  show ?case using Cons.IH [of True "mark_ambiguous env t p db"] Cons.IH [of b db]
    by (auto simp: Let_def split_beta mark_ambiguous_doubt mark_ambiguous_owners)
qed simp

lemma ambiguity_spec:
  "fst (sync_expired_publish_ambiguity env d t db) = (\<exists>p\<in>set (ed_publish_jobs d). dispatching_of d p \<noteq> [])"
  "publish_owners (snd (sync_expired_publish_ambiguity env d t db)) = publish_owners db"
  "in_doubt q (snd (sync_expired_publish_ambiguity env d t db)) =
     (in_doubt q db \<and> \<not> (\<exists>p\<in>set (ed_publish_jobs d). pj_id p = q \<and> dispatching_of d p \<noteq> []))"
  using ambiguity_fold [of d env t False db "ed_publish_jobs d"]
  by (simp_all add: sync_expired_publish_ambiguity_def Let_def split_beta)

lemma terminal_doubt:
  "in_doubt q (sync_terminal_expired_lease_dependents env d t db) = in_doubt q db"
  "publish_owners (sync_terminal_expired_lease_dependents env d t db) = publish_owners db"
  by (simp_all add: in_doubt_def publish_owners_def sync_terminal_expired_lease_dependents_def map_set_rows)

lemma doubt_frame [frame_simps]:
  "in_doubt q (put_job env j db) = in_doubt q db" "publish_owners (put_job env j db) = publish_owners db"
  "in_doubt q (append_event env i ty a x db) = in_doubt q db"
  "publish_owners (append_event env i ty a x db) = publish_owners db"
  "in_doubt q (put_retention_run r f db) = in_doubt q db" "publish_owners (put_retention_run r f db) = publish_owners db"
  by (simp_all add: in_doubt_def publish_owners_def frame_simps)

lemma recover_doubt:
  "publish_owners (recover_job env d t j db) = publish_owners db"
  "in_doubt q (recover_job env d t j db) =
     (in_doubt q db \<and> \<not> (\<exists>p\<in>set (ed_publish_jobs d). pj_id p = q \<and> dispatching_of d p \<noteq> []))"
  by (simp_all add: recover_job_def Let_def split_beta frame_simps terminal_doubt ambiguity_spec)

lemma dependents_doubt:
  assumes "p \<in> set (ed_publish_jobs (lock_expired_lease_dependents env i payload db))"
  shows "(dispatching_of (lock_expired_lease_dependents env i payload db) p \<noteq> []) = in_doubt (pj_id p) db"
    and "(pj_id p, Some i) \<in> set (publish_owners db)"
proof -
  let ?pjs = "filter (\<lambda>p. pj_workflow_job_id p = Some i) (db_publish_jobs db)"
  have d: "ed_publish_jobs (lock_expired_lease_dependents env i payload db) = ?pjs"
    "ed_publish_receipts (lock_expired_lease_dependents env i payload db) =
       filter (\<lambda>r. po_publish_job_id r \<in> set (map pj_id ?pjs)) (db_publish_receipts db)"
    by (simp_all add: lock_expired_lease_dependents_def Let_def)
  then have p: "p \<in> set (db_publish_jobs db)" "pj_workflow_job_id p = Some i" "pj_id p \<in> set (map pj_id ?pjs)"
    using assms by simp_all
  then show "(pj_id p, Some i) \<in> set (publish_owners db)" by (force simp: publish_owners_def)
  have "(filter P (filter Q rs) \<noteq> []) = list_ex (\<lambda>x. P x \<and> Q x) rs" for P Q and rs :: "publish_receipt list"
    by (induction rs) auto
  moreover have "list_ex (\<lambda>r. (po_publish_job_id r = pj_id p \<and> po_status r = ''dispatching'') \<and>
        po_publish_job_id r \<in> set (map pj_id ?pjs)) rs =
      list_ex (\<lambda>r. po_publish_job_id r = pj_id p \<and> po_status r = ''dispatching'') rs" for rs
    using p(3) by (intro list_ex_cong) auto
  ultimately show "(dispatching_of (lock_expired_lease_dependents env i payload db) p \<noteq> []) = in_doubt (pj_id p) db"
    unfolding dispatching_of_def d(2) in_doubt_def by simp
qed

lemma review_iff_doubtful:
  "fst (sync_expired_publish_ambiguity env (lock_expired_lease_dependents env i payload db) t db) = doubtful_job i db"
proof -
  have d: "set (ed_publish_jobs (lock_expired_lease_dependents env i payload db)) =
      {p \<in> set (db_publish_jobs db). pj_workflow_job_id p = Some i}"
    by (simp add: lock_expired_lease_dependents_def Let_def)
  have "doubtful_job i db = (\<exists>p\<in>{p \<in> set (db_publish_jobs db). pj_workflow_job_id p = Some i}. in_doubt (pj_id p) db)"
    unfolding doubtful_job_def publish_owners_def by (simp only: set_map image_iff prod.inject bex_simps) metis
  then show ?thesis
    using dependents_doubt(1) [of _ env i payload db] unfolding ambiguity_spec d [symmetric] by blast
qed

lemma recover_other_doubtful:
  assumes "distinct (map fst (publish_owners db))" "doubtful_job i db" "k \<noteq> i"
  shows "doubtful_job i (recover_job env (lock_expired_lease_dependents env k payload db) t j db)"
proof -
  from assms(2) obtain q where q: "(q, Some i) \<in> set (publish_owners db)" "in_doubt q db" by (auto simp: doubtful_job_def)
  have "pj_id p \<noteq> q" if "p \<in> set (ed_publish_jobs (lock_expired_lease_dependents env k payload db))" for p
    using dependents_doubt(2) [OF that] q(1) assms(1,3) by (metis eq_key_imp_eq_value option.inject)
  with q show ?thesis by (auto simp: doubtful_job_def recover_doubt)
qed

lemma requeue_loop_invariant:
  assumes "\<And>c j db. c \<in> set cs \<Longrightarrow> P db \<Longrightarrow>
      P (recover_job env (lock_expired_lease_dependents env (wj_id c) (wj_payload c) db) t j db)"
    and "P db"
  shows "P (snd (requeue_loop env t cs (n, db)))"
  using assms
proof (induction cs arbitrary: n db)
  case (Cons c cs)
  have c: "P (recover_job env (lock_expired_lease_dependents env (wj_id c) (wj_payload c) db) t j db)" for j
    using Cons.prems(1) [of c] Cons.prems(2) by simp
  have step: "P (snd (requeue_loop env t cs (m, db')))" if "P db'" for m db'
    using Cons.IH [of db' m] Cons.prems(1) that by simp
  show ?case using step [OF c] step [OF Cons.prems(2)] by (simp add: Let_def split: option.split)
qed simp

lemma loop_doubt:
  "publish_owners (snd (requeue_loop env t cs (n, db))) = publish_owners db"
  "\<not> in_doubt q db \<Longrightarrow> \<not> in_doubt q (snd (requeue_loop env t cs (n, db)))"
  by (rule requeue_loop_invariant; simp add: recover_doubt)+

lemma loop_other_doubtful:
  assumes "i \<notin> set (map wj_id cs)" "distinct (map fst (publish_owners db))" "doubtful_job i db"
  shows "doubtful_job i (snd (requeue_loop env t cs (n, db)))"
proof -
  let ?P = "\<lambda>db. distinct (map fst (publish_owners db)) \<and> doubtful_job i db"
  have "?P (snd (requeue_loop env t cs (n, db)))"
  proof (rule requeue_loop_invariant [where P = ?P])
    fix c j db' assume c: "c \<in> set cs" "?P db'"
    then have "wj_id c \<noteq> i" using assms(1) by auto
    with c(2) recover_other_doubtful [of db' i "wj_id c" env "wj_payload c" t j]
    show "?P (recover_job env (lock_expired_lease_dependents env (wj_id c) (wj_payload c) db') t j db')"
      by (simp add: recover_doubt)
  qed (use assms in simp)
  then show ?thesis by simp
qed

lemma recover_clears_doubt:
  assumes "(q, Some i) \<in> set (publish_owners db)"
  shows "\<not> in_doubt q (recover_job env (lock_expired_lease_dependents env i payload db) t j db)"
proof -
  from assms obtain p where p: "p \<in> set (db_publish_jobs db)" "q = pj_id p" "pj_workflow_job_id p = Some i"
    unfolding publish_owners_def by (simp only: set_map image_iff prod.inject) metis
  then have ed: "p \<in> set (ed_publish_jobs (lock_expired_lease_dependents env i payload db))"
    by (simp add: lock_expired_lease_dependents_def Let_def)
  show ?thesis unfolding recover_doubt using dependents_doubt(1) [OF ed] ed p(2) by blast
qed

text \<open>The moment of the sweep at which one expired job is recovered.\<close>

lemma sweep_moment:
  assumes "queue_ok (db_jobs db)" "find_job i db = Some j" "lease_expired t j" "\<not> env_locked env i"
    and "requeue_expired_leases env now db = (n, db')" "t = observed env now"
  obtains pre post m db1 where "i \<notin> set (map wj_id pre)" "i \<notin> set (map wj_id post)" "wj_id j = i"
    "db1 = snd (requeue_loop env t pre (0, db))" "find_job i db1 = Some j"
    "db' = snd (requeue_loop env t post (m,
       recover_job env (lock_expired_lease_dependents env i (wj_payload j) db1) t j db1))"
proof -
  define cs where "cs = sort_key (\<lambda>j. (wj_lease_expires_at j, wj_created_at j)) (filter (lease_expired t) (db_jobs db))"
  note c = candidates_spec [OF assms(1), where t = t, folded cs_def]
  from find_job_id [OF assms(2)] c(4) assms(3) have j: "j \<in> set cs" "wj_id j = i" by simp_all
  then obtain pre post where cs: "cs = pre @ j # post" by (auto dest: split_list)
  with c(1) j(2) have away: "i \<notin> set (map wj_id pre)" "i \<notin> set (map wj_id post)" by auto
  obtain m db1 where pre: "requeue_loop env t pre (0, db) = (m, db1)" by force
  have f1: "find_job i db1 = Some j"
    using requeue_loop_other [OF away(1), of env t 0 db] assms(2) by (simp add: pre)
  have "requeue_loop env t cs (0, db) = requeue_loop env t post
      (Suc m, recover_job env (lock_expired_lease_dependents env i (wj_payload j) db1) t j db1)"
    using f1 assms(3,4) j(2) by (simp add: cs requeue_loop_append pre locked_expired_job_def Let_def)
  moreover have "db' = snd (requeue_loop env t cs (0, db))"
    using assms(5,6) by (simp add: requeue_expired_leases_def Let_def cs_def)
  moreover have "db1 = snd (requeue_loop env t pre (0, db))" by (simp add: pre)
  ultimately show thesis using that [OF away j(2) _ f1] by simp
qed

text \<open>
  C17: a publication that may already have been sent is never sent again on its own.  If a job's
  lease expires while one of its publish operations is being sent, the recovery sweep puts the job in front
  of an operator (needs review) whatever its remaining attempts, instead of queueing it, and leaves no
  operation of that publication marked as being sent.
\<close>

theorem doubtful_publication_is_not_requeued:
  assumes "queue_ok (db_jobs db)" "distinct (map pj_id (db_publish_jobs db))"
    and "find_job i db = Some j" "lease_expired (observed env now) j" "\<not> env_locked env i"
    and "p \<in> set (db_publish_jobs db)" "pj_workflow_job_id p = Some i" "in_doubt (pj_id p) db"
    and "requeue_expired_leases env now db = (n, db')"
  shows "(\<exists>j'. find_job i db' = Some j' \<and> wj_status j' = NEEDS_REVIEW \<and> wj_lease_owner j' = None) \<and>
    \<not> in_doubt (pj_id p) db'"
proof -
  let ?t = "observed env now"
  obtain pre post m db1 where away: "i \<notin> set (map wj_id pre)" "i \<notin> set (map wj_id post)" "wj_id j = i"
    and db1: "db1 = snd (requeue_loop env ?t pre (0, db))" and f1: "find_job i db1 = Some j"
    and db': "db' = snd (requeue_loop env ?t post (m,
       recover_job env (lock_expired_lease_dependents env i (wj_payload j) db1) ?t j db1))"
    by (rule sweep_moment [OF assms(1,3,4,5,9) refl])
  let ?db2 = "recover_job env (lock_expired_lease_dependents env i (wj_payload j) db1) ?t j db1"
  have "distinct (map fst (publish_owners db))" using assms(2) by (simp add: publish_owners_def comp_def)
  moreover have owner: "(pj_id p, Some i) \<in> set (publish_owners db)"
    unfolding publish_owners_def using assms(6,7) by force
  then have "doubtful_job i db" unfolding doubtful_job_def using assms(8) by blast
  ultimately have "doubtful_job i db1" using loop_other_doubtful [OF away(1), of db env ?t 0] by (simp add: db1)
  then have "find_job i ?db2 = Some (flush_job env j (recovered True ?t j))"
    using find_job_recover [of j db1 j i env _ ?t] f1 review_iff_doubtful [of env i "wj_payload j" db1 ?t] away(3)
    by simp
  then have "find_job i db' = Some (flush_job env j (recovered True ?t j))"
    unfolding db' using requeue_loop_other [OF away(2)] by simp
  moreover have "\<not> in_doubt (pj_id p) ?db2"
    using recover_clears_doubt owner loop_doubt(1) [of env ?t pre 0 db] by (simp add: db1)
  then have "\<not> in_doubt (pj_id p) db'" unfolding db' by (rule loop_doubt(2))
  ultimately show ?thesis by (simp add: recovered_def clear_lease_def)
qed

end
