(* ===== verification/Job_Samples.thy ===== *)
theory Job_Samples
  imports Job_Enqueue Job_Audit Job_Recovery Job_Worker
begin

text \<open>
  A small queue on which the theorems about the job queue are applied: one collection job,
  waiting, claimed by the worker \<open>w\<close>, past its lease, and with a publication in doubt.
\<close>

definition sample_request :: enqueue_request where
  "sample_request = \<lparr>eq_job_type = ''ingest.collect'', eq_payload = [(KStr ''source_id'', PStr ''s1'')],
     eq_idempotency_key = ''k1'', eq_origin = SCHEDULER, eq_priority = 0, eq_scheduled_for = None,
     eq_max_attempts = 1, eq_pause_sensitive = True, eq_automation_run_id = None, eq_automation_node_run_id = None\<rparr>"

definition sample_queued :: db where
  "sample_queued = apply_op plain_env (Enqueue sample_request) empty_db"

definition sample_running :: db where
  "sample_running = apply_op plain_env (Claim ''w'' 60 None None) sample_queued"

definition sample_job :: workflow_job where
  "sample_job = \<lparr>wj_id = ''id-0'', wj_job_type = ''ingest.collect'', wj_status = QUEUED,
     wj_payload = [(KStr ''source_id'', PStr ''s1'')], wj_result = [], wj_priority = 0, wj_idempotency_key = ''k1'',
     wj_origin = ''scheduler'', wj_automation_run_id = None, wj_automation_node_run_id = None,
     wj_pause_sensitive = True, wj_scheduled_for = Some 1000, wj_attempt_count = 0, wj_max_attempts = 1,
     wj_lease_owner = None, wj_lease_expires_at = None, wj_heartbeat_at = None, wj_progress = 0,
     wj_progress_message = None, wj_error_class = None, wj_error_code = None, wj_error_message = None,
     wj_started_at = None, wj_finished_at = None, wj_created_at = 1000, wj_updated_at = 1000\<rparr>"

definition sample_run :: workflow_job where
  "sample_run = claimed ''w'' 60 1000 sample_job"

lemma sample_queued_db: "db_jobs sample_queued = [sample_job] \<and> db_control sample_queued = None"
  by code_simp

lemmas sample_queued_jobs = sample_queued_db [THEN conjunct1]
lemmas sample_queued_control = sample_queued_db [THEN conjunct2]

lemma sample_running_jobs: "db_jobs sample_running = [sample_run]"
  by code_simp

lemma sample_queued_ok: "queue_ok (db_jobs sample_queued)"
  unfolding sample_queued_jobs by code_simp

lemma sample_running_ok: "queue_ok (db_jobs sample_running)"
  unfolding sample_running_jobs by code_simp

lemma sample_find: "find_job ''id-0'' sample_queued = Some sample_job" "find_job ''id-0'' sample_running = Some sample_run"
  by (simp_all add: find_job_def sample_queued_jobs sample_running_jobs sample_run_def sample_job_def claimed_def)

lemma sample_reach: "queue_reach sample_queued" "queue_reach sample_running"
proof -
  have step: "queue_reach db \<Longrightarrow> queue_reach (apply_op env op db)" for env op db
    by (cases "run_op env op db") (auto simp: apply_op_def intro: queue_reach.reach queue_step.intros)
  have "queue_reach empty_db" by (rule queue_reach.initial) (simp add: empty_db_def)
  with step show "queue_reach sample_queued" "queue_reach sample_running"
    by (simp_all add: sample_queued_def sample_running_def)
qed

lemma sample_lease: "has_active_lease sample_run ''w'' 2000"
  by code_simp

section \<open>The theorems on the samples\<close>

lemma reachable_queue_invariant_witness:
  "distinct (map wj_id (db_jobs sample_running)) \<and> wj_lease_owner sample_run \<noteq> None"
  using reachable_queue_invariant [OF sample_reach(2)] unfolding sample_running_jobs
  by (simp add: sample_run_def claimed_def)

lemma operations_refine_life_cycle_witness:
  "\<exists>db' j'. run_op plain_env (Cancel ''id-0'' None) sample_queued = Inr db' \<and> find_job ''id-0'' db' = Some j' \<and>
     wj_status j' \<in> {QUEUED, RUNNING, CANCELLED}"
proof -
  obtain db' where run: "run_op plain_env (Cancel ''id-0'' None) sample_queued = Inr db'"
    using sample_find(1) by (simp add: cancel_job_def Let_def sample_job_def)
  from operations_refine_life_cycle [OF sample_reach(1) run sample_find(1)] run show ?thesis
    by (auto simp: sample_job_def)
qed

lemma lease_is_exclusive_witness:
  "\<exists>j'. find_job ''id-0'' (run_ops [(plain_env, Claim ''v'' 60 None None), (plain_env, Finish ''id-0'' ''v'' [] None),
      (plain_env, Requeue (Some 2000))] sample_running) = Some j' \<and> holder_view j' = holder_view sample_run"
  by (rule lease_is_exclusive [OF sample_running_ok sample_find(2), where w = "''w''" and e = 60001000])
    (simp_all add: sample_run_def claimed_def sample_job_def observed_def plain_env_def)

lemma attempts_stay_in_budget_witness:
  "db_jobs (run_ops [(plain_env, Enqueue sample_request), (plain_env, Claim ''w'' 60 None None)] empty_db) = [sample_run] \<and>
     wj_attempt_count sample_run \<le> wj_max_attempts sample_run"
proof -
  let ?db = "run_ops [(plain_env, Enqueue sample_request), (plain_env, Claim ''w'' 60 None None)] empty_db"
  have run: "db_jobs ?db = [sample_run]" by (simp add: sample_running_jobs [symmetric] sample_running_def sample_queued_def)
  have "\<forall>j\<in>set (db_jobs ?db). wj_attempt_count j \<le> wj_max_attempts j \<and>
      (wj_status j = QUEUED \<longrightarrow> wj_attempt_count j < wj_max_attempts j)"
    by (rule attempts_stay_in_budget) (simp_all add: empty_db_def sample_request_def)
  with run show ?thesis by simp
qed

lemma sample_claim: "claim_next_job plain_env ''w'' 60 None None sample_queued =
    (Some (flush_job plain_env sample_job sample_run), snd (claim_next_job plain_env ''w'' 60 None None sample_queued))"
proof -
  have "claimable None (global_pause sample_queued) 1000 sample_job"
    using sample_queued_control by (simp add: claimable_def sample_job_def global_pause_def)
  then have "claim_candidates plain_env None (global_pause sample_queued) 1000 sample_queued = [sample_job]"
    by (simp add: claim_candidates_def sample_queued_jobs plain_env_def)
  then show ?thesis by (simp add: claim_next_job_def observed_def plain_env_def Let_def sample_run_def)
qed

lemma claim_takes_the_first_job_witness:
  "\<exists>k. find_job (wj_id k) sample_queued = Some k \<and> wj_attempt_count (flush_job plain_env sample_job sample_run) = wj_attempt_count k + 1"
  using claim_takes_the_first_job [OF sample_queued_ok sample_claim] by blast

lemma enqueue_is_idempotent_witness:
  "\<exists>j db' j' db''. enqueue_job plain_env sample_request empty_db = Inr ((j, True), db') \<and>
     enqueue_job plain_env sample_request db' = Inr ((j', False), db'') \<and> wj_id j' = wj_id j"
proof -
  have ok: "queue_ok (db_jobs empty_db)" by (simp add: queue_ok_def empty_db_def)
  obtain j db' where e: "enqueue_job plain_env sample_request empty_db = Inr ((j, True), db')"
    by (simp add: enqueue_job_def insert_job_def existing_job_result_def find_key_def find_job_def empty_db_def Let_def
        plain_env_def)
  from enqueue_is_idempotent [OF ok e] e show ?thesis by blast
qed

definition gated_env :: env where
  "gated_env = plain_env\<lparr>env_gate := Some \<lparr>cg_coverage = Some [(''ingest.collect'', 1)], cg_queue_ceiling = 2, cg_retry_after = 30\<rparr>\<rparr>"

lemma gate_bounds_the_queue_witness:
  "\<exists>j db'. enqueue_job gated_env sample_request empty_db = Inr ((j, True), db') \<and> active_count ''ingest.collect'' db' \<le> 2"
proof -
  have ok: "queue_ok (db_jobs empty_db)" by (simp add: queue_ok_def empty_db_def)
  obtain j db' where e: "enqueue_job gated_env sample_request empty_db = Inr ((j, True), db')"
    by (simp add: enqueue_job_def insert_job_def existing_job_result_def find_key_def find_job_def empty_db_def Let_def
        plain_env_def gated_env_def require_available_job_type_def sample_request_def active_count_def)
  have "env_gate gated_env = Some \<lparr>cg_coverage = Some [(''ingest.collect'', 1)], cg_queue_ceiling = 2, cg_retry_after = 30\<rparr>"
    by (simp add: gated_env_def)
  from gate_bounds_the_queue [OF ok this e] e show ?thesis by (auto simp: sample_request_def)
qed

lemma status_changes_are_logged_witness:
  "\<exists>db' es. run_op plain_env (Cancel ''id-0'' None) sample_queued = Inr db' \<and> db_events db' = db_events sample_queued @ es"
proof -
  obtain db' where run: "run_op plain_env (Cancel ''id-0'' None) sample_queued = Inr db'"
    using sample_find(1) by (simp add: cancel_job_def Let_def sample_job_def)
  from status_changes_are_logged [OF sample_reach(1) run] run show ?thesis by blast
qed

lemma recovery_sweep_is_complete_witness:
  "\<exists>n db' j'. requeue_expired_leases plain_env (Some 99000000) sample_running = (n, db') \<and>
     find_job ''id-0'' db' = Some j' \<and> wj_lease_owner j' = None"
proof -
  obtain n db' where run: "requeue_expired_leases plain_env (Some 99000000) sample_running = (n, db')" by force
  have "\<forall>i. \<not> env_locked plain_env i" by (simp add: plain_env_def)
  moreover have "lease_expired (observed plain_env (Some 99000000)) sample_run" by code_simp
  ultimately show ?thesis
    using recovery_sweep_is_complete [OF sample_running_ok _ run] sample_find(2) run by blast
qed

definition sample_sending :: db where
  "sample_sending = sample_running
     \<lparr>db_publish_jobs := [\<lparr>pj_id = ''pj'', pj_workflow_job_id = Some ''id-0'', pj_destination_id = ''d'',
         pj_platform_variant_revision_id = ''v'', pj_status = ''dispatching'', pj_idempotency_key = ''p'',
         pj_payload_hash = ''h'', pj_scheduled_for = None, pj_created_at = 0, pj_updated_at = 0\<rparr>],
      db_publish_receipts := [\<lparr>po_id = ''po'', po_publish_job_id = ''pj'', po_operation_index = 0,
         po_operation_key = ''k'', po_method = ''sendMessage'', po_request_hash = ''h'', po_status = ''dispatching'',
         po_attempt_count = 1, po_remote_message_ids = [], po_response_metadata = [], po_next_attempt_at = None,
         po_ambiguous_at = None, po_completed_at = None, po_created_at = 0, po_updated_at = 0\<rparr>]\<rparr>"

lemma doubtful_publication_is_not_requeued_witness:
  "\<exists>n db' j'. requeue_expired_leases plain_env (Some 99000000) sample_sending = (n, db') \<and>
     find_job ''id-0'' db' = Some j' \<and> wj_status j' = NEEDS_REVIEW \<and> \<not> in_doubt ''pj'' db'"
proof -
  obtain n db' where run: "requeue_expired_leases plain_env (Some 99000000) sample_sending = (n, db')" by force
  let ?p = "hd (db_publish_jobs sample_sending)"
  have jobs: "db_jobs sample_sending = db_jobs sample_running" by (simp add: sample_sending_def)
  then have find: "find_job ''id-0'' sample_sending = Some sample_run" using sample_find(2) by (simp add: find_job_def)
  have expired: "lease_expired (observed plain_env (Some 99000000)) sample_run" by code_simp
  have pub: "distinct (map pj_id (db_publish_jobs sample_sending))" "?p \<in> set (db_publish_jobs sample_sending)"
    "pj_workflow_job_id ?p = Some ''id-0''" "in_doubt (pj_id ?p) sample_sending" "pj_id ?p = ''pj''"
    "\<not> env_locked plain_env ''id-0''"
    by (simp_all add: sample_sending_def in_doubt_def plain_env_def)
  from doubtful_publication_is_not_requeued [OF _ pub(1) find expired pub(6) pub(2,3,4) run] sample_running_ok jobs pub(5) run
  show ?thesis by auto
qed

lemma failure_outcome_witness:
  "\<exists>j' db'. fail_job plain_env ''id-0'' ''w'' RETRYABLE ''timeout'' ''late'' None (Some 2000) sample_running = Inr (j', db') \<and>
     find_job ''id-0'' db' = Some j' \<and> wj_lease_owner j' = None \<and> wj_status j' = FAILED"
proof -
  have lease: "has_active_lease sample_run ''w'' (observed plain_env (Some 2000))"
    using sample_lease by (simp add: observed_def)
  obtain j' db' where run: "fail_job plain_env ''id-0'' ''w'' RETRYABLE ''timeout'' ''late'' None (Some 2000) sample_running = Inr (j', db')"
    using fail_job_runs [OF sample_find(2) lease] by blast
  from failure_outcome [OF run] run sample_find(2) show ?thesis
    by (auto simp: fail_status_def sample_run_def claimed_def sample_job_def)
qed

definition sample_registry :: "unit handler_registry" where
  "sample_registry = [(''ingest.collect'', ())]"

definition sample_handler :: "unit \<Rightarrow> job_execution \<Rightarrow> db \<Rightarrow> handler_error + pydict \<times> db" where
  "sample_handler h e db = Inr ([(KStr ''count'', PInt 3)], db)"

lemma sample_claim_execution:
  "\<exists>e db1. claim_execution plain_env sample_registry ''w'' 60 1000 sample_queued = (Claimed e, db1) \<and>
     je_job_type e = ''ingest.collect'' \<and> je_id e = ''id-0'' \<and> holds_lease db1 ''id-0'' ''w'' 2000"
proof -
  have "(case claim_execution plain_env sample_registry ''w'' 60 1000 sample_queued of
      (Claimed e, db1) \<Rightarrow> je_job_type e = ''ingest.collect'' \<and> je_id e = ''id-0'' \<and> holds_lease db1 ''id-0'' ''w'' 2000
    | _ \<Rightarrow> False)" by code_simp
  then show ?thesis by (auto split: prod.splits claim_outcome.splits)
qed

lemma worker_turn_outcome_witness:
  "\<exists>r db' j. run_once plain_env sample_registry sample_handler (\<lambda>db. db) ''w'' 60 1000 2000 sample_queued = (r, db') \<and>
     r = Inr True \<and> find_job ''id-0'' db' = Some j \<and> wj_status j = SUCCEEDED"
proof -
  obtain e db1 where c: "claim_execution plain_env sample_registry ''w'' 60 1000 sample_queued = (Claimed e, db1)"
    "je_job_type e = ''ingest.collect''" "je_id e = ''id-0''" "holds_lease db1 ''id-0'' ''w'' 2000"
    using sample_claim_execution by blast
  have h: "execute_handler sample_registry sample_handler e db1 = (Inr [(KStr ''count'', PInt 3)], db1)"
    by (simp add: execute_handler_def get_handler_def sample_registry_def sample_handler_def c(2))
  obtain r db' where run: "run_once plain_env sample_registry sample_handler (\<lambda>db. db) ''w'' 60 1000 2000 sample_queued = (r, db')"
    by force
  from worker_turn_outcome [OF c(1) h run] c(3,4) run show ?thesis by auto
qed

definition sample_exhausted :: workflow_job where
  "sample_exhausted = sample_job\<lparr>wj_status := FAILED, wj_attempt_count := 1, wj_finished_at := Some 1500\<rparr>"

lemma retry_of_exhausted_job_never_runs_witness:
  "\<exists>j' db'. retry_job plain_env ''id-0'' None (empty_db\<lparr>db_jobs := [sample_exhausted]\<rparr>) = Inr (j', db') \<and>
     wj_status j' = QUEUED \<and> (\<forall>c db3. claim_execution plain_env sample_registry ''w'' 60 2000 db' = (c, db3) \<longrightarrow>
       (\<forall>e. c = Claimed e \<longrightarrow> je_id e \<noteq> ''id-0''))"
proof -
  let ?db = "empty_db\<lparr>db_jobs := [sample_exhausted]\<rparr>"
  have find: "find_job ''id-0'' ?db = Some sample_exhausted" by (simp add: find_job_def sample_exhausted_def sample_job_def)
  then obtain j' db' where run: "retry_job plain_env ''id-0'' None ?db = Inr (j', db')"
    by (simp add: retry_job_def require_available_job_type_def plain_env_def Let_def sample_exhausted_def)
  have "queue_ok (db_jobs ?db)" by code_simp
  then have ok: "queue_ok (db_jobs db')"
    using run_op_ok [of plain_env "Retry ''id-0'' None" ?db db'] run by simp
  have ex: "wj_max_attempts sample_exhausted \<le> wj_attempt_count sample_exhausted"
    by (simp add: sample_exhausted_def sample_job_def)
  note never = retry_of_exhausted_job_never_runs [OF find ex run retry_job_row(1) [OF find run] ok, where 'h = unit]
  have "je_id e \<noteq> ''id-0''" if "claim_execution plain_env sample_registry ''w'' 60 2000 db' = (Claimed e, db3)" for e db3
    by (rule never [THEN conjunct2, THEN conjunct2, THEN conjunct2, rule_format, OF that refl])
  with never [THEN conjunct1] run show ?thesis by (intro exI conjI) auto
qed

end
