(* ===== verification/Continuous_Samples.thy ===== *)
theory Continuous_Samples
  imports Continuous_Spec Job_Samples
begin

text \<open>The theorems on collections and continuous subscriptions at concrete inputs.\<close>

definition sample_collection :: source_collection where
  "sample_collection = \<lparr>cl_id = ''c'', cl_name = ''News'', cl_normalized_name = ''news'', cl_description = None, cl_created_at = 0\<rparr>"

definition sample_cycle_sub :: ingestion_subscription where
  "sample_cycle_sub = sample_subscription\<lparr>sb_status := ''running'', sb_current_cycle_job_id := Some ''id-0'', sb_next_cycle_at := Some 0\<rparr>"

definition sample_coll :: coll_db where
  "sample_coll =
     \<lparr>co_sched = \<lparr>sx_db = sample_running, sx_sources = [sample_source], sx_schedules = [], sx_subscriptions = [sample_cycle_sub],
        sx_routes = [], sx_heartbeats = []\<rparr>,
      co_collections = [sample_collection], co_members = [\<lparr>mb_collection_id = ''c'', mb_source_id = ''s'', mb_created_at = 0\<rparr>],
      co_runs = [], co_snapshots = []\<rparr>"

definition empty_coll :: coll_db where
  "empty_coll = sample_coll\<lparr>co_sched := (co_sched sample_coll)\<lparr>sx_subscriptions := []\<rparr>, co_collections := [], co_members := []\<rparr>"

lemma collections_stay_well_formed_witness:
  "\<exists>c x. create_collection plain_env ''  News '' None empty_coll = Inr (c, x) \<and> distinct (map cl_normalized_name (co_collections x)) \<and>
     length (active_in x (cl_id c)) \<le> 1"
proof -
  have "\<not> isl (create_collection plain_env ''  News '' None empty_coll)" by code_simp
  then obtain c x where c: "create_collection plain_env ''  News '' None empty_coll = Inr (c, x)"
    by (cases "create_collection plain_env ''  News '' None empty_coll") auto
  have "coll_reach empty_coll" by (rule coll_reach.initial) (simp_all add: empty_coll_def)
  from collections_stay_well_formed [OF coll_reach.create [OF this c]] c show ?thesis by blast
qed

lemma snapshot_holds_the_live_members_witness:
  "\<exists>run x'. create_collection_ingest_snapshot plain_env ''c'' ''manual'' ''v1'' sample_coll = Inr (run, x') \<and> ir_source_count run = 1"
proof -
  let ?s = "create_collection_ingest_snapshot plain_env ''c'' ''manual'' ''v1'' sample_coll"
  have "\<not> isl ?s" by code_simp
  then obtain run x' where s: "?s = Inr (run, x')" by (cases ?s) auto
  have "collection_source_count sample_coll ''c'' = 1" by code_simp
  with snapshot_holds_the_live_members [OF s] s show ?thesis by auto
qed

lemma sample_coll_tables: "tables_well_formed sample_coll"
proof -
  have "member_ids sample_coll i = (if i = ''c'' then [''s''] else [])" for i by (simp add: member_ids_def sample_coll_def)
  then have "length (member_ids sample_coll i) \<le> SOURCE_COLLECTION_MAX_SIZE" for i by (simp add: SOURCE_COLLECTION_MAX_SIZE_def)
  moreover have "list_all collection_ok (co_collections sample_coll)" by code_simp
  moreover have "list_all known (sx_subscriptions (co_sched sample_coll)) \<and> \<not> active_clash sample_coll" by code_simp
  ultimately show ?thesis by (simp add: tables_well_formed_def) (simp add: sample_coll_def)
qed

lemma sample_stop: "\<exists>b1 x1. stop_subscription plain_env ''b'' None None sample_coll = Inr (b1, x1)"
proof -
  have "\<not> isl (stop_subscription plain_env ''b'' None None sample_coll)" by code_simp
  then show ?thesis by (cases "stop_subscription plain_env ''b'' None None sample_coll") auto
qed

lemma sample_sub: "get_subscription sample_coll ''b'' = Some sample_cycle_sub"
  by (simp add: get_subscription_def sample_coll_def sample_cycle_sub_def sample_subscription_def)

lemma stopping_ends_the_cycles_witness:
  "\<exists>b1 x1. stop_subscription plain_env ''b'' None None sample_coll = Inr (b1, x1) \<and>
     ''b'' \<notin> sb_id ` set (due_subscriptions sample_sched_env 99 (co_sched x1))"
proof -
  obtain b1 x1 where s: "stop_subscription plain_env ''b'' None None sample_coll = Inr (b1, x1)" using sample_stop by blast
  from stopping_ends_the_cycles [OF sample_coll_tables s sample_sub] s show ?thesis by blast
qed

lemma stop_during_a_cycle_is_lost_witness:
  "\<exists>b1 x1 d x3 r. stop_subscription plain_env ''b'' None None sample_coll = Inr (b1, x1) \<and>
     complete_cycle plain_env sample_cycle_sub ''r'' 1 [] x1 = Inr (d, x3) \<and> get_subscription x3 ''b'' = Some r \<and>
     sb_status r = ''stopping'' \<and> sb_next_cycle_at r = Some 900001000"
proof -
  obtain b1 x1 where s: "stop_subscription plain_env ''b'' None None sample_coll = Inr (b1, x1)" using sample_stop by blast
  have "\<not> isl (result_bind (stop_subscription plain_env ''b'' None None sample_coll)
      (\<lambda>(b1, x1). map_sum (\<lambda>_. Coll_Lookup []) id (complete_cycle plain_env sample_cycle_sub ''r'' 1 [] x1)))" by code_simp
  then obtain d x3 where c: "complete_cycle plain_env sample_cycle_sub ''r'' 1 [] x1 = Inr (d, x3)"
    by (cases "complete_cycle plain_env sample_cycle_sub ''r'' 1 [] x1") (auto simp: s)
  have v: "sb_status sample_cycle_sub = ''running''" "sb_next_cycle_at sample_cycle_sub = Some 0" "sb_interval_minutes sample_cycle_sub = 15"
    "sb_current_cycle_job_id sample_cycle_sub = Some ''id-0''" "env_now plain_env = 1000"
    by (simp_all add: sample_cycle_sub_def sample_subscription_def plain_env_def)
  have j: "find_job ''id-0'' (sx_db (co_sched sample_coll)) = Some sample_run" using sample_find(2) by (simp add: sample_coll_def)
  have run: "wj_status sample_run = RUNNING" by (simp add: sample_run_def claimed_def)
  from stop_during_a_cycle_is_lost [OF sample_sub v(1,2) _ _ v(4) j run s refl c] v s c show ?thesis by auto
qed

definition sample_cycle_id :: uuid where
  "sample_cycle_id = ''00000000-0000-0000-0000-0000000000b0''"

definition cycle_execution :: "job_error + job_execution" where
  "cycle_execution = job_execution id ''j'' ''ingest.collection.continuous_cycle''
      [(KStr ''subscription_id'', PStr sample_cycle_id), (KStr ''cycle_number'', PInt 1)] 1 3 ''scheduler'' ''w'' 0 None 5 False None None"

definition replay_coll :: coll_db where
  "replay_coll = on_sched (\<lambda>s. s\<lparr>sx_subscriptions := [sample_cycle_sub\<lparr>sb_id := sample_cycle_id\<rparr>]\<rparr>) sample_coll"

lemma finished_cycle_is_not_repeated_witness:
  "\<exists>e d x'. cycle_execution = Inr e \<and> complete_cycle plain_env (sample_cycle_sub\<lparr>sb_id := sample_cycle_id\<rparr>) ''r'' 1 [] replay_coll = Inr (d, x') \<and>
     snd (handle_continuous_cycle plain_env plain_env ''v1'' e (\<lambda>p x. (Inl OtherException, x)) x') = x'"
proof -
  have "case cycle_execution of Inl _ \<Rightarrow> False | Inr e \<Rightarrow> cycle_args (payload_copy e) = Some (sample_cycle_id, 1)" by code_simp
  then obtain e where e: "cycle_execution = Inr e" "cycle_args (payload_copy e) = Some (sample_cycle_id, 1)"
    by (auto split: sum.splits)
  let ?c = "complete_cycle plain_env (sample_cycle_sub\<lparr>sb_id := sample_cycle_id\<rparr>) ''r'' 1 [] replay_coll"
  have "\<not> isl ?c" by code_simp
  then obtain d x' where c: "?c = Inr (d, x')" by (cases ?c) auto
  have "get_subscription replay_coll sample_cycle_id = Some (sample_cycle_sub\<lparr>sb_id := sample_cycle_id\<rparr>)"
    by (simp add: get_subscription_def replay_coll_def frame_simps)
  from finished_cycle_is_not_repeated [OF this c e(2), of plain_env plain_env "''v1''" "\<lambda>p x. (Inl OtherException, x)"] e c
  show ?thesis by auto
qed

end
