(* ===== verification/Publish_Rows.thy ===== *)
theory Publish_Rows
  imports Scheduler
begin

text \<open>
  The rows publishing reads and writes beside the queue's: \<open>app/publishing/models.py\<close>, the draft rows of
  \<open>app/generation/models.py\<close>, the stories' evidence of \<open>app/stories/models.py\<close> and the media rows of
  \<open>app/db/models.py\<close>.  As in \<open>Job_Store\<close>, a record has every column of its class but the \<open>updated_at\<close>
  the database stamps.  A \<open>Numeric\<close> column is a coefficient with its exponent.
\<close>

type_synonym decimal = "int \<times> int"

record destination =
  de_id :: uuid
  de_name :: string
  de_platform :: string
  de_target_ref :: string
  de_secret_ref :: string
  de_canonical_target :: "string option"
  de_target_type :: "string option"
  de_secret_id :: "uuid option"
  de_proxy_profile_id :: "uuid option"
  de_enabled :: bool
  de_health_status :: string
  de_last_health_check_at :: "time option"
  de_proxy_health_status :: string
  de_telegram_health_status :: string
  de_bot_health_status :: string
  de_target_health_status :: string
  de_administrator_status :: string
  de_failure_code :: "string option"
  de_verified_bot_id :: "int option"
  de_verified_bot_username :: "string option"
  de_verified_chat_id :: "int option"
  de_verified_chat_title :: "string option"
  de_verified_chat_type :: "string option"
  de_ownership :: string
  de_settings :: pydict
  de_created_at :: time

record publication =
  pn_id :: uuid
  pn_publish_job_id :: uuid
  pn_destination_id :: uuid
  pn_platform_variant_revision_id :: uuid
  pn_remote_message_ids :: "int list"
  pn_permalink :: "string option"
  pn_payload_hash :: string
  pn_published_at :: time
  pn_reconciliation_status :: string

record content_pack =
  cp_id :: uuid
  cp_story_revision_id :: uuid
  cp_brand_profile_id :: uuid
  cp_status :: string
  cp_created_at :: time

record platform_variant =
  pv_id :: uuid
  pv_content_pack_id :: uuid
  pv_platform :: string
  pv_created_at :: time

record variant_revision =
  vr_id :: uuid
  vr_platform_variant_id :: uuid
  vr_parent_revision_id :: "uuid option"
  vr_generation_attempt_id :: "uuid option"
  vr_revision_number :: int
  vr_content :: pydict
  vr_content_hash :: string
  vr_evidence_map :: "pyval list"
  vr_validation_results :: "pyval list"
  vr_approval_state :: string
  vr_approval_note :: "string option"
  vr_approved_at :: "time option"
  vr_created_by :: string
  vr_created_at :: time

record story_revision =
  sv_id :: uuid
  sv_story_id :: uuid
  sv_parent_revision_id :: "uuid option"
  sv_revision_number :: int
  sv_narrative :: string
  sv_facts :: "pyval list"
  sv_disagreements :: "pyval list"
  sv_angles :: "pyval list"
  sv_citations :: "pyval list"
  sv_created_by :: string
  sv_created_at :: time

record evidence_snapshot =
  es_id :: uuid
  es_story_id :: uuid
  es_content_item_id :: "uuid option"
  es_evidence_key :: string
  es_source_url :: "string option"
  es_title :: "string option"
  es_content_text :: string
  es_authors :: "pyval list"
  es_published_at :: "time option"
  es_content_sha256 :: string
  es_snapshot_metadata :: pydict
  es_source_identity :: "string option"
  es_is_primary :: bool
  es_captured_at :: time

record media_asset =
  ma_id :: uuid
  ma_original_url :: string
  ma_normalized_url :: string
  ma_url_hash :: string
  ma_kind :: string
  ma_mime_type :: "string option"
  ma_width :: "int option"
  ma_height :: "int option"
  ma_duration_seconds :: "decimal option"
  ma_byte_length :: "int option"
  ma_alt_text :: "string option"
  ma_title :: "string option"
  ma_source_field :: string
  ma_checksum_sha256 :: "string option"
  ma_storage_path :: "string option"
  ma_fetch_status :: string
  ma_media_quality :: string
  ma_media_confidence :: decimal
  ma_is_primary_candidate :: bool
  ma_is_primary :: bool
  ma_media_source_type :: string
  ma_asset_role :: string
  ma_raw_metadata :: pydict
  ma_created_at :: time

record item_media =
  im_content_item_id :: uuid
  im_media_asset_id :: uuid
  im_role :: string
  im_sort_order :: int
  im_confidence :: decimal
  im_extracted_from :: string

record source_item =
  si_id :: uuid
  si_source_id :: "uuid option"
  si_run_id :: "uuid option"
  si_content_item_id :: "uuid option"
  si_raw_payload_id :: "uuid option"
  si_external_id_raw :: "string option"
  si_external_id_norm :: "string option"
  si_source_url :: "string option"
  si_source_url_norm :: "string option"
  si_canonical_url_candidate :: "string option"
  si_title_raw :: "string option"
  si_summary_raw :: "string option"
  si_content_html_raw :: "string option"
  si_content_text_raw :: "string option"
  si_author_raw :: "string option"
  si_categories :: "string list"
  si_published_raw :: "string option"
  si_parser_meta :: pydict
  si_first_seen_at :: time
  si_last_seen_at :: time

record pub_db =
  pu_db :: db
  pu_routes :: "automation_route list"
  pu_destinations :: "destination list"
  pu_publications :: "publication list"
  pu_packs :: "content_pack list"
  pu_variants :: "platform_variant list"
  pu_revisions :: "variant_revision list"
  pu_story_revisions :: "story_revision list"
  pu_snapshots :: "evidence_snapshot list"
  pu_media :: "media_asset list"
  pu_item_media :: "item_media list"
  pu_source_items :: "source_item list"

text \<open>\<open>session.get\<close> and the selects by primary key.\<close>

definition find_publish_job :: "uuid \<Rightarrow> pub_db \<Rightarrow> publish_job option" where
  "find_publish_job i x = find (\<lambda>p. pj_id p = i) (db_publish_jobs (pu_db x))"

definition find_publish_attempt :: "uuid \<Rightarrow> pub_db \<Rightarrow> publish_attempt option" where
  "find_publish_attempt i x = find (\<lambda>a. pa_id a = i) (db_publish_attempts (pu_db x))"

definition find_receipt :: "uuid \<Rightarrow> int \<Rightarrow> pub_db \<Rightarrow> publish_receipt option" where
  "find_receipt i k x = find (\<lambda>r. po_publish_job_id r = i \<and> po_operation_index r = k) (db_publish_receipts (pu_db x))"

definition receipts_of :: "uuid \<Rightarrow> pub_db \<Rightarrow> publish_receipt list" where
  "receipts_of i x = sort_key po_operation_index (filter (\<lambda>r. po_publish_job_id r = i) (db_publish_receipts (pu_db x)))"

definition find_dispatch :: "uuid \<Rightarrow> pub_db \<Rightarrow> automation_dispatch option" where
  "find_dispatch i x = find (\<lambda>d. ad_id d = i) (db_dispatches (pu_db x))"

definition find_revision :: "uuid \<Rightarrow> pub_db \<Rightarrow> variant_revision option" where
  "find_revision i x = find (\<lambda>r. vr_id r = i) (pu_revisions x)"

definition find_variant :: "uuid \<Rightarrow> pub_db \<Rightarrow> platform_variant option" where
  "find_variant i x = find (\<lambda>v. pv_id v = i) (pu_variants x)"

definition find_pack :: "uuid \<Rightarrow> pub_db \<Rightarrow> content_pack option" where
  "find_pack i x = find (\<lambda>p. cp_id p = i) (pu_packs x)"

definition find_story_revision :: "uuid \<Rightarrow> pub_db \<Rightarrow> story_revision option" where
  "find_story_revision i x = find (\<lambda>r. sv_id r = i) (pu_story_revisions x)"

definition find_route :: "uuid \<Rightarrow> pub_db \<Rightarrow> automation_route option" where
  "find_route i x = find (\<lambda>r. rt_id r = i) (pu_routes x)"

definition find_destination :: "uuid \<Rightarrow> pub_db \<Rightarrow> destination option" where
  "find_destination i x = find (\<lambda>d. de_id d = i) (pu_destinations x)"

definition publication_of :: "uuid \<Rightarrow> pub_db \<Rightarrow> publication option" where
  "publication_of i x = find (\<lambda>p. pn_publish_job_id p = i) (pu_publications x)"

text \<open>Writes; each stamps \<open>updated_at\<close> as the flush does.\<close>

definition on_db :: "(db \<Rightarrow> db) \<Rightarrow> pub_db \<Rightarrow> pub_db" where
  "on_db f x = x\<lparr>pu_db := f (pu_db x)\<rparr>"

definition put_publish_job :: "env \<Rightarrow> uuid \<Rightarrow> (publish_job \<Rightarrow> publish_job) \<Rightarrow> pub_db \<Rightarrow> pub_db" where
  "put_publish_job env i f = on_db (\<lambda>d. d\<lparr>db_publish_jobs :=
     set_rows (\<lambda>p. pj_id p = i) (\<lambda>p. flush_publish_job env p (f p)) (db_publish_jobs d)\<rparr>)"

definition put_attempt :: "uuid \<Rightarrow> (publish_attempt \<Rightarrow> publish_attempt) \<Rightarrow> pub_db \<Rightarrow> pub_db" where
  "put_attempt i f = on_db (\<lambda>d. d\<lparr>db_publish_attempts :=
     set_rows (\<lambda>a. pa_id a = i) f (db_publish_attempts d)\<rparr>)"

definition put_receipt :: "uuid \<Rightarrow> int \<Rightarrow> (publish_receipt \<Rightarrow> publish_receipt) \<Rightarrow> pub_db \<Rightarrow> pub_db" where
  "put_receipt i k f = on_db (\<lambda>d. d\<lparr>db_publish_receipts :=
     set_rows (\<lambda>r. po_publish_job_id r = i \<and> po_operation_index r = k) f (db_publish_receipts d)\<rparr>)"

definition log_event :: "env \<Rightarrow> uuid option \<Rightarrow> string \<Rightarrow> string \<Rightarrow> pydict \<Rightarrow> pub_db \<Rightarrow> pub_db" where
  "log_event env job event_type actor data = on_db (append_event env job event_type actor data)"

end
