(* ===== verification/Telegram_Render.thy ===== *)
theory Telegram_Render
  imports Publish_Rows
begin

text \<open>
  The rendering of an approved Telegram draft to a plan of Bot API calls:
  \<open>app/publishing/telegram/renderer.py\<close> with the types of \<open>contracts.py\<close> and the parsed content of
  \<open>app/generation/telegram_schema.py\<close>.  The schema library's validation, SHA-256 over canonical JSON and
  the files on disk are part of the environment.
\<close>

section \<open>Contents and plans\<close>

record telegram_button =
  tb_text :: string
  tb_url :: string

record telegram_content =
  tc_body :: string
  tc_parse_mode :: string
  tc_buttons :: "telegram_button list"
  tc_source_item_id :: "uuid option"
  tc_source_url :: "string option"
  tc_media_policy :: string
  tc_media_asset_ids :: "uuid list"
  tc_direction :: string
  tc_dry_run :: bool

record upload_metadata =
  um_attach_name :: string
  um_filename :: string
  um_mime_type :: string
  um_media_type :: string
  um_checksum_sha256 :: string

record publish_operation =
  op_index :: int
  op_key :: string
  op_method :: string
  op_fields :: pydict
  op_file_paths :: "string list"
  op_request_hash :: string
  op_uploads :: "upload_metadata list"

record publish_plan =
  pl_destination_id :: uuid
  pl_revision_id :: uuid
  pl_payload_hash :: string
  pl_operations :: "publish_operation list"

record media_descriptor =
  md_type :: string
  md_media :: string
  md_checksum_sha256 :: string
  md_mime_type :: string
  md_filename :: string

record render_env =
  rn_content :: "pydict \<Rightarrow> telegram_content option" \<comment> \<open>\<open>TelegramVariantContent.model_validate\<close>\<close>
  rn_hash :: "pyval \<Rightarrow> string" \<comment> \<open>SHA-256 of the canonical JSON\<close>
  rn_is_file :: "string \<Rightarrow> bool"
  rn_digest :: "string \<Rightarrow> string option" \<comment> \<open>SHA-256 of a file, absent when it cannot be read\<close>

datatype render_error = Publish_Needs_Review string | Content_Invalid

section \<open>Paths\<close>

text \<open>\<open>Path.suffix\<close>: the end of the last component from its last dot, unless only dots come before it.\<close>

fun split_on :: "char \<Rightarrow> string \<Rightarrow> string list" where
  "split_on c [] = [[]]"
| "split_on c (d # ds) =
     (if d = c then [] # split_on c ds
      else case split_on c ds of [] \<Rightarrow> [[d]] | w # ws \<Rightarrow> (d # w) # ws)"

definition path_name :: "string \<Rightarrow> string" where
  "path_name p = (case rev (filter (\<lambda>s. s \<noteq> [] \<and> s \<noteq> ''.'') (split_on CHR ''/'' p)) of [] \<Rightarrow> [] | s # _ \<Rightarrow> s)"

definition path_suffix :: "string \<Rightarrow> string" where
  "path_suffix p =
     (let n = path_name p; ext = rev (takeWhile (\<lambda>c. c \<noteq> CHR ''.'') (rev n)); stem = take (length n - length ext - 1) n
      in if CHR ''.'' \<notin> set n \<or> list_all (\<lambda>c. c = CHR ''.'') stem then [] else CHR ''.'' # ext)"

definition remove_prefix :: "string \<Rightarrow> string \<Rightarrow> string" where
  "remove_prefix p s = (if starts_with p s then drop (length p) s else s)"

section \<open>Media\<close>

definition CAPTION_LIMIT :: nat where "CAPTION_LIMIT = 1024"
definition GROUP_LIMIT :: nat where "GROUP_LIMIT = 10"

definition MEDIA_TYPES :: "(string \<times> string) list" where
  "MEDIA_TYPES = [(''image'', ''photo''), (''photo'', ''photo''), (''video'', ''video''), (''document'', ''document'')]"

definition SINGLE_METHODS :: "(string \<times> string) list" where
  "SINGLE_METHODS = [(''photo'', ''sendPhoto''), (''video'', ''sendVideo''), (''document'', ''sendDocument'')]"

definition UPLOAD_FORMATS :: "((string \<times> string) \<times> string list \<times> string) list" where
  "UPLOAD_FORMATS =
     [((''photo'', ''image/jpeg''), [''.jpg'', ''.jpeg''], ''.jpg''),
      ((''photo'', ''image/png''), [''.png''], ''.png''),
      ((''photo'', ''image/gif''), [''.gif''], ''.gif''),
      ((''photo'', ''image/webp''), [''.webp''], ''.webp''),
      ((''video'', ''video/mp4''), [''.mp4''], ''.mp4''),
      ((''video'', ''video/quicktime''), [''.mov''], ''.mov''),
      ((''document'', ''application/pdf''), [''.pdf''], ''.pdf''),
      ((''document'', ''application/msword''), [''.doc''], ''.doc''),
      ((''document'', ''application/vnd.openxmlformats-officedocument.wordprocessingml.document''), [''.docx''], ''.docx''),
      ((''document'', ''application/zip''), [''.zip''], ''.zip''),
      ((''document'', ''application/octet-stream''), [''.bin''], ''.bin'')]"

definition upload_media_type :: "string \<Rightarrow> render_error + string" where
  "upload_media_type v =
     (if v \<in> {''photo'', ''video'', ''document''} then Inr v
      else Inl (Publish_Needs_Review ''unsupported rendered media type''))"

definition validate_renderability_policy :: "telegram_content \<Rightarrow> render_error + unit" where
  "validate_renderability_policy c =
     (if tc_media_policy c = ''replace_manually''
      then Inl (Publish_Needs_Review ''replace_manually revisions cannot be rendered'') else Inr ())"

definition ordered_media :: "telegram_content \<Rightarrow> media_asset list \<Rightarrow> render_error + media_asset list" where
  "ordered_media c items =
     (let requested = tc_media_asset_ids c; ids = map ma_id items in
      if length (remdups ids) \<noteq> length items \<or> length (remdups requested) \<noteq> length requested \<or>
         length (remdups ids) \<noteq> length requested \<or> set ids \<noteq> set requested
      then Inl (Publish_Needs_Review ''revision media assets are missing or mismatched'')
      else Inr (List.map_filter (\<lambda>i. find (\<lambda>a. ma_id a = i) items) requested))"

definition attach_name :: "nat \<Rightarrow> string" where
  "attach_name k = ''attach://file'' @ nat_str k"

definition media_descriptor_of :: "render_env \<Rightarrow> media_asset \<Rightarrow> nat \<Rightarrow> render_error + media_descriptor \<times> string" where
  "media_descriptor_of rn a k =
     (let review = (\<lambda>m. Inl (Publish_Needs_Review m)) in
      case map_of MEDIA_TYPES (lower (ma_kind a)) of
        None \<Rightarrow> review (''unsupported media kind: '' @ ma_kind a)
      | Some kind \<Rightarrow>
          (case ma_storage_path a of
             None \<Rightarrow> review ''media asset has no local storage path''
           | Some path \<Rightarrow>
               if path = [] then review ''media asset has no local storage path''
               else if ma_fetch_status a \<noteq> ''downloaded'' then review ''media asset is not downloaded''
               else case ma_checksum_sha256 a of
                 None \<Rightarrow> review ''media asset has no verified checksum''
               | Some checksum \<Rightarrow>
                   if \<not> rn_is_file rn path then review ''media asset is not a readable regular file''
                   else let mime = (case ma_mime_type a of None \<Rightarrow> ''none'' | Some m \<Rightarrow> lower m) in
                     case map_of UPLOAD_FORMATS (kind, mime) of
                       None \<Rightarrow> review ''media MIME, kind, and storage extension do not agree''
                     | Some (suffixes, ext) \<Rightarrow>
                         if lower (path_suffix path) \<notin> set suffixes
                         then review ''media MIME, kind, and storage extension do not agree''
                         else case rn_digest rn path of
                           None \<Rightarrow> review ''media asset is not readable''
                         | Some digest \<Rightarrow>
                             if checksum \<noteq> digest then review ''media asset checksum mismatch''
                             else Inr (\<lparr>md_type = kind, md_media = attach_name k, md_checksum_sha256 = digest,
                                        md_mime_type = mime, md_filename = ''upload-'' @ nat_str k @ ext\<rparr>, path)))"

section \<open>Operations\<close>

type_synonym files = "(media_descriptor \<times> string) list"
type_synonym rendered = "string \<times> pydict \<times> files"

definition buttons_of :: "telegram_content \<Rightarrow> pyval option" where
  "buttons_of c =
     (if tc_buttons c = [] then None
      else Some (PDict [(KStr ''inline_keyboard'',
        PList (map (\<lambda>b. PList [PDict [(KStr ''text'', PStr (tb_text b)), (KStr ''url'', PStr (tb_url b))]]) (tc_buttons c)))]))"

definition with_markup :: "telegram_content \<Rightarrow> pydict \<Rightarrow> pydict" where
  "with_markup c fs = (case buttons_of c of None \<Rightarrow> fs | Some m \<Rightarrow> dict_set fs (KStr ''reply_markup'') m)"

definition file_hash :: "media_descriptor \<times> string \<Rightarrow> pyval" where
  "file_hash f =
     PDict [(KStr ''attach'', PStr (md_media (fst f))), (KStr ''filename'', PStr (md_filename (fst f))),
            (KStr ''kind'', PStr (md_type (fst f))), (KStr ''mime_type'', PStr (md_mime_type (fst f))),
            (KStr ''sha256'', PStr (md_checksum_sha256 (fst f)))]"

definition upload_of :: "media_descriptor \<Rightarrow> render_error + upload_metadata" where
  "upload_of d = result_bind (upload_media_type (md_type d)) (\<lambda>t.
     Inr \<lparr>um_attach_name = remove_prefix ''attach://'' (md_media d), um_filename = md_filename d,
          um_mime_type = md_mime_type d, um_media_type = t, um_checksum_sha256 = md_checksum_sha256 d\<rparr>)"

fun map_result :: "('a \<Rightarrow> 'e + 'b) \<Rightarrow> 'a list \<Rightarrow> 'e + 'b list" where
  "map_result f [] = Inr []"
| "map_result f (x # xs) = result_bind (f x) (\<lambda>y. result_bind (map_result f xs) (\<lambda>ys. Inr (y # ys)))"

definition operation_of :: "render_env \<Rightarrow> nat \<Rightarrow> rendered \<Rightarrow> render_error + publish_operation" where
  "operation_of rn k r =
     (case r of (method, fs, files) \<Rightarrow>
        let h = rn_hash rn (PDict [(KStr ''method'', PStr method), (KStr ''fields'', PDict fs),
                                   (KStr ''files'', PList (map file_hash files))]) in
        result_bind (map_result (\<lambda>f. upload_of (fst f)) files) (\<lambda>us.
          Inr \<lparr>op_index = int k, op_key = ''telegram:'' @ nat_str k @ '':'' @ take 24 h, op_method = method,
               op_fields = fs, op_file_paths = map snd files, op_request_hash = h, op_uploads = us\<rparr>))"

definition message_fields :: "telegram_content \<Rightarrow> string \<Rightarrow> pydict" where
  "message_fields c target =
     with_markup c [(KStr ''chat_id'', PStr target), (KStr ''text'', PStr (tc_body c)),
                    (KStr ''parse_mode'', PStr (tc_parse_mode c))]"

definition single_media_fields :: "telegram_content \<Rightarrow> string \<Rightarrow> media_descriptor \<Rightarrow> bool \<Rightarrow> pydict" where
  "single_media_fields c target d caption =
     (let fs = [(KStr ''chat_id'', PStr target), (KStr (md_type d), PStr (md_media d)),
                (KStr ''parse_mode'', PStr (tc_parse_mode c))]
      in if caption then with_markup c (dict_set fs (KStr ''caption'') (PStr (tc_body c))) else fs)"

definition single_method :: "media_descriptor \<Rightarrow> string" where
  "single_method d = (case map_of SINGLE_METHODS (md_type d) of None \<Rightarrow> [] | Some m \<Rightarrow> m)"

definition reattach :: "nat \<Rightarrow> media_descriptor \<times> string \<Rightarrow> media_descriptor \<times> string" where
  "reattach k f =
     ((fst f)\<lparr>md_media := attach_name k, md_filename := ''upload-'' @ nat_str k @ path_suffix (md_filename (fst f))\<rparr>, snd f)"

definition group_item :: "telegram_content \<Rightarrow> bool \<Rightarrow> nat \<Rightarrow> media_descriptor \<Rightarrow> pyval" where
  "group_item c caption k d =
     PDict ([(KStr ''type'', PStr (md_type d)), (KStr ''media'', PStr (md_media d))] @
       (if caption \<and> k = 0 then [(KStr ''caption'', PStr (tc_body c)), (KStr ''parse_mode'', PStr (tc_parse_mode c))] else []))"

text \<open>The items of one group; \<open>caption\<close> says whether its first item carries the text.\<close>

definition render_group :: "telegram_content \<Rightarrow> string \<Rightarrow> bool \<Rightarrow> files \<Rightarrow> rendered" where
  "render_group c target caption fs =
     (let group = map (\<lambda>(k, f). reattach k f) (List.enumerate 0 fs) in
      case group of
        [f] \<Rightarrow> (single_method (fst f), single_media_fields c target (fst f) caption, group)
      | _ \<Rightarrow> (''sendMediaGroup'',
              [(KStr ''chat_id'', PStr target),
               (KStr ''media'', PList (map (\<lambda>(k, f). group_item c caption k (fst f)) (List.enumerate 0 group)))],
              group))"

function render_groups :: "telegram_content \<Rightarrow> string \<Rightarrow> bool \<Rightarrow> files \<Rightarrow> rendered list" where
  "render_groups c target caption fs =
     (if fs = [] then []
      else render_group c target caption (take GROUP_LIMIT fs) # render_groups c target False (drop GROUP_LIMIT fs))"
  by pat_completeness auto
termination by (relation "measure (\<lambda>(c, t, b, fs). length fs)") (auto simp: GROUP_LIMIT_def)

declare render_groups.simps [simp del]

definition render_media ::
  "render_env \<Rightarrow> telegram_content \<Rightarrow> media_asset list \<Rightarrow> string \<Rightarrow> render_error + rendered list" where
  "render_media rn c media target =
     result_bind (map_result (\<lambda>(k, a). media_descriptor_of rn a k) (List.enumerate 0 media)) (\<lambda>files.
       let kinds = remdups (map (\<lambda>f. md_type (fst f)) files);
           use_caption = (length (tc_body c) \<le> CAPTION_LIMIT);
           force = (length files > 1 \<and> tc_buttons c \<noteq> []);
           rendered = (case files of
               [f] \<Rightarrow> [(single_method (fst f), single_media_fields c target (fst f) use_caption, files)]
             | _ \<Rightarrow> render_groups c target (use_caption \<and> \<not> force) files)
       in if ''document'' \<in> set kinds \<and> length kinds > 1
          then Inl (Publish_Needs_Review ''mixed documents and photo/video media require review'')
          else Inr (rendered @ (if \<not> use_caption \<or> force then [(''sendMessage'', message_fields c target, [])] else [])))"

definition build_publish_plan ::
  "render_env \<Rightarrow> variant_revision \<Rightarrow> media_asset list \<Rightarrow> destination \<Rightarrow> render_error + publish_plan" where
  "build_publish_plan rn r media d =
     (case rn_content rn (vr_content r) of
        None \<Rightarrow> Inl Content_Invalid
      | Some c \<Rightarrow>
          result_bind (validate_renderability_policy c) (\<lambda>_.
          result_bind (if tc_media_policy c = ''omit'' \<or> tc_media_asset_ids c = []
                       then Inr [(''sendMessage'', message_fields c (de_target_ref d), [])]
                       else result_bind (ordered_media c media) (\<lambda>ms. render_media rn c ms (de_target_ref d))) (\<lambda>rendered.
          result_bind (map_result (\<lambda>(k, r). operation_of rn k r) (List.enumerate 0 rendered)) (\<lambda>ops.
            let h = rn_hash rn (PDict [(KStr ''destination_id'', PStr (de_id d)), (KStr ''revision_id'', PStr (vr_id r)),
                      (KStr ''operations'', PList (map (\<lambda>p. PDict [(KStr ''index'', PInt (op_index p)),
                         (KStr ''key'', PStr (op_key p)), (KStr ''request_hash'', PStr (op_request_hash p))]) ops))])
            in Inr \<lparr>pl_destination_id = de_id d, pl_revision_id = vr_id r, pl_payload_hash = h, pl_operations = ops\<rparr>))))"

end
