(* ===== verification/Telegram_Client.thy ===== *)
theory Telegram_Client
  imports Telegram_Render
begin

text \<open>
  The Bot API client, \<open>app/publishing/telegram/client.py\<close>: one publish operation and the classification
  of its answer.  The HTTP library answers a request with a failed connection, another transport
  failure, a response with its parsed body (absent when it is no JSON), or an exception of any other kind.
\<close>

datatype client_error =
    TelegramRateLimited int pydict
  | TelegramRetryableBeforeDispatch string pydict
  | TelegramAmbiguousError string pydict
  | TelegramPermanentError string pydict

text \<open>What can go wrong while an operation is sent: the client's errors, the missing secret, anything else.\<close>

datatype send_error =
    Client_Error client_error
  | Permanent_Error string string
  | Other_Error

record http_request =
  hq_url :: string
  hq_fields :: pydict
  hq_files :: "(string \<times> string \<times> string \<times> string) list" \<comment> \<open>attach name, file name, path, MIME type\<close>

datatype http_answer =
    Connect_Failed
  | Transport_Failed
  | Http_Answer int "pyval option"
  | Http_Raised

record operation_result =
  or_remote_message_ids :: "int list"
  or_response_metadata :: pydict

record client_env =
  ce_base_url :: string
  ce_redact :: "string \<Rightarrow> string \<Rightarrow> string" \<comment> \<open>the text redactor with the token as a literal secret\<close>
  ce_digest :: "string \<Rightarrow> string option" \<comment> \<open>SHA-256 of a file at the time of the upload\<close>

definition UPLOAD_MIME :: "(string \<times> string) list" where
  "UPLOAD_MIME =
     [(''.jpg'', ''image/jpeg''), (''.png'', ''image/png''), (''.gif'', ''image/gif''), (''.webp'', ''image/webp''),
      (''.mp4'', ''video/mp4''), (''.mov'', ''video/quicktime''), (''.pdf'', ''application/pdf''), (''.doc'', ''application/msword''),
      (''.docx'', ''application/vnd.openxmlformats-officedocument.wordprocessingml.document''), (''.zip'', ''application/zip''),
      (''.bin'', ''application/octet-stream'')]"

section \<open>Reading an answer\<close>

fun dict_of :: "pyval \<Rightarrow> pydict" where
  "dict_of (PDict d) = d"
| "dict_of _ = []"

fun is_dict :: "pyval \<Rightarrow> bool" where
  "is_dict (PDict d) = True"
| "is_dict _ = False"

definition get_or :: "pydict \<Rightarrow> string \<Rightarrow> pyval \<Rightarrow> pyval" where
  "get_or d k v = (case dict_get d k of None \<Rightarrow> v | Some w \<Rightarrow> w)"

definition payload_dict :: "pyval option \<Rightarrow> pydict" where
  "payload_dict p = (case p of Some v \<Rightarrow> dict_of v | None \<Rightarrow> [])"

definition safe_metadata :: "client_env \<Rightarrow> string \<Rightarrow> int option \<Rightarrow> pydict \<Rightarrow> pydict" where
  "safe_metadata ce token status source =
     dict_of (redact_secrets (ce_redact ce token) 0
       (PDict [(KStr ''http_status'', opt_val PInt status), (KStr ''description'', get_or source ''description'' PNone),
               (KStr ''parameters'', get_or source ''parameters'' (PDict []))]))"

definition retry_after :: "pydict \<Rightarrow> int" where
  "retry_after p = (case dict_get (dict_of (get_or p ''parameters'' (PDict []))) ''retry_after'' of
     Some (PInt n) \<Rightarrow> if n > 0 then n else 1 | _ \<Rightarrow> 1)"

text \<open>Python equates \<open>429.0\<close> with \<open>429\<close>.\<close>

fun equals_int :: "pyval \<Rightarrow> int \<Rightarrow> bool" where
  "equals_int (PInt i) n = (i = n)"
| "equals_int (PBool b) n = ((if b then 1 else 0) = n)"
| "equals_int (PFloat (Finite m e)) n = (if e \<ge> 0 then m * 2 ^ nat e = n else m = n * 2 ^ nat (- e))"
| "equals_int _ n = False"

definition rate_limited :: "int \<Rightarrow> pyval option \<Rightarrow> bool" where
  "rate_limited status p =
     (status = 429 \<or> (case dict_get (payload_dict p) ''error_code'' of None \<Rightarrow> False | Some v \<Rightarrow> equals_int v 429))"

definition bot_server_error :: "pyval option \<Rightarrow> bool" where
  "bot_server_error p = (case dict_get (payload_dict p) ''error_code'' of Some (PInt n) \<Rightarrow> n \<ge> 500 | _ \<Rightarrow> False)"

fun message_id_of :: "pyval \<Rightarrow> int option" where
  "message_id_of (PDict d) = (case dict_get d ''message_id'' of Some (PInt n) \<Rightarrow> if n > 0 then Some n else None | _ \<Rightarrow> None)"
| "message_id_of _ = None"

fun all_some :: "'a option list \<Rightarrow> 'a list option" where
  "all_some [] = Some []"
| "all_some (None # xs) = None"
| "all_some (Some x # xs) = map_option (\<lambda>ys. x # ys) (all_some xs)"

text \<open>\<open>_remote_message_ids\<close>: absent when it raises a \<open>TypeError\<close> or \<open>ValueError\<close>.\<close>

fun remote_message_ids :: "pyval \<Rightarrow> int list option" where
  "remote_message_ids (PList vs) = (if vs = [] then None else all_some (map message_id_of vs))"
| "remote_message_ids v = all_some [message_id_of v]"

section \<open>The upload contract\<close>

definition hex64 :: "string \<Rightarrow> bool" where
  "hex64 s = (length s = 64 \<and> list_all lower_hex_char s)"

definition group_media :: "publish_operation \<Rightarrow> pyval list" where
  "group_media p = (case dict_get (op_fields p) ''media'' of Some (PList vs) \<Rightarrow> vs | _ \<Rightarrow> [])"

text \<open>The media type an upload must have; a group's item that is no dictionary has no \<open>get\<close>.\<close>

definition expected_media_type :: "publish_operation \<Rightarrow> nat \<Rightarrow> send_error + pyval" where
  "expected_media_type p k =
     (if op_method p = ''sendMediaGroup'' then
        (if k < length (group_media p) then
           (case group_media p ! k of PDict d \<Rightarrow> Inr (get_or d ''type'' PNone) | _ \<Rightarrow> Inl Other_Error)
         else Inr PNone)
      else Inr (case map_of [(''sendPhoto'', ''photo''), (''sendVideo'', ''video''), (''sendDocument'', ''document'')] (op_method p) of
                  None \<Rightarrow> PNone | Some t \<Rightarrow> PStr t))"

definition upload_plan_invalid :: send_error where
  "upload_plan_invalid = Client_Error (TelegramPermanentError ''Telegram upload plan is invalid'' [])"

definition check_upload :: "publish_operation \<Rightarrow> nat \<times> upload_metadata \<Rightarrow> send_error + unit" where
  "check_upload p ku =
     (case ku of (k, u) \<Rightarrow> result_bind (expected_media_type p k) (\<lambda>t.
        let suffix = lower (path_suffix (um_filename u)) in
        if um_attach_name u \<noteq> ''file'' @ nat_str k \<or> um_filename u \<noteq> ''upload-'' @ nat_str k @ suffix \<or>
           \<not> hex64 (um_checksum_sha256 u) \<or> map_of UPLOAD_MIME suffix \<noteq> Some (um_mime_type u) \<or>
           t \<noteq> PStr (um_media_type u)
        then Inl upload_plan_invalid else Inr ()))"

definition validate_upload_contract :: "publish_operation \<Rightarrow> send_error + unit" where
  "validate_upload_contract p =
     (if op_file_paths p = [] \<and> op_uploads p = [] then Inr ()
      else if op_file_paths p = [] \<or> length (op_uploads p) \<noteq> length (op_file_paths p) then Inl upload_plan_invalid
      else map_sum id (\<lambda>_. ()) (map_result (check_upload p) (List.enumerate 0 (op_uploads p))))"

text \<open>The files are read and compared with the plan before the request is posted.\<close>

fun open_uploads ::
  "client_env \<Rightarrow> (upload_metadata \<times> string) list \<Rightarrow> send_error + (string \<times> string \<times> string \<times> string) list" where
  "open_uploads ce [] = Inr []"
| "open_uploads ce ((u, path) # us) =
     (case ce_digest ce path of
        None \<Rightarrow> Inl (Client_Error (TelegramPermanentError ''Telegram upload is not readable'' []))
      | Some d \<Rightarrow>
          if d \<noteq> um_checksum_sha256 u
          then Inl (Client_Error (TelegramPermanentError ''Telegram upload no longer matches its publish plan'' []))
          else result_bind (open_uploads ce us) (\<lambda>fs. Inr ((um_attach_name u, um_filename u, path, um_mime_type u) # fs)))"

section \<open>Sending\<close>

text \<open>The request an operation posts; the values of a multipart form are turned into text by the HTTP layer.\<close>

definition publish_request :: "client_env \<Rightarrow> publish_operation \<Rightarrow> string \<Rightarrow> send_error + http_request" where
  "publish_request ce p token =
     result_bind (validate_upload_contract p) (\<lambda>_.
     result_bind (open_uploads ce (zip (op_uploads p) (op_file_paths p))) (\<lambda>files.
       Inr \<lparr>hq_url = ce_base_url ce @ ''/bot'' @ token @ ''/'' @ op_method p, hq_fields = op_fields p, hq_files = files\<rparr>))"

definition expected_count :: "publish_operation \<Rightarrow> nat" where
  "expected_count p = (if op_method p = ''sendMediaGroup'' then length (op_file_paths p) else 1)"

definition result_ids :: "publish_operation \<Rightarrow> pyval \<Rightarrow> int list option" where
  "result_ids p result =
     (let shape = (case result of PList _ \<Rightarrow> op_method p = ''sendMediaGroup''
                   | PDict _ \<Rightarrow> op_method p \<noteq> ''sendMediaGroup'' | _ \<Rightarrow> False) in
      if \<not> shape then None
      else case remote_message_ids result of
        None \<Rightarrow> None
      | Some ids \<Rightarrow> if length ids = expected_count p then Some ids else None)"

definition read_answer :: "client_env \<Rightarrow> publish_operation \<Rightarrow> string \<Rightarrow> http_answer \<Rightarrow> send_error + operation_result" where
  "read_answer ce p token ans =
     (case ans of
        Connect_Failed \<Rightarrow> Inl (Client_Error (TelegramRetryableBeforeDispatch ''Telegram connection failed before dispatch''
            (safe_metadata ce token None [(KStr ''description'', PStr ''telegram_connect_failed'')])))
      | Transport_Failed \<Rightarrow> Inl (Client_Error (TelegramAmbiguousError ''Telegram response timed out after dispatch''
            (safe_metadata ce token None [(KStr ''description'', PStr ''telegram_transport_failed'')])))
      | Http_Raised \<Rightarrow> Inl Other_Error
      | Http_Answer status payload \<Rightarrow>
          (let md = safe_metadata ce token (Some status) (payload_dict payload);
               body = payload_dict payload; object = (case payload of Some v \<Rightarrow> is_dict v | None \<Rightarrow> False) in
           if rate_limited status payload then Inl (Client_Error (TelegramRateLimited (retry_after body) md))
           else if status \<ge> 500 \<or> bot_server_error payload
           then Inl (Client_Error (TelegramAmbiguousError ''Telegram server failed after dispatch'' md))
           else if status \<ge> 400
           then Inl (Client_Error (TelegramPermanentError ''Telegram rejected the publish operation'' md))
           else if \<not> object then Inl (Client_Error (TelegramAmbiguousError ''Telegram returned an invalid response'' md))
           else if dict_get body ''ok'' \<noteq> Some (PBool True)
           then Inl (Client_Error (TelegramPermanentError ''Telegram rejected the publish operation'' md))
           else case result_ids p (get_or body ''result'' PNone) of
             None \<Rightarrow> Inl (Client_Error (TelegramAmbiguousError ''Telegram returned an invalid success response'' md))
           | Some ids \<Rightarrow>
               Inr \<lparr>or_remote_message_ids = ids,
                    or_response_metadata = [(KStr ''http_status'', PInt status), (KStr ''ok'', PBool True),
                      (KStr ''method'', PStr (op_method p)), (KStr ''result_count'', PInt (int (length ids)))]\<rparr>))"

definition client_execute ::
  "client_env \<Rightarrow> (http_request \<Rightarrow> http_answer) \<Rightarrow> publish_operation \<Rightarrow> string \<Rightarrow> send_error + operation_result" where
  "client_execute ce http p token =
     result_bind (publish_request ce p token) (\<lambda>q. read_answer ce p token (http q))"

end
