(* ===== verification/Publish_Context.thy ===== *)
theory Publish_Context
  imports Telegram_Client
begin

text \<open>
  The context of a publication: \<open>app/publishing/telegram/publication_context.py\<close>, the first transaction of
  \<open>publication.py\<close>, the walk from a revision to its dispatch of \<open>service_contracts.py\<close> and the validations
  of \<open>reconciliation.py\<close>.  Rows are read under row locks, so a transaction sees one state of them.
\<close>

record evidence_citation =
  ct_evidence_snapshot_id :: uuid
  ct_evidence_key :: string
  ct_source_url :: "string option"
  ct_locator :: string
  ct_excerpt_sha256 :: string

record lib =
  lb_render :: render_env
  lb_citation :: "pyval \<Rightarrow> evidence_citation option" \<comment> \<open>\<open>TelegramEvidenceCitation.model_validate\<close>\<close>
  lb_sha256 :: "string \<Rightarrow> string" \<comment> \<open>SHA-256 of the text in UTF-8\<close>

definition revision_content :: "lib \<Rightarrow> variant_revision \<Rightarrow> telegram_content option" where
  "revision_content lib r = rn_content (lb_render lib) (vr_content r)"

definition exact_hash :: "lib \<Rightarrow> variant_revision \<Rightarrow> string" where
  "exact_hash lib r = rn_hash (lb_render lib)
     (PDict [(KStr ''content'', PDict (vr_content r)), (KStr ''evidence_map'', PList (vr_evidence_map r))])"

record publish_context =
  px_publish_job_id :: uuid
  px_destination_id :: uuid
  px_destination_secret_ref :: string
  px_proxy_profile_id :: "uuid option"
  px_target_ref :: string
  px_revision_id :: uuid
  px_dispatch_id :: "uuid option"
  px_route_id :: uuid
  px_plan :: publish_plan
  px_attempt_id :: uuid

datatype prepared = Prepared publish_context | Answered pydict

section \<open>From a revision to its dispatch\<close>

definition revision_dispatch_row :: "uuid \<Rightarrow> pub_db \<Rightarrow> automation_dispatch option" where
  "revision_dispatch_row i x =
     (case sort_key (\<lambda>d. - ad_created_at d) (filter (\<lambda>d. ad_variant_revision_id d = Some i) (db_dispatches (pu_db x))) of
        [] \<Rightarrow> None | d # _ \<Rightarrow> Some d)"

function ancestor_dispatch :: "pub_db \<Rightarrow> uuid \<Rightarrow> uuid list \<Rightarrow> variant_revision option \<Rightarrow> automation_dispatch option" where
  "ancestor_dispatch x variant seen current =
     (case current of
        None \<Rightarrow> None
      | Some r \<Rightarrow>
          if vr_id r \<in> set seen then None
          else if vr_platform_variant_id r \<noteq> variant then None
          else case revision_dispatch_row (vr_id r) x of
            Some d \<Rightarrow> Some d
          | None \<Rightarrow>
              (case vr_parent_revision_id r of
                 None \<Rightarrow> None
               | Some i \<Rightarrow>
                   (case find_revision i x of
                      None \<Rightarrow> None
                    | Some r' \<Rightarrow> ancestor_dispatch x variant (vr_id r # seen) (Some r'))))"
  by pat_completeness auto

text \<open>Every round but the first is at a stored revision that was not seen before.\<close>

definition unseen :: "pub_db \<Rightarrow> uuid list \<Rightarrow> variant_revision option \<Rightarrow> nat" where
  "unseen x seen current =
     card (insert (case current of None \<Rightarrow> [] | Some r \<Rightarrow> vr_id r) (vr_id ` set (pu_revisions x)) - set seen)"

lemma unseen_decreases:
  assumes "vr_id r \<notin> set seen" "find_revision i x = Some r'"
  shows "unseen x (vr_id r # seen) (Some r') < unseen x seen (Some r)"
proof -
  let ?ids = "vr_id ` set (pu_revisions x)"
  have r': "vr_id r' \<in> ?ids" using assms(2) unfolding find_revision_def by (blast dest: find_Some_in)
  let ?A = "insert (vr_id r) ?ids - set seen"
  have "insert (vr_id r') ?ids - set (vr_id r # seen) = ?A - {vr_id r}"
    using r' by (simp add: insert_absorb) blast
  moreover have "card (?A - {vr_id r}) < card ?A" by (rule card_Diff1_less) (use assms(1) in auto)
  ultimately show ?thesis unfolding unseen_def by (simp only: option.case)
qed

termination ancestor_dispatch
  by (relation "measure (\<lambda>(x, v, seen, current). unseen x seen current)") (simp_all add: unseen_decreases)

declare ancestor_dispatch.simps [simp del]

definition revision_dispatch :: "variant_revision \<Rightarrow> pub_db \<Rightarrow> automation_dispatch option" where
  "revision_dispatch r x =
     (case find_variant (vr_platform_variant_id r) x of
        None \<Rightarrow> None
      | Some v \<Rightarrow> if pv_platform v \<noteq> ''telegram'' then None
                  else ancestor_dispatch x (vr_platform_variant_id r) [] (Some r))"

section \<open>Loading and checking the intent\<close>

definition load_publish_intent ::
  "uuid \<Rightarrow> pub_db \<Rightarrow> handler_error + (variant_revision \<times> publish_job) + pydict" where
  "load_publish_intent i x =
     (case find_publish_job i x of
        None \<Rightarrow> Inl (PermanentJobError ''telegram_publish_job_missing'' ''Telegram publish job was not found'')
      | Some p \<Rightarrow>
          (case find_revision (pj_platform_variant_revision_id p) x of
             None \<Rightarrow> Inl (PermanentJobError ''telegram_publish_context_missing'' ''Telegram publish context is incomplete'')
           | Some r \<Rightarrow>
               (case publication_of (pj_id p) x of
                  None \<Rightarrow> Inr (Inl (r, p))
                | Some n \<Rightarrow>
                    if pn_reconciliation_status n \<noteq> ''confirmed'' \<or> pn_destination_id n \<noteq> pj_destination_id p \<or>
                       pn_platform_variant_revision_id n \<noteq> pj_platform_variant_revision_id p \<or>
                       pn_payload_hash n \<noteq> pj_payload_hash p
                    then Inl (NeedsReviewJobError ''telegram_publication_drift''
                           ''Existing publication does not match the publish intent'')
                    else Inr (Inr [(KStr ''publish_job_id'', PStr (pj_id p)), (KStr ''publication_id'', PStr (pn_id n)),
                           (KStr ''remote_message_ids'', PList (map PInt (pn_remote_message_ids n))),
                           (KStr ''permalink'', opt_val PStr (pn_permalink n)), (KStr ''idempotent'', PBool True)]))))"

definition load_publish_revision ::
  "lib \<Rightarrow> variant_revision \<Rightarrow> pub_db \<Rightarrow> handler_error + platform_variant \<times> telegram_content" where
  "load_publish_revision lib r x =
     (let missing = Inl (PermanentJobError ''telegram_publish_context_missing'' ''Telegram publish context is incomplete'') in
      case find_variant (vr_platform_variant_id r) x of
        None \<Rightarrow> missing
      | Some v \<Rightarrow>
          if pv_platform v \<noteq> ''telegram'' then missing
          else case revision_content lib r of
            None \<Rightarrow> Inl (NeedsReviewJobError ''telegram_revision_invalid'' ''Telegram revision content is invalid'')
          | Some c \<Rightarrow>
              if vr_approval_state r \<noteq> ''approved'' \<or> tc_dry_run c
              then Inl (NeedsReviewJobError ''telegram_revision_not_publishable''
                     ''Telegram revision is not approved for publication'')
              else if exact_hash lib r \<noteq> vr_content_hash r
              then Inl (NeedsReviewJobError ''telegram_revision_hash_drift'' ''Telegram revision hash no longer matches'')
              else Inr (v, c))"

text \<open>\<open>expected\<close> is absent for \<open>_ROUTE_UNSET\<close>.\<close>

definition validate_publish_route ::
  "automation_route option \<Rightarrow> automation_control option \<Rightarrow> destination option \<Rightarrow> uuid option option \<Rightarrow>
   handler_error + automation_route \<times> destination" where
  "validate_publish_route route control dest expected =
     (case dest of
        None \<Rightarrow> Inl (PermanentJobError ''telegram_publish_context_missing'' ''Telegram publish context is incomplete'')
      | Some d \<Rightarrow>
          if expected \<noteq> None \<and> Some (de_proxy_profile_id d) \<noteq> expected
          then Inl (NeedsReviewJobError ''telegram_publish_route_changed''
                 ''Telegram destination route changed before dispatch'')
          else case route of
            None \<Rightarrow> Inl (NeedsReviewJobError ''telegram_publish_route_drift'' ''Telegram publish route no longer matches'')
          | Some rt \<Rightarrow>
              if rt_destination_id rt \<noteq> de_id d
              then Inl (NeedsReviewJobError ''telegram_publish_route_drift'' ''Telegram publish route no longer matches'')
              else if (case control of None \<Rightarrow> True | Some c \<Rightarrow> ac_global_pause c \<or> ac_dry_run c) \<or>
                      \<not> rt_enabled rt \<or> rt_paused_at rt \<noteq> None \<or> de_platform d \<noteq> ''telegram'' \<or>
                      \<not> de_enabled d \<or> de_health_status d \<noteq> ''healthy''
              then Inl (NeedsReviewJobError ''telegram_publish_gate_blocked''
                     ''Telegram publication is blocked by current controls'')
              else Inr (rt, d))"

definition load_publish_route ::
  "variant_revision \<Rightarrow> publish_job \<Rightarrow> uuid option option \<Rightarrow> pub_db \<Rightarrow>
   handler_error + automation_dispatch \<times> automation_route \<times> destination" where
  "load_publish_route r p expected x =
     (case revision_dispatch r x of
        None \<Rightarrow> Inl (NeedsReviewJobError ''telegram_route_provenance_missing''
                  ''Telegram revision has no route provenance'')
      | Some d \<Rightarrow>
          result_bind (validate_publish_route (find_route (ad_route_id d) x) (db_control (pu_db x))
              (find_destination (pj_destination_id p) x) expected) (\<lambda>(rt, de). Inr (d, rt, de)))"

section \<open>Evidence\<close>

text \<open>A \<open>PublishValidationError\<close> is its code and message.\<close>

definition snapshot_citation :: "evidence_snapshot \<Rightarrow> pyval" where
  "snapshot_citation s =
     PDict [(KStr ''evidence_snapshot_id'', PUuid (es_id s)), (KStr ''evidence_key'', PStr (es_evidence_key s)),
            (KStr ''source_url'', opt_val PStr (es_source_url s)),
            (KStr ''locator'', PStr (''chars:0-'' @ nat_str (length (es_content_text s)))),
            (KStr ''excerpt_sha256'', PStr (es_content_sha256 s))]"

definition validate_citation ::
  "lib \<Rightarrow> evidence_snapshot list \<Rightarrow> pyval \<Rightarrow> (string \<times> string) + evidence_citation" where
  "validate_citation lib snapshots raw =
     (case lb_citation lib raw of
        None \<Rightarrow> Inl (''publish_evidence_invalid'', ''Publish evidence is invalid'')
      | Some c \<Rightarrow>
          (case find (\<lambda>s. es_id s = ct_evidence_snapshot_id c) snapshots of
             None \<Rightarrow> Inl (''publish_evidence_snapshot_missing'', ''Publish evidence snapshot is missing'')
           | Some s \<Rightarrow>
               (case lb_citation lib (snapshot_citation s) of
                  None \<Rightarrow> Inl (''publish_evidence_snapshot_invalid'', ''Publish evidence snapshot is invalid'')
                | Some expected \<Rightarrow>
                    if lb_sha256 lib (es_content_text s) \<noteq> es_content_sha256 s \<or> c \<noteq> expected
                    then Inl (''publish_evidence_drift'', ''Publish evidence no longer matches its snapshot'')
                    else Inr c)))"

definition validate_publish_evidence ::
  "lib \<Rightarrow> pyval list \<Rightarrow> evidence_snapshot list \<Rightarrow> (string \<times> string) + evidence_citation list" where
  "validate_publish_evidence lib evidence snapshots =
     (if evidence = [] then Inl (''publish_evidence_missing'', ''Publish evidence is missing'')
      else map_result (validate_citation lib snapshots) evidence)"

text \<open>
  The check before the plan and the one at every claim differ in their messages, and the claim may find the
  variant gone.
\<close>

definition validate_evidence_context ::
  "lib \<Rightarrow> string \<Rightarrow> string \<Rightarrow> variant_revision \<Rightarrow> platform_variant option \<Rightarrow> automation_dispatch \<Rightarrow> pub_db \<Rightarrow>
   handler_error + unit" where
  "validate_evidence_context lib invalid_message drift_message r variant d x =
     (let pack = (case variant of None \<Rightarrow> None | Some v \<Rightarrow> find_pack (pv_content_pack_id v) x);
          story = (case pack of None \<Rightarrow> None | Some p \<Rightarrow> find_story_revision (cp_story_revision_id p) x) in
      case all_some (map (lb_citation lib) (vr_evidence_map r)) of
        None \<Rightarrow> Inl (NeedsReviewJobError ''telegram_publish_evidence_invalid'' invalid_message)
      | Some cs \<Rightarrow>
          let snapshots = filter (\<lambda>s. es_id s \<in> set (map ct_evidence_snapshot_id cs)) (pu_snapshots x) in
          (case validate_publish_evidence lib (vr_evidence_map r) snapshots of
             Inl (code, m) \<Rightarrow> Inl (NeedsReviewJobError code m)
           | Inr _ \<Rightarrow>
               (case story of
                  None \<Rightarrow> Inl (NeedsReviewJobError ''telegram_publish_evidence_story_drift'' drift_message)
                | Some v \<Rightarrow>
                    if (\<exists>s\<in>set snapshots. es_story_id s \<noteq> sv_story_id v) \<or> ad_story_revision_id d \<noteq> sv_id v
                    then Inl (NeedsReviewJobError ''telegram_publish_evidence_story_drift'' drift_message)
                    else Inr ())))"

section \<open>The plan and its receipts\<close>

definition plan_media :: "telegram_content \<Rightarrow> pub_db \<Rightarrow> media_asset list" where
  "plan_media c x = filter (\<lambda>a. ma_id a \<in> set (tc_media_asset_ids c)) (pu_media x)"

definition new_receipt :: "env \<Rightarrow> uuid \<Rightarrow> uuid \<Rightarrow> publish_operation \<Rightarrow> publish_receipt" where
  "new_receipt env i job op =
     \<lparr>po_id = i, po_publish_job_id = job, po_operation_index = op_index op, po_operation_key = op_key op,
      po_method = op_method op, po_request_hash = op_request_hash op, po_status = ''pending'', po_attempt_count = 0,
      po_remote_message_ids = [], po_response_metadata = [], po_next_attempt_at = None, po_ambiguous_at = None,
      po_completed_at = None, po_created_at = env_db_now env, po_updated_at = env_db_now env\<rparr>"

definition add_receipts :: "env \<Rightarrow> uuid \<Rightarrow> publish_operation list \<Rightarrow> pub_db \<Rightarrow> pub_db" where
  "add_receipts env job ops = on_db (\<lambda>d. d\<lparr>db_publish_receipts := db_publish_receipts d @
       map (\<lambda>(k, op). new_receipt env (env_uuid env (db_seq d + k)) job op) (List.enumerate 0 ops),
     db_seq := db_seq d + length ops\<rparr>)"

definition operation_signature :: "publish_operation \<Rightarrow> int \<times> string \<times> string \<times> string" where
  "operation_signature p = (op_index p, op_key p, op_method p, op_request_hash p)"

definition receipt_signature :: "publish_receipt \<Rightarrow> int \<times> string \<times> string \<times> string" where
  "receipt_signature r = (po_operation_index r, po_operation_key r, po_method r, po_request_hash r)"

definition validate_receipt_plan :: "publish_receipt list \<Rightarrow> publish_operation list \<Rightarrow> bool" where
  "validate_receipt_plan rs ops = (map receipt_signature (sort_key po_operation_index rs) = map operation_signature ops)"

definition load_publish_plan_receipts ::
  "env \<Rightarrow> lib \<Rightarrow> variant_revision \<Rightarrow> telegram_content \<Rightarrow> destination \<Rightarrow> publish_job \<Rightarrow> pub_db \<Rightarrow>
   handler_error + publish_plan \<times> pub_db" where
  "load_publish_plan_receipts env lib r c d p x =
     (case build_publish_plan (lb_render lib) r (plan_media c x) d of
        Inl (Publish_Needs_Review m) \<Rightarrow> Inl (NeedsReviewJobError ''telegram_publish_plan_invalid'' m)
      | Inl Content_Invalid \<Rightarrow> Inl OtherException
      | Inr plan \<Rightarrow>
          let x1 = (if receipts_of (pj_id p) x = [] then add_receipts env (pj_id p) (pl_operations plan) x else x) in
          if \<not> validate_receipt_plan (receipts_of (pj_id p) x1) (pl_operations plan)
          then Inl (NeedsReviewJobError ''publish_plan_drift'' ''Publish operation plan drifted after receipt creation'')
          else Inr (plan, put_publish_job env (pj_id p) (\<lambda>q. q\<lparr>pj_payload_hash := pl_payload_hash plan\<rparr>) x1))"

section \<open>Answers that need no sending\<close>

definition reconciliation_required :: "string \<Rightarrow> bool \<Rightarrow> bool" where
  "reconciliation_required status stale = (status = ''ambiguous'' \<or> status = ''dispatching'' \<and> stale)"

definition close_running_attempts :: "env \<Rightarrow> uuid \<Rightarrow> string \<Rightarrow> string \<Rightarrow> string \<Rightarrow> string \<Rightarrow> time \<Rightarrow> pub_db \<Rightarrow> pub_db" where
  "close_running_attempts env job status cls code message t = on_db (\<lambda>d. d\<lparr>db_publish_attempts :=
     set_rows (\<lambda>a. pa_publish_job_id a = job \<and> pa_status a = ''running'')
       (fail_publish_attempt status cls (env_redact env code) (env_redact env message) t) (db_publish_attempts d)\<rparr>)"

definition reconcile_answer :: "uuid \<Rightarrow> pydict" where
  "reconcile_answer job = [(KStr ''publish_job_id'', PStr job), (KStr ''reconciliation_required'', PBool True)]"

definition put_status :: "env \<Rightarrow> uuid \<Rightarrow> string \<Rightarrow> pub_db \<Rightarrow> pub_db" where
  "put_status env job status = put_publish_job env job (\<lambda>q. q\<lparr>pj_status := status\<rparr>)"

definition doubt_receipt :: "env \<Rightarrow> time \<Rightarrow> publish_receipt \<Rightarrow> publish_receipt" where
  "doubt_receipt env t r = flush_receipt env r (r\<lparr>po_status := ''ambiguous'', po_ambiguous_at := Some t\<rparr>)"

definition dispatching_receipt_result :: "env \<Rightarrow> uuid \<Rightarrow> publish_receipt \<Rightarrow> time \<Rightarrow> pub_db \<Rightarrow> pydict \<times> pub_db" where
  "dispatching_receipt_result env job r t x =
     (if reconciliation_required (po_status r) (po_updated_at r < t - minutes 5) then
        (reconcile_answer job,
         close_running_attempts env job ''needs_review'' ''needs_review'' ''telegram_publish_ambiguous''
           ''Telegram publish outcome is ambiguous after worker interruption'' t
           (put_status env job ''reconciliation_required''
             (put_receipt job (po_operation_index r) (doubt_receipt env t) x)))
      else
        ([(KStr ''publish_job_id'', PStr job), (KStr ''in_progress'', PBool True),
          (KStr ''retry_at'', PTime (po_updated_at r + minutes 5))], x))"

definition publish_receipt_short_circuit :: "env \<Rightarrow> uuid \<Rightarrow> time \<Rightarrow> pub_db \<Rightarrow> pydict option \<times> pub_db" where
  "publish_receipt_short_circuit env job t x =
     (let rs = receipts_of job x in
      if list_ex (\<lambda>r. reconciliation_required (po_status r) False) rs
      then (Some (reconcile_answer job), put_status env job ''reconciliation_required'' x)
      else case find (\<lambda>r. po_status r = ''dispatching'') rs of
        Some r \<Rightarrow> (case dispatching_receipt_result env job r t x of (d, x') \<Rightarrow> (Some d, x'))
      | None \<Rightarrow>
          (case find (\<lambda>r. po_status r \<noteq> ''succeeded'') rs of
             Some r \<Rightarrow>
               (case po_next_attempt_at r of
                  Some u \<Rightarrow> if u > t then (Some [(KStr ''publish_job_id'', PStr job), (KStr ''retry_at'', PTime u)], x)
                            else (None, x)
                | None \<Rightarrow> (None, x))
           | None \<Rightarrow>
               if rs = [] then (None, x)
               else (None, close_running_attempts env job ''failed'' ''retryable'' ''telegram_publish_attempt_interrupted''
                       ''Prior Telegram publish attempt was interrupted after durable receipt'' t x)))"

section \<open>The first transaction\<close>

definition operation_summary :: "publish_operation \<Rightarrow> pyval" where
  "operation_summary p =
     PDict [(KStr ''index'', PInt (op_index p)), (KStr ''key'', PStr (op_key p)), (KStr ''method'', PStr (op_method p)),
            (KStr ''request_hash'', PStr (op_request_hash p)), (KStr ''upload_count'', PInt (int (length (op_file_paths p))))]"

definition create_publish_attempt ::
  "env \<Rightarrow> publish_job \<Rightarrow> variant_revision \<Rightarrow> destination \<Rightarrow> publish_plan \<Rightarrow> time \<Rightarrow> pub_db \<Rightarrow> publish_attempt \<times> pub_db" where
  "create_publish_attempt env p r d plan t x =
     (let db = pu_db x;
          numbers = map pa_attempt_number (filter (\<lambda>a. pa_publish_job_id a = pj_id p) (db_publish_attempts db));
          a = \<lparr>pa_id = env_uuid env (db_seq db), pa_publish_job_id = pj_id p, pa_attempt_number = foldr max numbers 0 + 1,
               pa_sanitized_payload =
                 [(KStr ''publish_job_id'', PStr (pj_id p)), (KStr ''revision_id'', PStr (vr_id r)),
                  (KStr ''destination_id'', PStr (de_id d)), (KStr ''payload_hash'', PStr (pl_payload_hash plan)),
                  (KStr ''operations'', PList (map operation_summary (pl_operations plan)))],
               pa_payload_hash = pl_payload_hash plan, pa_status = ''running'', pa_http_status = None,
               pa_remote_response = [], pa_error_class = None, pa_error_code = None, pa_error_message = None,
               pa_started_at = t, pa_finished_at = None\<rparr>
      in (a, on_db (\<lambda>d. d\<lparr>db_publish_attempts := db_publish_attempts d @ [a], db_seq := Suc (db_seq d)\<rparr>) x))"

definition load_context ::
  "env \<Rightarrow> lib \<Rightarrow> uuid \<Rightarrow> time \<Rightarrow> uuid option option \<Rightarrow> pub_db \<Rightarrow> handler_error + prepared \<times> pub_db" where
  "load_context env lib i t expected x =
     result_bind (load_publish_intent i x) (\<lambda>intent.
     case intent of
       Inr answer \<Rightarrow> Inr (Answered answer, x)
     | Inl (r, p) \<Rightarrow>
         result_bind (load_publish_revision lib r x) (\<lambda>(v, c).
         result_bind (load_publish_route r p expected x) (\<lambda>(ds, rt, d).
         result_bind (validate_evidence_context lib ''Telegram publish evidence is invalid''
             ''Telegram evidence no longer belongs to the revision story'' r (Some v) ds x) (\<lambda>_.
         result_bind (load_publish_plan_receipts env lib r c d p x) (\<lambda>(plan, x1).
         case publish_receipt_short_circuit env (pj_id p) t x1 of
           (Some answer, x2) \<Rightarrow> Inr (Answered answer, x2)
         | (None, x2) \<Rightarrow>
             (case create_publish_attempt env p r d plan t x2 of
                (a, x3) \<Rightarrow> Inr (Prepared
                  \<lparr>px_publish_job_id = pj_id p, px_destination_id = de_id d, px_destination_secret_ref = de_secret_ref d,
                   px_proxy_profile_id = de_proxy_profile_id d, px_target_ref = de_target_ref d, px_revision_id = vr_id r,
                   px_dispatch_id = Some (ad_id ds), px_route_id = rt_id rt, px_plan = plan, px_attempt_id = pa_id a\<rparr>, x3)))))))"

end
