(* ===== verification/Telegram_Publish.thy ===== *)
theory Telegram_Publish
  imports Publish_Context
begin

text \<open>
  \<open>publish_telegram\<close> of \<open>app/publishing/telegram/publication.py\<close> with the transactions of
  \<open>publication_support.py\<close>.  A publication alternates short transactions with calls of the Bot API, and
  other transactions run between them: a \<open>publisher\<close> is the program's point between two of its steps, and
  \<open>advance\<close> is the step it takes next.
\<close>

section \<open>The claim of an operation\<close>

definition load_claim_context ::
  "publish_context \<Rightarrow> pub_db \<Rightarrow> handler_error +
     variant_revision \<times> publish_job \<times> automation_dispatch \<times> automation_route \<times> automation_control \<times> destination" where
  "load_claim_context c x =
     (case (find_revision (px_revision_id c) x, find_publish_job (px_publish_job_id c) x,
            Option.bind (px_dispatch_id c) (\<lambda>i. find_dispatch i x), find_route (px_route_id c) x,
            db_control (pu_db x), find_destination (px_destination_id c) x) of
        (Some r, Some p, Some ds, Some rt, Some ac, Some d) \<Rightarrow> Inr (r, p, ds, rt, ac, d)
      | _ \<Rightarrow> Inl (NeedsReviewJobError ''telegram_publish_context_drift'' ''Telegram publish context changed before dispatch''))"

definition validate_claim_controls ::
  "lib \<Rightarrow> publish_context \<Rightarrow> variant_revision \<Rightarrow> publish_job \<Rightarrow> automation_dispatch \<Rightarrow> automation_route \<Rightarrow>
   automation_control \<Rightarrow> destination \<Rightarrow> handler_error + telegram_content" where
  "validate_claim_controls lib c r p ds rt ac d =
     (case revision_content lib r of
        None \<Rightarrow> Inl (NeedsReviewJobError ''telegram_revision_invalid'' ''Telegram revision content changed before dispatch'')
      | Some content \<Rightarrow>
          if vr_approval_state r \<noteq> ''approved'' \<or> tc_dry_run content \<or> exact_hash lib r \<noteq> vr_content_hash r \<or>
             ad_route_id ds \<noteq> rt_id rt \<or> rt_destination_id rt \<noteq> de_id d \<or> rt_paused_at rt \<noteq> None \<or> \<not> rt_enabled rt \<or>
             ac_global_pause ac \<or> ac_dry_run ac \<or> de_platform d \<noteq> ''telegram'' \<or> \<not> de_enabled d \<or>
             de_health_status d \<noteq> ''healthy'' \<or> de_secret_ref d \<noteq> px_destination_secret_ref c \<or>
             de_proxy_profile_id d \<noteq> px_proxy_profile_id c \<or> de_target_ref d \<noteq> px_target_ref c \<or>
             pj_platform_variant_revision_id p \<noteq> vr_id r \<or> pj_destination_id p \<noteq> de_id d \<or>
             pj_payload_hash p \<noteq> pl_payload_hash (px_plan c)
          then Inl (NeedsReviewJobError ''telegram_publish_context_drift'' ''Telegram publish controls changed before dispatch'')
          else if tc_source_item_id content \<noteq> Some (ad_source_item_id ds)
          then Inl (NeedsReviewJobError ''telegram_publish_source_drift''
                 ''Telegram revision no longer matches its source dispatch'')
          else Inr content)"

definition linked_media :: "automation_dispatch \<Rightarrow> pub_db \<Rightarrow> uuid list" where
  "linked_media ds x =
     (case find (\<lambda>s. si_id s = ad_source_item_id ds) (pu_source_items x) of
        None \<Rightarrow> []
      | Some s \<Rightarrow> map im_media_asset_id (filter (\<lambda>m. Some (im_content_item_id m) = si_content_item_id s) (pu_item_media x)))"

definition validate_claim_media_lineage ::
  "telegram_content \<Rightarrow> automation_dispatch \<Rightarrow> pub_db \<Rightarrow> handler_error + unit" where
  "validate_claim_media_lineage c ds x =
     (if tc_media_policy c \<noteq> ''preserve'' \<or> tc_media_asset_ids c = [] then Inr ()
      else if \<not> set (tc_media_asset_ids c) \<subseteq> set (linked_media ds x)
      then Inl (NeedsReviewJobError ''telegram_publish_media_lineage_drift''
             ''Telegram revision media no longer belongs to its source'')
      else Inr ())"

definition validate_claim_plan ::
  "lib \<Rightarrow> publish_context \<Rightarrow> variant_revision \<Rightarrow> telegram_content \<Rightarrow> destination \<Rightarrow> pub_db \<Rightarrow> handler_error + unit" where
  "validate_claim_plan lib c r content d x =
     (case build_publish_plan (lb_render lib) r (plan_media content x) d of
        Inl (Publish_Needs_Review m) \<Rightarrow> Inl (NeedsReviewJobError ''telegram_publish_plan_drift'' m)
      | Inl Content_Invalid \<Rightarrow> Inl OtherException
      | Inr current \<Rightarrow>
          if pl_payload_hash current \<noteq> pl_payload_hash (px_plan c) \<or>
             map operation_signature (pl_operations current) \<noteq> map operation_signature (pl_operations (px_plan c))
          then Inl (NeedsReviewJobError ''telegram_publish_plan_drift''
                 (if pl_payload_hash current \<noteq> pl_payload_hash (px_plan c)
                  then ''Telegram publish plan changed before dispatch''
                  else ''Telegram publish operations changed before dispatch''))
          else Inr ())"

definition revalidate_claim :: "lib \<Rightarrow> publish_context \<Rightarrow> pub_db \<Rightarrow> handler_error + unit" where
  "revalidate_claim lib c x =
     result_bind (load_claim_context c x) (\<lambda>(r, p, ds, rt, ac, d).
     result_bind (validate_claim_controls lib c r p ds rt ac d) (\<lambda>content.
     result_bind (validate_evidence_context lib ''Telegram evidence changed before dispatch''
         ''Telegram evidence lineage changed before dispatch'' r (find_variant (vr_platform_variant_id r) x) ds x) (\<lambda>_.
     result_bind (validate_claim_media_lineage content ds x) (\<lambda>_.
       validate_claim_plan lib c r content d x))))"

datatype claim_outcome =
    Already_Succeeded
  | Claimed_Count int
  | Retry_At time bool \<comment> \<open>with \<open>competing_claim\<close>\<close>
  | Claim_Error handler_error

definition finish_claim_attempt :: "env \<Rightarrow> uuid \<Rightarrow> time \<Rightarrow> string \<Rightarrow> string \<Rightarrow> string \<Rightarrow> string \<Rightarrow> pub_db \<Rightarrow> pub_db" where
  "finish_claim_attempt env i t status cls code message = put_attempt i (\<lambda>a.
     if pa_status a = ''running''
     then fail_publish_attempt status cls (env_redact env code) (env_redact env message) t a else a)"

definition take_claim :: "time \<Rightarrow> publish_receipt \<Rightarrow> publish_receipt" where
  "take_claim t r = r\<lparr>po_status := ''dispatching'', po_attempt_count := po_attempt_count r + 1,
     po_next_attempt_at := None, po_updated_at := t\<rparr>"

text \<open>\<open>error\<close> is what \<open>revalidate_claim\<close> raised, with its code and message.\<close>

definition apply_claim_state ::
  "env \<Rightarrow> publish_context \<Rightarrow> publish_receipt \<Rightarrow> time \<Rightarrow> (string \<times> string) option \<Rightarrow> pub_db \<Rightarrow> claim_outcome \<times> pub_db" where
  "apply_claim_state env c r t error x =
     (let job = px_publish_job_id c; review = finish_claim_attempt env (px_attempt_id c) t ''needs_review'' ''needs_review'' in
      case error of
        Some (code, m) \<Rightarrow> (Claim_Error (NeedsReviewJobError code m), review code m (put_status env job ''attention'' x))
      | None \<Rightarrow>
          if po_status r = ''succeeded'' then (Already_Succeeded, x)
          else if po_status r = ''dispatching'' then
            (Retry_At (po_updated_at r + minutes 5) True,
             finish_claim_attempt env (px_attempt_id c) t ''failed'' ''retryable'' ''telegram_publish_in_progress''
               ''Another Telegram publish claim is in progress'' x)
          else if po_status r \<noteq> ''pending'' then
            (let code = ''telegram_publish_receipt_not_sendable''; m = ''Telegram publish receipt requires attention'' in
             (Claim_Error (NeedsReviewJobError code m),
              review code m (put_status env job
                (if po_status r = ''ambiguous'' then ''reconciliation_required'' else ''attention'') x)))
          else if (case po_next_attempt_at r of None \<Rightarrow> False | Some u \<Rightarrow> u > t)
          then (Retry_At (the (po_next_attempt_at r)) False, x)
          else (Claimed_Count (po_attempt_count r + 1),
                put_status env job ''dispatching'' (put_receipt job (po_operation_index r) (take_claim t) x)))"

definition claim_operation ::
  "env \<Rightarrow> lib \<Rightarrow> publish_context \<Rightarrow> publish_operation \<Rightarrow> time \<Rightarrow> pub_db \<Rightarrow> handler_error + claim_outcome \<times> pub_db" where
  "claim_operation env lib c op t x =
     result_bind (case revalidate_claim lib c x of
                    Inr _ \<Rightarrow> Inr None
                  | Inl (NeedsReviewJobError code m) \<Rightarrow> Inr (Some (code, m))
                  | Inl e \<Rightarrow> Inl e) (\<lambda>error.
       case find_publish_job (px_publish_job_id c) x of
         None \<Rightarrow> Inl (NeedsReviewJobError ''telegram_publish_job_missing'' ''Telegram publish job is missing'')
       | Some _ \<Rightarrow>
           (case find_receipt (px_publish_job_id c) (op_index op) x of
              None \<Rightarrow> Inl (NeedsReviewJobError ''telegram_publish_receipt_missing'' ''Telegram publish receipt is missing'')
            | Some r \<Rightarrow> Inr (apply_claim_state env c r t error x)))"

definition release_claim_for_retry :: "env \<Rightarrow> publish_context \<Rightarrow> time \<Rightarrow> bool \<Rightarrow> time \<Rightarrow> pub_db \<Rightarrow> pub_db" where
  "release_claim_for_retry env c retry_at competing t x =
     (let x1 = finish_claim_attempt env (px_attempt_id c) t ''failed'' ''retryable'' ''telegram_publish_not_due''
                 ''Telegram publish retry is not due'' x
      in if competing then x1
         else put_publish_job env (px_publish_job_id c)
                (\<lambda>q. q\<lparr>pj_status := ''queued'', pj_scheduled_for := Some retry_at\<rparr>) x1)"

section \<open>Failures\<close>

datatype failure_decision = Retry_In int | Reconcile | Terminal

fun classify_publication_failure :: "send_error \<Rightarrow> failure_decision" where
  "classify_publication_failure (Client_Error (TelegramRateLimited n d)) = Retry_In n"
| "classify_publication_failure (Client_Error (TelegramRetryableBeforeDispatch m d)) = Retry_In 30"
| "classify_publication_failure (Client_Error (TelegramPermanentError m d)) = Terminal"
| "classify_publication_failure (Permanent_Error code m) = Terminal"
| "classify_publication_failure e = Reconcile"

fun error_metadata :: "send_error \<Rightarrow> pydict" where
  "error_metadata (Client_Error (TelegramRateLimited n d)) = d"
| "error_metadata (Client_Error (TelegramRetryableBeforeDispatch m d)) = d"
| "error_metadata (Client_Error (TelegramAmbiguousError m d)) = d"
| "error_metadata (Client_Error (TelegramPermanentError m d)) = d"
| "error_metadata e = []"

text \<open>How a failure is filed: the receipt's and the job's new state, the attempt's, and the error to raise.\<close>

record filing =
  fl_receipt :: "publish_receipt \<Rightarrow> publish_receipt"
  fl_job :: "publish_job \<Rightarrow> publish_job"
  fl_status :: string
  fl_class :: string
  fl_code :: string
  fl_message :: string
  fl_raised :: handler_error

definition retry_filing :: "string \<Rightarrow> string \<Rightarrow> time \<Rightarrow> filing" where
  "retry_filing code message u =
     \<lparr>fl_receipt = (\<lambda>r. r\<lparr>po_status := ''pending'', po_next_attempt_at := Some u\<rparr>),
      fl_job = (\<lambda>q. q\<lparr>pj_status := ''queued'', pj_scheduled_for := Some u\<rparr>), fl_status = ''failed'',
      fl_class = ''retryable'', fl_code = code, fl_message = message, fl_raised = RetryableJobError code message (Some u)\<rparr>"

definition file_failure :: "send_error \<Rightarrow> time \<Rightarrow> filing" where
  "file_failure e t =
     (case classify_publication_failure e of
        Retry_In n \<Rightarrow>
          (case e of
             Client_Error (TelegramRateLimited _ _) \<Rightarrow>
               retry_filing ''telegram_rate_limited'' ''Telegram rate limit exceeded'' (t + seconds n)
           | _ \<Rightarrow> retry_filing ''telegram_connect_failed'' ''Telegram connection failed before dispatch'' (t + seconds n))
      | Reconcile \<Rightarrow>
          \<lparr>fl_receipt = (\<lambda>r. r\<lparr>po_status := ''ambiguous'', po_ambiguous_at := Some t\<rparr>),
           fl_job = (\<lambda>q. q\<lparr>pj_status := ''reconciliation_required''\<rparr>), fl_status = ''needs_review'',
           fl_class = ''needs_review'', fl_code = ''telegram_publish_ambiguous'',
           fl_message = ''Telegram publish outcome is ambiguous'',
           fl_raised = NeedsReviewJobError ''telegram_publish_ambiguous'' ''Telegram publish outcome is ambiguous''\<rparr>
      | Terminal \<Rightarrow>
          \<lparr>fl_receipt = (\<lambda>r. r\<lparr>po_status := ''failed''\<rparr>), fl_job = (\<lambda>q. q\<lparr>pj_status := ''attention''\<rparr>),
           fl_status = ''failed'', fl_class = ''permanent'', fl_code = ''telegram_publish_permanent'',
           fl_message = ''Telegram publish operation failed permanently'',
           fl_raised = PermanentJobError ''telegram_publish_permanent'' ''Telegram publish operation failed permanently''\<rparr>)"

definition claim_superseded :: handler_error where
  "claim_superseded = NeedsReviewJobError ''telegram_publish_claim_superseded'' ''Telegram publish claim was superseded''"

definition holds_claim :: "publish_receipt \<Rightarrow> int \<Rightarrow> bool" where
  "holds_claim r n = (po_status r = ''dispatching'' \<and> po_attempt_count r = n)"

definition record_failure ::
  "env \<Rightarrow> publish_context \<Rightarrow> publish_operation \<Rightarrow> int \<Rightarrow> send_error \<Rightarrow> time \<Rightarrow> pub_db \<Rightarrow> handler_error \<times> pub_db" where
  "record_failure env c op n e t x =
     (case (find_receipt (px_publish_job_id c) (op_index op) x, find_publish_job (px_publish_job_id c) x,
            find_publish_attempt (px_attempt_id c) x) of
        (Some r, Some _, Some _) \<Rightarrow>
          if \<not> holds_claim r n then (claim_superseded, x)
          else
            let md = redact_event_data (env_redact env) (error_metadata e); f = file_failure e t;
                http = (case dict_get md ''http_status'' of Some (PInt s) \<Rightarrow> Some s | _ \<Rightarrow> None)
            in (fl_raised f,
                put_attempt (px_attempt_id c)
                  (\<lambda>a. fail_publish_attempt (fl_status f) (fl_class f) (env_redact env (fl_code f)) (env_redact env (fl_message f)) t
                         (a\<lparr>pa_remote_response := md, pa_http_status := (case http of None \<Rightarrow> pa_http_status a | Some s \<Rightarrow> Some s)\<rparr>))
                  (put_publish_job env (px_publish_job_id c) (fl_job f)
                    (put_receipt (px_publish_job_id c) (op_index op)
                      (\<lambda>r. flush_receipt env r (fl_receipt f (r\<lparr>po_response_metadata := md\<rparr>))) x)))
      | _ \<Rightarrow> (claim_superseded, x))"

definition mark_publish_blocked :: "env \<Rightarrow> uuid \<Rightarrow> string \<Rightarrow> pub_db \<Rightarrow> pub_db" where
  "mark_publish_blocked env i code x =
     (case find_publish_job i x of
        None \<Rightarrow> x
      | Some p \<Rightarrow>
          log_event env (pj_workflow_job_id p) ''telegram.publish.blocked'' ''automation''
            [(KStr ''publish_job_id'', PStr (pj_id p)), (KStr ''error_code'', PStr code)]
            (put_status env i ''attention'' x))"

fun short_circuit_result :: "pydict \<Rightarrow> handler_error + pydict" where
  "short_circuit_result d =
     (if (case dict_get d ''reconciliation_required'' of Some (PBool b) \<Rightarrow> b | _ \<Rightarrow> False)
      then Inl (NeedsReviewJobError ''telegram_publish_reconciliation_required'' ''Telegram publish requires reconciliation'')
      else case dict_get d ''retry_at'' of
        Some (PTime u) \<Rightarrow> Inl (RetryableJobError ''telegram_publish_not_due'' ''Telegram publish retry is not due'' (Some u))
      | _ \<Rightarrow> Inr d)"

section \<open>Durable receipts and the publication\<close>

definition redact_with :: "(string \<Rightarrow> string) \<Rightarrow> pydict \<Rightarrow> pydict" where
  "redact_with redactor d = dict_of (redact_secrets redactor 0 (PDict d))"

definition persist_operation_receipt ::
  "env \<Rightarrow> client_env \<Rightarrow> publish_context \<Rightarrow> publish_operation \<Rightarrow> int \<Rightarrow> operation_result \<Rightarrow> string \<Rightarrow> time \<Rightarrow> pub_db \<Rightarrow>
   handler_error + pub_db" where
  "persist_operation_receipt env ce c op n res token t x =
     (case find_receipt (px_publish_job_id c) (op_index op) x of
        None \<Rightarrow> Inl claim_superseded
      | Some r \<Rightarrow>
          if \<not> holds_claim r n then Inl claim_superseded
          else Inr (put_receipt (px_publish_job_id c) (op_index op) (\<lambda>r. flush_receipt env r
                 (r\<lparr>po_status := ''succeeded'', po_remote_message_ids := or_remote_message_ids res,
                    po_response_metadata := redact_with (ce_redact ce token) (or_response_metadata res),
                    po_completed_at := Some t\<rparr>)) x))"

fun collect_ids :: "int list \<Rightarrow> int list \<Rightarrow> (string \<times> string) + int list" where
  "collect_ids acc [] = Inr acc"
| "collect_ids acc (i # is) =
     (if i \<le> 0 then Inl (''remote_message_id_invalid'', ''Remote message IDs are invalid'')
      else if i \<in> set acc then Inl (''remote_message_id_duplicate'', ''Remote message IDs must be unique'')
      else collect_ids (acc @ [i]) is)"

definition ordered_receipt_remote_ids :: "publish_receipt list \<Rightarrow> (string \<times> string) + int list" where
  "ordered_receipt_remote_ids rs =
     result_bind (collect_ids [] (concat (map po_remote_message_ids (sort_key po_operation_index rs)))) (\<lambda>ids.
       if ids = [] then Inl (''remote_message_ids_missing'', ''Remote message IDs are missing'') else Inr ids)"

fun alnum_char :: "char \<Rightarrow> bool" where
  "alnum_char c = (let n = (of_char c :: nat) in (48 \<le> n \<and> n \<le> 57) \<or> (65 \<le> n \<and> n \<le> 90) \<or> (97 \<le> n \<and> n \<le> 122))"

definition derive_telegram_permalink :: "string \<Rightarrow> int list \<Rightarrow> string option" where
  "derive_telegram_permalink target ids =
     (let public = strip (remove_prefix ''@'' target); letters = filter (\<lambda>c. c \<noteq> CHR ''_'') public in
      case ids of
        [] \<Rightarrow> None
      | i # _ \<Rightarrow> if public = [] \<or> letters = [] \<or> \<not> list_all alnum_char letters then None
                else Some (''https://t.me/'' @ public @ ''/'' @ int_str i))"

definition load_completed_publish_state ::
  "publish_context \<Rightarrow> pub_db \<Rightarrow> handler_error + publish_job \<times> publish_attempt \<times> publish_receipt list" where
  "load_completed_publish_state c x =
     (let rs = receipts_of (px_publish_job_id c) x in
      case (find_publish_job (px_publish_job_id c) x, find_publish_attempt (px_attempt_id c) x) of
        (Some p, Some a) \<Rightarrow>
          if list_ex (\<lambda>r. po_status r \<noteq> ''succeeded'') rs
          then Inl (NeedsReviewJobError ''telegram_publish_incomplete'' ''Telegram publish operation set is incomplete'')
          else Inr (p, a, rs)
      | _ \<Rightarrow> Inl (NeedsReviewJobError ''telegram_publish_incomplete'' ''Telegram publish operation set is incomplete''))"

text \<open>
  The insert meets the unique constraints on the publish job and on destination and revision; when no row
  of this publish job explains the conflict, the error is raised again.
\<close>

definition get_or_create_publication ::
  "env \<Rightarrow> publish_context \<Rightarrow> publish_job \<Rightarrow> int list \<Rightarrow> time \<Rightarrow> pub_db \<Rightarrow> handler_error + publication \<times> pub_db" where
  "get_or_create_publication env c p ids t x =
     (case publication_of (pj_id p) x of
        Some n \<Rightarrow> Inr (n, x)
      | None \<Rightarrow>
          let n = \<lparr>pn_id = env_uuid env (db_seq (pu_db x)), pn_publish_job_id = pj_id p,
                   pn_destination_id = px_destination_id c, pn_platform_variant_revision_id = px_revision_id c,
                   pn_remote_message_ids = ids, pn_permalink = derive_telegram_permalink (px_target_ref c) ids,
                   pn_payload_hash = pl_payload_hash (px_plan c), pn_published_at = t,
                   pn_reconciliation_status = ''confirmed''\<rparr> in
          if list_ex (\<lambda>m. pn_destination_id m = px_destination_id c \<and>
                          pn_platform_variant_revision_id m = px_revision_id c) (pu_publications x)
          then Inl OtherException
          else Inr (n, (on_db (\<lambda>d. d\<lparr>db_seq := Suc (db_seq d)\<rparr>) x)\<lparr>pu_publications := pu_publications x @ [n]\<rparr>))"

definition validate_completed_publication :: "publication \<Rightarrow> publish_context \<Rightarrow> int list \<Rightarrow> bool" where
  "validate_completed_publication n c ids =
     (pn_destination_id n = px_destination_id c \<and> pn_platform_variant_revision_id n = px_revision_id c \<and>
      pn_payload_hash n = pl_payload_hash (px_plan c) \<and> pn_remote_message_ids n = ids \<and>
      pn_reconciliation_status n = ''confirmed'')"

definition published_dispatch :: "uuid \<Rightarrow> automation_dispatch \<Rightarrow> automation_dispatch" where
  "published_dispatch job d = d\<lparr>ad_status := ''published'', ad_publish_job_id := Some job\<rparr>"

definition put_dispatch :: "uuid option \<Rightarrow> uuid \<Rightarrow> pub_db \<Rightarrow> pub_db" where
  "put_dispatch i job = on_db (\<lambda>d. d\<lparr>db_dispatches :=
     set_rows (\<lambda>a. Some (ad_id a) = i) (published_dispatch job) (db_dispatches d)\<rparr>)"

definition publication_answer :: "publish_job \<Rightarrow> publication \<Rightarrow> int list \<Rightarrow> pydict" where
  "publication_answer p n ids =
     [(KStr ''publish_job_id'', PStr (pj_id p)), (KStr ''publication_id'', PStr (pn_id n)),
      (KStr ''remote_message_ids'', PList (map PInt ids)), (KStr ''permalink'', opt_val PStr (pn_permalink n))]"

definition finalize_publication :: "env \<Rightarrow> publish_context \<Rightarrow> time \<Rightarrow> pub_db \<Rightarrow> handler_error + pydict \<times> pub_db" where
  "finalize_publication env c t x =
     result_bind (load_completed_publish_state c x) (\<lambda>(p, a, rs).
     case ordered_receipt_remote_ids rs of
       Inl _ \<Rightarrow> Inl OtherException
     | Inr ids \<Rightarrow>
         result_bind (get_or_create_publication env c p ids t x) (\<lambda>(n, x1).
         if \<not> validate_completed_publication n c ids
         then Inl (NeedsReviewJobError ''telegram_publication_drift''
                ''Existing publication does not match the completed operation receipts'')
         else Inr (publication_answer p n ids,
           log_event env (pj_workflow_job_id p) ''telegram.publish.succeeded'' ''automation''
             [(KStr ''publish_job_id'', PStr (pj_id p)), (KStr ''publication_id'', PStr (pn_id n)),
              (KStr ''revision_id'', PStr (px_revision_id c)), (KStr ''remote_message_ids'', PList (map PInt ids)),
              (KStr ''permalink'', opt_val PStr (pn_permalink n))]
             (put_dispatch (px_dispatch_id c) (pj_id p)
               (put_attempt (px_attempt_id c) (\<lambda>a. a\<lparr>pa_status := ''succeeded'',
                   pa_remote_response := [(KStr ''remote_message_ids'', PList (map PInt ids)), (KStr ''publication_id'', PStr (pn_id n))],
                   pa_finished_at := Some t\<rparr>)
                 (put_status env (pj_id p) ''succeeded'' x1))))))"

section \<open>The secret of a destination\<close>

text \<open>The resolver raises or returns a value; only a non-empty text is a token.\<close>

definition resolve_destination_secret :: "(string \<Rightarrow> pyval option) \<Rightarrow> string \<Rightarrow> send_error + string" where
  "resolve_destination_secret resolver ref =
     (case resolver ref of
        Some (PStr s) \<Rightarrow> if s = [] then Inl (Permanent_Error ''telegram_destination_secret_missing'' ''Destination secret is unavailable'')
                        else Inr s
      | _ \<Rightarrow> Inl (Permanent_Error ''telegram_destination_secret_missing'' ''Destination secret is unavailable''))"

section \<open>The steps of a publication\<close>

text \<open>
  What a step reads from outside.  A fault injector may raise at three points; the error it raises after a
  send is classified like any other.
\<close>

record input =
  in_env :: env
  in_lib :: lib
  in_client :: client_env
  in_secret :: "string \<Rightarrow> pyval option"
  in_http :: "http_request \<Rightarrow> http_answer"
  in_fault_before :: bool
  in_fault_after :: "send_error option"
  in_fault_commit :: bool

text \<open>
  \<open>Recording\<close> ends with the mapped error, or with the original one of the fault injector when the flag is
  set.
\<close>

datatype publisher =
    Starting uuid "uuid option option"
  | Blocking uuid string handler_error
  | Claiming publish_context "publish_operation list" "string option"
  | Releasing publish_context time bool
  | Resolving publish_context publish_operation "publish_operation list" int
  | Sending publish_context publish_operation "publish_operation list" int string
  | Recording publish_context publish_operation int send_error bool
  | Persisting publish_context publish_operation "publish_operation list" int string operation_result
  | Stopped "handler_error + pydict"

definition start_publish :: "input \<Rightarrow> uuid \<Rightarrow> uuid option option \<Rightarrow> pub_db \<Rightarrow> publisher \<times> pub_db" where
  "start_publish inp i expected x =
     (case load_context (in_env inp) (in_lib inp) i (env_now (in_env inp)) expected x of
        Inl (NeedsReviewJobError code m) \<Rightarrow> (Blocking i code (NeedsReviewJobError code m), x)
      | Inl (PermanentJobError code m) \<Rightarrow> (Blocking i code (PermanentJobError code m), x)
      | Inl e \<Rightarrow> (Stopped (Inl e), x)
      | Inr (Answered d, x') \<Rightarrow> (Stopped (short_circuit_result d), x')
      | Inr (Prepared c, x') \<Rightarrow> (Claiming c (pl_operations (px_plan c)) None, x'))"

definition claim_step ::
  "input \<Rightarrow> publish_context \<Rightarrow> publish_operation \<Rightarrow> publish_operation list \<Rightarrow> string option \<Rightarrow> pub_db \<Rightarrow> publisher \<times> pub_db" where
  "claim_step inp c op ops token x =
     (case claim_operation (in_env inp) (in_lib inp) c op (env_now (in_env inp)) x of
        Inl e \<Rightarrow> (Stopped (Inl e), x)
      | Inr (Claim_Error e, x') \<Rightarrow> (Stopped (Inl e), x')
      | Inr (Already_Succeeded, x') \<Rightarrow> (Claiming c ops token, x')
      | Inr (Retry_At u competing, x') \<Rightarrow> (Releasing c u competing, x')
      | Inr (Claimed_Count n, x') \<Rightarrow>
          (case token of None \<Rightarrow> Resolving c op ops n | Some tok \<Rightarrow> Sending c op ops n tok, x'))"

definition finish_publish :: "input \<Rightarrow> publish_context \<Rightarrow> pub_db \<Rightarrow> publisher \<times> pub_db" where
  "finish_publish inp c x =
     (if in_fault_commit inp then (Stopped (Inl OtherException), x)
      else case finalize_publication (in_env inp) c (env_now (in_env inp)) x of
        Inl e \<Rightarrow> (Stopped (Inl e), x)
      | Inr (d, x') \<Rightarrow> (Stopped (Inr d), x'))"

definition send_step ::
  "input \<Rightarrow> publish_context \<Rightarrow> publish_operation \<Rightarrow> publish_operation list \<Rightarrow> int \<Rightarrow> string \<Rightarrow> publisher" where
  "send_step inp c op ops n token =
     (if in_fault_before inp then
        Recording c op n (Client_Error (TelegramRetryableBeforeDispatch ''Fault injected before Telegram dispatch'' [])) True
      else case client_execute (in_client inp) (in_http inp) op token of
        Inl e \<Rightarrow> Recording c op n e False
      | Inr res \<Rightarrow>
          (case in_fault_after inp of
             Some e \<Rightarrow> Recording c op n e True
           | None \<Rightarrow> Persisting c op ops n token res))"

fun advance :: "input \<Rightarrow> publisher \<Rightarrow> pub_db \<Rightarrow> publisher \<times> pub_db" where
  "advance inp (Starting i expected) x = start_publish inp i expected x"
| "advance inp (Blocking i code e) x = (Stopped (Inl e), mark_publish_blocked (in_env inp) i code x)"
| "advance inp (Claiming c [] token) x = finish_publish inp c x"
| "advance inp (Claiming c (op # ops) token) x = claim_step inp c op ops token x"
| "advance inp (Releasing c u competing) x =
     (Stopped (Inl (RetryableJobError ''telegram_publish_not_due'' ''Telegram publish retry is not due'' (Some u))),
      release_claim_for_retry (in_env inp) c u competing (env_now (in_env inp)) x)"
| "advance inp (Resolving c op ops n) x =
     (case resolve_destination_secret (in_secret inp) (px_destination_secret_ref c) of
        Inl e \<Rightarrow> Recording c op n e False | Inr tok \<Rightarrow> Sending c op ops n tok, x)"
| "advance inp (Sending c op ops n token) x = (send_step inp c op ops n token, x)"
| "advance inp (Recording c op n e original) x =
     (case record_failure (in_env inp) c op n e (env_now (in_env inp)) x of
        (mapped, x') \<Rightarrow> (Stopped (Inl (if original then OtherException else mapped)), x'))"
| "advance inp (Persisting c op ops n token res) x =
     (case persist_operation_receipt (in_env inp) (in_client inp) c op n res token (env_now (in_env inp)) x of
        Inl e \<Rightarrow> (Stopped (Inl e), x)
      | Inr x' \<Rightarrow> (Claiming c ops (Some token), x'))"
| "advance inp (Stopped r) x = (Stopped r, x)"

text \<open>
  \<open>publish_telegram\<close> without interference: every step with its own input.  The fuel counts steps.
\<close>

fun run_publisher :: "nat \<Rightarrow> (nat \<Rightarrow> input) \<Rightarrow> publisher \<times> pub_db \<Rightarrow> publisher \<times> pub_db" where
  "run_publisher 0 inputs s = s"
| "run_publisher (Suc k) inputs s = run_publisher k (\<lambda>i. inputs (Suc i)) (advance (inputs 0) (fst s) (snd s))"

end
