(* ===== verification/Telegram_Reconcile.thy ===== *)
theory Telegram_Reconcile
  imports Telegram_Publish
begin

text \<open>
  The operator's decision on an ambiguous publication: \<open>app/api/telegram_reconciliation.py\<close> with
  \<open>validate_reconciliation\<close> of \<open>app/publishing/telegram/reconciliation.py\<close>.  The request is one transaction.
\<close>

record reconcile_in =
  rc_outcome :: string \<comment> \<open>\<open>published\<close> or \<open>not_published\<close>\<close>
  rc_remote_message_ids :: "int list"
  rc_permalink :: "string option"
  rc_operator_note :: "string option"

datatype reconcile_error =
    Http int string
  | Unavailable job_error
  | Reconcile_Other

datatype reconciled =
    Publication_Out publication bool \<comment> \<open>the flag marks the replay of an earlier decision\<close>
  | Requeued_Out uuid string bool "publish_receipt list" bool

section \<open>Validation\<close>

definition validate_reconciliation ::
  "publish_receipt list \<Rightarrow> string \<Rightarrow> int list \<Rightarrow> (string \<times> string) + publish_receipt" where
  "validate_reconciliation rs outcome ids =
     (case filter (\<lambda>r. po_status r = ''ambiguous'') rs of
        [a] \<Rightarrow>
          if outcome = ''published'' then
            if list_ex (\<lambda>r. po_status r \<notin> {''succeeded'', ''ambiguous''}) rs
            then Inl (''reconciliation_incomplete'', ''Pending operations cannot be reconciled as published'')
            else if ids = [] \<or> list_ex (\<lambda>i. i \<le> 0) ids
            then Inl (''reconciliation_remote_ids_invalid'', ''Verified remote message IDs are required'')
            else Inr a
          else if list_ex (\<lambda>r. po_status r \<notin> {''succeeded'', ''pending'', ''ambiguous''}) rs
          then Inl (''reconciliation_incomplete'', ''Unsafe operation states cannot be reconciled as not published'')
          else if ids \<noteq> []
          then Inl (''reconciliation_remote_ids_forbidden'', ''Not-published outcome cannot include remote IDs'')
          else Inr a
      | _ \<Rightarrow> Inl (''reconciliation_not_ambiguous'', ''Exactly one ambiguous operation is required''))"

definition validate_reconciled_remote_ids :: "publish_receipt \<Rightarrow> int list \<Rightarrow> reconcile_error + unit" where
  "validate_reconciled_remote_ids r ids =
     (if \<not> distinct ids then Inl (Http 422 ''Remote message IDs must be unique'')
      else if po_method r = ''sendMediaGroup'' then
        (if length ids < 2 then Inl (Http 422 ''A media group requires at least two remote message IDs'') else Inr ())
      else if length ids \<noteq> 1 then Inl (Http 422 ''This Telegram operation requires exactly one remote message ID'')
      else Inr ())"

section \<open>Decisions and their events\<close>

definition decision_fields :: "reconcile_in \<Rightarrow> pydict" where
  "decision_fields b =
     [(KStr ''operator_note'', opt_val PStr (rc_operator_note b)), (KStr ''outcome'', PStr (rc_outcome b)),
      (KStr ''permalink'', opt_val PStr (rc_permalink b)),
      (KStr ''remote_message_ids'', PList (map PInt (rc_remote_message_ids b)))]"

definition decision_hash :: "lib \<Rightarrow> reconcile_in \<Rightarrow> string" where
  "decision_hash lib b = rn_hash (lb_render lib) (PDict (decision_fields b))"

definition reconciliation_generation :: "publish_receipt \<Rightarrow> pyval" where
  "reconciliation_generation r =
     PDict [(KStr ''operation_key'', PStr (po_operation_key r)), (KStr ''attempt_count'', PInt (po_attempt_count r)),
            (KStr ''ambiguous_at'', opt_val (\<lambda>t. PStr (isoformat t)) (po_ambiguous_at r))]"

definition reconciliation_events :: "uuid \<Rightarrow> pub_db \<Rightarrow> workflow_event list" where
  "reconciliation_events job x =
     rev (sort_key (\<lambda>e. (we_created_at e, we_id e))
       (filter (\<lambda>e. we_event_type e \<in> {''telegram.publish.reconciled_not_published'', ''telegram.publish.reconciled_published''} \<and>
                    dict_get (we_event_data e) ''publish_job_id'' = Some (PStr job)) (db_events (pu_db x))))"

definition matches_generation :: "workflow_event \<Rightarrow> publish_receipt list \<Rightarrow> bool" where
  "matches_generation e rs =
     (case dict_get (we_event_data e) ''reconciliation_generation'' of
        Some (PDict g) \<Rightarrow>
          (case find (\<lambda>r. get_or g ''operation_key'' PNone = PStr (po_operation_key r)) rs of
             None \<Rightarrow> False
           | Some r \<Rightarrow>
               if \<not> equals_int (get_or g ''attempt_count'' PNone) (po_attempt_count r) then False
               else case po_ambiguous_at r of
                 None \<Rightarrow> True
               | Some t \<Rightarrow> get_or g ''ambiguous_at'' PNone = PStr (isoformat t))
      | _ \<Rightarrow> False)"

definition event_data :: "lib \<Rightarrow> reconcile_in \<Rightarrow> uuid \<Rightarrow> publish_receipt list \<Rightarrow> pyval \<Rightarrow> pydict \<Rightarrow> pydict" where
  "event_data lib b job rs generation extra =
     dict_set (foldl (\<lambda>d (k, v). dict_set d k v)
       [(KStr ''publish_job_id'', PStr job), (KStr ''decision_hash'', PStr (decision_hash lib b)),
        (KStr ''operation_keys'', PList (map (\<lambda>r. PStr (po_operation_key r)) rs))]
       (decision_fields b @ extra)) (KStr ''reconciliation_generation'') generation"

definition prior_unavailable :: reconcile_error where
  "prior_unavailable = Http 409 ''Prior reconciliation result is unavailable''"

definition replay_reconciliation_decision ::
  "workflow_event \<Rightarrow> uuid \<Rightarrow> publish_receipt list \<Rightarrow> pub_db \<Rightarrow> reconcile_error + reconciled" where
  "replay_reconciliation_decision e job rs x =
     (let d = we_event_data e; uuid_of = (\<lambda>k. Option.bind (dict_get d k) val_uuid) in
      if dict_get d ''outcome'' = Some (PStr ''published'') then
        (case Option.bind (uuid_of ''publication_id'')
                (\<lambda>i. find (\<lambda>n. pn_id n = i \<and> pn_publish_job_id n = job) (pu_publications x)) of
           None \<Rightarrow> Inl prior_unavailable
         | Some n \<Rightarrow> Inr (Publication_Out n True))
      else if dict_get d ''outcome'' = Some (PStr ''not_published'') then
        (case (Option.bind (uuid_of ''requeued_workflow_job_id'') (\<lambda>i. find_job i (pu_db x)),
               dict_get d ''requeued_job_status'', dict_get d ''requeued_job_deduplicated'') of
           (Some j, Some (PStr status), Some (PBool dedup)) \<Rightarrow> Inr (Requeued_Out (wj_id j) status dedup rs True)
         | _ \<Rightarrow> Inl prior_unavailable)
      else Inl prior_unavailable)"

section \<open>The two outcomes\<close>

definition reopened :: "time \<Rightarrow> publish_receipt \<Rightarrow> publish_receipt" where
  "reopened t r = r\<lparr>po_status := ''pending'', po_remote_message_ids := [], po_response_metadata := [],
     po_next_attempt_at := None, po_ambiguous_at := None, po_completed_at := None, po_updated_at := t\<rparr>"

definition set_publish_job :: "uuid \<Rightarrow> (publish_job \<Rightarrow> publish_job) \<Rightarrow> pub_db \<Rightarrow> pub_db" where
  "set_publish_job i f = on_db (\<lambda>d. d\<lparr>db_publish_jobs := set_rows (\<lambda>p. pj_id p = i) f (db_publish_jobs d)\<rparr>)"

definition retry_request :: "uuid \<Rightarrow> publish_receipt \<Rightarrow> enqueue_request" where
  "retry_request job a =
     \<lparr>eq_job_type = ''telegram.publish'', eq_payload = [(KStr ''publish_job_id'', PStr job)],
      eq_idempotency_key = ''telegram-publish-reconcile:'' @ job @ '':'' @ po_operation_key a @ '':'' @ int_str (po_attempt_count a),
      eq_origin = RETRY, eq_priority = 0, eq_scheduled_for = None, eq_max_attempts = 3, eq_pause_sensitive = True,
      eq_automation_run_id = None, eq_automation_node_run_id = None\<rparr>"

definition requeue_not_published ::
  "env \<Rightarrow> lib \<Rightarrow> reconcile_in \<Rightarrow> uuid \<Rightarrow> publish_receipt \<Rightarrow> time \<Rightarrow> pub_db \<Rightarrow> reconcile_error + reconciled \<times> pub_db" where
  "requeue_not_published env lib b job a t x =
     (let x1 = set_publish_job job (\<lambda>q. q\<lparr>pj_status := ''queued'', pj_scheduled_for := Some t, pj_updated_at := t\<rparr>)
                 (put_receipt job (po_operation_index a) (reopened t) x) in
      case enqueue_job env (retry_request job a) (pu_db x1) of
        Inl e \<Rightarrow> Inl (Unavailable e)
      | Inr ((j, created), d) \<Rightarrow>
          let x2 = put_publish_job env job (\<lambda>q. q\<lparr>pj_workflow_job_id := Some (wj_id j)\<rparr>) (x1\<lparr>pu_db := d\<rparr>);
              rs = receipts_of job x2
          in Inr (Requeued_Out (wj_id j) (job_status_value (wj_status j)) (\<not> created) rs False,
               log_event env (Some (wj_id j)) ''telegram.publish.reconciled_not_published'' ''operator''
                 (event_data lib b job rs (reconciliation_generation a)
                   [(KStr ''requeued_workflow_job_id'', PStr (wj_id j)),
                    (KStr ''requeued_job_status'', PStr (job_status_value (wj_status j))),
                    (KStr ''requeued_job_deduplicated'', PBool (\<not> created))]) x2))"

definition confirmed :: "time \<Rightarrow> int list \<Rightarrow> publish_receipt \<Rightarrow> publish_receipt" where
  "confirmed t ids r = r\<lparr>po_status := ''succeeded'', po_remote_message_ids := ids,
     po_response_metadata := [(KStr ''operator_confirmed'', PBool True), (KStr ''reconciliation_outcome'', PStr ''published'')],
     po_next_attempt_at := None, po_completed_at := Some t, po_updated_at := t\<rparr>"

text \<open>The insert meets the unique constraint on destination and revision at the flush.\<close>

definition confirmed_publication ::
  "env \<Rightarrow> publish_job \<Rightarrow> int list \<Rightarrow> string option \<Rightarrow> time \<Rightarrow> pub_db \<Rightarrow> reconcile_error + publication \<times> pub_db" where
  "confirmed_publication env p ids permalink t x =
     (case publication_of (pj_id p) x of
        Some n \<Rightarrow>
          if pn_destination_id n \<noteq> pj_destination_id p \<or>
             pn_platform_variant_revision_id n \<noteq> pj_platform_variant_revision_id p \<or>
             pn_payload_hash n \<noteq> pj_payload_hash p \<or> pn_remote_message_ids n \<noteq> ids \<or>
             pn_permalink n \<noteq> permalink \<or> pn_reconciliation_status n \<noteq> ''confirmed''
          then Inl (Http 409 ''Telegram publication conflicts with reconciliation'')
          else Inr (n, x)
      | None \<Rightarrow>
          let n = \<lparr>pn_id = env_uuid env (db_seq (pu_db x)), pn_publish_job_id = pj_id p,
                   pn_destination_id = pj_destination_id p,
                   pn_platform_variant_revision_id = pj_platform_variant_revision_id p, pn_remote_message_ids = ids,
                   pn_permalink = permalink, pn_payload_hash = pj_payload_hash p, pn_published_at = t,
                   pn_reconciliation_status = ''confirmed''\<rparr> in
          if list_ex (\<lambda>m. pn_destination_id m = pj_destination_id p \<and>
                          pn_platform_variant_revision_id m = pj_platform_variant_revision_id p) (pu_publications x)
          then Inl Reconcile_Other
          else Inr (n, (on_db (\<lambda>d. d\<lparr>db_seq := Suc (db_seq d)\<rparr>) x)\<lparr>pu_publications := pu_publications x @ [n]\<rparr>))"

definition confirm_published ::
  "env \<Rightarrow> lib \<Rightarrow> reconcile_in \<Rightarrow> publish_job \<Rightarrow> destination \<Rightarrow> publish_receipt \<Rightarrow> time \<Rightarrow> pub_db \<Rightarrow>
   reconcile_error + reconciled \<times> pub_db" where
  "confirm_published env lib b p d a t x =
     (let job = pj_id p in
      result_bind (validate_reconciled_remote_ids a (rc_remote_message_ids b)) (\<lambda>_.
      let x1 = put_receipt job (po_operation_index a) (confirmed t (rc_remote_message_ids b)) x; rs = receipts_of job x1 in
      case ordered_receipt_remote_ids rs of
        Inl (code, m) \<Rightarrow> Inl (Http 422 m)
      | Inr ids \<Rightarrow>
          let permalink = (case rc_permalink b of Some u \<Rightarrow> Some u | None \<Rightarrow> derive_telegram_permalink (de_target_ref d) ids) in
          result_bind (confirmed_publication env p ids permalink t x1) (\<lambda>(n, x2).
            let x3 = set_publish_job job (\<lambda>q. q\<lparr>pj_status := ''succeeded'', pj_scheduled_for := None, pj_updated_at := t\<rparr>) x2;
                ds = (case find_revision (pj_platform_variant_revision_id p) x3 of
                        None \<Rightarrow> None | Some r \<Rightarrow> revision_dispatch r x3);
                x4 = put_dispatch (map_option ad_id ds) job x3
            in Inr (Publication_Out n False,
                 log_event env (pj_workflow_job_id p) ''telegram.publish.reconciled_published'' ''operator''
                   (event_data lib b job rs (reconciliation_generation a)
                     [(KStr ''publication_id'', PStr (pn_id n))]) x4))))"

section \<open>The request\<close>

text \<open>\<open>available\<close> is the answer of the capability service for the destination.\<close>

definition reconcile_publish_job ::
  "env \<Rightarrow> lib \<Rightarrow> (job_error + capability_status) \<Rightarrow> uuid \<Rightarrow> reconcile_in \<Rightarrow> pub_db \<Rightarrow>
   reconcile_error + reconciled \<times> pub_db" where
  "reconcile_publish_job env lib available i b x =
     (let missing = Inl (Http 404 ''Telegram publish job not found'') in
      case find_publish_job i x of
        None \<Rightarrow> missing
      | Some p \<Rightarrow>
          (case find_destination (pj_destination_id p) x of
             None \<Rightarrow> missing
           | Some d \<Rightarrow>
               if de_platform d \<noteq> ''telegram'' then missing
               else result_bind (if rc_outcome b = ''not_published'' then map_sum Unavailable (\<lambda>_. ()) available else Inr ()) (\<lambda>_.
                 let rs = receipts_of (pj_id p) x; h = decision_hash lib b; events = reconciliation_events (pj_id p) x;
                     hash_of = (\<lambda>e. dict_get (we_event_data e) ''decision_hash'') in
                 case find (\<lambda>e. matches_generation e rs) events of
                   Some e \<Rightarrow>
                     if hash_of e \<noteq> Some (PStr h) then Inl (Http 409 ''Conflicting reconciliation decision'')
                     else map_sum id (\<lambda>r. (r, x)) (replay_reconciliation_decision e (pj_id p) rs x)
                 | None \<Rightarrow>
                     if list_ex (\<lambda>e. hash_of e = Some (PStr h)) events
                     then Inl (Http 409 ''Stale reconciliation decision'')
                     else case validate_reconciliation rs (rc_outcome b) (rc_remote_message_ids b) of
                       Inl (code, m) \<Rightarrow> Inl (Http 409 m)
                     | Inr a \<Rightarrow>
                         if rc_outcome b = ''not_published''
                         then requeue_not_published env lib b (pj_id p) a (env_now env) x
                         else confirm_published env lib b p d a (env_now env) x)))"

end
