(* ===== verification/Publish_Receipts.thy ===== *)
theory Publish_Receipts
  imports Telegram_Reconcile
begin

text \<open>
  The life cycle of a receipt and how every transaction of the program moves the receipts along it.  A
  \<open>move\<close> is one arrow of the cycle, a \<open>change\<close> what one transaction does to the table: nothing, the rows of
  a new plan, one move of one row, or the doubts a recovery sweep raises.
\<close>

section \<open>Moves and changes\<close>

datatype arrow = Take | Doubt | Again | Give_Up | Succeed | Reopen | Confirm

definition rkey :: "publish_receipt \<Rightarrow> uuid \<times> int" where
  "rkey r = (po_publish_job_id r, po_operation_index r)"

definition same_operation :: "publish_receipt \<Rightarrow> publish_receipt \<Rightarrow> bool" where
  "same_operation r r' =
     (po_id r' = po_id r \<and> rkey r' = rkey r \<and> receipt_signature r' = receipt_signature r \<and> po_created_at r' = po_created_at r)"

fun arrow_ends :: "arrow \<Rightarrow> string \<times> string" where
  "arrow_ends Take = (''pending'', ''dispatching'')"
| "arrow_ends Doubt = (''dispatching'', ''ambiguous'')"
| "arrow_ends Again = (''dispatching'', ''pending'')"
| "arrow_ends Give_Up = (''dispatching'', ''failed'')"
| "arrow_ends Succeed = (''dispatching'', ''succeeded'')"
| "arrow_ends Reopen = (''ambiguous'', ''pending'')"
| "arrow_ends Confirm = (''ambiguous'', ''succeeded'')"

definition move :: "arrow \<Rightarrow> publish_receipt \<Rightarrow> publish_receipt \<Rightarrow> bool" where
  "move m r r' =
     (same_operation r r' \<and> arrow_ends m = (po_status r, po_status r') \<and>
      po_attempt_count r' = po_attempt_count r + (if m = Take then 1 else 0) \<and>
      (m \<notin> {Succeed, Confirm, Reopen} \<longrightarrow> po_remote_message_ids r' = po_remote_message_ids r))"

datatype change_label = Keep | Created uuid | Moved "uuid \<times> int" arrow | Doubted

inductive change :: "change_label \<Rightarrow> publish_receipt list \<Rightarrow> publish_receipt list \<Rightarrow> bool" where
  keep: "change Keep rs rs"
| created: "(\<And>r. r \<in> set rs \<Longrightarrow> po_publish_job_id r \<noteq> i) \<Longrightarrow>
    (\<And>r. r \<in> set news \<Longrightarrow> po_publish_job_id r = i \<and> po_status r = ''pending'' \<and> po_attempt_count r = 0) \<Longrightarrow>
    map po_operation_index news = map int [0..<length news] \<Longrightarrow> change (Created i) rs (rs @ news)"
| moved: "find (\<lambda>r. rkey r = key) rs = Some r \<Longrightarrow> move m r (f r) \<Longrightarrow> (\<And>q. rkey (f q) = rkey q) \<Longrightarrow>
    change (Moved key m) rs (set_rows (\<lambda>r. rkey r = key) f rs)"
| doubted: "list_all2 (\<lambda>r r'. r' = r \<or> move Doubt r r') rs rs' \<Longrightarrow> change Doubted rs rs'"

lemma rkey_update [simp]:
  "rkey (po_status_update f1 r) = rkey r" "rkey (po_attempt_count_update f2 r) = rkey r"
  "rkey (po_remote_message_ids_update f3 r) = rkey r" "rkey (po_response_metadata_update f4 r) = rkey r"
  "rkey (po_next_attempt_at_update f5 r) = rkey r" "rkey (po_ambiguous_at_update f6 r) = rkey r"
  "rkey (po_completed_at_update f7 r) = rkey r" "rkey (po_updated_at_update f8 r) = rkey r"
  by (simp_all add: rkey_def)

lemma receipt_signature_update [simp]:
  "receipt_signature (po_status_update f1 r) = receipt_signature r" "receipt_signature (po_attempt_count_update f2 r) = receipt_signature r"
  "receipt_signature (po_remote_message_ids_update f3 r) = receipt_signature r"
  "receipt_signature (po_response_metadata_update f4 r) = receipt_signature r"
  "receipt_signature (po_next_attempt_at_update f5 r) = receipt_signature r"
  "receipt_signature (po_ambiguous_at_update f6 r) = receipt_signature r"
  "receipt_signature (po_completed_at_update f7 r) = receipt_signature r" "receipt_signature (po_updated_at_update f8 r) = receipt_signature r"
  by (simp_all add: receipt_signature_def)

abbreviation receipts :: "pub_db \<Rightarrow> publish_receipt list" where
  "receipts x \<equiv> db_publish_receipts (pu_db x)"

lemma find_receipt_key: "find_receipt i k x = find (\<lambda>r. rkey r = (i, k)) (receipts x)"
  by (simp add: find_receipt_def rkey_def)

lemma find_receipt_in:
  assumes "find_receipt i k x = Some r"
  shows "r \<in> set (receipts x) \<and> po_publish_job_id r = i \<and> po_operation_index r = k"
  using find_Some_in [OF assms [unfolded find_receipt_def]] by simp

lemma receipts_put_receipt: "receipts (put_receipt i k f x) = set_rows (\<lambda>r. rkey r = (i, k)) f (receipts x)"
  by (simp add: put_receipt_def on_db_def rkey_def)

lemma in_receipts_of: "r \<in> set (receipts_of i x) \<longleftrightarrow> r \<in> set (receipts x) \<and> po_publish_job_id r = i"
  by (auto simp: receipts_of_def)

section \<open>What the writes leave unchanged\<close>

lemma receipts_frame [frame_simps]:
  "receipts (put_publish_job env i g x) = receipts x"
  "receipts (put_attempt i h x) = receipts x"
  "receipts (put_status env i s x) = receipts x"
  "receipts (put_dispatch j i x) = receipts x"
  "receipts (log_event env j ty actor data x) = receipts x"
  "receipts (close_running_attempts env i st cls code m t x) = receipts x"
  "receipts (finish_claim_attempt env i t st cls code m x) = receipts x"
  "receipts (release_claim_for_retry env c u competing t x) = receipts x"
  "receipts (mark_publish_blocked env i code x) = receipts x"
  "receipts (set_publish_job i g x) = receipts x"
  by (simp_all add: put_publish_job_def put_attempt_def put_status_def put_dispatch_def log_event_def close_running_attempts_def
      finish_claim_attempt_def release_claim_for_retry_def mark_publish_blocked_def set_publish_job_def on_db_def
      append_event_def Let_def split: option.split)

lemma publications_frame [frame_simps]:
  "pu_publications (on_db g x) = pu_publications x"
  "pu_publications (put_publish_job env i h x) = pu_publications x"
  "pu_publications (put_attempt i h' x) = pu_publications x"
  "pu_publications (put_status env i s x) = pu_publications x"
  "pu_publications (put_receipt i k f x) = pu_publications x"
  "pu_publications (put_dispatch j i x) = pu_publications x"
  "pu_publications (log_event env j ty actor data x) = pu_publications x"
  "pu_publications (close_running_attempts env i st cls code m t x) = pu_publications x"
  "pu_publications (finish_claim_attempt env i t st cls code m x) = pu_publications x"
  "pu_publications (release_claim_for_retry env c u competing t x) = pu_publications x"
  "pu_publications (mark_publish_blocked env i code x) = pu_publications x"
  "pu_publications (set_publish_job i h x) = pu_publications x"
  by (simp_all add: put_publish_job_def put_attempt_def put_status_def put_dispatch_def log_event_def close_running_attempts_def
      finish_claim_attempt_def release_claim_for_retry_def mark_publish_blocked_def set_publish_job_def put_receipt_def on_db_def
      Let_def split: option.split)

section \<open>Moves\<close>

lemma flush_receipt_simps [simp]:
  "po_id (flush_receipt env r r') = po_id r'" "po_publish_job_id (flush_receipt env r r') = po_publish_job_id r'"
  "po_operation_index (flush_receipt env r r') = po_operation_index r'" "rkey (flush_receipt env r r') = rkey r'"
  "receipt_signature (flush_receipt env r r') = receipt_signature r'" "po_status (flush_receipt env r r') = po_status r'"
  "po_attempt_count (flush_receipt env r r') = po_attempt_count r'"
  "po_remote_message_ids (flush_receipt env r r') = po_remote_message_ids r'"
  "po_created_at (flush_receipt env r r') = po_created_at r'"
  by (auto simp: flush_receipt_def rkey_def receipt_signature_def)

lemma take_move: "po_status r = ''pending'' \<Longrightarrow> move Take r (take_claim t r)"
  by (simp add: move_def same_operation_def take_claim_def)

lemma doubt_move: "po_status r = ''dispatching'' \<Longrightarrow> move Doubt r (doubt_receipt env t r)"
  by (simp add: move_def same_operation_def doubt_receipt_def)

section \<open>The operations of a plan are numbered\<close>

lemma map_result_Inr: "map_result f xs = Inr ys \<longleftrightarrow> list_all2 (\<lambda>x y. f x = Inr y) xs ys"
proof (induction xs arbitrary: ys)
  case (Cons x xs)
  then show ?case by (cases ys) (auto simp: result_bind_eq_Inr)
qed auto

lemma operation_of_index: "operation_of rn k r = Inr op \<Longrightarrow> op_index op = int k"
  by (auto simp: operation_of_def Let_def result_bind_eq_Inr split: prod.splits)

lemma map_op_index:
  assumes "map_result (\<lambda>(k, r). operation_of rn k r) (List.enumerate n rs) = Inr ops"
  shows "map op_index ops = map int [n..<n + length rs]"
  using assms
proof (induction rs arbitrary: n ops)
  case (Cons r rs)
  then obtain op ops' where o: "operation_of rn n r = Inr op" "ops = op # ops'"
    "map_result (\<lambda>(k, r). operation_of rn k r) (List.enumerate (Suc n) rs) = Inr ops'"
    by (auto simp: result_bind_eq_Inr)
  then show ?case using Cons.IH [OF o(3)] operation_of_index [OF o(1)] by (simp add: upt_conv_Cons del: upt_Suc)
qed auto

lemma plan_indexes:
  assumes "build_publish_plan rn r media d = Inr plan"
  shows "map op_index (pl_operations plan) = map int [0..<length (pl_operations plan)]"
proof -
  obtain rendered ops where "map_result (\<lambda>(k, r). operation_of rn k r) (List.enumerate 0 rendered) = Inr ops" "pl_operations plan = ops"
    using assms by (auto simp: build_publish_plan_def Let_def result_bind_eq_Inr split: option.splits)
  moreover from map_op_index [OF this(1)] have "map op_index ops = map int [0..<length rendered]" by simp
  moreover from this have "length ops = length rendered" by (metis length_map length_upt minus_nat.diff_0)
  ultimately show ?thesis by simp
qed

section \<open>The effect of each transaction\<close>

lemma new_receipts_created:
  assumes "receipts_of i x = []" "map op_index ops = map int [0..<length ops]"
  shows "change (Created i) (receipts x) (receipts (add_receipts env i ops x))"
    "\<forall>r\<in>set (receipts_of i (add_receipts env i ops x)). po_status r = ''pending''"
proof -
  define news where "news = map (\<lambda>(k, op). new_receipt env (env_uuid env (db_seq (pu_db x) + k)) i op) (List.enumerate 0 ops)"
  have x': "receipts (add_receipts env i ops x) = receipts x @ news" by (simp add: add_receipts_def on_db_def news_def)
  have new: "po_publish_job_id r = i \<and> po_status r = ''pending'' \<and> po_attempt_count r = 0" if "r \<in> set news" for r
    using that by (auto simp: news_def new_receipt_def)
  have old: "po_publish_job_id r \<noteq> i" if "r \<in> set (receipts x)" for r
    using that in_receipts_of [of r i x] unfolding assms(1) by simp
  have "map po_operation_index news = map (\<lambda>op. op_index op) (map snd (List.enumerate 0 ops))"
    unfolding news_def map_map by (rule map_cong) (auto simp: new_receipt_def)
  then have "map po_operation_index news = map int [0..<length news]"
    by (simp add: assms(2) news_def)
  then show "change (Created i) (receipts x) (receipts (add_receipts env i ops x))"
    unfolding x' using old new by (intro change.created) blast+
  show "\<forall>r\<in>set (receipts_of i (add_receipts env i ops x)). po_status r = ''pending''"
  proof
    fix r assume "r \<in> set (receipts_of i (add_receipts env i ops x))"
    then have "r \<in> set (receipts x @ news)" "po_publish_job_id r = i"
      using in_receipts_of [of r i "add_receipts env i ops x"] unfolding x' by blast+
    then show "po_status r = ''pending''" using old [of r] new [of r] by simp blast
  qed
qed

lemma publications_add_receipts [frame_simps]: "pu_publications (add_receipts env i ops x) = pu_publications x"
  by (simp add: add_receipts_def frame_simps)

lemma find_status:
  assumes "find (\<lambda>r. po_status r = s) (receipts_of i x) = Some r"
  shows "r \<in> set (receipts x)" "po_publish_job_id r = i" "po_status r = s"
  using find_Some_in [OF assms] in_receipts_of [of r i x] by simp_all

text \<open>A row of the table is the one its key finds.\<close>

lemma find_key:
  assumes "distinct (map rkey rs)" "r \<in> set rs"
  shows "find (\<lambda>q. rkey q = rkey r) rs = Some r"
  using find_unique [OF assms] .

lemma moved_row:
  assumes "distinct (map rkey rs)" "r \<in> set rs" "rkey r = key" "move m r (f r)" "\<And>q. rkey (f q) = rkey q"
  shows "change (Moved key m) rs (set_rows (\<lambda>q. rkey q = key) f rs)"
  using change.moved [of key rs r m f] find_key [OF assms(1,2)] assms(3-5) by blast

lemma short_circuit_effect:
  assumes "publish_receipt_short_circuit env i t x = (a, x')" "distinct (map rkey (receipts x))"
  shows "pu_publications x' = pu_publications x"
    "receipts x' = receipts x \<or> (\<exists>key. change (Moved key Doubt) (receipts x) (receipts x') \<and>
        (\<exists>r\<in>set (receipts_of i x). po_status r = ''dispatching''))"
proof -
  have "pu_publications x' = pu_publications x \<and> (receipts x' = receipts x \<or>
      (\<exists>r. find (\<lambda>r. po_status r = ''dispatching'') (receipts_of i x) = Some r \<and>
           receipts x' = set_rows (\<lambda>q. rkey q = (i, po_operation_index r)) (doubt_receipt env t) (receipts x)))"
    using assms(1)
    by (auto simp: publish_receipt_short_circuit_def dispatching_receipt_result_def Let_def frame_simps receipts_put_receipt
        split: if_splits option.splits prod.splits)
  moreover have "\<exists>key. change (Moved key Doubt) (receipts x) (receipts x') \<and>
        (\<exists>r\<in>set (receipts_of i x). po_status r = ''dispatching'')"
    if r: "find (\<lambda>r. po_status r = ''dispatching'') (receipts_of i x) = Some r"
      "receipts x' = set_rows (\<lambda>q. rkey q = (i, po_operation_index r)) (doubt_receipt env t) (receipts x)" for r
  proof -
    note f = find_status [OF r(1)]
    have key: "rkey r = (i, po_operation_index r)" using f(2) by (simp add: rkey_def)
    have "change (Moved (rkey r) Doubt) (receipts x) (receipts x')"
      unfolding r(2) key [symmetric]
      by (rule moved_row [where f = "doubt_receipt env t", OF assms(2) f(1) refl doubt_move [OF f(3)]])
        (simp add: doubt_receipt_def rkey_def)
    then show ?thesis using f in_receipts_of [of r i x] by blast
  qed
  ultimately show "pu_publications x' = pu_publications x"
    "receipts x' = receipts x \<or> (\<exists>key. change (Moved key Doubt) (receipts x) (receipts x') \<and>
        (\<exists>r\<in>set (receipts_of i x). po_status r = ''dispatching''))"
    by blast+
qed

section \<open>Starting\<close>

text \<open>
  \<open>opens key p\<close>: the publisher holds a claim on the operation and has not sent it yet, or only has to file
  that it was not sent.
\<close>

definition retry_error :: "send_error \<Rightarrow> bool" where
  "retry_error e = (case classify_publication_failure e of Retry_In _ \<Rightarrow> True | _ \<Rightarrow> False)"

definition op_key_of :: "publish_context \<Rightarrow> publish_operation \<Rightarrow> uuid \<times> int" where
  "op_key_of c op = (px_publish_job_id c, op_index op)"

fun opens :: "uuid \<times> int \<Rightarrow> publisher \<Rightarrow> bool" where
  "opens key (Resolving c op ops n) = (op_key_of c op = key)"
| "opens key (Sending c op ops n token) = (op_key_of c op = key)"
| "opens key (Recording c op n e original) = (op_key_of c op = key \<and> retry_error e)"
| "opens key p = False"

text \<open>The publisher has the answer of a successful sending and has to store it.\<close>

fun stores :: "uuid \<times> int \<Rightarrow> publisher \<Rightarrow> bool" where
  "stores key (Persisting c op ops n token res) = (op_key_of c op = key)"
| "stores key p = False"

fun in_sending :: "publisher \<Rightarrow> bool" where
  "in_sending (Sending c op ops n token) = True"
| "in_sending p = False"

lemma plan_receipts_effect:
  assumes "load_publish_plan_receipts env lib r c d p x = Inr (plan, x1)" "distinct (map rkey (receipts x))"
  shows "pu_publications x1 = pu_publications x"
    "receipts x1 = receipts x \<or> change (Created (pj_id p)) (receipts x) (receipts x1) \<and>
       (\<forall>q\<in>set (receipts_of (pj_id p) x1). po_status q = ''pending'')"
proof -
  let ?y = "if receipts_of (pj_id p) x = [] then add_receipts env (pj_id p) (pl_operations plan) x else x"
  have p: "build_publish_plan (lb_render lib) r (plan_media c x) d = Inr plan"
    and x1: "x1 = put_publish_job env (pj_id p) (\<lambda>q. q\<lparr>pj_payload_hash := pl_payload_hash plan\<rparr>) ?y"
    using assms(1) by (auto simp: load_publish_plan_receipts_def Let_def split: sum.splits render_error.splits if_splits)
  show "pu_publications x1 = pu_publications x" by (simp add: x1 frame_simps)
  have same: "receipts x1 = receipts ?y" "receipts_of (pj_id p) x1 = receipts_of (pj_id p) ?y"
    by (simp_all add: x1 frame_simps receipts_of_def)
  have "map op_index (pl_operations plan) = map int [0..<length (pl_operations plan)]" by (rule plan_indexes [OF p])
  with new_receipts_created [of "pj_id p" x "pl_operations plan" env]
  show "receipts x1 = receipts x \<or> change (Created (pj_id p)) (receipts x) (receipts x1) \<and>
       (\<forall>q\<in>set (receipts_of (pj_id p) x1). po_status q = ''pending'')"
    unfolding same by simp
qed

lemma create_attempt_effect:
  "receipts (snd (create_publish_attempt env p r d plan t x)) = receipts x"
  "pu_publications (snd (create_publish_attempt env p r d plan t x)) = pu_publications x"
  by (simp_all add: create_publish_attempt_def Let_def on_db_def)

text \<open>The changes a publisher makes without giving a claim away or taking one.\<close>

fun closing :: "change_label \<Rightarrow> bool" where
  "closing Keep = True"
| "closing (Created i) = True"
| "closing (Moved key m) = (m \<in> {Doubt, Give_Up})"
| "closing Doubted = False"

definition small_change :: "publish_receipt list \<Rightarrow> publish_receipt list \<Rightarrow> bool" where
  "small_change rs rs' = (\<exists>l. change l rs rs' \<and> closing l)"

lemma small_changeI: "change l rs rs' \<Longrightarrow> closing l \<Longrightarrow> small_change rs rs'"
  unfolding small_change_def by blast

lemma small_refl [simp]: "small_change rs rs"
  by (rule small_changeI [OF change.keep]) simp

lemma load_context_Inr:
  assumes "load_context env lib i t e x = Inr (a, x')"
  shows "(\<exists>answer. a = Answered answer \<and> x' = x) \<or>
    (\<exists>r p c d plan x1. load_publish_plan_receipts env lib r c d p x = Inr (plan, x1) \<and>
       (case publish_receipt_short_circuit env (pj_id p) t x1 of
          (Some answer, x2) \<Rightarrow> a = Answered answer \<and> x' = x2
        | (None, x2) \<Rightarrow> x' = snd (create_publish_attempt env p r d plan t x2)))"
proof (cases "load_publish_intent i x")
  case (Inr intent)
  show ?thesis
  proof (cases intent)
    case (Inr answer)
    with \<open>load_publish_intent i x = Inr intent\<close> assms have "a = Answered answer \<and> x' = x" by (auto simp: load_context_def)
    then show ?thesis by blast
  next
    case (Inl rp)
    then obtain r p where rp: "intent = Inl (r, p)" by (cases rp) simp
    with \<open>load_publish_intent i x = Inr intent\<close> assms show ?thesis
      apply (simp add: load_context_def result_bind_eq_Inr)
      apply (elim exE conjE)
      apply (intro disjI2 exI conjI, assumption)
      apply (simp split: prod.splits option.splits)
      done
  qed
qed (use assms in \<open>simp add: load_context_def\<close>)

lemma created_distinct:
  assumes "change (Created i) rs rs'" "distinct (map rkey rs)"
  shows "distinct (map rkey rs')"
  using assms(1)
proof cases
  case (created news)
  have "rkey ` set rs \<inter> rkey ` set news = {}"
  proof (rule ccontr)
    assume "rkey ` set rs \<inter> rkey ` set news \<noteq> {}"
    then obtain r q where "r \<in> set rs" "q \<in> set news" "rkey r = rkey q" by blast
    with created(2) [of r] created(3) [of q] show False by (simp add: rkey_def)
  qed
  moreover have "map rkey news = map (\<lambda>k. (i, k)) (map po_operation_index news)"
    using created(3) by (simp add: rkey_def)
  then have "distinct (map rkey news)" unfolding created(4) by (simp add: distinct_map inj_on_def comp_def)
  ultimately show ?thesis using created(1) assms(2) by simp
qed

lemma load_context_effect:
  assumes "load_context env lib i t e x = Inr (a, x')" "distinct (map rkey (receipts x))"
  shows "pu_publications x' = pu_publications x \<and> small_change (receipts x) (receipts x')"
  using load_context_Inr [OF assms(1)]
proof (elim disjE exE conjE)
  fix r p c d plan x1
  assume l: "load_publish_plan_receipts env lib r c d p x = Inr (plan, x1)"
    "case publish_receipt_short_circuit env (pj_id p) t x1 of
       (Some answer, x2) \<Rightarrow> a = Answered answer \<and> x' = x2
     | (None, x2) \<Rightarrow> x' = snd (create_publish_attempt env p r d plan t x2)"
  obtain sc x2 where sc: "publish_receipt_short_circuit env (pj_id p) t x1 = (sc, x2)" by force
  note p = plan_receipts_effect [OF l(1) assms(2)]
  have d1: "distinct (map rkey (receipts x1))" using p(2) created_distinct assms(2) by metis
  have e: "receipts x' = receipts x2" "pu_publications x' = pu_publications x2"
    using l(2) create_attempt_effect [of env p r d plan t x2] unfolding sc by (auto split: option.splits)
  have "small_change (receipts x) (receipts x2)"
    using p(2) short_circuit_effect(2) [OF sc d1]
  proof (elim disjE exE conjE)
    fix key assume "receipts x1 = receipts x" "change (Moved key Doubt) (receipts x1) (receipts x2)"
    then show ?thesis using small_changeI [of "Moved key Doubt"] by simp
  next
    assume "change (Created (pj_id p)) (receipts x) (receipts x1)" "receipts x2 = receipts x1"
    then show ?thesis using small_changeI [of "Created (pj_id p)"] by simp
  next
    assume "\<forall>q\<in>set (receipts_of (pj_id p) x1). po_status q = ''pending''"
      "\<exists>r\<in>set (receipts_of (pj_id p) x1). po_status r = ''dispatching''"
    then show ?thesis by fastforce
  qed simp
  with p(1) short_circuit_effect(1) [OF sc d1] e show ?thesis by simp
qed simp

lemma start_effect:
  assumes "start_publish inp i e x = (p', x')" "distinct (map rkey (receipts x))"
  shows "pu_publications x' = pu_publications x" "small_change (receipts x) (receipts x')" "\<not> opens key p'"
proof -
  have "x' = x \<or> (\<exists>a. load_context (in_env inp) (in_lib inp) i (env_now (in_env inp)) e x = Inr (a, x'))" "\<not> opens key p'"
    using assms(1) by (auto simp: start_publish_def split: sum.splits handler_error.splits prod.splits prepared.splits)
  then show "pu_publications x' = pu_publications x" "small_change (receipts x) (receipts x')" "\<not> opens key p'"
    using load_context_effect [OF _ assms(2)] by auto
qed

section \<open>Claiming, filing and storing\<close>

lemma found_moved:
  assumes "find_receipt i k x = Some r" "move m r (f r)" "\<And>q. rkey (f q) = rkey q"
  shows "change (Moved (i, k) m) (receipts x) (receipts (put_receipt i k f x))"
  unfolding receipts_put_receipt using change.moved [OF assms(1) [unfolded find_receipt_key] assms(2,3)] .

lemma claim_effect:
  assumes "claim_step inp c op ops token x = (p', x')"
  shows "pu_publications x' = pu_publications x"
    "receipts x' = receipts x \<and> (\<forall>key. \<not> opens key p') \<or>
     change (Moved (op_key_of c op) Take) (receipts x) (receipts x') \<and> (\<forall>key. opens key p' \<longrightarrow> key = op_key_of c op)"
proof -
  let ?env = "in_env inp"
  show "pu_publications x' = pu_publications x"
    using assms by (auto simp: claim_step_def claim_operation_def apply_claim_state_def Let_def frame_simps
      split: sum.splits option.splits handler_error.splits claim_outcome.splits if_splits)
  show "receipts x' = receipts x \<and> (\<forall>key. \<not> opens key p') \<or>
     change (Moved (op_key_of c op) Take) (receipts x) (receipts x') \<and> (\<forall>key. opens key p' \<longrightarrow> key = op_key_of c op)"
  proof (cases "\<exists>n y. claim_operation ?env (in_lib inp) c op (env_now ?env) x = Inr (Claimed_Count n, y)")
    case True
    then obtain n y where cl: "claim_operation ?env (in_lib inp) c op (env_now ?env) x = Inr (Claimed_Count n, y)" by blast
    then obtain r where r: "find_receipt (px_publish_job_id c) (op_index op) x = Some r" "po_status r = ''pending''"
      "y = put_status ?env (px_publish_job_id c) ''dispatching'' (put_receipt (px_publish_job_id c) (po_operation_index r) (take_claim (env_now ?env)) x)"
      by (auto simp: claim_operation_def apply_claim_state_def Let_def result_bind_eq_Inr
          split: sum.splits option.splits handler_error.splits if_splits)
    have x': "x' = y" and p': "\<And>key. opens key p' \<Longrightarrow> key = op_key_of c op"
      using assms cl by (auto simp: claim_step_def split: option.splits)
    have "po_operation_index r = op_index op" using find_receipt_in [OF r(1)] by simp
    with found_moved [where f = "take_claim (env_now ?env)", OF r(1) take_move [OF r(2)]] r(3) x' p'
    show ?thesis by (simp add: frame_simps op_key_of_def take_claim_def rkey_def)
  next
    case False
    then have "receipts x' = receipts x \<and> (\<forall>key. \<not> opens key p')"
      using assms
      by (auto simp: claim_step_def claim_operation_def apply_claim_state_def Let_def frame_simps
          split: sum.splits option.splits handler_error.splits claim_outcome.splits if_splits)
    then show ?thesis by blast
  qed
qed

fun filing_arrow :: "failure_decision \<Rightarrow> arrow" where
  "filing_arrow (Retry_In n) = Again"
| "filing_arrow Reconcile = Doubt"
| "filing_arrow Terminal = Give_Up"

lemma filing_keeps:
  "po_id (fl_receipt (file_failure e t) r) = po_id r" "rkey (fl_receipt (file_failure e t) r) = rkey r"
  "receipt_signature (fl_receipt (file_failure e t) r) = receipt_signature r"
  "po_created_at (fl_receipt (file_failure e t) r) = po_created_at r"
  "po_attempt_count (fl_receipt (file_failure e t) r) = po_attempt_count r"
  "po_remote_message_ids (fl_receipt (file_failure e t) r) = po_remote_message_ids r"
  "po_status (fl_receipt (file_failure e t) r) = snd (arrow_ends (filing_arrow (classify_publication_failure e)))"
  by (auto simp: file_failure_def retry_filing_def rkey_def receipt_signature_def
      split: failure_decision.splits send_error.splits client_error.splits)

lemma filing_dispatching: "fst (arrow_ends (filing_arrow d)) = ''dispatching''"
  by (cases d) simp_all

lemma record_effect:
  assumes "record_failure env c op n e t x = (m, x')"
  shows "pu_publications x' = pu_publications x"
    "receipts x' = receipts x \<or>
     change (Moved (op_key_of c op) (filing_arrow (classify_publication_failure e))) (receipts x) (receipts x')"
proof -
  let ?md = "redact_event_data (env_redact env) (error_metadata e)"
  let ?f = "\<lambda>r. flush_receipt env r (fl_receipt (file_failure e t) (r\<lparr>po_response_metadata := ?md\<rparr>))"
  have "pu_publications x' = pu_publications x \<and> (receipts x' = receipts x \<or>
     (\<exists>r. find_receipt (px_publish_job_id c) (op_index op) x = Some r \<and> holds_claim r n \<and>
          receipts x' = receipts (put_receipt (px_publish_job_id c) (op_index op) ?f x)))"
    using assms by (auto simp: record_failure_def Let_def frame_simps split: option.splits if_splits)
  moreover have "change (Moved (op_key_of c op) (filing_arrow (classify_publication_failure e))) (receipts x) (receipts x')"
    if r: "find_receipt (px_publish_job_id c) (op_index op) x = Some r" "holds_claim r n"
      "receipts x' = receipts (put_receipt (px_publish_job_id c) (op_index op) ?f x)" for r
    unfolding r(3) op_key_of_def
  proof (rule found_moved [OF r(1)])
    have "rkey (r\<lparr>po_response_metadata := ?md\<rparr>) = rkey r" "receipt_signature (r\<lparr>po_response_metadata := ?md\<rparr>) = receipt_signature r" for r
      by (simp_all add: rkey_def receipt_signature_def)
    with r(2) filing_dispatching [of "classify_publication_failure e"]
    show "move (filing_arrow (classify_publication_failure e)) r (?f r)" "\<And>q. rkey (?f q) = rkey q"
      by (auto simp: move_def same_operation_def filing_keeps holds_claim_def prod_eq_iff)
  qed
  ultimately show "pu_publications x' = pu_publications x" "receipts x' = receipts x \<or>
     change (Moved (op_key_of c op) (filing_arrow (classify_publication_failure e))) (receipts x) (receipts x')" by blast+
qed

lemma persist_effect:
  assumes "persist_operation_receipt env ce c op n res token t x = Inr x'"
  shows "pu_publications x' = pu_publications x" "change (Moved (op_key_of c op) Succeed) (receipts x) (receipts x')"
proof -
  let ?f = "\<lambda>r. flush_receipt env r (r\<lparr>po_status := ''succeeded'', po_remote_message_ids := or_remote_message_ids res,
                    po_response_metadata := redact_with (ce_redact ce token) (or_response_metadata res), po_completed_at := Some t\<rparr>)"
  obtain r where r: "find_receipt (px_publish_job_id c) (op_index op) x = Some r" "holds_claim r n"
    "x' = put_receipt (px_publish_job_id c) (op_index op) ?f x"
    using assms by (auto simp: persist_operation_receipt_def split: option.splits if_splits)
  show "pu_publications x' = pu_publications x" by (simp add: r(3) frame_simps)
  show "change (Moved (op_key_of c op) Succeed) (receipts x) (receipts x')"
    unfolding r(3) op_key_of_def
    by (rule found_moved [OF r(1)])
      (use r(2) in \<open>simp_all add: move_def same_operation_def holds_claim_def\<close>)
qed

section \<open>The last transaction\<close>

text \<open>A publication is recorded once per job, from receipts that all succeeded.\<close>

definition records_publication :: "pub_db \<Rightarrow> pub_db \<Rightarrow> bool" where
  "records_publication x x' \<longleftrightarrow>
     (\<exists>n. pu_publications x' = pu_publications x @ [n] \<and> publication_of (pn_publish_job_id n) x = None \<and>
        (\<forall>r\<in>set (receipts_of (pn_publish_job_id n) x'). po_status r = ''succeeded'') \<and>
        ordered_receipt_remote_ids (receipts_of (pn_publish_job_id n) x') = Inr (pn_remote_message_ids n))"

lemma on_db_seq [frame_simps]: "receipts (on_db (\<lambda>d. d\<lparr>db_seq := Suc (db_seq d)\<rparr>) x) = receipts x"
  by (simp add: on_db_def)

lemma receipts_with_publications [simp]: "receipts (x\<lparr>pu_publications := ns\<rparr>) = receipts x"
  by simp

lemma finalize_effect:
  assumes "finalize_publication env c t x = Inr (d, x')"
  shows "receipts x' = receipts x"
    "pu_publications x' = pu_publications x \<or> records_publication x x'"
proof -
  from assms obtain p a rs where l1: "load_completed_publish_state c x = Inr (p, a, rs)"
    by (auto simp: finalize_publication_def result_bind_eq_Inr)
  from assms l1 obtain ids where l2: "ordered_receipt_remote_ids rs = Inr ids"
    by (cases "ordered_receipt_remote_ids rs") (auto simp: finalize_publication_def)
  from assms l1 l2 obtain n x1 where l3: "get_or_create_publication env c p ids t x = Inr (n, x1)"
    and x': "receipts x' = receipts x1" "pu_publications x' = pu_publications x1"
    by (auto simp: finalize_publication_def result_bind_eq_Inr frame_simps split: if_splits)
  note l = l1 l2 l3
  from l(1) have rs: "rs = receipts_of (pj_id p) x" "\<forall>r\<in>set rs. po_status r = ''succeeded''"
    by (auto simp: load_completed_publish_state_def Let_def find_publish_job_def list_ex_iff dest!: find_Some_in
        split: option.splits if_splits)
  show same: "receipts x' = receipts x"
    using l(3) by (auto simp: x' get_or_create_publication_def Let_def frame_simps split: option.splits if_splits)
  show "pu_publications x' = pu_publications x \<or> records_publication x x'"
  proof (cases "publication_of (pj_id p) x")
    case None
    then obtain m where m: "pu_publications x1 = pu_publications x @ [m]" "pn_publish_job_id m = pj_id p" "pn_remote_message_ids m = ids"
      using l(3) by (auto simp: get_or_create_publication_def Let_def split: if_splits)
    have "receipts_of (pj_id p) x' = rs" by (simp add: rs(1) receipts_of_def same)
    with m None l(2) rs(2) have "pu_publications x' = pu_publications x @ [m] \<and> publication_of (pn_publish_job_id m) x = None \<and>
        (\<forall>r\<in>set (receipts_of (pn_publish_job_id m) x'). po_status r = ''succeeded'') \<and>
        ordered_receipt_remote_ids (receipts_of (pn_publish_job_id m) x') = Inr (pn_remote_message_ids m)"
      by (simp add: x'(2))
    then show ?thesis unfolding records_publication_def by blast
  next
    case (Some m)
    then show ?thesis using l(3) by (simp add: get_or_create_publication_def x')
  qed
qed

section \<open>Every step of a publisher but the sending\<close>

lemma resolved_not_retry: "resolve_destination_secret s ref = Inl e \<Longrightarrow> \<not> retry_error e"
  by (auto simp: resolve_destination_secret_def retry_error_def split: option.splits pyval.splits if_splits)

text \<open>
  A publisher opens an operation only by taking its claim, and gives the claim back only when it had not
  sent it.
\<close>

definition publisher_effect :: "publisher \<Rightarrow> publisher \<Rightarrow> publish_receipt list \<Rightarrow> publish_receipt list \<Rightarrow> bool" where
  "publisher_effect p p' rs rs' = (\<exists>l. change l rs rs' \<and>
    (closing l \<and> (\<forall>key. opens key p' \<longrightarrow> opens key p) \<or>
     (\<exists>key. l = Moved key Succeed \<and> stores key p \<and> (\<forall>k. \<not> opens k p')) \<or>
     (\<exists>key. l = Moved key Take \<and> (\<forall>k. opens k p' \<longrightarrow> k = key)) \<or>
     (\<exists>key. l = Moved key Again \<and> opens key p \<and> (\<forall>k. \<not> opens k p'))))"

lemma effect_closing: "change l rs rs' \<Longrightarrow> closing l \<Longrightarrow> (\<And>key. opens key p' \<Longrightarrow> opens key p) \<Longrightarrow> publisher_effect p p' rs rs'"
  unfolding publisher_effect_def by blast

lemma effect_keep: "rs' = rs \<Longrightarrow> (\<And>key. opens key p' \<Longrightarrow> opens key p) \<Longrightarrow> publisher_effect p p' rs rs'"
  using effect_closing [OF change.keep] by simp

lemma effect_store: "change (Moved key Succeed) rs rs' \<Longrightarrow> stores key p \<Longrightarrow> (\<And>k. \<not> opens k p') \<Longrightarrow> publisher_effect p p' rs rs'"
  unfolding publisher_effect_def by blast

lemma effect_take: "change (Moved key Take) rs rs' \<Longrightarrow> (\<And>k. opens k p' \<Longrightarrow> k = key) \<Longrightarrow> publisher_effect p p' rs rs'"
  unfolding publisher_effect_def by blast

lemma effect_again: "change (Moved key Again) rs rs' \<Longrightarrow> opens key p \<Longrightarrow> (\<And>k. \<not> opens k p') \<Longrightarrow> publisher_effect p p' rs rs'"
  unfolding publisher_effect_def by blast

lemma advance_effect:
  assumes "advance inp p x = (p', x')" "\<not> in_sending p" "distinct (map rkey (receipts x))"
  shows "publisher_effect p p' (receipts x) (receipts x')"
    "pu_publications x' = pu_publications x \<or> records_publication x x'"
proof -
  let ?pubs = "pu_publications x' = pu_publications x \<or> records_publication x x'"
  have "publisher_effect p p' (receipts x) (receipts x') \<and> ?pubs"
  proof (cases p)
    case (Starting i e)
    then have "start_publish inp i e x = (p', x')" using assms(1) by simp
    note s = start_effect [OF this assms(3)]
    from s(2) obtain l where l: "change l (receipts x) (receipts x')" "closing l" unfolding small_change_def by blast
    show ?thesis using s(1) effect_closing [OF l] s(3) by blast
  next
    case (Claiming c ops token)
    show ?thesis
    proof (cases ops)
      case Nil
      then have "(x' = x \<or> (\<exists>d. finalize_publication (in_env inp) c (env_now (in_env inp)) x = Inr (d, x'))) \<and> (\<forall>key. \<not> opens key p')"
        using assms(1) Claiming by (auto simp: finish_publish_def split: if_splits sum.splits)
      then show ?thesis using finalize_effect effect_keep by metis
    next
      case (Cons op ops')
      then have "claim_step inp c op ops' token x = (p', x')" using assms(1) Claiming by simp
      note c = claim_effect [OF this]
      from c(2) have "publisher_effect p p' (receipts x) (receipts x')" by (metis effect_keep effect_take)
      with c(1) show ?thesis by simp
    qed
  next
    case (Resolving c op ops n)
    then have "x' = x" "\<And>key. opens key p' \<Longrightarrow> opens key p" using assms(1) resolved_not_retry by (auto split: sum.splits)
    then show ?thesis using effect_keep by simp
  next
    case (Recording c op n e original)
    then obtain m where r: "record_failure (in_env inp) c op n e (env_now (in_env inp)) x = (m, x')" and p': "\<And>k. \<not> opens k p'"
      using assms(1) by (auto split: prod.splits)
    note f = record_effect [OF r]
    from f(2) have "publisher_effect p p' (receipts x) (receipts x')"
    proof
      assume ch: "change (Moved (op_key_of c op) (filing_arrow (classify_publication_failure e))) (receipts x) (receipts x')"
      show ?thesis
      proof (cases "retry_error e")
        case True
        then have "opens (op_key_of c op) p" "filing_arrow (classify_publication_failure e) = Again"
          by (auto simp: Recording retry_error_def split: failure_decision.splits)
        then show ?thesis using effect_again ch p' by simp
      next
        case False
        then have "closing (Moved (op_key_of c op) (filing_arrow (classify_publication_failure e)))"
          by (cases "classify_publication_failure e") (auto simp: retry_error_def)
        then show ?thesis using effect_closing [OF ch] p' by blast
      qed
    qed (use effect_keep p' in blast)
    with f(1) show ?thesis by simp
  next
    case (Persisting c op ops n token res)
    show ?thesis
    proof (cases "persist_operation_receipt (in_env inp) (in_client inp) c op n res token (env_now (in_env inp)) x")
      case (Inl e)
      then have "x' = x" "\<And>k. \<not> opens k p'" using assms(1) Persisting by auto
      then show ?thesis using effect_keep [OF refl, of p' p "receipts x"] by simp
    next
      case (Inr y)
      then have y: "p' = Claiming c ops (Some token)" "y = x'" using assms(1) Persisting by auto
      note e = persist_effect [OF Inr [unfolded y(2)]]
      have "publisher_effect p p' (receipts x) (receipts x')" by (rule effect_store [OF e(2)]) (simp_all add: Persisting y(1))
      with e(1) show ?thesis by simp
    qed
  next
    case (Blocking i code e)
    then have "receipts x' = receipts x" "pu_publications x' = pu_publications x" "\<And>k. \<not> opens k p'"
      using assms(1) by (auto simp: frame_simps)
    then show ?thesis using effect_keep [of "receipts x'" "receipts x" p' p] by simp
  next
    case (Releasing c u competing)
    then have "receipts x' = receipts x" "pu_publications x' = pu_publications x" "\<And>k. \<not> opens k p'"
      using assms(1) by (auto simp: frame_simps)
    then show ?thesis using effect_keep [of "receipts x'" "receipts x" p' p] by simp
  next
    case (Stopped r)
    then have "receipts x' = receipts x" "pu_publications x' = pu_publications x" "\<And>k. \<not> opens k p'"
      using assms(1) by (auto simp: frame_simps)
    then show ?thesis using effect_keep [of "receipts x'" "receipts x" p' p] by simp
  qed (use assms(2) in simp)
  then show "publisher_effect p p' (receipts x) (receipts x')" ?pubs by blast+
qed

section \<open>Queue operations\<close>

definition doubts :: "publish_receipt list \<Rightarrow> publish_receipt list \<Rightarrow> bool" where
  "doubts = list_all2 (\<lambda>r r'. r' = r \<or> move Doubt r r')"

lemma doubts_refl [simp]: "doubts rs rs"
  by (simp add: doubts_def list_all2_refl)

lemma doubts_trans: "doubts rs rs' \<Longrightarrow> doubts rs' rs'' \<Longrightarrow> doubts rs rs''"
  unfolding doubts_def by (rule list_all2_trans) (auto simp: move_def same_operation_def)

lemma doubts_mark_ambiguous: "doubts (db_publish_receipts db) (db_publish_receipts (mark_ambiguous env t p db))"
  by (auto simp: doubts_def mark_ambiguous_def set_rows_def list_all2_map2 list_all2_same move_def same_operation_def)

lemma put_job_receipts [frame_simps]: "db_publish_receipts (put_job env j db) = db_publish_receipts db"
  by (simp add: put_job_def)

lemma doubts_sync: "doubts (db_publish_receipts db) (db_publish_receipts (snd (sync_expired_publish_ambiguity env d t db)))"
proof -
  have "doubts (db_publish_receipts db) (db_publish_receipts (snd (foldl (\<lambda>(review, db) p.
      if dispatching_of d p = [] then (review, db) else (True, mark_ambiguous env t p db)) (b, db) ps)))" for b db ps
  proof (induction ps arbitrary: b db)
    case (Cons p ps)
    show ?case
    proof (cases "dispatching_of d p = []")
      case True
      then show ?thesis using Cons.IH [where b = b and db = db] by simp
    next
      case False
      then show ?thesis using doubts_trans [OF doubts_mark_ambiguous Cons.IH [where b = True and db = "mark_ambiguous env t p db"]] by simp
    qed
  qed simp
  then show ?thesis by (simp add: sync_expired_publish_ambiguity_def)
qed

lemma doubts_recover: "doubts (db_publish_receipts db) (db_publish_receipts (recover_job env d t j db))"
  using doubts_sync [of db env d t]
  by (simp add: recover_job_def Let_def split_beta frame_simps sync_terminal_expired_lease_dependents_def)

lemma doubts_requeue: "doubts (db_publish_receipts db) (db_publish_receipts (snd (requeue_loop env t cs (n, db))))"
proof (induction cs arbitrary: n db)
  case (Cons c cs)
  then show ?case using doubts_trans [OF doubts_recover Cons.IH] by (simp add: Let_def split: option.split)
qed simp

lemma enqueue_receipts:
  assumes "enqueue_job env r db = Inr (jc, db')"
  shows "db_publish_receipts db' = db_publish_receipts db"
  using assms
  by (auto simp: enqueue_job_def insert_job_def existing_job_result_def Let_def frame_simps result_bind_eq_Inr
      split: option.splits if_splits)

lemma control_receipts [frame_simps]: "db_publish_receipts (snd (update_control env p d r now db)) = db_publish_receipts db"
  by (simp add: update_control_def get_control_def Let_def split_beta split: option.split)

lemma queue_op_receipts:
  assumes "run_op env op db = Inr db'"
  shows "doubts (db_publish_receipts db) (db_publish_receipts db')"
proof (cases op)
  case (Requeue now)
  then show ?thesis using assms doubts_requeue by (auto simp: requeue_expired_leases_def Let_def)
next
  case (Enqueue r)
  then show ?thesis using assms enqueue_receipts [of env r db] by (cases "enqueue_job env r db") auto
next
  case (Claim w l a now)
  then show ?thesis using assms
    by (auto simp: claim_next_job_def Let_def frame_simps split: option.splits list.splits)
qed (use assms in \<open>auto simp: heartbeat_job_def update_progress_def checkpoint_job_def finish_job_def fail_job_def retry_job_def
      cancel_job_def Let_def frame_simps result_bind_eq_Inr map_sum_eq_Inr split: option.splits if_splits sum.splits\<close>)

section \<open>The operator's decision\<close>

definition doubtful_key :: "uuid \<Rightarrow> pub_db \<Rightarrow> uuid \<times> int" where
  "doubtful_key i x = (case find (\<lambda>r. po_status r = ''ambiguous'') (receipts_of i x) of
     None \<Rightarrow> (i, 0) | Some r \<Rightarrow> rkey r)"

lemma filter_one: "filter P xs = [a] \<Longrightarrow> find P xs = Some a \<and> a \<in> set xs \<and> P a \<and> (\<forall>b\<in>set xs. P b \<longrightarrow> b = a)"
proof (intro conjI)
  assume f: "filter P xs = [a]"
  then have "a \<in> set (filter P xs)" by simp
  then show "a \<in> set xs" "P a" by auto
  show "\<forall>b\<in>set xs. P b \<longrightarrow> b = a"
  proof (intro ballI impI)
    fix b assume "b \<in> set xs" "P b"
    then have "b \<in> set (filter P xs)" by simp
    then show "b = a" by (simp add: f)
  qed
  show "find P xs = Some a" using f by (induction xs) (auto split: if_splits)
qed

lemma validate_ambiguous:
  assumes "validate_reconciliation (receipts_of i x) outcome ids = Inr a"
  shows "rkey a = doubtful_key i x" "a \<in> set (receipts x)" "po_publish_job_id a = i" "po_status a = ''ambiguous''"
    "outcome = ''published'' \<Longrightarrow> r \<in> set (receipts_of i x) \<Longrightarrow> r \<noteq> a \<Longrightarrow> po_status r = ''succeeded''"
proof -
  have f: "filter (\<lambda>r. po_status r = ''ambiguous'') (receipts_of i x) = [a]"
    and all: "outcome = ''published'' \<Longrightarrow> \<forall>r\<in>set (receipts_of i x). po_status r \<in> {''succeeded'', ''ambiguous''}"
    using assms by (auto simp: validate_reconciliation_def list_ex_iff split: list.splits if_splits)
  from filter_one [OF f] have first: "find (\<lambda>r. po_status r = ''ambiguous'') (receipts_of i x) = Some a"
    and a: "a \<in> set (receipts_of i x)" "po_status a = ''ambiguous''"
    and only: "\<forall>b\<in>set (receipts_of i x). po_status b = ''ambiguous'' \<longrightarrow> b = a" by blast+
  show "rkey a = doubtful_key i x" unfolding doubtful_key_def first by simp
  show "a \<in> set (receipts x)" "po_publish_job_id a = i" "po_status a = ''ambiguous''"
    using a unfolding in_receipts_of by blast+
  assume "outcome = ''published''" "r \<in> set (receipts_of i x)" "r \<noteq> a"
  then have "po_status r \<in> {''succeeded'', ''ambiguous''}" "po_status r = ''ambiguous'' \<longrightarrow> r = a"
    using all only by blast+
  with \<open>r \<noteq> a\<close> show "po_status r = ''succeeded''" by simp
qed

lemma requeue_effect:
  assumes "requeue_not_published env lib b i a t x = Inr (out, x')" "distinct (map rkey (receipts x))"
    and "a \<in> set (receipts x)" "po_publish_job_id a = i" "po_status a = ''ambiguous''"
  shows "change (Moved (rkey a) Reopen) (receipts x) (receipts x')" "pu_publications x' = pu_publications x"
    "\<exists>j status dedup rs. out = Requeued_Out j status dedup rs False"
proof -
  let ?x1 = "set_publish_job i (\<lambda>q. q\<lparr>pj_status := ''queued'', pj_scheduled_for := Some t, pj_updated_at := t\<rparr>)
                 (put_receipt i (po_operation_index a) (reopened t) x)"
  obtain jc d where e: "enqueue_job env (retry_request i a) (pu_db ?x1) = Inr (jc, d)"
    using assms(1) by (cases "enqueue_job env (retry_request i a) (pu_db ?x1)") (auto simp: requeue_not_published_def Let_def)
  have "receipts x' = db_publish_receipts d \<and> pu_publications x' = pu_publications x \<and>
      (\<exists>j status dedup rs. out = Requeued_Out j status dedup rs False)"
    using assms(1) e by (cases jc) (auto simp: requeue_not_published_def Let_def frame_simps)
  moreover have "db_publish_receipts d = receipts ?x1" by (rule enqueue_receipts [OF e])
  moreover have "receipts ?x1 = set_rows (\<lambda>r. rkey r = rkey a) (reopened t) (receipts x)"
    using assms(4) by (simp add: frame_simps receipts_put_receipt rkey_def)
  moreover have "change (Moved (rkey a) Reopen) (receipts x) (set_rows (\<lambda>r. rkey r = rkey a) (reopened t) (receipts x))"
    by (rule moved_row [OF assms(2,3) refl]) (simp_all add: move_def same_operation_def reopened_def assms(5))
  ultimately show "change (Moved (rkey a) Reopen) (receipts x) (receipts x')" "pu_publications x' = pu_publications x"
    "\<exists>j status dedup rs. out = Requeued_Out j status dedup rs False" by simp_all
qed

lemma confirm_effect:
  assumes "confirm_published env lib b p d a t x = Inr (out, x')" "distinct (map rkey (receipts x))"
    and a: "a \<in> set (receipts x)" "po_publish_job_id a = pj_id p" "po_status a = ''ambiguous''"
    and rest: "\<And>r. r \<in> set (receipts_of (pj_id p) x) \<Longrightarrow> r \<noteq> a \<Longrightarrow> po_status r = ''succeeded''"
  shows "change (Moved (rkey a) Confirm) (receipts x) (receipts x')"
    "pu_publications x' = pu_publications x \<or> records_publication x x'" "\<exists>n. out = Publication_Out n False"
proof -
  define x1 where "x1 = put_receipt (pj_id p) (po_operation_index a) (confirmed t (rc_remote_message_ids b)) x"
  obtain ids where ids: "ordered_receipt_remote_ids (receipts_of (pj_id p) x1) = Inr ids"
    using assms(1) by (cases "ordered_receipt_remote_ids (receipts_of (pj_id p) x1)")
      (auto simp: confirm_published_def Let_def result_bind_eq_Inr x1_def)
  obtain permalink n x2 where n: "confirmed_publication env p ids permalink t x1 = Inr (n, x2)"
    and x': "receipts x' = receipts x2" "pu_publications x' = pu_publications x2" "out = Publication_Out n False"
    using assms(1) ids by (auto simp: confirm_published_def Let_def result_bind_eq_Inr frame_simps simp flip: x1_def)
  have r1: "receipts x1 = set_rows (\<lambda>r. rkey r = rkey a) (confirmed t (rc_remote_message_ids b)) (receipts x)"
    using a(2) by (simp add: x1_def receipts_put_receipt rkey_def)
  have same: "receipts x' = receipts x1"
    using n by (auto simp: x' confirmed_publication_def Let_def frame_simps split: option.splits if_splits)
  show "change (Moved (rkey a) Confirm) (receipts x) (receipts x')" unfolding same r1
    by (rule moved_row [OF assms(2) a(1) refl]) (simp_all add: move_def same_operation_def confirmed_def a(3))
  have all: "po_status r = ''succeeded''" if "r \<in> set (receipts_of (pj_id p) x')" for r
  proof -
    have "r \<in> set (receipts x1)" "po_publish_job_id r = pj_id p" using that in_receipts_of [of r "pj_id p" x'] same by simp_all
    then obtain q where q: "q \<in> set (receipts x)" "r = (if rkey q = rkey a then confirmed t (rc_remote_message_ids b) q else q)"
      unfolding r1 using in_set_rows [of r "\<lambda>r. rkey r = rkey a" "confirmed t (rc_remote_message_ids b)" "receipts x"] by blast
    show ?thesis
    proof (cases "rkey q = rkey a")
      case False
      then have "q \<in> set (receipts_of (pj_id p) x)" "q \<noteq> a" using q \<open>po_publish_job_id r = pj_id p\<close> in_receipts_of [of q "pj_id p" x] by auto
      with rest q(2) False show ?thesis by simp
    qed (simp add: q(2) confirmed_def)
  qed
  show "pu_publications x' = pu_publications x \<or> records_publication x x'"
  proof (cases "publication_of (pj_id p) x1")
    case None
    then obtain m where m: "pu_publications x2 = pu_publications x1 @ [m]" "pn_publish_job_id m = pj_id p" "pn_remote_message_ids m = ids"
      using n by (auto simp: confirmed_publication_def Let_def split: if_splits)
    have "receipts_of (pj_id p) x' = receipts_of (pj_id p) x1" by (simp add: receipts_of_def same)
    with m None ids all have "pu_publications x' = pu_publications x @ [m] \<and> publication_of (pn_publish_job_id m) x = None \<and>
        (\<forall>r\<in>set (receipts_of (pn_publish_job_id m) x'). po_status r = ''succeeded'') \<and>
        ordered_receipt_remote_ids (receipts_of (pn_publish_job_id m) x') = Inr (pn_remote_message_ids m)"
      by (simp add: x'(2) x1_def frame_simps publication_of_def)
    then show ?thesis unfolding records_publication_def by blast
  next
    case (Some m)
    then show ?thesis using n by (auto simp: confirmed_publication_def x' x1_def frame_simps split: if_splits)
  qed
  show "\<exists>n. out = Publication_Out n False" using x'(3) by simp
qed

lemma advance_stores_nothing: "advance inp p x = (p', x') \<Longrightarrow> \<not> in_sending p \<Longrightarrow> stores key p' \<Longrightarrow> stores key p"
  by (cases "(inp, p, x)" rule: advance.cases)
    (auto simp: start_publish_def claim_step_def finish_publish_def
      split: sum.splits handler_error.splits prod.splits prepared.splits claim_outcome.splits option.splits if_splits)

fun replayed :: "reconciled \<Rightarrow> bool" where
  "replayed (Publication_Out n again) = again"
| "replayed (Requeued_Out j status dedup rs again) = again"

lemma replay_marks:
  "replay_reconciliation_decision e i rs x = Inr out \<Longrightarrow> replayed out"
  by (auto simp: replay_reconciliation_decision_def Let_def split: option.splits if_splits pyval.splits)

lemma reconcile_effect:
  assumes "reconcile_publish_job env lib available i b x = Inr (out, x')" "distinct (map rkey (receipts x))"
    and outcome: "rc_outcome b \<in> {''published'', ''not_published''}"
  shows "replayed out \<and> x' = x \<or>
    (\<exists>j status dedup rs. out = Requeued_Out j status dedup rs False) \<and>
      change (Moved (doubtful_key i x) Reopen) (receipts x) (receipts x') \<and> pu_publications x' = pu_publications x \<or>
    (\<exists>n. out = Publication_Out n False) \<and> change (Moved (doubtful_key i x) Confirm) (receipts x) (receipts x') \<and>
      (pu_publications x' = pu_publications x \<or> records_publication x x')"
proof -
  let ?rs = "receipts_of i x"
  obtain p d where p: "find_publish_job i x = Some p" "find_destination (pj_destination_id p) x = Some d" "pj_id p = i"
    using assms(1)
    by (auto simp: reconcile_publish_job_def Let_def find_publish_job_def dest: find_Some_in split: option.splits)
  let ?av = "if rc_outcome b = ''not_published'' then map_sum Unavailable (\<lambda>_. ()) available else Inr ()"
  have plat: "de_platform d = ''telegram''" and av: "?av = Inr ()"
    using assms(1) p by (auto simp: reconcile_publish_job_def Let_def result_bind_eq_Inr split: if_splits)
  show ?thesis
  proof (cases "find (\<lambda>e. matches_generation e ?rs) (reconciliation_events i x)")
    case (Some e)
    then have "x' = x \<and> replay_reconciliation_decision e i ?rs x = Inr out"
      using assms(1) p plat av by (auto simp: reconcile_publish_job_def Let_def map_sum_eq_Inr split: if_splits)
    then show ?thesis using replay_marks by blast
  next
    case None
    then obtain a where a: "validate_reconciliation ?rs (rc_outcome b) (rc_remote_message_ids b) = Inr a"
      using assms(1) p plat av
      by (cases "validate_reconciliation ?rs (rc_outcome b) (rc_remote_message_ids b)")
        (auto simp: reconcile_publish_job_def Let_def split: if_splits prod.splits)
    note v = validate_ambiguous [OF a]
    show ?thesis
    proof (cases "rc_outcome b = ''not_published''")
      case True
      then have "requeue_not_published env lib b i a (env_now env) x = Inr (out, x')"
        using assms(1) p plat av None a by (auto simp: reconcile_publish_job_def Let_def split: if_splits)
      from requeue_effect [OF this assms(2) v(2-4)] v(1) show ?thesis by simp
    next
      case False
      then have c: "confirm_published env lib b p d a (env_now env) x = Inr (out, x')"
        using assms(1) p plat av None a by (auto simp: reconcile_publish_job_def Let_def split: if_splits)
      show ?thesis
      proof (cases "rc_outcome b = ''published''")
        case True
        have "po_publish_job_id a = pj_id p" using v(3) p(3) by simp
        from confirm_effect [OF c assms(2) v(2) this v(4)] v(5) [OF True] p(3) v(1) show ?thesis by auto
      qed (use outcome False in simp)
    qed
  qed
qed

end
