(* ===== verification/Publish_Spec.thy ===== *)
theory Publish_Spec
  imports Publish_Receipts
begin

text \<open>
  Everything that happens to the receipts and publications: any number of \<open>publish_telegram\<close> calls whose
  transactions interleave, the crashes of workers, the job queue with its recovery sweep, the decisions of
  the operator, and whatever else the program writes to other tables.  The log is a ghost: it says which
  operations the Bot API performed and what the operator declared.
\<close>

section \<open>The world\<close>

datatype fact =
    Delivered "uuid \<times> int"
  | Declared_Unsent "uuid \<times> int"
  | Confirmed "uuid \<times> int"

record world =
  wo_db :: pub_db
  wo_publishers :: "publisher list"
  wo_log :: "fact list"

text \<open>
  What the Bot API and the HTTP library promise about one sending, \<open>d\<close> telling whether the operation was
  performed: nothing happens without a request, a failed connection and a rate limit mean that nothing
  happened, and a success with message identifiers means that it did.
\<close>

definition sound_answer :: "input \<Rightarrow> publish_operation \<Rightarrow> string \<Rightarrow> bool \<Rightarrow> bool" where
  "sound_answer inp op token d =
     (if in_fault_before inp then \<not> d
      else case publish_request (in_client inp) op token of
        Inl _ \<Rightarrow> \<not> d
      | Inr q \<Rightarrow>
          if d then (case in_http inp q of Connect_Failed \<Rightarrow> False | Http_Answer status body \<Rightarrow> \<not> rate_limited status body | _ \<Rightarrow> True)
          else (case read_answer (in_client inp) op token (in_http inp q) of Inl _ \<Rightarrow> True | Inr _ \<Rightarrow> False))"

definition decided :: "uuid \<times> int \<Rightarrow> reconciled \<Rightarrow> fact list \<Rightarrow> fact list" where
  "decided key out log =
     (if replayed out then log
      else case out of Publication_Out n again \<Rightarrow> Confirmed key # log
                     | Requeued_Out j status dedup rs again \<Rightarrow> Declared_Unsent key # log)"

inductive world_step :: "world \<Rightarrow> world \<Rightarrow> bool" where
  started: "world_step w (w\<lparr>wo_publishers := wo_publishers w @ [Starting i e]\<rparr>)"
| advanced: "k < length (wo_publishers w) \<Longrightarrow> \<not> in_sending (wo_publishers w ! k) \<Longrightarrow>
    advance inp (wo_publishers w ! k) (wo_db w) = (p', x') \<Longrightarrow>
    world_step w (w\<lparr>wo_db := x', wo_publishers := (wo_publishers w)[k := p']\<rparr>)"
| sent: "k < length (wo_publishers w) \<Longrightarrow> wo_publishers w ! k = Sending c op ops n token \<Longrightarrow>
    sound_answer inp op token d \<Longrightarrow> in_fault_after inp \<in> {None, Some Other_Error} \<Longrightarrow>
    world_step w (w\<lparr>wo_publishers := (wo_publishers w)[k := send_step inp c op ops n token],
                    wo_log := (if d then Delivered (op_key_of c op) # wo_log w else wo_log w)\<rparr>)"
| lost: "k < length (wo_publishers w) \<Longrightarrow> wo_publishers w ! k = Sending c op ops n token \<Longrightarrow>
    world_step w (w\<lparr>wo_publishers := (wo_publishers w)[k := Stopped r], wo_log := Delivered (op_key_of c op) # wo_log w\<rparr>)"
| crashed: "k < length (wo_publishers w) \<Longrightarrow> world_step w (w\<lparr>wo_publishers := (wo_publishers w)[k := Stopped r]\<rparr>)"
| queued: "run_op env op (pu_db (wo_db w)) = Inr db' \<Longrightarrow> world_step w (w\<lparr>wo_db := (wo_db w)\<lparr>pu_db := db'\<rparr>\<rparr>)"
| reconciled: "reconcile_publish_job env lib available i b (wo_db w) = Inr (out, x') \<Longrightarrow>
    rc_outcome b \<in> {''published'', ''not_published''} \<Longrightarrow>
    world_step w (w\<lparr>wo_db := x', wo_log := decided (doubtful_key i (wo_db w)) out (wo_log w)\<rparr>)"
| others: "receipts x' = receipts (wo_db w) \<Longrightarrow> pu_publications x' = pu_publications (wo_db w) \<Longrightarrow>
    world_step w (w\<lparr>wo_db := x'\<rparr>)"

definition fresh_world :: "world \<Rightarrow> bool" where
  "fresh_world w = (receipts (wo_db w) = [] \<and> pu_publications (wo_db w) = [] \<and> wo_publishers w = [] \<and> wo_log w = [])"

inductive world_reach :: "world \<Rightarrow> bool" where
  fresh: "fresh_world w \<Longrightarrow> world_reach w"
| step: "world_reach w \<Longrightarrow> world_step w w' \<Longrightarrow> world_reach w'"

section \<open>The status of an operation\<close>

definition status_of :: "uuid \<times> int \<Rightarrow> publish_receipt list \<Rightarrow> string option" where
  "status_of key rs = map_option po_status (find (\<lambda>r. rkey r = key) rs)"

lemma find_set_rows:
  assumes "\<And>q. rkey (f q) = rkey q"
  shows "find (\<lambda>r. rkey r = k) (set_rows (\<lambda>r. rkey r = key) f rs) =
    map_option (\<lambda>q. if rkey q = key then f q else q) (find (\<lambda>r. rkey r = k) rs)"
proof (induction rs)
  case (Cons r rs)
  then show ?case by (cases "rkey r = key"; cases "rkey r = k") (simp_all add: set_rows_def assms)
qed (simp add: set_rows_def)

lemma find_key_eq: "find (\<lambda>r. rkey r = k) rs = Some q \<Longrightarrow> rkey q = k"
  using find_Some_in by fastforce

lemma status_moved:
  assumes "find (\<lambda>r. rkey r = key) rs = Some r" "move m r (f r)" "\<And>q. rkey (f q) = rkey q"
  shows "status_of k (set_rows (\<lambda>r. rkey r = key) f rs) = (if k = key then Some (snd (arrow_ends m)) else status_of k rs)"
    "status_of key rs = Some (fst (arrow_ends m))"
proof -
  have ends: "fst (arrow_ends m) = po_status r" "snd (arrow_ends m) = po_status (f r)"
    using assms(2) by (simp_all add: move_def prod_eq_iff)
  note found = find_set_rows [where f = f, OF assms(3), of k key rs]
  show "status_of k (set_rows (\<lambda>r. rkey r = key) f rs) = (if k = key then Some (snd (arrow_ends m)) else status_of k rs)"
  proof (cases "k = key")
    case True
    then show ?thesis using found assms(1) find_key_eq [OF assms(1)] by (simp add: status_of_def ends)
  next
    case False
    then have "map_option (\<lambda>q. if rkey q = key then f q else q) (find (\<lambda>r. rkey r = k) rs) = find (\<lambda>r. rkey r = k) rs"
      using find_key_eq [of k rs] by (cases "find (\<lambda>r. rkey r = k) rs") simp_all
    with False found show ?thesis by (simp add: status_of_def)
  qed
  show "status_of key rs = Some (fst (arrow_ends m))" by (simp add: status_of_def assms(1) ends)
qed

text \<open>What a change does to the status of one operation.\<close>

fun status_change :: "uuid \<times> int \<Rightarrow> change_label \<Rightarrow> string option \<Rightarrow> string option \<Rightarrow> bool" where
  "status_change k Keep s s' = (s' = s)"
| "status_change k (Created i) s s' = (s' = s \<or> s = None \<and> s' = Some ''pending'')"
| "status_change k (Moved key m) s s' =
     (if k = key then s = Some (fst (arrow_ends m)) \<and> s' = Some (snd (arrow_ends m)) else s' = s)"
| "status_change k Doubted s s' = (s' = s \<or> s = Some ''dispatching'' \<and> s' = Some ''ambiguous'')"

lemma status_doubted:
  "list_all2 (\<lambda>r r'. r' = r \<or> move Doubt r r') rs rs' \<Longrightarrow> status_change k Doubted (status_of k rs) (status_of k rs')"
  by (induction rs rs' rule: list_all2_induct) (auto simp: status_of_def move_def same_operation_def)

lemma change_status: "change l rs rs' \<Longrightarrow> status_change k l (status_of k rs) (status_of k rs')"
proof (induction rule: change.induct)
  case (created rs i news)
  show ?case
  proof (cases "find (\<lambda>r. rkey r = k) rs")
    case None
    then show ?thesis
      using created(2) find_Some_in [of "\<lambda>r. rkey r = k" news]
      by (cases "find (\<lambda>r. rkey r = k) news") (auto simp: status_of_def find_append)
  qed (simp add: status_of_def find_append)
next
  case (moved key rs r m f)
  show ?case using status_moved [where f = f, OF moved(1,2,3)] by auto
next
  case (doubted rs rs')
  then show ?case by (rule status_doubted)
qed simp

lemma rkeys_doubted: "list_all2 (\<lambda>r r'. r' = r \<or> move Doubt r r') rs rs' \<Longrightarrow> map rkey rs' = map rkey rs"
  by (induction rs rs' rule: list_all2_induct) (auto simp: move_def same_operation_def)

lemma change_distinct: "change l rs rs' \<Longrightarrow> distinct (map rkey rs) \<Longrightarrow> distinct (map rkey rs')"
proof (induction rule: change.induct)
  case (created rs i news)
  then show ?case using created_distinct [OF change.created [OF created(1-3)]] by blast
next
  case (moved key rs r m f)
  have "map rkey (set_rows (\<lambda>r. rkey r = key) f rs) = map rkey rs" by (simp add: set_rows_def moved(3))
  with moved(4) show ?case by simp
next
  case (doubted rs rs')
  then show ?case using rkeys_doubted by metis
qed simp

text \<open>The receipts of a job that has finished stay as they are.\<close>

lemma finished_doubted:
  "list_all2 (\<lambda>r r'. r' = r \<or> move Doubt r r') rs rs' \<Longrightarrow>
   \<forall>r\<in>set rs. po_publish_job_id r = i \<longrightarrow> po_status r = ''succeeded'' \<Longrightarrow>
   filter (\<lambda>r. po_publish_job_id r = i) rs' = filter (\<lambda>r. po_publish_job_id r = i) rs"
proof (induction rs rs' rule: list_all2_induct)
  case (Cons r rs r' rs')
  have "po_publish_job_id r' = po_publish_job_id r" "po_publish_job_id r = i \<Longrightarrow> r' = r"
    using Cons(1,4) by (auto simp: move_def same_operation_def rkey_def)
  with Cons(3,4) show ?case by simp
qed simp

lemma change_finished:
  assumes "change l (receipts x) (receipts x')" "\<forall>r\<in>set (receipts_of i x). po_status r = ''succeeded''" "receipts_of i x \<noteq> []"
  shows "receipts_of i x' = receipts_of i x"
  using assms(1)
proof cases
  case keep
  then show ?thesis by (simp add: receipts_of_def)
next
  case (created j news)
  have "j \<noteq> i" using assms(3) created(3) by (auto simp: receipts_of_def filter_empty_conv)
  with created(2,4) show ?thesis by (auto simp: receipts_of_def filter_empty_conv)
next
  case (moved key r m f)
  have "r \<in> set (receipts x)" "rkey r = key" using find_Some_in [OF moved(3)] by simp_all
  moreover have "po_status r = fst (arrow_ends m)" using moved(4) by (simp add: move_def prod_eq_iff)
  then have "po_status r \<noteq> ''succeeded''" by (cases m) simp_all
  ultimately have "fst key \<noteq> i" using assms(2) by (auto simp: receipts_of_def rkey_def)
  then have "filter (\<lambda>r. po_publish_job_id r = i) (set_rows (\<lambda>r. rkey r = key) f rs) = filter (\<lambda>r. po_publish_job_id r = i) rs" for rs
    using moved(5) by (induction rs) (auto simp: set_rows_def rkey_def)
  then show ?thesis by (simp add: receipts_of_def moved(2))
next
  case doubted
  have "\<forall>r\<in>set (receipts x). po_publish_job_id r = i \<longrightarrow> po_status r = ''succeeded''" using assms(2) in_receipts_of by blast
  with finished_doubted [OF doubted(2)] show ?thesis by (simp add: receipts_of_def)
qed

section \<open>How often an operation is sent\<close>

fun spent :: "string option \<Rightarrow> nat" where
  "spent None = 0"
| "spent (Some s) = (if s = ''pending'' then 0 else 1)"

definition open_claims :: "uuid \<times> int \<Rightarrow> publisher list \<Rightarrow> nat" where
  "open_claims k ps = length (filter (opens k) ps)"

lemma open_claims_append [simp]: "open_claims k (ps @ [p]) = open_claims k ps + (if opens k p then 1 else 0)"
  by (simp add: open_claims_def)

lemma open_claims_update:
  "j < length ps \<Longrightarrow> open_claims k (ps[j := p']) + (if opens k (ps ! j) then 1 else 0) = open_claims k ps + (if opens k p' then 1 else 0)"
proof (induction ps arbitrary: j)
  case (Cons p ps)
  then show ?case by (cases j) (auto simp: open_claims_def)
qed simp

lemma spent_closing: "status_change k l s s' \<Longrightarrow> closing l \<Longrightarrow> spent s' = spent s"
  by (cases l; cases s) (auto split: if_splits)

lemma spent_doubted: "status_change k Doubted s s' \<Longrightarrow> spent s' = spent s"
  by auto

lemma spent_moved:
  assumes "status_change k (Moved key m) s s'"
  shows "spent s' + (if k = key \<and> m \<in> {Again, Reopen} then 1 else 0) = spent s + (if k = key \<and> m = Take then 1 else 0)"
  using assms by (cases "k = key"; cases m) simp_all

definition sent_ok :: "uuid \<times> int \<Rightarrow> world \<Rightarrow> bool" where
  "sent_ok k w \<longleftrightarrow>
     count_list (wo_log w) (Delivered k) + open_claims k (wo_publishers w) \<le>
     count_list (wo_log w) (Declared_Unsent k) + spent (status_of k (receipts (wo_db w)))"

lemma sent_ok_advanced:
  assumes "publisher_effect (ps ! j) p' rs rs'" "j < length ps" "d + open_claims k ps \<le> u + spent (status_of k rs)"
  shows "d + open_claims k (ps[j := p']) \<le> u + spent (status_of k rs')"
proof -
  obtain l where l: "change l rs rs'" and how:
    "closing l \<and> (\<forall>key. opens key p' \<longrightarrow> opens key (ps ! j)) \<or>
     (\<exists>key. l = Moved key Succeed \<and> stores key (ps ! j) \<and> (\<forall>k. \<not> opens k p')) \<or>
     (\<exists>key. l = Moved key Take \<and> (\<forall>k. opens k p' \<longrightarrow> k = key)) \<or>
     (\<exists>key. l = Moved key Again \<and> opens key (ps ! j) \<and> (\<forall>k. \<not> opens k p'))"
    using assms(1) unfolding publisher_effect_def by blast
  note st = change_status [OF l, of k] and u = open_claims_update [OF assms(2), of k p']
  from how show ?thesis
  proof (elim disjE exE conjE)
    assume "closing l" "\<forall>key. opens key p' \<longrightarrow> opens key (ps ! j)"
    then have "opens k p' \<longrightarrow> opens k (ps ! j)" by blast
    with spent_closing [OF st \<open>closing l\<close>] u assms(3) show ?thesis by (auto split: if_splits)
  next
    fix key assume l: "l = Moved key Succeed" and "\<forall>k. \<not> opens k p'"
    then have "\<not> opens k p'" by blast
    then have "open_claims k (ps[j := p']) \<le> open_claims k ps" using u by simp
    moreover have "spent (status_of k rs') = spent (status_of k rs)" using spent_moved [OF st [unfolded l]] by simp
    ultimately show ?thesis using assms(3) by linarith
  next
    fix key assume l: "l = Moved key Take" and "\<forall>k. opens k p' \<longrightarrow> k = key"
    then have "opens k p' \<longrightarrow> k = key" by blast
    then have "open_claims k (ps[j := p']) \<le> open_claims k ps + (if k = key then 1 else 0)"
      using u by (cases "opens k p'") simp_all
    moreover have "spent (status_of k rs') = spent (status_of k rs) + (if k = key then 1 else 0)"
      using spent_moved [OF st [unfolded l]] by simp
    ultimately show ?thesis using assms(3) by linarith
  next
    fix key assume l: "l = Moved key Again" and o: "opens key (ps ! j)" "\<forall>k. \<not> opens k p'"
    then have "\<not> opens k p'" by blast
    then have "open_claims k (ps[j := p']) + (if k = key then 1 else 0) \<le> open_claims k ps"
      using u o(1) by (cases "k = key") simp_all
    moreover have "spent (status_of k rs') + (if k = key then 1 else 0) = spent (status_of k rs)"
      using spent_moved [OF st [unfolded l]] by simp
    ultimately show ?thesis using assms(3) by linarith
  qed
qed

text \<open>An operation that was performed is never filed for another attempt.\<close>

lemma performed_not_retried:
  assumes "sound_answer inp op token True" "in_fault_after inp \<in> {None, Some Other_Error}"
  shows "\<not> opens k (send_step inp c op ops n token)"
  using assms
  by (auto simp: sound_answer_def send_step_def client_execute_def read_answer_def Let_def retry_error_def
      split: sum.splits http_answer.splits if_splits option.splits)

lemma send_step_opens: "opens k (send_step inp c op ops n token) \<Longrightarrow> op_key_of c op = k"
  by (auto simp: send_step_def split: if_splits sum.splits option.splits)

lemma send_step_stores:
  assumes "stores k (send_step inp c op ops n token)" "sound_answer inp op token d"
  shows "d \<and> op_key_of c op = k"
  using assms
  by (auto simp: sound_answer_def send_step_def client_execute_def split: sum.splits if_splits option.splits)

section \<open>The invariant\<close>

definition truthful :: "world \<Rightarrow> publication \<Rightarrow> bool" where
  "truthful w n \<longleftrightarrow>
     (\<forall>r\<in>set (receipts_of (pn_publish_job_id n) (wo_db w)). po_status r = ''succeeded'') \<and>
     ordered_receipt_remote_ids (receipts_of (pn_publish_job_id n) (wo_db w)) = Inr (pn_remote_message_ids n)"

definition world_ok :: "world \<Rightarrow> bool" where
  "world_ok w \<longleftrightarrow> distinct (map rkey (receipts (wo_db w))) \<and> (\<forall>k. sent_ok k w) \<and>
     (\<forall>k. status_of k (receipts (wo_db w)) = Some ''succeeded'' \<longrightarrow> Delivered k \<in> set (wo_log w) \<or> Confirmed k \<in> set (wo_log w)) \<and>
     (\<forall>p\<in>set (wo_publishers w). \<forall>k. stores k p \<longrightarrow> Delivered k \<in> set (wo_log w)) \<and>
     (\<forall>n\<in>set (pu_publications (wo_db w)). truthful w n) \<and>
     distinct (map pn_publish_job_id (pu_publications (wo_db w)))"

lemma truthful_nonempty: "truthful w n \<Longrightarrow> receipts_of (pn_publish_job_id n) (wo_db w) \<noteq> []"
  by (auto simp: truthful_def ordered_receipt_remote_ids_def)

lemma publications_ok:
  assumes "\<forall>n\<in>set (pu_publications (wo_db w)). truthful w n" "distinct (map pn_publish_job_id (pu_publications (wo_db w)))"
    and ch: "change l (receipts (wo_db w)) (receipts (wo_db w'))"
    and pubs: "pu_publications (wo_db w') = pu_publications (wo_db w) \<or> records_publication (wo_db w) (wo_db w')"
  shows "(\<forall>n\<in>set (pu_publications (wo_db w')). truthful w' n) \<and> distinct (map pn_publish_job_id (pu_publications (wo_db w')))"
proof -
  have old: "truthful w' n" if "n \<in> set (pu_publications (wo_db w))" for n
  proof -
    have t: "truthful w n" using assms(1) that by blast
    have "receipts_of (pn_publish_job_id n) (wo_db w') = receipts_of (pn_publish_job_id n) (wo_db w)"
      by (rule change_finished [OF ch]) (use t truthful_nonempty [OF t] in \<open>simp_all add: truthful_def\<close>)
    with t show ?thesis by (simp add: truthful_def)
  qed
  from pubs show ?thesis
  proof
    assume "records_publication (wo_db w) (wo_db w')"
    then obtain n where n: "pu_publications (wo_db w') = pu_publications (wo_db w) @ [n]"
      "publication_of (pn_publish_job_id n) (wo_db w) = None" "truthful w' n"
      unfolding records_publication_def truthful_def by blast
    from n(2) have "pn_publish_job_id n \<notin> set (map pn_publish_job_id (pu_publications (wo_db w)))"
      by (auto simp: publication_of_def find_None_iff)
    with n(1,3) old assms(2) show ?thesis by auto
  qed (use old assms(2) in simp)
qed

lemma succeeded_change:
  "status_change k l s s' \<Longrightarrow> s' = Some ''succeeded'' \<Longrightarrow> s = Some ''succeeded'' \<or> l = Moved k Succeed \<or> l = Moved k Confirm"
proof (cases l)
  case (Moved key m)
  assume "status_change k l s s'" "s' = Some ''succeeded''"
  with Moved show ?thesis by (cases "k = key"; cases m) simp_all
qed auto

lemma world_ok_change:
  assumes ok: "world_ok w" and ch: "change l (receipts (wo_db w)) (receipts (wo_db w'))"
    and pubs: "pu_publications (wo_db w') = pu_publications (wo_db w) \<or> records_publication (wo_db w) (wo_db w')"
    and log: "set (wo_log w) \<subseteq> set (wo_log w')" and sent: "\<And>k. sent_ok k w'"
    and stores: "\<And>p k. p \<in> set (wo_publishers w') \<Longrightarrow> stores k p \<Longrightarrow> Delivered k \<in> set (wo_log w')"
    and new: "\<And>k. l = Moved k Succeed \<or> l = Moved k Confirm \<Longrightarrow> Delivered k \<in> set (wo_log w') \<or> Confirmed k \<in> set (wo_log w')"
  shows "world_ok w'"
  unfolding world_ok_def
proof (intro conjI allI impI ballI sent)
  show "distinct (map rkey (receipts (wo_db w')))" using change_distinct [OF ch] ok by (simp add: world_ok_def)
next
  fix k assume "status_of k (receipts (wo_db w')) = Some ''succeeded''"
  with succeeded_change [OF change_status [OF ch, of k]]
  have "status_of k (receipts (wo_db w)) = Some ''succeeded'' \<or> l = Moved k Succeed \<or> l = Moved k Confirm" by blast
  then show "Delivered k \<in> set (wo_log w') \<or> Confirmed k \<in> set (wo_log w')"
  proof
    assume "status_of k (receipts (wo_db w)) = Some ''succeeded''"
    then have "Delivered k \<in> set (wo_log w) \<or> Confirmed k \<in> set (wo_log w)" using ok unfolding world_ok_def by blast
    then show ?thesis using log by blast
  qed (rule new)
next
  fix p k assume "p \<in> set (wo_publishers w')" "stores k p"
  then show "Delivered k \<in> set (wo_log w')" by (rule stores)
next
  have p: "(\<forall>n\<in>set (pu_publications (wo_db w')). truthful w' n) \<and> distinct (map pn_publish_job_id (pu_publications (wo_db w')))"
    by (rule publications_ok [OF _ _ ch pubs]) (use ok in \<open>simp_all add: world_ok_def\<close>)
  then show "distinct (map pn_publish_job_id (pu_publications (wo_db w')))" by blast
  fix n assume "n \<in> set (pu_publications (wo_db w'))"
  with p show "truthful w' n" by blast
qed

lemma world_ok_stores: "world_ok w \<Longrightarrow> p \<in> set (wo_publishers w) \<Longrightarrow> stores k p \<Longrightarrow> Delivered k \<in> set (wo_log w)"
  unfolding world_ok_def by blast

lemma world_ok_sent: "world_ok w \<Longrightarrow> sent_ok k w"
  unfolding world_ok_def by blast

lemma closing_label: "closing l \<Longrightarrow> l \<noteq> Moved key Succeed \<and> l \<noteq> Moved key Confirm"
  by auto

lemma effect_label:
  assumes "publisher_effect p p' rs rs'"
  shows "\<exists>l. change l rs rs' \<and> (\<forall>key. l = Moved key Succeed \<longrightarrow> stores key p) \<and> (\<forall>key. l \<noteq> Moved key Confirm)"
  using assms closing_label unfolding publisher_effect_def by (elim exE conjE disjE) blast+

lemma set_update: "p \<in> set (ps[k := p']) \<Longrightarrow> p = p' \<or> p \<in> set ps"
  using set_update_subset_insert [of ps k p'] by blast

lemma world_ok_advanced:
  assumes ok: "world_ok w" and k: "k < length (wo_publishers w)" and quiet: "\<not> in_sending (wo_publishers w ! k)"
    and a: "advance inp (wo_publishers w ! k) (wo_db w) = (p', x')"
  shows "world_ok (w\<lparr>wo_db := x', wo_publishers := (wo_publishers w)[k := p']\<rparr>)"
proof -
  let ?p = "wo_publishers w ! k" and ?w = "w\<lparr>wo_db := x', wo_publishers := (wo_publishers w)[k := p']\<rparr>"
  have d: "distinct (map rkey (receipts (wo_db w)))" using ok by (simp add: world_ok_def)
  note e = advance_effect [OF a quiet d]
  obtain l where l: "change l (receipts (wo_db w)) (receipts x')"
    and how: "\<And>key. l = Moved key Succeed \<Longrightarrow> stores key ?p" "\<And>key. l \<noteq> Moved key Confirm"
    using effect_label [OF e(1)] by blast
  have st: "Delivered key \<in> set (wo_log w)" if "stores key ?p" for key using world_ok_stores [OF ok nth_mem [OF k] that] .
  show ?thesis
  proof (rule world_ok_change [OF ok, where l = l])
    show "change l (receipts (wo_db w)) (receipts (wo_db ?w))" using l by simp
    show "pu_publications (wo_db ?w) = pu_publications (wo_db w) \<or> records_publication (wo_db w) (wo_db ?w)" using e(2) by simp
    show "sent_ok key ?w" for key
      using sent_ok_advanced [OF e(1) k] world_ok_sent [OF ok, of key] by (simp add: sent_ok_def)
    show "Delivered key \<in> set (wo_log ?w)" if p: "p \<in> set (wo_publishers ?w)" "stores key p" for p key
    proof -
      from set_update [of p] p(1) have "p = p' \<or> p \<in> set (wo_publishers w)" by simp
      then show ?thesis
      proof
        assume "p = p'"
        with p(2) advance_stores_nothing [OF a quiet] st show ?thesis by simp
      qed (use world_ok_stores [OF ok _ p(2)] in simp)
    qed
    show "Delivered key \<in> set (wo_log ?w) \<or> Confirmed key \<in> set (wo_log ?w)" if "l = Moved key Succeed \<or> l = Moved key Confirm" for key
      using that how st by simp
  qed simp
qed


lemma world_ok_publishers:
  assumes ok: "world_ok w" and same: "receipts (wo_db w') = receipts (wo_db w)" "pu_publications (wo_db w') = pu_publications (wo_db w)"
    and log: "set (wo_log w) \<subseteq> set (wo_log w')" and sent: "\<And>k. sent_ok k w'"
    and stores: "\<And>p k. p \<in> set (wo_publishers w') \<Longrightarrow> stores k p \<Longrightarrow> p \<in> set (wo_publishers w) \<or> Delivered k \<in> set (wo_log w')"
  shows "world_ok w'"
proof (rule world_ok_change [OF ok, where l = Keep])
  show "change Keep (receipts (wo_db w)) (receipts (wo_db w'))" unfolding same(1) by (rule change.keep)
  show "Delivered k \<in> set (wo_log w')" if "p \<in> set (wo_publishers w')" "stores k p" for p k
    using stores [OF that] world_ok_stores [OF ok _ that(2)] log by blast
qed (use same log sent in simp_all)

lemma sent_ok_update:
  assumes "sent_ok k w" "j < length (wo_publishers w)"
    and "count_list log (Delivered k) + (if opens k p' then 1 else 0) \<le>
         count_list (wo_log w) (Delivered k) + (if opens k (wo_publishers w ! j) then 1 else 0)"
    and "count_list log (Declared_Unsent k) = count_list (wo_log w) (Declared_Unsent k)"
  shows "sent_ok k (w\<lparr>wo_publishers := (wo_publishers w)[j := p'], wo_log := log\<rparr>)"
  using assms open_claims_update [OF assms(2), of k p'] by (simp add: sent_ok_def)

lemma world_ok_sent_step:
  assumes ok: "world_ok w" and k: "k < length (wo_publishers w)" "wo_publishers w ! k = Sending c op ops n token"
    and a: "sound_answer inp op token d" "in_fault_after inp \<in> {None, Some Other_Error}"
  shows "world_ok (w\<lparr>wo_publishers := (wo_publishers w)[k := send_step inp c op ops n token],
      wo_log := (if d then Delivered (op_key_of c op) # wo_log w else wo_log w)\<rparr>)" (is "world_ok ?w")
proof (rule world_ok_publishers [OF ok])
  show "sent_ok key ?w" for key
  proof (rule sent_ok_update [OF world_ok_sent [OF ok] k(1)])
    have "d \<Longrightarrow> \<not> opens key (send_step inp c op ops n token)" using performed_not_retried a by simp
    then show "count_list (if d then Delivered (op_key_of c op) # wo_log w else wo_log w) (Delivered key) +
        (if opens key (send_step inp c op ops n token) then 1 else 0) \<le>
        count_list (wo_log w) (Delivered key) + (if opens key (wo_publishers w ! k) then 1 else 0)"
      using send_step_opens [of key inp c op ops n token] by (auto simp: k(2))
  qed simp
  show "p \<in> set (wo_publishers w) \<or> Delivered key \<in> set (wo_log ?w)" if p: "p \<in> set (wo_publishers ?w)" "stores key p" for p key
    using set_update [of p] p send_step_stores [OF _ a(1), of key c ops n] by auto
qed auto

lemma world_ok_stop:
  assumes ok: "world_ok w" and k: "k < length (wo_publishers w)"
    and log: "log = wo_log w \<or> in_sending (wo_publishers w ! k) \<and> (\<exists>key. opens key (wo_publishers w ! k) \<and> log = Delivered key # wo_log w)"
  shows "world_ok (w\<lparr>wo_publishers := (wo_publishers w)[k := Stopped r], wo_log := log\<rparr>)" (is "world_ok ?w")
proof (rule world_ok_publishers [OF ok])
  show "sent_ok key ?w" for key
    by (rule sent_ok_update [OF world_ok_sent [OF ok] k]) (use log in auto)
  show "p \<in> set (wo_publishers w) \<or> Delivered key \<in> set (wo_log ?w)" if p: "p \<in> set (wo_publishers ?w)" "stores key p" for p key
    using set_update [of p "wo_publishers w" k "Stopped r"] p by auto
qed (use log in auto)

lemma world_ok_db:
  assumes ok: "world_ok w" and l: "l \<in> {Keep, Doubted}" "change l (receipts (wo_db w)) (receipts x')"
    and pubs: "pu_publications x' = pu_publications (wo_db w)"
  shows "world_ok (w\<lparr>wo_db := x'\<rparr>)"
proof (rule world_ok_change [OF ok, where l = l])
  show "sent_ok k (w\<lparr>wo_db := x'\<rparr>)" for k
    using world_ok_sent [OF ok, of k] change_status [OF l(2), of k] l(1) by (auto simp: sent_ok_def)
  show "Delivered k \<in> set (wo_log (w\<lparr>wo_db := x'\<rparr>))" if "p \<in> set (wo_publishers (w\<lparr>wo_db := x'\<rparr>))" "stores k p" for p k
    using world_ok_stores [OF ok] that by simp
qed (use l pubs in auto)

lemma world_ok_decided:
  assumes ok: "world_ok w" and out: "\<not> replayed out" "pu_publications x' = pu_publications (wo_db w) \<or> records_publication (wo_db w) x'"
    and ch: "change (Moved key m) (receipts (wo_db w)) (receipts x')"
    and m: "(\<exists>j status dedup rs. out = Requeued_Out j status dedup rs False) \<and> m = Reopen \<or>
            (\<exists>n. out = Publication_Out n False) \<and> m = Confirm"
  shows "world_ok (w\<lparr>wo_db := x', wo_log := decided key out (wo_log w)\<rparr>)" (is "world_ok ?w")
proof (rule world_ok_change [OF ok, where l = "Moved key m"])
  have log: "decided key out (wo_log w) = (if m = Reopen then Declared_Unsent key else Confirmed key) # wo_log w"
    using m out(1) by (auto simp: decided_def)
  show "sent_ok k ?w" for k
  proof -
    have m': "m = Reopen \<or> m = Confirm" using m by blast
    have "spent (status_of k (receipts x')) + (if k = key \<and> m = Reopen then 1 else 0) = spent (status_of k (receipts (wo_db w)))"
      using spent_moved [OF change_status [OF ch, of k]] m' by auto
    with world_ok_sent [OF ok, of k] show ?thesis by (auto simp: sent_ok_def log)
  qed
  show "Delivered k \<in> set (wo_log ?w)" if "p \<in> set (wo_publishers ?w)" "stores k p" for p k
    using world_ok_stores [OF ok] that by (simp add: log)
  show "Delivered k \<in> set (wo_log ?w) \<or> Confirmed k \<in> set (wo_log ?w)" if "Moved key m = Moved k Succeed \<or> Moved key m = Moved k Confirm" for k
    using that m by (auto simp: log)
  show "set (wo_log w) \<subseteq> set (wo_log ?w)" by (auto simp: log)
qed (use ch out(2) in simp_all)

lemma world_ok_step:
  assumes "world_step w w'" "world_ok w"
  shows "world_ok w'"
  using assms(1)
proof cases
  case (started i e)
  show ?thesis unfolding started
    by (rule world_ok_publishers [OF assms(2)]) (use world_ok_sent [OF assms(2)] in \<open>auto simp: sent_ok_def\<close>)
next
  case (advanced k inp p' x')
  then show ?thesis using world_ok_advanced [OF assms(2)] by blast
next
  case (sent k c op ops n token inp d)
  then show ?thesis using world_ok_sent_step [OF assms(2)] by blast
next
  case (lost k c op ops n token r)
  show ?thesis unfolding lost(1)
    by (rule world_ok_stop [OF assms(2) lost(2)]) (use lost(3) in simp)
next
  case (crashed k r)
  show ?thesis using world_ok_stop [OF assms(2) crashed(2), of "wo_log w" r] by (simp add: crashed(1))
next
  case (queued env op db')
  have "change Doubted (receipts (wo_db w)) (receipts ((wo_db w)\<lparr>pu_db := db'\<rparr>))"
    using queue_op_receipts [OF queued(2)] by (simp add: doubts_def change.doubted)
  then show ?thesis unfolding queued(1) by (intro world_ok_db [OF assms(2), of Doubted]) simp_all
next
  case (reconciled env lib available i b out x')
  have "distinct (map rkey (receipts (wo_db w)))" using assms(2) by (simp add: world_ok_def)
  from reconcile_effect [OF reconciled(2) this reconciled(3)] show ?thesis
  proof (elim disjE conjE)
    assume "replayed out" "x' = wo_db w"
    then have "w' = w" by (simp add: reconciled(1) decided_def)
    with assms(2) show ?thesis by simp
  qed (auto simp: reconciled(1) intro!: world_ok_decided [OF assms(2)])
next
  case (others x')
  have "change Keep (receipts (wo_db w)) (receipts x')" unfolding others(2) by (rule change.keep)
  then show ?thesis unfolding others(1) by (intro world_ok_db [OF assms(2), of Keep]) (simp_all add: others(3))
qed

lemma world_ok_fresh: "fresh_world w \<Longrightarrow> world_ok w"
  by (simp add: fresh_world_def world_ok_def sent_ok_def open_claims_def status_of_def)

lemma world_reach_ok: "world_reach w \<Longrightarrow> world_ok w"
  by (induction rule: world_reach.induct) (blast intro: world_ok_fresh world_ok_step)+


section \<open>Every step is a change of the receipts\<close>

lemma world_step_change:
  assumes "world_step w w'" "world_ok w"
  shows "\<exists>l. change l (receipts (wo_db w)) (receipts (wo_db w'))"
proof -
  have d: "distinct (map rkey (receipts (wo_db w)))" using assms(2) by (simp add: world_ok_def)
  from assms(1) show ?thesis
  proof cases
    case (advanced k inp p' x')
    from effect_label [OF advance_effect(1) [OF advanced(4,3) d]] show ?thesis by (simp add: advanced(1)) blast
  next
    case (queued env op db')
    have "change Doubted (receipts (wo_db w)) (db_publish_receipts db')"
      using queue_op_receipts [OF queued(2)] by (simp add: doubts_def change.doubted)
    then show ?thesis by (simp add: queued(1)) blast
  next
    case (reconciled env lib available i b out x')
    show ?thesis unfolding reconciled(1) using reconcile_effect [OF reconciled(2) d reconciled(3)] change.keep by simp blast
  next
    case (others x')
    then show ?thesis using change.keep by auto
  qed (use change.keep in auto)
qed

lemma moved_rows:
  assumes "find (\<lambda>r. rkey r = key) rs = Some q" "move m q (f q)" "distinct (map rkey rs)" "r \<in> set rs"
  shows "(if rkey r = key then f r else r) = r \<or> move m r (if rkey r = key then f r else r)"
proof (cases "rkey r = key")
  case True
  with find_key [OF assms(3,4)] assms(1) have "q = r" by simp
  with assms(2) True show ?thesis by simp
qed simp

lemma change_rows:
  assumes "change l rs rs'" "distinct (map rkey rs)"
  shows "r \<in> set rs \<Longrightarrow> \<exists>r'\<in>set rs'. r' = r \<or> (\<exists>m. move m r r')"
    "r' \<in> set rs' \<Longrightarrow> (\<exists>r\<in>set rs. r' = r \<or> (\<exists>m. move m r r')) \<or> po_status r' = ''pending'' \<and> po_attempt_count r' = 0"
proof -
  have "(r \<in> set rs \<longrightarrow> (\<exists>r'\<in>set rs'. r' = r \<or> (\<exists>m. move m r r'))) \<and>
    (r' \<in> set rs' \<longrightarrow> (\<exists>r\<in>set rs. r' = r \<or> (\<exists>m. move m r r')) \<or> po_status r' = ''pending'' \<and> po_attempt_count r' = 0)"
    using assms(1)
  proof cases
    case (created i news)
    then show ?thesis by auto
  next
    case (moved key q m f)
    let ?f = "\<lambda>r. if rkey r = key then f r else r"
    have rs': "set rs' = ?f ` set rs" by (simp add: moved(2) set_rows_def)
    have "?f r = r \<or> move m r (?f r)" if "r \<in> set rs" for r
      using moved_rows [where f = f, OF moved(3,4) assms(2) that] .
    then show ?thesis unfolding rs' by blast
  next
    case doubted
    then have "\<forall>k<length rs. rs' ! k = rs ! k \<or> move Doubt (rs ! k) (rs' ! k)" "length rs = length rs'"
      by (auto simp: list_all2_conv_all_nth)
    then show ?thesis by (metis in_set_conv_nth)
  qed auto
  then show "r \<in> set rs \<Longrightarrow> \<exists>r'\<in>set rs'. r' = r \<or> (\<exists>m. move m r r')"
    "r' \<in> set rs' \<Longrightarrow> (\<exists>r\<in>set rs. r' = r \<or> (\<exists>m. move m r r')) \<or> po_status r' = ''pending'' \<and> po_attempt_count r' = 0"
    by blast+
qed

section \<open>Well-formed receipts\<close>

definition receipt_ok :: "publish_receipt \<Rightarrow> bool" where
  "receipt_ok r =
     (po_status r \<in> {''pending'', ''dispatching'', ''ambiguous'', ''succeeded'', ''failed''} \<and> 0 \<le> po_attempt_count r \<and>
      (po_status r = ''pending'' \<or> 1 \<le> po_attempt_count r))"

lemma move_ok: "move m r r' \<Longrightarrow> receipt_ok r \<Longrightarrow> receipt_ok r'"
  by (cases m) (auto simp: move_def receipt_ok_def)

lemma change_receipts_ok:
  assumes "change l rs rs'" "distinct (map rkey rs)" "\<forall>r\<in>set rs. receipt_ok r" "r' \<in> set rs'"
  shows "receipt_ok r'"
  using change_rows(2) [OF assms(1,2,4)]
proof (elim disjE bexE exE conjE)
  fix r m assume "r \<in> set rs" "move m r r'"
  with assms(3) move_ok show ?thesis by blast
qed (use assms(3) in \<open>simp_all add: receipt_ok_def\<close>)

text \<open>The operations of a job are numbered from zero in the order of their rows.\<close>

definition indexes :: "uuid \<Rightarrow> publish_receipt list \<Rightarrow> int list" where
  "indexes i rs = map po_operation_index (filter (\<lambda>r. po_publish_job_id r = i) rs)"

definition numbered :: "publish_receipt list \<Rightarrow> bool" where
  "numbered rs \<longleftrightarrow> (\<forall>i. indexes i rs = map int [0..<length (indexes i rs)])"

lemma indexes_rkeys: "indexes i rs = map snd (filter (\<lambda>k. fst k = i) (map rkey rs))"
  by (induction rs) (auto simp: indexes_def rkey_def)

lemma change_numbered: "change l rs rs' \<Longrightarrow> numbered rs \<Longrightarrow> numbered rs'"
proof (induction rule: change.induct)
  case (created rs i news)
  have "indexes j (rs @ news) = (if j = i then map po_operation_index news else indexes j rs)" for j
  proof (cases "j = i")
    case True
    have "filter (\<lambda>r. po_publish_job_id r = i) rs = []" using created(1) by (simp add: filter_empty_conv)
    moreover have "filter (\<lambda>r. po_publish_job_id r = i) news = news" using created(2) by (simp add: filter_id_conv)
    ultimately show ?thesis using True by (simp add: indexes_def)
  next
    case False
    then have "filter (\<lambda>r. po_publish_job_id r = j) news = []" using created(2) by (auto simp: filter_empty_conv)
    with False show ?thesis by (simp add: indexes_def)
  qed
  with created(3,4) show ?case by (simp add: numbered_def)
next
  case (moved key rs r m f)
  have "map rkey (set_rows (\<lambda>r. rkey r = key) f rs) = map rkey rs" by (simp add: set_rows_def moved(3))
  with moved(4) show ?case unfolding numbered_def indexes_rkeys by simp
next
  case (doubted rs rs')
  then show ?case using rkeys_doubted [OF doubted(1)] unfolding numbered_def indexes_rkeys by simp
qed simp

lemma world_reach_receipts:
  "world_reach w \<Longrightarrow> (\<forall>r\<in>set (receipts (wo_db w)). receipt_ok r) \<and> numbered (receipts (wo_db w))"
proof (induction rule: world_reach.induct)
  case (fresh w)
  then show ?case by (simp add: fresh_world_def numbered_def indexes_def)
next
  case (step w w')
  note ok = world_reach_ok [OF step(1)]
  obtain l where l: "change l (receipts (wo_db w)) (receipts (wo_db w'))" using world_step_change [OF step(2) ok] by blast
  have "distinct (map rkey (receipts (wo_db w)))" using ok by (simp add: world_ok_def)
  with change_receipts_ok [OF l] change_numbered [OF l] step(3) show ?case by blast
qed

section \<open>Publications\<close>

lemma collect_ids_Inr:
  "collect_ids acc is = Inr ids \<Longrightarrow> distinct acc \<Longrightarrow> ids = acc @ is \<and> distinct ids \<and> (\<forall>i\<in>set is. 0 < i)"
proof (induction acc "is" arbitrary: ids rule: collect_ids.induct)
  case (2 acc i "is")
  then show ?case by (auto split: if_splits)
qed simp

lemma filter_unique: "distinct (map f xs) \<Longrightarrow> x \<in> set xs \<Longrightarrow> filter (\<lambda>y. f y = f x) xs = [x]"
proof (induction xs)
  case (Cons y xs)
  show ?case
  proof (cases "x = y")
    case True
    have "filter (\<lambda>z. f z = f x) xs = []" using Cons(2) True by (simp add: filter_empty_conv) (metis imageI)
    with True show ?thesis by simp
  next
    case False
    then have "x \<in> set xs" "f y \<noteq> f x" using Cons(2,3) by (auto simp: image_iff)
    with Cons(1,2) show ?thesis by simp
  qed
qed simp

lemma ordered_ids:
  assumes "ordered_receipt_remote_ids rs = Inr ids"
  shows "ids = concat (map po_remote_message_ids (sort_key po_operation_index rs)) \<and> distinct ids \<and> ids \<noteq> [] \<and> (\<forall>i\<in>set ids. 0 < i)"
  using assms collect_ids_Inr [of "[]"] by (auto simp: ordered_receipt_remote_ids_def result_bind_eq_Inr split: if_splits)

lemma sorted_numbered: "numbered rs \<Longrightarrow> sort_key po_operation_index (filter (\<lambda>r. po_publish_job_id r = i) rs) = filter (\<lambda>r. po_publish_job_id r = i) rs"
proof -
  assume "numbered rs"
  then have "indexes i rs = map int [0..<length (indexes i rs)]" by (simp add: numbered_def)
  moreover have "sorted (map int [0..<n])" for n by (simp add: sorted_iff_nth_mono)
  ultimately have "sorted (indexes i rs)" by metis
  then show ?thesis by (simp add: indexes_def sorted_sort_id sort_key_id_if_sorted)
qed


section \<open>The end of a publication\<close>

text \<open>How many steps a publisher that has started can still take.\<close>

fun steps_left :: "publisher \<Rightarrow> nat" where
  "steps_left (Claiming c ops token) = 4 * length ops + 1"
| "steps_left (Resolving c op ops n) = 4 * length ops + 4"
| "steps_left (Sending c op ops n token) = 4 * length ops + 3"
| "steps_left (Persisting c op ops n token res) = 4 * length ops + 2"
| "steps_left (Stopped r) = 0"
| "steps_left p = 1"

fun is_starting :: "publisher \<Rightarrow> bool" where
  "is_starting (Starting i e) = True"
| "is_starting p = False"

lemma not_starting: "\<not> is_starting (fst (advance inp p x))"
  by (cases "(inp, p, x)" rule: advance.cases)
    (auto simp: start_publish_def claim_step_def finish_publish_def send_step_def
      split: sum.splits handler_error.splits prod.splits prepared.splits claim_outcome.splits option.splits)

lemma advance_steps: "\<not> is_starting p \<Longrightarrow> steps_left (fst (advance inp p x)) \<le> steps_left p - 1"
  by (cases "(inp, p, x)" rule: advance.cases)
    (auto simp: claim_step_def finish_publish_def send_step_def
      split: sum.splits handler_error.splits prod.splits claim_outcome.splits option.splits)

lemma no_steps_left: "steps_left p = 0 \<Longrightarrow> \<exists>r. p = Stopped r"
  by (cases p) auto

text \<open>A publication among others: every step meets its own input and the database the others left.\<close>

fun publish_among :: "nat \<Rightarrow> (nat \<Rightarrow> input) \<Rightarrow> (nat \<Rightarrow> pub_db) \<Rightarrow> publisher \<Rightarrow> publisher" where
  "publish_among 0 inputs dbs p = p"
| "publish_among (Suc k) inputs dbs p =
     publish_among k (\<lambda>i. inputs (Suc i)) (\<lambda>i. dbs (Suc i)) (fst (advance (inputs 0) p (dbs 0)))"

lemma publish_among_ends: "\<not> is_starting p \<Longrightarrow> steps_left p \<le> k \<Longrightarrow> \<exists>r. publish_among k inputs dbs p = Stopped r"
proof (induction k arbitrary: inputs dbs p)
  case 0
  then show ?case using no_steps_left [of p] by simp
next
  case (Suc k)
  have "steps_left (fst (advance (inputs 0) p (dbs 0))) \<le> k"
    using advance_steps [OF Suc(2), of "inputs 0" "dbs 0"] Suc(3) by simp
  with Suc(1) [OF not_starting this] show ?case by simp
qed

section \<open>Properties\<close>

text \<open>
  C3: whatever happens, the Bot API performs an operation of a publish job at most once, and once more for
  each time the operator declared it unsent; while its receipt is pending or not yet written, it has been
  performed at most as often as it was declared unsent.
\<close>

theorem sent_at_most_once:
  assumes "world_reach w"
  shows "count_list (wo_log w) (Delivered k) \<le> Suc (count_list (wo_log w) (Declared_Unsent k)) \<and>
    (status_of k (receipts (wo_db w)) \<in> {None, Some ''pending''} \<longrightarrow>
       count_list (wo_log w) (Delivered k) \<le> count_list (wo_log w) (Declared_Unsent k))"
proof -
  have "sent_ok k w" using world_ok_sent [OF world_reach_ok [OF assms]] .
  moreover have "spent s \<le> 1" for s by (cases s) auto
  then have "spent (status_of k (receipts (wo_db w))) \<le> 1" .
  ultimately show ?thesis by (auto simp: sent_ok_def)
qed

text \<open>
  C4: a recorded publication is true: it is the only one of its publish job, every operation of the job was
  performed by the Bot API or confirmed by the operator, and its message identifiers are those of the
  operations in their order, positive and distinct.
\<close>

theorem publications_truthful:
  assumes "world_reach w" "n \<in> set (pu_publications (wo_db w))"
  shows "pn_remote_message_ids n = concat (map po_remote_message_ids (receipts_of (pn_publish_job_id n) (wo_db w))) \<and>
    pn_remote_message_ids n \<noteq> [] \<and> distinct (pn_remote_message_ids n) \<and> list_all (\<lambda>i. 0 < i) (pn_remote_message_ids n) \<and>
    list_all (\<lambda>r. po_status r = ''succeeded'' \<and> (Delivered (rkey r) \<in> set (wo_log w) \<or> Confirmed (rkey r) \<in> set (wo_log w)))
      (receipts_of (pn_publish_job_id n) (wo_db w)) \<and>
    filter (\<lambda>m. pn_publish_job_id m = pn_publish_job_id n) (pu_publications (wo_db w)) = [n]"
proof -
  let ?rs = "receipts_of (pn_publish_job_id n) (wo_db w)"
  note ok = world_reach_ok [OF assms(1)]
  have t: "truthful w n" and dn: "distinct (map pn_publish_job_id (pu_publications (wo_db w)))"
    and dk: "distinct (map rkey (receipts (wo_db w)))"
    using ok assms(2) unfolding world_ok_def by blast+
  have "sort_key po_operation_index ?rs = ?rs"
    using sorted_numbered world_reach_receipts [OF assms(1)] by (simp add: receipts_of_def)
  moreover have "ordered_receipt_remote_ids ?rs = Inr (pn_remote_message_ids n)" using t by (simp add: truthful_def)
  moreover have "list_all (\<lambda>r. po_status r = ''succeeded'' \<and> (Delivered (rkey r) \<in> set (wo_log w) \<or> Confirmed (rkey r) \<in> set (wo_log w))) ?rs"
    unfolding list_all_iff
  proof (intro ballI conjI)
    fix r assume r: "r \<in> set ?rs"
    then show s: "po_status r = ''succeeded''" using t unfolding truthful_def by blast
    have "r \<in> set (receipts (wo_db w))" using r in_receipts_of by blast
    then have "status_of (rkey r) (receipts (wo_db w)) = Some ''succeeded''" using find_key [OF dk] s by (simp add: status_of_def)
    then show "Delivered (rkey r) \<in> set (wo_log w) \<or> Confirmed (rkey r) \<in> set (wo_log w)"
      using ok unfolding world_ok_def by blast
  qed
  moreover have "filter (\<lambda>m. pn_publish_job_id m = pn_publish_job_id n) (pu_publications (wo_db w)) = [n]"
    by (rule filter_unique [OF dn assms(2)])
  ultimately show ?thesis using ordered_ids [of ?rs "pn_remote_message_ids n"] by (metis list_all_iff)
qed


text \<open>
  C23: the receipts of every reachable state are well-formed: each has one of the five statuses, its attempts
  are counted from zero and only a pending operation may have none, no operation has two receipts, and the
  operations of a job are numbered from zero.
\<close>

theorem receipts_well_formed:
  assumes "world_reach w"
  shows "list_all receipt_ok (receipts (wo_db w)) \<and> distinct (map rkey (receipts (wo_db w))) \<and>
    map po_operation_index (receipts_of i (wo_db w)) = map int [0..<length (receipts_of i (wo_db w))]"
proof -
  have "distinct (map rkey (receipts (wo_db w)))" using world_reach_ok [OF assms] by (simp add: world_ok_def)
  moreover have "numbered (receipts (wo_db w))" "list_all receipt_ok (receipts (wo_db w))"
    using world_reach_receipts [OF assms] by (simp_all add: list_all_iff)
  moreover from this(1) have "indexes i (receipts (wo_db w)) = map int [0..<length (indexes i (receipts (wo_db w)))]"
    unfolding numbered_def by blast
  ultimately show ?thesis using sorted_numbered by (simp add: indexes_def receipts_of_def)
qed

text \<open>
  C6: no step of any process removes a receipt or moves it other than along the arrows of its life cycle, with
  its operation, identity and attempt count kept (a claim alone counts one attempt more); a receipt that
  succeeded or failed never changes again.
\<close>

theorem receipts_follow_life_cycle:
  assumes "world_reach w" "world_step w w'" "r \<in> set (receipts (wo_db w))"
  shows "list_ex (\<lambda>r'. r' = r \<or>
      po_status r \<notin> {''succeeded'', ''failed''} \<and> list_ex (\<lambda>m. move m r r') [Take, Doubt, Again, Give_Up, Succeed, Reopen, Confirm])
    (receipts (wo_db w'))"
proof -
  note ok = world_reach_ok [OF assms(1)]
  obtain l where l: "change l (receipts (wo_db w)) (receipts (wo_db w'))" using world_step_change [OF assms(2) ok] by blast
  have "distinct (map rkey (receipts (wo_db w)))" using ok by (simp add: world_ok_def)
  from change_rows(1) [OF l this assms(3)] obtain r' where r': "r' \<in> set (receipts (wo_db w'))" "r' = r \<or> (\<exists>m. move m r r')" by blast
  have "po_status r \<notin> {''succeeded'', ''failed''} \<and> list_ex (\<lambda>m. move m r r') [Take, Doubt, Again, Give_Up, Succeed, Reopen, Confirm]"
    if "move m r r'" for m
  proof -
    have "fst (arrow_ends m) = po_status r" using that by (simp add: move_def prod_eq_iff)
    then have "po_status r \<notin> {''succeeded'', ''failed''}" by (cases m) auto
    moreover have "m \<in> set [Take, Doubt, Again, Give_Up, Succeed, Reopen, Confirm]" by (cases m) simp_all
    ultimately show ?thesis using that by (auto simp: list_ex_iff)
  qed
  with r' show ?thesis by (auto simp: list_ex_iff)
qed

text \<open>
  C22: every \<open>publish_telegram\<close> call ends, whatever the inputs of its steps and whatever other processes do to
  the database between them: once its first transaction is done, after at most four steps for each operation
  and one more.
\<close>

theorem publish_ends:
  "\<exists>r. publish_among (Suc (steps_left (fst (advance (inputs 0) (Starting i e) (dbs 0))))) inputs dbs (Starting i e) = Stopped r"
  using publish_among_ends [OF not_starting order.refl, of "inputs 0" "Starting i e" "dbs 0" "\<lambda>i. inputs (Suc i)" "\<lambda>i. dbs (Suc i)"]
  by simp

end
