(* ===== verification/Telegram_Render_Spec.thy ===== *)
theory Telegram_Render_Spec
  imports Publish_Receipts
begin

text \<open>
  A plan carries the whole draft and nothing twice: the text, the buttons and the media files of the
  approved revision, each exactly once and in order, within the limits of the Bot API.
\<close>

section \<open>What a request carries\<close>

definition strings_at :: "pydict \<Rightarrow> string \<Rightarrow> string list" where
  "strings_at d k = (case dict_get d k of Some (PStr s) \<Rightarrow> [s] | _ \<Rightarrow> [])"

definition texts_in :: "pydict \<Rightarrow> string list" where
  "texts_in d = strings_at d ''text'' @ strings_at d ''caption'' @
     (case dict_get d ''media'' of Some (PList vs) \<Rightarrow> concat (map (\<lambda>v. strings_at (dict_of v) ''caption'') vs) | _ \<Rightarrow> [])"

definition markups_in :: "pydict \<Rightarrow> pyval list" where
  "markups_in d = (case dict_get d ''reply_markup'' of None \<Rightarrow> [] | Some v \<Rightarrow> [v])"

definition buttons_list :: "telegram_content \<Rightarrow> pyval list" where
  "buttons_list c = (case buttons_of c of None \<Rightarrow> [] | Some m \<Rightarrow> [m])"

definition media_kind :: "string \<Rightarrow> bool" where
  "media_kind k = (k \<in> {''photo'', ''video'', ''document''})"

definition verified :: "render_env \<Rightarrow> media_descriptor \<times> string \<Rightarrow> bool" where
  "verified rn f = (media_kind (md_type (fst f)) \<and> rn_digest rn (snd f) = Some (md_checksum_sha256 (fst f)))"

lemma message_carries:
  "texts_in (message_fields c t) = [tc_body c]" "markups_in (message_fields c t) = buttons_list c"
  by (auto simp: texts_in_def markups_in_def buttons_list_def strings_at_def message_fields_def with_markup_def dict_set_def dict_get_def
      split: option.splits)

lemma single_carries:
  assumes "media_kind (md_type d)"
  shows "texts_in (single_media_fields c t d cap) = (if cap then [tc_body c] else [])"
    "markups_in (single_media_fields c t d cap) = (if cap then buttons_list c else [])"
proof -
  have "md_type d = ''photo'' \<or> md_type d = ''video'' \<or> md_type d = ''document''" using assms by (simp add: media_kind_def)
  then show "texts_in (single_media_fields c t d cap) = (if cap then [tc_body c] else [])"
    "markups_in (single_media_fields c t d cap) = (if cap then buttons_list c else [])"
    by (elim disjE; cases cap; cases "buttons_of c";
        simp add: texts_in_def markups_in_def buttons_list_def strings_at_def single_media_fields_def with_markup_def
          dict_set_def dict_get_def)+
qed

lemma group_items_texts:
  "concat (map (\<lambda>v. strings_at (dict_of v) ''caption'') (map (\<lambda>(k, f). group_item c cap k (fst f)) (List.enumerate n fs))) =
   (if cap \<and> n = 0 \<and> fs \<noteq> [] then [tc_body c] else [])"
proof (induction fs arbitrary: n)
  case (Cons f fs)
  then show ?case by (simp add: group_item_def strings_at_def dict_get_def)
qed simp

lemma group_carries:
  assumes "2 \<le> length fs"
  shows "render_group c t cap fs =
    (''sendMediaGroup'', [(KStr ''chat_id'', PStr t), (KStr ''media'',
       PList (map (\<lambda>(k, f). group_item c cap k (fst f)) (List.enumerate 0 (map (\<lambda>(k, f). reattach k f) (List.enumerate 0 fs)))))],
     map (\<lambda>(k, f). reattach k f) (List.enumerate 0 fs))"
  using assms by (cases fs; cases "tl fs") (auto simp: render_group_def Let_def)

section \<open>Groups\<close>

lemma reattach_all:
  "map snd (map (\<lambda>(k, f). reattach k f) (List.enumerate n fs)) = map snd fs"
  "list_all (verified rn) (map (\<lambda>(k, f). reattach k f) (List.enumerate n fs)) = list_all (verified rn) fs"
  by (induction fs arbitrary: n) (simp_all add: reattach_def verified_def)

definition rendered_ok :: "render_env \<Rightarrow> rendered \<Rightarrow> bool" where
  "rendered_ok rn r =
     (case r of (m, fs, files) \<Rightarrow> length files \<le> 10 \<and> (m = ''sendMediaGroup'' \<longrightarrow> 2 \<le> length files) \<and> list_all (verified rn) files)"

lemma render_group_ok:
  assumes "fs \<noteq> []" "length fs \<le> 10" "list_all (verified rn) fs"
  shows "rendered_ok rn (render_group c t cap fs)" "map snd (snd (snd (render_group c t cap fs))) = map snd fs"
    "texts_in (fst (snd (render_group c t cap fs))) = (if cap then [tc_body c] else [])"
    "markups_in (fst (snd (render_group c t cap fs))) = (if cap \<and> length fs = 1 then buttons_list c else [])"
proof -
  have "rendered_ok rn (render_group c t cap fs) \<and> map snd (snd (snd (render_group c t cap fs))) = map snd fs \<and>
    texts_in (fst (snd (render_group c t cap fs))) = (if cap then [tc_body c] else []) \<and>
    markups_in (fst (snd (render_group c t cap fs))) = (if cap \<and> length fs = 1 then buttons_list c else [])"
  proof (cases "2 \<le> length fs")
    case True
    have "texts_in [(KStr ''chat_id'', PStr t), (KStr ''media'', PList vs)] =
        concat (map (\<lambda>v. strings_at (dict_of v) ''caption'') vs)" for vs
      by (simp add: texts_in_def strings_at_def dict_get_def)
    moreover have "markups_in [(KStr ''chat_id'', PStr t), (KStr ''media'', PList vs)] = []" for vs
      by (simp add: markups_in_def dict_get_def)
    moreover define g where "g = map (\<lambda>(k, f). reattach k f) (List.enumerate 0 fs)"
    moreover have "map snd g = map snd fs" "list_all (verified rn) g = list_all (verified rn) fs" "length g = length fs"
      unfolding g_def by (rule reattach_all) (rule reattach_all, simp)
    ultimately show ?thesis
      using True assms group_items_texts [of c cap 0 g] unfolding group_carries [OF True] g_def [symmetric] rendered_ok_def
      by (simp del: map_map length_map split: if_splits) (metis length_0_conv)+
  next
    case False
    then obtain f where f: "fs = [f]" using assms(1) by (cases fs; cases "tl fs") auto
    have k: "media_kind (md_type (fst (reattach 0 f)))" using assms(3) by (simp add: f verified_def reattach_def)
    have "single_method (fst (reattach 0 f)) \<noteq> ''sendMediaGroup''"
      using k by (auto simp: single_method_def SINGLE_METHODS_def media_kind_def)
    then show ?thesis using single_carries [OF k] assms(3)
      by (simp add: f render_group_def rendered_ok_def reattach_def verified_def)
  qed
  then show "rendered_ok rn (render_group c t cap fs)" "map snd (snd (snd (render_group c t cap fs))) = map snd fs"
    "texts_in (fst (snd (render_group c t cap fs))) = (if cap then [tc_body c] else [])"
    "markups_in (fst (snd (render_group c t cap fs))) = (if cap \<and> length fs = 1 then buttons_list c else [])"
    by blast+
qed


definition files_in :: "rendered list \<Rightarrow> string list" where
  "files_in rs = concat (map (\<lambda>r. map snd (snd (snd r))) rs)"

definition texts_of :: "rendered list \<Rightarrow> string list" where
  "texts_of rs = concat (map (\<lambda>r. texts_in (fst (snd r))) rs)"

definition markups_of :: "rendered list \<Rightarrow> pyval list" where
  "markups_of rs = concat (map (\<lambda>r. markups_in (fst (snd r))) rs)"

lemmas carried_defs = files_in_def texts_of_def markups_of_def

lemma render_groups_ok:
  assumes "list_all (verified rn) fs" "cap \<Longrightarrow> length fs = 1 \<Longrightarrow> buttons_list c = []"
  shows "list_all (rendered_ok rn) (render_groups c t cap fs) \<and> files_in (render_groups c t cap fs) = map snd fs \<and>
    texts_of (render_groups c t cap fs) = (if cap \<and> fs \<noteq> [] then [tc_body c] else []) \<and>
    markups_of (render_groups c t cap fs) = []"
  using assms
proof (induction c t cap fs rule: render_groups.induct)
  case (1 c t cap fs)
  show ?case
  proof (cases "fs = []")
    case True
    then show ?thesis by (simp add: render_groups.simps [of c t cap "[]"] carried_defs)
  next
    case False
    have v: "list_all (verified rn) (take GROUP_LIMIT fs)" "list_all (verified rn) (drop GROUP_LIMIT fs)"
      using 1(2) by (auto simp: list_all_iff dest: in_set_takeD in_set_dropD)
    have g: "take GROUP_LIMIT fs \<noteq> []" "length (take GROUP_LIMIT fs) \<le> 10" using False by (simp_all add: GROUP_LIMIT_def)
    have one: "length (take GROUP_LIMIT fs) = 1 \<longleftrightarrow> length fs = 1" by (auto simp: GROUP_LIMIT_def min_def)
    have "map snd (take GROUP_LIMIT fs) @ map snd (drop GROUP_LIMIT fs) = map snd fs" by (simp flip: map_append)
    with 1(1) [OF False v(2)] render_group_ok [OF g v(1), of c t cap] 1(3) False show ?thesis
      unfolding one by (simp add: render_groups.simps [of c t cap fs] carried_defs)
  qed
qed

section \<open>Media\<close>

lemma descriptor_verified:
  assumes "media_descriptor_of rn a k = Inr f"
  shows "verified rn f" "ma_storage_path a = Some (snd f)"
proof -
  have "media_kind kind" if "map_of MEDIA_TYPES x = Some kind" for x kind
    using that by (auto simp: MEDIA_TYPES_def media_kind_def split: if_splits)
  then show "verified rn f" "ma_storage_path a = Some (snd f)"
    using assms
    by (auto simp: media_descriptor_of_def Let_def verified_def split: option.splits if_splits prod.splits)
qed

lemma descriptors_verified:
  assumes "map_result (\<lambda>(k, a). media_descriptor_of rn a k) (List.enumerate n ms) = Inr fs"
  shows "list_all (verified rn) fs \<and> map ma_storage_path ms = map (\<lambda>f. Some (snd f)) fs"
  using assms
proof (induction ms arbitrary: n fs)
  case (Cons a ms)
  then obtain f fs' where "media_descriptor_of rn a n = Inr f" "fs = f # fs'"
    "map_result (\<lambda>(k, a). media_descriptor_of rn a k) (List.enumerate (Suc n) ms) = Inr fs'"
    by (auto simp: result_bind_eq_Inr)
  with Cons.IH descriptor_verified show ?case by simp
qed simp

lemma render_media_ok:
  assumes "render_media rn c ms t = Inr rs" "ms \<noteq> []"
  shows "list_all (rendered_ok rn) rs \<and> map ma_storage_path ms = map Some (files_in rs) \<and> texts_of rs = [tc_body c] \<and>
    markups_of rs = buttons_list c"
proof -
  obtain fs where fs: "map_result (\<lambda>(k, a). media_descriptor_of rn a k) (List.enumerate 0 ms) = Inr fs"
    using assms(1) by (auto simp: render_media_def result_bind_eq_Inr)
  define cap where "cap = (length (tc_body c) \<le> CAPTION_LIMIT)"
  define force where "force = (length fs > 1 \<and> tc_buttons c \<noteq> [])"
  define main where "main = (case fs of [f] \<Rightarrow> [(single_method (fst f), single_media_fields c t (fst f) cap, fs)]
                             | _ \<Rightarrow> render_groups c t (cap \<and> \<not> force) fs)"
  have rs: "rs = main @ (if \<not> cap \<or> force then [(''sendMessage'', message_fields c t, [])] else [])"
    using assms(1) fs unfolding main_def cap_def force_def render_media_def Let_def by (auto split: if_splits)
  note v = descriptors_verified [OF fs]
  then have "fs \<noteq> []" using assms(2) by auto
  have "list_all (rendered_ok rn) main \<and> files_in main = map snd fs \<and>
      texts_of main = (if cap \<and> \<not> force then [tc_body c] else []) \<and>
      markups_of main = (if cap \<and> \<not> force then buttons_list c else [])"
  proof (cases "length fs = 1")
    case True
    then obtain f where f: "fs = [f]" by (cases fs) auto
    then have k: "media_kind (md_type (fst f))" using v by (simp add: verified_def)
    then have "single_method (fst f) \<noteq> ''sendMediaGroup''" by (auto simp: single_method_def SINGLE_METHODS_def media_kind_def)
    with single_carries [OF k] v show ?thesis by (simp add: f main_def force_def rendered_ok_def carried_defs)
  next
    case False
    then have m: "main = render_groups c t (cap \<and> \<not> force) fs" using \<open>fs \<noteq> []\<close> by (cases fs; cases "tl fs") (auto simp: main_def)
    have b: "buttons_list c = []" if "cap \<and> \<not> force"
      using that False \<open>fs \<noteq> []\<close> by (cases fs) (auto simp: force_def buttons_list_def buttons_of_def)
    show ?thesis unfolding m using render_groups_ok [of rn fs "cap \<and> \<not> force" c t] v False b \<open>fs \<noteq> []\<close> by simp
  qed
  moreover have "rendered_ok rn (''sendMessage'', message_fields c t, [])" by (simp add: rendered_ok_def)
  ultimately show ?thesis using v message_carries [of c t] unfolding rs
    by (auto simp: carried_defs comp_def)
qed

section \<open>The plan\<close>

lemma upload_of_checksum: "upload_of d = Inr u \<Longrightarrow> um_checksum_sha256 u = md_checksum_sha256 d"
  by (auto simp: upload_of_def result_bind_eq_Inr)

lemma operation_of_fields:
  assumes "operation_of rn k r = Inr op"
  shows "op_method op = fst r \<and> op_fields op = fst (snd r) \<and> op_file_paths op = map snd (snd (snd r)) \<and>
    map um_checksum_sha256 (op_uploads op) = map (\<lambda>f. md_checksum_sha256 (fst f)) (snd (snd r))"
proof -
  obtain m fs files where r: "r = (m, fs, files)" by (cases r) auto
  obtain us where us: "map_result (\<lambda>f. upload_of (fst f)) files = Inr us" "op_uploads op = us"
    using assms by (auto simp: r operation_of_def Let_def result_bind_eq_Inr)
  from us(1) have "map um_checksum_sha256 us = map (\<lambda>f. md_checksum_sha256 (fst f)) files"
    unfolding map_result_Inr by (induction rule: list_all2_induct) (auto dest: upload_of_checksum)
  then show ?thesis using assms us by (auto simp: r operation_of_def Let_def result_bind_eq_Inr)
qed

lemma operations_fields:
  assumes "map_result (\<lambda>(k, r). operation_of rn k r) (List.enumerate n rs) = Inr ops"
  shows "list_all2 (\<lambda>r op. op_method op = fst r \<and> op_fields op = fst (snd r) \<and> op_file_paths op = map snd (snd (snd r)) \<and>
    map um_checksum_sha256 (op_uploads op) = map (\<lambda>f. md_checksum_sha256 (fst f)) (snd (snd r))) rs ops"
  using assms
proof (induction rs arbitrary: n ops)
  case (Cons r rs)
  then obtain op ops' where "operation_of rn n r = Inr op" "ops = op # ops'"
    "map_result (\<lambda>(k, r). operation_of rn k r) (List.enumerate (Suc n) rs) = Inr ops'"
    by (auto simp: result_bind_eq_Inr)
  with Cons.IH operation_of_fields show ?case by simp
qed simp

lemma operations_carry:
  assumes "map_result (\<lambda>(k, r). operation_of rn k r) (List.enumerate 0 rs) = Inr ops"
  shows "concat (map op_file_paths ops) = files_in rs" "concat (map (\<lambda>op. texts_in (op_fields op)) ops) = texts_of rs"
    "concat (map (\<lambda>op. markups_in (op_fields op)) ops) = markups_of rs"
  using operations_fields [OF assms] by (induction rule: list_all2_induct) (simp_all add: carried_defs)


lemma ordered_media_ids:
  assumes "ordered_media c items = Inr ms"
  shows "map ma_id ms = tc_media_asset_ids c \<and> set ms \<subseteq> set items"
proof -
  have ids: "set (map ma_id items) = set (tc_media_asset_ids c)"
    and ms: "ms = List.map_filter (\<lambda>i. find (\<lambda>a. ma_id a = i) items) (tc_media_asset_ids c)"
    using assms by (auto simp: ordered_media_def Let_def split: if_splits)
  have "map ma_id (List.map_filter (\<lambda>i. find (\<lambda>a. ma_id a = i) items) is) = is \<and>
      set (List.map_filter (\<lambda>i. find (\<lambda>a. ma_id a = i) items) is) \<subseteq> set items" if "set is \<subseteq> set (map ma_id items)" for "is"
    using that
  proof (induction "is")
    case (Cons i "is")
    then obtain a where "find (\<lambda>a. ma_id a = i) items = Some a" by (cases "find (\<lambda>a. ma_id a = i) items") (auto simp: find_None_iff)
    with Cons find_Some_in [OF this] show ?case by (simp add: map_filter_simps)
  qed (simp add: map_filter_simps)
  with ids show ?thesis unfolding ms by blast
qed

definition operation_ok :: "render_env \<Rightarrow> publish_operation \<Rightarrow> bool" where
  "operation_ok rn op =
     (length (op_file_paths op) \<le> 10 \<and> (op_method op = ''sendMediaGroup'' \<longrightarrow> 2 \<le> length (op_file_paths op)) \<and>
      map (rn_digest rn) (op_file_paths op) = map Some (map um_checksum_sha256 (op_uploads op)))"

lemma operations_ok:
  assumes "map_result (\<lambda>(k, r). operation_of rn k r) (List.enumerate 0 rs) = Inr ops" "list_all (rendered_ok rn) rs"
  shows "list_all (operation_ok rn) ops"
  using operations_fields [OF assms(1)] assms(2)
proof (induction rule: list_all2_induct)
  case (Cons r rs op ops)
  obtain m fs files where r: "r = (m, fs, files)" by (cases r) auto
  have "map (rn_digest rn) (map snd files) = map Some (map (\<lambda>f. md_checksum_sha256 (fst f)) files)"
    using Cons(4) by (auto simp: r rendered_ok_def verified_def list_all_iff)
  with Cons show ?case by (simp add: r operation_ok_def rendered_ok_def del: map_map)
qed simp

lemma plan_carries:
  assumes "build_publish_plan rn r media d = Inr plan" "rn_content rn (vr_content r) = Some c"
  shows "list_all (operation_ok rn) (pl_operations plan) \<and>
    concat (map (\<lambda>op. texts_in (op_fields op)) (pl_operations plan)) = [tc_body c] \<and>
    concat (map (\<lambda>op. markups_in (op_fields op)) (pl_operations plan)) = buttons_list c \<and>
    (\<exists>ms. map ma_id ms = (if tc_media_policy c = ''omit'' then [] else tc_media_asset_ids c) \<and> set ms \<subseteq> set media \<and>
          map ma_storage_path ms = map Some (concat (map op_file_paths (pl_operations plan))))"
proof -
  obtain rs where rs: "(if tc_media_policy c = ''omit'' \<or> tc_media_asset_ids c = []
                       then Inr [(''sendMessage'', message_fields c (de_target_ref d), [])]
                       else result_bind (ordered_media c media) (\<lambda>ms. render_media rn c ms (de_target_ref d))) = Inr rs"
    and ops: "map_result (\<lambda>(k, r). operation_of rn k r) (List.enumerate 0 rs) = Inr (pl_operations plan)"
    using assms by (auto simp: build_publish_plan_def Let_def result_bind_eq_Inr split: if_splits)
  have "list_all (rendered_ok rn) rs \<and> texts_of rs = [tc_body c] \<and> markups_of rs = buttons_list c \<and>
    (\<exists>ms. map ma_id ms = (if tc_media_policy c = ''omit'' then [] else tc_media_asset_ids c) \<and> set ms \<subseteq> set media \<and>
          map ma_storage_path ms = map Some (files_in rs))"
  proof (cases "tc_media_policy c = ''omit'' \<or> tc_media_asset_ids c = []")
    case True
    then have "rs = [(''sendMessage'', message_fields c (de_target_ref d), [])]" using rs by simp
    with message_carries [of c "de_target_ref d"] True show ?thesis by (auto simp: rendered_ok_def carried_defs)
  next
    case False
    then obtain ms where ms: "ordered_media c media = Inr ms" "render_media rn c ms (de_target_ref d) = Inr rs"
      using rs by (auto simp: result_bind_eq_Inr)
    note ids = ordered_media_ids [OF ms(1)]
    then have "ms \<noteq> []" using False by auto
    from render_media_ok [OF ms(2) this] ids False show ?thesis by auto
  qed
  with operations_carry [OF ops] operations_ok [OF ops] show ?thesis by simp
qed

text \<open>
  C15: a plan made from a draft numbers its operations from zero, carries the text of the draft in exactly one
  of them and the buttons in exactly one when there are any, uploads every media file of the draft once and in
  the order of the draft (none when media are omitted), groups at most ten and at least two files, and every
  upload carries the checksum of its file.
\<close>

theorem plan_carries_draft:
  assumes "build_publish_plan rn r media d = Inr plan" "rn_content rn (vr_content r) = Some c"
  shows "map op_index (pl_operations plan) = map int [0..<length (pl_operations plan)] \<and>
    list_all (operation_ok rn) (pl_operations plan) \<and>
    concat (map (\<lambda>op. texts_in (op_fields op)) (pl_operations plan)) = [tc_body c] \<and>
    concat (map (\<lambda>op. markups_in (op_fields op)) (pl_operations plan)) = buttons_list c \<and>
    (\<exists>ms. map ma_id ms = (if tc_media_policy c = ''omit'' then [] else tc_media_asset_ids c) \<and> set ms \<subseteq> set media \<and>
          map ma_storage_path ms = map Some (concat (map op_file_paths (pl_operations plan))))"
  using plan_indexes [OF assms(1)] plan_carries [OF assms] by blast

end
