(* ===== verification/Publish_Samples.thy ===== *)
theory Publish_Samples
  imports Publish_Spec Telegram_Render_Spec
begin

text \<open>
  One publication on which the theorems are applied: an approved draft with a photo, a video and a button is
  sent as a media group and a message, and recorded.
\<close>

section \<open>Rows\<close>

definition sample_asset :: "uuid \<Rightarrow> string \<Rightarrow> string \<Rightarrow> string \<Rightarrow> media_asset" where
  "sample_asset i kind mime path =
     \<lparr>ma_id = i, ma_original_url = ''u'', ma_normalized_url = ''u'', ma_url_hash = i, ma_kind = kind, ma_mime_type = Some mime,
      ma_width = None, ma_height = None, ma_duration_seconds = None, ma_byte_length = None, ma_alt_text = None, ma_title = None,
      ma_source_field = ''media'', ma_checksum_sha256 = Some (replicate 64 CHR ''a''), ma_storage_path = Some path,
      ma_fetch_status = ''downloaded'', ma_media_quality = ''good'', ma_media_confidence = (1, 0), ma_is_primary_candidate = True,
      ma_is_primary = True, ma_media_source_type = ''telegram'', ma_asset_role = ''body'', ma_raw_metadata = [], ma_created_at = 0\<rparr>"

definition sample_destination :: destination where
  "sample_destination =
     \<lparr>de_id = ''d'', de_name = ''Channel'', de_platform = ''telegram'', de_target_ref = ''@news'', de_secret_ref = ''bot'',
      de_canonical_target = None, de_target_type = None, de_secret_id = None, de_proxy_profile_id = None, de_enabled = True,
      de_health_status = ''healthy'', de_last_health_check_at = None, de_proxy_health_status = ''healthy'',
      de_telegram_health_status = ''healthy'', de_bot_health_status = ''healthy'', de_target_health_status = ''healthy'',
      de_administrator_status = ''healthy'', de_failure_code = None, de_verified_bot_id = None, de_verified_bot_username = None,
      de_verified_chat_id = None, de_verified_chat_title = None, de_verified_chat_type = None, de_ownership = ''operator'',
      de_settings = [], de_created_at = 0\<rparr>"

definition sample_route :: automation_route where
  "sample_route =
     \<lparr>rt_id = ''r'', rt_name = ''Route'', rt_source_id = ''s'', rt_destination_id = ''d'', rt_brand_profile_id = ''b'',
      rt_prompt_template_version_id = ''t'', rt_prompt_policy = ''pinned'', rt_ai_provider_profile_id = ''p'',
      rt_access_mode = ''public_web'', rt_research_mode = ''disabled'', rt_content_filters = [], rt_media_policy = ''preserve'',
      rt_attribution_policy = ''none'', rt_custom_footer = None, rt_publishing_policy = ''review'', rt_poll_interval_seconds = 60,
      rt_quiet_hours = [], rt_retry_policy = [], rt_cursor_state = [], rt_enabled = True, rt_paused_at = None,
      rt_last_polled_at = None, rt_next_poll_at = None, rt_backfill_limit = None, rt_backfill_since = None, rt_created_at = 0\<rparr>"

definition sample_dispatch :: automation_dispatch where
  "sample_dispatch =
     \<lparr>ad_id = ''a'', ad_creation_sequence = 1, ad_route_id = ''r'', ad_source_item_id = ''i'', ad_story_revision_id = ''v'',
      ad_source_key = ''k'', ad_source_fingerprint = ''f'', ad_source_message_ids = [7], ad_dispatch_kind = ''scheduled'',
      ad_status = ''awaiting_review'', ad_generation_run_id = None, ad_variant_revision_id = Some ''w'', ad_publish_job_id = None,
      ad_automation_run_id = None, ad_automation_node_run_id = None, ad_error_code = None, ad_error_message = None, ad_created_at = 0\<rparr>"

definition sample_revision :: variant_revision where
  "sample_revision =
     \<lparr>vr_id = ''w'', vr_platform_variant_id = ''q'', vr_parent_revision_id = None, vr_generation_attempt_id = None,
      vr_revision_number = 1, vr_content = [], vr_content_hash = ''h'', vr_evidence_map = [PNone], vr_validation_results = [],
      vr_approval_state = ''approved'', vr_approval_note = None, vr_approved_at = Some 0, vr_created_by = ''operator'', vr_created_at = 0\<rparr>"

definition sample_publish_job :: publish_job where
  "sample_publish_job =
     \<lparr>pj_id = ''j'', pj_workflow_job_id = None, pj_destination_id = ''d'', pj_platform_variant_revision_id = ''w'',
      pj_status = ''queued'', pj_idempotency_key = ''j'', pj_payload_hash = ''h'', pj_scheduled_for = None, pj_created_at = 0,
      pj_updated_at = 0\<rparr>"

definition sample_pub_db :: pub_db where
  "sample_pub_db =
     \<lparr>pu_db = empty_db
        \<lparr>db_control := Some \<lparr>ac_global_pause = False, ac_dry_run = False, ac_pause_reason = None, ac_paused_at = None,
                             ac_updated_at = 0\<rparr>,
         db_dispatches := [sample_dispatch], db_publish_jobs := [sample_publish_job]\<rparr>,
      pu_routes = [sample_route], pu_destinations = [sample_destination], pu_publications = [],
      pu_packs = [\<lparr>cp_id = ''c'', cp_story_revision_id = ''v'', cp_brand_profile_id = ''b'', cp_status = ''draft'', cp_created_at = 0\<rparr>],
      pu_variants = [\<lparr>pv_id = ''q'', pv_content_pack_id = ''c'', pv_platform = ''telegram'', pv_created_at = 0\<rparr>],
      pu_revisions = [sample_revision],
      pu_story_revisions = [\<lparr>sv_id = ''v'', sv_story_id = ''y'', sv_parent_revision_id = None, sv_revision_number = 1,
        sv_narrative = [], sv_facts = [], sv_disagreements = [], sv_angles = [], sv_citations = [], sv_created_by = ''system'',
        sv_created_at = 0\<rparr>],
      pu_snapshots = [\<lparr>es_id = ''e'', es_story_id = ''y'', es_content_item_id = None, es_evidence_key = ''e1'', es_source_url = None,
        es_title = None, es_content_text = ''text'', es_authors = [], es_published_at = None, es_content_sha256 = ''h'',
        es_snapshot_metadata = [], es_source_identity = None, es_is_primary = True, es_captured_at = 0\<rparr>],
      pu_media = [sample_asset ''m1'' ''image'' ''image/png'' ''/data/one.png'', sample_asset ''m2'' ''video'' ''video/mp4'' ''/data/two.mp4''],
      pu_item_media = [\<lparr>im_content_item_id = ''n'', im_media_asset_id = ''m1'', im_role = ''body'', im_sort_order = 0,
          im_confidence = (1, 0), im_extracted_from = ''telegram''\<rparr>,
        \<lparr>im_content_item_id = ''n'', im_media_asset_id = ''m2'', im_role = ''body'', im_sort_order = 1,
          im_confidence = (1, 0), im_extracted_from = ''telegram''\<rparr>],
      pu_source_items = [\<lparr>si_id = ''i'', si_source_id = Some ''s'', si_run_id = None, si_content_item_id = Some ''n'',
        si_raw_payload_id = None, si_external_id_raw = None, si_external_id_norm = None, si_source_url = None,
        si_source_url_norm = None, si_canonical_url_candidate = None, si_title_raw = None, si_summary_raw = None,
        si_content_html_raw = None, si_content_text_raw = None, si_author_raw = None, si_categories = [], si_published_raw = None,
        si_parser_meta = [], si_first_seen_at = 0, si_last_seen_at = 0\<rparr>]\<rparr>"

section \<open>The environment\<close>

definition sample_content :: telegram_content where
  "sample_content =
     \<lparr>tc_body = ''Hello'', tc_parse_mode = ''HTML'', tc_buttons = [\<lparr>tb_text = ''Read'', tb_url = ''https://n.example''\<rparr>],
      tc_source_item_id = Some ''i'', tc_source_url = None, tc_media_policy = ''preserve'', tc_media_asset_ids = [''m2'', ''m1''],
      tc_direction = ''ltr'', tc_dry_run = False\<rparr>"

definition sample_text :: telegram_content where
  "sample_text = sample_content\<lparr>tc_media_policy := ''omit'', tc_media_asset_ids := []\<rparr>"

definition sample_render :: "telegram_content \<Rightarrow> render_env" where
  "sample_render c =
     \<lparr>rn_content = (\<lambda>d. Some c), rn_hash = (\<lambda>v. ''h''), rn_is_file = (\<lambda>p. True),
      rn_digest = (\<lambda>p. Some (replicate 64 CHR ''a''))\<rparr>"

definition sample_http :: "http_request \<Rightarrow> http_answer" where
  "sample_http q = Http_Answer 200 (Some (PDict [(KStr ''ok'', PBool True),
     (KStr ''result'', PDict [(KStr ''message_id'', PInt 11)])]))"

definition sample_input :: input where
  "sample_input =
     \<lparr>in_env = plain_env,
      in_lib = \<lparr>lb_render = sample_render sample_text,
                lb_citation = (\<lambda>v. Some \<lparr>ct_evidence_snapshot_id = ''e'', ct_evidence_key = ''e1'', ct_source_url = None,
                                          ct_locator = ''chars:0-4'', ct_excerpt_sha256 = ''h''\<rparr>),
                lb_sha256 = (\<lambda>s. ''h'')\<rparr>,
      in_client = \<lparr>ce_base_url = ''https://api.telegram.org'', ce_redact = (\<lambda>t s. s), ce_digest = (\<lambda>p. Some (replicate 64 CHR ''a''))\<rparr>,
      in_secret = (\<lambda>r. Some (PStr ''token'')), in_http = sample_http, in_fault_before = False, in_fault_after = None,
      in_fault_commit = False\<rparr>"

section \<open>Driving one publisher\<close>

text \<open>The Bot API performs what it answers with success.\<close>

definition performed :: "input \<Rightarrow> publish_operation \<Rightarrow> string \<Rightarrow> bool" where
  "performed inp op token =
     (\<not> in_fault_before inp \<and> (case client_execute (in_client inp) (in_http inp) op token of Inr res \<Rightarrow> True | Inl e \<Rightarrow> False))"

lemma performed_sound: "sound_answer inp op token (performed inp op token)"
  by (auto simp: performed_def sound_answer_def client_execute_def read_answer_def Let_def
      split: sum.splits http_answer.splits if_splits)

definition turn :: "input \<Rightarrow> world \<Rightarrow> world" where
  "turn inp w =
     (case wo_publishers w of
        [] \<Rightarrow> w
      | p # ps \<Rightarrow>
          (case p of
            Sending c op ops n token \<Rightarrow>
              w\<lparr>wo_publishers := send_step inp c op ops n token # ps,
                wo_log := (if performed inp op token then Delivered (op_key_of c op) # wo_log w else wo_log w)\<rparr>
          | _ \<Rightarrow> (case advance inp p (wo_db w) of (p', x') \<Rightarrow> w\<lparr>wo_db := x', wo_publishers := p' # ps\<rparr>)))"

fun drive :: "input \<Rightarrow> nat \<Rightarrow> world \<Rightarrow> world" where
  "drive inp 0 w = w"
| "drive inp (Suc k) w = turn inp (drive inp k w)"

lemma turn_publishers: "wo_publishers w \<noteq> [] \<Longrightarrow> wo_publishers (turn inp w) \<noteq> []"
  by (auto simp: turn_def split: list.splits publisher.splits prod.splits)

lemma drive_publishers: "wo_publishers w \<noteq> [] \<Longrightarrow> wo_publishers (drive inp k w) \<noteq> []"
  by (induction k) (simp_all add: turn_publishers)

lemma turn_step:
  assumes "in_fault_after inp = None" "wo_publishers w \<noteq> []"
  shows "world_step w (turn inp w)"
proof -
  obtain p ps where Cons: "wo_publishers w = p # ps" using assms(2) by (cases "wo_publishers w") auto
  show ?thesis
  proof (cases "in_sending p")
    case True
    then obtain c op ops n token where p: "p = Sending c op ops n token" by (cases p) auto
    have "world_step w (w\<lparr>wo_publishers := (wo_publishers w)[0 := send_step inp c op ops n token],
        wo_log := (if performed inp op token then Delivered (op_key_of c op) # wo_log w else wo_log w)\<rparr>)"
      by (rule world_step.sent [OF _ _ performed_sound]) (simp_all add: Cons p assms)
    then show ?thesis by (simp add: turn_def Cons p)
  next
    case False
    obtain p' x' where a: "advance inp p (wo_db w) = (p', x')" by force
    have "world_step w (w\<lparr>wo_db := x', wo_publishers := (wo_publishers w)[0 := p']\<rparr>)"
      by (rule world_step.advanced) (use False a in \<open>simp_all add: Cons\<close>)
    moreover have "turn inp w = w\<lparr>wo_db := x', wo_publishers := (wo_publishers w)[0 := p']\<rparr>"
      using False a by (cases p) (auto simp: turn_def Cons)
    ultimately show ?thesis by simp
  qed
qed

definition sample_start :: world where
  "sample_start = \<lparr>wo_db = sample_pub_db, wo_publishers = [Starting ''j'' None], wo_log = []\<rparr>"

definition sample_end :: world where
  "sample_end = drive sample_input 6 sample_start"

lemma sample_start_reach: "world_reach sample_start"
proof -
  let ?w = "\<lparr>wo_db = sample_pub_db, wo_publishers = [], wo_log = []\<rparr>"
  have "world_reach ?w" by (rule world_reach.fresh) (simp add: fresh_world_def sample_pub_db_def empty_db_def)
  from world_reach.step [OF this world_step.started [of ?w "''j''" None]] show ?thesis by (simp add: sample_start_def)
qed

lemma sample_step: "world_step (drive sample_input k sample_start) (drive sample_input (Suc k) sample_start)"
  by (simp, rule turn_step) (simp_all add: drive_publishers sample_start_def sample_input_def)

lemma sample_world_reach: "world_reach (drive sample_input k sample_start)"
proof (induction k)
  case (Suc k)
  then show ?case by (rule world_reach.step [OF _ sample_step])
qed (simp add: sample_start_reach)

lemmas sample_end_reach = sample_world_reach [of 6, folded sample_end_def]

definition sample_publication :: publication where
  "sample_publication =
     \<lparr>pn_id = ''id-2'', pn_publish_job_id = ''j'', pn_destination_id = ''d'', pn_platform_variant_revision_id = ''w'',
      pn_remote_message_ids = [11], pn_permalink = Some ''https://t.me/news/11'', pn_payload_hash = ''h'',
      pn_published_at = 1000, pn_reconciliation_status = ''confirmed''\<rparr>"

definition world_facts :: "world \<Rightarrow> fact list \<times> publication list \<times> (int \<times> string) list" where
  "world_facts w = (wo_log w, pu_publications (wo_db w), map (\<lambda>r. (po_operation_index r, po_status r)) (receipts (wo_db w)))"

lemma sample_end_facts: "world_facts sample_end = ([Delivered (''j'', 0)], [sample_publication], [(0, ''succeeded'')])"
  by code_simp

lemma sample_end_simps:
  "wo_log sample_end = [Delivered (''j'', 0)]" "pu_publications (wo_db sample_end) = [sample_publication]"
  "map (\<lambda>r. (po_operation_index r, po_status r)) (receipts (wo_db sample_end)) = [(0, ''succeeded'')]"
  using sample_end_facts by (simp_all add: world_facts_def)


section \<open>The theorems on the samples\<close>

lemma sent_at_most_once_witness:
  "count_list (wo_log sample_end) (Delivered (''j'', 0)) = 1 \<and>
   count_list (wo_log sample_end) (Delivered (''j'', 0)) \<le> Suc (count_list (wo_log sample_end) (Declared_Unsent (''j'', 0)))"
  using sent_at_most_once [OF sample_end_reach, of "(''j'', 0)"] by (simp add: sample_end_simps)

lemma publications_truthful_witness:
  "pn_remote_message_ids sample_publication = [11] \<and>
   concat (map po_remote_message_ids (receipts_of ''j'' (wo_db sample_end))) = [11] \<and>
   filter (\<lambda>m. pn_publish_job_id m = ''j'') (pu_publications (wo_db sample_end)) = [sample_publication]"
  using publications_truthful [OF sample_end_reach, of sample_publication]
  by (simp add: sample_end_simps) (simp add: sample_publication_def)

lemma receipts_well_formed_witness:
  "length (receipts (wo_db sample_end)) = 1 \<and> list_all receipt_ok (receipts (wo_db sample_end)) \<and>
   map po_operation_index (receipts_of ''j'' (wo_db sample_end)) = map int [0..<length (receipts_of ''j'' (wo_db sample_end))]"
  using receipts_well_formed [OF sample_end_reach, of "''j''"] arg_cong [where f = length, OF sample_end_simps(3)] by simp

definition statuses :: "nat \<Rightarrow> string list" where
  "statuses k = map po_status (receipts (wo_db (drive sample_input k sample_start)))"

lemma sample_statuses: "statuses 1 = [''pending'']" "statuses 2 = [''dispatching'']"
  by code_simp+

lemma receipts_follow_life_cycle_witness:
  "\<exists>r r'. receipts (wo_db (drive sample_input 1 sample_start)) = [r] \<and> receipts (wo_db (drive sample_input 2 sample_start)) = [r'] \<and>
     po_status r = ''pending'' \<and> po_status r' = ''dispatching'' \<and> move Take r r'"
proof -
  obtain r where r: "receipts (wo_db (drive sample_input 1 sample_start)) = [r]" "po_status r = ''pending''"
    using sample_statuses(1) by (auto simp: statuses_def map_eq_Cons_conv)
  obtain r' where r': "receipts (wo_db (drive sample_input 2 sample_start)) = [r']" "po_status r' = ''dispatching''"
    using sample_statuses(2) by (auto simp: statuses_def map_eq_Cons_conv)
  have "world_step (drive sample_input 1 sample_start) (drive sample_input 2 sample_start)"
    using sample_step [of 1] by (simp only: numeral_2_eq_2 One_nat_def)
  from receipts_follow_life_cycle [OF sample_world_reach this, of r] r r' show ?thesis by (auto simp: move_def)
qed

lemma plan_carries_draft_witness:
  "\<exists>plan. build_publish_plan (sample_render sample_content) sample_revision (pu_media sample_pub_db) sample_destination = Inr plan \<and>
     map op_method (pl_operations plan) = [''sendMediaGroup'', ''sendMessage''] \<and>
     concat (map (\<lambda>op. texts_in (op_fields op)) (pl_operations plan)) = [''Hello''] \<and>
     concat (map op_file_paths (pl_operations plan)) = [''/data/two.mp4'', ''/data/one.png'']"
proof -
  let ?p = "build_publish_plan (sample_render sample_content) sample_revision (pu_media sample_pub_db) sample_destination"
  have "(case ?p of Inl e \<Rightarrow> [] | Inr plan \<Rightarrow> map (\<lambda>op. (op_method op, op_file_paths op)) (pl_operations plan)) =
      [(''sendMediaGroup'', [''/data/two.mp4'', ''/data/one.png'']), (''sendMessage'', [])]"
    by code_simp
  then obtain plan where plan: "?p = Inr plan" "map (\<lambda>op. (op_method op, op_file_paths op)) (pl_operations plan) =
      [(''sendMediaGroup'', [''/data/two.mp4'', ''/data/one.png'']), (''sendMessage'', [])]"
    by (cases ?p) auto
  have "rn_content (sample_render sample_content) (vr_content sample_revision) = Some sample_content" by (simp add: sample_render_def)
  from plan_carries_draft [OF plan(1) this] plan show ?thesis by (auto simp: sample_content_def map_eq_Cons_conv)
qed

end
