(* ===== verification/Telegram_Intents.thy ===== *)
theory Telegram_Intents
  imports Publish_Context
begin

text \<open>
  The two ways an approved draft becomes a publish job: \<open>enqueue_telegram_publish_intent\<close> of
  \<open>app/automations/telegram/process_support.py\<close> with its operator entry in \<open>draft_publication.py\<close>, and
  \<open>schedule_reviewed_telegram\<close> of \<open>scheduling.py\<close>, with the keys of \<open>service_contracts.py\<close> and the revision
  check of \<open>generation/revision_validation.py\<close>.  Each is one transaction, which sees one state of the rows.
\<close>

datatype intent_error =
    Schedule_Error string string int
  | Draft_Error string int
  | Intent_Error handler_error
  | Intent_Refused job_error \<comment> \<open>the queue or the capability service\<close>

section \<open>Keys\<close>

definition immediate_publish_intent_key :: "uuid \<Rightarrow> uuid \<Rightarrow> string \<Rightarrow> string" where
  "immediate_publish_intent_key dest revision content_hash =
     ''telegram-publish:'' @ dest @ '':'' @ revision @ '':'' @ content_hash"

definition reviewed_schedule_intent_key :: "uuid \<Rightarrow> uuid \<Rightarrow> string \<Rightarrow> string" where
  "reviewed_schedule_intent_key dest revision content_hash =
     ''telegram-publish-schedule:'' @ dest @ '':'' @ revision @ '':'' @ content_hash"

definition find_intent :: "string \<Rightarrow> pub_db \<Rightarrow> publish_job option" where
  "find_intent key x = find (\<lambda>p. pj_idempotency_key p = key) (db_publish_jobs (pu_db x))"

section \<open>The checks of a revision\<close>

fun truthy :: "pyval \<Rightarrow> bool" where
  "truthy PNone = False"
| "truthy (PBool b) = b"
| "truthy (PInt i) = (i \<noteq> 0)"
| "truthy (PFloat (Finite m e)) = (m \<noteq> 0)"
| "truthy (PStr s) = (s \<noteq> [])"
| "truthy (PList vs) = (vs \<noteq> [])"
| "truthy (PTuple vs) = (vs \<noteq> [])"
| "truthy (PDict d) = (d \<noteq> [])"
| "truthy v = True"

text \<open>\<open>gate\<close> is \<open>RevisionGate.model_validate\<close>, of which only \<open>ok\<close> is used.\<close>

definition validate_approvable_revision ::
  "lib \<Rightarrow> (pyval \<Rightarrow> bool option) \<Rightarrow> variant_revision \<Rightarrow> string + unit" where
  "validate_approvable_revision lib gate r =
     (case (revision_content lib r, all_some (map (lb_citation lib) (vr_evidence_map r)),
            all_some (map gate (vr_validation_results r))) of
        (Some c, Some citations, Some oks) \<Rightarrow>
          if citations = [] then Inl ''Revision evidence map is empty''
          else if oks = [] then Inl ''Revision validation results are empty''
          else if False \<in> set oks then Inl ''Revision has a failed validation gate''
          else Inr ()
      | _ \<Rightarrow> Inl ''Revision validation contract is invalid'')"

text \<open>The newest revision of a variant; ties of number and time are broken by identifier.\<close>

definition latest_revision_id :: "uuid \<Rightarrow> pub_db \<Rightarrow> uuid option" where
  "latest_revision_id v x =
     (case rev (sort_key (\<lambda>r. (vr_revision_number r, vr_created_at r, vr_id r))
                  (filter (\<lambda>r. vr_platform_variant_id r = v) (pu_revisions x))) of
        [] \<Rightarrow> None | r # _ \<Rightarrow> Some (vr_id r))"

definition locked_revision :: "uuid \<Rightarrow> pub_db \<Rightarrow> intent_error + variant_revision" where
  "locked_revision i x =
     (case find_revision i x of
        None \<Rightarrow> Inl (Draft_Error ''Telegram draft not found'' 404)
      | Some r \<Rightarrow>
          (case find_variant (vr_platform_variant_id r) x of
             None \<Rightarrow> Inl (Draft_Error ''Telegram draft not found'' 404)
           | Some v \<Rightarrow>
               if pv_platform v \<noteq> ''telegram'' then Inl (Draft_Error ''Telegram draft not found'' 404)
               else if latest_revision_id (vr_platform_variant_id r) x \<noteq> Some (vr_id r)
               then Inl (Draft_Error ''Telegram draft revision is not current'' 409)
               else Inr r))"

definition require_revision_transition ::
  "lib \<Rightarrow> (pyval \<Rightarrow> bool option) \<Rightarrow> variant_revision \<Rightarrow> string \<Rightarrow> intent_error + unit" where
  "require_revision_transition lib gate r content_hash =
     (if vr_content_hash r \<noteq> content_hash then Inl (Draft_Error ''Draft content changed'' 409)
      else if vr_approval_state r \<noteq> ''approved'' then Inl (Draft_Error ''Draft cannot publish from its current state'' 409)
      else case validate_approvable_revision lib gate r of
        Inl m \<Rightarrow> Inl (Draft_Error m 409)
      | Inr _ \<Rightarrow>
          if truthy (get_or (vr_content r) ''dry_run'' PNone)
          then Inl (Draft_Error ''Dry-run drafts cannot be published'' 409) else Inr ())"

section \<open>Immediate publication\<close>

definition new_publish_job ::
  "env \<Rightarrow> pub_db \<Rightarrow> uuid \<Rightarrow> variant_revision \<Rightarrow> string \<Rightarrow> string \<Rightarrow> time option \<Rightarrow> publish_job" where
  "new_publish_job env x dest r status key scheduled_for =
     \<lparr>pj_id = env_uuid env (db_seq (pu_db x)), pj_workflow_job_id = None, pj_destination_id = dest,
      pj_platform_variant_revision_id = vr_id r, pj_status = status, pj_idempotency_key = key,
      pj_payload_hash = vr_content_hash r, pj_scheduled_for = scheduled_for,
      pj_created_at = env_db_now env, pj_updated_at = env_db_now env\<rparr>"

text \<open>The insert in its savepoint: the primary key and the unique constraint on the key may refuse it.\<close>

definition insert_publish_job :: "publish_job \<Rightarrow> pub_db \<Rightarrow> pub_db option" where
  "insert_publish_job p x =
     (if find_intent (pj_idempotency_key p) x \<noteq> None \<or> find_publish_job (pj_id p) x \<noteq> None then None
      else Some (on_db (\<lambda>d. d\<lparr>db_publish_jobs := db_publish_jobs d @ [p], db_seq := Suc (db_seq d)\<rparr>) x))"

definition publish_job_request :: "uuid \<Rightarrow> string \<Rightarrow> job_origin \<Rightarrow> time option \<Rightarrow> enqueue_request" where
  "publish_job_request job key origin scheduled_for =
     \<lparr>eq_job_type = ''telegram.publish'', eq_payload = [(KStr ''publish_job_id'', PStr job)], eq_idempotency_key = key,
      eq_origin = origin, eq_priority = 0, eq_scheduled_for = scheduled_for, eq_max_attempts = 3, eq_pause_sensitive = True,
      eq_automation_run_id = None, eq_automation_node_run_id = None\<rparr>"

text \<open>The intent that holds the key, created when there is none and no schedule holds the revision.\<close>

definition immediate_intent ::
  "env \<Rightarrow> variant_revision \<Rightarrow> uuid \<Rightarrow> pub_db \<Rightarrow> intent_error + publish_job \<times> pub_db" where
  "immediate_intent env r dest x =
     (let key = immediate_publish_intent_key dest (vr_id r) (vr_content_hash r) in
      case find_intent key x of
        Some p \<Rightarrow> Inr (p, x)
      | None \<Rightarrow>
          if find_intent (reviewed_schedule_intent_key dest (vr_id r) (vr_content_hash r)) x \<noteq> None
          then Inl (Intent_Error (NeedsReviewJobError ''telegram_publish_already_scheduled''
                 ''Telegram revision already has a reviewed publish schedule''))
          else let p = new_publish_job env x dest r ''queued'' key None in
            (case insert_publish_job p x of
               Some x1 \<Rightarrow> Inr (p, x1)
             | None \<Rightarrow> (case find_intent key x of Some q \<Rightarrow> Inr (q, x) | None \<Rightarrow> Inl (Intent_Error OtherException))))"

definition enqueue_telegram_publish_intent ::
  "env \<Rightarrow> lib \<Rightarrow> (pyval \<Rightarrow> bool option) \<Rightarrow> variant_revision \<Rightarrow> uuid \<Rightarrow> uuid option \<Rightarrow> pub_db \<Rightarrow>
   intent_error + publish_job \<times> pub_db" where
  "enqueue_telegram_publish_intent env lib gate r dest dispatch x =
     (case validate_approvable_revision lib gate r of
        Inl m \<Rightarrow> Inl (Intent_Error (NeedsReviewJobError ''telegram_revision_validation_invalid'' m))
      | Inr _ \<Rightarrow>
          result_bind (immediate_intent env r dest x) (\<lambda>(p, x1).
          case enqueue_job env (publish_job_request (pj_id p) (pj_idempotency_key p) AUTOMATION None) (pu_db x1) of
            Inl e \<Rightarrow> Inl (Intent_Refused e)
          | Inr ((j, created), d) \<Rightarrow>
              let x2 = put_publish_job env (pj_id p) (\<lambda>q. q\<lparr>pj_workflow_job_id := Some (wj_id j)\<rparr>) (x1\<lparr>pu_db := d\<rparr>);
                  x3 = on_db (\<lambda>d. d\<lparr>db_dispatches :=
                         set_rows (\<lambda>a. Some (ad_id a) = dispatch) (\<lambda>a. a\<lparr>ad_publish_job_id := Some (pj_id p)\<rparr>)
                           (db_dispatches d)\<rparr>) x2
              in Inr (p\<lparr>pj_workflow_job_id := Some (wj_id j)\<rparr>,
                   log_event env (Some (wj_id j)) ''telegram.publish.requested'' ''automation''
                     [(KStr ''publish_job_id'', PStr (pj_id p)), (KStr ''destination_id'', PStr dest),
                      (KStr ''revision_id'', PStr (vr_id r)), (KStr ''content_hash'', PStr (vr_content_hash r))] x3)))"

definition publish_reviewed_draft ::
  "env \<Rightarrow> lib \<Rightarrow> (pyval \<Rightarrow> bool option) \<Rightarrow> (uuid \<Rightarrow> job_error + capability_status) \<Rightarrow> uuid \<Rightarrow> string \<Rightarrow> pub_db \<Rightarrow>
   intent_error + publish_job \<times> pub_db" where
  "publish_reviewed_draft env lib gate available i content_hash x =
     result_bind (locked_revision i x) (\<lambda>r.
     result_bind (require_revision_transition lib gate r content_hash) (\<lambda>_.
     case revision_dispatch r x of
       None \<Rightarrow> Inl (Draft_Error ''Telegram draft has no route provenance'' 409)
     | Some ds \<Rightarrow>
         (case find_route (ad_route_id ds) x of
            None \<Rightarrow> Inl (Draft_Error ''Telegram draft route is missing'' 409)
          | Some rt \<Rightarrow>
              (case find_destination (rt_destination_id rt) x of
                 None \<Rightarrow> Inl (Draft_Error ''Telegram draft destination is missing'' 409)
               | Some d \<Rightarrow>
                   result_bind (map_sum Intent_Refused id (available (de_id d))) (\<lambda>_.
                   case enqueue_telegram_publish_intent env lib gate r (de_id d)
                          (if ad_variant_revision_id ds = Some (vr_id r) then Some (ad_id ds) else None) x of
                     Inl (Intent_Error (NeedsReviewJobError code m)) \<Rightarrow>
                       if code = ''telegram_publish_already_scheduled''
                       then Inl (Draft_Error ''Telegram draft is already scheduled for publication'' 409)
                       else Inl (Intent_Error (NeedsReviewJobError code m))
                   | Inl e \<Rightarrow> Inl e
                   | Inr (p, x1) \<Rightarrow>
                       Inr (p, log_event env None ''telegram.revision.publish_requested'' ''operator''
                         [(KStr ''revision_id'', PStr (vr_id r)), (KStr ''content_hash'', PStr (vr_content_hash r)),
                          (KStr ''publish_job_id'', PStr (pj_id p))] x1))))))"

section \<open>Scheduled publication\<close>

text \<open>A due time without a zone is absent.\<close>

record reviewed_schedule =
  sr_content_hash :: string
  sr_destination_id :: uuid
  sr_scheduled_for :: "time option"

record schedule_result =
  sl_publish_job :: publish_job
  sl_workflow_job :: workflow_job
  sl_created :: bool

definition conflict :: "string \<Rightarrow> string \<Rightarrow> intent_error + 'a" where
  "conflict code message = Inl (Schedule_Error code message 409)"

definition validate_schedule_replay ::
  "publish_job \<Rightarrow> workflow_job \<Rightarrow> publication option \<Rightarrow> variant_revision \<Rightarrow> destination \<Rightarrow> string \<Rightarrow> time \<Rightarrow>
   intent_error + unit" where
  "validate_schedule_replay p j publication r d key t =
     (if publication \<noteq> None
      then conflict ''telegram_schedule_already_published'' ''Telegram revision is already published''
      else if pj_destination_id p \<noteq> de_id d \<or> pj_platform_variant_revision_id p \<noteq> vr_id r \<or>
              pj_idempotency_key p \<noteq> key \<or> pj_workflow_job_id p \<noteq> Some (wj_id j) \<or> pj_status p \<noteq> ''scheduled'' \<or>
              pj_scheduled_for p \<noteq> Some t
      then conflict ''telegram_schedule_conflict'' ''Existing Telegram publish intent conflicts with this schedule''
      else if wj_job_type j \<noteq> ''telegram.publish'' \<or> wj_idempotency_key j \<noteq> key \<or> wj_status j \<noteq> QUEUED \<or>
              wj_origin j \<noteq> job_origin_value MANUAL \<or> \<not> wj_pause_sensitive j \<or> wj_scheduled_for j \<noteq> Some t \<or>
              wj_payload j \<noteq> [(KStr ''publish_job_id'', PStr (pj_id p))]
      then conflict ''telegram_schedule_workflow_drift'' ''Existing Telegram workflow drift conflicts with this schedule''
      else Inr ())"

text \<open>The revision a schedule is for, with every gate on it.\<close>

definition schedulable_revision ::
  "lib \<Rightarrow> (pyval \<Rightarrow> bool option) \<Rightarrow> uuid \<Rightarrow> string \<Rightarrow> pub_db \<Rightarrow> intent_error + variant_revision" where
  "schedulable_revision lib gate i content_hash x =
     (case find_revision i x of
        None \<Rightarrow> Inl (Schedule_Error ''telegram_revision_missing'' ''Telegram draft not found'' 404)
      | Some r \<Rightarrow>
          if (case find_variant (vr_platform_variant_id r) x of None \<Rightarrow> True | Some v \<Rightarrow> pv_platform v \<noteq> ''telegram'')
          then conflict ''telegram_revision_lineage_invalid'' ''Telegram draft lineage is invalid''
          else if latest_revision_id (vr_platform_variant_id r) x \<noteq> Some (vr_id r)
          then conflict ''telegram_revision_not_current'' ''Telegram draft revision is not current''
          else if vr_approval_state r \<noteq> ''approved''
          then conflict ''telegram_revision_not_approved'' ''Telegram revision must be approved before scheduling''
          else if content_hash \<noteq> vr_content_hash r
          then conflict ''telegram_revision_changed'' ''Telegram draft content changed''
          else case (revision_content lib r, validate_approvable_revision lib gate r) of
            (Some c, Inr _) \<Rightarrow>
              if tc_dry_run c then conflict ''telegram_revision_dry_run'' ''Dry-run Telegram revisions cannot be scheduled''
              else if exact_hash lib r \<noteq> vr_content_hash r
              then conflict ''telegram_revision_hash_drift'' ''Telegram revision hash no longer matches its content''
              else Inr r
          | _ \<Rightarrow> conflict ''telegram_revision_schema_invalid'' ''Telegram revision schema or validation gates are invalid'')"

definition schedule_route :: "variant_revision \<Rightarrow> uuid \<Rightarrow> pub_db \<Rightarrow> intent_error + unit" where
  "schedule_route r dest x =
     (case revision_dispatch r x of
        None \<Rightarrow> conflict ''telegram_route_provenance_missing'' ''Telegram revision has no route provenance''
      | Some ds \<Rightarrow>
          (case find_route (ad_route_id ds) x of
             None \<Rightarrow> conflict ''telegram_route_missing'' ''Telegram revision route is missing''
           | Some rt \<Rightarrow>
               if rt_destination_id rt \<noteq> dest
               then conflict ''telegram_route_destination_mismatch'' ''Telegram route does not match the requested destination''
               else Inr ()))"

definition not_future :: "intent_error + 'a" where
  "not_future = conflict ''telegram_schedule_not_future'' ''scheduled_for must be strictly in the future''"

text \<open>The scheduled intent that holds the key; the flag tells whether this request created it.\<close>

definition scheduled_intent ::
  "env \<Rightarrow> time \<Rightarrow> variant_revision \<Rightarrow> uuid \<Rightarrow> time \<Rightarrow> pub_db \<Rightarrow> intent_error + (publish_job \<times> bool) \<times> pub_db" where
  "scheduled_intent env now r dest t x =
     (let key = reviewed_schedule_intent_key dest (vr_id r) (vr_content_hash r) in
      case find_intent key x of
        Some p \<Rightarrow> Inr ((p, False), x)
      | None \<Rightarrow>
          if find_intent (immediate_publish_intent_key dest (vr_id r) (vr_content_hash r)) x \<noteq> None
          then conflict ''telegram_publish_already_queued'' ''Telegram revision is already queued for immediate publication''
          else if t \<le> now then not_future
          else let p = new_publish_job env x dest r ''scheduled'' key (Some t) in
            (case insert_publish_job p x of
               Some x1 \<Rightarrow> Inr ((p, True), x1)
             | None \<Rightarrow>
                 (case find_intent key x of
                    Some q \<Rightarrow> Inr ((q, False), x)
                  | None \<Rightarrow> conflict ''telegram_schedule_insert_conflict'' ''Telegram publish intent conflicted with this schedule'')))"

definition durable_drift :: "intent_error + 'a" where
  "durable_drift = conflict ''telegram_schedule_durable_drift'' ''Existing Telegram durable rows conflict with this schedule''"

text \<open>\<open>now\<close> and \<open>later\<close> are the second and third readings of the clock; the first one decides nothing.\<close>

definition schedule_reviewed_telegram ::
  "env \<Rightarrow> lib \<Rightarrow> (pyval \<Rightarrow> bool option) \<Rightarrow> time \<Rightarrow> time \<Rightarrow> uuid \<Rightarrow> reviewed_schedule \<Rightarrow> pub_db \<Rightarrow>
   intent_error + schedule_result \<times> pub_db" where
  "schedule_reviewed_telegram env lib gate now later i q x =
     (case sr_scheduled_for q of
        None \<Rightarrow> conflict ''telegram_schedule_time_naive'' ''scheduled_for must be timezone-aware''
      | Some t \<Rightarrow>
          result_bind (schedulable_revision lib gate i (sr_content_hash q) x) (\<lambda>r.
          result_bind (schedule_route r (sr_destination_id q) x) (\<lambda>_.
          result_bind (scheduled_intent env now r (sr_destination_id q) t x) (\<lambda>((p, created), x1).
          let key = reviewed_schedule_intent_key (sr_destination_id q) (vr_id r) (vr_content_hash r) in
          case find_destination (sr_destination_id q) x1 of
            None \<Rightarrow> conflict ''telegram_destination_invalid'' ''An existing Telegram destination is required''
          | Some d \<Rightarrow>
              if de_platform d \<noteq> ''telegram''
              then conflict ''telegram_destination_invalid'' ''An existing Telegram destination is required''
              else if \<not> de_enabled d then conflict ''telegram_destination_disabled'' ''Telegram destination must be enabled''
              else case find_key key (pu_db x1) of
                Some j \<Rightarrow>
                  if created then durable_drift
                  else result_bind (validate_schedule_replay p j (publication_of (pj_id p) x1) r d key t)
                         (\<lambda>_. Inr (\<lparr>sl_publish_job = p, sl_workflow_job = j, sl_created = False\<rparr>, x1))
              | None \<Rightarrow>
                  if \<not> created then durable_drift
                  else case enqueue_job env (publish_job_request (pj_id p) key MANUAL (Some t)) (pu_db x1) of
                    Inl e \<Rightarrow> Inl (Intent_Refused e)
                  | Inr ((j, fresh), dd) \<Rightarrow>
                      if \<not> fresh then conflict ''telegram_schedule_concurrent_drift''
                                    ''Telegram workflow already exists without a matching publish intent''
                      else if t \<le> later then not_future
                      else let link = (\<lambda>q. q\<lparr>pj_workflow_job_id := Some (wj_id j)\<rparr>) in
                        Inr (\<lparr>sl_publish_job = link p, sl_workflow_job = j, sl_created = True\<rparr>,
                          log_event env (Some (wj_id j)) ''telegram.publish.scheduled'' ''operator''
                            [(KStr ''publish_job_id'', PStr (pj_id p)), (KStr ''destination_id'', PStr (de_id d)),
                             (KStr ''revision_id'', PStr (vr_id r)), (KStr ''content_hash'', PStr (vr_content_hash r)),
                             (KStr ''scheduled_for'', PStr (isoformat t))]
                            (put_publish_job env (pj_id p) link (x1\<lparr>pu_db := dd\<rparr>)))))))"

end
