(* ===== verification/Telegram_Intents_Spec.thy ===== *)
theory Telegram_Intents_Spec
  imports Telegram_Intents Publish_Spec
begin

text \<open>
  A revision is published by one intent: an immediate and a scheduled publish job for the same destination,
  revision and content exclude each other, whatever else the program does meanwhile; and a schedule asked for
  again is answered with the one there is.
\<close>

section \<open>The intents\<close>

text \<open>The identifiers of the publish jobs with their keys, in the order they were created.\<close>

definition job_keys :: "db \<Rightarrow> (uuid \<times> string) list" where
  "job_keys d = map (\<lambda>p. (pj_id p, pj_idempotency_key p)) (db_publish_jobs d)"

abbreviation intents :: "pub_db \<Rightarrow> (uuid \<times> string) list" where
  "intents x \<equiv> job_keys (pu_db x)"

lemma job_keys_cong: "db_publish_jobs d' = db_publish_jobs d \<Longrightarrow> job_keys d' = job_keys d"
  by (simp add: job_keys_def)

lemma job_keys_simps [simp]:
  "job_keys (d\<lparr>db_publish_receipts := a1\<rparr>) = job_keys d" "job_keys (d\<lparr>db_publish_attempts := a2\<rparr>) = job_keys d"
  "job_keys (d\<lparr>db_dispatches := a3\<rparr>) = job_keys d" "job_keys (d\<lparr>db_seq := a4\<rparr>) = job_keys d"
  "job_keys (d\<lparr>db_events := a5\<rparr>) = job_keys d" "job_keys (d\<lparr>db_jobs := a6\<rparr>) = job_keys d"
  "job_keys (d\<lparr>db_control := a7\<rparr>) = job_keys d" "job_keys (d\<lparr>db_generation_runs := a8\<rparr>) = job_keys d"
  by (simp_all add: job_keys_def)

lemma job_keys_set_rows [simp]:
  assumes "\<And>p. pj_id (f p) = pj_id p" "\<And>p. pj_idempotency_key (f p) = pj_idempotency_key p"
  shows "job_keys (d\<lparr>db_publish_jobs := set_rows s f (db_publish_jobs d)\<rparr>) = job_keys d"
  unfolding job_keys_def by (simp add: map_set_rows assms)

lemma flush_publish_job_key [simp]:
  "pj_id (flush_publish_job env p q) = pj_id q" "pj_idempotency_key (flush_publish_job env p q) = pj_idempotency_key q"
  by (simp_all add: flush_publish_job_def)

lemma intents_put_publish_job [frame_simps]:
  assumes "\<And>p. pj_id (f p) = pj_id p" "\<And>p. pj_idempotency_key (f p) = pj_idempotency_key p"
  shows "intents (put_publish_job env i f x) = intents x" "intents (set_publish_job i f x) = intents x"
  using assms by (simp_all add: put_publish_job_def set_publish_job_def on_db_def)

lemma intents_frame [frame_simps]:
  "intents (put_attempt i h x) = intents x"
  "intents (put_receipt i k g x) = intents x"
  "intents (put_status env i s x) = intents x"
  "intents (put_dispatch j i x) = intents x"
  "intents (log_event env jb ty actor data x) = intents x"
  "intents (close_running_attempts env i st cls code m t x) = intents x"
  "intents (finish_claim_attempt env i t st cls code m x) = intents x"
  "intents (release_claim_for_retry env c u competing t x) = intents x"
  "intents (mark_publish_blocked env i code x) = intents x"
  "intents (add_receipts env i ops x) = intents x"
  by (simp_all add: put_attempt_def put_receipt_def put_status_def put_dispatch_def log_event_def close_running_attempts_def
      finish_claim_attempt_def release_claim_for_retry_def mark_publish_blocked_def add_receipts_def append_event_def on_db_def
      intents_put_publish_job Let_def split: option.split)

section \<open>Publishers keep the intents\<close>

lemma intents_short_circuit: "publish_receipt_short_circuit env i t x = (a, x') \<Longrightarrow> intents x' = intents x"
  by (auto simp: publish_receipt_short_circuit_def dispatching_receipt_result_def frame_simps Let_def
      split: if_splits option.splits)

lemma intents_on_db: "(\<And>d. job_keys (f d) = job_keys d) \<Longrightarrow> intents (on_db f x) = intents x"
  by (simp add: on_db_def)

lemma intents_create_attempt: "create_publish_attempt env p r d plan t x = (a, x') \<Longrightarrow> intents x' = intents x"
  by (auto simp: create_publish_attempt_def on_db_def Let_def)

lemma intents_plan_receipts: "load_publish_plan_receipts env lib r c d p x = Inr (plan, x') \<Longrightarrow> intents x' = intents x"
  by (auto simp: load_publish_plan_receipts_def frame_simps Let_def split: sum.splits render_error.splits if_splits)

lemma intents_load_context: "load_context env lib i t expected x = Inr (c, x') \<Longrightarrow> intents x' = intents x"
proof (drule load_context_Inr, elim disjE exE conjE)
  fix r p content d plan x1
  assume plan: "load_publish_plan_receipts env lib r content d p x = Inr (plan, x1)"
    and rest: "case publish_receipt_short_circuit env (pj_id p) t x1 of
      (Some answer, x2) \<Rightarrow> c = Answered answer \<and> x' = x2
    | (None, x2) \<Rightarrow> x' = snd (create_publish_attempt env p r d plan t x2)"
  obtain o' x2 where sc: "publish_receipt_short_circuit env (pj_id p) t x1 = (o', x2)" by fastforce
  note step = intents_plan_receipts [OF plan] intents_short_circuit [OF sc]
  show "intents x' = intents x"
  proof (cases o')
    case None
    obtain a x3 where at: "create_publish_attempt env p r d plan t x2 = (a, x3)" by fastforce
    then show ?thesis using rest sc None step intents_create_attempt [OF at] by simp
  qed (use rest sc step in simp)
qed simp

lemma intents_start: "start_publish inp i expected x = (p', x') \<Longrightarrow> intents x' = intents x"
  by (auto simp: start_publish_def dest: intents_load_context split: sum.splits handler_error.splits prod.splits prepared.splits)

lemma intents_claim: "claim_step inp c op ops token x = (p', x') \<Longrightarrow> intents x' = intents x"
  by (auto simp: claim_step_def claim_operation_def apply_claim_state_def frame_simps result_bind_eq_Inr Let_def
      split: sum.splits claim_outcome.splits prod.splits if_splits option.splits)

lemma file_failure_key [simp]:
  "pj_id (fl_job (file_failure e t) p) = pj_id p" "pj_idempotency_key (fl_job (file_failure e t) p) = pj_idempotency_key p"
  by (simp_all add: file_failure_def retry_filing_def split: failure_decision.split send_error.split client_error.split)

lemma intents_record: "record_failure env c op n e t x = (m, x') \<Longrightarrow> intents x' = intents x"
  by (auto simp: record_failure_def frame_simps Let_def split: option.splits if_splits)

lemma intents_publications [simp]: "intents (x\<lparr>pu_publications := ns\<rparr>) = intents x"
  by simp

lemma intents_finalize: "finalize_publication env c t x = Inr (d, x') \<Longrightarrow> intents x' = intents x"
proof -
  assume f: "finalize_publication env c t x = Inr (d, x')"
  from f obtain p a rs where l1: "load_completed_publish_state c x = Inr (p, a, rs)"
    by (auto simp: finalize_publication_def result_bind_eq_Inr)
  from f l1 obtain ids where l2: "ordered_receipt_remote_ids rs = Inr ids"
    by (cases "ordered_receipt_remote_ids rs") (auto simp: finalize_publication_def)
  from f l1 l2 obtain n x1 where l3: "get_or_create_publication env c p ids t x = Inr (n, x1)" and x': "intents x' = intents x1"
    by (auto simp: finalize_publication_def result_bind_eq_Inr frame_simps split: if_splits)
  have "intents x1 = intents x"
    using l3 by (auto simp: get_or_create_publication_def Let_def intents_on_db split: option.splits if_splits)
  then show "intents x' = intents x" using x' by simp
qed

lemma intents_persist: "persist_operation_receipt env ce c op n res token t x = Inr x' \<Longrightarrow> intents x' = intents x"
  by (auto simp: persist_operation_receipt_def frame_simps split: option.splits if_splits)

lemma advance_keeps_intents: "advance inp p x = (p', x') \<Longrightarrow> intents x' = intents x"
proof (induction inp p x rule: advance.induct)
  case (3 inp c token x)
  then show ?case by (auto simp: finish_publish_def dest: intents_finalize split: if_splits sum.splits)
qed (auto simp: frame_simps dest: intents_start intents_claim intents_record intents_persist split: prod.splits sum.splits)

section \<open>The queue and the operator keep the intents\<close>

lemma job_keys_put_job [frame_simps]: "job_keys (put_job env j d) = job_keys d"
  by (simp add: put_job_def job_keys_def)

lemma job_keys_append_event [frame_simps]: "job_keys (append_event env i ty actor data d) = job_keys d"
  by (simp add: append_event_def Let_def)

lemma job_keys_retention [frame_simps]: "job_keys (put_retention_run run f d) = job_keys d"
  by (simp add: put_retention_run_def job_keys_def split: option.split)

lemma job_keys_mark_ambiguous: "job_keys (mark_ambiguous env t p d) = job_keys d"
  by (simp add: mark_ambiguous_def job_keys_def map_set_rows)

lemma job_keys_sync: "job_keys (snd (sync_expired_publish_ambiguity env dep t d)) = job_keys d"
proof -
  have "job_keys (snd (foldl (\<lambda>(review, db) p.
      if dispatching_of dep p = [] then (review, db) else (True, mark_ambiguous env t p db)) (b, db) ps)) = job_keys db" for b db ps
    by (induction ps arbitrary: b db) (simp_all add: job_keys_mark_ambiguous)
  then show ?thesis by (simp add: sync_expired_publish_ambiguity_def)
qed

lemma job_keys_terminal: "job_keys (sync_terminal_expired_lease_dependents env dep t d) = job_keys d"
  by (simp add: sync_terminal_expired_lease_dependents_def job_keys_def map_set_rows)

lemma job_keys_recover: "job_keys (recover_job env dep t j d) = job_keys d"
  by (simp add: recover_job_def Let_def split_beta frame_simps job_keys_sync job_keys_terminal)

lemma job_keys_requeue: "job_keys (snd (requeue_loop env t cs (n, d))) = job_keys d"
  by (induction cs arbitrary: n d) (simp_all add: Let_def job_keys_recover split: option.split)

lemma job_keys_enqueue: "enqueue_job env r d = Inr (jc, d') \<Longrightarrow> job_keys d' = job_keys d"
  by (auto simp: enqueue_job_def insert_job_def existing_job_result_def Let_def frame_simps result_bind_eq_Inr
      split: option.splits if_splits)

lemma job_keys_control [frame_simps]: "job_keys (snd (update_control env p dr r now d)) = job_keys d"
  by (simp add: update_control_def get_control_def Let_def split_beta frame_simps split: option.split)

lemma queue_keeps_job_keys:
  assumes "run_op env op d = Inr d'"
  shows "job_keys d' = job_keys d"
proof (cases op)
  case (Requeue now)
  then show ?thesis using assms job_keys_requeue by (auto simp: requeue_expired_leases_def Let_def)
next
  case (Enqueue r)
  then show ?thesis using assms job_keys_enqueue [of env r d] by (cases "enqueue_job env r d") auto
next
  case (Claim w l a now)
  then show ?thesis using assms by (auto simp: claim_next_job_def Let_def frame_simps split: option.splits list.splits)
qed (use assms in \<open>auto simp: heartbeat_job_def update_progress_def checkpoint_job_def finish_job_def fail_job_def retry_job_def
      cancel_job_def Let_def frame_simps result_bind_eq_Inr map_sum_eq_Inr split: option.splits if_splits sum.splits\<close>)

lemma intents_requeued: "requeue_not_published env lib b job a t x = Inr (out, x') \<Longrightarrow> intents x' = intents x"
  by (auto simp: requeue_not_published_def Let_def frame_simps dest!: job_keys_enqueue split: sum.splits)

lemma intents_confirmed: "confirm_published env lib b p d a t x = Inr (out, x') \<Longrightarrow> intents x' = intents x"
proof -
  assume c: "confirm_published env lib b p d a t x = Inr (out, x')"
  define x1 where "x1 = put_receipt (pj_id p) (po_operation_index a) (confirmed t (rc_remote_message_ids b)) x"
  obtain ids where ids: "ordered_receipt_remote_ids (receipts_of (pj_id p) x1) = Inr ids"
    using c by (cases "ordered_receipt_remote_ids (receipts_of (pj_id p) x1)")
      (auto simp: confirm_published_def Let_def result_bind_eq_Inr x1_def)
  obtain permalink n x2 where n: "confirmed_publication env p ids permalink t x1 = Inr (n, x2)" and x': "intents x' = intents x2"
    using c ids by (auto simp: confirm_published_def Let_def result_bind_eq_Inr frame_simps simp flip: x1_def)
  have "intents x2 = intents x1"
    using n by (auto simp: confirmed_publication_def Let_def intents_on_db split: option.splits if_splits)
  then show "intents x' = intents x" by (simp add: x' x1_def frame_simps)
qed

lemma reconcile_keeps_intents: "reconcile_publish_job env lib available i b x = Inr (out, x') \<Longrightarrow> intents x' = intents x"
  by (auto simp: reconcile_publish_job_def Let_def result_bind_eq_Inr map_sum_eq_Inr dest: intents_requeued intents_confirmed
      split: option.splits if_splits sum.splits)

section \<open>What the requests add\<close>

text \<open>The two keys of one destination, revision and content.\<close>

definition rival :: "string \<Rightarrow> string \<Rightarrow> bool" where
  "rival a b \<longleftrightarrow> (\<exists>s. {a, b} = {''telegram-publish:'' @ s, ''telegram-publish-schedule:'' @ s})"

lemma rival_sym: "rival a b \<Longrightarrow> rival b a"
  by (auto simp: rival_def insert_commute)

lemma rival_irrefl: "\<not> rival k k"
  by (auto simp: rival_def)

lemma rival_immediate: "rival (immediate_publish_intent_key d r h) k \<longleftrightarrow> k = reviewed_schedule_intent_key d r h"
  by (auto simp: rival_def doubleton_eq_iff immediate_publish_intent_key_def reviewed_schedule_intent_key_def)

lemma rival_schedule: "rival (reviewed_schedule_intent_key d r h) k \<longleftrightarrow> k = immediate_publish_intent_key d r h"
  by (auto simp: rival_def doubleton_eq_iff immediate_publish_intent_key_def reviewed_schedule_intent_key_def)

text \<open>Identifiers and keys are unique, and no two intents are rivals.\<close>

definition exclusive :: "(uuid \<times> string) list \<Rightarrow> bool" where
  "exclusive is \<longleftrightarrow> distinct (map fst is) \<and> distinct (map snd is) \<and> (\<forall>a\<in>snd ` set is. \<forall>b\<in>snd ` set is. \<not> rival a b)"

definition adds_intent :: "(uuid \<times> string) list \<Rightarrow> (uuid \<times> string) list \<Rightarrow> bool" where
  "adds_intent is is' \<longleftrightarrow> is' = is \<or> (\<exists>i k. is' = is @ [(i, k)] \<and> i \<notin> fst ` set is \<and> k \<notin> snd ` set is \<and>
     (\<forall>a\<in>snd ` set is. \<not> rival k a))"

lemma exclusive_adds: "exclusive is \<Longrightarrow> adds_intent is is' \<Longrightarrow> exclusive is'"
  unfolding adds_intent_def
proof (elim disjE exE conjE)
  fix i k
  assume "exclusive is" "is' = is @ [(i, k)]" "i \<notin> fst ` set is" "k \<notin> snd ` set is" "\<forall>a\<in>snd ` set is. \<not> rival k a"
  moreover from this have "\<forall>a\<in>snd ` set is. \<not> rival a k" using rival_sym by blast
  ultimately show ?thesis using rival_irrefl by (simp add: exclusive_def)
qed simp

lemma find_intent_None: "find_intent key x = None \<longleftrightarrow> key \<notin> snd ` set (intents x)"
  by (auto simp: find_intent_def job_keys_def find_None_iff image_iff)

lemma find_intent_Some: "find_intent key x = Some p \<Longrightarrow> (pj_id p, key) \<in> set (intents x) \<and> pj_idempotency_key p = key"
  unfolding find_intent_def job_keys_def by (drule find_Some_in) (auto simp: image_iff)

lemma find_publish_job_None: "find_publish_job i x = None \<longleftrightarrow> i \<notin> fst ` set (intents x)"
  by (auto simp: find_publish_job_def job_keys_def find_None_iff image_iff)

lemma insert_publish_job_Some:
  assumes "insert_publish_job p x = Some x'"
  shows "intents x' = intents x @ [(pj_id p, pj_idempotency_key p)]" "pj_idempotency_key p \<notin> snd ` set (intents x)"
    "pj_id p \<notin> fst ` set (intents x)"
  using assms find_intent_None [of "pj_idempotency_key p" x] find_publish_job_None [of "pj_id p" x]
  by (auto simp: insert_publish_job_def on_db_def job_keys_def split: if_splits)

lemma insert_publish_job_adds:
  assumes "insert_publish_job p x = Some x'" "\<And>a. rival (pj_idempotency_key p) a \<Longrightarrow> a \<notin> snd ` set (intents x)"
  shows "adds_intent (intents x) (intents x')" "(pj_id p, pj_idempotency_key p) \<in> set (intents x')"
  using insert_publish_job_Some [OF assms(1)] assms(2) by (auto simp: adds_intent_def)

lemma immediate_intent_adds:
  assumes "immediate_intent env r dest x = Inr (p, x')"
  shows "adds_intent (intents x) (intents x')"
    "(pj_id p, immediate_publish_intent_key dest (vr_id r) (vr_content_hash r)) \<in> set (intents x')"
    "pj_idempotency_key p = immediate_publish_intent_key dest (vr_id r) (vr_content_hash r)"
proof -
  let ?key = "immediate_publish_intent_key dest (vr_id r) (vr_content_hash r)"
  let ?p = "new_publish_job env x dest r ''queued'' ?key None"
  have key: "pj_idempotency_key ?p = ?key" by (simp add: new_publish_job_def)
  have "adds_intent (intents x) (intents x') \<and> (pj_id p, ?key) \<in> set (intents x') \<and> pj_idempotency_key p = ?key"
  proof (cases "find_intent ?key x")
    case (Some q)
    then show ?thesis using assms find_intent_Some [OF Some] by (auto simp: immediate_intent_def Let_def adds_intent_def)
  next
    case None
    have free: "reviewed_schedule_intent_key dest (vr_id r) (vr_content_hash r) \<notin> snd ` set (intents x)"
      using assms None find_intent_None [of "reviewed_schedule_intent_key dest (vr_id r) (vr_content_hash r)" x]
      by (auto simp: immediate_intent_def Let_def split: if_splits)
    show ?thesis
    proof (cases "insert_publish_job ?p x")
      case None
      then show ?thesis using assms \<open>find_intent ?key x = None\<close> by (auto simp: immediate_intent_def Let_def split: if_splits)
    next
      case (Some x1)
      then have x1: "p = ?p" "x' = x1"
        using assms \<open>find_intent ?key x = None\<close> by (auto simp: immediate_intent_def Let_def split: if_splits)
      from insert_publish_job_adds [OF Some] free show ?thesis by (simp add: key x1 rival_immediate)
    qed
  qed
  then show "adds_intent (intents x) (intents x')" "(pj_id p, ?key) \<in> set (intents x')" "pj_idempotency_key p = ?key" by blast+
qed

lemma scheduled_intent_adds:
  assumes "scheduled_intent env now r dest t x = Inr ((p, created), x')"
  shows "adds_intent (intents x) (intents x')" "created \<Longrightarrow> now < t"
    "(pj_id p, reviewed_schedule_intent_key dest (vr_id r) (vr_content_hash r)) \<in> set (intents x')"
    "pj_idempotency_key p = reviewed_schedule_intent_key dest (vr_id r) (vr_content_hash r)"
    "created \<Longrightarrow> pj_destination_id p = dest \<and> pj_platform_variant_revision_id p = vr_id r \<and> pj_status p = ''scheduled'' \<and>
       pj_scheduled_for p = Some t"
proof -
  let ?key = "reviewed_schedule_intent_key dest (vr_id r) (vr_content_hash r)"
  let ?row = "pj_destination_id p = dest \<and> pj_platform_variant_revision_id p = vr_id r \<and> pj_status p = ''scheduled'' \<and>
       pj_scheduled_for p = Some t"
  let ?p = "new_publish_job env x dest r ''scheduled'' ?key (Some t)"
  have key: "pj_idempotency_key ?p = ?key" by (simp add: new_publish_job_def)
  have "adds_intent (intents x) (intents x') \<and> (pj_id p, ?key) \<in> set (intents x') \<and> pj_idempotency_key p = ?key \<and>
    (created \<longrightarrow> now < t \<and> ?row)"
  proof (cases "find_intent ?key x")
    case (Some q)
    then show ?thesis using assms find_intent_Some [OF Some] by (auto simp: scheduled_intent_def Let_def adds_intent_def)
  next
    case None
    have free: "immediate_publish_intent_key dest (vr_id r) (vr_content_hash r) \<notin> snd ` set (intents x)" and future: "now < t"
      using assms None find_intent_None [of "immediate_publish_intent_key dest (vr_id r) (vr_content_hash r)" x]
      by (auto simp: scheduled_intent_def conflict_def not_future_def Let_def split: if_splits)
    show ?thesis
    proof (cases "insert_publish_job ?p x")
      case None
      then show ?thesis using assms \<open>find_intent ?key x = None\<close>
        by (auto simp: scheduled_intent_def conflict_def not_future_def Let_def split: if_splits)
    next
      case (Some x1)
      then have x1: "p = ?p" "x' = x1"
        using assms \<open>find_intent ?key x = None\<close>
        by (auto simp: scheduled_intent_def conflict_def not_future_def Let_def split: if_splits)
      from insert_publish_job_adds [OF Some] free future show ?thesis by (simp add: key x1 rival_schedule) (simp add: new_publish_job_def)
    qed
  qed
  then show "adds_intent (intents x) (intents x')" "created \<Longrightarrow> now < t" "(pj_id p, ?key) \<in> set (intents x')"
    "pj_idempotency_key p = ?key" "created \<Longrightarrow> ?row" by blast+
qed

lemma enqueue_intent_cases:
  assumes "enqueue_telegram_publish_intent env lib gate r dest dispatch x = Inr (p, x')"
  obtains q x1 j c d where "validate_approvable_revision lib gate r = Inr ()" "immediate_intent env r dest x = Inr (q, x1)"
    "enqueue_job env (publish_job_request (pj_id q) (pj_idempotency_key q) AUTOMATION None) (pu_db x1) = Inr ((j, c), d)"
    "p = q\<lparr>pj_workflow_job_id := Some (wj_id j)\<rparr>" "intents x' = job_keys d"
proof -
  have v: "validate_approvable_revision lib gate r = Inr ()"
    using assms by (cases "validate_approvable_revision lib gate r") (simp_all add: enqueue_telegram_publish_intent_def)
  obtain q x1 where q: "immediate_intent env r dest x = Inr (q, x1)"
    using assms v by (cases "immediate_intent env r dest x") (auto simp: enqueue_telegram_publish_intent_def)
  let ?r = "enqueue_job env (publish_job_request (pj_id q) (pj_idempotency_key q) AUTOMATION None) (pu_db x1)"
  show ?thesis
  proof (cases ?r)
    case (Inr res)
    obtain j c d where res: "res = ((j, c), d)" by (cases res) auto
    show ?thesis
      by (rule that [OF v q, of j c d])
        (use assms v q Inr res in \<open>auto simp: enqueue_telegram_publish_intent_def Let_def frame_simps intents_on_db\<close>)
  qed (use assms v q in \<open>simp add: enqueue_telegram_publish_intent_def\<close>)
qed

lemma enqueue_intent_adds:
  assumes "enqueue_telegram_publish_intent env lib gate r dest dispatch x = Inr (p, x')"
  shows "adds_intent (intents x) (intents x')"
    "(pj_id p, immediate_publish_intent_key dest (vr_id r) (vr_content_hash r)) \<in> set (intents x')"
  using assms
  by (atomize (full), cases rule: enqueue_intent_cases)
     (use immediate_intent_adds job_keys_enqueue in \<open>fastforce dest: job_keys_enqueue\<close>)

lemma publish_draft_cases:
  assumes "publish_reviewed_draft env lib gate available i h x = Inr (p, x')"
  obtains r ds rt d x1 dispatch where "locked_revision i x = Inr r" "require_revision_transition lib gate r h = Inr ()"
    "revision_dispatch r x = Some ds" "find_route (ad_route_id ds) x = Some rt" "find_destination (rt_destination_id rt) x = Some d"
    "enqueue_telegram_publish_intent env lib gate r (de_id d) dispatch x = Inr (p, x1)" "intents x' = intents x1"
proof -
  obtain r where r: "locked_revision i x = Inr r"
    using assms by (cases "locked_revision i x") (simp_all add: publish_reviewed_draft_def)
  have t: "require_revision_transition lib gate r h = Inr ()"
    using assms r by (cases "require_revision_transition lib gate r h") (simp_all add: publish_reviewed_draft_def)
  obtain ds where ds: "revision_dispatch r x = Some ds"
    using assms r t by (cases "revision_dispatch r x") (simp_all add: publish_reviewed_draft_def)
  obtain rt where rt: "find_route (ad_route_id ds) x = Some rt"
    using assms r t ds by (cases "find_route (ad_route_id ds) x") (simp_all add: publish_reviewed_draft_def)
  obtain d where d: "find_destination (rt_destination_id rt) x = Some d"
    using assms r t ds rt by (cases "find_destination (rt_destination_id rt) x") (simp_all add: publish_reviewed_draft_def)
  obtain cs where av: "available (de_id d) = Inr cs"
    using assms r t ds rt d by (cases "available (de_id d)") (simp_all add: publish_reviewed_draft_def)
  let ?dp = "if ad_variant_revision_id ds = Some (vr_id r) then Some (ad_id ds) else None"
  show ?thesis
  proof (cases "enqueue_telegram_publish_intent env lib gate r (de_id d) ?dp x")
    case (Inl e)
    then show ?thesis using assms r t ds rt d av
      by (auto simp: publish_reviewed_draft_def split: intent_error.splits handler_error.splits if_splits)
  next
    case (Inr res)
    obtain q x1 where "res = (q, x1)" by (cases res)
    then show ?thesis
      by (intro that [OF r t ds rt d, of ?dp x1]) (use assms r t ds rt d av Inr in \<open>auto simp: publish_reviewed_draft_def frame_simps\<close>)
  qed
qed

lemma publish_draft_adds:
  assumes "publish_reviewed_draft env lib gate available i h x = Inr (p, x')"
  shows "adds_intent (intents x) (intents x')"
  using assms by (cases rule: publish_draft_cases) (simp add: enqueue_intent_adds(1))

lemma destinations_frame:
  "pu_destinations (log_event env jb ty actor data x) = pu_destinations x"
  "pu_destinations (put_publish_job env i f x) = pu_destinations x"
  by (simp_all add: log_event_def put_publish_job_def on_db_def)

text \<open>A schedule that was accepted: created now, or found as it was asked for.\<close>

lemma schedule_cases:
  assumes "schedule_reviewed_telegram env lib gate now later i q x = Inr (res, x')"
  obtains t r p created x1 d where "sr_scheduled_for q = Some t" "schedulable_revision lib gate i (sr_content_hash q) x = Inr r"
    "schedule_route r (sr_destination_id q) x = Inr ()"
    "scheduled_intent env now r (sr_destination_id q) t x = Inr ((p, created), x1)"
    "find_destination (sr_destination_id q) x1 = Some d" "de_platform d = ''telegram''" "de_enabled d"
    "created \<Longrightarrow> later < t \<and> (\<exists>j dd.
       enqueue_job env (publish_job_request (pj_id p) (reviewed_schedule_intent_key (sr_destination_id q) (vr_id r) (vr_content_hash r))
         MANUAL (Some t)) (pu_db x1) = Inr ((j, True), dd) \<and> intents x' = job_keys dd \<and> pu_destinations x' = pu_destinations x1 \<and>
       res = \<lparr>sl_publish_job = p\<lparr>pj_workflow_job_id := Some (wj_id j)\<rparr>, sl_workflow_job = j, sl_created = True\<rparr>)"
    "\<not> created \<Longrightarrow> x' = x1 \<and> (\<exists>j.
       find_key (reviewed_schedule_intent_key (sr_destination_id q) (vr_id r) (vr_content_hash r)) (pu_db x1) = Some j \<and>
       validate_schedule_replay p j (publication_of (pj_id p) x1) r d
         (reviewed_schedule_intent_key (sr_destination_id q) (vr_id r) (vr_content_hash r)) t = Inr () \<and>
       res = \<lparr>sl_publish_job = p, sl_workflow_job = j, sl_created = False\<rparr>)"
proof -
  obtain t where t: "sr_scheduled_for q = Some t"
    using assms by (cases "sr_scheduled_for q") (simp_all add: schedule_reviewed_telegram_def conflict_def)
  obtain r where r: "schedulable_revision lib gate i (sr_content_hash q) x = Inr r"
    using assms t by (cases "schedulable_revision lib gate i (sr_content_hash q) x") (simp_all add: schedule_reviewed_telegram_def)
  have rt: "schedule_route r (sr_destination_id q) x = Inr ()"
    using assms t r by (cases "schedule_route r (sr_destination_id q) x") (simp_all add: schedule_reviewed_telegram_def)
  obtain pc where pc: "scheduled_intent env now r (sr_destination_id q) t x = Inr pc"
    using assms t r rt
    by (cases "scheduled_intent env now r (sr_destination_id q) t x") (simp_all add: schedule_reviewed_telegram_def)
  obtain p created x1 where pcx: "pc = ((p, created), x1)" by (cases pc) auto
  let ?key = "reviewed_schedule_intent_key (sr_destination_id q) (vr_id r) (vr_content_hash r)"
  obtain d where d: "find_destination (sr_destination_id q) x1 = Some d"
    using assms t r rt pc pcx
    by (cases "find_destination (sr_destination_id q) x1") (simp_all add: schedule_reviewed_telegram_def conflict_def Let_def)
  have gates: "de_platform d = ''telegram''" "de_enabled d"
    using assms t r rt pc pcx d by (auto simp: schedule_reviewed_telegram_def conflict_def Let_def split: if_splits)
  note known = assms t r rt pc pcx d gates
  show ?thesis
  proof (cases "find_key ?key (pu_db x1)")
    case (Some j)
    then show ?thesis using known
      by (intro that [OF t r rt pc [unfolded pcx] d gates])
        (auto simp: schedule_reviewed_telegram_def durable_drift_def conflict_def Let_def result_bind_eq_Inr split: if_splits)
  next
    case None
    let ?e = "enqueue_job env (publish_job_request (pj_id p) ?key MANUAL (Some t)) (pu_db x1)"
    show ?thesis
    proof (cases ?e)
      case (Inl e)
      then show ?thesis using known None
        by (simp add: schedule_reviewed_telegram_def durable_drift_def conflict_def Let_def split: if_splits)
    next
      case (Inr re)
      obtain j fresh dd where re: "re = ((j, fresh), dd)" by (cases re) auto
      show ?thesis using known None Inr re
        by (intro that [OF t r rt pc [unfolded pcx] d gates])
          (auto simp: schedule_reviewed_telegram_def durable_drift_def conflict_def not_future_def Let_def frame_simps
            destinations_frame split: if_splits)
    qed
  qed
qed

lemma schedule_adds:
  assumes "schedule_reviewed_telegram env lib gate now later i q x = Inr (res, x')"
  shows "adds_intent (intents x) (intents x')"
  using assms
proof (cases rule: schedule_cases)
  case (1 t r p created x1 d)
  have "intents x' = intents x1"
  proof (cases created)
    case True
    from 1(8) [OF this] obtain j dd where
      "enqueue_job env (publish_job_request (pj_id p) (reviewed_schedule_intent_key (sr_destination_id q) (vr_id r) (vr_content_hash r))
         MANUAL (Some t)) (pu_db x1) = Inr ((j, True), dd)" "intents x' = job_keys dd" by blast
    with job_keys_enqueue [OF this(1)] show ?thesis by simp
  next
    case False
    from 1(9) [OF this] show ?thesis by simp
  qed
  then show ?thesis using scheduled_intent_adds(1) [OF 1(4)] by simp
qed

section \<open>The run of the program\<close>

inductive intent_step :: "pub_db \<Rightarrow> pub_db \<Rightarrow> bool" where
  requested: "publish_reviewed_draft env lib gate available i h x = Inr (p, x') \<Longrightarrow> intent_step x x'"
| automated: "enqueue_telegram_publish_intent env lib gate r dest dispatch x = Inr (p, x') \<Longrightarrow> intent_step x x'"
| scheduled: "schedule_reviewed_telegram env lib gate now later i q x = Inr (res, x') \<Longrightarrow> intent_step x x'"
| published: "advance inp p x = (p', x') \<Longrightarrow> intent_step x x'"
| queued: "run_op env op (pu_db x) = Inr d \<Longrightarrow> intent_step x (x\<lparr>pu_db := d\<rparr>)"
| reconciled: "reconcile_publish_job env lib available i b x = Inr (out, x') \<Longrightarrow> intent_step x x'"
| others: "intents x' = intents x \<Longrightarrow> intent_step x x'"

lemma intent_step_adds: "intent_step x x' \<Longrightarrow> adds_intent (intents x) (intents x')"
proof (induction rule: intent_step.induct)
  case (requested env lib gate available i h x p x')
  then show ?case by (rule publish_draft_adds)
next
  case (automated env lib gate r dest dispatch x p x')
  then show ?case by (rule enqueue_intent_adds(1))
next
  case (scheduled env lib gate now later i q x res x')
  then show ?case by (rule schedule_adds)
next
  case (published inp p x p' x')
  then show ?case by (simp add: adds_intent_def advance_keeps_intents)
next
  case (queued env op x d)
  then show ?case by (simp add: adds_intent_def queue_keeps_job_keys)
next
  case (reconciled env lib available i b x out x')
  then show ?case by (simp add: adds_intent_def reconcile_keeps_intents)
qed (simp add: adds_intent_def)

text \<open>
  The publishers, the queue and the operator of \<open>Publish_Spec\<close>, whose writes of the publish jobs are those of
  the program: every step that changes rows is one of the above.
\<close>

inductive program_reach :: "world \<Rightarrow> bool" where
  fresh: "fresh_world w \<Longrightarrow> intents (wo_db w) = [] \<Longrightarrow> program_reach w"
| step: "program_reach w \<Longrightarrow> world_step w w' \<Longrightarrow> intent_step (wo_db w) (wo_db w') \<Longrightarrow> program_reach w'"

lemma program_reach_world: "program_reach w \<Longrightarrow> world_reach w"
  by (induction rule: program_reach.induct) (auto intro: world_reach.intros)

lemma program_reach_exclusive: "program_reach w \<Longrightarrow> exclusive (intents (wo_db w))"
proof (induction rule: program_reach.induct)
  case (step w w')
  then show ?case using exclusive_adds intent_step_adds by blast
qed (simp add: exclusive_def)

text \<open>The publish jobs that stand for a destination, a revision and its content.\<close>

definition jobs_for :: "uuid \<Rightarrow> uuid \<Rightarrow> string \<Rightarrow> pub_db \<Rightarrow> uuid list" where
  "jobs_for d r h x = map fst (filter (\<lambda>(i, k). k = immediate_publish_intent_key d r h \<or> k = reviewed_schedule_intent_key d r h) (intents x))"

lemma exclusive_jobs_for:
  assumes "exclusive (intents x)"
  shows "length (jobs_for d r h x) \<le> 1"
proof (rule ccontr)
  let ?a = "immediate_publish_intent_key d r h" and ?b = "reviewed_schedule_intent_key d r h"
  let ?js = "filter (\<lambda>(i, k). k = ?a \<or> k = ?b) (intents x)"
  assume "\<not> length (jobs_for d r h x) \<le> 1"
  then obtain y z rest where js: "?js = y # z # rest" by (cases ?js; cases "tl ?js") (auto simp: jobs_for_def)
  have "distinct (map snd ?js)" using assms by (simp add: exclusive_def distinct_map_filter)
  then have "snd y \<noteq> snd z" by (simp add: js)
  moreover have "set ?js \<subseteq> set (intents x)" "\<forall>u\<in>set ?js. snd u = ?a \<or> snd u = ?b" by auto
  then have "y \<in> set (intents x)" "z \<in> set (intents x)" "snd y = ?a \<or> snd y = ?b" "snd z = ?a \<or> snd z = ?b"
    unfolding js by auto
  ultimately have "rival (snd y) (snd z)" "snd y \<in> snd ` set (intents x)" "snd z \<in> snd ` set (intents x)"
    by (auto simp: rival_immediate rival_schedule)
  then show False using assms unfolding exclusive_def by blast
qed

lemma spent_le: "spent s \<le> 1"
  by (cases s) auto

text \<open>How often an operation of these jobs was performed, and how often it was declared unsent.\<close>

definition deliveries :: "uuid list \<Rightarrow> int \<Rightarrow> fact list \<Rightarrow> nat" where
  "deliveries js n log = length (filter (\<lambda>f. case f of Delivered (i, k) \<Rightarrow> i \<in> set js \<and> k = n | _ \<Rightarrow> False) log)"

definition declared_unsent :: "uuid list \<Rightarrow> int \<Rightarrow> fact list \<Rightarrow> nat" where
  "declared_unsent js n log = length (filter (\<lambda>f. case f of Declared_Unsent (i, k) \<Rightarrow> i \<in> set js \<and> k = n | _ \<Rightarrow> False) log)"

lemma deliveries_one [simp]:
  "deliveries [] n log = 0" "deliveries [i] n log = count_list log (Delivered (i, n))"
  "declared_unsent [] n log = 0" "declared_unsent [i] n log = count_list log (Declared_Unsent (i, n))"
  by (induction log) (auto simp: deliveries_def declared_unsent_def split: fact.splits)

text \<open>
  C7: a revision goes out to a destination once.  However requests of the operator, the automation and the
  schedule interleave with the publishers, the queue and reconciliations, there is at most one publish job for a
  destination, a revision and its content, immediate or scheduled; and each operation of it was performed at most
  once, and once more for each time the operator declared it unsent.
\<close>

theorem revision_published_once:
  assumes "program_reach w"
  shows "length (jobs_for d r h (wo_db w)) \<le> 1 \<and>
    deliveries (jobs_for d r h (wo_db w)) n (wo_log w) \<le> Suc (declared_unsent (jobs_for d r h (wo_db w)) n (wo_log w))"
proof -
  have one: "length (jobs_for d r h (wo_db w)) \<le> 1" by (rule exclusive_jobs_for [OF program_reach_exclusive [OF assms]])
  show ?thesis
  proof (cases "jobs_for d r h (wo_db w)")
    case (Cons i js)
    with one have "jobs_for d r h (wo_db w) = [i]" by simp
    moreover have "sent_ok (i, n) w" by (rule world_ok_sent [OF world_reach_ok [OF program_reach_world [OF assms]]])
    then have "count_list (wo_log w) (Delivered (i, n)) \<le> Suc (count_list (wo_log w) (Declared_Unsent (i, n)))"
      using spent_le [of "status_of (i, n) (receipts (wo_db w))"] by (simp add: sent_ok_def)
    ultimately show ?thesis by simp
  qed simp
qed

section \<open>What a schedule requires and leaves\<close>

text \<open>Every gate of a revision, and the publish job and queue row that stand for its schedule.\<close>

definition revision_schedulable :: "lib \<Rightarrow> (pyval \<Rightarrow> bool option) \<Rightarrow> uuid \<Rightarrow> string \<Rightarrow> uuid \<Rightarrow> variant_revision \<Rightarrow> pub_db \<Rightarrow> bool" where
  "revision_schedulable lib gate i h dest r x \<longleftrightarrow>
     find_revision i x = Some r \<and> vr_content_hash r = h \<and> vr_approval_state r = ''approved'' \<and>
     latest_revision_id (vr_platform_variant_id r) x = Some (vr_id r) \<and>
     (\<exists>v. find_variant (vr_platform_variant_id r) x = Some v \<and> pv_platform v = ''telegram'') \<and>
     (\<exists>c. revision_content lib r = Some c \<and> \<not> tc_dry_run c) \<and> exact_hash lib r = vr_content_hash r \<and>
     vr_evidence_map r \<noteq> [] \<and> vr_validation_results r \<noteq> [] \<and> list_all (\<lambda>g. gate g = Some True) (vr_validation_results r) \<and>
     (\<exists>ds rt. revision_dispatch r x = Some ds \<and> find_route (ad_route_id ds) x = Some rt \<and> rt_destination_id rt = dest)"

definition schedule_stands :: "uuid \<Rightarrow> variant_revision \<Rightarrow> time \<Rightarrow> publish_job \<Rightarrow> workflow_job \<Rightarrow> bool" where
  "schedule_stands dest r t p j \<longleftrightarrow>
     pj_destination_id p = dest \<and> pj_platform_variant_revision_id p = vr_id r \<and> pj_status p = ''scheduled'' \<and>
     pj_scheduled_for p = Some t \<and> pj_workflow_job_id p = Some (wj_id j) \<and>
     pj_idempotency_key p = reviewed_schedule_intent_key dest (vr_id r) (vr_content_hash r) \<and>
     wj_idempotency_key j = pj_idempotency_key p \<and> wj_job_type j = ''telegram.publish'' \<and> wj_status j = QUEUED \<and>
     wj_scheduled_for j = Some t \<and> wj_pause_sensitive j \<and> wj_origin j = job_origin_value MANUAL"

lemma all_some_set: "all_some xs = Some ys \<Longrightarrow> map Some ys = xs"
  by (induction xs arbitrary: ys rule: all_some.induct) auto

lemma validate_approvable_Inr:
  assumes "validate_approvable_revision lib gate r = Inr ()"
  shows "vr_evidence_map r \<noteq> []" "vr_validation_results r \<noteq> []" "list_all (\<lambda>g. gate g = Some True) (vr_validation_results r)"
proof -
  obtain c cs gs where "revision_content lib r = Some c" "all_some (map (lb_citation lib) (vr_evidence_map r)) = Some cs"
    and gs: "all_some (map gate (vr_validation_results r)) = Some gs" "cs \<noteq> []" "gs \<noteq> []" "False \<notin> set gs"
    using assms by (auto simp: validate_approvable_revision_def split: option.splits if_splits)
  then show "vr_evidence_map r \<noteq> []" by auto
  have m: "map Some gs = map gate (vr_validation_results r)" by (rule all_some_set [OF gs(1)])
  with gs(3) show "vr_validation_results r \<noteq> []" by auto
  have "gate g = Some True" if "g \<in> set (vr_validation_results r)" for g
  proof -
    have "gate g \<in> Some ` set gs" using that m by (metis image_eqI image_set)
    then obtain b where "gate g = Some b" "b \<in> set gs" by blast
    with gs(4) show ?thesis by (cases b) auto
  qed
  then show "list_all (\<lambda>g. gate g = Some True) (vr_validation_results r)" by (simp add: list_all_iff)
qed

lemma schedulable_revision_Inr:
  assumes "schedulable_revision lib gate i h x = Inr r" "schedule_route r dest x = Inr ()"
  shows "revision_schedulable lib gate i h dest r x"
proof -
  have r: "find_revision i x = Some r"
    using assms(1) by (auto simp: schedulable_revision_def conflict_def Let_def split: option.splits if_splits sum.splits)
  have v: "validate_approvable_revision lib gate r = Inr ()"
    using assms(1) r by (auto simp: schedulable_revision_def conflict_def split: option.splits if_splits sum.splits)
  show ?thesis using assms r validate_approvable_Inr [OF v]
    by (auto simp: revision_schedulable_def schedulable_revision_def schedule_route_def conflict_def split: option.splits if_splits sum.splits)
qed

lemma enqueue_new_job:
  assumes "enqueue_job env q d = Inr ((j, True), d')"
  shows "\<exists>i. j = new_job env i q (observed env (eq_scheduled_for q))"
  using assms by (auto simp: enqueue_job_def insert_job_def existing_job_result_def Let_def result_bind_eq_Inr
      split: option.splits if_splits)

text \<open>
  C8: an accepted schedule passed every gate and stands.  The revision is the newest of a Telegram variant, is
  approved, has the content hash the request names and still hashes to it, is no dry run, and every validation
  gate of it holds; its route leads to the requested destination, which is enabled.  What the answer names is the
  scheduled publish job of exactly this destination, revision and content with its queued job for the same time;
  and when the request created them, the time was in the future before and after.
\<close>

theorem schedule_passes_gates:
  assumes "schedule_reviewed_telegram env lib gate now later i q x = Inr (res, x')"
  shows "\<exists>t r d. sr_scheduled_for q = Some t \<and> revision_schedulable lib gate i (sr_content_hash q) (sr_destination_id q) r x \<and>
    schedule_stands (sr_destination_id q) r t (sl_publish_job res) (sl_workflow_job res) \<and>
    find_destination (sr_destination_id q) x' = Some d \<and> de_platform d = ''telegram'' \<and> de_enabled d \<and>
    (sl_created res \<longrightarrow> now < t \<and> later < t)"
  using assms
proof (cases rule: schedule_cases)
  case (1 t r p created x1 d)
  note gates = schedulable_revision_Inr [OF 1(2,3)]
  have "schedule_stands (sr_destination_id q) r t (sl_publish_job res) (sl_workflow_job res) \<and>
    find_destination (sr_destination_id q) x' = Some d \<and> (sl_created res \<longrightarrow> now < t \<and> later < t)"
  proof (cases created)
    case True
    from 1(8) [OF this] obtain j dd where e:
      "enqueue_job env (publish_job_request (pj_id p) (reviewed_schedule_intent_key (sr_destination_id q) (vr_id r) (vr_content_hash r))
         MANUAL (Some t)) (pu_db x1) = Inr ((j, True), dd)" and x': "pu_destinations x' = pu_destinations x1" and "later < t"
      and res: "res = \<lparr>sl_publish_job = p\<lparr>pj_workflow_job_id := Some (wj_id j)\<rparr>, sl_workflow_job = j, sl_created = True\<rparr>"
      by blast
    from enqueue_new_job [OF e] obtain k where "j = new_job env k (publish_job_request (pj_id p)
      (reviewed_schedule_intent_key (sr_destination_id q) (vr_id r) (vr_content_hash r)) MANUAL (Some t)) t"
      by (auto simp: publish_job_request_def observed_def)
    then show ?thesis using scheduled_intent_adds(2,5) [OF 1(4) True] scheduled_intent_adds(4) [OF 1(4)] \<open>later < t\<close> x' 1(5)
      by (simp add: res schedule_stands_def new_job_def publish_job_request_def find_destination_def)
  next
    case False
    from 1(9) [OF this] 1(5) show ?thesis
      by (auto simp: validate_schedule_replay_def conflict_def schedule_stands_def find_destination_def dest!: find_Some_in
          split: if_splits)
  qed
  then show ?thesis using gates 1(1,6,7) by blast
qed

end
