(* ===== verification/Telegram_Intents_Samples.thy ===== *)
theory Telegram_Intents_Samples
  imports Publish_Samples Telegram_Intents_Spec
begin

text \<open>A draft that is scheduled and then published, from the first row of its publish job to the sent message.\<close>

definition schedule_db :: pub_db where
  "schedule_db = sample_pub_db\<lparr>pu_db := (pu_db sample_pub_db)\<lparr>db_publish_jobs := []\<rparr>,
     pu_revisions := [sample_revision\<lparr>vr_validation_results := [PNone]\<rparr>]\<rparr>"

definition sample_schedule :: reviewed_schedule where
  "sample_schedule = \<lparr>sr_content_hash = ''h'', sr_destination_id = ''d'', sr_scheduled_for = Some 500\<rparr>"

definition schedule_outcome :: "intent_error + schedule_result \<times> pub_db" where
  "schedule_outcome = schedule_reviewed_telegram plain_env (in_lib sample_input) (\<lambda>_. Some True) 100 200 ''w'' sample_schedule schedule_db"

definition scheduled_db :: pub_db where
  "scheduled_db = snd (projr schedule_outcome)"

definition schedule_answer :: schedule_result where
  "schedule_answer = fst (projr schedule_outcome)"

lemma scheduled_ok: "\<not> isl schedule_outcome \<and> sl_created schedule_answer"
  by code_simp

lemma scheduled_eq:
  "schedule_reviewed_telegram plain_env (in_lib sample_input) (\<lambda>_. Some True) 100 200 ''w'' sample_schedule schedule_db =
     Inr (schedule_answer, scheduled_db)"
proof -
  have "schedule_outcome = Inr (projr schedule_outcome)" using scheduled_ok by (metis sum.collapse(2))
  then have "schedule_outcome = Inr (schedule_answer, scheduled_db)" by (simp add: schedule_answer_def scheduled_db_def)
  then show ?thesis by (simp add: schedule_outcome_def)
qed

lemma schedule_passes_gates_witness:
  "\<exists>t r d. Some (500 :: time) = Some t \<and> revision_schedulable (in_lib sample_input) (\<lambda>_. Some True) ''w'' ''h'' ''d'' r schedule_db \<and>
     schedule_stands ''d'' r t (sl_publish_job schedule_answer) (sl_workflow_job schedule_answer) \<and>
     find_destination ''d'' scheduled_db = Some d \<and> de_platform d = ''telegram'' \<and> de_enabled d \<and> 100 < t \<and> 200 < t"
  using schedule_passes_gates [OF scheduled_eq] scheduled_ok by (simp add: sample_schedule_def)

section \<open>The run\<close>

definition schedule_start :: world where
  "schedule_start = \<lparr>wo_db = scheduled_db, wo_publishers = [Starting ''id-0'' None], wo_log = []\<rparr>"

lemma schedule_start_reach: "program_reach schedule_start"
proof -
  let ?w = "\<lparr>wo_db = schedule_db, wo_publishers = [], wo_log = []\<rparr>"
  let ?v = "\<lparr>wo_db = scheduled_db, wo_publishers = [], wo_log = []\<rparr>"
  have fresh: "program_reach ?w"
    by (rule program_reach.fresh) (simp_all add: fresh_world_def schedule_db_def sample_pub_db_def empty_db_def job_keys_def)
  have same: "receipts scheduled_db = receipts schedule_db" "pu_publications scheduled_db = pu_publications schedule_db" by code_simp+
  have "world_step ?w ?v" using world_step.others [of scheduled_db ?w] same by simp
  moreover have "intent_step (wo_db ?w) (wo_db ?v)" using intent_step.scheduled [OF scheduled_eq] by simp
  ultimately have v: "program_reach ?v" by (rule program_reach.step [OF fresh])
  have "world_step ?v schedule_start" using world_step.started [of ?v "''id-0''" None] by (simp add: schedule_start_def)
  moreover have "intent_step (wo_db ?v) (wo_db schedule_start)" by (rule intent_step.others) (simp add: schedule_start_def)
  ultimately show ?thesis by (rule program_reach.step [OF v])
qed

lemma turn_intents: "intent_step (wo_db w) (wo_db (turn inp w))"
proof (cases "wo_publishers w")
  case (Cons p ps)
  show ?thesis
  proof (cases "in_sending p")
    case True
    then show ?thesis by (intro intent_step.others) (cases p; simp add: turn_def Cons)
  next
    case False
    obtain p' x' where a: "advance inp p (wo_db w) = (p', x')" by force
    then have "wo_db (turn inp w) = x'" using False by (cases p) (auto simp: turn_def Cons)
    then show ?thesis using intent_step.published [OF a] by simp
  qed
qed (simp add: turn_def intent_step.others)

lemma schedule_run_reach: "program_reach (drive sample_input k schedule_start)"
proof (induction k)
  case (Suc k)
  have "world_step (drive sample_input k schedule_start) (turn sample_input (drive sample_input k schedule_start))"
    by (rule turn_step) (simp_all add: drive_publishers schedule_start_def sample_input_def)
  then show ?case using program_reach.step [OF Suc _ turn_intents] by simp
qed (simp add: schedule_start_reach)

definition schedule_end :: world where
  "schedule_end = drive sample_input 6 schedule_start"

definition run_facts :: "world \<Rightarrow> fact list \<times> uuid list" where
  "run_facts w = (wo_log w, jobs_for ''d'' ''w'' ''h'' (wo_db w))"

lemma schedule_end_facts: "run_facts schedule_end = ([Delivered (''id-0'', 0)], [''id-0''])"
  by code_simp

lemma revision_published_once_witness:
  "jobs_for ''d'' ''w'' ''h'' (wo_db schedule_end) = [''id-0''] \<and> deliveries [''id-0''] 0 (wo_log schedule_end) = 1 \<and>
   length (jobs_for ''d'' ''w'' ''h'' (wo_db schedule_end)) \<le> 1 \<and>
   deliveries [''id-0''] 0 (wo_log schedule_end) \<le> Suc (declared_unsent [''id-0''] 0 (wo_log schedule_end))"
  using revision_published_once [OF schedule_run_reach [of 6, folded schedule_end_def], of "''d''" "''w''" "''h''" 0]
    schedule_end_facts by (simp add: run_facts_def)

end
