(* ===== verification/Secret_Store.thy ===== *)
theory Secret_Store
  imports Redaction
begin

text \<open>
  The encrypted credential store, \<open>app/security/secret_store.py\<close>, with its rows of
  \<open>app/security/models.py\<close> and the audit writer of \<open>app/security/audit.py\<close>.  Bytes and the text of
  secrets are both lists of bytes here, a text being held by its UTF-8 encoding, so encoding is the
  identity and decoding accepts the well-formed sequences.  AES-GCM belongs to the \<open>cryptography\<close> package
  and is an argument of the operations; so is \<open>json.loads\<close> for the previous keys.
\<close>

datatype secret_error =
    SecretStoreUnavailable
  | SecretKeyUnavailable
  | SecretDecryptionFailed
  | SecretEncryptionFailed
  | SecretAccessDenied
  | SecretValueError \<comment> \<open>the \<open>ValueError\<close> of an empty secret\<close>

record principal =
  pc_principal_type :: string
  pc_principal_id :: string
  pc_scopes :: "string list"

definition permits :: "principal \<Rightarrow> string \<Rightarrow> bool" where
  "permits p scope \<longleftrightarrow> scope \<in> set (pc_scopes p)"

record encrypted_secret =
  sk_id :: uuid
  sk_purpose :: string
  sk_owner_type :: string
  sk_owner_id :: uuid
  sk_ciphertext :: string
  sk_nonce :: string
  sk_key_version :: string
  sk_created_at :: time
  sk_last_rotated_at :: time

text \<open>The identifier of an audit row is left to the database.\<close>

record security_event =
  au_actor_type :: string
  au_actor_id :: string
  au_required_scope :: "string option"
  au_action :: string
  au_resource_type :: string
  au_resource_id :: "string option"
  au_outcome :: string
  au_reason_code :: "string option"
  au_request_id :: "string option"
  au_event_metadata :: pydict
  au_created_at :: time

record secret_db =
  sx_secrets :: "encrypted_secret list"
  sx_audit :: "security_event list"

section \<open>Keys\<close>

definition alnum_byte :: "char \<Rightarrow> bool" where
  "alnum_byte c = (let n = (of_char c :: nat) in (48 \<le> n \<and> n \<le> 57) \<or> (65 \<le> n \<and> n \<le> 90) \<or> (97 \<le> n \<and> n \<le> 122))"

text \<open>
  \<open>base64.b64decode\<close> with \<open>validate\<close> and the alternative characters, which are accepted beside the
  standard ones: data characters, then exactly the padding their number asks for.
\<close>

fun base64_digit :: "char \<Rightarrow> nat option" where
  "base64_digit c = (let n = (of_char c :: nat) in
     if 65 \<le> n \<and> n \<le> 90 then Some (n - 65)
     else if 97 \<le> n \<and> n \<le> 122 then Some (n - 71)
     else if 48 \<le> n \<and> n \<le> 57 then Some (n + 4)
     else if n = 43 \<or> n = 45 then Some 62
     else if n = 47 \<or> n = 95 then Some 63 else None)"

fun base64_bytes :: "nat list \<Rightarrow> string" where
  "base64_bytes (a # b # c # d # rest) =
     char_of (a * 4 + b div 16) # char_of (b mod 16 * 16 + c div 4) # char_of (c mod 4 * 64 + d) # base64_bytes rest"
| "base64_bytes [a, b, c] = [char_of (a * 4 + b div 16), char_of (b mod 16 * 16 + c div 4)]"
| "base64_bytes [a, b] = [char_of (a * 4 + b div 16)]"
| "base64_bytes _ = []"

fun base64_digits :: "string \<Rightarrow> nat list option" where
  "base64_digits [] = Some []"
| "base64_digits (c # cs) =
     (case (base64_digit c, base64_digits cs) of (Some n, Some ns) \<Rightarrow> Some (n # ns) | _ \<Rightarrow> None)"

definition b64decode :: "string \<Rightarrow> string option" where
  "b64decode s =
     (let data = takeWhile (\<lambda>c. c \<noteq> CHR ''='') s; pads = dropWhile (\<lambda>c. c \<noteq> CHR ''='') s in
      case base64_digits data of
        None \<Rightarrow> None
      | Some ns \<Rightarrow>
          if list_all (\<lambda>c. c = CHR ''='') pads \<and> (length data mod 4, length pads) \<in> {(0, 0), (2, 2), (3, 1)}
          then Some (base64_bytes ns) else None)"

definition decode_key :: "string \<Rightarrow> secret_error + string" where
  "decode_key encoded =
     (case b64decode (encoded @ replicate (nat ((- int (length encoded)) mod 4)) CHR ''='') of
        None \<Rightarrow> Inl SecretKeyUnavailable
      | Some raw \<Rightarrow> if length raw \<noteq> 32 then Inl SecretKeyUnavailable else Inr raw)"

record key_ring =
  kr_active_version :: string
  kr_keys :: "(string \<times> string) list"

definition valid_key_version :: "string \<Rightarrow> bool" where
  "valid_key_version v \<longleftrightarrow>
     v \<noteq> [] \<and> length v \<le> 32 \<and>
     (let w = filter (\<lambda>c. c \<noteq> CHR ''-'' \<and> c \<noteq> CHR ''_'') v in w \<noteq> [] \<and> list_all alnum_byte w)"

definition make_key_ring :: "string \<Rightarrow> (string \<times> string) list \<Rightarrow> secret_error + key_ring" where
  "make_key_ring active keys =
     (if active \<notin> fst ` set keys then Inl SecretKeyUnavailable
      else if \<not> list_all (\<lambda>(v, k). valid_key_version v \<and> length k = 32) keys then Inl SecretKeyUnavailable
      else Inr \<lparr>kr_active_version = active, kr_keys = keys\<rparr>)"

record secret_settings =
  sg_secret_master_key :: "string option"
  sg_secret_key_version :: string
  sg_secret_previous_keys :: "string option"

fun add_previous_keys :: "pydict \<Rightarrow> (string \<times> string) list \<Rightarrow> secret_error + (string \<times> string) list" where
  "add_previous_keys [] keys = Inr keys"
| "add_previous_keys ((KStr v, PStr encoded) # rest) keys =
     (if v = [] \<or> v \<in> fst ` set keys then Inl SecretKeyUnavailable
      else result_bind (decode_key encoded) (\<lambda>k. add_previous_keys rest (keys @ [(v, k)])))"
| "add_previous_keys (_ # rest) keys = Inl SecretKeyUnavailable"

definition key_ring_from_settings :: "(string \<Rightarrow> pyval option) \<Rightarrow> secret_settings \<Rightarrow> secret_error + key_ring" where
  "key_ring_from_settings json_loads cfg =
     (case sg_secret_master_key cfg of
        None \<Rightarrow> Inl SecretKeyUnavailable
      | Some master \<Rightarrow>
          result_bind (decode_key master) (\<lambda>k.
          let keys = [(sg_secret_key_version cfg, k)] in
          case sg_secret_previous_keys cfg of
            None \<Rightarrow> make_key_ring (sg_secret_key_version cfg) keys
          | Some p \<Rightarrow>
              if strip p = [] then make_key_ring (sg_secret_key_version cfg) keys
              else case json_loads (strip p) of
                Some (PDict previous) \<Rightarrow>
                  result_bind (add_previous_keys previous keys) (make_key_ring (sg_secret_key_version cfg))
              | _ \<Rightarrow> Inl SecretKeyUnavailable))"

definition ring_key :: "key_ring \<Rightarrow> string \<Rightarrow> secret_error + string" where
  "ring_key r v = (case map_of (kr_keys r) v of None \<Rightarrow> Inl SecretKeyUnavailable | Some k \<Rightarrow> Inr k)"

definition active_key :: "key_ring \<Rightarrow> secret_error + string" where
  "active_key r = ring_key r (kr_active_version r)"

text \<open>\<open>SecretStoreRuntime\<close>: the error of a bad configuration is raised when a store is asked for.\<close>

definition store_runtime :: "(string \<Rightarrow> pyval option) \<Rightarrow> secret_settings \<Rightarrow> key_ring option \<times> secret_error option" where
  "store_runtime json_loads cfg =
     (case key_ring_from_settings json_loads cfg of Inr r \<Rightarrow> (Some r, None) | Inl e \<Rightarrow> (None, Some e))"

definition runtime_initialized :: "key_ring option \<times> secret_error option \<Rightarrow> bool" where
  "runtime_initialized rt \<longleftrightarrow> fst rt \<noteq> None \<and> snd rt = None"

definition bind_store :: "key_ring option \<times> secret_error option \<Rightarrow> secret_error + key_ring" where
  "bind_store rt =
     (case rt of (_, Some e) \<Rightarrow> Inl e | (None, None) \<Rightarrow> Inl SecretStoreUnavailable | (Some r, None) \<Rightarrow> Inr r)"

section \<open>Audit\<close>

record secret_env =
  sn_redact_string :: "string \<Rightarrow> string"
  sn_db_now :: time
  sn_seal :: "string \<Rightarrow> string \<Rightarrow> string \<Rightarrow> string \<Rightarrow> string option" \<comment> \<open>key, nonce, plaintext, associated data\<close>
  sn_open :: "string \<Rightarrow> string \<Rightarrow> string \<Rightarrow> string \<Rightarrow> string option" \<comment> \<open>key, nonce, ciphertext, associated data\<close>

definition safe_text :: "secret_env \<Rightarrow> nat \<Rightarrow> string \<Rightarrow> string" where
  "safe_text se limit s = take limit (sn_redact_string se s)"

definition text_or_unknown :: "string \<Rightarrow> string" where
  "text_or_unknown s = (if s = [] then ''unknown'' else s)"

definition record_security_event ::
  "secret_env \<Rightarrow> principal option \<Rightarrow> string option \<Rightarrow> string \<Rightarrow> string \<Rightarrow> string \<Rightarrow> string option \<Rightarrow>
   string option \<Rightarrow> string option \<Rightarrow> pydict \<Rightarrow> secret_db \<Rightarrow> secret_db" where
  "record_security_event se p scope action resource_type outcome resource_id reason request metadata x =
     x\<lparr>sx_audit := sx_audit x @ [
       \<lparr>au_actor_type = (case p of Some q \<Rightarrow> pc_principal_type q | None \<Rightarrow> ''anonymous''),
        au_actor_id = (case p of Some q \<Rightarrow> pc_principal_id q | None \<Rightarrow> ''anonymous''),
        au_required_scope = map_option (safe_text se 200) scope,
        au_action = text_or_unknown (safe_text se 200 action),
        au_resource_type = text_or_unknown (safe_text se 200 resource_type),
        au_resource_id = map_option (safe_text se 200) resource_id,
        au_outcome = outcome,
        au_reason_code = map_option (safe_text se 200) reason,
        au_request_id = map_option (safe_text se 128) request,
        au_event_metadata = redact_event_data (sn_redact_string se) metadata,
        au_created_at = sn_db_now se\<rparr>]\<rparr>"

definition secret_event :: "secret_env \<Rightarrow> principal \<Rightarrow> string \<Rightarrow> string \<Rightarrow> encrypted_secret \<Rightarrow> string \<Rightarrow> string option \<Rightarrow> pydict \<Rightarrow>
  secret_db \<Rightarrow> secret_db" where
  "secret_event se p scope action s outcome reason metadata =
     record_security_event se (Some p) (Some scope) action (sk_owner_type s) outcome (Some (sk_owner_id s)) reason None metadata"

definition secret_metadata :: "encrypted_secret \<Rightarrow> pydict" where
  "secret_metadata s = [(KStr ''purpose'', PStr (sk_purpose s)), (KStr ''key_version'', PStr (sk_key_version s))]"

section \<open>Associated data\<close>

text \<open>
  \<open>json.dumps\<close> of a text: everything outside the printable ASCII characters is escaped.  Purposes, owner types
  and key versions are ASCII texts in this program, and UUIDs always.
\<close>

fun json_char :: "char \<Rightarrow> string" where
  "json_char c = (let n = (of_char c :: nat) in
     if n = 34 \<or> n = 92 then [CHR 0x5C, c]
     else if n = 10 then [CHR 0x5C, CHR ''n''] else if n = 13 then [CHR 0x5C, CHR ''r'']
     else if n = 9 then [CHR 0x5C, CHR ''t''] else if n = 12 then [CHR 0x5C, CHR ''f'']
     else if n = 8 then [CHR 0x5C, CHR ''b'']
     else if n < 32 \<or> 126 < n then [CHR 0x5C, CHR ''u''] @ hex_text 4 (int n)
     else [c])"

declare json_char.simps [simp del]

definition json_text :: "string \<Rightarrow> string" where
  "json_text s = CHR 0x22 # concat (map json_char s) @ [CHR 0x22]"

definition aad :: "encrypted_secret \<Rightarrow> string \<Rightarrow> string" where
  "aad s version =
     ''{'' @ json_text ''id'' @ '':'' @ json_text (sk_id s) @
     '','' @ json_text ''key_version'' @ '':'' @ json_text version @
     '','' @ json_text ''owner_id'' @ '':'' @ json_text (sk_owner_id s) @
     '','' @ json_text ''owner_type'' @ '':'' @ json_text (sk_owner_type s) @
     '','' @ json_text ''purpose'' @ '':'' @ json_text (sk_purpose s) @ ''}''"

section \<open>The operations\<close>

text \<open>\<open>bytes.decode\<close>: the well-formed UTF-8 sequences.\<close>

fun valid_utf8 :: "nat list \<Rightarrow> bool" where
  "valid_utf8 [] = True"
| "valid_utf8 (a # xs) =
     (if a < 128 then valid_utf8 xs
      else case xs of
        [] \<Rightarrow> False
      | b # ys \<Rightarrow>
          if 194 \<le> a \<and> a < 224 then 128 \<le> b \<and> b < 192 \<and> valid_utf8 ys
          else case ys of
            [] \<Rightarrow> False
          | c # zs \<Rightarrow>
              if 224 \<le> a \<and> a < 240
              then (if a = 224 then 160 else 128) \<le> b \<and> b < (if a = 237 then 160 else 192) \<and> 128 \<le> c \<and> c < 192 \<and>
                   valid_utf8 zs
              else case zs of
                [] \<Rightarrow> False
              | d # ws \<Rightarrow>
                  240 \<le> a \<and> a < 245 \<and> (if a = 240 then 144 else 128) \<le> b \<and> b < (if a = 244 then 144 else 192) \<and>
                  128 \<le> c \<and> c < 192 \<and> 128 \<le> d \<and> d < 192 \<and> valid_utf8 ws)"

definition is_text :: "string \<Rightarrow> bool" where
  "is_text s = valid_utf8 (map of_char s)"

definition authorize ::
  "secret_env \<Rightarrow> encrypted_secret \<Rightarrow> principal \<Rightarrow> string \<Rightarrow> string \<Rightarrow> secret_db \<Rightarrow> (secret_error + unit) \<times> secret_db" where
  "authorize se s p scope action x =
     (if permits p scope then (Inr (), x)
      else (Inl SecretAccessDenied, secret_event se p scope action s ''rejected'' (Some ''scope_denied'') [] x))"

definition encrypt_secret ::
  "secret_env \<Rightarrow> key_ring \<Rightarrow> string \<Rightarrow> encrypted_secret \<Rightarrow> string \<Rightarrow> time \<Rightarrow> secret_error + encrypted_secret" where
  "encrypt_secret se ring nonce s value rotated_at =
     (if value = [] then Inl SecretValueError
      else result_bind (active_key ring) (\<lambda>k.
        case sn_seal se k nonce value (aad s (kr_active_version ring)) of
          None \<Rightarrow> Inl SecretEncryptionFailed
        | Some c \<Rightarrow> Inr (s\<lparr>sk_nonce := nonce, sk_ciphertext := c, sk_key_version := kr_active_version ring,
                           sk_last_rotated_at := rotated_at\<rparr>)))"

definition put_secret :: "encrypted_secret \<Rightarrow> secret_db \<Rightarrow> secret_db" where
  "put_secret s x = x\<lparr>sx_secrets := set_rows (\<lambda>q. sk_id q = sk_id s) (\<lambda>_. s) (sx_secrets x)\<rparr>"

definition find_secret :: "uuid \<Rightarrow> secret_db \<Rightarrow> encrypted_secret option" where
  "find_secret i x = find (\<lambda>s. sk_id s = i) (sx_secrets x)"

text \<open>\<open>i\<close> is the identifier and \<open>nonce\<close> the twelve bytes drawn for the call.\<close>

definition create_secret ::
  "secret_env \<Rightarrow> key_ring \<Rightarrow> uuid \<Rightarrow> string \<Rightarrow> string \<Rightarrow> string \<Rightarrow> uuid \<Rightarrow> string \<Rightarrow> principal \<Rightarrow> string \<Rightarrow> time \<Rightarrow> secret_db \<Rightarrow>
   (secret_error + encrypted_secret) \<times> secret_db" where
  "create_secret se ring i nonce purpose owner_type owner value p scope now x =
     (let s = \<lparr>sk_id = i, sk_purpose = purpose, sk_owner_type = owner_type, sk_owner_id = owner, sk_ciphertext = [],
               sk_nonce = [], sk_key_version = kr_active_version ring, sk_created_at = sn_db_now se,
               sk_last_rotated_at = sn_db_now se\<rparr> in
      case authorize se s p scope ''secret.create'' x of
        (Inl e, x1) \<Rightarrow> (Inl e, x1)
      | (Inr _, x1) \<Rightarrow>
          (case encrypt_secret se ring nonce s value now of
             Inl e \<Rightarrow> (Inl e, x1)
           | Inr s1 \<Rightarrow> (Inr s1, secret_event se p scope ''secret.create'' s1 ''succeeded'' None (secret_metadata s1)
                                 (x1\<lparr>sx_secrets := sx_secrets x1 @ [s1]\<rparr>))))"

definition rotate_secret ::
  "secret_env \<Rightarrow> key_ring \<Rightarrow> string \<Rightarrow> encrypted_secret \<Rightarrow> string \<Rightarrow> principal \<Rightarrow> string \<Rightarrow> time \<Rightarrow> secret_db \<Rightarrow>
   (secret_error + encrypted_secret) \<times> secret_db" where
  "rotate_secret se ring nonce s value p scope now x =
     (case authorize se s p scope ''secret.rotate'' x of
        (Inl e, x1) \<Rightarrow> (Inl e, x1)
      | (Inr _, x1) \<Rightarrow>
          (case encrypt_secret se ring nonce s value now of
             Inl e \<Rightarrow> (Inl e, x1)
           | Inr s1 \<Rightarrow> (Inr s1, secret_event se p scope ''secret.rotate'' s1 ''succeeded'' None (secret_metadata s1)
                                 (put_secret s1 x1))))"

definition decrypt_secret ::
  "secret_env \<Rightarrow> key_ring \<Rightarrow> encrypted_secret \<Rightarrow> principal \<Rightarrow> string \<Rightarrow> secret_db \<Rightarrow> (secret_error + string) \<times> secret_db" where
  "decrypt_secret se ring s p scope x =
     (case authorize se s p scope ''secret.decrypt'' x of
        (Inl e, x1) \<Rightarrow> (Inl e, x1)
      | (Inr _, x1) \<Rightarrow>
          (case (case ring_key ring (sk_key_version s) of
                   Inl e \<Rightarrow> None
                 | Inr k \<Rightarrow> sn_open se k (sk_nonce s) (sk_ciphertext s) (aad s (sk_key_version s))) of
             Some v \<Rightarrow> if is_text v then (Inr v, x1)
                       else (Inl SecretDecryptionFailed, secret_event se p scope ''secret.decrypt'' s ''failed''
                               (Some ''secret_decryption_failed'') (secret_metadata s) x1)
           | None \<Rightarrow> (Inl SecretDecryptionFailed, secret_event se p scope ''secret.decrypt'' s ''failed''
                        (Some ''secret_decryption_failed'') (secret_metadata s) x1)))"

definition rewrap_secret ::
  "secret_env \<Rightarrow> key_ring \<Rightarrow> string \<Rightarrow> encrypted_secret \<Rightarrow> principal \<Rightarrow> string \<Rightarrow> time \<Rightarrow> secret_db \<Rightarrow>
   (secret_error + encrypted_secret \<times> bool) \<times> secret_db" where
  "rewrap_secret se ring nonce s p scope now x =
     (if sk_key_version s = kr_active_version ring then (Inr (s, False), x)
      else case decrypt_secret se ring s p scope x of
        (Inl e, x1) \<Rightarrow> (Inl e, x1)
      | (Inr v, x1) \<Rightarrow>
          (case encrypt_secret se ring nonce s v now of
             Inl e \<Rightarrow> (Inl e, x1)
           | Inr s1 \<Rightarrow> (Inr (s1, True), secret_event se p scope ''secret.rewrap'' s1 ''succeeded'' None (secret_metadata s1)
                                 (put_secret s1 x1))))"

end
