(* ===== verification/Telegram_Routing.thy ===== *)
theory Telegram_Routing
  imports Publish_Rows Secret_Store
begin

text \<open>
  \<open>app/publishing/telegram/routing.py\<close>: the normal form of a target, the checks of a proxy endpoint and the
  credentials a route is built from.  A \<open>str\<close> is held by its UTF-8 bytes.  The IDNA package, name resolution,
  connections, the registry of IP addresses and the Unicode tables of \<open>urlsplit\<close> are fields of \<open>net_lib\<close>.
\<close>

datatype route_error =
    TelegramConfigurationError string
  | Uncaught_Value_Error

record net_lib =
  nl_netloc_ok :: "string \<Rightarrow> bool" \<comment> \<open>a network location outside ASCII stays one under NFKC\<close>
  nl_ip_address :: "string \<Rightarrow> (string \<times> bool) option" \<comment> \<open>the compressed form of an address, and whether it is global\<close>
  nl_idna :: "string \<Rightarrow> string option"
  nl_resolve :: "string \<Rightarrow> int \<Rightarrow> string list option"
  nl_connect :: "string \<Rightarrow> int \<Rightarrow> bool"
  nl_allowed_ports :: string \<comment> \<open>the setting \<open>telegram_proxy_allowed_ports\<close>\<close>

section \<open>Targets\<close>

definition control_char :: "char \<Rightarrow> bool" where
  "control_char c \<longleftrightarrow> (of_char c :: nat) < 32 \<or> (of_char c :: nat) = 127"

definition letter :: "char \<Rightarrow> bool" where
  "letter c = (let n = (of_char c :: nat) in (65 \<le> n \<and> n \<le> 90) \<or> (97 \<le> n \<and> n \<le> 122))"

definition word_char :: "char \<Rightarrow> bool" where
  "word_char c \<longleftrightarrow> alnum_byte c \<or> c = CHR ''_''"

definition digit :: "char \<Rightarrow> bool" where
  "digit c = (let n = (of_char c :: nat) in 48 \<le> n \<and> n \<le> 57)"

definition username_shape :: "string \<Rightarrow> bool" where
  "username_shape s = (case s of [] \<Rightarrow> False | c # cs \<Rightarrow> letter c \<and> 4 \<le> length cs \<and> length cs \<le> 31 \<and> list_all word_char cs)"

definition digits_of :: "string \<Rightarrow> string" where
  "digits_of s = (if starts_with ''-'' s then tl s else s)"

definition numeric_shape :: "string \<Rightarrow> bool" where
  "numeric_shape s = (let t = digits_of s in t \<noteq> [] \<and> list_all digit t \<and> (t = ''0'' \<or> hd t \<noteq> CHR ''0''))"

definition decimal_value :: "string \<Rightarrow> int" where
  "decimal_value t = foldl (\<lambda>n c. 10 * n + (of_char c - 48)) 0 t"

definition numeric_value :: "string \<Rightarrow> int" where
  "numeric_value s = (if starts_with ''-'' s then - decimal_value (tl s) else decimal_value s)"

text \<open>\<open>str.partition\<close> and \<open>str.rpartition\<close>: the second one's tail is all of the text when the separator is absent.\<close>

definition before :: "char \<Rightarrow> string \<Rightarrow> string" where
  "before c s = takeWhile (\<lambda>d. d \<noteq> c) s"

definition after :: "char \<Rightarrow> string \<Rightarrow> string" where
  "after c s = drop 1 (dropWhile (\<lambda>d. d \<noteq> c) s)"

definition after_last :: "char \<Rightarrow> string \<Rightarrow> string" where
  "after_last c s = rev (takeWhile (\<lambda>d. d \<noteq> c) (rev s))"

text \<open>\<open>urlsplit\<close> of a stripped text without control characters; \<open>None\<close> is its \<open>ValueError\<close>.\<close>

record split_url =
  ul_scheme :: string
  ul_netloc :: string
  ul_path :: string
  ul_query :: string
  ul_fragment :: string

definition scheme_char :: "char \<Rightarrow> bool" where
  "scheme_char c \<longleftrightarrow> alnum_byte c \<or> c \<in> set ''+-.''"

definition url_scheme :: "string \<Rightarrow> string \<times> string" where
  "url_scheme s =
     (let p = before CHR '':'' s in
      if CHR '':'' \<in> set s \<and> p \<noteq> [] \<and> letter (hd p) \<and> list_all scheme_char p then (lower p, after CHR '':'' s)
      else ([], s))"

definition bracketed :: "string \<Rightarrow> bool" where
  "bracketed s \<longleftrightarrow> CHR ''['' \<in> set s \<or> CHR '']'' \<in> set s"

text \<open>
  A network location with brackets is one of an IP literal when \<open>urlsplit\<close> accepts it at all, and no IP
  literal is a host name of Telegram; both ways the target is refused, so brackets count as an error here.
\<close>

definition urlsplit :: "net_lib \<Rightarrow> string \<Rightarrow> split_url option" where
  "urlsplit nl s =
     (let (scheme, rest) = url_scheme s;
          delimiter = (\<lambda>c. c \<in> set ''/?#'');
          (netloc, u) = (if starts_with ''//'' rest
                         then (takeWhile (\<lambda>c. \<not> delimiter c) (drop 2 rest), dropWhile (\<lambda>c. \<not> delimiter c) (drop 2 rest))
                         else ([], rest));
          v = before CHR ''#'' u in
      if bracketed netloc \<or> \<not> (list_all (\<lambda>c. (of_char c :: nat) < 128) netloc \<or> nl_netloc_ok nl netloc) then None
      else Some \<lparr>ul_scheme = scheme, ul_netloc = netloc, ul_path = before CHR ''?'' v, ul_query = after CHR ''?'' v,
                 ul_fragment = after CHR ''#'' u\<rparr>)"

definition url_hostname :: "split_url \<Rightarrow> string" where
  "url_hostname u =
     (let h = before CHR '':'' (after_last CHR ''@'' (ul_netloc u)) in
      lower (before CHR ''%'' h) @ dropWhile (\<lambda>c. c \<noteq> CHR ''%'') h)"

text \<open>The property \<open>port\<close> raises a \<open>ValueError\<close> of its own.\<close>

definition url_port :: "split_url \<Rightarrow> route_error + int option" where
  "url_port u =
     (let p = after CHR '':'' (after_last CHR ''@'' (ul_netloc u)) in
      if p = [] then Inr None
      else if \<not> list_all digit p then Inl Uncaught_Value_Error
      else if decimal_value p > 65535 then Inl Uncaught_Value_Error else Inr (Some (decimal_value p)))"

definition has_userinfo :: "split_url \<Rightarrow> bool" where
  "has_userinfo u \<longleftrightarrow> CHR ''@'' \<in> set (ul_netloc u)"

text \<open>\<open>path.split('/')\<close> without its empty parts.\<close>

function segments :: "string \<Rightarrow> string list" where
  "segments s =
     (case s of [] \<Rightarrow> []
      | c # cs \<Rightarrow> if c = CHR ''/'' then segments cs
                  else takeWhile (\<lambda>d. d \<noteq> CHR ''/'') s # segments (dropWhile (\<lambda>d. d \<noteq> CHR ''/'') s))"
  by pat_completeness auto
termination
  by (relation "measure length") (auto simp: less_Suc_eq_le length_dropWhile_le)

declare segments.simps [simp del]

definition target_invalid :: "route_error + 'a" where
  "target_invalid = Inl (TelegramConfigurationError ''telegram_target_invalid'')"

definition username_target :: "string \<Rightarrow> route_error + string \<times> string" where
  "username_target s = (if username_shape s then Inr (CHR ''@'' # lower s, ''username'') else target_invalid)"

text \<open>The value of a target and its type.\<close>

definition normalize_telegram_target :: "net_lib \<Rightarrow> string \<Rightarrow> route_error + string \<times> string" where
  "normalize_telegram_target nl raw =
     (let s = strip raw in
      if s = [] \<or> list_ex control_char s then target_invalid
      else if starts_with ''@'' s then username_target (tl s)
      else if numeric_shape s then
        (let n = numeric_value s in
         if n = 0 \<or> \<not> (- (2 ^ 63) \<le> n \<and> n < 2 ^ 63) then target_invalid else Inr (int_str n, ''numeric_id''))
      else case urlsplit nl s of
        None \<Rightarrow> target_invalid
      | Some u \<Rightarrow>
          if lower (ul_scheme u) \<noteq> ''https'' \<or> lower (url_hostname u) \<notin> {''t.me'', ''telegram.me''} then target_invalid
          else result_bind (url_port u) (\<lambda>port.
            if port \<noteq> None \<or> has_userinfo u \<or> ul_query u \<noteq> [] \<or> ul_fragment u \<noteq> [] \<or> CHR ''%'' \<in> set (ul_path u)
            then target_invalid
            else case segments (ul_path u) of [name] \<Rightarrow> username_target name | _ \<Rightarrow> target_invalid))"

section \<open>Proxies\<close>

definition config_error :: "string \<Rightarrow> route_error + 'a" where
  "config_error code = Inl (TelegramConfigurationError code)"

function split_at :: "char \<Rightarrow> string \<Rightarrow> string list" where
  "split_at c s = (if c \<in> set s then before c s # split_at c (after c s) else [s])"
  by pat_completeness auto
termination
proof (relation "measure (\<lambda>(c, s). length s)")
  fix c :: char and s
  assume "c \<in> set s"
  then have "dropWhile (\<lambda>d. d \<noteq> c) s \<noteq> []" by (simp add: dropWhile_eq_Nil_conv)
  then have "length (drop 1 (dropWhile (\<lambda>d. d \<noteq> c) s)) < length (dropWhile (\<lambda>d. d \<noteq> c) s)" by simp
  also have "\<dots> \<le> length s" by (rule length_dropWhile_le)
  finally show "((c, after c s), c, s) \<in> measure (\<lambda>(c, s). length s)" by (simp add: after_def)
qed simp

declare split_at.simps [simp del]

definition host_label :: "string \<Rightarrow> bool" where
  "host_label s \<longleftrightarrow> s \<noteq> [] \<and> length s \<le> 63 \<and> alnum_byte (hd s) \<and> alnum_byte (last s) \<and>
     list_all (\<lambda>c. alnum_byte c \<or> c = CHR ''-'') s"

definition normalize_proxy_host :: "net_lib \<Rightarrow> string \<Rightarrow> route_error + string" where
  "normalize_proxy_host nl raw =
     (let s = rev (dropWhile (\<lambda>c. c = CHR ''.'') (rev (strip raw))) in
      if s = [] \<or> contains ''://'' s \<or> list_ex is_space s \<or> list_ex control_char s \<or> list_ex (\<lambda>c. c \<in> set ''/?#@'') s
      then config_error ''telegram_proxy_host_invalid''
      else case nl_ip_address nl s of
        Some (ip, _) \<Rightarrow> Inr ip
      | None \<Rightarrow>
          (case nl_idna nl s of
             None \<Rightarrow> config_error ''telegram_proxy_host_invalid''
           | Some h \<Rightarrow>
               if length (lower h) > 253 \<or> lower h = ''localhost'' \<or> \<not> list_all host_label (split_at CHR ''.'' (lower h))
               then config_error ''telegram_proxy_host_invalid'' else Inr (lower h)))"

text \<open>\<open>int(value)\<close> of a decimal text: a sign, and single underscores between digits.\<close>

fun decimal_digits :: "bool \<Rightarrow> int \<Rightarrow> string \<Rightarrow> int option" where
  "decimal_digits after_digit acc [] = (if after_digit then Some acc else None)"
| "decimal_digits after_digit acc (c # cs) =
     (if c = CHR ''_'' then (if after_digit then decimal_digits False acc cs else None)
      else if digit c then decimal_digits True (10 * acc + (of_char c - 48)) cs else None)"

definition py_int10 :: "string \<Rightarrow> int option" where
  "py_int10 s =
     (let t = strip s in
      if starts_with ''-'' t then map_option uminus (decimal_digits False 0 (tl t))
      else if starts_with ''+'' t then decimal_digits False 0 (tl t) else decimal_digits False 0 t)"

fun int_list :: "string list \<Rightarrow> int list option" where
  "int_list [] = Some []"
| "int_list (s # ss) = (case (py_int10 s, int_list ss) of (Some n, Some ns) \<Rightarrow> Some (n # ns) | _ \<Rightarrow> None)"

definition allowed_proxy_ports :: "net_lib \<Rightarrow> route_error + int list" where
  "allowed_proxy_ports nl =
     (case int_list (split_at CHR '','' (nl_allowed_ports nl)) of
        None \<Rightarrow> config_error ''telegram_proxy_egress_policy_invalid''
      | Some ports \<Rightarrow>
          if ports = [] \<or> list_ex (\<lambda>p. p < 1 \<or> p > 65535) ports then config_error ''telegram_proxy_egress_policy_invalid''
          else Inr ports)"

definition public_address :: "net_lib \<Rightarrow> string \<Rightarrow> route_error + string" where
  "public_address nl s =
     (case nl_ip_address nl s of
        None \<Rightarrow> config_error ''telegram_proxy_dns_invalid''
      | Some (ip, global) \<Rightarrow> if global then Inr ip else config_error ''telegram_proxy_address_blocked'')"

fun public_addresses :: "net_lib \<Rightarrow> string list \<Rightarrow> route_error + string list" where
  "public_addresses nl [] = Inr []"
| "public_addresses nl (s # ss) =
     result_bind (public_address nl s) (\<lambda>ip. result_bind (public_addresses nl ss) (\<lambda>ips. Inr (ip # ips)))"

record proxy_endpoint =
  ep_host :: string
  ep_resolved_ip :: string
  ep_port :: int

text \<open>The addresses are sorted as texts and the first one is used.\<close>

definition validate_proxy_endpoint :: "net_lib \<Rightarrow> string \<Rightarrow> int \<Rightarrow> route_error + proxy_endpoint" where
  "validate_proxy_endpoint nl host port =
     result_bind (normalize_proxy_host nl host) (\<lambda>h.
     result_bind (allowed_proxy_ports nl) (\<lambda>ports.
     if port \<notin> set ports then config_error ''telegram_proxy_port_blocked''
     else case nl_ip_address nl h of
       Some (ip, _) \<Rightarrow>
         result_bind (public_address nl ip) (\<lambda>a. Inr \<lparr>ep_host = h, ep_resolved_ip = a, ep_port = port\<rparr>)
     | None \<Rightarrow>
         (case nl_resolve nl h port of
            None \<Rightarrow> config_error ''telegram_proxy_dns_failed''
          | Some infos \<Rightarrow>
              result_bind (public_addresses nl infos) (\<lambda>ips.
              case sort ips of
                [] \<Rightarrow> config_error ''telegram_proxy_dns_failed''
              | a # _ \<Rightarrow> Inr \<lparr>ep_host = h, ep_resolved_ip = a, ep_port = port\<rparr>))))"

definition check_proxy_reachability :: "net_lib \<Rightarrow> proxy_endpoint \<Rightarrow> route_error + unit" where
  "check_proxy_reachability nl e =
     (if nl_connect nl (ep_resolved_ip e) (ep_port e) then Inr () else config_error ''telegram_proxy_unreachable'')"

end
