(* ===== verification/Telegram_Destinations.thy ===== *)
theory Telegram_Destinations
  imports Telegram_Routing Telegram_Intents
begin

text \<open>
  The life cycle of destinations and proxies: \<open>app/publishing/telegram/lifecycle.py\<close> and the requests of
  \<open>app/api/telegram_destinations.py\<close> around it.  A request locks its row in a session of its own, so what
  it reads is current, and an error rolls back all it did.
\<close>

record proxy_profile =
  tp_id :: uuid
  tp_name :: string
  tp_proxy_type :: string
  tp_host :: string
  tp_port :: int
  tp_username_secret_id :: "uuid option"
  tp_password_secret_id :: "uuid option"
  tp_enabled :: bool
  tp_reachability_status :: string
  tp_failure_code :: "string option"
  tp_last_checked_at :: "time option"
  tp_created_at :: time

text \<open>The columns of a stored automation graph that tell which resources it names.\<close>

record graph_version =
  gx_automation_id :: uuid
  gx_graph :: pyval

record tg_db =
  td_pub :: pub_db
  td_proxies :: "proxy_profile list"
  td_versions :: "graph_version list"
  td_secrets :: secret_db

record tg_env =
  te_env :: env
  te_secret :: secret_env
  te_ring :: "key_ring option"
  te_principal :: principal
  te_net :: net_lib
  te_nonce :: "nat \<Rightarrow> string" \<comment> \<open>\<open>secrets.token_bytes\<close>, counted with the drawn identifiers\<close>

datatype tg_error =
    Tg_Route route_error
  | Tg_Secret secret_error
  | Tg_Integrity string
  | Tg_Dependencies string "nat list"
  | Tg_Refused job_error
  | Tg_Not_Found string

definition tg_config :: "string \<Rightarrow> tg_error + 'a" where
  "tg_config code = Inl (Tg_Route (TelegramConfigurationError code))"

section \<open>Rows\<close>

definition get_destination :: "uuid \<Rightarrow> tg_db \<Rightarrow> destination option" where
  "get_destination i x = find (\<lambda>d. de_id d = i \<and> de_platform d = ''telegram'') (pu_destinations (td_pub x))"

definition get_proxy :: "uuid \<Rightarrow> tg_db \<Rightarrow> proxy_profile option" where
  "get_proxy i x = find (\<lambda>p. tp_id p = i) (td_proxies x)"

definition tg_secret :: "uuid option \<Rightarrow> tg_db \<Rightarrow> encrypted_secret option" where
  "tg_secret i x = (case i of None \<Rightarrow> None | Some k \<Rightarrow> find_secret k (td_secrets x))"

definition on_pub :: "(pub_db \<Rightarrow> pub_db) \<Rightarrow> tg_db \<Rightarrow> tg_db" where
  "on_pub f x = x\<lparr>td_pub := f (td_pub x)\<rparr>"

definition on_destinations :: "(destination list \<Rightarrow> destination list) \<Rightarrow> tg_db \<Rightarrow> tg_db" where
  "on_destinations f = on_pub (\<lambda>y. y\<lparr>pu_destinations := f (pu_destinations y)\<rparr>)"

definition on_secrets :: "(secret_db \<Rightarrow> secret_db) \<Rightarrow> tg_db \<Rightarrow> tg_db" where
  "on_secrets f x = x\<lparr>td_secrets := f (td_secrets x)\<rparr>"

definition put_destination :: "uuid \<Rightarrow> (destination \<Rightarrow> destination) \<Rightarrow> tg_db \<Rightarrow> tg_db" where
  "put_destination i f = on_destinations (set_rows (\<lambda>d. de_id d = i) f)"

definition put_proxy :: "uuid \<Rightarrow> (proxy_profile \<Rightarrow> proxy_profile) \<Rightarrow> tg_db \<Rightarrow> tg_db" where
  "put_proxy i f x = x\<lparr>td_proxies := set_rows (\<lambda>p. tp_id p = i) f (td_proxies x)\<rparr>"

text \<open>\<open>uuid4()\<close>, and with it the nonce of a secret.\<close>

definition tg_uuid :: "tg_env \<Rightarrow> tg_db \<Rightarrow> uuid" where
  "tg_uuid te x = env_uuid (te_env te) (db_seq (pu_db (td_pub x)))"

definition tg_nonce :: "tg_env \<Rightarrow> tg_db \<Rightarrow> string" where
  "tg_nonce te x = te_nonce te (db_seq (pu_db (td_pub x)))"

definition drawn :: "tg_db \<Rightarrow> tg_db" where
  "drawn = on_pub (on_db (\<lambda>d. d\<lparr>db_seq := Suc (db_seq d)\<rparr>))"

text \<open>The unique constraints of a destination against the other rows, and its references.\<close>

definition destination_conflict :: "destination \<Rightarrow> tg_db \<Rightarrow> bool" where
  "destination_conflict d x \<longleftrightarrow>
     list_ex (\<lambda>e. de_id e \<noteq> de_id d \<and>
       ((de_platform e = de_platform d \<and>
         (de_target_ref e = de_target_ref d \<or> (de_canonical_target d \<noteq> None \<and> de_canonical_target e = de_canonical_target d))) \<or>
        (de_secret_id d \<noteq> None \<and> de_secret_id e = de_secret_id d)))
       (pu_destinations (td_pub x))"

definition flushed_destination :: "destination \<Rightarrow> tg_db \<Rightarrow> tg_error + tg_db" where
  "flushed_destination d x =
     (if destination_conflict d x then Inl (Tg_Integrity ''uq_destination'')
      else Inr (put_destination (de_id d) (\<lambda>_. d) x))"

definition proxy_conflict :: "proxy_profile \<Rightarrow> tg_db \<Rightarrow> bool" where
  "proxy_conflict p x \<longleftrightarrow>
     list_ex (\<lambda>q. tp_id q \<noteq> tp_id p \<and>
       (tp_name q = tp_name p \<or>
        (tp_username_secret_id p \<noteq> None \<and> tp_username_secret_id q = tp_username_secret_id p) \<or>
        (tp_password_secret_id p \<noteq> None \<and> tp_password_secret_id q = tp_password_secret_id p)))
       (td_proxies x)"

definition flushed_proxy :: "proxy_profile \<Rightarrow> tg_db \<Rightarrow> tg_error + tg_db" where
  "flushed_proxy p x =
     (if proxy_conflict p x then Inl (Tg_Integrity ''uq_telegram_proxy'') else Inr (put_proxy (tp_id p) (\<lambda>_. p) x))"

section \<open>Secrets\<close>

text \<open>\<open>_store().create\<close> with the flush of the new row; a rejection leaves nothing, as the request rolls back.\<close>

definition new_secret :: "tg_env \<Rightarrow> string \<Rightarrow> string \<Rightarrow> uuid \<Rightarrow> string \<Rightarrow> tg_db \<Rightarrow> tg_error + encrypted_secret \<times> tg_db" where
  "new_secret te purpose owner_type owner value x =
     (case te_ring te of
        None \<Rightarrow> tg_config ''secret_store_unavailable''
      | Some ring \<Rightarrow>
          (case create_secret (te_secret te) ring (tg_uuid te x) (tg_nonce te x) purpose owner_type owner value
                  (te_principal te) ''destinations:write'' (env_now (te_env te)) (td_secrets x) of
             (Inl e, _) \<Rightarrow> Inl (Tg_Secret e)
           | (Inr s, sx) \<Rightarrow>
               if find_secret (sk_id s) (td_secrets x) \<noteq> None \<or>
                  list_ex (\<lambda>q. sk_owner_type q = owner_type \<and> sk_owner_id q = owner \<and> sk_purpose q = purpose)
                    (sx_secrets (td_secrets x))
               then Inl (Tg_Integrity ''uq_encrypted_secret_owner_purpose'')
               else Inr (s, drawn (on_secrets (\<lambda>_. sx) x))))"

definition rotated_secret :: "tg_env \<Rightarrow> encrypted_secret \<Rightarrow> string \<Rightarrow> tg_db \<Rightarrow> tg_error + encrypted_secret \<times> tg_db" where
  "rotated_secret te s value x =
     (case te_ring te of
        None \<Rightarrow> tg_config ''secret_store_unavailable''
      | Some ring \<Rightarrow>
          (case rotate_secret (te_secret te) ring (tg_nonce te x) s value (te_principal te) ''destinations:write''
                  (env_now (te_env te)) (td_secrets x) of
             (Inl e, _) \<Rightarrow> Inl (Tg_Secret e)
           | (Inr s1, sx) \<Rightarrow> Inr (s1, drawn (on_secrets (\<lambda>_. sx) x))))"

text \<open>The deletion of a secret that another row still names is refused by its foreign key.\<close>

definition secret_in_use :: "uuid \<Rightarrow> tg_db \<Rightarrow> bool" where
  "secret_in_use i x \<longleftrightarrow>
     list_ex (\<lambda>d. de_secret_id d = Some i) (pu_destinations (td_pub x)) \<or>
     list_ex (\<lambda>p. tp_username_secret_id p = Some i \<or> tp_password_secret_id p = Some i) (td_proxies x)"

fun delete_secrets :: "uuid option list \<Rightarrow> tg_db \<Rightarrow> tg_error + tg_db" where
  "delete_secrets [] x = Inr x"
| "delete_secrets (None # is) x = delete_secrets is x"
| "delete_secrets (Some i # is) x =
     (if find_secret i (td_secrets x) = None then delete_secrets is x
      else if secret_in_use i x then Inl (Tg_Integrity ''encrypted_secrets'')
      else delete_secrets is (on_secrets (\<lambda>sx. sx\<lparr>sx_secrets := filter (\<lambda>s. sk_id s \<noteq> i) (sx_secrets sx)\<rparr>) x))"

section \<open>Destinations\<close>

fun legacy_conflict :: "net_lib \<Rightarrow> string \<Rightarrow> uuid option \<Rightarrow> destination list \<Rightarrow> tg_error + unit" where
  "legacy_conflict nl canonical exclude [] = Inr ()"
| "legacy_conflict nl canonical exclude (d # ds) =
     (if Some (de_id d) = exclude then legacy_conflict nl canonical exclude ds
      else case normalize_telegram_target nl (de_target_ref d) of
        Inl (TelegramConfigurationError _) \<Rightarrow> legacy_conflict nl canonical exclude ds
      | Inl e \<Rightarrow> Inl (Tg_Route e)
      | Inr (v, _) \<Rightarrow> if v = canonical then tg_config ''telegram_destination_target_conflict''
                       else legacy_conflict nl canonical exclude ds)"

definition ensure_unique_target :: "net_lib \<Rightarrow> string \<Rightarrow> uuid option \<Rightarrow> tg_db \<Rightarrow> tg_error + unit" where
  "ensure_unique_target nl canonical exclude x =
     (let ds = filter (\<lambda>d. de_platform d = ''telegram'') (pu_destinations (td_pub x)) in
      if list_ex (\<lambda>d. de_canonical_target d = Some canonical \<and> Some (de_id d) \<noteq> exclude) ds
      then tg_config ''telegram_destination_target_conflict''
      else legacy_conflict nl canonical exclude (filter (\<lambda>d. de_canonical_target d = None) ds))"

definition proxy_or_error :: "uuid option \<Rightarrow> tg_db \<Rightarrow> tg_error + unit" where
  "proxy_or_error i x =
     (case i of None \<Rightarrow> Inr ()
      | Some k \<Rightarrow>
          (case get_proxy k x of
             None \<Rightarrow> tg_config ''telegram_proxy_not_found''
           | Some p \<Rightarrow> if \<not> tp_enabled p \<or> tp_reachability_status p \<noteq> ''healthy'' then tg_config ''telegram_proxy_not_ready''
                       else Inr ()))"

definition unchecked_route :: "uuid option \<Rightarrow> string" where
  "unchecked_route proxy = (if proxy = None then ''direct'' else ''unchecked'')"

definition reset_destination :: "destination \<Rightarrow> destination" where
  "reset_destination d =
     d\<lparr>de_enabled := False, de_health_status := ''unknown'',
       de_proxy_health_status := unchecked_route (de_proxy_profile_id d), de_telegram_health_status := ''unchecked'',
       de_bot_health_status := ''unchecked'', de_target_health_status := ''unchecked'', de_administrator_status := ''unchecked'',
       de_failure_code := None, de_last_health_check_at := None, de_verified_bot_id := None, de_verified_bot_username := None,
       de_verified_chat_id := None, de_verified_chat_title := None, de_verified_chat_type := None\<rparr>"

definition new_destination :: "tg_env \<Rightarrow> uuid \<Rightarrow> string \<Rightarrow> string \<times> string \<Rightarrow> uuid option \<Rightarrow> destination" where
  "new_destination te i name target proxy =
     \<lparr>de_id = i, de_name = name, de_platform = ''telegram'', de_target_ref = fst target,
      de_secret_ref = ''pending-encrypted-secret'', de_canonical_target = Some (fst target), de_target_type = Some (snd target),
      de_secret_id = None, de_proxy_profile_id = proxy, de_enabled = False, de_health_status = ''unknown'',
      de_last_health_check_at = None, de_proxy_health_status = unchecked_route proxy,
      de_telegram_health_status = ''unchecked'', de_bot_health_status = ''unchecked'', de_target_health_status = ''unchecked'',
      de_administrator_status = ''unchecked'', de_failure_code = None, de_verified_bot_id = None,
      de_verified_bot_username = None, de_verified_chat_id = None, de_verified_chat_title = None,
      de_verified_chat_type = None, de_ownership = ''operator_managed'', de_settings = [],
      de_created_at = env_db_now (te_env te)\<rparr>"

definition with_secret :: "encrypted_secret \<Rightarrow> destination \<Rightarrow> destination" where
  "with_secret s d = d\<lparr>de_secret_id := Some (sk_id s), de_secret_ref := ''encrypted:'' @ sk_id s\<rparr>"

definition insert_destination :: "destination \<Rightarrow> tg_db \<Rightarrow> tg_error + tg_db" where
  "insert_destination d x =
     (if find_destination (de_id d) (td_pub x) \<noteq> None \<or> destination_conflict d x then Inl (Tg_Integrity ''uq_destination'')
      else Inr (on_destinations (\<lambda>ds. ds @ [d]) x))"

definition create_destination ::
  "tg_env \<Rightarrow> string \<Rightarrow> string \<Rightarrow> string \<Rightarrow> uuid option \<Rightarrow> tg_db \<Rightarrow> tg_error + destination \<times> tg_db" where
  "create_destination te name target token proxy x =
     result_bind (map_sum Tg_Route id (normalize_telegram_target (te_net te) target)) (\<lambda>t.
     result_bind (ensure_unique_target (te_net te) (fst t) None x) (\<lambda>_.
     result_bind (proxy_or_error proxy x) (\<lambda>_.
     let i = tg_uuid te x in
     result_bind (new_secret te ''telegram_bot_token'' ''telegram_destination'' i token (drawn x)) (\<lambda>(s, x1).
     let d = with_secret s (new_destination te i name t proxy) in
     result_bind (insert_destination d x1) (\<lambda>x2. Inr (d, x2))))))"

text \<open>Absent fields are not patched; a proxy can be patched to none.\<close>

record destination_patch =
  dx_name :: "string option"
  dx_target :: "string option"
  dx_proxy_profile_id :: "uuid option option"

definition patched_target :: "tg_env \<Rightarrow> string option \<Rightarrow> destination \<Rightarrow> tg_db \<Rightarrow> tg_error + destination \<times> bool" where
  "patched_target te target d x =
     (case target of None \<Rightarrow> Inr (d, False)
      | Some raw \<Rightarrow>
          result_bind (map_sum Tg_Route id (normalize_telegram_target (te_net te) raw)) (\<lambda>t.
          result_bind (ensure_unique_target (te_net te) (fst t) (Some (de_id d)) x) (\<lambda>_.
          Inr (d\<lparr>de_target_ref := fst t, de_canonical_target := Some (fst t), de_target_type := Some (snd t)\<rparr>, True))))"

definition patched_proxy :: "uuid option option \<Rightarrow> destination \<Rightarrow> tg_db \<Rightarrow> tg_error + destination \<times> bool" where
  "patched_proxy proxy d x =
     (case proxy of None \<Rightarrow> Inr (d, False)
      | Some p \<Rightarrow>
          result_bind (proxy_or_error p x) (\<lambda>_.
          if de_proxy_profile_id d \<noteq> p then Inr (d\<lparr>de_proxy_profile_id := p\<rparr>, True) else Inr (d, False)))"

definition patch_destination ::
  "tg_env \<Rightarrow> destination \<Rightarrow> destination_patch \<Rightarrow> tg_db \<Rightarrow> tg_error + destination \<times> tg_db" where
  "patch_destination te d b x =
     (let d1 = (case dx_name b of None \<Rightarrow> d | Some n \<Rightarrow> d\<lparr>de_name := strip n\<rparr>) in
      result_bind (patched_target te (dx_target b) d1 x) (\<lambda>(d2, c2).
      result_bind (patched_proxy (dx_proxy_profile_id b) d2 x) (\<lambda>(d3, c3).
      let d4 = (if c2 \<or> c3 then reset_destination d3 else d3) in
      result_bind (flushed_destination d4 x) (\<lambda>x1. Inr (d4, x1)))))"

definition rotate_destination_token ::
  "tg_env \<Rightarrow> destination \<Rightarrow> string \<Rightarrow> tg_db \<Rightarrow> tg_error + destination \<times> tg_db" where
  "rotate_destination_token te d value x =
     result_bind
       (case de_secret_id d of
          None \<Rightarrow> result_bind (new_secret te ''telegram_bot_token'' ''telegram_destination'' (de_id d) value x)
                    (\<lambda>(s, x1). Inr (with_secret s d, x1))
        | Some i \<Rightarrow>
            (case find_secret i (td_secrets x) of
               None \<Rightarrow> tg_config ''secret_store_unavailable''
             | Some s \<Rightarrow> result_bind (rotated_secret te s value x) (\<lambda>(_, x1). Inr (d, x1))))
       (\<lambda>(d1, x1).
        let d2 = reset_destination d1 in result_bind (flushed_destination d2 x1) (\<lambda>x2. Inr (d2, x2)))"

definition destination_ready :: "destination \<Rightarrow> bool" where
  "destination_ready d \<longleftrightarrow>
     de_secret_id d \<noteq> None \<and> de_health_status d = ''healthy'' \<and> de_proxy_health_status d \<in> {''direct'', ''healthy''} \<and>
     de_telegram_health_status d = ''healthy'' \<and> de_bot_health_status d = ''healthy'' \<and>
     de_target_health_status d = ''healthy'' \<and> de_administrator_status d = ''administrator''"

definition enable_destination :: "destination \<Rightarrow> tg_error + destination" where
  "enable_destination d =
     (if \<not> destination_ready d then tg_config ''telegram_destination_not_ready'' else Inr (d\<lparr>de_enabled := True\<rparr>))"

definition disable_destination :: "destination \<Rightarrow> destination" where
  "disable_destination d = d\<lparr>de_enabled := False\<rparr>"

section \<open>Dependencies\<close>

text \<open>The JSON path \<open>$.nodes[*].config.**\<close> filtered for one text.\<close>

fun mentions :: "string \<Rightarrow> pyval \<Rightarrow> bool" where
  "mentions i (PStr s) = (s = i)"
| "mentions i (PList vs) = list_ex (mentions i) vs"
| "mentions i (PDict d) = list_ex (\<lambda>(k, v). mentions i v) d"
| "mentions i _ = False"

fun node_configs :: "pyval \<Rightarrow> pyval list" where
  "node_configs (PDict g) =
     (case dict_get g ''nodes'' of
        Some (PList ns) \<Rightarrow> concat (map (\<lambda>n. case dict_get (dict_of n) ''config'' of None \<Rightarrow> [] | Some c \<Rightarrow> [c]) ns)
      | _ \<Rightarrow> [])"
| "node_configs _ = []"

definition count_automation_definitions_referencing :: "uuid \<Rightarrow> tg_db \<Rightarrow> nat" where
  "count_automation_definitions_referencing i x =
     length (remdups (map gx_automation_id
       (filter (\<lambda>v. list_ex (mentions i) (node_configs (gx_graph v))) (td_versions x))))"

definition job_active :: "workflow_job \<Rightarrow> bool" where
  "job_active j \<longleftrightarrow> wj_status j \<in> {QUEUED, RUNNING}"

record destination_dependencies =
  dd_automations :: nat
  dd_publish_jobs :: nat
  dd_publications :: nat
  dd_active_jobs :: nat

definition destination_dependencies :: "uuid \<Rightarrow> tg_db \<Rightarrow> destination_dependencies" where
  "destination_dependencies i x =
     (let y = td_pub x; jobs = db_jobs (pu_db y); publish = filter (\<lambda>p. pj_destination_id p = i) (db_publish_jobs (pu_db y)) in
      \<lparr>dd_automations = length (filter (\<lambda>r. rt_destination_id r = i) (pu_routes y)) + count_automation_definitions_referencing i x,
       dd_publish_jobs = length publish,
       dd_publications = length (filter (\<lambda>p. pn_destination_id p = i) (pu_publications y)),
       dd_active_jobs =
         length (filter (\<lambda>j. wj_job_type j = ''telegram.destination.check'' \<and> job_active j \<and>
                   dict_get (wj_payload j) ''destination_id'' = Some (PStr i)) jobs) +
         length (filter (\<lambda>(j, p). pj_workflow_job_id p = Some (wj_id j) \<and> job_active j) (List.product jobs publish))\<rparr>)"

definition dependency_counts :: "destination_dependencies \<Rightarrow> nat list" where
  "dependency_counts dd = [dd_automations dd, dd_publish_jobs dd, dd_publications dd, dd_active_jobs dd]"

definition delete_destination :: "destination \<Rightarrow> tg_db \<Rightarrow> tg_error + tg_db" where
  "delete_destination d x =
     (let counts = dependency_counts (destination_dependencies (de_id d) x) in
      if list_ex (\<lambda>n. n \<noteq> 0) counts then Inl (Tg_Dependencies ''telegram_destination_has_dependencies'' counts)
      else delete_secrets [de_secret_id d] (on_destinations (filter (\<lambda>e. de_id e \<noteq> de_id d)) x))"

end
