(* ===== verification/Telegram_Proxies.thy ===== *)
theory Telegram_Proxies
  imports Telegram_Destinations
begin

text \<open>
  The life cycle of proxies in \<open>lifecycle.py\<close> and the requests of \<open>app/api/telegram_destinations.py\<close>: each
  locks its row, changes it through the service, marks it as being checked and enqueues the check.
\<close>

section \<open>Proxies\<close>

definition checked_port :: "net_lib \<Rightarrow> int \<Rightarrow> tg_error + unit" where
  "checked_port nl port =
     result_bind (map_sum Tg_Route id (allowed_proxy_ports nl)) (\<lambda>ports.
     if port \<notin> set ports then tg_config ''telegram_proxy_port_blocked'' else Inr ())"

definition checked_host :: "net_lib \<Rightarrow> string \<Rightarrow> tg_error + string" where
  "checked_host nl host = map_sum Tg_Route id (normalize_proxy_host nl host)"

definition proxy_secret :: "tg_env \<Rightarrow> uuid \<Rightarrow> string \<Rightarrow> string \<Rightarrow> tg_db \<Rightarrow> tg_error + encrypted_secret \<times> tg_db" where
  "proxy_secret te i purpose value x = new_secret te purpose ''telegram_proxy_profile'' i value x"

definition proxy_secrets :: "tg_env \<Rightarrow> uuid \<Rightarrow> (string \<times> string) option \<Rightarrow> tg_db \<Rightarrow> tg_error + (uuid option \<times> uuid option) \<times> tg_db" where
  "proxy_secrets te i credentials x =
     (case credentials of None \<Rightarrow> Inr ((None, None), x)
      | Some (u, w) \<Rightarrow>
          result_bind (proxy_secret te i ''proxy_username'' u x) (\<lambda>(su, x1).
          result_bind (proxy_secret te i ''proxy_password'' w x1) (\<lambda>(sw, x2).
          Inr ((Some (sk_id su), Some (sk_id sw)), x2))))"

definition create_proxy ::
  "tg_env \<Rightarrow> string \<Rightarrow> string \<Rightarrow> string \<Rightarrow> int \<Rightarrow> (string \<times> string) option \<Rightarrow> tg_db \<Rightarrow> tg_error + proxy_profile \<times> tg_db" where
  "create_proxy te name proxy_type host port credentials x =
     result_bind (checked_port (te_net te) port) (\<lambda>_.
     result_bind (checked_host (te_net te) host) (\<lambda>h.
     let i = tg_uuid te x in
     result_bind (proxy_secrets te i credentials (drawn x)) (\<lambda>((u, w), x1).
     let p = \<lparr>tp_id = i, tp_name = strip name, tp_proxy_type = proxy_type, tp_host = h, tp_port = port,
              tp_username_secret_id = u, tp_password_secret_id = w, tp_enabled = False,
              tp_reachability_status = ''unchecked'', tp_failure_code = None, tp_last_checked_at = None,
              tp_created_at = env_db_now (te_env te)\<rparr> in
     if get_proxy i x1 \<noteq> None \<or> proxy_conflict p x1 then Inl (Tg_Integrity ''uq_telegram_proxy'')
     else Inr (p, x1\<lparr>td_proxies := td_proxies x1 @ [p]\<rparr>))))"

definition unchecked_proxy :: "proxy_profile \<Rightarrow> proxy_profile" where
  "unchecked_proxy p =
     p\<lparr>tp_enabled := False, tp_reachability_status := ''unchecked'', tp_failure_code := None, tp_last_checked_at := None\<rparr>"

definition invalidate_proxy_destinations :: "uuid \<Rightarrow> string \<Rightarrow> tg_db \<Rightarrow> tg_db" where
  "invalidate_proxy_destinations i code =
     on_destinations (set_rows (\<lambda>d. de_proxy_profile_id d = Some i)
       (\<lambda>d. (reset_destination d)\<lparr>de_failure_code := Some code\<rparr>))"

record proxy_patch =
  px_name :: "string option"
  px_proxy_type :: "string option"
  px_host :: "string option"
  px_port :: "int option"

text \<open>The destinations are reset before the row is flushed; a refused flush undoes both.\<close>

definition patch_proxy :: "tg_env \<Rightarrow> proxy_profile \<Rightarrow> proxy_patch \<Rightarrow> tg_db \<Rightarrow> tg_error + proxy_profile \<times> tg_db" where
  "patch_proxy te p b x =
     result_bind (case px_host b of None \<Rightarrow> Inr (tp_host p) | Some h \<Rightarrow> checked_host (te_net te) h) (\<lambda>h.
     result_bind (case px_port b of None \<Rightarrow> Inr () | Some n \<Rightarrow> checked_port (te_net te) n) (\<lambda>_.
     let p1 = p\<lparr>tp_name := (case px_name b of None \<Rightarrow> tp_name p | Some n \<Rightarrow> strip n),
                tp_proxy_type := (case px_proxy_type b of None \<Rightarrow> tp_proxy_type p | Some t \<Rightarrow> t),
                tp_host := h, tp_port := (case px_port b of None \<Rightarrow> tp_port p | Some n \<Rightarrow> n)\<rparr>;
         moved = px_proxy_type b \<noteq> None \<or> px_host b \<noteq> None \<or> px_port b \<noteq> None;
         p2 = (if moved then unchecked_proxy p1 else p1) in
     result_bind (flushed_proxy p2 x) (\<lambda>x1.
     Inr (p2, if moved then invalidate_proxy_destinations (tp_id p) ''telegram_proxy_changed'' x1 else x1))))"

definition proxy_secret_ids :: "proxy_profile \<Rightarrow> uuid option list" where
  "proxy_secret_ids p = [tp_username_secret_id p, tp_password_secret_id p]"

text \<open>The last of the profile's secrets with a purpose, as the dictionary of the code keeps it.\<close>

definition existing_secret :: "proxy_profile \<Rightarrow> string \<Rightarrow> tg_db \<Rightarrow> encrypted_secret option" where
  "existing_secret p purpose x =
     find (\<lambda>s. sk_purpose s = purpose)
       (concat (map (\<lambda>i. case tg_secret i x of None \<Rightarrow> [] | Some s \<Rightarrow> [s]) (rev (proxy_secret_ids p))))"

definition replaced_secret ::
  "tg_env \<Rightarrow> proxy_profile \<Rightarrow> encrypted_secret option \<Rightarrow> string \<Rightarrow> string \<Rightarrow> tg_db \<Rightarrow> tg_error + uuid \<times> tg_db" where
  "replaced_secret te p current purpose value x =
     (case current of
        None \<Rightarrow> result_bind (proxy_secret te (tp_id p) purpose value x) (\<lambda>(s, x1). Inr (sk_id s, x1))
      | Some s \<Rightarrow> result_bind (rotated_secret te s value x) (\<lambda>(s1, x1). Inr (sk_id s1, x1)))"

definition rotate_proxy_credentials ::
  "tg_env \<Rightarrow> proxy_profile \<Rightarrow> (string \<times> string) option \<Rightarrow> tg_db \<Rightarrow> tg_error + proxy_profile \<times> tg_db" where
  "rotate_proxy_credentials te p credentials x =
     result_bind
       (case credentials of
          None \<Rightarrow>
            let p1 = p\<lparr>tp_username_secret_id := None, tp_password_secret_id := None\<rparr> in
            result_bind (flushed_proxy p1 x) (\<lambda>x1.
            result_bind (delete_secrets (proxy_secret_ids p) x1) (\<lambda>x2. Inr (p1, x2)))
        | Some (u, w) \<Rightarrow>
            result_bind (replaced_secret te p (existing_secret p ''proxy_username'' x) ''proxy_username'' u x) (\<lambda>(iu, x1).
            result_bind (replaced_secret te p (existing_secret p ''proxy_password'' x) ''proxy_password'' w x1) (\<lambda>(iw, x2).
            Inr (p\<lparr>tp_username_secret_id := Some iu, tp_password_secret_id := Some iw\<rparr>, x2))))
       (\<lambda>(p1, x1).
        let p2 = unchecked_proxy p1 in
        result_bind (flushed_proxy p2 x1) (\<lambda>x2.
        Inr (p2, invalidate_proxy_destinations (tp_id p) ''telegram_proxy_credentials_rotated'' x2)))"

definition enable_proxy :: "proxy_profile \<Rightarrow> tg_error + proxy_profile" where
  "enable_proxy p =
     (if tp_reachability_status p \<noteq> ''healthy'' then tg_config ''telegram_proxy_not_ready'' else Inr (p\<lparr>tp_enabled := True\<rparr>))"

definition disable_proxy :: "proxy_profile \<Rightarrow> tg_db \<Rightarrow> tg_db" where
  "disable_proxy p x =
     invalidate_proxy_destinations (tp_id p) ''telegram_proxy_disabled'' (put_proxy (tp_id p) (\<lambda>q. q\<lparr>tp_enabled := False\<rparr>) x)"

definition proxy_dependencies :: "uuid \<Rightarrow> tg_db \<Rightarrow> nat" where
  "proxy_dependencies i x = length (filter (\<lambda>d. de_proxy_profile_id d = Some i) (pu_destinations (td_pub x)))"

definition delete_proxy :: "proxy_profile \<Rightarrow> tg_db \<Rightarrow> tg_error + tg_db" where
  "delete_proxy p x =
     (let n = proxy_dependencies (tp_id p) x in
      if n > 0 then Inl (Tg_Dependencies ''telegram_proxy_has_dependencies'' [n])
      else delete_secrets (proxy_secret_ids p) (x\<lparr>td_proxies := filter (\<lambda>q. tp_id q \<noteq> tp_id p) (td_proxies x)\<rparr>))"

section \<open>Requests\<close>

definition locked_destination :: "uuid \<Rightarrow> tg_db \<Rightarrow> tg_error + destination" where
  "locked_destination i x =
     (case get_destination i x of None \<Rightarrow> Inl (Tg_Not_Found ''telegram_destination_not_found'') | Some d \<Rightarrow> Inr d)"

definition locked_proxy :: "uuid \<Rightarrow> tg_db \<Rightarrow> tg_error + proxy_profile" where
  "locked_proxy i x =
     (case get_proxy i x of None \<Rightarrow> Inl (Tg_Not_Found ''telegram_proxy_not_found'') | Some p \<Rightarrow> Inr p)"

text \<open>\<open>_service\<close> with \<open>needs_key\<close>: no key ring, no request.\<close>

definition require_key :: "tg_env \<Rightarrow> tg_error + unit" where
  "require_key te = (if te_ring te = None then tg_config ''secret_store_unavailable'' else Inr ())"

definition mark_destination_checking :: "bool \<Rightarrow> destination \<Rightarrow> destination" where
  "mark_destination_checking reset_outcome d =
     (if reset_outcome then d\<lparr>de_health_status := ''unknown'', de_failure_code := None\<rparr> else d)
       \<lparr>de_telegram_health_status := ''checking'', de_bot_health_status := ''checking'', de_target_health_status := ''checking'',
        de_administrator_status := ''checking'',
        de_proxy_health_status := (if de_proxy_profile_id d = None then ''direct'' else ''checking'')\<rparr>"

definition check_request :: "tg_env \<Rightarrow> string \<Rightarrow> string \<Rightarrow> uuid \<Rightarrow> tg_db \<Rightarrow> enqueue_request" where
  "check_request te job_type key i x =
     \<lparr>eq_job_type = job_type, eq_payload = [(KStr key, PStr i)],
      eq_idempotency_key = job_type @ '':'' @ i @ '':'' @ tg_uuid te x, eq_origin = MANUAL, eq_priority = 0,
      eq_scheduled_for = None, eq_max_attempts = 3, eq_pause_sensitive = False, eq_automation_run_id = None,
      eq_automation_node_run_id = None\<rparr>"

definition enqueue_check :: "tg_env \<Rightarrow> string \<Rightarrow> string \<Rightarrow> uuid \<Rightarrow> tg_db \<Rightarrow> tg_error + workflow_job \<times> tg_db" where
  "enqueue_check te job_type key i x =
     (let x1 = drawn x in
      case enqueue_job (te_env te) (check_request te job_type key i x) (pu_db (td_pub x1)) of
        Inl e \<Rightarrow> Inl (Tg_Refused e)
      | Inr ((j, created), dd) \<Rightarrow> Inr (j, on_pub (\<lambda>y. y\<lparr>pu_db := dd\<rparr>) x1))"

definition check_destination :: "tg_env \<Rightarrow> bool \<Rightarrow> uuid \<Rightarrow> tg_db \<Rightarrow> tg_error + workflow_job \<times> tg_db" where
  "check_destination te reset_outcome i x =
     enqueue_check te ''telegram.destination.check'' ''destination_id'' i
       (put_destination i (mark_destination_checking reset_outcome) x)"

definition check_proxy :: "tg_env \<Rightarrow> (proxy_profile \<Rightarrow> proxy_profile) \<Rightarrow> uuid \<Rightarrow> tg_db \<Rightarrow> tg_error + workflow_job \<times> tg_db" where
  "check_proxy te f i x =
     enqueue_check te ''telegram.proxy.check'' ''proxy_id'' i
       (put_proxy i (\<lambda>p. (f p)\<lparr>tp_reachability_status := ''checking''\<rparr>) x)"

datatype tg_request =
    Create_Destination string string string "uuid option"
  | Patch_Destination uuid destination_patch
  | Rotate_Token uuid string
  | Recheck_Destination uuid
  | Enable_Destination uuid
  | Disable_Destination uuid
  | Delete_Destination uuid
  | Create_Proxy string string string int "(string \<times> string) option"
  | Patch_Proxy uuid proxy_patch
  | Rotate_Credentials uuid "(string \<times> string) option"
  | Recheck_Proxy uuid
  | Enable_Proxy uuid
  | Disable_Proxy uuid
  | Delete_Proxy uuid

text \<open>Each equation is one request handler; its answer is the check's job, where it enqueues one.\<close>

fun tg_handle :: "tg_env \<Rightarrow> tg_request \<Rightarrow> tg_db \<Rightarrow> tg_error + workflow_job option \<times> tg_db" where
  "tg_handle te (Create_Destination name target token proxy) x =
     result_bind (require_key te) (\<lambda>_.
     result_bind (create_destination te name target token proxy x) (\<lambda>(d, x1).
     result_bind (check_destination te False (de_id d) x1) (\<lambda>(j, x2). Inr (Some j, x2))))"
| "tg_handle te (Patch_Destination i b) x =
     result_bind (locked_destination i x) (\<lambda>d.
     result_bind (patch_destination te d b x) (\<lambda>(_, x1).
     result_bind (check_destination te False i x1) (\<lambda>(j, x2). Inr (Some j, x2))))"
| "tg_handle te (Rotate_Token i value) x =
     result_bind (require_key te) (\<lambda>_.
     result_bind (locked_destination i x) (\<lambda>d.
     result_bind (rotate_destination_token te d value x) (\<lambda>(_, x1).
     result_bind (check_destination te False i x1) (\<lambda>(j, x2). Inr (Some j, x2)))))"
| "tg_handle te (Recheck_Destination i) x =
     result_bind (locked_destination i x) (\<lambda>_.
     result_bind (check_destination te True i x) (\<lambda>(j, x2). Inr (Some j, x2)))"
| "tg_handle te (Enable_Destination i) x =
     result_bind (locked_destination i x) (\<lambda>d.
     result_bind (enable_destination d) (\<lambda>d1. Inr (None, put_destination i (\<lambda>_. d1) x)))"
| "tg_handle te (Disable_Destination i) x =
     result_bind (locked_destination i x) (\<lambda>d. Inr (None, put_destination i (\<lambda>_. disable_destination d) x))"
| "tg_handle te (Delete_Destination i) x =
     result_bind (locked_destination i x) (\<lambda>d.
     result_bind (delete_destination d x) (\<lambda>x1. Inr (None, x1)))"
| "tg_handle te (Create_Proxy name proxy_type host port credentials) x =
     result_bind (if credentials = None then Inr () else require_key te) (\<lambda>_.
     result_bind (create_proxy te name proxy_type host port credentials x) (\<lambda>(p, x1).
     result_bind (check_proxy te id (tp_id p) x1) (\<lambda>(j, x2). Inr (Some j, x2))))"
| "tg_handle te (Patch_Proxy i b) x =
     result_bind (locked_proxy i x) (\<lambda>p.
     result_bind (patch_proxy te p b x) (\<lambda>(_, x1).
     result_bind (check_proxy te id i x1) (\<lambda>(j, x2). Inr (Some j, x2))))"
| "tg_handle te (Rotate_Credentials i credentials) x =
     result_bind (if credentials = None then Inr () else require_key te) (\<lambda>_.
     result_bind (locked_proxy i x) (\<lambda>p.
     result_bind (rotate_proxy_credentials te p credentials x) (\<lambda>(_, x1).
     result_bind (check_proxy te id i x1) (\<lambda>(j, x2). Inr (Some j, x2)))))"
| "tg_handle te (Recheck_Proxy i) x =
     result_bind (locked_proxy i x) (\<lambda>_.
     result_bind (check_proxy te (\<lambda>p. p\<lparr>tp_failure_code := None\<rparr>) i x) (\<lambda>(j, x2). Inr (Some j, x2)))"
| "tg_handle te (Enable_Proxy i) x =
     result_bind (locked_proxy i x) (\<lambda>p.
     result_bind (enable_proxy p) (\<lambda>p1. Inr (None, put_proxy i (\<lambda>_. p1) x)))"
| "tg_handle te (Disable_Proxy i) x =
     result_bind (locked_proxy i x) (\<lambda>p. Inr (None, disable_proxy p x))"
| "tg_handle te (Delete_Proxy i) x =
     result_bind (locked_proxy i x) (\<lambda>p. result_bind (delete_proxy p x) (\<lambda>x1. Inr (None, x1)))"

text \<open>
  How an error is answered: a status and a code, or none when no handler of the request takes it.  The
  flags say which code a refused constraint has and whether value and secret errors are taken.
\<close>

definition error_code :: "tg_error \<Rightarrow> string" where
  "error_code e = (case e of Tg_Route (TelegramConfigurationError c) \<Rightarrow> c | _ \<Rightarrow> ''telegram_configuration_invalid'')"

definition http_error :: "tg_error \<Rightarrow> int \<times> string" where
  "http_error e =
     (let code = error_code e in
      (if code \<in> {''secret_store_unavailable'', ''telegram_credential_unavailable''} then 503
       else if ends_with ''_conflict'' code \<or> ends_with ''_not_ready'' code \<or> ends_with ''_disabled'' code then 409 else 422,
       code))"

fun answered_error :: "string option \<Rightarrow> bool \<Rightarrow> tg_error \<Rightarrow> (int \<times> string) option" where
  "answered_error conflict_code values (Tg_Integrity _) = map_option (Pair 409) conflict_code"
| "answered_error conflict_code values (Tg_Dependencies code _) = Some (409, code)"
| "answered_error conflict_code values (Tg_Not_Found code) = Some (404, code)"
| "answered_error conflict_code values (Tg_Refused _) = None"
| "answered_error conflict_code values (Tg_Route (TelegramConfigurationError c)) =
     Some (http_error (Tg_Route (TelegramConfigurationError c)))"
| "answered_error conflict_code values e = (if values then Some (http_error e) else None)"

fun request_answer :: "tg_request \<Rightarrow> tg_error \<Rightarrow> (int \<times> string) option" where
  "request_answer (Create_Destination _ _ _ _) = answered_error (Some ''telegram_destination_conflict'') True"
| "request_answer (Patch_Destination _ _) = answered_error (Some ''telegram_destination_conflict'') False"
| "request_answer (Rotate_Token _ _) = answered_error None True"
| "request_answer (Create_Proxy _ _ _ _ _) = answered_error (Some ''telegram_proxy_name_conflict'') True"
| "request_answer (Patch_Proxy _ _) = answered_error (Some ''telegram_proxy_name_conflict'') False"
| "request_answer (Rotate_Credentials _ _) = answered_error None True"
| "request_answer _ = answered_error None False"

end
