(* ===== verification/Telegram_Checks.thy ===== *)
theory Telegram_Checks
  imports Telegram_Proxies Telegram_Publish
begin

text \<open>
  The health checks of \<open>app/publishing/telegram/handlers.py\<close> with the client methods they call and the
  route resolver of \<open>routing.py\<close>.  A check commits between loading its row, asking Telegram and filing the
  verdict, so other transactions run in between.  The probe's own reads are taken at one moment.
\<close>

section \<open>The client's checks\<close>

datatype check_failure =
    Check_Send send_error
  | Check_Route route_error

definition check_answer :: "client_env \<Rightarrow> string \<Rightarrow> string \<Rightarrow> string \<Rightarrow> http_answer \<Rightarrow> send_error + pydict" where
  "check_answer ce token unclear rejected ans =
     (case ans of
        Connect_Failed \<Rightarrow> Inl (Client_Error (TelegramRetryableBeforeDispatch ''Telegram connection failed before dispatch''
            (safe_metadata ce token None [(KStr ''description'', PStr ''telegram_connect_failed'')])))
      | Transport_Failed \<Rightarrow> Inl (Client_Error (TelegramAmbiguousError ''Telegram response failed after dispatch''
            (safe_metadata ce token None [(KStr ''description'', PStr ''telegram_transport_failed'')])))
      | Http_Raised \<Rightarrow> Inl Other_Error
      | Http_Answer status payload \<Rightarrow>
          (let md = safe_metadata ce token (Some status) (payload_dict payload); body = payload_dict payload in
           if rate_limited status payload then Inl (Client_Error (TelegramRateLimited (retry_after body) md))
           else if status \<ge> 500 \<or> bot_server_error payload \<or> \<not> (case payload of Some v \<Rightarrow> is_dict v | None \<Rightarrow> False)
           then Inl (Client_Error (TelegramAmbiguousError unclear md))
           else if status \<ge> 400 \<or> dict_get body ''ok'' \<noteq> Some (PBool True)
           then Inl (Client_Error (TelegramPermanentError rejected md))
           else case get_or body ''result'' PNone of
             PDict r \<Rightarrow> Inr r
           | _ \<Rightarrow> Inl (Client_Error (TelegramAmbiguousError unclear md))))"

definition method_request :: "client_env \<Rightarrow> string \<Rightarrow> string \<Rightarrow> pydict \<Rightarrow> http_request" where
  "method_request ce token m args = \<lparr>hq_url = ce_base_url ce @ ''/bot'' @ token @ ''/'' @ m, hq_fields = args, hq_files = []\<rparr>"

definition check_method ::
  "client_env \<Rightarrow> (http_request \<Rightarrow> http_answer) \<Rightarrow> string \<Rightarrow> string \<Rightarrow> pydict \<Rightarrow> send_error + pydict" where
  "check_method ce http m token args =
     check_answer ce token ''Telegram returned an invalid health response'' ''Telegram rejected the health check''
       (http (method_request ce token m args))"

definition ambiguous :: "string \<Rightarrow> send_error + 'a" where
  "ambiguous m = Inl (Client_Error (TelegramAmbiguousError m []))"

definition get_me :: "client_env \<Rightarrow> (http_request \<Rightarrow> http_answer) \<Rightarrow> string \<Rightarrow> send_error + pydict" where
  "get_me ce http token =
     result_bind (check_method ce http ''getMe'' token []) (\<lambda>r.
     case (get_or r ''id'' PNone, get_or r ''username'' PNone) of
       (PInt n, PStr u) \<Rightarrow>
         if n \<le> 0 \<or> u = [] \<or> dict_get r ''is_bot'' \<noteq> Some (PBool True) then ambiguous ''Telegram returned an invalid bot identity''
         else Inr (redact_with (ce_redact ce token) [(KStr ''id'', PInt n), (KStr ''username'', PStr u)])
     | _ \<Rightarrow> ambiguous ''Telegram returned an invalid bot identity'')"

text \<open>A list or an object is no member of a set of texts but an exception.\<close>

fun unhashable :: "pyval \<Rightarrow> bool" where
  "unhashable (PList _) = True"
| "unhashable (PDict _) = True"
| "unhashable _ = False"

definition text_in :: "pyval \<Rightarrow> string list \<Rightarrow> bool" where
  "text_in v ts \<longleftrightarrow> (case v of PStr s \<Rightarrow> s \<in> set ts | _ \<Rightarrow> False)"

definition get_chat_member ::
  "client_env \<Rightarrow> (http_request \<Rightarrow> http_answer) \<Rightarrow> string \<Rightarrow> pyval \<Rightarrow> string \<Rightarrow> send_error + pydict" where
  "get_chat_member ce http target user token =
     result_bind (check_method ce http ''getChatMember'' token [(KStr ''chat_id'', PStr target), (KStr ''user_id'', user)]) (\<lambda>r.
     let status = get_or r ''status'' PNone in
     if unhashable status then Inl Other_Error
     else if \<not> text_in status [''creator'', ''administrator'', ''member'', ''restricted'', ''left'', ''kicked'']
     then ambiguous ''Telegram returned an invalid administrator response''
     else Inr [(KStr ''status'', status), (KStr ''administrator'', PBool (text_in status [''creator'', ''administrator'']))])"

definition get_chat :: "client_env \<Rightarrow> (http_request \<Rightarrow> http_answer) \<Rightarrow> string \<Rightarrow> string \<Rightarrow> send_error + pydict" where
  "get_chat ce http target token =
     result_bind (check_answer ce token ''Telegram returned an invalid destination response''
       ''Telegram rejected the destination check''
       (http (method_request ce token ''getChat'' [(KStr ''chat_id'', PStr target)]))) (\<lambda>r.
     let chat_type = get_or r ''type'' PNone in
     case get_or r ''id'' PNone of
       PInt n \<Rightarrow>
         if n = 0 then ambiguous ''Telegram returned an invalid destination identity''
         else if unhashable chat_type then Inl Other_Error
         else if \<not> text_in chat_type [''private'', ''group'', ''supergroup'', ''channel'']
         then ambiguous ''Telegram returned an invalid destination identity''
         else Inr (redact_with (ce_redact ce token)
                (concat (map (\<lambda>k. case dict_get r k of None \<Rightarrow> [] | Some v \<Rightarrow> [(KStr k, v)])
                  [''id'', ''type'', ''username'', ''title''])))
     | _ \<Rightarrow> ambiguous ''Telegram returned an invalid destination identity'')"

section \<open>The route resolver\<close>

record check_env =
  ck_tg :: tg_env
  ck_client :: client_env
  ck_http :: "string option \<Rightarrow> http_request \<Rightarrow> http_answer" \<comment> \<open>through a proxy URL, or directly\<close>
  ck_client_ok :: "string option \<Rightarrow> bool" \<comment> \<open>the HTTP library can build a client for the proxy URL\<close>
  ck_routed :: bool \<comment> \<open>the worker has a route resolver; otherwise it has one client and the resolver below\<close>
  ck_supports_checks :: bool
  ck_resolver :: "string \<Rightarrow> pyval option"

definition route_secret :: "tg_env \<Rightarrow> uuid option \<Rightarrow> tg_db \<Rightarrow> (route_error + string) \<times> tg_db" where
  "route_secret te i x =
     (case tg_secret i x of
        None \<Rightarrow> (config_error ''telegram_credential_missing'', x)
      | Some s \<Rightarrow>
          (case te_ring te of
             None \<Rightarrow> (config_error ''secret_store_unavailable'', x)
           | Some ring \<Rightarrow>
               (case decrypt_secret (te_secret te) ring s (te_principal te) ''destinations:read'' (td_secrets x) of
                  (Inl _, sx) \<Rightarrow> (config_error ''telegram_credential_unavailable'', on_secrets (\<lambda>_. sx) x)
                | (Inr v, sx) \<Rightarrow> (Inr v, on_secrets (\<lambda>_. sx) x))))"

definition proxy_credentials ::
  "tg_env \<Rightarrow> proxy_profile \<Rightarrow> tg_db \<Rightarrow> (route_error + (string \<times> string) option) \<times> tg_db" where
  "proxy_credentials te p x =
     (case (tp_username_secret_id p, tp_password_secret_id p) of
        (None, None) \<Rightarrow> (Inr None, x)
      | (Some u, Some w) \<Rightarrow>
          (case route_secret te (Some u) x of
             (Inl e, x1) \<Rightarrow> (Inl e, x1)
           | (Inr name, x1) \<Rightarrow>
               (case route_secret te (Some w) x1 of
                  (Inl e, x2) \<Rightarrow> (Inl e, x2)
                | (Inr word, x2) \<Rightarrow> (Inr (Some (name, word)), x2)))
      | _ \<Rightarrow> (config_error ''telegram_proxy_credentials_incomplete'', x))"

text \<open>\<open>urllib.parse.quote\<close> with nothing safe beside the unreserved characters.\<close>

definition upper_hex :: "nat \<Rightarrow> char" where
  "upper_hex n = (if n < 10 then char_of (48 + n) else char_of (55 + n))"

definition quote_char :: "char \<Rightarrow> string" where
  "quote_char c =
     (if alnum_byte c \<or> c \<in> set ''_.-~'' then [c]
      else [CHR ''%'', upper_hex (of_char c div 16), upper_hex (of_char c mod 16)])"

definition proxy_address :: "proxy_profile \<Rightarrow> proxy_endpoint \<Rightarrow> (string \<times> string) option \<Rightarrow> string" where
  "proxy_address p e credentials =
     (if tp_proxy_type p = ''http_connect'' then ''http'' else ''socks5h'') @ ''://'' @
     (case credentials of None \<Rightarrow> [] | Some (u, w) \<Rightarrow> concat (map quote_char u) @ '':'' @ concat (map quote_char w) @ ''@'') @
     (if CHR '':'' \<in> set (ep_resolved_ip e) then ''['' @ ep_resolved_ip e @ '']'' else ep_resolved_ip e) @ '':'' @ int_str (ep_port e)"

definition proxy_url :: "tg_env \<Rightarrow> proxy_profile \<Rightarrow> tg_db \<Rightarrow> (route_error + string) \<times> tg_db" where
  "proxy_url te p x =
     (if \<not> tp_enabled p then (config_error ''telegram_proxy_disabled'', x)
      else case validate_proxy_endpoint (te_net te) (tp_host p) (tp_port p) of
        Inl e \<Rightarrow> (Inl e, x)
      | Inr ep \<Rightarrow>
          (case proxy_credentials te p x of
             (Inl e, x1) \<Rightarrow> (Inl e, x1)
           | (Inr c, x1) \<Rightarrow> (Inr (proxy_address p ep c), x1)))"

text \<open>\<open>client_for_destination\<close>: the proxy URL the client is built for.\<close>

definition client_route :: "check_env \<Rightarrow> uuid option \<Rightarrow> tg_db \<Rightarrow> (route_error + string option) \<times> tg_db" where
  "client_route ck proxy x =
     (let built = (\<lambda>u. if ck_client_ok ck u then Inr u else config_error ''telegram_proxy_client_initialization_failed'') in
      case proxy of
        None \<Rightarrow> (built None, x)
      | Some i \<Rightarrow>
          (case get_proxy i x of
             None \<Rightarrow> (config_error ''telegram_proxy_missing'', x)
           | Some p \<Rightarrow>
               (case proxy_url (ck_tg ck) p x of
                  (Inl e, x1) \<Rightarrow> (Inl e, x1)
                | (Inr u, x1) \<Rightarrow> (built (Some u), x1))))"

text \<open>\<open>_runtime\<close>: the route and the token.\<close>

definition check_runtime :: "check_env \<Rightarrow> destination \<Rightarrow> tg_db \<Rightarrow> (check_failure + string option \<times> string) \<times> tg_db" where
  "check_runtime ck d x =
     (if \<not> ck_routed ck
      then (map_sum Check_Send (Pair None) (resolve_destination_secret (ck_resolver ck) (de_secret_ref d)), x)
      else case route_secret (ck_tg ck) (de_secret_id d) x of
        (Inl e, x1) \<Rightarrow> (Inl (Check_Route e), x1)
      | (Inr token, x1) \<Rightarrow>
          (case client_route ck (de_proxy_profile_id d) x1 of
             (Inl e, x2) \<Rightarrow> (Inl (Check_Route e), x2)
           | (Inr u, x2) \<Rightarrow> (Inr (u, token), x2)))"

section \<open>The probe of a destination\<close>

record health_stages =
  hs_proxy :: string
  hs_telegram :: string
  hs_bot :: string
  hs_target :: string
  hs_administrator :: string

record probe =
  pb_stages :: health_stages
  pb_bot :: "pydict option"
  pb_chat :: "pydict option"
  pb_failure :: "check_failure option"

definition first_stages :: "destination \<Rightarrow> health_stages" where
  "first_stages d =
     \<lparr>hs_proxy = (if de_proxy_profile_id d = None then ''direct'' else ''checking''), hs_telegram = ''checking'',
      hs_bot = ''checking'', hs_target = ''checking'', hs_administrator = ''checking''\<rparr>"

definition failed_stages :: "health_stages \<Rightarrow> health_stages" where
  "failed_stages h =
     (if hs_proxy h = ''checking'' then
        h\<lparr>hs_proxy := ''unhealthy'', hs_telegram := ''unchecked'', hs_bot := ''unchecked'', hs_target := ''unchecked'',
          hs_administrator := ''unchecked''\<rparr>
      else if hs_telegram h = ''checking'' then
        h\<lparr>hs_telegram := ''unhealthy'', hs_bot := ''unchecked'', hs_target := ''unchecked'', hs_administrator := ''unchecked''\<rparr>
      else if hs_bot h = ''checking'' then
        h\<lparr>hs_bot := ''unhealthy'', hs_target := ''unchecked'', hs_administrator := ''unchecked''\<rparr>
      else if hs_target h = ''checking'' then h\<lparr>hs_target := ''unhealthy'', hs_administrator := ''unchecked''\<rparr>
      else if hs_administrator h = ''checking'' then h\<lparr>hs_administrator := ''not_administrator''\<rparr> else h)"

definition failed_probe :: "health_stages \<Rightarrow> pydict option \<Rightarrow> pydict option \<Rightarrow> check_failure \<Rightarrow> probe" where
  "failed_probe h me chat f = \<lparr>pb_stages = failed_stages h, pb_bot = me, pb_chat = chat, pb_failure = Some f\<rparr>"

definition check_config :: "string \<Rightarrow> check_failure" where
  "check_config code = Check_Route (TelegramConfigurationError code)"

text \<open>The proxy's own stage: reachable under the present settings.\<close>

definition probe_proxy :: "check_env \<Rightarrow> destination \<Rightarrow> health_stages \<Rightarrow> tg_db \<Rightarrow> check_failure + health_stages" where
  "probe_proxy ck d h x =
     (case de_proxy_profile_id d of
        None \<Rightarrow> Inr h
      | Some i \<Rightarrow>
          if \<not> ck_routed ck then Inr h
          else (case get_proxy i x of
             None \<Rightarrow> Inl (check_config ''telegram_proxy_not_ready'')
           | Some p \<Rightarrow>
               if \<not> tp_enabled p then Inl (check_config ''telegram_proxy_not_ready'')
               else map_sum Check_Route (\<lambda>_. h\<lparr>hs_proxy := ''healthy''\<rparr>)
                 (result_bind (validate_proxy_endpoint (te_net (ck_tg ck)) (tp_host p) (tp_port p))
                   (check_proxy_reachability (te_net (ck_tg ck))))))"

text \<open>The redaction of the bot's answer may rename its \<open>id\<close>; then \<open>bot["id"]\<close> is a \<open>KeyError\<close>.\<close>

definition probe_bot :: "check_env \<Rightarrow> destination \<Rightarrow> health_stages \<Rightarrow> string option \<Rightarrow> string \<Rightarrow> probe" where
  "probe_bot ck d h route token =
     (let ce = ck_client ck; http = ck_http ck route in
      case get_me ce http token of
        Inl e \<Rightarrow> failed_probe h None None (Check_Send e)
      | Inr me \<Rightarrow>
          (let h1 = h\<lparr>hs_telegram := ''healthy'', hs_bot := ''healthy''\<rparr> in
           case get_chat ce http (de_target_ref d) token of
             Inl e \<Rightarrow> failed_probe h1 (Some me) None (Check_Send e)
           | Inr chat \<Rightarrow>
               (let h2 = h1\<lparr>hs_target := ''healthy''\<rparr> in
                case dict_get me ''id'' of
                  None \<Rightarrow> failed_probe h2 (Some me) (Some chat) (Check_Send Other_Error)
                | Some user \<Rightarrow>
                    (case get_chat_member ce http (de_target_ref d) user token of
                       Inl e \<Rightarrow> failed_probe h2 (Some me) (Some chat) (Check_Send e)
                     | Inr member \<Rightarrow>
                         if dict_get member ''administrator'' = Some (PBool True)
                         then \<lparr>pb_stages = h2\<lparr>hs_administrator := ''administrator''\<rparr>, pb_bot = Some me, pb_chat = Some chat,
                               pb_failure = None\<rparr>
                         else failed_probe (h2\<lparr>hs_administrator := ''not_administrator''\<rparr>) (Some me) (Some chat)
                                (check_config ''telegram_bot_not_administrator'')))))"

definition probe_destination :: "check_env \<Rightarrow> destination \<Rightarrow> tg_db \<Rightarrow> probe \<times> tg_db" where
  "probe_destination ck d x =
     (case probe_proxy ck d (first_stages d) x of
        Inl f \<Rightarrow> (failed_probe (first_stages d) None None f, x)
      | Inr h \<Rightarrow>
          (case check_runtime ck d x of
             (Inl f, x1) \<Rightarrow> (failed_probe h None None f, x1)
           | (Inr (route, token), x1) \<Rightarrow>
               if \<not> ck_routed ck \<and> \<not> ck_supports_checks ck
               then (failed_probe h None None (check_config ''telegram_destination_check_unsupported_client''), x1)
               else (probe_bot ck d h route token, x1)))"

fun mapped_check_error :: "time \<Rightarrow> check_failure \<Rightarrow> handler_error" where
  "mapped_check_error now (Check_Send (Client_Error (TelegramRateLimited delay _))) =
     RetryableJobError ''telegram_destination_rate_limited'' ''Telegram destination check was rate limited''
       (Some (now + delay * 1000000))"
| "mapped_check_error now (Check_Send (Client_Error (TelegramRetryableBeforeDispatch _ _))) =
     RetryableJobError ''telegram_destination_connect_failed'' ''Telegram destination check could not connect'' None"
| "mapped_check_error now (Check_Send (Client_Error (TelegramAmbiguousError _ _))) =
     NeedsReviewJobError ''telegram_destination_check_ambiguous'' ''Telegram destination check returned an ambiguous result''"
| "mapped_check_error now (Check_Route (TelegramConfigurationError code)) =
     PermanentJobError code ''Telegram route configuration is unavailable''"
| "mapped_check_error now (Check_Send (Permanent_Error code m)) = PermanentJobError code m"
| "mapped_check_error now _ = PermanentJobError ''telegram_destination_check_failed'' ''Telegram destination check failed''"

fun handler_error_code :: "handler_error \<Rightarrow> string" where
  "handler_error_code (RetryableJobError c _ _) = c"
| "handler_error_code (NeedsReviewJobError c _) = c"
| "handler_error_code (PermanentJobError c _) = c"
| "handler_error_code OtherException = ''telegram_destination_check_failed''"

section \<open>The verdict\<close>

text \<open>
  The sessions are made with \<open>expire_on_commit=False\<close> and the second select has no \<open>populate_existing\<close>, so it
  returns the object the handler still holds, with the columns it loaded at the start; only a deleted row
  is noticed.  The flush writes the columns that differ from the loaded ones.
\<close>

definition reread :: "'a \<Rightarrow> 'a \<Rightarrow> 'a" where
  "reread loaded stored = loaded"

definition configuration :: "destination \<Rightarrow> string \<times> string \<times> uuid option \<times> uuid option" where
  "configuration d = (de_target_ref d, de_secret_ref d, de_secret_id d, de_proxy_profile_id d)"

definition flush_destination :: "destination \<Rightarrow> destination \<Rightarrow> destination \<Rightarrow> destination" where
  "flush_destination b b' r =
     r\<lparr>de_health_status := written (de_health_status b) (de_health_status b') (de_health_status r),
       de_last_health_check_at := written (de_last_health_check_at b) (de_last_health_check_at b') (de_last_health_check_at r),
       de_proxy_health_status := written (de_proxy_health_status b) (de_proxy_health_status b') (de_proxy_health_status r),
       de_telegram_health_status := written (de_telegram_health_status b) (de_telegram_health_status b') (de_telegram_health_status r),
       de_bot_health_status := written (de_bot_health_status b) (de_bot_health_status b') (de_bot_health_status r),
       de_target_health_status := written (de_target_health_status b) (de_target_health_status b') (de_target_health_status r),
       de_administrator_status := written (de_administrator_status b) (de_administrator_status b') (de_administrator_status r),
       de_failure_code := written (de_failure_code b) (de_failure_code b') (de_failure_code r),
       de_verified_bot_id := written (de_verified_bot_id b) (de_verified_bot_id b') (de_verified_bot_id r),
       de_verified_bot_username := written (de_verified_bot_username b) (de_verified_bot_username b') (de_verified_bot_username r),
       de_verified_chat_id := written (de_verified_chat_id b) (de_verified_chat_id b') (de_verified_chat_id r),
       de_verified_chat_title := written (de_verified_chat_title b) (de_verified_chat_title b') (de_verified_chat_title r),
       de_verified_chat_type := written (de_verified_chat_type b) (de_verified_chat_type b') (de_verified_chat_type r)\<rparr>"

text \<open>What Telegram says of a bot and a chat; a value of another type than its column's is left out.\<close>

fun int_of_val :: "pyval \<Rightarrow> int option" where
  "int_of_val (PInt n) = Some n"
| "int_of_val _ = None"

fun text_of_val :: "pyval \<Rightarrow> string option" where
  "text_of_val (PStr s) = Some s"
| "text_of_val _ = None"

definition verified_by :: "pydict \<Rightarrow> pydict \<Rightarrow> destination \<Rightarrow> destination" where
  "verified_by me chat d =
     d\<lparr>de_verified_bot_id := int_of_val (get_or me ''id'' PNone),
       de_verified_bot_username := text_of_val (get_or me ''username'' PNone),
       de_verified_chat_id := int_of_val (get_or chat ''id'' PNone),
       de_verified_chat_title := text_of_val (get_or chat ''title'' PNone),
       de_verified_chat_type := text_of_val (get_or chat ''type'' PNone)\<rparr>"

definition verdict :: "time \<Rightarrow> probe \<Rightarrow> handler_error option \<Rightarrow> destination \<Rightarrow> destination" where
  "verdict now pb err d =
     (let h = pb_stages pb;
          d1 = d\<lparr>de_proxy_health_status := hs_proxy h, de_telegram_health_status := hs_telegram h,
                 de_bot_health_status := hs_bot h, de_target_health_status := hs_target h,
                 de_administrator_status := hs_administrator h,
                 de_health_status := (if err = None then ''healthy'' else ''unhealthy''),
                 de_failure_code := map_option handler_error_code err, de_last_health_check_at := Some now\<rparr> in
      case (err, pb_bot pb, pb_chat pb) of (None, Some me, Some chat) \<Rightarrow> verified_by me chat d1 | _ \<Rightarrow> d1)"

definition destination_changed :: handler_error where
  "destination_changed =
     NeedsReviewJobError ''telegram_destination_changed_during_check'' ''Telegram destination changed during its health check''"

definition check_result :: "uuid \<Rightarrow> probe \<Rightarrow> pydict" where
  "check_result i pb =
     [(KStr ''destination_id'', PStr i), (KStr ''health_status'', PStr ''healthy''),
      (KStr ''proxy_health_status'', PStr (hs_proxy (pb_stages pb))), (KStr ''telegram_health_status'', PStr ''healthy''),
      (KStr ''bot_health_status'', PStr ''healthy''), (KStr ''target_health_status'', PStr ''healthy''),
      (KStr ''administrator_status'', PStr ''administrator'')]"

definition settle_destination_check ::
  "time \<Rightarrow> time \<Rightarrow> destination \<Rightarrow> probe \<Rightarrow> tg_db \<Rightarrow> (handler_error + pydict) \<times> tg_db" where
  "settle_destination_check failed_at now d pb x =
     (let err = map_option (mapped_check_error failed_at) (pb_failure pb) in
      case find_destination (de_id d) (td_pub x) of
        None \<Rightarrow> (Inl destination_changed, x)
      | Some r \<Rightarrow>
          (let current = reread d r; changed = configuration current \<noteq> configuration d;
               current' = (if changed
                           then current\<lparr>de_health_status := ''unknown'',
                                        de_failure_code := Some ''telegram_destination_changed_during_check''\<rparr>
                           else verdict now pb err current);
               x1 = put_destination (de_id d) (flush_destination current current') x in
           if changed then (Inl destination_changed, x1)
           else case err of Some e \<Rightarrow> (Inl e, x1) | None \<Rightarrow> (Inr (check_result (de_id d) pb), x1)))"

text \<open>The texts of an identifier that the payload models take: with or without hyphens, in braces or as a URN.\<close>

definition model_uuid :: "pyval \<Rightarrow> uuid option" where
  "model_uuid v =
     (case v of
        PUuid u \<Rightarrow> Some u
      | PStr s \<Rightarrow>
          (case parse_uuid s of
             None \<Rightarrow> None
           | Some u \<Rightarrow> if lower s \<in> {u, filter (\<lambda>c. c \<noteq> CHR ''-'') u, ''{'' @ u @ ''}'', ''urn:uuid:'' @ u} then Some u else None)
      | _ \<Rightarrow> None)"

definition payload_only :: "string \<Rightarrow> pydict \<Rightarrow> uuid option" where
  "payload_only key p = (case p of [(k, v)] \<Rightarrow> if k = KStr key then model_uuid v else None | _ \<Rightarrow> None)"

definition load_destination_check :: "pydict \<Rightarrow> tg_db \<Rightarrow> handler_error + destination" where
  "load_destination_check p x =
     (case payload_only ''destination_id'' p of
        None \<Rightarrow> Inl (PermanentJobError ''telegram_destination_payload_invalid'' ''Destination check payload is invalid'')
      | Some i \<Rightarrow>
          (case get_destination i x of
             None \<Rightarrow> Inl (PermanentJobError ''telegram_destination_missing'' ''Telegram destination was not found'')
           | Some d \<Rightarrow> Inr d))"

text \<open>The whole check when nothing runs between its transactions.\<close>

definition destination_check :: "check_env \<Rightarrow> pydict \<Rightarrow> tg_db \<Rightarrow> (handler_error + pydict) \<times> tg_db" where
  "destination_check ck p x =
     (case load_destination_check p x of
        Inl e \<Rightarrow> (Inl e, x)
      | Inr d \<Rightarrow>
          (case probe_destination ck d x of
             (pb, x1) \<Rightarrow> settle_destination_check (env_now (te_env (ck_tg ck))) (env_now (te_env (ck_tg ck))) d pb x1))"

section \<open>The check of a proxy\<close>

definition flush_proxy :: "proxy_profile \<Rightarrow> proxy_profile \<Rightarrow> proxy_profile \<Rightarrow> proxy_profile" where
  "flush_proxy b b' r =
     r\<lparr>tp_reachability_status := written (tp_reachability_status b) (tp_reachability_status b') (tp_reachability_status r),
       tp_failure_code := written (tp_failure_code b) (tp_failure_code b') (tp_failure_code r),
       tp_last_checked_at := written (tp_last_checked_at b) (tp_last_checked_at b') (tp_last_checked_at r)\<rparr>"

definition load_proxy_check :: "pydict \<Rightarrow> tg_db \<Rightarrow> handler_error + proxy_profile" where
  "load_proxy_check p x =
     (case payload_only ''proxy_id'' p of
        None \<Rightarrow> Inl (PermanentJobError ''telegram_proxy_payload_invalid'' ''Proxy check payload is invalid'')
      | Some i \<Rightarrow>
          (case get_proxy i x of
             None \<Rightarrow> Inl (PermanentJobError ''telegram_proxy_missing'' ''Telegram proxy was not found'')
           | Some q \<Rightarrow> Inr q))"

definition probe_endpoint :: "net_lib \<Rightarrow> proxy_profile \<Rightarrow> route_error + unit" where
  "probe_endpoint nl p = result_bind (validate_proxy_endpoint nl (tp_host p) (tp_port p)) (check_proxy_reachability nl)"

definition proxy_changed :: handler_error where
  "proxy_changed = NeedsReviewJobError ''telegram_proxy_changed_during_check'' ''Telegram proxy changed during its health check''"

definition settle_proxy_check ::
  "time \<Rightarrow> proxy_profile \<Rightarrow> route_error + unit \<Rightarrow> tg_db \<Rightarrow> (handler_error + pydict) \<times> tg_db" where
  "settle_proxy_check now p outcome x =
     (let err = (case outcome of Inl (TelegramConfigurationError c) \<Rightarrow> Some c | _ \<Rightarrow> None) in
      if outcome = Inl Uncaught_Value_Error then (Inl OtherException, x)
      else case get_proxy (tp_id p) x of
        None \<Rightarrow> (Inl proxy_changed, x)
      | Some r \<Rightarrow>
          (let current = reread p r;
               changed = (tp_proxy_type current, tp_host current, tp_port current) \<noteq> (tp_proxy_type p, tp_host p, tp_port p);
               current' = current\<lparr>tp_reachability_status := (if changed then ''unchecked'' else if err = None then ''healthy'' else ''unhealthy''),
                                  tp_failure_code := (if changed then Some ''telegram_proxy_changed_during_check'' else err),
                                  tp_last_checked_at := Some now\<rparr>;
               x1 = put_proxy (tp_id p) (flush_proxy current current') x in
           if changed then (Inl proxy_changed, x1)
           else case err of
             Some c \<Rightarrow> (Inl (PermanentJobError c ''Telegram proxy check failed''), x1)
           | None \<Rightarrow> (Inr [(KStr ''proxy_id'', PStr (tp_id p)), (KStr ''reachability_status'', PStr ''healthy'')], x1)))"

section \<open>The publish handler\<close>

text \<open>
  The start of a routed publication: the route and the token are resolved before the first transaction,
  and the publisher of \<open>Telegram_Publish\<close> gets the token through a resolver that ignores its reference.
\<close>

definition publish_handler :: "check_env \<Rightarrow> pydict \<Rightarrow> tg_db \<Rightarrow> handler_error + (publisher \<times> string option \<times> string option) \<times> tg_db" where
  "publish_handler ck p x =
     (case payload_only ''publish_job_id'' p of
        None \<Rightarrow> Inl (PermanentJobError ''telegram_publish_payload_invalid'' ''Publish job payload is invalid'')
      | Some i \<Rightarrow>
          if \<not> ck_routed ck then Inr ((Starting i None, None, None), x)
          else (case (case find_publish_job i (td_pub x) of None \<Rightarrow> None | Some q \<Rightarrow> get_destination (pj_destination_id q) x) of
             None \<Rightarrow> Inl (PermanentJobError ''telegram_destination_missing'' ''Telegram destination was not found'')
           | Some d \<Rightarrow>
               (case check_runtime ck d x of
                  (Inl (Check_Route (TelegramConfigurationError c)), _) \<Rightarrow>
                    Inl (PermanentJobError c ''Telegram route configuration is unavailable'')
                | (Inl _, _) \<Rightarrow> Inl OtherException
                | (Inr (route, token), x1) \<Rightarrow>
                    Inr ((Starting i (Some (de_proxy_profile_id d)), route, Some token), x1))))"

end
