(* ===== verification/Telegram_Routing_Spec.thy ===== *)
theory Telegram_Routing_Spec
  imports Telegram_Routing
begin

text \<open>
  The normal form of a Telegram target: normalisation is idempotent, and every spelling of a channel has the
  same normal form, which is what lets the life cycle of destinations compare targets as texts.
\<close>

section \<open>Characters\<close>

declare is_space.simps [simp del] lower_char.simps [simp del]

lemma lower_char_eq: "lower_char c = (if 65 \<le> (of_char c :: nat) \<and> (of_char c :: nat) \<le> 90 then char_of ((of_char c :: nat) + 32) else c)"
  by (simp add: lower_char.simps Let_def)

lemma of_char_lower: "(of_char (lower_char c) :: nat) = (if 65 \<le> (of_char c :: nat) \<and> (of_char c :: nat) \<le> 90 then of_char c + 32 else of_char c)"
  by (simp add: lower_char_eq)

lemma lower_lower [simp]: "lower (lower s) = lower s"
  by (simp add: lower_def lower_char_eq)

lemma lower_kind [simp]: "letter (lower_char c) = letter c" "alnum_byte (lower_char c) = alnum_byte c"
  unfolding letter_def alnum_byte_def Let_def of_char_lower by auto

lemma word_char_lower: "word_char c \<Longrightarrow> word_char (lower_char c)"
  by (auto simp: word_char_def) (simp add: lower_char_eq)

lemma username_shape_lower: "username_shape s \<Longrightarrow> username_shape (lower s)"
  by (auto simp: username_shape_def lower_def list_all_iff word_char_lower split: list.splits)

lemma word_char_plain:
  assumes "word_char c"
  shows "\<not> is_space c" "\<not> control_char c" "c \<notin> set ''/?#%@:''"
  using assms by (auto simp: word_char_def alnum_byte_def control_char_def is_space.simps Let_def)

lemma username_word: "username_shape s \<Longrightarrow> list_all word_char s \<and> s \<noteq> []"
  by (auto simp: username_shape_def word_char_def alnum_byte_def letter_def Let_def split: list.splits)

lemma dropWhile_none: "list_all (\<lambda>c. \<not> P c) s \<Longrightarrow> dropWhile P s = s"
  by (cases s) auto

lemma special_plain: "\<not> is_space CHR ''@''" "list_all (\<lambda>c. \<not> is_space c) ''https://t.me/telegram.me/''"
  by (simp_all add: is_space.simps)

lemma strip_plain: "list_all (\<lambda>c. \<not> is_space c) s \<Longrightarrow> strip s = s"
  by (simp add: strip_def dropWhile_none list_all_iff)

section \<open>Decimal texts\<close>

lemma nat_str_step: "n \<ge> 10 \<Longrightarrow> nat_str n = nat_str (n div 10) @ [char_of (48 + n mod 10)]"
  "n < 10 \<Longrightarrow> nat_str n = [char_of (48 + n)]"
  by (subst nat_str.simps; simp)+

lemma digit_char: "n < 10 \<Longrightarrow> digit (char_of (48 + n :: nat))"
  by (simp add: digit_def)

lemma nat_str_digits: "list_all digit (nat_str n) \<and> nat_str n \<noteq> [] \<and> (n \<noteq> 0 \<longrightarrow> hd (nat_str n) \<noteq> CHR ''0'')"
proof (induction n rule: nat_str.induct)
  case (1 n)
  show ?case
  proof (cases "n < 10")
    case True
    have "char_of (48 + n) \<noteq> CHR ''0''" if "n \<noteq> 0"
    proof
      assume "char_of (48 + n) = CHR ''0''"
      then have "(of_char (char_of (48 + n) :: char) :: nat) = of_char CHR ''0''" by simp
      then show False using True that by simp
    qed
    then show ?thesis using True by (simp add: nat_str_step digit_char)
  next
    case False
    with 1 have "list_all digit (nat_str (n div 10)) \<and> nat_str (n div 10) \<noteq> [] \<and> hd (nat_str (n div 10)) \<noteq> CHR ''0''"
      by auto
    then show ?thesis using False by (simp add: nat_str_step digit_char)
  qed
qed

lemma digit_code: "n < 10 \<Longrightarrow> (of_char (char_of (48 + n)) :: int) = 48 + int n"
proof -
  assume "n < 10"
  then have "(of_char (char_of (48 + n) :: char) :: nat) = 48 + n" by simp
  then show ?thesis by (metis of_nat_add of_nat_numeral of_nat_of_char)
qed

lemma decimal_value_append: "decimal_value (s @ [c]) = 10 * decimal_value s + (of_char c - 48)"
  by (simp add: decimal_value_def)

lemma decimal_value_nat: "decimal_value (nat_str n) = int n"
proof (induction n rule: nat_str.induct)
  case (1 n)
  show ?case
  proof (cases "n < 10")
    case True
    then show ?thesis using digit_code [of n] by (simp add: nat_str_step decimal_value_def)
  next
    case False
    then have "int n = 10 * int (n div 10) + int (n mod 10)" by presburger
    then show ?thesis using False 1 digit_code [of "n mod 10"] by (simp add: nat_str_step decimal_value_append)
  qed
qed

lemma digit_plain: "digit c \<Longrightarrow> \<not> is_space c \<and> \<not> control_char c \<and> c \<noteq> CHR ''-'' \<and> c \<noteq> CHR ''@''"
  by (auto simp: digit_def control_char_def is_space.simps Let_def)

lemma nat_str_not_signed: "\<not> starts_with ''-'' (nat_str n)"
  using nat_str_digits [of n] digit_plain by (cases "nat_str n") auto

lemma nat_str_zero: "nat_str 0 = ''0''"
  by (simp add: nat_str.simps char_of_def bit_0)

lemma int_str_numeric: "numeric_shape (int_str n) \<and> numeric_value (int_str n) = n"
  using nat_str_digits [of "nat n"] nat_str_digits [of "nat (- n)"]
  by (auto simp: int_str_def numeric_shape_def numeric_value_def digits_of_def Let_def nat_str_not_signed decimal_value_nat
      nat_str_zero)

lemma int_str_plain: "list_all (\<lambda>c. \<not> is_space c \<and> \<not> control_char c \<and> c \<noteq> CHR ''@'') (int_str n) \<and> int_str n \<noteq> []"
proof -
  have "list_all (\<lambda>c. \<not> is_space c \<and> \<not> control_char c \<and> c \<noteq> CHR ''@'') (nat_str k)" for k
    using nat_str_digits [of k] digit_plain by (simp add: list_all_iff)
  then show ?thesis using nat_str_digits by (auto simp: int_str_def control_char_def is_space.simps)
qed

section \<open>Normal forms\<close>

definition normal_target :: "string \<times> string \<Rightarrow> bool" where
  "normal_target t \<longleftrightarrow>
     (\<exists>u. t = (CHR ''@'' # u, ''username'') \<and> username_shape u \<and> lower u = u) \<or>
     (\<exists>n. t = (int_str n, ''numeric_id'') \<and> n \<noteq> 0 \<and> - (2 ^ 63) \<le> n \<and> n < 2 ^ 63)"

lemma username_target_normal: "username_target s = Inr t \<Longrightarrow> normal_target t"
  by (auto simp: username_target_def target_invalid_def normal_target_def username_shape_lower split: if_splits)

lemma normalize_normal: "normalize_telegram_target nl raw = Inr t \<Longrightarrow> normal_target t"
  by (auto simp: normalize_telegram_target_def Let_def target_invalid_def result_bind_eq_Inr normal_target_def
      dest!: username_target_normal split: if_splits option.splits list.splits)

lemma normalize_username:
  assumes "username_shape s"
  shows "normalize_telegram_target nl (CHR ''@'' # s) = Inr (CHR ''@'' # lower s, ''username'')"
proof -
  have "strip (CHR ''@'' # s) = CHR ''@'' # s"
    using username_word [OF assms] word_char_plain special_plain by (intro strip_plain) (auto simp: list_all_iff)
  moreover have "\<not> list_ex control_char (CHR ''@'' # s)"
    using username_word [OF assms] word_char_plain by (auto simp: list_all_iff list_ex_iff control_char_def)
  ultimately show ?thesis by (simp add: normalize_telegram_target_def username_target_def assms)
qed

lemma normalize_numeric:
  assumes "n \<noteq> 0" "- (2 ^ 63) \<le> n" "n < 2 ^ 63"
  shows "normalize_telegram_target nl (int_str n) = Inr (int_str n, ''numeric_id'')"
proof -
  have "strip (int_str n) = int_str n" using int_str_plain by (intro strip_plain) (simp add: list_all_iff)
  moreover have "\<not> list_ex control_char (int_str n)" using int_str_plain [of n] by (auto simp: list_all_iff list_ex_iff)
  moreover have "\<not> starts_with ''@'' (int_str n)" using int_str_plain [of n] by (cases "int_str n") auto
  ultimately show ?thesis using assms int_str_plain [of n]
    by (simp add: normalize_telegram_target_def int_str_numeric)
qed

lemma takeWhile_none: "list_all P s \<Longrightarrow> takeWhile P s = s"
  by (simp add: takeWhile_eq_all_conv list_all_iff)

lemma special_host:
  assumes "host = ''t.me'' \<or> host = ''telegram.me''"
  shows "list_all (\<lambda>c. \<not> is_space c) host" "\<not> list_ex control_char host" "\<not> bracketed host"
    "list_all (\<lambda>c. (of_char c :: nat) < 128) host" "list_all (\<lambda>c. c \<noteq> CHR ''/'' \<and> c \<noteq> CHR ''?'' \<and> c \<noteq> CHR ''#'') host"
    "lower host = host" "list_all (\<lambda>c. c \<noteq> CHR ''@'' \<and> c \<noteq> CHR '':'' \<and> c \<noteq> CHR ''%'') host"
proof -
  show "list_all (\<lambda>c. \<not> is_space c) host" using assms by (elim disjE; simp add: is_space.simps)
  show "\<not> list_ex control_char host" using assms by (elim disjE; simp add: control_char_def)
  show "\<not> bracketed host" using assms by (elim disjE; simp add: bracketed_def)
  show "list_all (\<lambda>c. (of_char c :: nat) < 128) host" using assms by (elim disjE; simp)
  show "list_all (\<lambda>c. c \<noteq> CHR ''/'' \<and> c \<noteq> CHR ''?'' \<and> c \<noteq> CHR ''#'') host" using assms by (elim disjE; simp)
  show "lower host = host" using assms by (elim disjE; simp add: lower_def lower_char.simps)
  show "list_all (\<lambda>c. c \<noteq> CHR ''@'' \<and> c \<noteq> CHR '':'' \<and> c \<noteq> CHR ''%'') host" using assms by (elim disjE; simp)
qed

lemma link_scheme: "url_scheme (''https://'' @ s) = (''https'', ''//'' @ s)"
  by (simp add: url_scheme_def before_def after_def letter_def scheme_char_def alnum_byte_def lower_def lower_char.simps)

lemma takeWhile_delimited: "list_all P a \<Longrightarrow> \<not> P c \<Longrightarrow> takeWhile P (a @ c # b) = a \<and> dropWhile P (a @ c # b) = c # b"
  by (induction a) auto

lemma segments_one:
  assumes "CHR ''/'' \<notin> set s" "s \<noteq> []"
  shows "segments (CHR ''/'' # s) = [s]"
proof -
  obtain c cs where s: "s = c # cs" using assms(2) by (cases s) auto
  then have free: "\<forall>d\<in>set cs. d \<noteq> CHR ''/''" "c \<noteq> CHR ''/''" using assms(1) by auto
  then have cut: "takeWhile (\<lambda>d. d \<noteq> CHR ''/'') cs = cs" "dropWhile (\<lambda>d. d \<noteq> CHR ''/'') cs = []"
    unfolding takeWhile_eq_all_conv dropWhile_eq_Nil_conv by simp_all
  show ?thesis
    by (simp add: s cut free(2) segments.simps [of "CHR ''/'' # c # cs"] segments.simps [of "c # cs"] segments.simps [of "[]"])
qed

lemma plain_path:
  assumes "username_shape s"
  shows "before CHR ''#'' s = s" "after CHR ''#'' s = []" "before CHR ''?'' s = s" "after CHR ''?'' s = []"
    "CHR ''%'' \<notin> set s" "segments (CHR ''/'' # s) = [s]"
proof -
  have free: "c \<notin> set s" if "c \<in> set ''/?#%@:''" for c
    using username_word [OF assms] word_char_plain(3) that by (auto simp: list_all_iff)
  have cut: "takeWhile (\<lambda>d. d \<noteq> c) s = s" "dropWhile (\<lambda>d. d \<noteq> c) s = []" if "c \<in> set ''/?#%@:''" for c
    unfolding takeWhile_eq_all_conv dropWhile_eq_Nil_conv using free [OF that] by metis+
  show "before CHR ''#'' s = s" "after CHR ''#'' s = []" "before CHR ''?'' s = s" "after CHR ''?'' s = []"
    unfolding before_def after_def by (subst cut; simp)+
  show "segments (CHR ''/'' # s) = [s]" using free username_word [OF assms] by (intro segments_one) simp_all
  show "CHR ''%'' \<notin> set s" by (rule free) simp
qed

lemma normalize_link:
  assumes "username_shape s" and host: "host = ''t.me'' \<or> host = ''telegram.me''"
  shows "normalize_telegram_target nl (''https://'' @ host @ ''/'' @ s) = Inr (CHR ''@'' # lower s, ''username'')"
proof -
  let ?u = "''https://'' @ host @ ''/'' @ s"
  note h = special_host [OF host] and path = plain_path [OF assms(1)]
  have word: "list_all word_char s" using username_word [OF assms(1)] by simp
  then have plain: "list_all (\<lambda>c. \<not> is_space c) s" "\<not> list_ex control_char s"
    using word_char_plain(1,2) by (auto simp: list_all_iff list_ex_iff)
  have strip: "strip ?u = ?u" using h(1) plain(1) by (intro strip_plain) (simp add: is_space.simps)
  have control: "\<not> list_ex control_char ?u" using h(2) plain(2) by (simp add: control_char_def)
  have shape: "\<not> numeric_shape ?u" by (simp add: numeric_shape_def digits_of_def Let_def digit_def)
  have cut: "takeWhile (\<lambda>c. \<not> c \<in> set ''/?#'') (host @ CHR ''/'' # s) = host"
    "dropWhile (\<lambda>c. \<not> c \<in> set ''/?#'') (host @ CHR ''/'' # s) = CHR ''/'' # s"
    using takeWhile_delimited [of "\<lambda>c. \<not> c \<in> set ''/?#''" host "CHR ''/''" s] h(5) by (simp_all add: list_all_iff)
  have path': "before CHR ''#'' (CHR ''/'' # s) = CHR ''/'' # s" "after CHR ''#'' (CHR ''/'' # s) = []"
    "before CHR ''?'' (CHR ''/'' # s) = CHR ''/'' # s" "after CHR ''?'' (CHR ''/'' # s) = []"
    using path(1-4) by (simp_all add: before_def after_def)
  have split: "urlsplit nl ?u = Some \<lparr>ul_scheme = ''https'', ul_netloc = host, ul_path = CHR ''/'' # s, ul_query = [], ul_fragment = []\<rparr>"
    unfolding urlsplit_def link_scheme Let_def prod.case using cut path' h(3,4) by simp
  have free: "\<forall>c\<in>set host. c \<noteq> CHR '':''" "\<forall>c\<in>set host. c \<noteq> CHR ''%''" "CHR ''@'' \<notin> set host"
    using h(7) by (auto simp: list_all_iff)
  have clean: "takeWhile (\<lambda>d. d \<noteq> CHR '':'') host = host" "dropWhile (\<lambda>d. d \<noteq> CHR '':'') host = []"
    "takeWhile (\<lambda>d. d \<noteq> CHR ''%'') host = host" "dropWhile (\<lambda>d. d \<noteq> CHR ''%'') host = []"
    unfolding takeWhile_eq_all_conv dropWhile_eq_Nil_conv using free(1,2) by simp_all
  have "after_last CHR ''@'' host = host" using h(7) by (simp add: after_last_def takeWhile_none list_all_iff)
  then have parts: "before CHR '':'' (after_last CHR ''@'' host) = host" "after CHR '':'' (after_last CHR ''@'' host) = []"
    "before CHR ''%'' host = host" "dropWhile (\<lambda>c. c \<noteq> CHR ''%'') host = []" "CHR ''@'' \<notin> set host"
    by (simp_all add: before_def after_def clean free(3))
  have "lower ''https'' = ''https''" by (simp add: lower_def lower_char.simps)
  then have "lower (url_hostname u) = host" "url_port u = Inr None" "\<not> has_userinfo u" "lower (ul_scheme u) = ''https''"
    if "u = \<lparr>ul_scheme = ''https'', ul_netloc = host, ul_path = CHR ''/'' # s, ul_query = [], ul_fragment = []\<rparr>" for u
    by (simp_all add: that url_hostname_def url_port_def has_userinfo_def parts h(6))
  then show ?thesis
    unfolding normalize_telegram_target_def strip Let_def split if_not_P [OF shape] using control host path
    by (auto simp: username_target_def assms(1))
qed

text \<open>
  C36: a target has one normal form.  Normalising what normalisation returned changes nothing; the form is
  a lower-case user name of five to thirty-two characters behind an at sign, or the shortest decimal text of
  a nonzero 64-bit number; and a user name, in whatever case, has the same form as its links on both hosts.
\<close>

theorem target_normal_form:
  assumes "normalize_telegram_target nl raw = Inr t" "username_shape s"
  shows "normalize_telegram_target nl (fst t) = Inr t \<and> normal_target t \<and>
    normalize_telegram_target nl (CHR ''@'' # s) = Inr (CHR ''@'' # lower s, ''username'') \<and>
    normalize_telegram_target nl (''https://t.me/'' @ s) = Inr (CHR ''@'' # lower s, ''username'') \<and>
    normalize_telegram_target nl (''https://telegram.me/'' @ s) = Inr (CHR ''@'' # lower s, ''username'')"
proof -
  have normal: "normal_target t" by (rule normalize_normal [OF assms(1)])
  then have "normalize_telegram_target nl (fst t) = Inr t"
    by (auto simp: normal_target_def normalize_username normalize_numeric)
  then show ?thesis
    using normal normalize_username [OF assms(2)] normalize_link [OF assms(2), of "''t.me''" nl]
      normalize_link [OF assms(2), of "''telegram.me''" nl] by simp
qed

definition sample_net :: net_lib where
  "sample_net = \<lparr>nl_netloc_ok = \<lambda>_. True, nl_ip_address = \<lambda>_. None, nl_idna = Some, nl_resolve = \<lambda>_ _. None,
     nl_connect = \<lambda>_ _. False, nl_allowed_ports = ''1080, 3128''\<rparr>"

lemma sample_username: "username_shape ''NewsCraft''" "lower ''NewsCraft'' = ''newscraft''"
  by (simp_all add: username_shape_def letter_def word_char_def alnum_byte_def lower_def lower_char.simps char_of_def bit_simps)

theorem target_normal_form_witness:
  "normalize_telegram_target sample_net ''@newscraft'' = Inr (''@newscraft'', ''username'') \<and>
   normalize_telegram_target sample_net ''https://telegram.me/NewsCraft'' = Inr (''@newscraft'', ''username'')"
  using target_normal_form [OF normalize_username [OF sample_username(1)] sample_username(1), of sample_net] sample_username(2)
  by simp

end
