(* ===== verification/Telegram_Destinations_Spec.thy ===== *)
theory Telegram_Destinations_Spec
  imports Telegram_Checks Telegram_Intents_Spec Telegram_Routing_Spec
begin

text \<open>
  What the requests, the health checks and the publish intents keep of the destinations: no two of them
  send to one target, what a row names exists, and an enabled destination is set up as it was when its
  checks had all succeeded.  The last section shows what a check does to a row that was changed meanwhile.
\<close>

section \<open>Tables\<close>

abbreviation dests :: "tg_db \<Rightarrow> destination list" where "dests x \<equiv> pu_destinations (td_pub x)"
abbreviation secrets :: "tg_db \<Rightarrow> encrypted_secret list" where "secrets x \<equiv> sx_secrets (td_secrets x)"

text \<open>The destinations that routes, publish jobs and publications name.\<close>

definition used_destinations :: "pub_db \<Rightarrow> uuid set" where
  "used_destinations y = rt_destination_id ` set (pu_routes y) \<union> pj_destination_id ` set (db_publish_jobs (pu_db y)) \<union>
     pn_destination_id ` set (pu_publications y)"

text \<open>A change that leaves the tables named in it.\<close>

definition same_tables :: "tg_db \<Rightarrow> tg_db \<Rightarrow> bool" where
  "same_tables x x' \<longleftrightarrow> dests x' = dests x \<and> td_proxies x' = td_proxies x \<and>
     used_destinations (td_pub x') = used_destinations (td_pub x)"

lemma same_tables_refl [simp]: "same_tables x x"
  by (simp add: same_tables_def)

lemma used_simps [simp]:
  "used_destinations (y\<lparr>pu_destinations := ds\<rparr>) = used_destinations y"
  "used_destinations (on_db (\<lambda>d. d\<lparr>db_seq := k\<rparr>) y) = used_destinations y"
  by (simp_all add: used_destinations_def on_db_def)

lemma table_simps [simp]:
  "dests (put_destination i f x) = set_rows (\<lambda>d. de_id d = i) f (dests x)"
  "dests (on_destinations h x) = h (dests x)"
  "dests (put_proxy i g x) = dests x" "dests (on_secrets k x) = dests x" "dests (drawn x) = dests x"
  "td_proxies (put_destination i f x) = td_proxies x" "td_proxies (on_destinations h x) = td_proxies x"
  "td_proxies (put_proxy i g x) = set_rows (\<lambda>p. tp_id p = i) g (td_proxies x)" "td_proxies (on_secrets k x) = td_proxies x"
  "td_proxies (drawn x) = td_proxies x"
  "td_secrets (put_destination i f x) = td_secrets x" "td_secrets (on_destinations h x) = td_secrets x"
  "td_secrets (put_proxy i g x) = td_secrets x" "td_secrets (on_secrets k x) = k (td_secrets x)"
  "td_secrets (drawn x) = td_secrets x"
  "used_destinations (td_pub (put_destination i f x)) = used_destinations (td_pub x)"
  "used_destinations (td_pub (on_destinations h x)) = used_destinations (td_pub x)"
  "used_destinations (td_pub (put_proxy i g x)) = used_destinations (td_pub x)"
  "used_destinations (td_pub (on_secrets k x)) = used_destinations (td_pub x)"
  "used_destinations (td_pub (drawn x)) = used_destinations (td_pub x)"
  by (simp_all add: put_destination_def on_destinations_def on_pub_def put_proxy_def on_secrets_def drawn_def on_db_def
      used_destinations_def)

section \<open>The effect of the pieces\<close>

definition secret_columns :: "encrypted_secret \<Rightarrow> uuid \<times> string \<times> uuid \<times> string" where
  "secret_columns s = (sk_id s, sk_owner_type s, sk_owner_id s, sk_purpose s)"

lemma encrypt_secret_key: "encrypt_secret se ring n s v t = Inr s1 \<Longrightarrow> secret_columns s1 = secret_columns s"
  by (auto simp: encrypt_secret_def result_bind_eq_Inr secret_columns_def split: if_splits option.splits)

lemma new_secret_Inr:
  assumes "new_secret te purpose kind owner v x = Inr (s, x')"
  shows "secrets x' = secrets x @ [s]" "same_tables x x'" "secret_columns s = (sk_id s, kind, owner, purpose)"
    "sk_id s \<notin> sk_id ` set (secrets x)"
proof -
  obtain ring where ring: "te_ring te = Some ring" using assms by (cases "te_ring te") (simp_all add: new_secret_def tg_config_def)
  obtain r sx where c: "create_secret (te_secret te) ring (tg_uuid te x) (tg_nonce te x) purpose kind owner v
      (te_principal te) ''destinations:write'' (env_now (te_env te)) (td_secrets x) = (r, sx)" by fastforce
  with assms ring have r: "r = Inr s" and x': "x' = drawn (on_secrets (\<lambda>_. sx) x)" and fresh: "find_secret (sk_id s) (td_secrets x) = None"
    by (auto simp: new_secret_def split: sum.splits if_splits)
  from c [unfolded r] have "sx_secrets sx = secrets x @ [s] \<and> secret_columns s = (tg_uuid te x, kind, owner, purpose)"
    by (auto simp: create_secret_def authorize_def secret_event_def record_security_event_def Let_def secret_columns_def
        dest!: encrypt_secret_key split: if_splits sum.splits)
  then show "secrets x' = secrets x @ [s]" "same_tables x x'" "secret_columns s = (sk_id s, kind, owner, purpose)"
    using x' by (simp_all add: same_tables_def secret_columns_def)
  show "sk_id s \<notin> sk_id ` set (secrets x)" using fresh by (auto simp: find_secret_def find_None_iff)
qed

lemma rotated_secret_Inr:
  assumes "rotated_secret te s v x = Inr (s1, x')"
  shows "secrets x' = set_rows (\<lambda>q. sk_id q = sk_id s) (\<lambda>_. s1) (secrets x)" "same_tables x x'" "secret_columns s1 = secret_columns s"
proof -
  obtain ring where ring: "te_ring te = Some ring" using assms by (cases "te_ring te") (simp_all add: rotated_secret_def tg_config_def)
  obtain r sx where c: "rotate_secret (te_secret te) ring (tg_nonce te x) s v (te_principal te) ''destinations:write''
      (env_now (te_env te)) (td_secrets x) = (r, sx)" by fastforce
  with assms ring have r: "r = Inr s1" and x': "x' = drawn (on_secrets (\<lambda>_. sx) x)"
    by (auto simp: rotated_secret_def split: sum.splits)
  from c [unfolded r] have "sx_secrets sx = set_rows (\<lambda>q. sk_id q = sk_id s1) (\<lambda>_. s1) (secrets x) \<and> secret_columns s1 = secret_columns s"
    by (auto simp: rotate_secret_def authorize_def secret_event_def record_security_event_def put_secret_def
        dest!: encrypt_secret_key split: if_splits sum.splits)
  then show "secrets x' = set_rows (\<lambda>q. sk_id q = sk_id s) (\<lambda>_. s1) (secrets x)" "same_tables x x'" "secret_columns s1 = secret_columns s"
    using x' by (simp_all add: same_tables_def secret_columns_def)
qed

lemma secret_in_use_cong: "same_tables x x' \<Longrightarrow> secret_in_use i x' = secret_in_use i x"
  by (simp add: secret_in_use_def same_tables_def)

lemma delete_secrets_Inr:
  assumes "delete_secrets is x = Inr x'"
  shows "same_tables x x'" "secrets x' = filter (\<lambda>s. Some (sk_id s) \<notin> set is) (secrets x)"
    "\<forall>s\<in>set (secrets x). Some (sk_id s) \<in> set is \<longrightarrow> \<not> secret_in_use (sk_id s) x"
proof -
  have "same_tables x x' \<and> secrets x' = filter (\<lambda>s. Some (sk_id s) \<notin> set is) (secrets x) \<and>
    (\<forall>s\<in>set (secrets x). Some (sk_id s) \<in> set is \<longrightarrow> \<not> secret_in_use (sk_id s) x)"
    using assms
  proof (induction "is" x rule: delete_secrets.induct)
    case (3 i "is" x)
    show ?case
    proof (cases "find_secret i (td_secrets x)")
      case None
      then have "\<forall>s\<in>set (secrets x). sk_id s \<noteq> i" by (auto simp: find_secret_def find_None_iff)
      moreover have "delete_secrets is x = Inr x'" using 3(3) None by simp
      ultimately show ?thesis using 3(1) [OF None] by (auto intro: filter_cong)
    next
      case (Some s)
      let ?x = "on_secrets (\<lambda>sx. sx\<lparr>sx_secrets := filter (\<lambda>s. sk_id s \<noteq> i) (sx_secrets sx)\<rparr>) x"
      have free: "\<not> secret_in_use i x" and del: "delete_secrets is ?x = Inr x'"
        using 3(3) Some by (auto split: if_splits)
      have same: "same_tables x ?x" by (simp add: same_tables_def)
      from 3(2) [OF _ free del] Some
      have "same_tables ?x x'" "secrets x' = filter (\<lambda>s. Some (sk_id s) \<notin> set is) (secrets ?x)"
        "\<forall>s\<in>set (secrets ?x). Some (sk_id s) \<in> set is \<longrightarrow> \<not> secret_in_use (sk_id s) ?x" by auto
      then show ?thesis using free by (auto simp: same_tables_def secret_in_use_cong [OF same] conj_commute)
    qed
  qed auto
  then show "same_tables x x'" "secrets x' = filter (\<lambda>s. Some (sk_id s) \<notin> set is) (secrets x)"
    "\<forall>s\<in>set (secrets x). Some (sk_id s) \<in> set is \<longrightarrow> \<not> secret_in_use (sk_id s) x" by blast+
qed

lemma enqueue_publish_jobs: "enqueue_job env r d = Inr (jc, d') \<Longrightarrow> db_publish_jobs d' = db_publish_jobs d"
  by (auto simp: enqueue_job_def insert_job_def existing_job_result_def Let_def frame_simps append_event_def put_job_def
      result_bind_eq_Inr split: option.splits if_splits)

lemma enqueue_check_Inr:
  assumes "enqueue_check te ty key i x = Inr (j, x')"
  shows "same_tables x x'" "td_secrets x' = td_secrets x"
  using assms enqueue_publish_jobs
  by (auto simp: enqueue_check_def Let_def same_tables_def on_pub_def used_destinations_def drawn_def on_db_def
      split: sum.splits)

section \<open>The invariant\<close>

text \<open>Where a destination sends to, whatever spelling an old row keeps.\<close>

definition target_of :: "net_lib \<Rightarrow> destination \<Rightarrow> string option" where
  "target_of nl d =
     (case de_canonical_target d of Some c \<Rightarrow> Some c
      | None \<Rightarrow> (case normalize_telegram_target nl (de_target_ref d) of Inr t \<Rightarrow> Some (fst t) | Inl _ \<Rightarrow> None))"

definition same_target :: "net_lib \<Rightarrow> destination \<Rightarrow> destination \<Rightarrow> bool" where
  "same_target nl d e \<longleftrightarrow> de_platform d = ''telegram'' \<and> de_platform e = ''telegram'' \<and>
     target_of nl d \<noteq> None \<and> target_of nl d = target_of nl e"

lemma same_target_sym: "same_target nl d e \<Longrightarrow> same_target nl e d"
  unfolding same_target_def by metis

definition owned_secret :: "tg_db \<Rightarrow> string \<Rightarrow> string \<Rightarrow> uuid \<Rightarrow> uuid \<Rightarrow> bool" where
  "owned_secret x kind purpose owner i \<longleftrightarrow> (i, kind, owner, purpose) \<in> secret_columns ` set (secrets x)"

definition destination_ok :: "tg_db \<Rightarrow> destination \<Rightarrow> bool" where
  "destination_ok x d \<longleftrightarrow>
     (\<forall>i. de_secret_id d = Some i \<longrightarrow>
        owned_secret x ''telegram_destination'' ''telegram_bot_token'' (de_id d) i \<and> de_secret_ref d = ''encrypted:'' @ i) \<and>
     (\<forall>i. de_proxy_profile_id d = Some i \<longrightarrow> i \<in> tp_id ` set (td_proxies x))"

definition proxy_ok :: "tg_db \<Rightarrow> proxy_profile \<Rightarrow> bool" where
  "proxy_ok x p \<longleftrightarrow>
     (\<forall>i. tp_username_secret_id p = Some i \<longrightarrow> owned_secret x ''telegram_proxy_profile'' ''proxy_username'' (tp_id p) i) \<and>
     (\<forall>i. tp_password_secret_id p = Some i \<longrightarrow> owned_secret x ''telegram_proxy_profile'' ''proxy_password'' (tp_id p) i)"

definition tg_ok :: "net_lib \<Rightarrow> tg_db \<Rightarrow> bool" where
  "tg_ok nl x \<longleftrightarrow> distinct (map de_id (dests x)) \<and> distinct (map tp_id (td_proxies x)) \<and> distinct (map sk_id (secrets x)) \<and>
     (\<forall>d\<in>set (dests x). \<forall>e\<in>set (dests x). same_target nl d e \<longrightarrow> de_id d = de_id e) \<and>
     (\<forall>d\<in>set (dests x). destination_ok x d) \<and> (\<forall>p\<in>set (td_proxies x). proxy_ok x p) \<and>
     used_destinations (td_pub x) \<subseteq> de_id ` set (dests x)"

lemmas tg_defs = tg_ok_def destination_ok_def proxy_ok_def owned_secret_def

text \<open>The columns the invariant reads.\<close>

definition dest_key :: "destination \<Rightarrow> uuid \<times> string \<times> string \<times> string option \<times> uuid option \<times> string \<times> uuid option" where
  "dest_key d = (de_id d, de_platform d, de_target_ref d, de_canonical_target d, de_secret_id d, de_secret_ref d, de_proxy_profile_id d)"

definition proxy_key :: "proxy_profile \<Rightarrow> uuid \<times> uuid option \<times> uuid option" where
  "proxy_key p = (tp_id p, tp_username_secret_id p, tp_password_secret_id p)"

definition same_keys :: "tg_db \<Rightarrow> tg_db \<Rightarrow> bool" where
  "same_keys x x' \<longleftrightarrow> map dest_key (dests x') = map dest_key (dests x) \<and> map proxy_key (td_proxies x') = map proxy_key (td_proxies x) \<and>
     map secret_columns (secrets x') = map secret_columns (secrets x) \<and> used_destinations (td_pub x') = used_destinations (td_pub x)"

lemma map_eq_in: "map f xs' = map f xs \<Longrightarrow> x' \<in> set xs' \<Longrightarrow> \<exists>x\<in>set xs. f x' = f x"
  by (metis (no_types, lifting) image_iff list.set_map)

lemma map_eq_comp: "map f xs' = map f xs \<Longrightarrow> (\<And>x. h x = g (f x)) \<Longrightarrow> map h xs' = map h xs"
  by (metis (no_types, lifting) comp_apply ext map_map)

lemma dest_key_cong:
  assumes "dest_key d' = dest_key d"
  shows "de_id d' = de_id d" "same_target nl d' = same_target nl d" "same_target nl e d' = same_target nl e d"
    "destination_ok x d' = destination_ok x d"
proof -
  have cols: "de_id d' = de_id d" "de_platform d' = de_platform d" "de_target_ref d' = de_target_ref d"
    "de_canonical_target d' = de_canonical_target d" "de_secret_id d' = de_secret_id d" "de_secret_ref d' = de_secret_ref d"
    "de_proxy_profile_id d' = de_proxy_profile_id d" using assms by (simp_all add: dest_key_def)
  have "target_of nl d' = target_of nl d" unfolding target_of_def cols ..
  then show "de_id d' = de_id d" "same_target nl d' = same_target nl d" "same_target nl e d' = same_target nl e d"
    "destination_ok x d' = destination_ok x d"
    by (simp_all add: cols same_target_def destination_ok_def fun_eq_iff)
qed

lemma proxy_key_cong: "proxy_key q = proxy_key p \<Longrightarrow> proxy_ok x q = proxy_ok x p"
  by (simp add: proxy_key_def proxy_ok_def)

lemma tg_ok_same_keys:
  assumes ok: "tg_ok nl x" and same: "same_keys x x'"
  shows "tg_ok nl x'"
proof -
  have d: "map dest_key (dests x') = map dest_key (dests x)" and p: "map proxy_key (td_proxies x') = map proxy_key (td_proxies x)"
    and s: "map secret_columns (secrets x') = map secret_columns (secrets x)"
    and u: "used_destinations (td_pub x') = used_destinations (td_pub x)" using same by (simp_all add: same_keys_def)
  have ids: "map de_id (dests x') = map de_id (dests x)" "map tp_id (td_proxies x') = map tp_id (td_proxies x)"
    "map sk_id (secrets x') = map sk_id (secrets x)"
    using map_eq_comp [OF d, of de_id fst] map_eq_comp [OF p, of tp_id fst] map_eq_comp [OF s, of sk_id fst]
    by (simp_all add: dest_key_def proxy_key_def secret_columns_def)
  then have sets: "de_id ` set (dests x') = de_id ` set (dests x)" "tp_id ` set (td_proxies x') = tp_id ` set (td_proxies x)"
    "secret_columns ` set (secrets x') = secret_columns ` set (secrets x)" using s by (metis list.set_map)+
  then have frame: "destination_ok x' = destination_ok x" "proxy_ok x' = proxy_ok x" by (auto simp: destination_ok_def proxy_ok_def owned_secret_def)
  have "proxy_ok x q" if "q \<in> set (td_proxies x')" for q
    using map_eq_in [OF p that] ok proxy_key_cong by (metis tg_ok_def)
  moreover have "destination_ok x q" if "q \<in> set (dests x')" for q
    using map_eq_in [OF d that] ok dest_key_cong(4) by (metis tg_ok_def)
  moreover have "de_id q = de_id r" if q: "q \<in> set (dests x')" and r: "r \<in> set (dests x')" and st: "same_target nl q r" for q r
  proof -
    obtain q0 r0 where "q0 \<in> set (dests x)" "r0 \<in> set (dests x)" "dest_key q = dest_key q0" "dest_key r = dest_key r0"
      using map_eq_in [OF d q] map_eq_in [OF d r] by blast
    then show ?thesis using st ok dest_key_cong by (metis tg_ok_def)
  qed
  ultimately show ?thesis using ok by (auto simp: tg_ok_def ids sets u frame)
qed

text \<open>Writes of the other columns; \<open>same_keys\<close> composes along an operation.\<close>

lemma same_keys_trans: "same_keys x y \<Longrightarrow> same_keys y z \<Longrightarrow> same_keys x z"
  by (simp add: same_keys_def)

lemma same_keys_tables: "same_tables x x' \<Longrightarrow> secrets x' = secrets x \<Longrightarrow> same_keys x x'"
  by (simp add: same_keys_def same_tables_def)

lemma same_keys_destinations: "(\<And>d. d \<in> set (dests x) \<Longrightarrow> p d \<Longrightarrow> dest_key (f d) = dest_key d) \<Longrightarrow> same_keys x (on_destinations (set_rows p f) x)"
  by (simp add: same_keys_def map_set_rows)

lemma same_keys_put: "(\<And>d. dest_key (f d) = dest_key d) \<Longrightarrow> same_keys x (put_destination i f x)"
  by (simp add: put_destination_def same_keys_destinations)

lemma same_keys_proxy: "(\<And>p. p \<in> set (td_proxies x) \<Longrightarrow> tp_id p = i \<Longrightarrow> proxy_key (f p) = proxy_key p) \<Longrightarrow> same_keys x (put_proxy i f x)"
  by (simp add: same_keys_def map_set_rows)

lemma same_keys_rotated:
  assumes "rotated_secret te s v x = Inr (s1, x')" "s \<in> set (secrets x)" "distinct (map sk_id (secrets x))"
  shows "same_keys x x'"
proof -
  have "secret_columns q = secret_columns s1" if "q \<in> set (secrets x)" "sk_id q = sk_id s" for q
    using that assms(2,3) rotated_secret_Inr(3) [OF assms(1)] by (metis distinct_map inj_on_def)
  then show ?thesis using rotated_secret_Inr [OF assms(1)] by (simp add: same_keys_def same_tables_def map_set_rows)
qed

lemma dest_key_simps [simp]:
  "dest_key (mark_destination_checking r d) = dest_key d" "dest_key (reset_destination d) = dest_key d"
  "dest_key ((reset_destination d)\<lparr>de_failure_code := c\<rparr>) = dest_key d"
  "dest_key (disable_destination d) = dest_key d" "dest_key (d\<lparr>de_enabled := on\<rparr>) = dest_key d"
  "dest_key (flush_destination a b d) = dest_key d"
  by (simp_all add: dest_key_def mark_destination_checking_def reset_destination_def disable_destination_def flush_destination_def)

lemma proxy_key_simps [simp]:
  "proxy_key (p\<lparr>tp_enabled := on\<rparr>) = proxy_key p" "proxy_key (p\<lparr>tp_reachability_status := r\<rparr>) = proxy_key p"
  "proxy_key (p\<lparr>tp_failure_code := c\<rparr>) = proxy_key p" "proxy_key (flush_proxy a b p) = proxy_key p"
  by (simp_all add: proxy_key_def flush_proxy_def)

section \<open>Changes of what a row names\<close>

lemma tg_ok_add_secret:
  assumes "tg_ok nl x" "same_tables x x'" "secrets x' = secrets x @ [s]" "sk_id s \<notin> sk_id ` set (secrets x)"
  shows "tg_ok nl x'"
  using assms by (auto simp: tg_defs same_tables_def)

lemma tg_ok_set_destination:
  assumes ok: "tg_ok nl x" and d: "destination_ok x d" "d0 \<in> set (dests x)" "de_id d0 = de_id d"
    and free: "\<And>e. e \<in> set (dests x) \<Longrightarrow> de_id e \<noteq> de_id d \<Longrightarrow> \<not> same_target nl d e"
  shows "tg_ok nl (put_destination (de_id d) (\<lambda>_. d) x)"
proof -
  let ?x = "put_destination (de_id d) (\<lambda>_. d) x"
  have rows: "e = d \<or> (e \<in> set (dests x) \<and> de_id e \<noteq> de_id d)" if "e \<in> set (dests ?x)" for e
    using that by (auto simp: in_set_rows split: if_splits)
  have ids: "map de_id (dests ?x) = map de_id (dests x)" by (simp add: map_set_rows)
  then have idset: "de_id ` set (dests ?x) = de_id ` set (dests x)" by (metis list.set_map)
  have frame: "destination_ok ?x = destination_ok x" "proxy_ok ?x = proxy_ok x"
    by (auto simp: destination_ok_def proxy_ok_def owned_secret_def)
  note sym = same_target_sym [of nl _ d]
  have "de_id e = de_id f" if "e \<in> set (dests ?x)" "f \<in> set (dests ?x)" "same_target nl e f" for e f
    using rows [OF that(1)] rows [OF that(2)] that(3) free sym ok by (metis tg_ok_def)
  moreover have "destination_ok x e" if "e \<in> set (dests ?x)" for e
    using rows [OF that] d(1) ok by (auto simp: tg_ok_def)
  ultimately show ?thesis using ok by (simp add: tg_ok_def ids idset frame del: table_simps(1))
qed

lemma tg_ok_add_destination:
  assumes ok: "tg_ok nl x" and d: "destination_ok x d" "de_id d \<notin> de_id ` set (dests x)"
    and free: "\<And>e. e \<in> set (dests x) \<Longrightarrow> \<not> same_target nl d e"
  shows "tg_ok nl (on_destinations (\<lambda>ds. ds @ [d]) x)"
proof -
  note sym = same_target_sym [of nl _ d]
  show ?thesis using ok d free sym by (auto simp: tg_ok_def destination_ok_def proxy_ok_def owned_secret_def)
qed

lemma tg_ok_remove_destination:
  assumes "tg_ok nl x" "i \<notin> used_destinations (td_pub x)"
  shows "tg_ok nl (on_destinations (filter (\<lambda>e. de_id e \<noteq> i)) x)"
  using assms by (auto simp: tg_ok_def destination_ok_def proxy_ok_def owned_secret_def distinct_map_filter)

lemma tg_ok_set_proxy:
  assumes ok: "tg_ok nl x" and p: "proxy_ok x p"
  shows "tg_ok nl (put_proxy (tp_id p) (\<lambda>_. p) x)"
proof -
  let ?x = "put_proxy (tp_id p) (\<lambda>_. p) x"
  have ids: "map tp_id (td_proxies ?x) = map tp_id (td_proxies x)" by (simp add: map_set_rows)
  then have idset: "tp_id ` set (td_proxies ?x) = tp_id ` set (td_proxies x)" by (metis list.set_map)
  have frame: "destination_ok ?x = destination_ok x" "proxy_ok ?x = proxy_ok x"
    using idset by (auto simp: destination_ok_def proxy_ok_def owned_secret_def)
  have "proxy_ok x q" if "q \<in> set (td_proxies ?x)" for q using that p ok by (auto simp: in_set_rows tg_ok_def)
  then show ?thesis using ok by (simp add: tg_ok_def ids frame del: table_simps(8))
qed

lemma tg_ok_add_proxy:
  assumes "tg_ok nl x" "proxy_ok x p" "tp_id p \<notin> tp_id ` set (td_proxies x)"
  shows "tg_ok nl (x\<lparr>td_proxies := td_proxies x @ [p]\<rparr>)"
  using assms by (auto simp: tg_defs)

lemma tg_ok_remove_proxy:
  assumes ok: "tg_ok nl x" and free: "\<And>d. d \<in> set (dests x) \<Longrightarrow> de_proxy_profile_id d \<noteq> Some i"
  shows "tg_ok nl (x\<lparr>td_proxies := filter (\<lambda>q. tp_id q \<noteq> i) (td_proxies x)\<rparr>)"
proof -
  let ?x = "x\<lparr>td_proxies := filter (\<lambda>q. tp_id q \<noteq> i) (td_proxies x)\<rparr>"
  have "destination_ok ?x d" if d: "d \<in> set (dests x)" for d
  proof -
    have "j \<in> tp_id ` set (td_proxies ?x)" if "de_proxy_profile_id d = Some j" for j
      using that free [OF d] ok d by (force simp: tg_ok_def destination_ok_def)
    then show ?thesis using ok d by (simp add: tg_ok_def destination_ok_def owned_secret_def)
  qed
  then show ?thesis using ok by (auto simp: tg_ok_def proxy_ok_def owned_secret_def distinct_map_filter)
qed

lemma tg_ok_delete_secrets:
  assumes ok: "tg_ok nl x" and del: "delete_secrets is x = Inr x'"
  shows "tg_ok nl x'"
proof -
  note e = delete_secrets_Inr [OF del]
  have keep: "owned_secret x' kind purpose owner i" if "owned_secret x kind purpose owner i" "secret_in_use i x" for kind purpose owner i
    using that e(3) by (auto simp: owned_secret_def e(2) secret_columns_def image_iff)
  have "destination_ok x' d" if "d \<in> set (dests x)" for d
  proof -
    have "secret_in_use i x" if "de_secret_id d = Some i" for i
      using that \<open>d \<in> set (dests x)\<close> by (auto simp: secret_in_use_def list_ex_iff)
    then show ?thesis using that ok keep e(1) by (auto simp: tg_ok_def destination_ok_def same_tables_def)
  qed
  moreover have "proxy_ok x' p" if "p \<in> set (td_proxies x)" for p
  proof -
    have "secret_in_use i x" if "tp_username_secret_id p = Some i \<or> tp_password_secret_id p = Some i" for i
      using that \<open>p \<in> set (td_proxies x)\<close> by (auto simp: secret_in_use_def list_ex_iff)
    then show ?thesis using that ok keep e(1) by (auto simp: tg_ok_def proxy_ok_def)
  qed
  ultimately show ?thesis using ok e by (auto simp: tg_ok_def same_tables_def distinct_map_filter)
qed

section \<open>Requests keep the invariant\<close>

lemma get_destination_Some: "get_destination i x = Some d \<Longrightarrow> d \<in> set (dests x) \<and> de_id d = i \<and> de_platform d = ''telegram''"
  by (auto simp: get_destination_def find_Some_iff)

lemma get_proxy_Some: "get_proxy i x = Some p \<Longrightarrow> p \<in> set (td_proxies x) \<and> tp_id p = i"
  by (auto simp: get_proxy_def find_Some_iff)

lemma get_proxy_None: "get_proxy i x = None \<longleftrightarrow> i \<notin> tp_id ` set (td_proxies x)"
  by (auto simp: get_proxy_def find_None_iff)

lemma locked_Inr:
  "locked_destination i x = Inr d \<longleftrightarrow> get_destination i x = Some d" "locked_proxy i x = Inr p \<longleftrightarrow> get_proxy i x = Some p"
  by (auto simp: locked_destination_def locked_proxy_def split: option.splits)

lemma check_destination_keys: "check_destination te r i x = Inr (j, x') \<Longrightarrow> same_keys x x'"
  using same_keys_trans [OF same_keys_put [of "mark_destination_checking r" x i]] enqueue_check_Inr same_keys_tables
  unfolding check_destination_def by (metis dest_key_simps(1))

lemma check_proxy_keys:
  assumes "check_proxy te f i x = Inr (j, x')" "\<And>p. proxy_key (f p) = proxy_key p"
  shows "same_keys x x'"
proof -
  let ?x = "put_proxy i (\<lambda>p. (f p)\<lparr>tp_reachability_status := ''checking''\<rparr>) x"
  have "same_keys x ?x" using assms(2) by (intro same_keys_proxy) simp
  moreover have "same_keys ?x x'" using assms(1) enqueue_check_Inr same_keys_tables unfolding check_proxy_def by metis
  ultimately show ?thesis by (rule same_keys_trans)
qed

lemma legacy_conflict_Inr:
  "legacy_conflict nl c exclude ds = Inr () \<Longrightarrow> d \<in> set ds \<Longrightarrow> Some (de_id d) \<noteq> exclude \<Longrightarrow>
   normalize_telegram_target nl (de_target_ref d) = Inr t \<Longrightarrow> fst t \<noteq> c"
  by (induction ds) (auto simp: tg_config_def split: if_splits sum.splits route_error.splits)

lemma ensure_unique_Inr:
  assumes "ensure_unique_target nl c exclude x = Inr ()" "d \<in> set (dests x)" "de_platform d = ''telegram''" "Some (de_id d) \<noteq> exclude"
  shows "target_of nl d \<noteq> Some c"
proof (cases "de_canonical_target d")
  case None
  then have "d \<in> set (filter (\<lambda>d. de_canonical_target d = None) (filter (\<lambda>d. de_platform d = ''telegram'') (dests x)))"
    using assms(2,3) by simp
  moreover have "legacy_conflict nl c exclude (filter (\<lambda>d. de_canonical_target d = None)
      (filter (\<lambda>d. de_platform d = ''telegram'') (dests x))) = Inr ()"
    using assms(1) by (auto simp: ensure_unique_target_def tg_config_def Let_def split: if_splits)
  ultimately have "normalize_telegram_target nl (de_target_ref d) = Inr t \<Longrightarrow> fst t \<noteq> c" for t
    using legacy_conflict_Inr assms(4) by blast
  then show ?thesis using None by (auto simp: target_of_def split: sum.splits)
next
  case (Some c')
  then show ?thesis using assms
    by (auto simp: ensure_unique_target_def tg_config_def target_of_def Let_def list_ex_iff split: if_splits)
qed

lemma proxy_or_error_Inr: "proxy_or_error p x = Inr () \<Longrightarrow> p = Some i \<Longrightarrow> i \<in> tp_id ` set (td_proxies x)"
  by (auto simp: proxy_or_error_def tg_config_def dest: get_proxy_Some split: option.splits if_splits)

lemma flushed_destination_Inr: "flushed_destination d x = Inr x' \<longleftrightarrow> \<not> destination_conflict d x \<and> x' = put_destination (de_id d) (\<lambda>_. d) x"
  by (auto simp: flushed_destination_def)

lemma flushed_proxy_Inr: "flushed_proxy p x = Inr x' \<longleftrightarrow> \<not> proxy_conflict p x \<and> x' = put_proxy (tp_id p) (\<lambda>_. p) x"
  by (auto simp: flushed_proxy_def)

lemma destination_ok_secrets:
  assumes "destination_ok x d" "same_tables x x'" "secret_columns ` set (secrets x) \<subseteq> secret_columns ` set (secrets x')"
  shows "destination_ok x' d"
  using assms by (auto simp: destination_ok_def owned_secret_def same_tables_def)

lemma tg_ok_set_same_target:
  assumes ok: "tg_ok nl x" and d0: "d0 \<in> set (dests x)" and d: "destination_ok x d" "de_id d = de_id d0"
    and cols: "de_platform d = de_platform d0" "de_target_ref d = de_target_ref d0" "de_canonical_target d = de_canonical_target d0"
  shows "tg_ok nl (put_destination (de_id d) (\<lambda>_. d) x)"
proof (rule tg_ok_set_destination [OF ok d(1) d0])
  fix e assume e: "e \<in> set (dests x)" "de_id e \<noteq> de_id d"
  have "target_of nl d = target_of nl d0" unfolding target_of_def cols ..
  then have "same_target nl d e = same_target nl d0 e" by (simp add: same_target_def cols)
  then show "\<not> same_target nl d e" using e ok d0 d(2) by (metis tg_ok_def)
qed (simp add: d)

lemma tg_ok_new_secret:
  assumes "new_secret te purpose kind owner v x = Inr (s, x')" "tg_ok nl x"
  shows "tg_ok nl x'" "owned_secret x' kind purpose owner (sk_id s)" "same_tables x x'"
    "secret_columns ` set (secrets x) \<subseteq> secret_columns ` set (secrets x')"
  using tg_ok_add_secret [OF assms(2) new_secret_Inr(2,1,4) [OF assms(1)]] new_secret_Inr [OF assms(1)]
  by (auto simp: owned_secret_def)

lemma create_destination_ok:
  assumes "create_destination te name raw token proxy x = Inr (d, x')" "tg_ok (te_net te) x"
  shows "tg_ok (te_net te) x'"
proof -
  let ?i = "tg_uuid te x"
  obtain t s x1 where t: "ensure_unique_target (te_net te) (fst t) None x = Inr ()" "proxy_or_error proxy x = Inr ()"
    and s: "new_secret te ''telegram_bot_token'' ''telegram_destination'' ?i token (drawn x) = Inr (s, x1)"
    and d: "d = with_secret s (new_destination te ?i name t proxy)" and ins: "insert_destination d x1 = Inr x'"
    using assms(1) by (auto simp: create_destination_def Let_def result_bind_eq_Inr)
  have "tg_ok (te_net te) (drawn x)"
    by (rule tg_ok_same_keys [OF assms(2)]) (simp add: same_keys_def)
  note n = tg_ok_new_secret [OF s this]
  have same: "dests x1 = dests x" "td_proxies x1 = td_proxies x" using n(3) by (simp_all add: same_tables_def)
  have x': "x' = on_destinations (\<lambda>ds. ds @ [d]) x1" and fresh: "de_id d \<notin> de_id ` set (dests x1)"
    using ins by (auto simp: insert_destination_def find_destination_def find_None_iff split: if_splits)
  have id: "de_id d = ?i" by (simp add: d with_secret_def new_destination_def)
  have cols: "de_canonical_target d = Some (fst t)" "de_secret_id d = Some (sk_id s)" "de_secret_ref d = ''encrypted:'' @ sk_id s"
    "de_proxy_profile_id d = proxy" by (simp_all add: d with_secret_def new_destination_def)
  have "destination_ok x1 d"
    unfolding destination_ok_def cols id using n(2) proxy_or_error_Inr [OF t(2)] same(2) by auto
  moreover have "\<not> same_target (te_net te) d e" if "e \<in> set (dests x1)" for e
    using ensure_unique_Inr [OF t(1), of e] that cols(1) by (auto simp: same same_target_def target_of_def)
  ultimately show ?thesis unfolding x' using tg_ok_add_destination [OF n(1) _ fresh] by blast
qed

lemma patched_target_Inr:
  assumes "patched_target te raw d x = Inr (d', c)"
  shows "(d' = d \<and> \<not> c) \<or> (\<exists>t. d' = d\<lparr>de_target_ref := fst t, de_canonical_target := Some (fst t), de_target_type := Some (snd t)\<rparr> \<and> c \<and>
      ensure_unique_target (te_net te) (fst t) (Some (de_id d)) x = Inr ())"
  using assms by (auto simp: patched_target_def result_bind_eq_Inr split: option.splits)

lemma patched_proxy_Inr:
  assumes "patched_proxy proxy d x = Inr (d', c)"
  shows "(d' = d \<and> \<not> c) \<or> (\<exists>p. d' = d\<lparr>de_proxy_profile_id := p\<rparr> \<and> c \<and> proxy_or_error p x = Inr ())"
  using assms by (auto simp: patched_proxy_def result_bind_eq_Inr split: option.splits if_splits)

text \<open>What a patch leaves of a row: it is reset unless neither target nor proxy changed.\<close>

lemma patch_destination_Inr:
  assumes "patch_destination te d b x = Inr (d', x')"
  obtains "x' = put_destination (de_id d) (\<lambda>_. d') x" "de_id d' = de_id d" "de_platform d' = de_platform d"
    "de_secret_id d' = de_secret_id d" "de_secret_ref d' = de_secret_ref d"
    "(de_target_ref d' = de_target_ref d \<and> de_canonical_target d' = de_canonical_target d) \<or>
     (\<exists>c. de_canonical_target d' = Some c \<and> ensure_unique_target (te_net te) c (Some (de_id d)) x = Inr ())"
    "de_proxy_profile_id d' = de_proxy_profile_id d \<or> proxy_or_error (de_proxy_profile_id d') x = Inr ()"
    "(de_target_ref d' = de_target_ref d \<and> de_proxy_profile_id d' = de_proxy_profile_id d \<and> de_enabled d' = de_enabled d) \<or> \<not> de_enabled d'"
proof -
  define d1 where "d1 = (case dx_name b of None \<Rightarrow> d | Some n \<Rightarrow> d\<lparr>de_name := strip n\<rparr>)"
  obtain d2 c2 d3 c3 where p: "patched_target te (dx_target b) d1 x = Inr (d2, c2)"
    "patched_proxy (dx_proxy_profile_id b) d2 x = Inr (d3, c3)" "d' = (if c2 \<or> c3 then reset_destination d3 else d3)"
    "x' = put_destination (de_id d') (\<lambda>_. d') x"
    using assms by (auto simp: patch_destination_def Let_def result_bind_eq_Inr flushed_destination_Inr d1_def)
  have same: "de_id d1 = de_id d" "de_platform d1 = de_platform d" "de_secret_id d1 = de_secret_id d"
    "de_secret_ref d1 = de_secret_ref d" "de_target_ref d1 = de_target_ref d" "de_canonical_target d1 = de_canonical_target d"
    "de_proxy_profile_id d1 = de_proxy_profile_id d" "de_enabled d1 = de_enabled d"
    by (auto simp: d1_def split: option.split)
  have t: "de_id d2 = de_id d" "de_platform d2 = de_platform d" "de_secret_id d2 = de_secret_id d"
    "de_secret_ref d2 = de_secret_ref d" "de_proxy_profile_id d2 = de_proxy_profile_id d" "de_enabled d2 = de_enabled d"
    "(\<not> c2 \<and> de_target_ref d2 = de_target_ref d \<and> de_canonical_target d2 = de_canonical_target d) \<or>
     (c2 \<and> (\<exists>c. de_canonical_target d2 = Some c \<and> ensure_unique_target (te_net te) c (Some (de_id d)) x = Inr ()))"
    using patched_target_Inr [OF p(1)] same by auto
  have u: "de_id d3 = de_id d2" "de_platform d3 = de_platform d2" "de_secret_id d3 = de_secret_id d2" "de_secret_ref d3 = de_secret_ref d2"
    "de_target_ref d3 = de_target_ref d2" "de_canonical_target d3 = de_canonical_target d2" "de_enabled d3 = de_enabled d2"
    "(\<not> c3 \<and> de_proxy_profile_id d3 = de_proxy_profile_id d2) \<or> (c3 \<and> proxy_or_error (de_proxy_profile_id d3) x = Inr ())"
    using patched_proxy_Inr [OF p(2)] by auto
  have v: "de_id d' = de_id d3" "de_platform d' = de_platform d3" "de_secret_id d' = de_secret_id d3" "de_secret_ref d' = de_secret_ref d3"
    "de_target_ref d' = de_target_ref d3" "de_canonical_target d' = de_canonical_target d3" "de_proxy_profile_id d' = de_proxy_profile_id d3"
    "de_enabled d' = (if c2 \<or> c3 then False else de_enabled d3)"
    by (simp_all add: p(3) reset_destination_def)
  show ?thesis
  proof (rule that)
    show "x' = put_destination (de_id d) (\<lambda>_. d') x" using p(4) t u v by simp
    show "(de_target_ref d' = de_target_ref d \<and> de_canonical_target d' = de_canonical_target d) \<or>
      (\<exists>c. de_canonical_target d' = Some c \<and> ensure_unique_target (te_net te) c (Some (de_id d)) x = Inr ())"
      using t(7) by (auto simp: u v)
    show "de_proxy_profile_id d' = de_proxy_profile_id d \<or> proxy_or_error (de_proxy_profile_id d') x = Inr ()"
      using u(8) t(5) by (auto simp: v)
    show "(de_target_ref d' = de_target_ref d \<and> de_proxy_profile_id d' = de_proxy_profile_id d \<and> de_enabled d' = de_enabled d) \<or>
      \<not> de_enabled d'"
      using t(5,6,7) u(5,7,8) v by auto
  qed (simp_all add: t u v)
qed

lemma patch_destination_ok:
  assumes "patch_destination te d b x = Inr (d', x')" "tg_ok (te_net te) x" "d \<in> set (dests x)"
  shows "tg_ok (te_net te) x'"
  using assms(1)
proof (cases rule: patch_destination_Inr)
  case 1
  have ok: "destination_ok x d" using assms(2,3) by (simp add: tg_ok_def)
  have d': "destination_ok x d'"
    using ok 1(2,4,5,7) proxy_or_error_Inr [of "de_proxy_profile_id d'" x] by (auto simp: destination_ok_def)
  have free: "\<not> same_target (te_net te) d' e" if e: "e \<in> set (dests x)" "de_id e \<noteq> de_id d'" for e
    using 1(6)
  proof
    assume "de_target_ref d' = de_target_ref d \<and> de_canonical_target d' = de_canonical_target d"
    then have "target_of (te_net te) d' = target_of (te_net te) d" by (metis target_of_def)
    then have "same_target (te_net te) d' e = same_target (te_net te) d e" by (simp add: same_target_def 1(3))
    then show ?thesis using e 1(2) assms(2,3) by (metis tg_ok_def)
  next
    assume "\<exists>c. de_canonical_target d' = Some c \<and> ensure_unique_target (te_net te) c (Some (de_id d)) x = Inr ()"
    then obtain c where c: "de_canonical_target d' = Some c" "ensure_unique_target (te_net te) c (Some (de_id d)) x = Inr ()" by blast
    then show ?thesis using ensure_unique_Inr [OF c(2) e(1)] e(2) 1(2) by (auto simp: same_target_def target_of_def)
  qed
  show ?thesis using tg_ok_set_destination [OF assms(2) d' assms(3) _ free] 1(1,2) by simp
qed

lemma find_secret_Some: "find_secret i sx = Some s \<Longrightarrow> s \<in> set (sx_secrets sx) \<and> sk_id s = i"
  by (auto simp: find_secret_def find_Some_iff)

text \<open>The row a rotation leaves, and the tables it was put into.\<close>

lemma rotate_destination_token_Inr:
  assumes "rotate_destination_token te d v x = Inr (d', x')"
  obtains s x1 d1 where "new_secret te ''telegram_bot_token'' ''telegram_destination'' (de_id d) v x = Inr (s, x1)"
      "de_secret_id d = None" "d1 = with_secret s d" "d' = reset_destination d1" "x' = put_destination (de_id d) (\<lambda>_. d') x1"
  | s s1 x1 i where "rotated_secret te s v x = Inr (s1, x1)" "de_secret_id d = Some i" "find_secret i (td_secrets x) = Some s"
      "d' = reset_destination d" "x' = put_destination (de_id d) (\<lambda>_. d') x1"
proof (cases "de_secret_id d")
  case None
  then obtain s x1 where s: "new_secret te ''telegram_bot_token'' ''telegram_destination'' (de_id d) v x = Inr (s, x1)"
    and f: "flushed_destination (reset_destination (with_secret s d)) x1 = Inr x'" "d' = reset_destination (with_secret s d)"
    using assms by (auto simp: rotate_destination_token_def result_bind_eq_Inr Let_def)
  then have "x' = put_destination (de_id d) (\<lambda>_. d') x1"
    by (simp add: flushed_destination_Inr reset_destination_def with_secret_def)
  then show thesis using that(1) s None f(2) by blast
next
  case (Some i)
  then obtain s where s: "find_secret i (td_secrets x) = Some s"
    using assms by (cases "find_secret i (td_secrets x)") (simp_all add: rotate_destination_token_def tg_config_def)
  with assms Some obtain s1 x1 where r: "rotated_secret te s v x = Inr (s1, x1)"
    and f: "flushed_destination (reset_destination d) x1 = Inr x'" "d' = reset_destination d"
    by (auto simp: rotate_destination_token_def result_bind_eq_Inr Let_def)
  then have "x' = put_destination (de_id d) (\<lambda>_. d') x1" by (simp add: flushed_destination_Inr reset_destination_def)
  then show thesis using that(2) r Some s f(2) by blast
qed

lemma rotate_destination_token_ok:
  assumes "rotate_destination_token te d v x = Inr (d', x')" "tg_ok nl x" "d \<in> set (dests x)"
  shows "tg_ok nl x'"
  using assms(1)
proof (cases rule: rotate_destination_token_Inr)
  case (1 s x1 d1)
  note n = tg_ok_new_secret [OF 1(1) assms(2)]
  have d: "d \<in> set (dests x1)" "destination_ok x d" using n(3) assms(2,3) by (simp_all add: same_tables_def tg_ok_def)
  then have "destination_ok x1 d'"
    using destination_ok_secrets [OF d(2) n(3,4)] n(2) unfolding 1(3,4)
    by (simp add: destination_ok_def with_secret_def reset_destination_def)
  moreover have "de_id d' = de_id d" by (simp add: 1(3,4) with_secret_def reset_destination_def)
  ultimately show ?thesis
    using tg_ok_set_same_target [OF n(1) d(1), of d'] by (simp add: 1(3-5) with_secret_def reset_destination_def)
next
  case (2 s s1 x1 i)
  have keys: "same_keys x x1"
    using same_keys_rotated [OF 2(1)] find_secret_Some [OF 2(3)] assms(2) by (simp add: tg_ok_def)
  have "same_keys x1 x'" unfolding 2(5) put_destination_def
  proof (rule same_keys_destinations)
    fix e assume "e \<in> set (dests x1)" "de_id e = de_id d"
    moreover have "dests x1 = dests x" using rotated_secret_Inr(2) [OF 2(1)] by (simp add: same_tables_def)
    ultimately have "e = d" using assms(2,3) by (metis distinct_map inj_on_def tg_ok_def)
    then show "dest_key d' = dest_key e" by (simp add: 2(4))
  qed
  then show ?thesis using tg_ok_same_keys [OF assms(2) same_keys_trans [OF keys]] by blast
qed

lemma no_dependencies:
  assumes "\<not> list_ex (\<lambda>n. n \<noteq> 0) (dependency_counts (destination_dependencies i x))"
  shows "i \<notin> used_destinations (td_pub x)"
  using assms by (auto simp: destination_dependencies_def dependency_counts_def used_destinations_def Let_def filter_empty_conv)

lemma delete_destination_Inr:
  assumes "delete_destination d x = Inr x'"
  shows "de_id d \<notin> used_destinations (td_pub x)"
    "delete_secrets [de_secret_id d] (on_destinations (filter (\<lambda>e. de_id e \<noteq> de_id d)) x) = Inr x'"
  using assms no_dependencies [of "de_id d" x] by (auto simp: delete_destination_def Let_def split: if_splits)

lemma delete_destination_ok: "delete_destination d x = Inr x' \<Longrightarrow> tg_ok nl x \<Longrightarrow> tg_ok nl x'"
  using delete_destination_Inr tg_ok_delete_secrets tg_ok_remove_destination by metis

section \<open>Requests on proxies keep it too\<close>

lemma proxy_secrets_Inr:
  assumes "proxy_secrets te i c x = Inr ((u, w), x')" "tg_ok nl x"
  shows "tg_ok nl x'" "same_tables x x'"
    "u = Some j \<Longrightarrow> owned_secret x' ''telegram_proxy_profile'' ''proxy_username'' i j"
    "w = Some j \<Longrightarrow> owned_secret x' ''telegram_proxy_profile'' ''proxy_password'' i j"
proof -
  have "tg_ok nl x' \<and> same_tables x x' \<and> (u = Some j \<longrightarrow> owned_secret x' ''telegram_proxy_profile'' ''proxy_username'' i j) \<and>
    (w = Some j \<longrightarrow> owned_secret x' ''telegram_proxy_profile'' ''proxy_password'' i j)" for j
  proof (cases c)
    case None
    then show ?thesis using assms by (simp add: proxy_secrets_def)
  next
    case (Some p)
    then obtain su x1 sw where a: "new_secret te ''proxy_username'' ''telegram_proxy_profile'' i (fst p) x = Inr (su, x1)"
      and b: "new_secret te ''proxy_password'' ''telegram_proxy_profile'' i (snd p) x1 = Inr (sw, x')"
      and ids: "u = Some (sk_id su)" "w = Some (sk_id sw)"
      using assms(1) by (auto simp: proxy_secrets_def proxy_secret_def result_bind_eq_Inr split: prod.splits)
    note na = tg_ok_new_secret [OF a assms(2)]
    note nb = tg_ok_new_secret [OF b na(1)]
    show ?thesis using na nb by (auto simp: ids owned_secret_def same_tables_def)
  qed
  then show "tg_ok nl x'" "same_tables x x'"
    "u = Some j \<Longrightarrow> owned_secret x' ''telegram_proxy_profile'' ''proxy_username'' i j"
    "w = Some j \<Longrightarrow> owned_secret x' ''telegram_proxy_profile'' ''proxy_password'' i j" by blast+
qed

lemma create_proxy_Inr:
  assumes "create_proxy te name ty host port c x = Inr (p, x')"
  obtains x1 where "proxy_secrets te (tp_id p) c (drawn x) = Inr ((tp_username_secret_id p, tp_password_secret_id p), x1)"
    "tp_id p \<notin> tp_id ` set (td_proxies x1)" "x' = x1\<lparr>td_proxies := td_proxies x1 @ [p]\<rparr>"
  using assms get_proxy_None by (auto simp: create_proxy_def Let_def result_bind_eq_Inr split: if_splits)

lemma create_proxy_ok:
  assumes "create_proxy te name ty host port c x = Inr (p, x')" "tg_ok nl x"
  shows "tg_ok nl x'"
  using assms(1)
proof (cases rule: create_proxy_Inr)
  case (1 x1)
  have "tg_ok nl (drawn x)" by (rule tg_ok_same_keys [OF assms(2)]) (simp add: same_keys_def)
  note e = proxy_secrets_Inr [OF 1(1) this]
  have "proxy_ok x1 p" using e(3,4) by (auto simp: proxy_ok_def)
  then show ?thesis unfolding 1(3) by (rule tg_ok_add_proxy [OF e(1) _ 1(2)])
qed

lemma invalidate_keys: "same_keys x (invalidate_proxy_destinations i code x)"
  unfolding invalidate_proxy_destinations_def by (rule same_keys_destinations) simp

lemma tg_ok_put_proxy:
  assumes "tg_ok nl x" "p0 \<in> set (td_proxies x)" "proxy_key p = proxy_key p0"
  shows "tg_ok nl (put_proxy (tp_id p) (\<lambda>_. p) x)"
  using assms tg_ok_set_proxy proxy_key_cong by (metis tg_ok_def)

lemma patch_proxy_Inr:
  assumes "patch_proxy te p b x = Inr (p', x')"
  obtains "proxy_key p' = proxy_key p" "tp_id p' = tp_id p"
    "x' = invalidate_proxy_destinations (tp_id p) ''telegram_proxy_changed'' (put_proxy (tp_id p) (\<lambda>_. p') x) \<or>
     (x' = put_proxy (tp_id p) (\<lambda>_. p') x \<and> tp_proxy_type p' = tp_proxy_type p \<and> tp_host p' = tp_host p \<and> tp_port p' = tp_port p)"
  using assms
  by (auto simp: patch_proxy_def Let_def result_bind_eq_Inr flushed_proxy_Inr proxy_key_def unchecked_proxy_def
      split: if_splits option.splits)

lemma patch_proxy_ok:
  assumes "patch_proxy te p b x = Inr (p', x')" "tg_ok nl x" "p \<in> set (td_proxies x)"
  shows "tg_ok nl x'"
  using assms(1)
proof (cases rule: patch_proxy_Inr)
  case 1
  have "tg_ok nl (put_proxy (tp_id p) (\<lambda>_. p') x)" using tg_ok_put_proxy [OF assms(2,3) 1(1)] 1(2) by simp
  then show ?thesis using 1(3) tg_ok_same_keys [OF _ invalidate_keys] by auto
qed

lemma existing_secret_Some:
  assumes "existing_secret p purpose x = Some s" "tg_ok nl x" "p \<in> set (td_proxies x)"
  shows "s \<in> set (secrets x) \<and> sk_purpose s = purpose \<and> sk_owner_type s = ''telegram_proxy_profile'' \<and> sk_owner_id s = tp_id p"
proof -
  have mem: "(tp_username_secret_id p = Some (sk_id s) \<or> tp_password_secret_id p = Some (sk_id s)) \<and> s \<in> set (secrets x)"
    and purpose: "sk_purpose s = purpose"
    using assms(1) by (auto simp: existing_secret_def proxy_secret_ids_def tg_secret_def find_Some_iff find_append
        dest: find_secret_Some split: option.splits if_splits)
  have "\<exists>q\<in>set (secrets x). sk_id q = sk_id s \<and> sk_owner_type q = ''telegram_proxy_profile'' \<and> sk_owner_id q = tp_id p"
    using mem assms(2,3) by (auto simp: tg_ok_def proxy_ok_def owned_secret_def secret_columns_def image_iff) (metis fst_conv snd_conv)+
  then have "sk_owner_type s = ''telegram_proxy_profile'' \<and> sk_owner_id s = tp_id p"
    using mem assms(2) by (metis distinct_map inj_on_def tg_ok_def)
  then show ?thesis using mem purpose by blast
qed

definition proxy_owns :: "proxy_profile \<Rightarrow> string \<Rightarrow> encrypted_secret \<Rightarrow> bool" where
  "proxy_owns p purpose s \<longleftrightarrow> sk_purpose s = purpose \<and> sk_owner_type s = ''telegram_proxy_profile'' \<and> sk_owner_id s = tp_id p"

lemma replaced_secret_Inr:
  assumes "replaced_secret te p cur purpose v x = Inr (i, x')" "tg_ok nl x"
    and cur: "\<And>s. cur = Some s \<Longrightarrow> s \<in> set (secrets x) \<and> proxy_owns p purpose s"
  shows "tg_ok nl x'" "same_tables x x'" "owned_secret x' ''telegram_proxy_profile'' purpose (tp_id p) i"
    "\<And>q. q \<in> set (secrets x) \<Longrightarrow> sk_purpose q \<noteq> purpose \<Longrightarrow> q \<in> set (secrets x')"
    "secret_columns ` set (secrets x) \<subseteq> secret_columns ` set (secrets x')"
proof -
  have "tg_ok nl x' \<and> same_tables x x' \<and> owned_secret x' ''telegram_proxy_profile'' purpose (tp_id p) i \<and>
    (\<forall>q\<in>set (secrets x). sk_purpose q \<noteq> purpose \<longrightarrow> q \<in> set (secrets x')) \<and>
    secret_columns ` set (secrets x) \<subseteq> secret_columns ` set (secrets x')"
  proof (cases cur)
    case None
    with assms(1) obtain s where s: "new_secret te purpose ''telegram_proxy_profile'' (tp_id p) v x = Inr (s, x')" "i = sk_id s"
      by (auto simp: replaced_secret_def proxy_secret_def result_bind_eq_Inr)
    show ?thesis using tg_ok_new_secret [OF s(1) assms(2)] new_secret_Inr(1) [OF s(1)] s(2) by auto
  next
    case (Some s)
    with assms(1) obtain s1 where r: "rotated_secret te s v x = Inr (s1, x')" "i = sk_id s1"
      by (auto simp: replaced_secret_def result_bind_eq_Inr)
    note e = rotated_secret_Inr [OF r(1)] and s = cur [OF Some]
    have dist: "distinct (map sk_id (secrets x))" using assms(2) by (simp add: tg_ok_def)
    have keys: "same_keys x x'" using same_keys_rotated [OF r(1)] s dist by simp
    then have cols: "secret_columns ` set (secrets x') = secret_columns ` set (secrets x)"
      by (metis list.set_map same_keys_def)
    have "sk_id q \<noteq> sk_id s" if "q \<in> set (secrets x)" "sk_purpose q \<noteq> purpose" for q
      using that s dist by (metis distinct_map inj_on_def proxy_owns_def)
    then have keep: "\<forall>q\<in>set (secrets x). sk_purpose q \<noteq> purpose \<longrightarrow> q \<in> set (secrets x')" by (force simp: e(1) in_set_rows)
    have "secret_columns s = (i, ''telegram_proxy_profile'', tp_id p, purpose)"
      using s e(3) r(2) by (simp add: secret_columns_def proxy_owns_def)
    then have "owned_secret x' ''telegram_proxy_profile'' purpose (tp_id p) i"
      unfolding owned_secret_def cols using s by (metis image_eqI)
    then show ?thesis using tg_ok_same_keys [OF assms(2) keys] e(2) keep cols by blast
  qed
  then show "tg_ok nl x'" "same_tables x x'" "owned_secret x' ''telegram_proxy_profile'' purpose (tp_id p) i"
    "\<And>q. q \<in> set (secrets x) \<Longrightarrow> sk_purpose q \<noteq> purpose \<Longrightarrow> q \<in> set (secrets x')"
    "secret_columns ` set (secrets x) \<subseteq> secret_columns ` set (secrets x')" by blast+
qed

text \<open>The credentials are removed, or both are replaced; either way the profile and its destinations are reset.\<close>

lemma rotate_proxy_credentials_Inr:
  assumes "rotate_proxy_credentials te p c x = Inr (p', x')" "tg_ok nl x" "p \<in> set (td_proxies x)"
  obtains p1 x1 where "tp_id p1 = tp_id p" "p' = unchecked_proxy p1" "proxy_key p' = proxy_key p1" "tg_ok nl x1" "dests x1 = dests x"
    "x' = invalidate_proxy_destinations (tp_id p) ''telegram_proxy_credentials_rotated'' (put_proxy (tp_id p) (\<lambda>_. p') x1)" "proxy_ok x1 p1"
    "(c = None \<and> delete_secrets (proxy_secret_ids p) (put_proxy (tp_id p) (\<lambda>_. p1) x) = Inr x1) \<or>
     (\<exists>u w iu iw x0. c = Some (u, w) \<and> replaced_secret te p (existing_secret p ''proxy_username'' x) ''proxy_username'' u x = Inr (iu, x0) \<and>
        replaced_secret te p (existing_secret p ''proxy_password'' x) ''proxy_password'' w x0 = Inr (iw, x1))"
proof (cases c)
  case None
  let ?p = "p\<lparr>tp_username_secret_id := None, tp_password_secret_id := None\<rparr>"
  obtain x1 where del: "delete_secrets (proxy_secret_ids p) (put_proxy (tp_id p) (\<lambda>_. ?p) x) = Inr x1"
    and f: "flushed_proxy (unchecked_proxy ?p) x1 = Inr (put_proxy (tp_id p) (\<lambda>_. p') x1)" "p' = unchecked_proxy ?p"
    "x' = invalidate_proxy_destinations (tp_id p) ''telegram_proxy_credentials_rotated'' (put_proxy (tp_id p) (\<lambda>_. p') x1)"
    using assms(1) None
    by (auto simp: rotate_proxy_credentials_def Let_def result_bind_eq_Inr flushed_proxy_Inr unchecked_proxy_def)
  have "tg_ok nl (put_proxy (tp_id ?p) (\<lambda>_. ?p) x)" by (rule tg_ok_set_proxy [OF assms(2)]) (simp add: proxy_ok_def)
  then have "tg_ok nl x1" using tg_ok_delete_secrets [OF _ del] by simp
  moreover have "dests x1 = dests x" using delete_secrets_Inr(1) [OF del] by (simp add: same_tables_def)
  ultimately show ?thesis using that [of ?p x1] f(2,3) None del by (simp add: unchecked_proxy_def proxy_key_def proxy_ok_def)
next
  case (Some uw)
  then obtain u w iu iw x0 x1 where uw: "c = Some (u, w)"
    and a: "replaced_secret te p (existing_secret p ''proxy_username'' x) ''proxy_username'' u x = Inr (iu, x0)"
    and b: "replaced_secret te p (existing_secret p ''proxy_password'' x) ''proxy_password'' w x0 = Inr (iw, x1)"
    and p': "p' = unchecked_proxy (p\<lparr>tp_username_secret_id := Some iu, tp_password_secret_id := Some iw\<rparr>)"
    and x': "x' = invalidate_proxy_destinations (tp_id p) ''telegram_proxy_credentials_rotated'' (put_proxy (tp_id p) (\<lambda>_. p') x1)"
    using assms(1)
    by (cases uw) (auto simp: rotate_proxy_credentials_def Let_def result_bind_eq_Inr flushed_proxy_Inr unchecked_proxy_def)
  let ?p = "p\<lparr>tp_username_secret_id := Some iu, tp_password_secret_id := Some iw\<rparr>"
  note own = existing_secret_Some [OF _ assms(2,3)]
  have ea: "s \<in> set (secrets x) \<and> proxy_owns p ''proxy_username'' s" if "existing_secret p ''proxy_username'' x = Some s" for s
    using own [OF that] by (simp add: proxy_owns_def)
  note ra = replaced_secret_Inr [OF a assms(2) ea]
  have eb: "s \<in> set (secrets x0) \<and> proxy_owns p ''proxy_password'' s" if "existing_secret p ''proxy_password'' x = Some s" for s
    using own [OF that] ra(4) [of s] by (simp add: proxy_owns_def)
  note rb = replaced_secret_Inr [OF b ra(1) eb]
  have "proxy_ok x1 ?p" using ra(3) rb(3,5) by (auto simp: proxy_ok_def owned_secret_def)
  moreover have "dests x1 = dests x" using ra(2) rb(2) by (simp add: same_tables_def)
  ultimately show ?thesis using that [of ?p x1] p' x' rb(1) uw a b by (simp add: unchecked_proxy_def proxy_key_def)
qed

lemma rotate_proxy_credentials_ok:
  assumes "rotate_proxy_credentials te p c x = Inr (p', x')" "tg_ok nl x" "p \<in> set (td_proxies x)"
  shows "tg_ok nl x'"
  using assms
proof (cases rule: rotate_proxy_credentials_Inr)
  case (1 p1 x1)
  have "proxy_ok x1 p'" using 1(3,7) proxy_key_cong by metis
  then have "tg_ok nl (put_proxy (tp_id p') (\<lambda>_. p') x1)" by (rule tg_ok_set_proxy [OF 1(4)])
  moreover have "tp_id p' = tp_id p" using 1(1,3) by (simp add: proxy_key_def)
  ultimately show ?thesis using 1(6) tg_ok_same_keys [OF _ invalidate_keys] by simp
qed

lemma disable_proxy_keys: "same_keys x (disable_proxy p x)"
  unfolding disable_proxy_def by (rule same_keys_trans [OF same_keys_proxy invalidate_keys]) simp

lemma delete_proxy_Inr:
  assumes "delete_proxy p x = Inr x'"
  shows "\<And>d. d \<in> set (dests x) \<Longrightarrow> de_proxy_profile_id d \<noteq> Some (tp_id p)"
    "delete_secrets (proxy_secret_ids p) (x\<lparr>td_proxies := filter (\<lambda>q. tp_id q \<noteq> tp_id p) (td_proxies x)\<rparr>) = Inr x'"
  using assms by (auto simp: delete_proxy_def proxy_dependencies_def Let_def filter_empty_conv split: if_splits)

lemma delete_proxy_ok:
  assumes "delete_proxy p x = Inr x'" "tg_ok nl x"
  shows "tg_ok nl x'"
  using tg_ok_remove_proxy [OF assms(2) delete_proxy_Inr(1) [OF assms(1)]] delete_proxy_Inr(2) [OF assms(1)]
  by (rule tg_ok_delete_secrets)

lemma checking_ok:
  "check_destination te r i x = Inr (j, x') \<Longrightarrow> tg_ok nl x \<Longrightarrow> tg_ok nl x'"
  "check_proxy te id i x = Inr (j, x') \<Longrightarrow> tg_ok nl x \<Longrightarrow> tg_ok nl x'"
  "check_proxy te (\<lambda>p. p\<lparr>tp_failure_code := None\<rparr>) i x = Inr (j, x') \<Longrightarrow> tg_ok nl x \<Longrightarrow> tg_ok nl x'"
  using check_destination_keys check_proxy_keys [of te id] check_proxy_keys [of te "\<lambda>p. p\<lparr>tp_failure_code := None\<rparr>"]
  by (auto intro: tg_ok_same_keys)

lemma put_row_ok:
  assumes "tg_ok nl x" "get_destination i x = Some d" "dest_key d' = dest_key d"
  shows "tg_ok nl (put_destination i (\<lambda>_. d') x)"
proof -
  have d: "d \<in> set (dests x)" "de_id d = i" using get_destination_Some [OF assms(2)] by auto
  have "dest_key d' = dest_key e" if "e \<in> set (dests x)" "de_id e = i" for e
    using that d assms(1,3) by (metis distinct_map inj_on_def tg_ok_def)
  then show ?thesis unfolding put_destination_def by (intro tg_ok_same_keys [OF assms(1) same_keys_destinations])
qed

lemma requests_keep_ok:
  assumes "tg_handle te q x = Inr (j, x')" "tg_ok (te_net te) x"
  shows "tg_ok (te_net te) x'"
proof (cases q)
  case (Create_Destination name target token proxy)
  with assms(1) obtain d x1 j' where "create_destination te name target token proxy x = Inr (d, x1)"
    and c: "check_destination te False (de_id d) x1 = Inr (j', x')" by (auto simp: result_bind_eq_Inr)
  then have "tg_ok (te_net te) x1" using create_destination_ok assms(2) by blast
  then show ?thesis by (rule checking_ok(1) [OF c])
next
  case (Patch_Destination i b)
  with assms(1) obtain d d1 x1 j' where "get_destination i x = Some d" "patch_destination te d b x = Inr (d1, x1)"
    and c: "check_destination te False i x1 = Inr (j', x')" by (auto simp: result_bind_eq_Inr locked_Inr)
  then have "tg_ok (te_net te) x1" using patch_destination_ok assms(2) get_destination_Some by blast
  then show ?thesis by (rule checking_ok(1) [OF c])
next
  case (Rotate_Token i v)
  with assms(1) obtain d d1 x1 j' where "get_destination i x = Some d" "rotate_destination_token te d v x = Inr (d1, x1)"
    and c: "check_destination te False i x1 = Inr (j', x')" by (auto simp: result_bind_eq_Inr locked_Inr)
  then have "tg_ok (te_net te) x1" using rotate_destination_token_ok assms(2) get_destination_Some by blast
  then show ?thesis by (rule checking_ok(1) [OF c])
next
  case (Recheck_Destination i)
  with assms(1) obtain j' where c: "check_destination te True i x = Inr (j', x')" by (auto simp: result_bind_eq_Inr)
  show ?thesis using assms(2) by (rule checking_ok(1) [OF c])
next
  case (Enable_Destination i)
  with assms(1) obtain d where d: "get_destination i x = Some d" and x': "x' = put_destination i (\<lambda>_. d\<lparr>de_enabled := True\<rparr>) x"
    by (auto simp: result_bind_eq_Inr locked_Inr enable_destination_def tg_config_def split: if_splits)
  show ?thesis unfolding x' by (rule put_row_ok [OF assms(2) d]) simp
next
  case (Disable_Destination i)
  with assms(1) obtain d where d: "get_destination i x = Some d" and x': "x' = put_destination i (\<lambda>_. disable_destination d) x"
    by (auto simp: result_bind_eq_Inr locked_Inr)
  show ?thesis unfolding x' by (rule put_row_ok [OF assms(2) d]) simp
next
  case (Delete_Destination i)
  with assms show ?thesis using delete_destination_ok by (auto simp: result_bind_eq_Inr)
next
  case (Create_Proxy name ty host port c)
  with assms(1) obtain p x1 j' where "create_proxy te name ty host port c x = Inr (p, x1)"
    and c: "check_proxy te id (tp_id p) x1 = Inr (j', x')" by (auto simp: result_bind_eq_Inr)
  then have "tg_ok (te_net te) x1" using create_proxy_ok assms(2) by blast
  then show ?thesis by (rule checking_ok(2) [OF c])
next
  case (Patch_Proxy i b)
  with assms(1) obtain p p1 x1 j' where "get_proxy i x = Some p" "patch_proxy te p b x = Inr (p1, x1)"
    and c: "check_proxy te id i x1 = Inr (j', x')" by (auto simp: result_bind_eq_Inr locked_Inr)
  then have "tg_ok (te_net te) x1" using patch_proxy_ok assms(2) get_proxy_Some by blast
  then show ?thesis by (rule checking_ok(2) [OF c])
next
  case (Rotate_Credentials i cr)
  with assms(1) obtain p p1 x1 j' where "get_proxy i x = Some p" "rotate_proxy_credentials te p cr x = Inr (p1, x1)"
    and c: "check_proxy te id i x1 = Inr (j', x')" by (auto simp: result_bind_eq_Inr locked_Inr)
  then have "tg_ok (te_net te) x1" using rotate_proxy_credentials_ok assms(2) get_proxy_Some by blast
  then show ?thesis by (rule checking_ok(2) [OF c])
next
  case (Recheck_Proxy i)
  with assms(1) obtain j' where c: "check_proxy te (\<lambda>p. p\<lparr>tp_failure_code := None\<rparr>) i x = Inr (j', x')" by (auto simp: result_bind_eq_Inr)
  show ?thesis using assms(2) by (rule checking_ok(3) [OF c])
next
  case (Enable_Proxy i)
  with assms(1) obtain p where p: "get_proxy i x = Some p" and x': "x' = put_proxy i (\<lambda>_. p\<lparr>tp_enabled := True\<rparr>) x"
    by (auto simp: result_bind_eq_Inr locked_Inr enable_proxy_def tg_config_def split: if_splits)
  then show ?thesis using tg_ok_put_proxy [OF assms(2), of p "p\<lparr>tp_enabled := True\<rparr>"] get_proxy_Some [OF p] by simp
next
  case (Disable_Proxy i)
  with assms show ?thesis using tg_ok_same_keys [OF _ disable_proxy_keys] by (auto simp: result_bind_eq_Inr)
next
  case (Delete_Proxy i)
  with assms show ?thesis using delete_proxy_ok by (auto simp: result_bind_eq_Inr)
qed

end
