(* ===== verification/Telegram_Destinations_Run.thy ===== *)
theory Telegram_Destinations_Run
  imports Telegram_Destinations_Spec
begin

text \<open>
  The destinations along a run of the program: requests, the transactions of the health checks, publish
  intents and whatever leaves the four tables alone.  The invariant of \<open>Telegram_Destinations_Spec\<close> is kept,
  and a destination is only ever enabled with the setup its last check succeeded with.
\<close>

section \<open>Publish intents name existing destinations\<close>

definition job_destinations :: "pub_db \<Rightarrow> uuid list" where
  "job_destinations y = map pj_destination_id (db_publish_jobs (pu_db y))"

text \<open>The rows an intent leaves, and the destinations of its publish jobs.\<close>

definition adds_job_for :: "uuid set \<Rightarrow> pub_db \<Rightarrow> pub_db \<Rightarrow> bool" where
  "adds_job_for ds y y' \<longleftrightarrow> pu_destinations y' = pu_destinations y \<and> pu_routes y' = pu_routes y \<and>
     pu_publications y' = pu_publications y \<and> set (job_destinations y') \<subseteq> ds \<union> set (job_destinations y)"

lemma adds_job_refl [simp]: "adds_job_for ds y y"
  by (simp add: adds_job_for_def)

lemma adds_job_trans: "adds_job_for ds x y \<Longrightarrow> adds_job_for ds y z \<Longrightarrow> adds_job_for ds x z"
  by (auto simp: adds_job_for_def)

lemma adds_job_used: "adds_job_for ds y y' \<Longrightarrow> used_destinations y' \<subseteq> ds \<union> used_destinations y"
  by (auto simp: adds_job_for_def used_destinations_def job_destinations_def)

lemma adds_job_frame:
  "adds_job_for ds y (log_event env jb ty actor data y)"
  "(\<And>p. pj_destination_id (f p) = pj_destination_id p) \<Longrightarrow> adds_job_for ds y (put_publish_job env i f y)"
  by (auto simp: adds_job_for_def job_destinations_def log_event_def append_event_def put_publish_job_def on_db_def Let_def
      in_set_rows flush_publish_job_def split: if_splits)

lemma adds_job_enqueue: "enqueue_job env r (pu_db y) = Inr (jc, d) \<Longrightarrow> adds_job_for ds y (y\<lparr>pu_db := d\<rparr>)"
  using enqueue_publish_jobs by (fastforce simp: adds_job_for_def job_destinations_def)

lemma adds_job_insert: "insert_publish_job p y = Some y' \<Longrightarrow> pj_destination_id p \<in> ds \<Longrightarrow> adds_job_for ds y y'"
  by (auto simp: insert_publish_job_def adds_job_for_def job_destinations_def on_db_def split: if_splits)

lemma adds_job_immediate: "immediate_intent env r dest y = Inr (p, y') \<Longrightarrow> adds_job_for {dest} y y'"
  by (auto simp: immediate_intent_def Let_def new_publish_job_def intro: adds_job_insert split: option.splits if_splits)

lemma adds_job_scheduled: "scheduled_intent env now r dest t y = Inr (pc, y') \<Longrightarrow> adds_job_for {dest} y y'"
  by (auto simp: scheduled_intent_def Let_def new_publish_job_def conflict_def not_future_def
      intro: adds_job_insert split: option.splits if_splits)

section \<open>Setups\<close>

text \<open>All a destination's checks depend on: the target, the token's secret, and the proxy with its credentials.\<close>

definition proxy_columns :: "proxy_profile \<Rightarrow> uuid \<times> string \<times> string \<times> int \<times> uuid option \<times> uuid option" where
  "proxy_columns p = (tp_id p, tp_proxy_type p, tp_host p, tp_port p, tp_username_secret_id p, tp_password_secret_id p)"

definition proxy_setup :: "tg_db \<Rightarrow> proxy_profile \<Rightarrow>
  (string \<times> string \<times> int) \<times> encrypted_secret option \<times> encrypted_secret option" where
  "proxy_setup x p = ((tp_proxy_type p, tp_host p, tp_port p), tg_secret (tp_username_secret_id p) x, tg_secret (tp_password_secret_id p) x)"

definition setup_of :: "tg_db \<Rightarrow> destination \<Rightarrow> string \<times> encrypted_secret option \<times>
  ((string \<times> string \<times> int) \<times> encrypted_secret option \<times> encrypted_secret option) option" where
  "setup_of x d = (de_target_ref d, tg_secret (de_secret_id d) x,
     Option.bind (de_proxy_profile_id d) (\<lambda>k. map_option (proxy_setup x) (get_proxy k x)))"

definition reads_secret :: "tg_db \<Rightarrow> destination \<Rightarrow> uuid \<Rightarrow> bool" where
  "reads_secret x d i \<longleftrightarrow> de_secret_id d = Some i \<or>
     (\<exists>k p. de_proxy_profile_id d = Some k \<and> get_proxy k x = Some p \<and>
        (tp_username_secret_id p = Some i \<or> tp_password_secret_id p = Some i))"

lemma setup_cong:
  assumes "de_target_ref d' = de_target_ref d" "de_secret_id d' = de_secret_id d" "de_proxy_profile_id d' = de_proxy_profile_id d"
    and reads: "\<And>i. reads_secret x d i \<Longrightarrow> find_secret i (td_secrets x') = find_secret i (td_secrets x)"
    and px: "\<And>k. de_proxy_profile_id d = Some k \<Longrightarrow>
      map_option proxy_columns (get_proxy k x') = map_option proxy_columns (get_proxy k x)"
  shows "setup_of x' d' = setup_of x d"
proof -
  have s: "tg_secret (de_secret_id d') x' = tg_secret (de_secret_id d) x"
    using assms(2) reads by (auto simp: tg_secret_def reads_secret_def split: option.split)
  have "Option.bind (de_proxy_profile_id d') (\<lambda>k. map_option (proxy_setup x') (get_proxy k x')) =
    Option.bind (de_proxy_profile_id d) (\<lambda>k. map_option (proxy_setup x) (get_proxy k x))"
  proof (cases "de_proxy_profile_id d")
    case (Some k)
    show ?thesis
    proof (cases "get_proxy k x")
      case None
      then show ?thesis using px [OF Some] by (simp add: Some assms(3))
    next
      case p: (Some p)
      then obtain p' where p': "get_proxy k x' = Some p'" "proxy_columns p' = proxy_columns p"
        using px [OF Some] by (cases "get_proxy k x'") simp_all
      have "find_secret i (td_secrets x') = find_secret i (td_secrets x)"
        if "tp_username_secret_id p = Some i \<or> tp_password_secret_id p = Some i" for i
        using that Some p by (intro reads) (auto simp: reads_secret_def)
      then have "proxy_setup x' p' = proxy_setup x p"
        using p'(2) by (simp add: proxy_setup_def proxy_columns_def tg_secret_def split: option.split)
      then show ?thesis using p p'(1) Some assms(3) by simp
    qed
  qed (simp add: assms(3))
  then show ?thesis using s by (simp add: setup_of_def assms(1))
qed

lemma find_same_columns:
  assumes "map f ys = map f xs" "\<And>x y. f x = f y \<Longrightarrow> P x = P y"
  shows "map_option f (find P ys) = map_option f (find P xs)"
  using assms(1)
proof (induction xs arbitrary: ys)
  case (Cons x xs)
  then obtain y ys' where "ys = y # ys'" "f y = f x" "map f ys' = map f xs" by auto
  then show ?case using Cons.IH [of ys'] assms(2) [of y x] by simp
qed simp

lemma get_proxy_columns:
  assumes "map proxy_columns (td_proxies x') = map proxy_columns (td_proxies x)"
  shows "map_option proxy_columns (get_proxy k x') = map_option proxy_columns (get_proxy k x)"
  unfolding get_proxy_def by (rule find_same_columns [OF assms]) (simp add: proxy_columns_def)

text \<open>A change keeps the setups when every destination it leaves enabled was enabled with the same one.\<close>

definition setup_columns :: "destination \<Rightarrow> uuid \<times> string \<times> uuid option \<times> uuid option" where
  "setup_columns d = (de_id d, de_target_ref d, de_secret_id d, de_proxy_profile_id d)"

definition keeps_setups :: "tg_db \<Rightarrow> tg_db \<Rightarrow> bool" where
  "keeps_setups x x' \<longleftrightarrow>
     (\<forall>d'\<in>set (dests x'). de_enabled d' \<longrightarrow>
        (\<exists>d\<in>set (dests x). de_id d = de_id d' \<and> de_enabled d \<and> setup_of x d = setup_of x' d'))"

lemma keeps_setups_trans: "keeps_setups x y \<Longrightarrow> keeps_setups y z \<Longrightarrow> keeps_setups x z"
  unfolding keeps_setups_def by metis

lemma keeps_setupsI:
  assumes "\<And>d'. d' \<in> set (dests x') \<Longrightarrow> de_enabled d' \<Longrightarrow>
      \<exists>d\<in>set (dests x). setup_columns d = setup_columns d' \<and> de_enabled d \<and>
        (\<forall>i. reads_secret x d i \<longrightarrow> find_secret i (td_secrets x') = find_secret i (td_secrets x)) \<and>
        (\<forall>k. de_proxy_profile_id d = Some k \<longrightarrow>
           map_option proxy_columns (get_proxy k x') = map_option proxy_columns (get_proxy k x))"
  shows "keeps_setups x x'"
  unfolding keeps_setups_def
proof (intro ballI impI)
  fix d' assume "d' \<in> set (dests x')" "de_enabled d'"
  from assms [OF this] obtain d where d: "d \<in> set (dests x)" "setup_columns d = setup_columns d'" "de_enabled d"
    and r: "\<And>i. reads_secret x d i \<Longrightarrow> find_secret i (td_secrets x') = find_secret i (td_secrets x)"
    and k: "\<And>k. de_proxy_profile_id d = Some k \<Longrightarrow>
           map_option proxy_columns (get_proxy k x') = map_option proxy_columns (get_proxy k x)" by blast
  have "setup_of x' d' = setup_of x d" using d(2) by (intro setup_cong r k) (simp_all add: setup_columns_def)
  then show "\<exists>d\<in>set (dests x). de_id d = de_id d' \<and> de_enabled d \<and> setup_of x d = setup_of x' d'"
    using d by (intro bexI [of _ d]) (simp_all add: setup_columns_def)
qed

text \<open>Writes that leave the columns the setups are made of.\<close>

lemma keeps_setups_same:
  assumes "map (\<lambda>d. (setup_columns d, de_enabled d)) (dests x') = map (\<lambda>d. (setup_columns d, de_enabled d)) (dests x)"
    "map proxy_columns (td_proxies x') = map proxy_columns (td_proxies x)" "secrets x' = secrets x"
  shows "keeps_setups x x'"
proof (rule keeps_setupsI)
  fix d' assume d': "d' \<in> set (dests x')" "de_enabled d'"
  obtain d where "d \<in> set (dests x)" "setup_columns d = setup_columns d'" "de_enabled d"
    using map_eq_in [OF assms(1) d'(1)] d'(2) by (metis prod.inject)
  then show "\<exists>d\<in>set (dests x). setup_columns d = setup_columns d' \<and> de_enabled d \<and>
        (\<forall>i. reads_secret x d i \<longrightarrow> find_secret i (td_secrets x') = find_secret i (td_secrets x)) \<and>
        (\<forall>k. de_proxy_profile_id d = Some k \<longrightarrow>
           map_option proxy_columns (get_proxy k x') = map_option proxy_columns (get_proxy k x))"
    using get_proxy_columns [OF assms(2)] assms(3) by (auto simp: find_secret_def)
qed

lemma find_set_rows_apart: "(\<And>a. a \<in> set as \<Longrightarrow> Q a \<Longrightarrow> \<not> P a \<and> \<not> P (f a)) \<Longrightarrow> find P (set_rows Q f as) = find P as"
  by (induction as) (auto simp: set_rows_def)

lemma find_filter_kept: "(\<And>a. a \<in> set as \<Longrightarrow> P a \<Longrightarrow> Q a) \<Longrightarrow> find P (filter Q as) = find P as"
  by (induction as) auto

text \<open>Secrets whose rows a destination neither reads nor reads through its proxy.\<close>

definition reads_kept :: "(destination \<Rightarrow> bool) \<Rightarrow> tg_db \<Rightarrow> tg_db \<Rightarrow> bool" where
  "reads_kept E x x' \<longleftrightarrow> same_tables x x' \<and>
     (\<forall>d\<in>set (dests x). \<not> E d \<longrightarrow> (\<forall>i. reads_secret x d i \<longrightarrow> find_secret i (td_secrets x') = find_secret i (td_secrets x)))"

lemma reads_secret_same: "same_tables x x' \<Longrightarrow> reads_secret x' d i = reads_secret x d i"
  by (simp add: reads_secret_def same_tables_def get_proxy_def)

lemma reads_kept_trans:
  assumes "reads_kept E x y" "reads_kept E y z"
  shows "reads_kept E x z"
proof -
  have s: "same_tables x y" "same_tables y z" using assms by (simp_all add: reads_kept_def)
  then have "same_tables x z" "dests y = dests x" by (simp_all add: same_tables_def)
  then show ?thesis using assms reads_secret_same [OF s(1)] by (simp add: reads_kept_def)
qed

lemma reads_kept_weaken: "reads_kept (\<lambda>_. False) x x' \<Longrightarrow> reads_kept E x x'"
  by (simp add: reads_kept_def)

lemma secret_owner:
  assumes "tg_ok nl x" "d \<in> set (dests x)" "reads_secret x d i"
  obtains s where "s \<in> set (secrets x)" "sk_id s = i"
    "(sk_owner_type s = ''telegram_destination'' \<and> sk_owner_id s = de_id d) \<or>
     (sk_owner_type s = ''telegram_proxy_profile'' \<and> de_proxy_profile_id d = Some (sk_owner_id s))"
proof -
  have d: "destination_ok x d" and p: "\<And>p. p \<in> set (td_proxies x) \<Longrightarrow> proxy_ok x p" using assms(1,2) by (auto simp: tg_ok_def)
  from assms(3) consider "de_secret_id d = Some i"
    | k p where "de_proxy_profile_id d = Some k" "get_proxy k x = Some p" "tp_username_secret_id p = Some i \<or> tp_password_secret_id p = Some i"
    by (auto simp: reads_secret_def)
  then show thesis
  proof cases
    case 1
    then have "owned_secret x ''telegram_destination'' ''telegram_bot_token'' (de_id d) i" using d by (simp add: destination_ok_def)
    then show thesis using that by (auto simp: owned_secret_def secret_columns_def)
  next
    case (2 k p)
    then obtain purpose where "owned_secret x ''telegram_proxy_profile'' purpose k i"
      using p [of p] get_proxy_Some [OF 2(2)] by (auto simp: proxy_ok_def)
    then show thesis using that 2(1) by (auto simp: owned_secret_def secret_columns_def)
  qed
qed

lemma reads_kept_new_secret:
  assumes "new_secret te purpose kind owner v x = Inr (s, x')" "tg_ok nl x"
  shows "reads_kept (\<lambda>_. False) x x'"
proof -
  note e = new_secret_Inr [OF assms(1)]
  have "find_secret i (td_secrets x') = find_secret i (td_secrets x)" if d: "d \<in> set (dests x)" "reads_secret x d i" for d i
  proof -
    obtain q where "q \<in> set (secrets x)" "sk_id q = i" by (rule secret_owner [OF assms(2) d])
    then have "find (\<lambda>s. sk_id s = i) (secrets x) \<noteq> None" by (auto simp: find_None_iff)
    then show ?thesis by (auto simp: find_secret_def e(1) find_append split: option.split)
  qed
  then show ?thesis using e(2) by (simp add: reads_kept_def)
qed

lemma reads_kept_rotated:
  assumes "rotated_secret te s v x = Inr (s1, x')" "tg_ok nl x" "s \<in> set (secrets x)"
    and E: "\<And>d. d \<in> set (dests x) \<Longrightarrow>
      (sk_owner_type s = ''telegram_destination'' \<and> sk_owner_id s = de_id d) \<or>
      (sk_owner_type s = ''telegram_proxy_profile'' \<and> de_proxy_profile_id d = Some (sk_owner_id s)) \<Longrightarrow> E d"
  shows "reads_kept E x x'"
proof -
  note e = rotated_secret_Inr [OF assms(1)]
  have "find_secret i (td_secrets x') = find_secret i (td_secrets x)"
    if d: "d \<in> set (dests x)" "reads_secret x d i" "\<not> E d" for d i
  proof -
    obtain q where q: "q \<in> set (secrets x)" "sk_id q = i"
      "(sk_owner_type q = ''telegram_destination'' \<and> sk_owner_id q = de_id d) \<or>
       (sk_owner_type q = ''telegram_proxy_profile'' \<and> de_proxy_profile_id d = Some (sk_owner_id q))"
      by (rule secret_owner [OF assms(2) d(1,2)])
    then have "q \<noteq> s" using E d by blast
    then have "i \<noteq> sk_id s" using q(1,2) assms(2,3) by (metis distinct_map inj_on_def tg_ok_def)
    moreover have "sk_id s1 = sk_id s" using e(3) by (simp add: secret_columns_def)
    ultimately show ?thesis unfolding find_secret_def e(1) by (intro find_set_rows_apart) auto
  qed
  then show ?thesis using e(2) by (simp add: reads_kept_def)
qed

lemma reads_kept_deleted:
  assumes "delete_secrets is x = Inr x'"
  shows "reads_kept (\<lambda>_. False) x x'"
proof -
  note e = delete_secrets_Inr [OF assms]
  have "find_secret i (td_secrets x') = find_secret i (td_secrets x)" if d: "d \<in> set (dests x)" "reads_secret x d i" for d i
  proof -
    have "secret_in_use i x" using d get_proxy_Some by (auto simp: reads_secret_def secret_in_use_def list_ex_iff)
    then have "Some (sk_id s) \<notin> set is" if "s \<in> set (secrets x)" "sk_id s = i" for s using that e(3) by auto
    then show ?thesis unfolding find_secret_def e(2) by (intro find_filter_kept) auto
  qed
  then show ?thesis using e(1) by (simp add: reads_kept_def)
qed

text \<open>The shape of most changes: secrets first, then rows; what is enabled after was untouched.\<close>

lemma keeps_setups_rows:
  assumes "reads_kept E x y" "secrets x' = secrets y"
    and rows: "\<And>d'. d' \<in> set (dests x') \<Longrightarrow> de_enabled d' \<Longrightarrow>
      \<exists>d\<in>set (dests x). setup_columns d = setup_columns d' \<and> de_enabled d \<and> \<not> E d \<and>
        (\<forall>k. de_proxy_profile_id d = Some k \<longrightarrow>
           map_option proxy_columns (get_proxy k x') = map_option proxy_columns (get_proxy k x))"
  shows "keeps_setups x x'"
proof (rule keeps_setupsI)
  fix d' assume "d' \<in> set (dests x')" "de_enabled d'"
  from rows [OF this] obtain d where d: "d \<in> set (dests x)" "setup_columns d = setup_columns d'" "de_enabled d" "\<not> E d"
    and k: "\<And>k. de_proxy_profile_id d = Some k \<Longrightarrow>
           map_option proxy_columns (get_proxy k x') = map_option proxy_columns (get_proxy k x)" by blast
  have "find_secret i (td_secrets x') = find_secret i (td_secrets x)" if "reads_secret x d i" for i
    using assms(1,2) d that by (simp add: reads_kept_def find_secret_def)
  then show "\<exists>d\<in>set (dests x). setup_columns d = setup_columns d' \<and> de_enabled d \<and>
        (\<forall>i. reads_secret x d i \<longrightarrow> find_secret i (td_secrets x') = find_secret i (td_secrets x)) \<and>
        (\<forall>k. de_proxy_profile_id d = Some k \<longrightarrow>
           map_option proxy_columns (get_proxy k x') = map_option proxy_columns (get_proxy k x))"
    using d k by blast
qed

section \<open>What each change keeps\<close>

lemma keeps_setups_refl [simp]: "keeps_setups x x"
  by (auto simp: keeps_setups_def)

lemma keeps_setups_put:
  assumes "\<And>d. setup_columns (f d) = setup_columns d" "\<And>d. de_enabled (f d) = de_enabled d"
  shows "keeps_setups x (put_destination i f x)"
  by (rule keeps_setups_same) (simp_all add: map_set_rows assms)

lemma keeps_setups_put_proxy:
  assumes "\<And>p. proxy_columns (f p) = proxy_columns p"
  shows "keeps_setups x (put_proxy i f x)"
  by (rule keeps_setups_same) (simp_all add: map_set_rows assms)

lemma setup_columns_simps [simp]:
  "setup_columns (mark_destination_checking r d) = setup_columns d" "de_enabled (mark_destination_checking r d) = de_enabled d"
  "setup_columns (flush_destination a b d) = setup_columns d" "de_enabled (flush_destination a b d) = de_enabled d"
  "proxy_columns (flush_proxy a2 b2 p) = proxy_columns p" "proxy_columns (p\<lparr>tp_enabled := on\<rparr>) = proxy_columns p"
  "proxy_columns (p\<lparr>tp_reachability_status := r2\<rparr>) = proxy_columns p" "proxy_columns (p\<lparr>tp_failure_code := c\<rparr>) = proxy_columns p"
  by (simp_all add: setup_columns_def mark_destination_checking_def flush_destination_def proxy_columns_def flush_proxy_def)

lemma keeps_setups_tables: "same_tables x x' \<Longrightarrow> td_secrets x' = td_secrets x \<Longrightarrow> keeps_setups x x'"
  by (rule keeps_setups_same) (simp_all add: same_tables_def)

lemma checking_keeps:
  "check_destination te r i x = Inr (j, x') \<Longrightarrow> keeps_setups x x'"
  "check_proxy te id i x = Inr (j, x') \<Longrightarrow> keeps_setups x x'"
  "check_proxy te (\<lambda>p. p\<lparr>tp_failure_code := None\<rparr>) i x = Inr (j, x') \<Longrightarrow> keeps_setups x x'"
  unfolding check_destination_def check_proxy_def
  by (rule keeps_setups_trans [OF keeps_setups_put keeps_setups_tables [OF enqueue_check_Inr]]
      keeps_setups_trans [OF keeps_setups_put_proxy keeps_setups_tables [OF enqueue_check_Inr]]; simp)+

lemma reset_simps [simp]:
  "\<not> de_enabled (reset_destination d)" "setup_columns (reset_destination d) = setup_columns d"
  by (simp_all add: reset_destination_def setup_columns_def)

text \<open>A row that replaces its old version: with the old setup, or disabled.\<close>

lemma keeps_setups_set:
  assumes "reads_kept (\<lambda>e. de_id e = i) x y" "dests x' = set_rows (\<lambda>e. de_id e = i) (\<lambda>_. d') (dests y)"
    "td_proxies x' = td_proxies y" "secrets x' = secrets y" "\<not> de_enabled d'"
  shows "keeps_setups x x'"
proof (rule keeps_setups_rows [OF assms(1,4)])
  fix e assume e: "e \<in> set (dests x')" "de_enabled e"
  have "dests y = dests x" "td_proxies y = td_proxies x" using assms(1) by (simp_all add: reads_kept_def same_tables_def)
  then have "e \<in> set (dests x)" "de_id e \<noteq> i" "td_proxies x' = td_proxies x"
    using e assms(2,3,5) by (auto simp: in_set_rows split: if_splits)
  then show "\<exists>d\<in>set (dests x). setup_columns d = setup_columns e \<and> de_enabled d \<and> \<not> de_id d = i \<and>
        (\<forall>k. de_proxy_profile_id d = Some k \<longrightarrow> map_option proxy_columns (get_proxy k x') = map_option proxy_columns (get_proxy k x))"
    using e(2) by (intro bexI [of _ e]) (auto simp: get_proxy_def)
qed

lemma reads_kept_refl [simp]: "reads_kept E x x"
  by (simp add: reads_kept_def)

lemma patch_destination_keeps:
  assumes "patch_destination te d b x = Inr (d', x')" "tg_ok nl x" "d \<in> set (dests x)"
  shows "keeps_setups x x'"
  using assms(1)
proof (cases rule: patch_destination_Inr)
  case 1
  from 1(8) show ?thesis
  proof
    assume same: "de_target_ref d' = de_target_ref d \<and> de_proxy_profile_id d' = de_proxy_profile_id d \<and> de_enabled d' = de_enabled d"
    have "(setup_columns d', de_enabled d') = (setup_columns e, de_enabled e)" if "e \<in> set (dests x)" "de_id e = de_id d" for e
    proof -
      have "e = d" using that assms(2,3) by (metis distinct_map inj_on_def tg_ok_def)
      then show ?thesis using same 1(2,4) by (simp add: setup_columns_def)
    qed
    then show ?thesis by (intro keeps_setups_same) (simp_all add: 1(1) map_set_rows)
  next
    assume "\<not> de_enabled d'"
    then show ?thesis by (intro keeps_setups_set [OF reads_kept_refl]) (simp_all add: 1(1))
  qed
qed

lemma create_destination_keeps:
  assumes "create_destination te name target token proxy x = Inr (d, x')" "tg_ok nl x"
  shows "keeps_setups x x'"
proof -
  obtain t s x1 where s: "new_secret te ''telegram_bot_token'' ''telegram_destination'' (tg_uuid te x) token (drawn x) = Inr (s, x1)"
    and d: "d = with_secret s (new_destination te (tg_uuid te x) name t proxy)" and ins: "insert_destination d x1 = Inr x'"
    using assms(1) by (auto simp: create_destination_def Let_def result_bind_eq_Inr)
  have "tg_ok nl (drawn x)" by (rule tg_ok_same_keys [OF assms(2)]) (simp add: same_keys_def)
  then have r: "reads_kept (\<lambda>_. False) (drawn x) x1" by (rule reads_kept_new_secret [OF s])
  then have rows: "dests x1 = dests x" "td_proxies x1 = td_proxies x" by (simp_all add: reads_kept_def same_tables_def)
  have x': "x' = on_destinations (\<lambda>ds. ds @ [d]) x1" using ins by (auto simp: insert_destination_def split: if_splits)
  have off: "\<not> de_enabled d" by (simp add: d with_secret_def new_destination_def)
  have "keeps_setups (drawn x) x'"
  proof (rule keeps_setups_rows [OF r])
    show "secrets x' = secrets x1" by (simp add: x')
    fix e assume "e \<in> set (dests x')" "de_enabled e"
    then have e: "e \<in> set (dests x)" "de_enabled e" using off by (auto simp: x' rows)
    then show "\<exists>d\<in>set (dests (drawn x)). setup_columns d = setup_columns e \<and> de_enabled d \<and> \<not> False \<and>
        (\<forall>k. de_proxy_profile_id d = Some k \<longrightarrow>
           map_option proxy_columns (get_proxy k x') = map_option proxy_columns (get_proxy k (drawn x)))"
      by (intro bexI [of _ e]) (simp_all add: x' get_proxy_def rows)
  qed
  moreover have "keeps_setups x (drawn x)" by (rule keeps_setups_same) simp_all
  ultimately show ?thesis using keeps_setups_trans by blast
qed

lemma rotate_token_keeps:
  assumes "rotate_destination_token te d v x = Inr (d', x')" "tg_ok nl x" "d \<in> set (dests x)"
  shows "keeps_setups x x'"
  using assms(1)
proof (cases rule: rotate_destination_token_Inr)
  case (1 s x1 d1)
  have "reads_kept (\<lambda>e. de_id e = de_id d) x x1" by (rule reads_kept_weaken [OF reads_kept_new_secret [OF 1(1) assms(2)]])
  then show ?thesis by (rule keeps_setups_set [where d' = d']) (simp_all add: 1(4,5))
next
  case (2 s s1 x1 i)
  have s: "s \<in> set (secrets x)" "sk_id s = i" using find_secret_Some [OF 2(3)] by simp_all
  have "owned_secret x ''telegram_destination'' ''telegram_bot_token'' (de_id d) i"
    using assms(2,3) 2(2) by (simp add: tg_ok_def destination_ok_def)
  then obtain q where "q \<in> set (secrets x)" "sk_id q = i" "sk_owner_type q = ''telegram_destination''" "sk_owner_id q = de_id d"
    by (auto simp: owned_secret_def secret_columns_def)
  then have "sk_owner_type s = ''telegram_destination''" "sk_owner_id s = de_id d"
    using s assms(2) by (metis distinct_map inj_on_def tg_ok_def)+
  then have "reads_kept (\<lambda>e. de_id e = de_id d) x x1" by (intro reads_kept_rotated [OF 2(1) assms(2) s(1)]) auto
  then show ?thesis by (rule keeps_setups_set [where d' = d']) (simp_all add: 2(4,5))
qed

lemma delete_destination_keeps:
  assumes "delete_destination d x = Inr x'"
  shows "keeps_setups x x'"
proof -
  let ?y = "on_destinations (filter (\<lambda>e. de_id e \<noteq> de_id d)) x"
  have "keeps_setups x ?y" by (rule keeps_setupsI) (auto simp: get_proxy_def)
  moreover have "keeps_setups ?y x'"
    by (rule keeps_setups_rows [OF reads_kept_deleted [OF delete_destination_Inr(2) [OF assms]] refl])
      (use delete_secrets_Inr(1) [OF delete_destination_Inr(2) [OF assms]] in \<open>auto simp: same_tables_def get_proxy_def\<close>)
  ultimately show ?thesis by (rule keeps_setups_trans)
qed

text \<open>A proxy that is changed takes its destinations out of service.\<close>

lemma invalidated_rows:
  assumes "e \<in> set (dests (invalidate_proxy_destinations i code x))" "de_enabled e"
  shows "e \<in> set (dests x)" "de_proxy_profile_id e \<noteq> Some i"
proof -
  obtain d where d: "d \<in> set (dests x)" "e = (if de_proxy_profile_id d = Some i then (reset_destination d)\<lparr>de_failure_code := Some code\<rparr> else d)"
    using assms(1) by (auto simp: invalidate_proxy_destinations_def in_set_rows)
  then have "de_proxy_profile_id d \<noteq> Some i" using assms(2) by (auto simp: reset_destination_def)
  then show "e \<in> set (dests x)" "de_proxy_profile_id e \<noteq> Some i" using d by simp_all
qed

lemma invalidated_tables [simp]:
  "td_proxies (invalidate_proxy_destinations i code x) = td_proxies x"
  "td_secrets (invalidate_proxy_destinations i code x) = td_secrets x"
  by (simp_all add: invalidate_proxy_destinations_def)

lemma find_set_rows_id:
  assumes "k \<noteq> i" "tp_id p' = i"
  shows "find (\<lambda>p. tp_id p = k) (set_rows (\<lambda>p. tp_id p = i) (\<lambda>_. p') ps) = find (\<lambda>p. tp_id p = k) ps"
  by (rule find_set_rows_apart) (use assms in auto)

lemma keeps_setups_proxy:
  assumes rows: "dests y = dests x" "\<And>k. k \<noteq> i \<Longrightarrow> get_proxy k y = get_proxy k x"
    and reads: "\<And>d j. d \<in> set (dests x) \<Longrightarrow> de_proxy_profile_id d \<noteq> Some i \<Longrightarrow> reads_secret x d j \<Longrightarrow>
      find_secret j (td_secrets y) = find_secret j (td_secrets x)"
    and p: "tp_id p' = i" and x': "x' = invalidate_proxy_destinations i code (put_proxy i (\<lambda>_. p') y)"
  shows "keeps_setups x x'"
proof (rule keeps_setupsI)
  fix e assume "e \<in> set (dests x')" "de_enabled e"
  then have e: "e \<in> set (dests x)" "de_proxy_profile_id e \<noteq> Some i" "de_enabled e"
    using invalidated_rows [of e i code "put_proxy i (\<lambda>_. p') y"] by (simp_all add: x' rows(1))
  have "get_proxy k x' = get_proxy k x" if "k \<noteq> i" for k
    using find_set_rows_id [OF that p, of "td_proxies y"] rows(2) [OF that] by (simp add: get_proxy_def x')
  then show "\<exists>d\<in>set (dests x). setup_columns d = setup_columns e \<and> de_enabled d \<and>
        (\<forall>i. reads_secret x d i \<longrightarrow> find_secret i (td_secrets x') = find_secret i (td_secrets x)) \<and>
        (\<forall>k. de_proxy_profile_id d = Some k \<longrightarrow> map_option proxy_columns (get_proxy k x') = map_option proxy_columns (get_proxy k x))"
    using e reads [of e] by (intro bexI [of _ e]) (auto simp: x')
qed

lemma patch_proxy_keeps:
  assumes "patch_proxy te p b x = Inr (p', x')" "tg_ok nl x" "p \<in> set (td_proxies x)"
  shows "keeps_setups x x'"
  using assms(1)
proof (cases rule: patch_proxy_Inr)
  case 1
  from 1(3) show ?thesis
  proof
    assume "x' = invalidate_proxy_destinations (tp_id p) ''telegram_proxy_changed'' (put_proxy (tp_id p) (\<lambda>_. p') x)"
    then show ?thesis by (rule keeps_setups_proxy [OF refl refl refl 1(2)])
  next
    assume same: "x' = put_proxy (tp_id p) (\<lambda>_. p') x \<and> tp_proxy_type p' = tp_proxy_type p \<and> tp_host p' = tp_host p \<and> tp_port p' = tp_port p"
    have "proxy_columns p' = proxy_columns q" if "q \<in> set (td_proxies x)" "tp_id q = tp_id p" for q
    proof -
      have "q = p" using that assms(2,3) by (metis distinct_map inj_on_def tg_ok_def)
      then show ?thesis using same 1(1) by (simp add: proxy_columns_def proxy_key_def)
    qed
    then show ?thesis using same by (intro keeps_setups_same) (simp_all add: map_set_rows)
  qed
qed

lemma proxy_secrets_keep:
  assumes "proxy_secrets te i c x = Inr (uw, x')" "tg_ok nl x"
  shows "reads_kept (\<lambda>_. False) x x'"
proof (cases c)
  case (Some p)
  then obtain su x1 sw where a: "new_secret te ''proxy_username'' ''telegram_proxy_profile'' i (fst p) x = Inr (su, x1)"
    and b: "new_secret te ''proxy_password'' ''telegram_proxy_profile'' i (snd p) x1 = Inr (sw, x')"
    using assms(1) by (auto simp: proxy_secrets_def proxy_secret_def result_bind_eq_Inr split: prod.splits)
  show ?thesis
    using reads_kept_trans [OF reads_kept_new_secret [OF a assms(2)] reads_kept_new_secret [OF b]] tg_ok_new_secret(1) [OF a assms(2)] by blast
qed (use assms in \<open>simp add: proxy_secrets_def\<close>)

lemma create_proxy_keeps:
  assumes "create_proxy te name ty host port c x = Inr (p, x')" "tg_ok nl x"
  shows "keeps_setups x x'"
  using assms(1)
proof (cases rule: create_proxy_Inr)
  case (1 x1)
  have ok: "tg_ok nl (drawn x)" by (rule tg_ok_same_keys [OF assms(2)]) (simp add: same_keys_def)
  note r = proxy_secrets_keep [OF 1(1) ok]
  have same: "dests x1 = dests x" "td_proxies x1 = td_proxies x" using r by (simp_all add: reads_kept_def same_tables_def)
  have "keeps_setups (drawn x) x'"
  proof (rule keeps_setups_rows [OF r])
    show "secrets x' = secrets x1" by (simp add: 1(3))
    fix e assume "e \<in> set (dests x')" "de_enabled e"
    then have e: "e \<in> set (dests x)" "de_enabled e" by (simp_all add: 1(3) same)
    have "get_proxy k x' = get_proxy k x" if "de_proxy_profile_id e = Some k" for k
    proof -
      have "k \<in> tp_id ` set (td_proxies x)" using e(1) that assms(2) by (simp add: tg_ok_def destination_ok_def)
      then have "find (\<lambda>q. tp_id q = k) (td_proxies x) \<noteq> None" by (auto simp: find_None_iff)
      then show ?thesis by (auto simp: get_proxy_def 1(3) same find_append split: option.split)
    qed
    moreover have "get_proxy k (drawn x) = get_proxy k x" for k by (simp add: get_proxy_def)
    ultimately show "\<exists>d\<in>set (dests (drawn x)). setup_columns d = setup_columns e \<and> de_enabled d \<and> \<not> False \<and>
        (\<forall>k. de_proxy_profile_id d = Some k \<longrightarrow>
           map_option proxy_columns (get_proxy k x') = map_option proxy_columns (get_proxy k (drawn x)))"
      using e by (intro bexI [of _ e]) simp_all
  qed
  moreover have "keeps_setups x (drawn x)" by (rule keeps_setups_same) simp_all
  ultimately show ?thesis using keeps_setups_trans by blast
qed

lemma replaced_secret_keeps:
  assumes "replaced_secret te p cur purpose v x = Inr (i, x')" "tg_ok nl x"
    and cur: "\<And>s. cur = Some s \<Longrightarrow> s \<in> set (secrets x) \<and> proxy_owns p purpose s"
  shows "reads_kept (\<lambda>d. de_proxy_profile_id d = Some (tp_id p)) x x'"
proof (cases cur)
  case None
  with assms(1) obtain s where "new_secret te purpose ''telegram_proxy_profile'' (tp_id p) v x = Inr (s, x')"
    by (auto simp: replaced_secret_def proxy_secret_def result_bind_eq_Inr)
  then show ?thesis by (rule reads_kept_weaken [OF reads_kept_new_secret [OF _ assms(2)]])
next
  case (Some s)
  with assms(1) obtain s1 where "rotated_secret te s v x = Inr (s1, x')" by (auto simp: replaced_secret_def result_bind_eq_Inr)
  then show ?thesis using cur [OF Some] by (intro reads_kept_rotated [OF _ assms(2)]) (auto simp: proxy_owns_def)
qed

lemma rotate_credentials_keeps:
  assumes "rotate_proxy_credentials te p c x = Inr (p', x')" "tg_ok nl x" "p \<in> set (td_proxies x)"
  shows "keeps_setups x x'"
  using assms
proof (cases rule: rotate_proxy_credentials_Inr)
  case (1 p1 x1)
  have id: "tp_id p' = tp_id p" using 1(1,2) by (simp add: unchecked_proxy_def)
  have "(\<forall>k. k \<noteq> tp_id p \<longrightarrow> get_proxy k x1 = get_proxy k x) \<and>
    (\<forall>d\<in>set (dests x). de_proxy_profile_id d \<noteq> Some (tp_id p) \<longrightarrow>
       (\<forall>i. reads_secret x d i \<longrightarrow> find_secret i (td_secrets x1) = find_secret i (td_secrets x)))"
    using 1(8)
  proof (elim disjE conjE exE)
    let ?y = "put_proxy (tp_id p) (\<lambda>_. p1) x"
    assume del: "delete_secrets (proxy_secret_ids p) ?y = Inr x1"
    have px: "get_proxy k ?y = get_proxy k x" if "k \<noteq> tp_id p" for k
      using find_set_rows_id [OF that 1(1)] by (simp add: get_proxy_def)
    have "reads_secret ?y d i" if "de_proxy_profile_id d \<noteq> Some (tp_id p)" "reads_secret x d i" for d i
      using that px by (auto simp: reads_secret_def)
    then show ?thesis using px delete_secrets_Inr(1) [OF del] reads_kept_deleted [OF del]
      by (simp add: reads_kept_def same_tables_def get_proxy_def)
  next
    fix u w iu iw x0
    assume a: "replaced_secret te p (existing_secret p ''proxy_username'' x) ''proxy_username'' u x = Inr (iu, x0)"
      and b: "replaced_secret te p (existing_secret p ''proxy_password'' x) ''proxy_password'' w x0 = Inr (iw, x1)"
    note own = existing_secret_Some [OF _ assms(2,3)]
    have ea: "s \<in> set (secrets x) \<and> proxy_owns p ''proxy_username'' s" if "existing_secret p ''proxy_username'' x = Some s" for s
      using own [OF that] by (simp add: proxy_owns_def)
    note ra = replaced_secret_Inr [OF a assms(2) ea]
    have eb: "s \<in> set (secrets x0) \<and> proxy_owns p ''proxy_password'' s" if "existing_secret p ''proxy_password'' x = Some s" for s
      using own [OF that] ra(4) [of s] by (simp add: proxy_owns_def)
    show ?thesis
      using reads_kept_trans [OF replaced_secret_keeps [OF a assms(2) ea] replaced_secret_keeps [OF b ra(1) eb]]
      by (simp add: reads_kept_def same_tables_def get_proxy_def)
  qed
  then show ?thesis using 1(5,6) by (intro keeps_setups_proxy [OF _ _ _ id 1(6)]) blast+
qed

lemma disable_proxy_keeps: "keeps_setups x (disable_proxy p x)"
proof -
  have "keeps_setups x (put_proxy (tp_id p) (\<lambda>q. q\<lparr>tp_enabled := False\<rparr>) x)" by (rule keeps_setups_put_proxy) simp
  moreover have "keeps_setups y (invalidate_proxy_destinations i code y)" for i code y
    by (rule keeps_setupsI) (auto dest: invalidated_rows simp: get_proxy_def)
  ultimately show ?thesis unfolding disable_proxy_def by (rule keeps_setups_trans)
qed

lemma delete_proxy_keeps:
  assumes "delete_proxy p x = Inr x'"
  shows "keeps_setups x x'"
proof -
  note del = delete_proxy_Inr [OF assms]
  let ?y = "x\<lparr>td_proxies := filter (\<lambda>q. tp_id q \<noteq> tp_id p) (td_proxies x)\<rparr>"
  have px: "get_proxy k ?y = get_proxy k x" if "k \<noteq> tp_id p" for k
    unfolding get_proxy_def using that by (simp add: find_filter_kept)
  have "keeps_setups x ?y"
  proof (rule keeps_setupsI)
    fix e assume "e \<in> set (dests ?y)" "de_enabled e"
    then show "\<exists>d\<in>set (dests x). setup_columns d = setup_columns e \<and> de_enabled d \<and>
        (\<forall>i. reads_secret x d i \<longrightarrow> find_secret i (td_secrets ?y) = find_secret i (td_secrets x)) \<and>
        (\<forall>k. de_proxy_profile_id d = Some k \<longrightarrow>
           map_option proxy_columns (get_proxy k ?y) = map_option proxy_columns (get_proxy k x))"
      using px del(1) [of e] by (intro bexI [of _ e]) force+
  qed
  moreover have "keeps_setups ?y x'"
    by (rule keeps_setups_rows [OF reads_kept_deleted [OF del(2)] refl])
      (use delete_secrets_Inr(1) [OF del(2)] in \<open>auto simp: same_tables_def get_proxy_def\<close>)
  ultimately show ?thesis by (rule keeps_setups_trans)
qed

section \<open>The run\<close>

text \<open>
  Requests, the transactions of the checks (with any row they may still hold and any outcome), the start of a
  publication, publish intents, and all else the program does, which leaves destinations, proxies and secrets
  alone and is held to the foreign keys of the destinations.  The re-encryption of secrets under a new key is
  left out.
\<close>

inductive tg_step :: "net_lib \<Rightarrow> tg_db \<Rightarrow> tg_db \<Rightarrow> bool" for nl where
  request: "tg_handle te q x = Inr (j, x') \<Longrightarrow> te_net te = nl \<Longrightarrow> tg_step nl x x'"
| probe: "probe_destination ck d x = (pb, x') \<Longrightarrow> tg_step nl x x'"
| settle: "settle_destination_check failed_at now d pb x = (res, x') \<Longrightarrow> tg_step nl x x'"
| settle_proxy: "settle_proxy_check now p outcome x = (res, x') \<Longrightarrow> tg_step nl x x'"
| start: "publish_handler ck p x = Inr (res, x') \<Longrightarrow> tg_step nl x x'"
| publish: "publish_reviewed_draft env lib gate available i h (td_pub x) = Inr (p, y) \<Longrightarrow> tg_step nl x (x\<lparr>td_pub := y\<rparr>)"
| schedule: "schedule_reviewed_telegram env lib gate now later i q (td_pub x) = Inr (res, y) \<Longrightarrow> tg_step nl x (x\<lparr>td_pub := y\<rparr>)"
| others: "dests x' = dests x \<Longrightarrow> td_proxies x' = td_proxies x \<Longrightarrow> secrets x' = secrets x \<Longrightarrow>
    used_destinations (td_pub x') \<subseteq> de_id ` set (dests x) \<Longrightarrow> tg_step nl x x'"

text \<open>Decrypting files events only.\<close>

definition same_rows :: "tg_db \<Rightarrow> tg_db \<Rightarrow> bool" where
  "same_rows x x' \<longleftrightarrow> td_pub x' = td_pub x \<and> td_proxies x' = td_proxies x \<and> secrets x' = secrets x"

lemma same_rows_simps [simp]: "same_rows x x" "same_rows x (on_secrets (\<lambda>_. sx) x) \<longleftrightarrow> sx_secrets sx = secrets x"
  by (auto simp: same_rows_def on_secrets_def)

lemma same_rows_trans: "same_rows x y \<Longrightarrow> same_rows y z \<Longrightarrow> same_rows x z"
  by (simp add: same_rows_def)

lemma decrypt_secret_rows: "decrypt_secret se ring s p scope x = (r, x') \<Longrightarrow> sx_secrets x' = sx_secrets x"
  by (auto simp: decrypt_secret_def authorize_def secret_event_def record_security_event_def split: if_splits option.splits sum.splits)

lemma route_secret_rows: "route_secret te i x = (r, x') \<Longrightarrow> same_rows x x'"
  by (auto simp: route_secret_def dest!: decrypt_secret_rows split: option.splits sum.splits prod.splits)

lemma proxy_credentials_rows:
  assumes "proxy_credentials te p x = (r, x')"
  shows "same_rows x x'"
proof (cases "\<exists>u w. tp_username_secret_id p = Some u \<and> tp_password_secret_id p = Some w")
  case True
  then obtain u w where ids: "tp_username_secret_id p = Some u" "tp_password_secret_id p = Some w" by blast
  obtain ra x1 where a: "route_secret te (Some u) x = (ra, x1)" by fastforce
  obtain rb x2 where b: "route_secret te (Some w) x1 = (rb, x2)" by fastforce
  have "x' = x1 \<or> x' = x2" using assms by (auto simp: proxy_credentials_def ids a b split: sum.splits)
  then show ?thesis using route_secret_rows [OF a] route_secret_rows [OF b] same_rows_trans by blast
qed (use assms in \<open>auto simp: proxy_credentials_def split: option.splits\<close>)

lemma proxy_url_rows: "proxy_url te p x = (r, x') \<Longrightarrow> same_rows x x'"
  by (auto simp: proxy_url_def dest: proxy_credentials_rows split: if_splits sum.splits prod.splits)

lemma client_route_rows: "client_route ck i x = (r, x') \<Longrightarrow> same_rows x x'"
  by (auto simp: client_route_def Let_def dest: proxy_url_rows split: option.splits sum.splits prod.splits if_splits)

lemma check_runtime_rows:
  assumes "check_runtime ck d x = (r, x')"
  shows "same_rows x x'"
proof (cases "ck_routed ck")
  case True
  obtain ra x1 where a: "route_secret (ck_tg ck) (de_secret_id d) x = (ra, x1)" by fastforce
  obtain rb x2 where b: "client_route ck (de_proxy_profile_id d) x1 = (rb, x2)" by fastforce
  have "x' = x1 \<or> x' = x2" using assms True by (auto simp: check_runtime_def a b split: sum.splits)
  then show ?thesis using route_secret_rows [OF a] client_route_rows [OF b] same_rows_trans by blast
qed (use assms in \<open>simp add: check_runtime_def\<close>)

lemma probe_rows: "probe_destination ck d x = (pb, x') \<Longrightarrow> same_rows x x'"
  by (auto simp: probe_destination_def dest: check_runtime_rows split: sum.splits prod.splits if_splits)

lemma publish_handler_rows: "publish_handler ck p x = Inr (r, x') \<Longrightarrow> same_rows x x'"
  by (auto simp: publish_handler_def dest: check_runtime_rows
      split: option.splits sum.splits prod.splits if_splits check_failure.splits route_error.splits)

text \<open>What leaves the rows, and an intent, keep both the invariant and the setups.\<close>

lemma rows_kept:
  assumes "dests x' = dests x" "td_proxies x' = td_proxies x" "secrets x' = secrets x"
  shows "keeps_setups x x'"
    "tg_ok nl x \<Longrightarrow> used_destinations (td_pub x') \<subseteq> de_id ` set (dests x) \<Longrightarrow> tg_ok nl x'"
  using assms keeps_setups_same [of x' x]
  by (simp_all add: tg_ok_def destination_ok_def proxy_ok_def owned_secret_def)

lemma same_rows_kept:
  assumes "same_rows x x'" "tg_ok nl x"
  shows "tg_ok nl x'" "keeps_setups x x'"
proof -
  have same: "td_pub x' = td_pub x" "td_proxies x' = td_proxies x" "secrets x' = secrets x" using assms(1) by (simp_all add: same_rows_def)
  have "used_destinations (td_pub x') \<subseteq> de_id ` set (dests x)" using assms(2) same(1) by (simp add: tg_ok_def)
  then show "tg_ok nl x'" "keeps_setups x x'" using rows_kept [of x' x] assms(2) same by simp_all
qed

lemma intent_kept:
  assumes "adds_job_for ds (td_pub x) y" "ds \<subseteq> de_id ` set (dests x)" "tg_ok nl x"
  shows "tg_ok nl (x\<lparr>td_pub := y\<rparr>)" "keeps_setups x (x\<lparr>td_pub := y\<rparr>)"
proof -
  have "used_destinations y \<subseteq> de_id ` set (dests x)"
    using adds_job_used [OF assms(1)] assms(2,3) by (auto simp: tg_ok_def)
  moreover have "pu_destinations y = dests x" using assms(1) by (simp add: adds_job_for_def)
  ultimately show "tg_ok nl (x\<lparr>td_pub := y\<rparr>)" "keeps_setups x (x\<lparr>td_pub := y\<rparr>)"
    using rows_kept [of "x\<lparr>td_pub := y\<rparr>" x] assms(3) by simp_all
qed

lemma settle_cases:
  assumes "settle_destination_check t1 t2 d pb x = (res, x')"
  obtains "x' = x" | a b where "x' = put_destination (de_id d) (flush_destination a b) x"
proof (cases "find_destination (de_id d) (td_pub x)")
  case (Some r)
  then show thesis using assms that(2) by (auto simp: settle_destination_check_def Let_def split: if_splits option.splits)
qed (use assms that(1) in \<open>simp add: settle_destination_check_def\<close>)

lemma settle_kept:
  assumes "settle_destination_check t1 t2 d pb x = (res, x')"
  shows "same_keys x x'" "keeps_setups x x'"
  using assms by (cases rule: settle_cases; simp add: same_keys_put keeps_setups_put; simp add: same_keys_def)+

lemma settle_proxy_cases:
  assumes "settle_proxy_check t p out x = (res, x')"
  obtains "x' = x" | a b where "x' = put_proxy (tp_id p) (flush_proxy a b) x"
proof (cases "out = Inl Uncaught_Value_Error \<or> get_proxy (tp_id p) x = None")
  case False
  then show thesis using assms that(2) by (auto simp: settle_proxy_check_def Let_def split: if_splits option.splits)
qed (use assms that(1) in \<open>auto simp: settle_proxy_check_def Let_def split: if_splits\<close>)

lemma settle_proxy_kept:
  assumes "settle_proxy_check t p out x = (res, x')"
  shows "same_keys x x'" "keeps_setups x x'"
  using assms by (cases rule: settle_proxy_cases; simp add: same_keys_proxy keeps_setups_put_proxy; simp add: same_keys_def)+

text \<open>Each request keeps the setups; enabling requires that the row's checks have succeeded.\<close>

definition enabled_or_ready :: "tg_db \<Rightarrow> tg_db \<Rightarrow> bool" where
  "enabled_or_ready x x' \<longleftrightarrow>
     (\<forall>d'\<in>set (dests x'). de_enabled d' \<longrightarrow>
        (\<exists>d\<in>set (dests x). de_id d = de_id d' \<and> setup_of x d = setup_of x' d' \<and> (de_enabled d \<or> destination_ready d)))"

lemma keeps_setups_enabled: "keeps_setups x x' \<Longrightarrow> enabled_or_ready x x'"
  unfolding keeps_setups_def enabled_or_ready_def by blast

lemma enable_ready:
  assumes "get_destination i x = Some d" "destination_ready d"
  shows "enabled_or_ready x (put_destination i (\<lambda>_. d\<lparr>de_enabled := True\<rparr>) x)"
proof -
  let ?x = "put_destination i (\<lambda>_. d\<lparr>de_enabled := True\<rparr>) x"
  have same: "setup_of ?x e = setup_of x e" for e by (rule setup_cong) (simp_all add: get_proxy_def)
  have on: "setup_of x (d\<lparr>de_enabled := True\<rparr>) = setup_of x d" by (simp add: setup_of_def)
  have d: "d \<in> set (dests x)" using get_destination_Some [OF assms(1)] by simp
  show ?thesis unfolding enabled_or_ready_def
  proof (intro ballI impI)
    fix e assume "e \<in> set (dests ?x)" "de_enabled e"
    then consider "e = d\<lparr>de_enabled := True\<rparr>" | "e \<in> set (dests x)" by (auto simp: in_set_rows split: if_splits)
    then show "\<exists>q\<in>set (dests x). de_id q = de_id e \<and> setup_of x q = setup_of ?x e \<and> (de_enabled q \<or> destination_ready q)"
    proof cases
      case 1
      then show ?thesis using d on same assms(2) by (intro bexI [of _ d]) auto
    next
      case 2
      then show ?thesis using same \<open>de_enabled e\<close> by (intro bexI [of _ e]) auto
    qed
  qed
qed

lemma requests_keep_setups:
  assumes "tg_handle te q x = Inr (j, x')" "tg_ok (te_net te) x"
  shows "keeps_setups x x' \<or> (\<exists>i d. get_destination i x = Some d \<and> destination_ready d \<and>
     x' = put_destination i (\<lambda>_. d\<lparr>de_enabled := True\<rparr>) x)"
proof (cases q)
  case (Create_Destination name target token proxy)
  with assms(1) obtain d x1 j' where a: "create_destination te name target token proxy x = Inr (d, x1)"
    and c: "check_destination te False (de_id d) x1 = Inr (j', x')" by (auto simp: result_bind_eq_Inr)
  show ?thesis using keeps_setups_trans [OF create_destination_keeps [OF a assms(2)] checking_keeps(1) [OF c]] ..
next
  case (Patch_Destination i b)
  with assms(1) obtain d d1 x1 j' where d: "get_destination i x = Some d" and a: "patch_destination te d b x = Inr (d1, x1)"
    and c: "check_destination te False i x1 = Inr (j', x')" by (auto simp: result_bind_eq_Inr locked_Inr)
  have "d \<in> set (dests x)" using get_destination_Some [OF d] by simp
  then show ?thesis using keeps_setups_trans [OF patch_destination_keeps [OF a assms(2)] checking_keeps(1) [OF c]] by blast
next
  case (Rotate_Token i v)
  with assms(1) obtain d d1 x1 j' where d: "get_destination i x = Some d" and a: "rotate_destination_token te d v x = Inr (d1, x1)"
    and c: "check_destination te False i x1 = Inr (j', x')" by (auto simp: result_bind_eq_Inr locked_Inr)
  have "d \<in> set (dests x)" using get_destination_Some [OF d] by simp
  then show ?thesis using keeps_setups_trans [OF rotate_token_keeps [OF a assms(2)] checking_keeps(1) [OF c]] by blast
next
  case (Recheck_Destination i)
  with assms(1) obtain j' where c: "check_destination te True i x = Inr (j', x')" by (auto simp: result_bind_eq_Inr)
  then show ?thesis using checking_keeps(1) by blast
next
  case (Enable_Destination i)
  with assms(1) obtain d where "get_destination i x = Some d" "destination_ready d" "x' = put_destination i (\<lambda>_. d\<lparr>de_enabled := True\<rparr>) x"
    by (auto simp: result_bind_eq_Inr locked_Inr enable_destination_def tg_config_def split: if_splits)
  then show ?thesis by blast
next
  case (Disable_Destination i)
  with assms(1) obtain d where x': "x' = put_destination i (\<lambda>_. disable_destination d) x"
    by (auto simp: result_bind_eq_Inr locked_Inr)
  have "keeps_setups x x'"
    by (rule keeps_setups_set [OF reads_kept_refl, of _ i "disable_destination d"]) (simp_all add: x' disable_destination_def)
  then show ?thesis ..
next
  case (Delete_Destination i)
  with assms show ?thesis using delete_destination_keeps by (auto simp: result_bind_eq_Inr)
next
  case (Create_Proxy name ty host port c)
  with assms(1) obtain p x1 j' where a: "create_proxy te name ty host port c x = Inr (p, x1)"
    and c: "check_proxy te id (tp_id p) x1 = Inr (j', x')" by (auto simp: result_bind_eq_Inr)
  show ?thesis using keeps_setups_trans [OF create_proxy_keeps [OF a assms(2)] checking_keeps(2) [OF c]] ..
next
  case (Patch_Proxy i b)
  with assms(1) obtain p p1 x1 j' where p: "get_proxy i x = Some p" and a: "patch_proxy te p b x = Inr (p1, x1)"
    and c: "check_proxy te id i x1 = Inr (j', x')" by (auto simp: result_bind_eq_Inr locked_Inr)
  have "p \<in> set (td_proxies x)" using get_proxy_Some [OF p] by simp
  then show ?thesis using keeps_setups_trans [OF patch_proxy_keeps [OF a assms(2)] checking_keeps(2) [OF c]] by blast
next
  case (Rotate_Credentials i cr)
  with assms(1) obtain p p1 x1 j' where p: "get_proxy i x = Some p" and a: "rotate_proxy_credentials te p cr x = Inr (p1, x1)"
    and c: "check_proxy te id i x1 = Inr (j', x')" by (auto simp: result_bind_eq_Inr locked_Inr)
  have "p \<in> set (td_proxies x)" using get_proxy_Some [OF p] by simp
  then show ?thesis using keeps_setups_trans [OF rotate_credentials_keeps [OF a assms(2)] checking_keeps(2) [OF c]] by blast
next
  case (Recheck_Proxy i)
  with assms(1) obtain j' where "check_proxy te (\<lambda>p. p\<lparr>tp_failure_code := None\<rparr>) i x = Inr (j', x')" by (auto simp: result_bind_eq_Inr)
  then show ?thesis using checking_keeps(3) by blast
next
  case (Enable_Proxy i)
  with assms(1) obtain p where p: "get_proxy i x = Some p" and x': "x' = put_proxy i (\<lambda>_. p\<lparr>tp_enabled := True\<rparr>) x"
    by (auto simp: result_bind_eq_Inr locked_Inr enable_proxy_def tg_config_def split: if_splits)
  have "proxy_columns (p\<lparr>tp_enabled := True\<rparr>) = proxy_columns q" if "q \<in> set (td_proxies x)" "tp_id q = i" for q
    using that get_proxy_Some [OF p] assms(2) by (metis distinct_map inj_on_def setup_columns_simps(6) tg_ok_def)
  then have "keeps_setups x x'" by (intro keeps_setups_same) (simp_all add: x' map_set_rows)
  then show ?thesis ..
next
  case (Disable_Proxy i)
  with assms show ?thesis using disable_proxy_keeps by (auto simp: result_bind_eq_Inr)
next
  case (Delete_Proxy i)
  with assms show ?thesis using delete_proxy_keeps by (auto simp: result_bind_eq_Inr)
qed

lemma adds_job_intent:
  assumes "enqueue_telegram_publish_intent env lib gate r dest dispatch y = Inr (p, y')"
  shows "adds_job_for {dest} y y'"
proof -
  have v: "validate_approvable_revision lib gate r = Inr ()"
    using assms by (cases "validate_approvable_revision lib gate r") (simp_all add: enqueue_telegram_publish_intent_def)
  obtain q y1 where q: "immediate_intent env r dest y = Inr (q, y1)"
    using assms v by (cases "immediate_intent env r dest y") (auto simp: enqueue_telegram_publish_intent_def)
  let ?e = "enqueue_job env (publish_job_request (pj_id q) (pj_idempotency_key q) AUTOMATION None) (pu_db y1)"
  obtain j c d where e: "?e = Inr ((j, c), d)"
    using assms v q by (cases ?e) (auto simp: enqueue_telegram_publish_intent_def)
  let ?y2 = "put_publish_job env (pj_id q) (\<lambda>q. q\<lparr>pj_workflow_job_id := Some (wj_id j)\<rparr>) (y1\<lparr>pu_db := d\<rparr>)"
  let ?y3 = "on_db (\<lambda>d. d\<lparr>db_dispatches := set_rows (\<lambda>a. Some (ad_id a) = dispatch) (\<lambda>a. a\<lparr>ad_publish_job_id := Some (pj_id q)\<rparr>)
    (db_dispatches d)\<rparr>) ?y2"
  have y': "\<exists>a b ty data. y' = log_event env a ty b data ?y3"
    using assms v q e by (auto simp: enqueue_telegram_publish_intent_def Let_def)
  have "adds_job_for {dest} y y1" by (rule adds_job_immediate [OF q])
  moreover have "adds_job_for {dest} y1 (y1\<lparr>pu_db := d\<rparr>)" by (rule adds_job_enqueue [OF e])
  moreover have "adds_job_for {dest} (y1\<lparr>pu_db := d\<rparr>) ?y2" by (rule adds_job_frame) simp
  moreover have "adds_job_for {dest} ?y2 ?y3" by (auto simp: adds_job_for_def job_destinations_def on_db_def)
  moreover have "adds_job_for {dest} ?y3 y'" using y' adds_job_frame(1) by fastforce
  ultimately show ?thesis by (meson adds_job_trans)
qed

lemma adds_job_weaken: "adds_job_for ds y y' \<Longrightarrow> ds \<subseteq> es \<Longrightarrow> adds_job_for es y y'"
  by (auto simp: adds_job_for_def)

lemma find_destination_id: "find_destination i y = Some d \<Longrightarrow> de_id d = i \<and> i \<in> de_id ` set (pu_destinations y)"
  by (auto simp: find_destination_def find_Some_iff)

lemma adds_job_draft:
  assumes "publish_reviewed_draft env lib gate available i h y = Inr (p, y')"
  shows "adds_job_for (de_id ` set (pu_destinations y)) y y'"
  using assms
proof (cases rule: publish_draft_cases)
  case (1 r ds rt d y1 dispatch)
  let ?dp = "if ad_variant_revision_id ds = Some (vr_id r) then Some (ad_id ds) else None"
  obtain cs where av: "available (de_id d) = Inr cs"
    using assms 1(1-5) by (cases "available (de_id d)") (simp_all add: publish_reviewed_draft_def)
  obtain q y2 where e: "enqueue_telegram_publish_intent env lib gate r (de_id d) ?dp y = Inr (q, y2)"
    using assms 1(1-5) av
    by (cases "enqueue_telegram_publish_intent env lib gate r (de_id d) ?dp y")
      (auto simp: publish_reviewed_draft_def split: intent_error.splits handler_error.splits if_splits)
  have y': "\<exists>data. y' = log_event env None ''telegram.revision.publish_requested'' ''operator'' data y2"
    using assms 1(1-5) av e by (auto simp: publish_reviewed_draft_def)
  have "{de_id d} \<subseteq> de_id ` set (pu_destinations y)" using find_destination_id [OF 1(5)] by simp
  then have "adds_job_for (de_id ` set (pu_destinations y)) y y2" by (rule adds_job_weaken [OF adds_job_intent [OF e]])
  moreover have "adds_job_for (de_id ` set (pu_destinations y)) y2 y'" using y' adds_job_frame(1) by fastforce
  ultimately show ?thesis by (rule adds_job_trans)
qed

lemma adds_job_schedule:
  assumes "schedule_reviewed_telegram env lib gate now later i q y = Inr (res, y')"
  shows "adds_job_for (de_id ` set (pu_destinations y)) y y'"
  using assms
proof (cases rule: schedule_cases)
  case (1 t r p created y1 d)
  have y1: "adds_job_for {sr_destination_id q} y y1" by (rule adds_job_scheduled [OF 1(4)])
  then have "{sr_destination_id q} \<subseteq> de_id ` set (pu_destinations y)"
    using find_destination_id [OF 1(5)] by (simp add: adds_job_for_def)
  note start = adds_job_weaken [OF y1 this]
  show ?thesis
  proof (cases created)
    case False
    then show ?thesis using 1(9) start by simp
  next
    case True
    let ?key = "reviewed_schedule_intent_key (sr_destination_id q) (vr_id r) (vr_content_hash r)"
    obtain j dd where later: "later < t" and
      e: "enqueue_job env (publish_job_request (pj_id p) ?key MANUAL (Some t)) (pu_db y1) = Inr ((j, True), dd)"
      using 1(8) [OF True] by blast
    have fresh: "find_key ?key (pu_db y1) = None"
      using assms 1(1-7) True by (auto simp: schedule_reviewed_telegram_def durable_drift_def conflict_def Let_def split: option.splits)
    let ?y2 = "put_publish_job env (pj_id p) (\<lambda>q. q\<lparr>pj_workflow_job_id := Some (wj_id j)\<rparr>) (y1\<lparr>pu_db := dd\<rparr>)"
    have y': "\<exists>a data. y' = log_event env a ''telegram.publish.scheduled'' ''operator'' data ?y2"
      using assms 1(1-7) True fresh e later
      by (auto simp: schedule_reviewed_telegram_def durable_drift_def conflict_def not_future_def Let_def)
    have "adds_job_for (de_id ` set (pu_destinations y)) y1 (y1\<lparr>pu_db := dd\<rparr>)" by (rule adds_job_enqueue [OF e])
    moreover have "adds_job_for (de_id ` set (pu_destinations y)) (y1\<lparr>pu_db := dd\<rparr>) ?y2" by (rule adds_job_frame) simp
    moreover have "adds_job_for (de_id ` set (pu_destinations y)) ?y2 y'" using y' adds_job_frame(1) by fastforce
    ultimately show ?thesis using start by (meson adds_job_trans)
  qed
qed

lemma tg_step_kept:
  assumes "tg_step nl x x'" "tg_ok nl x"
  shows "tg_ok nl x'" "enabled_or_ready x x'"
proof -
  have "tg_ok nl x' \<and> enabled_or_ready x x'"
    using assms
  proof cases
    case (request te q j)
    then have "enabled_or_ready x x'"
      using requests_keep_setups [OF request(1)] assms(2) keeps_setups_enabled enable_ready by blast
    then show ?thesis using requests_keep_ok [OF request(1)] request(2) assms(2) by simp
  next
    case (probe ck d pb)
    then show ?thesis using same_rows_kept [OF probe_rows assms(2)] keeps_setups_enabled by blast
  next
    case (settle failed_at now d pb res)
    then show ?thesis using tg_ok_same_keys [OF assms(2) settle_kept(1)] settle_kept(2) keeps_setups_enabled by blast
  next
    case (settle_proxy now p out res)
    then show ?thesis using tg_ok_same_keys [OF assms(2) settle_proxy_kept(1)] settle_proxy_kept(2) keeps_setups_enabled by blast
  next
    case (start ck p res)
    then show ?thesis using same_rows_kept [OF publish_handler_rows assms(2)] keeps_setups_enabled by blast
  next
    case (publish env lib gate available i h p y)
    then show ?thesis using intent_kept [OF adds_job_draft order_refl assms(2)] keeps_setups_enabled by blast
  next
    case (schedule env lib gate now later i q res y)
    then show ?thesis using intent_kept [OF adds_job_schedule order_refl assms(2)] keeps_setups_enabled by blast
  next
    case others
    then show ?thesis using rows_kept [OF others(1-3)] assms(2) keeps_setups_enabled by blast
  qed
  then show "tg_ok nl x'" "enabled_or_ready x x'" by blast+
qed

lemma run_keeps_ok: "(tg_step nl)\<^sup>*\<^sup>* x0 x \<Longrightarrow> tg_ok nl x0 \<Longrightarrow> tg_ok nl x"
  by (induction rule: rtranclp_induct) (simp_all add: tg_step_kept(1))

text \<open>
  C13: along every run the destinations stay consistent.  No two Telegram destinations send to one target,
  whatever spelling a row from before the canonical column keeps; the secret a destination or a proxy names
  exists and is its own; a destination's proxy exists; and no route, publish job or publication outlives the
  destination it names.
\<close>

theorem destinations_stay_consistent:
  assumes "(tg_step nl)\<^sup>*\<^sup>* x0 x" "tg_ok nl x0"
  shows "distinct (map de_id (dests x)) \<and>
    (\<forall>d\<in>set (dests x). \<forall>e\<in>set (dests x). same_target nl d e \<longrightarrow> d = e) \<and>
    (\<forall>d\<in>set (dests x). destination_ok x d) \<and> (\<forall>p\<in>set (td_proxies x). proxy_ok x p) \<and>
    used_destinations (td_pub x) \<subseteq> de_id ` set (dests x)"
proof -
  have ok: "tg_ok nl x" by (rule run_keeps_ok [OF assms])
  then have "d = e" if "d \<in> set (dests x)" "e \<in> set (dests x)" "same_target nl d e" for d e
    using that by (metis distinct_map inj_on_def tg_ok_def)
  then show ?thesis using ok by (simp add: tg_ok_def)
qed

text \<open>
  C12: a destination that is enabled was ready with the setup it still has.  Its target, its token's secret,
  and its proxy's address and credentials are those of a moment on the run when every stage of its check had
  been filed as healthy, unless it was already enabled with them when the run began.
\<close>

theorem enabled_setup_was_ready:
  assumes "(tg_step nl)\<^sup>*\<^sup>* x0 x" "tg_ok nl x0" "d \<in> set (dests x)" "de_enabled d"
  shows "\<exists>y e. (tg_step nl)\<^sup>*\<^sup>* x0 y \<and> (tg_step nl)\<^sup>*\<^sup>* y x \<and> e \<in> set (dests y) \<and> de_id e = de_id d \<and>
    setup_of y e = setup_of x d \<and> (destination_ready e \<or> (y = x0 \<and> de_enabled e))"
  using assms
proof (induction arbitrary: d rule: rtranclp_induct)
  case base
  then show ?case by blast
next
  case (step y z)
  have ok: "tg_ok nl y" using run_keeps_ok [OF step(1)] step(4) by blast
  obtain e where e: "e \<in> set (dests y)" "de_id e = de_id d" "setup_of y e = setup_of z d" "de_enabled e \<or> destination_ready e"
    using tg_step_kept(2) [OF step(2) ok] step(5,6) unfolding enabled_or_ready_def by blast
  have last: "(tg_step nl)\<^sup>*\<^sup>* y z" using step(2) by blast
  from e(4) show ?case
  proof
    assume "de_enabled e"
    from step(3) [OF step(4) e(1) this] obtain w q where "(tg_step nl)\<^sup>*\<^sup>* x0 w" "(tg_step nl)\<^sup>*\<^sup>* w y" "q \<in> set (dests w)"
      "de_id q = de_id e" "setup_of w q = setup_of y e" "destination_ready q \<or> (w = x0 \<and> de_enabled q)" by blast
    then show ?thesis using e(2,3) last by (metis rtranclp_trans)
  next
    assume "destination_ready e"
    then show ?thesis using e step(1) last by blast
  qed
qed

end
