(* ===== verification/Telegram_Checks_Spec.thy ===== *)
theory Telegram_Checks_Spec
  imports Telegram_Destinations_Run
begin

text \<open>
  The verdict of a destination's health check: healthy only on Telegram's own word that the token is a bot's,
  that the target exists and that the bot administers it; and what a check files over a row that was changed
  while Telegram was asked.
\<close>

section \<open>Redacted answers keep their identifiers\<close>

text \<open>
  The text redactor never makes the name \<open>id\<close> out of another text: \<open>redact_string\<close> leaves its mark
  \<open>[REDACTED]\<close> or a rewritten URL wherever it changes a text.  It may rename \<open>id\<close> itself, when the token to
  hide occurs in it.
\<close>

definition id_unforged :: "(string \<Rightarrow> string) \<Rightarrow> bool" where
  "id_unforged rs \<longleftrightarrow> (\<forall>s. rs s = ''id'' \<longrightarrow> s = ''id'')"

lemma redact_mapping_other:
  assumes "\<And>k v. (k, v) \<in> set d \<Longrightarrow> rs (fst (safe_mapping_key k)) \<noteq> i"
  shows "dict_get (redact_mapping rs depth n acc d) i = dict_get acc i"
  using assms
proof (induction d arbitrary: n acc)
  case (Cons e d)
  obtain k v where e: "e = (k, v)" by force
  obtain o' b where k: "safe_mapping_key k = (o', b)" by fastforce
  have "rs o' \<noteq> i" using Cons.prems [of k v] e k by simp
  moreover have "dict_get (redact_mapping rs depth m b d) i = dict_get b i" for m b
    using Cons.prems by (intro Cons.IH) (metis list.set_intros(2))
  ultimately show ?case unfolding e by (simp add: k Let_def)
qed simp

lemma plain_key: "\<not> secret_key ''id''"
  by code_simp

lemma redacted_id:
  assumes "id_unforged rs" "\<And>k v. (k, v) \<in> set d \<Longrightarrow> \<exists>s. k = KStr s \<and> s \<noteq> ''id'' \<and> length s < 20"
  shows "dict_get (redact_with rs ((KStr ''id'', PInt n) # d)) ''id'' = (if rs ''id'' = ''id'' then Some (PInt n) else None)"
proof -
  have "rs (fst (safe_mapping_key k)) \<noteq> ''id''" if "(k, v) \<in> set d" for k v
    using assms(1) assms(2) [OF that] by (auto simp: id_unforged_def MAX_MAPPING_KEY_CHARS_def)
  note other = redact_mapping_other [of d rs "''id''", OF this]
  have "safe_mapping_key (KStr ''id'') = (''id'', True)" by (simp add: MAX_MAPPING_KEY_CHARS_def)
  moreover have "dict_get [] k = None" for k by (simp add: dict_get_def)
  ultimately show ?thesis
    using other plain_key
    by (simp add: redact_with_def redact_dict redact_secrets.simps MAX_MAPPING_ITEMS_def redact_key_value_def Let_def
        del: safe_mapping_key.simps)
qed

section \<open>Raw answers\<close>

definition answered :: "check_env \<Rightarrow> string option \<Rightarrow> string \<Rightarrow> string \<Rightarrow> pydict \<Rightarrow> pydict \<Rightarrow> bool" where
  "answered ck route token m args r \<longleftrightarrow>
     (\<exists>status body. ck_http ck route (method_request (ck_client ck) token m args) = Http_Answer status (Some (PDict body)) \<and>
        status < 400 \<and> dict_get body ''ok'' = Some (PBool True) \<and> dict_get body ''result'' = Some (PDict r))"

lemma check_answer_Inr:
  assumes "check_answer ce token unclear rejected ans = Inr r"
  shows "\<exists>status body. ans = Http_Answer status (Some (PDict body)) \<and> status < 400 \<and>
    dict_get body ''ok'' = Some (PBool True) \<and> dict_get body ''result'' = Some (PDict r)"
proof -
  obtain status v where a: "ans = Http_Answer status (Some v)" "is_dict v" "status < 400"
      "dict_get (dict_of v) ''ok'' = Some (PBool True)" "get_or (dict_of v) ''result'' PNone = PDict r"
    using assms by (auto simp: check_answer_def Let_def payload_dict_def split: http_answer.splits if_splits option.splits pyval.splits)
  then obtain body where "v = PDict body" by (cases v) simp_all
  then show ?thesis using a by (auto simp: get_or_def split: option.splits)
qed

lemma get_me_Inr:
  assumes "get_me ce http token = Inr me" "id_unforged (ce_redact ce token)"
  obtains n r where "check_method ce http ''getMe'' token [] = Inr r" "dict_get r ''id'' = Some (PInt n)" "0 < n"
    "dict_get r ''is_bot'' = Some (PBool True)"
    "dict_get me ''id'' = (if ce_redact ce token ''id'' = ''id'' then Some (PInt n) else None)"
proof -
  obtain r where r: "check_method ce http ''getMe'' token [] = Inr r"
    using assms(1) by (cases "check_method ce http ''getMe'' token []") (simp_all add: get_me_def)
  obtain n u where n: "get_or r ''id'' PNone = PInt n" "0 < n" "dict_get r ''is_bot'' = Some (PBool True)"
    "me = redact_with (ce_redact ce token) [(KStr ''id'', PInt n), (KStr ''username'', PStr u)]"
    using assms(1) r by (auto simp: get_me_def ambiguous_def split: pyval.splits if_splits)
  have "dict_get me ''id'' = (if ce_redact ce token ''id'' = ''id'' then Some (PInt n) else None)"
    unfolding n(4) using assms(2) by (intro redacted_id) auto
  moreover have "dict_get r ''id'' = Some (PInt n)" using n(1) by (auto simp: get_or_def split: option.splits)
  ultimately show thesis using that r n by blast
qed

lemma get_chat_Inr:
  assumes "get_chat ce http target token = Inr chat" "id_unforged (ce_redact ce token)" "ce_redact ce token ''id'' = ''id''"
  obtains n r where "check_answer ce token ''Telegram returned an invalid destination response''
       ''Telegram rejected the destination check'' (http (method_request ce token ''getChat'' [(KStr ''chat_id'', PStr target)])) = Inr r"
    "dict_get r ''id'' = Some (PInt n)" "n \<noteq> 0" "dict_get chat ''id'' = Some (PInt n)"
proof -
  let ?a = "check_answer ce token ''Telegram returned an invalid destination response''
       ''Telegram rejected the destination check'' (http (method_request ce token ''getChat'' [(KStr ''chat_id'', PStr target)]))"
  obtain r where r: "?a = Inr r" using assms(1) by (cases ?a) (simp_all add: get_chat_def)
  let ?d = "concat (map (\<lambda>k. case dict_get r k of None \<Rightarrow> [] | Some v \<Rightarrow> [(KStr k, v)]) [''type'', ''username'', ''title''])"
  obtain n where n: "get_or r ''id'' PNone = PInt n" "n \<noteq> 0"
    using assms(1) r by (auto simp: get_chat_def ambiguous_def Let_def split: pyval.splits if_splits)
  then have id: "dict_get r ''id'' = Some (PInt n)" by (auto simp: get_or_def split: option.splits)
  then have "chat = redact_with (ce_redact ce token) ((KStr ''id'', PInt n) # ?d)"
    using assms(1) r n by (auto simp: get_chat_def ambiguous_def Let_def split: if_splits)
  moreover have "dict_get (redact_with (ce_redact ce token) ((KStr ''id'', PInt n) # ?d)) ''id'' = Some (PInt n)"
    using assms(3) by (subst redacted_id [OF assms(2)]) (auto split: option.splits)
  ultimately show thesis using that r id n(2) by blast
qed

lemma get_chat_member_Inr:
  assumes "get_chat_member ce http target user token = Inr m" "dict_get m ''administrator'' = Some (PBool True)"
  obtains r s where "check_method ce http ''getChatMember'' token [(KStr ''chat_id'', PStr target), (KStr ''user_id'', user)] = Inr r"
    "dict_get r ''status'' = Some (PStr s)" "s \<in> {''creator'', ''administrator''}"
proof -
  let ?a = "check_method ce http ''getChatMember'' token [(KStr ''chat_id'', PStr target), (KStr ''user_id'', user)]"
  obtain r where r: "?a = Inr r" using assms(1) by (cases ?a) (simp_all add: get_chat_member_def)
  have "text_in (get_or r ''status'' PNone) [''creator'', ''administrator'']"
    using assms r by (auto simp: get_chat_member_def ambiguous_def Let_def dict_get_def split: if_splits)
  then obtain s where "dict_get r ''status'' = Some (PStr s)" "s \<in> {''creator'', ''administrator''}"
    by (auto simp: text_in_def get_or_def split: pyval.splits option.splits)
  then show thesis using that r by blast
qed

section \<open>A check that runs alone\<close>

text \<open>What Telegram has to answer, through the destination's own route and with its own token.\<close>

definition earned :: "check_env \<Rightarrow> destination \<Rightarrow> tg_db \<Rightarrow> int \<Rightarrow> int \<Rightarrow> bool" where
  "earned ck d x bot_id chat_id \<longleftrightarrow>
     (\<exists>route token me chat member s. fst (check_runtime ck d x) = Inr (route, token) \<and>
        answered ck route token ''getMe'' [] me \<and> dict_get me ''is_bot'' = Some (PBool True) \<and>
        dict_get me ''id'' = Some (PInt bot_id) \<and> 0 < bot_id \<and>
        answered ck route token ''getChat'' [(KStr ''chat_id'', PStr (de_target_ref d))] chat \<and>
        dict_get chat ''id'' = Some (PInt chat_id) \<and> chat_id \<noteq> 0 \<and>
        answered ck route token ''getChatMember'' [(KStr ''chat_id'', PStr (de_target_ref d)), (KStr ''user_id'', PInt bot_id)] member \<and>
        dict_get member ''status'' = Some (PStr s) \<and> s \<in> {''creator'', ''administrator''})"

definition proxy_reachable :: "check_env \<Rightarrow> destination \<Rightarrow> tg_db \<Rightarrow> bool" where
  "proxy_reachable ck d x \<longleftrightarrow>
     (\<forall>i. de_proxy_profile_id d = Some i \<longrightarrow> ck_routed ck \<longrightarrow>
        (\<exists>p e. get_proxy i x = Some p \<and> tp_enabled p \<and>
           validate_proxy_endpoint (te_net (ck_tg ck)) (tp_host p) (tp_port p) = Inr e \<and>
           check_proxy_reachability (te_net (ck_tg ck)) e = Inr ()))"

definition final_stages :: "check_env \<Rightarrow> destination \<Rightarrow> health_stages" where
  "final_stages ck d =
     \<lparr>hs_proxy = (if de_proxy_profile_id d = None then ''direct'' else if ck_routed ck then ''healthy'' else ''checking''),
      hs_telegram = ''healthy'', hs_bot = ''healthy'', hs_target = ''healthy'', hs_administrator = ''administrator''\<rparr>"

lemma probe_proxy_Inr:
  assumes "probe_proxy ck d h x = Inr h'"
  shows "proxy_reachable ck d x"
    "h' = (if de_proxy_profile_id d \<noteq> None \<and> ck_routed ck then h\<lparr>hs_proxy := ''healthy''\<rparr> else h)"
  using assms by (auto simp: probe_proxy_def proxy_reachable_def result_bind_eq_Inr map_sum_eq_Inr split: option.splits if_splits)

definition plain_redaction :: "check_env \<Rightarrow> bool" where
  "plain_redaction ck \<longleftrightarrow> (\<forall>token. id_unforged (ce_redact (ck_client ck) token))"

lemma check_method_answered:
  "check_method (ck_client ck) (ck_http ck route) m token args = Inr r \<Longrightarrow> answered ck route token m args r"
  using check_answer_Inr unfolding check_method_def answered_def by blast

lemma probe_bot_success:
  assumes "pb_failure (probe_bot ck d h route token) = None" "plain_redaction ck" "fst (check_runtime ck d x) = Inr (route, token)"
  obtains n c me chat where "earned ck d x n c" "dict_get me ''id'' = Some (PInt n)" "dict_get chat ''id'' = Some (PInt c)"
    "probe_bot ck d h route token = \<lparr>pb_stages = h\<lparr>hs_telegram := ''healthy'', hs_bot := ''healthy'', hs_target := ''healthy'',
       hs_administrator := ''administrator''\<rparr>, pb_bot = Some me, pb_chat = Some chat, pb_failure = None\<rparr>"
proof -
  let ?ce = "ck_client ck" and ?http = "ck_http ck route"
  have unforged: "id_unforged (ce_redact ?ce token)" using assms(2) by (simp add: plain_redaction_def)
  obtain me where me: "get_me ?ce ?http token = Inr me"
    using assms(1) by (cases "get_me ?ce ?http token") (simp_all add: probe_bot_def failed_probe_def)
  obtain chat where chat: "get_chat ?ce ?http (de_target_ref d) token = Inr chat"
    using assms(1) me by (cases "get_chat ?ce ?http (de_target_ref d) token") (simp_all add: probe_bot_def failed_probe_def Let_def)
  obtain user where user: "dict_get me ''id'' = Some user"
    using assms(1) me chat by (cases "dict_get me ''id''") (simp_all add: probe_bot_def failed_probe_def Let_def)
  obtain n r where n: "check_method ?ce ?http ''getMe'' token [] = Inr r" "dict_get r ''id'' = Some (PInt n)" "0 < n"
    "dict_get r ''is_bot'' = Some (PBool True)"
    "dict_get me ''id'' = (if ce_redact ?ce token ''id'' = ''id'' then Some (PInt n) else None)"
    by (rule get_me_Inr [OF me unforged])
  have kept: "ce_redact ?ce token ''id'' = ''id''" "user = PInt n" using n(5) user by (simp_all split: if_splits)
  let ?m = "get_chat_member ?ce ?http (de_target_ref d) (PInt n) token"
  obtain member where m: "?m = Inr member"
    using assms(1) me chat user kept(2) by (cases ?m) (simp_all add: probe_bot_def failed_probe_def Let_def)
  have admin: "dict_get member ''administrator'' = Some (PBool True)"
    using assms(1) me chat user kept(2) m by (simp add: probe_bot_def failed_probe_def Let_def split: if_splits)
  obtain c q where c: "check_answer ?ce token ''Telegram returned an invalid destination response''
       ''Telegram rejected the destination check'' (?http (method_request ?ce token ''getChat'' [(KStr ''chat_id'', PStr (de_target_ref d))])) = Inr q"
    "dict_get q ''id'' = Some (PInt c)" "c \<noteq> 0" "dict_get chat ''id'' = Some (PInt c)"
    by (rule get_chat_Inr [OF chat unforged kept(1)])
  obtain w s where w: "check_method ?ce ?http ''getChatMember'' token [(KStr ''chat_id'', PStr (de_target_ref d)), (KStr ''user_id'', PInt n)] = Inr w"
    "dict_get w ''status'' = Some (PStr s)" "s \<in> {''creator'', ''administrator''}"
    by (rule get_chat_member_Inr [OF m admin])
  have "answered ck route token ''getChat'' [(KStr ''chat_id'', PStr (de_target_ref d))] q"
    unfolding answered_def by (rule check_answer_Inr [OF c(1)])
  then have "earned ck d x n c"
    unfolding earned_def using assms(3) n c w check_method_answered [OF n(1)] check_method_answered [OF w(1)] by blast
  moreover have "probe_bot ck d h route token = \<lparr>pb_stages = h\<lparr>hs_telegram := ''healthy'', hs_bot := ''healthy'', hs_target := ''healthy'',
       hs_administrator := ''administrator''\<rparr>, pb_bot = Some me, pb_chat = Some chat, pb_failure = None\<rparr>"
    using me chat user kept(2) m admin by (simp add: probe_bot_def Let_def)
  ultimately show thesis using that user kept(2) c(4) by blast
qed

lemma probe_success:
  assumes "probe_destination ck d x = (pb, x')" "pb_failure pb = None" "plain_redaction ck"
  obtains n c me chat where "earned ck d x n c" "dict_get me ''id'' = Some (PInt n)" "dict_get chat ''id'' = Some (PInt c)"
    "pb = \<lparr>pb_stages = final_stages ck d, pb_bot = Some me, pb_chat = Some chat, pb_failure = None\<rparr>" "proxy_reachable ck d x"
proof -
  obtain h where h: "probe_proxy ck d (first_stages d) x = Inr h"
    using assms(1,2) by (cases "probe_proxy ck d (first_stages d) x") (auto simp: probe_destination_def failed_probe_def)
  obtain r x1 where r: "check_runtime ck d x = (r, x1)" by fastforce
  obtain route token where rt: "r = Inr (route, token)"
    using assms(1,2) h r by (cases r) (auto simp: probe_destination_def failed_probe_def)
  have pb: "pb = probe_bot ck d h route token"
    using assms(1,2) h r rt by (auto simp: probe_destination_def failed_probe_def split: if_splits)
  have run: "fst (check_runtime ck d x) = Inr (route, token)" by (simp add: r rt)
  obtain n c me chat where e: "earned ck d x n c" "dict_get me ''id'' = Some (PInt n)" "dict_get chat ''id'' = Some (PInt c)"
    "pb = \<lparr>pb_stages = h\<lparr>hs_telegram := ''healthy'', hs_bot := ''healthy'', hs_target := ''healthy'',
       hs_administrator := ''administrator''\<rparr>, pb_bot = Some me, pb_chat = Some chat, pb_failure = None\<rparr>"
    by (rule probe_bot_success [OF assms(2) [unfolded pb] assms(3) run]) (use pb in simp)
  have "h\<lparr>hs_telegram := ''healthy'', hs_bot := ''healthy'', hs_target := ''healthy'', hs_administrator := ''administrator''\<rparr> = final_stages ck d"
    using probe_proxy_Inr(2) [OF h] by (auto simp: final_stages_def first_stages_def)
  then show thesis using that [OF e(1-3)] e(4) probe_proxy_Inr(1) [OF h] by simp
qed

text \<open>Nothing ran in between: the row is written over with the verdict.\<close>

lemma flush_same [simp]: "flush_destination d (verdict now pb e d) d = verdict now pb e d"
  by (cases d) (simp add: flush_destination_def verdict_def verified_by_def Let_def split: option.split)

lemma find_in_distinct:
  assumes "distinct (map de_id ds)" "d \<in> set ds" "P d"
  shows "find (\<lambda>e. de_id e = de_id d \<and> P e) ds = Some d"
  using assms by (induction ds) (auto simp: image_iff)

lemma settle_same:
  assumes "get_destination i x = Some d" "distinct (map de_id (dests x))"
  shows "settle_destination_check t now d pb x =
    (case map_option (mapped_check_error t) (pb_failure pb) of Some e \<Rightarrow> Inl e | None \<Rightarrow> Inr (check_result (de_id d) pb),
     put_destination (de_id d) (\<lambda>_. verdict now pb (map_option (mapped_check_error t) (pb_failure pb)) d) x)"
proof -
  have d: "d \<in> set (dests x)" using get_destination_Some [OF assms(1)] by simp
  have "find_destination (de_id d) (td_pub x) = Some d"
    using find_in_distinct [OF assms(2) d, of "\<lambda>_. True"] by (simp add: find_destination_def)
  moreover have "put_destination (de_id d) (flush_destination d b) x = put_destination (de_id d) (\<lambda>_. flush_destination d b d) x" for b
  proof -
    have "e = d" if "e \<in> set (dests x)" "de_id e = de_id d" for e using that d assms(2) by (metis distinct_map inj_on_def)
    then have "set_rows (\<lambda>e. de_id e = de_id d) (flush_destination d b) (dests x) =
      set_rows (\<lambda>e. de_id e = de_id d) (\<lambda>_. flush_destination d b d) (dests x)" unfolding set_rows_def by (intro map_cong refl) auto
    then show ?thesis by (simp add: put_destination_def on_destinations_def on_pub_def)
  qed
  ultimately show ?thesis by (simp add: settle_destination_check_def reread_def Let_def split: option.split)
qed

lemma get_put_destination:
  assumes "get_destination i x = Some d" "de_id d' = i" "de_platform d' = ''telegram''"
  shows "get_destination i (put_destination i (\<lambda>_. d') x) = Some d'"
  using assms
proof -
  have "find (\<lambda>d. de_id d = i \<and> de_platform d = ''telegram'') (set_rows (\<lambda>d. de_id d = i) (\<lambda>_. d') ds) = Some d'"
    if "find (\<lambda>d. de_id d = i \<and> de_platform d = ''telegram'') ds = Some d" for ds
    using that by (induction ds) (auto simp: set_rows_def assms(2,3) split: if_splits)
  then show ?thesis using assms(1) by (simp add: get_destination_def)
qed

lemma verdict_columns:
  "de_id (verdict now pb e d) = de_id d" "de_platform (verdict now pb e d) = de_platform d"
  "configuration (verdict now pb e d) = configuration d" "de_enabled (verdict now pb e d) = de_enabled d"
  "de_secret_id (verdict now pb e d) = de_secret_id d"
  "de_health_status (verdict now pb e d) = (if e = None then ''healthy'' else ''unhealthy'')"
  "de_failure_code (verdict now pb e d) = map_option handler_error_code e"
  by (simp_all add: verdict_def verified_by_def configuration_def Let_def split: option.split)

text \<open>
  C14: a destination's health is earned.  A check that answers with success has had Telegram confirm, over the
  destination's own route and with its own token, that the token belongs to a bot, that the target is a chat and
  that this bot administers it, and it files the identifiers Telegram gave; the row is then ready exactly when
  it has an encrypted token and its proxy, if it has one, was itself found reachable.  Any failure leaves the
  row unhealthy with the code of the error, so that it cannot be enabled.  The answers are read after their
  redaction; that the redactor makes no other field's name into \<open>id\<close> is the premise.
\<close>

theorem health_verdict_is_earned:
  assumes "destination_check ck p x = (out, x')" "load_destination_check p x = Inr d" "distinct (map de_id (dests x))"
    "plain_redaction ck"
  shows "\<exists>r. get_destination (de_id d) x' = Some r \<and> configuration r = configuration d \<and> de_enabled r = de_enabled d \<and>
    (case out of
       Inl e \<Rightarrow> de_health_status r = ''unhealthy'' \<and> de_failure_code r = Some (handler_error_code e) \<and> \<not> destination_ready r
     | Inr res \<Rightarrow> \<exists>n c. earned ck d x n c \<and> proxy_reachable ck d x \<and> de_failure_code r = None \<and>
         de_verified_bot_id r = Some n \<and> de_verified_chat_id r = Some c \<and>
         (destination_ready r \<longleftrightarrow> de_secret_id d \<noteq> None \<and> (de_proxy_profile_id d = None \<or> ck_routed ck)))"
proof -
  obtain i where i: "get_destination i x = Some d"
    using assms(2) by (auto simp: load_destination_check_def split: option.splits)
  then have id: "de_id d = i" "de_platform d = ''telegram''" using get_destination_Some by blast+
  obtain pb x1 where pb: "probe_destination ck d x = (pb, x1)" by fastforce
  have rows: "td_pub x1 = td_pub x" using probe_rows [OF pb] by (simp add: same_rows_def)
  then have i1: "get_destination i x1 = Some d" "distinct (map de_id (dests x1))" using i assms(3) by (simp_all add: get_destination_def)
  let ?now = "env_now (te_env (ck_tg ck))"
  let ?e = "map_option (mapped_check_error ?now) (pb_failure pb)"
  let ?r = "verdict ?now pb ?e d"
  have s: "destination_check ck p x = settle_destination_check ?now ?now d pb x1"
    by (simp add: destination_check_def assms(2) pb)
  then have out: "out = (case ?e of Some e \<Rightarrow> Inl e | None \<Rightarrow> Inr (check_result (de_id d) pb))"
    and x': "x' = put_destination (de_id d) (\<lambda>_. ?r) x1"
    using assms(1) settle_same [OF i1, of ?now ?now pb] by simp_all
  have get: "get_destination (de_id d) x' = Some ?r"
    unfolding x' id(1) by (rule get_put_destination [OF i1(1)]) (simp_all add: verdict_columns id)
  show ?thesis
  proof (cases "pb_failure pb")
    case (Some f)
    then have "de_health_status ?r = ''unhealthy''" by (simp add: verdict_columns)
    then show ?thesis using get Some by (simp add: out verdict_columns destination_ready_def)
  next
    case None
    obtain n c me chat where e: "earned ck d x n c" "dict_get me ''id'' = Some (PInt n)" "dict_get chat ''id'' = Some (PInt c)"
      "pb = \<lparr>pb_stages = final_stages ck d, pb_bot = Some me, pb_chat = Some chat, pb_failure = None\<rparr>" "proxy_reachable ck d x"
      by (rule probe_success [OF pb None assms(4)])
    have "de_verified_bot_id ?r = Some n" "de_verified_chat_id ?r = Some c"
      using e(2,3) by (simp_all add: e(4) verdict_def verified_by_def get_or_def Let_def)
    moreover have "destination_ready ?r \<longleftrightarrow> de_secret_id d \<noteq> None \<and> (de_proxy_profile_id d = None \<or> ck_routed ck)"
      by (simp add: e(4) destination_ready_def verdict_def verified_by_def final_stages_def Let_def)
    ultimately show ?thesis using get e(1,5) None by (simp add: out verdict_columns)
  qed
qed

section \<open>A row that changes during its check\<close>

text \<open>What the flush leaves of a row that another transaction replaced: its own settings with the verdict on the loaded ones.\<close>

lemma settle_stale:
  assumes "find_destination (de_id d) (td_pub x) = Some r" "pb_failure pb = None"
  shows "settle_destination_check t now d pb x =
    (Inr (check_result (de_id d) pb), put_destination (de_id d) (flush_destination d (verdict now pb None d)) x)"
  using assms by (simp add: settle_destination_check_def reread_def Let_def)

lemma find_destination_put:
  assumes "find_destination i y = Some r" "\<And>e. de_id (f e) = de_id e"
  shows "find_destination i (y\<lparr>pu_destinations := set_rows (\<lambda>e. de_id e = i) f (pu_destinations y)\<rparr>) = Some (f r)"
proof -
  have "find (\<lambda>e. de_id e = i) (set_rows (\<lambda>e. de_id e = i) f ds) = Some (f r)" if "find (\<lambda>e. de_id e = i) ds = Some r" for ds
    using that by (induction ds) (auto simp: set_rows_def assms(2) split: if_splits)
  then show ?thesis using assms(1) by (simp add: find_destination_def)
qed

text \<open>
  C35: a change during a check goes unnoticed.  The operator asks for a new check of a destination without a
  proxy; while Telegram is asked about the settings loaded then, another request replaces the row's target or
  token.  The handler means to notice and to file the row as unknown, but it compares the loaded settings with
  themselves: it answers with success, files the verdict on the old settings over the new ones, and the row,
  whose target and token nobody has checked, is ready and can be enabled.
\<close>

theorem change_during_check_is_missed:
  assumes "d = mark_destination_checking True d0" "de_proxy_profile_id d0 = None"
    "pb_stages pb = final_stages ck d" "pb_failure pb = None"
    "find_destination (de_id d) (td_pub x) = Some r" "configuration r \<noteq> configuration d"
    "de_secret_id r \<noteq> None" "de_proxy_health_status r = ''direct''"
  shows "\<exists>x' r'. settle_destination_check t now d pb x = (Inr (check_result (de_id d) pb), x') \<and>
    find_destination (de_id d) (td_pub x') = Some r' \<and> configuration r' = configuration r \<and> configuration r' \<noteq> configuration d \<and>
    de_health_status r' = ''healthy'' \<and> destination_ready r' \<and> enable_destination r' = Inr (r'\<lparr>de_enabled := True\<rparr>)"
proof -
  let ?f = "flush_destination d (verdict now pb None d)"
  have "find_destination (de_id d) (td_pub (put_destination (de_id d) ?f x)) = Some (?f r)"
    using find_destination_put [OF assms(5), of ?f] by (simp add: put_destination_def on_destinations_def on_pub_def flush_destination_def)
  moreover have "configuration (?f r) = configuration r" by (simp add: configuration_def flush_destination_def)
  moreover have "de_health_status (?f r) = ''healthy''"
    by (simp add: assms(1) flush_destination_def verdict_columns mark_destination_checking_def written_def)
  moreover have "de_telegram_health_status (?f r) = ''healthy''" "de_bot_health_status (?f r) = ''healthy''"
    "de_target_health_status (?f r) = ''healthy''" "de_administrator_status (?f r) = ''administrator''"
    "de_proxy_health_status (?f r) = ''direct''" "de_secret_id (?f r) = de_secret_id r"
    using assms(1-3,8)
    by (simp_all add: flush_destination_def verdict_def verified_by_def mark_destination_checking_def final_stages_def written_def Let_def
        split: option.split)
  ultimately show ?thesis using settle_stale [OF assms(5,4), of t now] assms(6,7)
    by (auto simp: destination_ready_def enable_destination_def)
qed

end
