(* ===== verification/Telegram_Destinations_Samples.thy ===== *)
theory Telegram_Destinations_Samples
  imports Telegram_Checks_Spec
begin

text \<open>
  One destination that is checked and enabled, and the same destination moved to another target while a
  check of it is under way.
\<close>

section \<open>The environment\<close>

definition sample_vault :: secret_env where
  "sample_vault = \<lparr>sn_redact_string = id, sn_db_now = 0, sn_seal = (\<lambda>k n v a. Some v), sn_open = (\<lambda>k n c a. Some c)\<rparr>"

definition sample_uuid :: "nat \<Rightarrow> uuid" where
  "sample_uuid n = ''00000000-0000-4000-8000-00000000000'' @ nat_str n"

definition sample_te :: tg_env where
  "sample_te =
     \<lparr>te_env = plain_env\<lparr>env_uuid := sample_uuid\<rparr>, te_secret = sample_vault,
      te_ring = Some \<lparr>kr_active_version = ''v1'', kr_keys = [(''v1'', replicate 32 CHR ''k'')]\<rparr>,
      te_principal = \<lparr>pc_principal_type = ''local_owner'', pc_principal_id = ''owner'',
        pc_scopes = [''destinations:read'', ''destinations:write'']\<rparr>,
      te_net = sample_net, te_nonce = (\<lambda>_. ''nonce'')\<rparr>"

text \<open>Telegram knows one bot, with one token, and one channel, which the bot administers.\<close>

definition bot_api :: "http_request \<Rightarrow> http_answer" where
  "bot_api q =
     (let ok = (\<lambda>r. Http_Answer 200 (Some (PDict [(KStr ''ok'', PBool True), (KStr ''result'', PDict r)]))) in
      if hq_url q = ''/bottoken/getMe'' then ok [(KStr ''id'', PInt 7), (KStr ''is_bot'', PBool True), (KStr ''username'', PStr ''b'')]
      else if dict_get (hq_fields q) ''chat_id'' \<noteq> Some (PStr ''@newscraft'') then Transport_Failed
      else if hq_url q = ''/bottoken/getChat'' then ok [(KStr ''id'', PInt (-9)), (KStr ''type'', PStr ''channel'')]
      else if hq_url q = ''/bottoken/getChatMember'' then ok [(KStr ''status'', PStr ''administrator'')]
      else Transport_Failed)"

text \<open>A redactor that hides the occurrences of the token.\<close>

function hide :: "string \<Rightarrow> string \<Rightarrow> string" where
  "hide p s =
     (case s of [] \<Rightarrow> [] | c # cs \<Rightarrow>
        if p \<noteq> [] \<and> starts_with p s then ''[REDACTED]'' @ hide p (drop (length p) s) else c # hide p cs)"
  by pat_completeness auto
termination by (relation "measure (\<lambda>(p, s). length s)") auto

declare hide.simps [simp del]

lemma hide_mark: "hide p s = s \<or> CHR ''['' \<in> set (hide p s)"
  by (induction p s rule: hide.induct) (subst (1 2) hide.simps, auto split: list.splits)

definition sample_ck :: check_env where
  "sample_ck =
     \<lparr>ck_tg = sample_te, ck_client = \<lparr>ce_base_url = [], ce_redact = hide, ce_digest = (\<lambda>_. None)\<rparr>,
      ck_http = (\<lambda>_. bot_api), ck_client_ok = (\<lambda>_. True), ck_routed = True, ck_supports_checks = True, ck_resolver = (\<lambda>_. None)\<rparr>"

definition no_rows :: tg_db where
  "no_rows =
     \<lparr>td_pub = \<lparr>pu_db = empty_db, pu_routes = [], pu_destinations = [], pu_publications = [], pu_packs = [], pu_variants = [],
        pu_revisions = [], pu_story_revisions = [], pu_snapshots = [], pu_media = [], pu_item_media = [], pu_source_items = []\<rparr>,
      td_proxies = [], td_versions = [], td_secrets = \<lparr>sx_secrets = [], sx_audit = []\<rparr>\<rparr>"

section \<open>The run\<close>

definition after_request :: "tg_request \<Rightarrow> tg_db \<Rightarrow> tg_db" where
  "after_request q x = (case tg_handle sample_te q x of Inr (_, x') \<Rightarrow> x' | Inl _ \<Rightarrow> x)"

definition after_check :: "pydict \<Rightarrow> tg_db \<Rightarrow> tg_db" where
  "after_check p x = snd (destination_check sample_ck p x)"

text \<open>The rows a request for the destination leaves, without its job and events.\<close>

definition sample_token :: encrypted_secret where
  "sample_token = \<lparr>sk_id = sample_uuid 1, sk_purpose = ''telegram_bot_token'', sk_owner_type = ''telegram_destination'',
     sk_owner_id = sample_uuid 0, sk_ciphertext = ''token'', sk_nonce = ''nonce'', sk_key_version = ''v1'', sk_created_at = 0,
     sk_last_rotated_at = 0\<rparr>"

definition created_row :: destination where
  "created_row = mark_destination_checking False
     (with_secret sample_token (new_destination sample_te (sample_uuid 0) ''News'' (''@newscraft'', ''username'') None))"

definition created_rows :: tg_db where
  "created_rows = on_destinations (\<lambda>_. [created_row]) (on_secrets (\<lambda>sx. sx\<lparr>sx_secrets := [sample_token]\<rparr>) no_rows)"

definition check_payload :: pydict where
  "check_payload = [(KStr ''destination_id'', PStr (sample_uuid 0))]"

definition checked_rows :: tg_db where
  "checked_rows = after_check check_payload created_rows"

definition enabled_rows :: tg_db where
  "enabled_rows = after_request (Enable_Destination (sample_uuid 0)) checked_rows"

definition row_facts :: "tg_db \<Rightarrow> (uuid \<times> string \<times> uuid option \<times> bool \<times> string \<times> int option) list" where
  "row_facts x =
     map (\<lambda>d. (de_id d, de_target_ref d, de_secret_id d, de_enabled d, de_health_status d, de_verified_chat_id d)) (dests x)"

lemma run_facts:
  "row_facts enabled_rows = [(sample_uuid 0, ''@newscraft'', Some (sample_uuid 1), True, ''healthy'', Some (- 9))]"
  by code_simp

lemma request_run: "(tg_step sample_net)\<^sup>*\<^sup>* x (after_request q x)"
proof (cases "tg_handle sample_te q x")
  case (Inr r)
  obtain j y where "r = (j, y)" by (cases r)
  then show ?thesis using tg_step.request [of sample_te q x j y] Inr by (auto simp: after_request_def sample_te_def)
qed (simp add: after_request_def)

lemma check_run: "(tg_step nl)\<^sup>*\<^sup>* x (after_check p x)"
proof (cases "load_destination_check p x")
  case (Inr d)
  obtain pb y where pb: "probe_destination sample_ck d x = (pb, y)" by fastforce
  obtain r z where s: "settle_destination_check (env_now (te_env (ck_tg sample_ck))) (env_now (te_env (ck_tg sample_ck))) d pb y = (r, z)"
    by fastforce
  have "after_check p x = z" by (simp add: after_check_def destination_check_def Inr pb s)
  moreover have "tg_step nl x y" "tg_step nl y z" by (rule tg_step.probe [OF pb], rule tg_step.settle [OF s])
  ultimately show ?thesis by (meson converse_rtranclp_into_rtranclp r_into_rtranclp)
qed (simp add: after_check_def destination_check_def)

lemma sample_run:
  "(tg_step sample_net)\<^sup>*\<^sup>* created_rows enabled_rows"
  unfolding enabled_rows_def checked_rows_def by (meson request_run check_run rtranclp_trans)

lemma created_row_simps:
  "de_id created_row = sample_uuid 0" "de_secret_id created_row = Some (sample_uuid 1)"
  "de_secret_ref created_row = ''encrypted:'' @ sample_uuid 1" "de_proxy_profile_id created_row = None" "\<not> de_enabled created_row"
  by (simp_all add: created_row_def mark_destination_checking_def with_secret_def new_destination_def sample_token_def)

lemma created_rows_simps:
  "dests created_rows = [created_row]" "td_proxies created_rows = []" "secrets created_rows = [sample_token]"
  "used_destinations (td_pub created_rows) = {}"
  by (simp_all add: created_rows_def no_rows_def used_destinations_def empty_db_def on_destinations_def on_pub_def on_secrets_def)

lemma created_rows_ok: "tg_ok nl created_rows"
  by (simp add: tg_ok_def created_rows_simps destination_ok_def created_row_simps owned_secret_def secret_columns_def sample_token_def)

lemma enabled_row:
  "dests enabled_rows = [hd (dests enabled_rows)]" "de_id (hd (dests enabled_rows)) = sample_uuid 0" "de_enabled (hd (dests enabled_rows))"
  using run_facts by (auto simp: row_facts_def)

lemma destinations_stay_consistent_witness:
  "destination_ok enabled_rows (hd (dests enabled_rows)) \<and> used_destinations (td_pub enabled_rows) \<subseteq> {sample_uuid 0}"
  using destinations_stay_consistent [OF sample_run created_rows_ok] enabled_row by (metis empty_set image_empty image_insert list.set(2) list.set_intros(1))

lemma enabled_setup_was_ready_witness:
  "\<exists>y e. (tg_step sample_net)\<^sup>*\<^sup>* created_rows y \<and> (tg_step sample_net)\<^sup>*\<^sup>* y enabled_rows \<and> e \<in> set (dests y) \<and> de_id e = sample_uuid 0 \<and>
     setup_of y e = setup_of enabled_rows (hd (dests enabled_rows)) \<and> destination_ready e"
proof -
  have "hd (dests enabled_rows) \<in> set (dests enabled_rows)" using enabled_row(1) by (metis list.set_intros(1))
  from enabled_setup_was_ready [OF sample_run created_rows_ok this enabled_row(3)] enabled_row(2)
  show ?thesis by (auto simp: created_rows_simps created_row_simps)
qed

section \<open>The verdict\<close>

lemma sample_redaction: "plain_redaction sample_ck"
proof -
  have "s = ''id''" if "hide p s = ''id''" for p s using hide_mark [of p s] that by auto
  then show ?thesis by (simp add: plain_redaction_def sample_ck_def id_unforged_def)
qed

lemma created_check:
  "destination_check sample_ck check_payload created_rows = (fst (destination_check sample_ck check_payload created_rows), checked_rows)"
  "\<not> isl (fst (destination_check sample_ck check_payload created_rows))" "load_destination_check check_payload created_rows = Inr created_row"
  by (simp add: checked_rows_def after_check_def) code_simp+

lemma health_verdict_is_earned_witness:
  "\<exists>r n c. get_destination (sample_uuid 0) checked_rows = Some r \<and> earned sample_ck created_row created_rows n c \<and>
     de_verified_bot_id r = Some n \<and> de_verified_chat_id r = Some c \<and> destination_ready r"
proof -
  have "distinct (map de_id (dests created_rows))" by (simp add: created_rows_simps)
  note verdict = health_verdict_is_earned [OF created_check(1,3) this sample_redaction]
  have "ck_routed sample_ck" by (simp add: sample_ck_def)
  show ?thesis
  proof (cases "fst (destination_check sample_ck check_payload created_rows)")
    case (Inr res)
    then show ?thesis using verdict \<open>ck_routed sample_ck\<close> created_row_simps by auto
  qed (use created_check(2) in simp)
qed

section \<open>A change during the check\<close>

text \<open>The operator asks for a new check and, before it is settled, moves the destination elsewhere.\<close>

definition loaded_row :: destination where
  "loaded_row = mark_destination_checking True created_row"

definition good_probe :: probe where
  "good_probe = fst (probe_destination sample_ck loaded_row created_rows)"

definition moved_row :: destination where
  "moved_row = mark_destination_checking False
     (fst (projr (patch_destination sample_te loaded_row \<lparr>dx_name = None, dx_target = Some ''@elsewhere'', dx_proxy_profile_id = None\<rparr>
       created_rows)))"

definition moved_rows :: tg_db where
  "moved_rows = put_destination (sample_uuid 0) (\<lambda>_. moved_row) created_rows"

lemma probe_facts:
  "(pb_stages good_probe, pb_failure good_probe) = (final_stages sample_ck loaded_row, None)"
  by code_simp

lemma moved_facts:
  "(de_id moved_row, de_target_ref moved_row, de_secret_id moved_row, de_proxy_health_status moved_row) =
     (sample_uuid 0, ''@elsewhere'', Some (sample_uuid 1), ''direct'')"
  by code_simp

lemma change_during_check_is_missed_witness:
  "\<exists>x' r'. settle_destination_check 1 1 loaded_row good_probe moved_rows = (Inr (check_result (de_id loaded_row) good_probe), x') \<and>
     find_destination (de_id loaded_row) (td_pub x') = Some r' \<and> de_target_ref r' = ''@elsewhere'' \<and> destination_ready r'"
proof -
  have id: "de_id loaded_row = sample_uuid 0" "de_target_ref loaded_row = ''@newscraft''"
    by (simp_all add: loaded_row_def created_row_def mark_destination_checking_def with_secret_def new_destination_def)
  have "dests moved_rows = [moved_row]"
    by (simp add: moved_rows_def created_rows_simps set_rows_def created_row_simps)
  then have "find_destination (de_id loaded_row) (td_pub moved_rows) = Some moved_row"
    using moved_facts by (simp add: find_destination_def id)
  moreover have "configuration moved_row \<noteq> configuration loaded_row" "de_secret_id moved_row \<noteq> None" "de_proxy_health_status moved_row = ''direct''"
    using moved_facts id by (simp_all add: configuration_def)
  ultimately show ?thesis
    using change_during_check_is_missed [OF loaded_row_def created_row_simps(4), of good_probe sample_ck moved_rows moved_row 1 1] probe_facts moved_facts
    by (auto simp: configuration_def)
qed

end
