(* ===== verification/Platform_Schemas.thy ===== *)
theory Platform_Schemas
  imports Telegram_Checks "HOL-Library.Monad_Syntax"
begin

text \<open>
  The content of a manual platform: the payload schemas of \<open>app/generation/platform_schemas.py\<close>, and the limits
  and the length of a post of \<open>platform_limits.py\<close>.  Reading a URL or an \<open>int\<close> is pydantic's, an IP address and
  an IDNA name the library's: fields of \<open>schema_lib\<close>.  A stored content is a JSON value.
\<close>

record http_url =
  hu_text :: string
  hu_userinfo :: bool \<comment> \<open>a user name or a password\<close>
  hu_host :: "string option"

record schema_lib =
  sl_url :: "string \<Rightarrow> http_url option"
  sl_int :: "pyval \<Rightarrow> int option"
  sl_ip :: "string \<Rightarrow> bool"
  sl_idna :: "string \<Rightarrow> bool"
  sl_telegram :: "telegram_content \<Rightarrow> telegram_content option" \<comment> \<open>\<open>model_validate\<close> of the dumped payload\<close>

section \<open>Limits\<close>

abbreviation INSTAGRAM_CAPTION_MAX :: nat where "INSTAGRAM_CAPTION_MAX \<equiv> 2200"
abbreviation INSTAGRAM_HASHTAG_MAX :: nat where "INSTAGRAM_HASHTAG_MAX \<equiv> 30"
abbreviation INSTAGRAM_CAROUSEL_MAX :: nat where "INSTAGRAM_CAROUSEL_MAX \<equiv> 20"
abbreviation INSTAGRAM_HOOK_MAX :: nat where "INSTAGRAM_HOOK_MAX \<equiv> 180"
abbreviation INSTAGRAM_CTA_MAX :: nat where "INSTAGRAM_CTA_MAX \<equiv> 300"
abbreviation INSTAGRAM_SLIDE_HEADLINE_MAX :: nat where "INSTAGRAM_SLIDE_HEADLINE_MAX \<equiv> 120"
abbreviation INSTAGRAM_SLIDE_BODY_MAX :: nat where "INSTAGRAM_SLIDE_BODY_MAX \<equiv> 500"
abbreviation X_POST_WEIGHT_MAX :: nat where "X_POST_WEIGHT_MAX \<equiv> 280"
abbreviation X_MEDIA_PER_POST_MAX :: nat where "X_MEDIA_PER_POST_MAX \<equiv> 4"
abbreviation X_POSTS_MAX :: nat where "X_POSTS_MAX \<equiv> 25"
abbreviation BLOG_SEO_DESCRIPTION_MAX :: nat where "BLOG_SEO_DESCRIPTION_MAX \<equiv> 160"
abbreviation BLOG_TITLE_MAX :: nat where "BLOG_TITLE_MAX \<equiv> 120"
abbreviation BLOG_SLUG_MAX :: nat where "BLOG_SLUG_MAX \<equiv> 120"
abbreviation BLOG_EXCERPT_MAX :: nat where "BLOG_EXCERPT_MAX \<equiv> 300"
abbreviation BLOG_BODY_MIN :: nat where "BLOG_BODY_MIN \<equiv> 200"
abbreviation BLOG_TAG_MAX :: nat where "BLOG_TAG_MAX \<equiv> 20"
abbreviation MEDIA_ALT_TEXT_MAX :: nat where "MEDIA_ALT_TEXT_MAX \<equiv> 1000"
abbreviation MEDIA_BRIEF_MAX :: nat where "MEDIA_BRIEF_MAX \<equiv> 2000"
abbreviation MEDIA_PROMPT_MAX :: nat where "MEDIA_PROMPT_MAX \<equiv> 2000"

text \<open>The candidate a URL owns: trailing punctuation and unbalanced closing brackets are not part of it.\<close>

definition rstrip_chars :: "string \<Rightarrow> string \<Rightarrow> string" where
  "rstrip_chars cs s = rev (dropWhile (\<lambda>c. c \<in> set cs) (rev s))"

function drop_unbalanced :: "char \<Rightarrow> char \<Rightarrow> string \<Rightarrow> string" where
  "drop_unbalanced opening closing s =
     (if s \<noteq> [] \<and> last s = closing \<and> count_list s closing > count_list s opening
      then drop_unbalanced opening closing (butlast s) else s)"
  by pat_completeness auto
termination by (relation "measure (\<lambda>(p, q, s). length s)") auto

declare drop_unbalanced.simps [simp del]

definition url_owned_candidate :: "string \<Rightarrow> string" where
  "url_owned_candidate raw =
     drop_unbalanced CHR ''{'' CHR ''}'' (drop_unbalanced CHR ''['' CHR '']'' (drop_unbalanced CHR ''('' CHR '')''
       (rstrip_chars (''.,!?;:'' @ [CHR 0x27, CHR 0x22]) raw)))"

definition valid_http_url :: "schema_lib \<Rightarrow> string \<Rightarrow> bool" where
  "valid_http_url lib candidate =
     (case sl_url lib candidate of
        None \<Rightarrow> False
      | Some u \<Rightarrow>
          (case hu_host u of
             None \<Rightarrow> False
           | Some h \<Rightarrow>
               \<not> hu_userinfo u \<and>
               (let host = rstrip_chars ''.'' h;
                    address = (if starts_with ''['' host \<and> ends_with '']'' host then butlast (tl host) else host) in
                sl_ip lib address \<or> sl_idna lib host)))"

text \<open>The matches of the URL pattern, each with its position.\<close>

definition url_char :: "char \<Rightarrow> bool" where
  "url_char c \<longleftrightarrow> \<not> is_space c \<and> c \<noteq> CHR ''<'' \<and> c \<noteq> CHR ''>''"

definition url_match :: "string \<Rightarrow> string option" where
  "url_match s =
     (let k = (if starts_with ''http://'' (lower s) then 7 else if starts_with ''https://'' (lower s) then 8 else 0);
          tail = takeWhile url_char (drop k s) in
      if k = 0 \<or> tail = [] then None else Some (take k s @ tail))"

lemma url_match_nonempty: "url_match s = Some raw \<Longrightarrow> raw \<noteq> []"
  by (auto simp: url_match_def Let_def split: if_splits)

function url_matches :: "nat \<Rightarrow> string \<Rightarrow> (nat \<times> string) list" where
  "url_matches i s =
     (case s of [] \<Rightarrow> []
      | c # cs \<Rightarrow>
          (case url_match s of
             None \<Rightarrow> url_matches (Suc i) cs
           | Some raw \<Rightarrow> (i, raw) # url_matches (i + length raw) (drop (length raw) s)))"
  by pat_completeness auto
termination by (relation "measure (\<lambda>(i, s). length s)") (auto dest: url_match_nonempty)

declare url_matches.simps [simp del]

definition count_url :: "schema_lib \<Rightarrow> nat \<times> string \<Rightarrow> nat \<times> nat \<Rightarrow> nat \<times> nat" where
  "count_url lib = (\<lambda>(start, raw) (weighted, cursor).
     let url = url_owned_candidate raw in
     if \<not> valid_http_url lib url then (weighted, cursor)
     else (weighted + (start - cursor) + 23, start + length url))"

definition x_weighted_length :: "schema_lib \<Rightarrow> string \<Rightarrow> nat" where
  "x_weighted_length lib s =
     (let (weighted, cursor) = fold (count_url lib) (url_matches 0 s) (0, 0) in weighted + (length s - cursor))"

section \<open>Payloads\<close>

record media_assignment =
  mg_media_asset_id :: "uuid option"
  mg_role :: string
  mg_order :: int
  mg_alt_text :: string
  mg_manual_brief :: "string option"
  mg_image_prompt :: "string option"

record citation_ref =
  cr_evidence_key :: string
  cr_evidence_snapshot_id :: uuid
  cr_source_url :: "http_url option"
  cr_locator :: string
  cr_excerpt_sha256 :: string

record instagram_slide =
  sd_order :: int
  sd_headline :: string
  sd_body :: string
  sd_media :: media_assignment

record instagram_payload =
  ig_hook :: string
  ig_caption :: string
  ig_cta :: string
  ig_hashtags :: "string list"
  ig_alt_text :: string
  ig_carousel :: "instagram_slide list"
  ig_citations :: "citation_ref list"
  ig_manual_checklist :: "string list"

record x_post =
  xp_order :: int
  xp_text :: string
  xp_media :: "media_assignment list"
  xp_citations :: "citation_ref list"

record x_payload =
  xv_mode :: string
  xv_posts :: "x_post list"
  xv_link_strategy :: string
  xv_manual_checklist :: "string list"

record blog_payload =
  bg_title :: string
  bg_slug :: string
  bg_excerpt :: string
  bg_body_markdown :: string
  bg_headings :: "string list"
  bg_citations :: "citation_ref list"
  bg_tags :: "string list"
  bg_seo_description :: string
  bg_hero_media :: "media_assignment option"
  bg_canonical_sources :: "http_url list"
  bg_manual_checklist :: "string list"

datatype platform_payload =
    TelegramVariantPayload telegram_content
  | InstagramVariantPayload instagram_payload
  | XVariantPayload x_payload
  | BlogVariantPayload blog_payload

section \<open>Reading a payload from its JSON\<close>

text \<open>A model without extra fields; the fields in the second list have a default.\<close>

definition model_fields :: "string list \<Rightarrow> string list \<Rightarrow> pyval \<Rightarrow> pydict option" where
  "model_fields required optional v =
     (case v of
        PDict d \<Rightarrow>
          if list_all (\<lambda>(k, w). k \<in> KStr ` set (required @ optional)) d \<and>
             list_all (\<lambda>f. dict_get d f \<noteq> None) required then Some d else None
      | _ \<Rightarrow> None)"

definition within :: "nat \<Rightarrow> nat option \<Rightarrow> nat \<Rightarrow> bool" where
  "within lo hi n \<longleftrightarrow> lo \<le> n \<and> (case hi of None \<Rightarrow> True | Some h \<Rightarrow> n \<le> h)"

definition text_field :: "nat \<Rightarrow> nat option \<Rightarrow> pyval \<Rightarrow> string option" where
  "text_field lo hi v = (case v of PStr s \<Rightarrow> if within lo hi (length s) then Some s else None | _ \<Rightarrow> None)"

definition int_field :: "schema_lib \<Rightarrow> int option \<Rightarrow> pyval \<Rightarrow> int option" where
  "int_field lib hi v =
     (case sl_int lib v of
        None \<Rightarrow> None
      | Some i \<Rightarrow> if 1 \<le> i \<and> (case hi of None \<Rightarrow> True | Some h \<Rightarrow> i \<le> h) then Some i else None)"

definition literal_field :: "string list \<Rightarrow> pyval \<Rightarrow> string option" where
  "literal_field allowed v = (case v of PStr s \<Rightarrow> if s \<in> set allowed then Some s else None | _ \<Rightarrow> None)"

definition nullable :: "(pyval \<Rightarrow> 'a option) \<Rightarrow> pyval \<Rightarrow> 'a option option" where
  "nullable f v = (if v = PNone then Some None else map_option Some (f v))"

definition list_field :: "(pyval \<Rightarrow> 'a option) \<Rightarrow> nat \<Rightarrow> nat option \<Rightarrow> pyval \<Rightarrow> 'a list option" where
  "list_field f lo hi v =
     (case v of
        PList vs \<Rightarrow> (case all_some (map f vs) of None \<Rightarrow> None | Some xs \<Rightarrow> if within lo hi (length xs) then Some xs else None)
      | _ \<Rightarrow> None)"

definition url_field :: "schema_lib \<Rightarrow> pyval \<Rightarrow> http_url option" where
  "url_field lib v = (case v of PStr s \<Rightarrow> sl_url lib s | _ \<Rightarrow> None)"

definition hex_field :: "pyval \<Rightarrow> string option" where
  "hex_field v =
     (case v of PStr s \<Rightarrow> if hex64 s then Some s else None | _ \<Rightarrow> None)"

text \<open>\<open>^[a-z0-9]+(?:-[a-z0-9]+)*$\<close>\<close>

definition slug_shape :: "string \<Rightarrow> bool" where
  "slug_shape s =
     list_all (\<lambda>part. part \<noteq> [] \<and> list_all (\<lambda>c. c \<in> set ''abcdefghijklmnopqrstuvwxyz0123456789'') part)
       (split_on CHR ''-'' s)"

definition slug_field :: "pyval \<Rightarrow> string option" where
  "slug_field v = (case text_field 0 (Some BLOG_SLUG_MAX) v of None \<Rightarrow> None | Some s \<Rightarrow> if slug_shape s then Some s else None)"

definition media_field :: "schema_lib \<Rightarrow> pyval \<Rightarrow> media_assignment option" where
  "media_field lib v = do {
     d \<leftarrow> model_fields [''media_asset_id'', ''role'', ''order'', ''alt_text''] [''manual_brief'', ''image_prompt''] v;
     asset \<leftarrow> nullable model_uuid (get_or d ''media_asset_id'' PNone);
     role \<leftarrow> literal_field [''hero'', ''slide'', ''post'', ''inline''] (get_or d ''role'' PNone);
     order \<leftarrow> int_field lib None (get_or d ''order'' PNone);
     alt \<leftarrow> text_field 1 (Some MEDIA_ALT_TEXT_MAX) (get_or d ''alt_text'' PNone);
     brief \<leftarrow> nullable (text_field 0 (Some MEDIA_BRIEF_MAX)) (get_or d ''manual_brief'' PNone);
     prompt \<leftarrow> nullable (text_field 0 (Some MEDIA_PROMPT_MAX)) (get_or d ''image_prompt'' PNone);
     Some \<lparr>mg_media_asset_id = asset, mg_role = role, mg_order = order, mg_alt_text = alt, mg_manual_brief = brief,
           mg_image_prompt = prompt\<rparr>}"

definition citation_field :: "schema_lib \<Rightarrow> pyval \<Rightarrow> citation_ref option" where
  "citation_field lib v = do {
     d \<leftarrow> model_fields [''evidence_key'', ''evidence_snapshot_id'', ''source_url'', ''locator'', ''excerpt_sha256''] [] v;
     key \<leftarrow> text_field 0 None (get_or d ''evidence_key'' PNone);
     snapshot \<leftarrow> model_uuid (get_or d ''evidence_snapshot_id'' PNone);
     url \<leftarrow> nullable (url_field lib) (get_or d ''source_url'' PNone);
     locator \<leftarrow> text_field 1 (Some 240) (get_or d ''locator'' PNone);
     excerpt \<leftarrow> hex_field (get_or d ''excerpt_sha256'' PNone);
     Some \<lparr>cr_evidence_key = key, cr_evidence_snapshot_id = snapshot, cr_source_url = url, cr_locator = locator,
           cr_excerpt_sha256 = excerpt\<rparr>}"

definition userinfo_free :: "http_url option list \<Rightarrow> bool" where
  "userinfo_free urls = list_all (\<lambda>u. case u of None \<Rightarrow> True | Some h \<Rightarrow> \<not> hu_userinfo h) urls"

definition slide_field :: "schema_lib \<Rightarrow> pyval \<Rightarrow> instagram_slide option" where
  "slide_field lib v = do {
     d \<leftarrow> model_fields [''order'', ''headline'', ''body'', ''media''] [] v;
     order \<leftarrow> int_field lib (Some (int INSTAGRAM_CAROUSEL_MAX)) (get_or d ''order'' PNone);
     headline \<leftarrow> text_field 1 (Some INSTAGRAM_SLIDE_HEADLINE_MAX) (get_or d ''headline'' PNone);
     body \<leftarrow> text_field 1 (Some INSTAGRAM_SLIDE_BODY_MAX) (get_or d ''body'' PNone);
     media \<leftarrow> media_field lib (get_or d ''media'' PNone);
     Some \<lparr>sd_order = order, sd_headline = headline, sd_body = body, sd_media = media\<rparr>}"

definition instagram_model :: "schema_lib \<Rightarrow> pyval \<Rightarrow> instagram_payload option" where
  "instagram_model lib v = do {
     d \<leftarrow> model_fields [''hook'', ''caption'', ''cta'', ''hashtags'', ''alt_text'', ''carousel'', ''citations'',
                       ''manual_checklist''] [] v;
     hook \<leftarrow> text_field 1 (Some INSTAGRAM_HOOK_MAX) (get_or d ''hook'' PNone);
     caption \<leftarrow> text_field 1 (Some INSTAGRAM_CAPTION_MAX) (get_or d ''caption'' PNone);
     cta \<leftarrow> text_field 1 (Some INSTAGRAM_CTA_MAX) (get_or d ''cta'' PNone);
     hashtags \<leftarrow> list_field (text_field 0 None) 0 (Some INSTAGRAM_HASHTAG_MAX) (get_or d ''hashtags'' PNone);
     alt \<leftarrow> text_field 1 (Some MEDIA_ALT_TEXT_MAX) (get_or d ''alt_text'' PNone);
     carousel \<leftarrow> list_field (slide_field lib) 0 (Some INSTAGRAM_CAROUSEL_MAX) (get_or d ''carousel'' PNone);
     citations \<leftarrow> list_field (citation_field lib) 1 None (get_or d ''citations'' PNone);
     checklist \<leftarrow> list_field (text_field 0 None) 1 None (get_or d ''manual_checklist'' PNone);
     if userinfo_free (map cr_source_url citations)
     then Some \<lparr>ig_hook = hook, ig_caption = caption, ig_cta = cta, ig_hashtags = hashtags, ig_alt_text = alt,
                ig_carousel = carousel, ig_citations = citations, ig_manual_checklist = checklist\<rparr>
     else None}"

definition post_field :: "schema_lib \<Rightarrow> pyval \<Rightarrow> x_post option" where
  "post_field lib v = do {
     d \<leftarrow> model_fields [''order'', ''text'', ''media'', ''citations''] [] v;
     order \<leftarrow> int_field lib (Some (int X_POSTS_MAX)) (get_or d ''order'' PNone);
     body \<leftarrow> text_field 1 None (get_or d ''text'' PNone);
     media \<leftarrow> list_field (media_field lib) 0 (Some X_MEDIA_PER_POST_MAX) (get_or d ''media'' PNone);
     citations \<leftarrow> list_field (citation_field lib) 1 None (get_or d ''citations'' PNone);
     Some \<lparr>xp_order = order, xp_text = body, xp_media = media, xp_citations = citations\<rparr>}"

definition x_model :: "schema_lib \<Rightarrow> pyval \<Rightarrow> x_payload option" where
  "x_model lib v = do {
     d \<leftarrow> model_fields [''mode'', ''posts'', ''link_strategy'', ''manual_checklist''] [] v;
     mode \<leftarrow> literal_field [''single'', ''thread''] (get_or d ''mode'' PNone);
     posts \<leftarrow> list_field (post_field lib) 1 (Some X_POSTS_MAX) (get_or d ''posts'' PNone);
     strategy \<leftarrow> literal_field [''first_post'', ''last_post'', ''each_post'', ''no_link''] (get_or d ''link_strategy'' PNone);
     checklist \<leftarrow> list_field (text_field 0 None) 1 None (get_or d ''manual_checklist'' PNone);
     if userinfo_free (concat (map (\<lambda>p. map cr_source_url (xp_citations p)) posts))
     then Some \<lparr>xv_mode = mode, xv_posts = posts, xv_link_strategy = strategy, xv_manual_checklist = checklist\<rparr>
     else None}"

definition blog_model :: "schema_lib \<Rightarrow> pyval \<Rightarrow> blog_payload option" where
  "blog_model lib v = do {
     d \<leftarrow> model_fields [''title'', ''slug'', ''excerpt'', ''body_markdown'', ''headings'', ''tags'', ''seo_description'',
                       ''hero_media'', ''manual_checklist''] [''citations'', ''canonical_sources''] v;
     title \<leftarrow> text_field 1 (Some BLOG_TITLE_MAX) (get_or d ''title'' PNone);
     slug \<leftarrow> slug_field (get_or d ''slug'' PNone);
     excerpt \<leftarrow> text_field 1 (Some BLOG_EXCERPT_MAX) (get_or d ''excerpt'' PNone);
     body \<leftarrow> text_field BLOG_BODY_MIN None (get_or d ''body_markdown'' PNone);
     headings \<leftarrow> list_field (text_field 0 None) 1 None (get_or d ''headings'' PNone);
     citations \<leftarrow> list_field (citation_field lib) 0 None (get_or d ''citations'' (PList []));
     tags \<leftarrow> list_field (text_field 0 None) 0 (Some BLOG_TAG_MAX) (get_or d ''tags'' PNone);
     seo \<leftarrow> text_field 50 (Some BLOG_SEO_DESCRIPTION_MAX) (get_or d ''seo_description'' PNone);
     hero \<leftarrow> nullable (media_field lib) (get_or d ''hero_media'' PNone);
     sources \<leftarrow> list_field (url_field lib) 0 None (get_or d ''canonical_sources'' (PList []));
     checklist \<leftarrow> list_field (text_field 0 None) 1 None (get_or d ''manual_checklist'' PNone);
     if userinfo_free (map cr_source_url citations @ map Some sources)
     then Some \<lparr>bg_title = title, bg_slug = slug, bg_excerpt = excerpt, bg_body_markdown = body, bg_headings = headings,
                bg_citations = citations, bg_tags = tags, bg_seo_description = seo, bg_hero_media = hero,
                bg_canonical_sources = sources, bg_manual_checklist = checklist\<rparr>
     else None}"

text \<open>\<open>None\<close> is the \<open>ValidationError\<close> of a schema, and the \<open>ValueError\<close> of a platform that has none.\<close>

definition parse_manual_platform_payload :: "schema_lib \<Rightarrow> string \<Rightarrow> pyval \<Rightarrow> platform_payload option" where
  "parse_manual_platform_payload lib platform v =
     (if platform = ''instagram'' then map_option InstagramVariantPayload (instagram_model lib v)
      else if platform = ''x'' then map_option XVariantPayload (x_model lib v)
      else if platform = ''blog'' then map_option BlogVariantPayload (blog_model lib v)
      else None)"

end
