(* ===== verification/Platform_Validation.thy ===== *)
theory Platform_Validation
  imports Platform_Schemas
begin

text \<open>
  \<open>app/generation/platform_validation.py\<close>: the issues of a payload.  A payload was validated by its schema
  before; the checks repeat the schema's limits and add those that need more than one field.
\<close>

record validation_issue =
  vi_code :: string
  vi_path :: string
  vi_message :: string
  vi_severity :: string

definition issue :: "string \<Rightarrow> string \<Rightarrow> string \<Rightarrow> validation_issue" where
  "issue code path message = \<lparr>vi_code = code, vi_path = path, vi_message = message, vi_severity = ''error''\<rparr>"

definition warning :: "string \<Rightarrow> string \<Rightarrow> string \<Rightarrow> validation_issue" where
  "warning code path message = \<lparr>vi_code = code, vi_path = path, vi_message = message, vi_severity = ''warning''\<rparr>"

definition issue_if :: "bool \<Rightarrow> string \<Rightarrow> string \<Rightarrow> string \<Rightarrow> validation_issue list" where
  "issue_if b code path message = (if b then [issue code path message] else [])"

definition ratio :: "nat \<Rightarrow> nat \<Rightarrow> string" where
  "ratio n m = nat_str n @ ''/'' @ nat_str m"

definition blank :: "string \<Rightarrow> bool" where
  "blank s \<longleftrightarrow> strip s = []"

definition sequential :: "int list \<Rightarrow> bool" where
  "sequential values \<longleftrightarrow> values = [1..int (length values)]"

fun duplicate_ids :: "uuid list \<Rightarrow> uuid option list \<Rightarrow> bool" where
  "duplicate_ids seen [] = False"
| "duplicate_ids seen (None # ids) = duplicate_ids seen ids"
| "duplicate_ids seen (Some i # ids) = (i \<in> set seen \<or> duplicate_ids (i # seen) ids)"

definition duplicate_media_ids :: "media_assignment list \<Rightarrow> bool" where
  "duplicate_media_ids assignments = duplicate_ids [] (map mg_media_asset_id assignments)"

text \<open>The issues of the items of a list, each with its index.\<close>

definition indexed :: "(nat \<Rightarrow> 'a \<Rightarrow> validation_issue list) \<Rightarrow> 'a list \<Rightarrow> validation_issue list" where
  "indexed f xs = concat (map (\<lambda>(i, x). f i x) (enumerate 0 xs))"

definition empty_checklist_issues :: "string \<Rightarrow> string list \<Rightarrow> validation_issue list" where
  "empty_checklist_issues platform checklist =
     indexed (\<lambda>i item. issue_if (blank item) (platform @ ''_empty_checklist_item'') (''manual_checklist.'' @ nat_str i)
       ''Manual checklist items must not be empty'') checklist
     @ issue_if (checklist = []) (platform @ ''_missing_manual_checklist'') ''manual_checklist''
         ''Manual publishing checklist must not be empty''"

definition length_issue :: "string \<Rightarrow> nat \<Rightarrow> string \<Rightarrow> string \<Rightarrow> string option \<Rightarrow> validation_issue list" where
  "length_issue what limit code path v =
     (case v of None \<Rightarrow> []
      | Some s \<Rightarrow> issue_if (length s > limit) code path (what @ '' is '' @ ratio (length s) limit @ '' characters''))"

definition media_length_issues :: "string \<Rightarrow> string \<Rightarrow> media_assignment \<Rightarrow> validation_issue list" where
  "media_length_issues platform path m =
     length_issue ''Media alt text'' MEDIA_ALT_TEXT_MAX (platform @ ''_media_alt_text_too_long'') (path @ ''.alt_text'')
       (Some (mg_alt_text m))
     @ length_issue ''Media manual brief'' MEDIA_BRIEF_MAX (platform @ ''_media_manual_brief_too_long'')
         (path @ ''.manual_brief'') (mg_manual_brief m)
     @ length_issue ''Media image prompt'' MEDIA_PROMPT_MAX (platform @ ''_media_image_prompt_too_long'')
         (path @ ''.image_prompt'') (mg_image_prompt m)"

section \<open>Telegram\<close>

text \<open>\<open>None\<close> is the \<open>ValidationError\<close> of the second validation.\<close>

definition validate_telegram :: "schema_lib \<Rightarrow> telegram_content \<Rightarrow> validation_issue list option" where
  "validate_telegram lib c =
     (case sl_telegram lib c of
        None \<Rightarrow> None
      | Some v \<Rightarrow> Some (case validate_renderability_policy v of
            Inl (Publish_Needs_Review m) \<Rightarrow> [issue ''telegram_requires_manual_media_replacement'' ''media_policy'' m]
          | _ \<Rightarrow> []))"

section \<open>Instagram\<close>

definition instagram_copy_issues :: "instagram_payload \<Rightarrow> validation_issue list" where
  "instagram_copy_issues p =
     issue_if (ig_hook p = []) ''instagram_hook_empty'' ''hook'' ''Instagram hook must not be empty''
     @ length_issue ''Hook'' INSTAGRAM_HOOK_MAX ''instagram_hook_too_long'' ''hook'' (Some (ig_hook p))
     @ issue_if (ig_caption p = []) ''instagram_caption_empty'' ''caption'' ''Instagram caption must not be empty''
     @ issue_if (ig_cta p = []) ''instagram_cta_empty'' ''cta'' ''Instagram call to action must not be empty''
     @ length_issue ''Call to action'' INSTAGRAM_CTA_MAX ''instagram_cta_too_long'' ''cta'' (Some (ig_cta p))
     @ issue_if (blank (ig_alt_text p)) ''instagram_missing_alt_text'' ''alt_text'' ''Instagram package requires alt text''
     @ length_issue ''Alt text'' MEDIA_ALT_TEXT_MAX ''instagram_alt_text_too_long'' ''alt_text'' (Some (ig_alt_text p))
     @ length_issue ''Caption'' INSTAGRAM_CAPTION_MAX ''instagram_caption_too_long'' ''caption'' (Some (ig_caption p))
     @ issue_if (length (ig_hashtags p) > INSTAGRAM_HASHTAG_MAX) ''instagram_too_many_hashtags'' ''hashtags''
         (''Package has '' @ ratio (length (ig_hashtags p)) INSTAGRAM_HASHTAG_MAX @ '' hashtags'')
     @ indexed (\<lambda>i hashtag. issue_if (blank hashtag) ''instagram_empty_hashtag'' (''hashtags.'' @ nat_str i)
         ''Hashtags must not be empty'') (ig_hashtags p)"

definition instagram_slide_issues :: "nat \<Rightarrow> instagram_slide \<Rightarrow> validation_issue list" where
  "instagram_slide_issues i s =
     (let path = (\<lambda>f. ''carousel.'' @ nat_str i @ f) in
      issue_if (sd_headline s = []) ''instagram_slide_headline_empty'' (path ''.headline'')
        ''Carousel slide headline must not be empty''
      @ length_issue ''Slide headline'' INSTAGRAM_SLIDE_HEADLINE_MAX ''instagram_slide_headline_too_long'' (path ''.headline'')
          (Some (sd_headline s))
      @ issue_if (sd_body s = []) ''instagram_slide_body_empty'' (path ''.body'') ''Carousel slide body must not be empty''
      @ length_issue ''Slide body'' INSTAGRAM_SLIDE_BODY_MAX ''instagram_slide_body_too_long'' (path ''.body'')
          (Some (sd_body s))
      @ issue_if (blank (mg_alt_text (sd_media s))) ''instagram_missing_media_alt_text'' (path ''.media.alt_text'')
          ''Assigned media requires alt text''
      @ media_length_issues ''instagram'' (path ''.media'') (sd_media s)
      @ issue_if (mg_role (sd_media s) \<noteq> ''slide'') ''instagram_media_role_invalid'' (path ''.media.role'')
          ''Carousel media must use the slide role'')"

definition instagram_carousel_issues :: "instagram_payload \<Rightarrow> validation_issue list" where
  "instagram_carousel_issues p =
     (let slides = ig_carousel p in
      issue_if (length slides > INSTAGRAM_CAROUSEL_MAX) ''instagram_carousel_too_long'' ''carousel''
        (''Carousel has '' @ ratio (length slides) INSTAGRAM_CAROUSEL_MAX @ '' slides'')
      @ issue_if (\<not> sequential (map sd_order slides)) ''instagram_carousel_order_invalid'' ''carousel''
          ''Carousel slide order must be sequential from 1''
      @ issue_if (list_ex (\<lambda>s. mg_order (sd_media s) \<noteq> sd_order s) slides) ''instagram_media_order_invalid'' ''carousel''
          ''Carousel media order must match its slide order''
      @ issue_if (duplicate_media_ids (map sd_media slides)) ''instagram_duplicate_media_assignment'' ''carousel''
          ''A media asset may be assigned to only one carousel slide''
      @ indexed instagram_slide_issues slides)"

definition validate_instagram :: "instagram_payload \<Rightarrow> validation_issue list" where
  "validate_instagram p =
     instagram_copy_issues p @ instagram_carousel_issues p
     @ issue_if (ig_citations p = []) ''instagram_missing_citations'' ''citations'' ''Instagram copy requires a citation''
     @ empty_checklist_issues ''instagram'' (ig_manual_checklist p)"

section \<open>X\<close>

definition x_package_issues :: "x_payload \<Rightarrow> validation_issue list" where
  "x_package_issues p =
     (let posts = xv_posts p in
      issue_if (posts = []) ''x_posts_missing'' ''posts'' ''X package requires at least one post''
      @ issue_if (length posts > X_POSTS_MAX) ''x_too_many_posts'' ''posts''
          (''Package has '' @ ratio (length posts) X_POSTS_MAX @ '' posts'')
      @ issue_if (xv_mode p = ''single'' \<and> length posts \<noteq> 1) ''x_single_requires_one_post'' ''posts''
          ''Single-post mode requires exactly one post''
      @ issue_if (\<not> sequential (map xp_order posts)) ''x_post_order_invalid'' ''posts'' ''Post order must be sequential from 1''
      @ issue_if (duplicate_media_ids (concat (map xp_media posts))) ''x_duplicate_media_assignment'' ''posts''
          ''A media asset may be assigned only once in a thread'')"

definition x_media_issues :: "nat \<Rightarrow> nat \<Rightarrow> media_assignment \<Rightarrow> validation_issue list" where
  "x_media_issues i j m =
     (let path = ''posts.'' @ nat_str i @ ''.media.'' @ nat_str j in
      issue_if (blank (mg_alt_text m)) ''x_missing_media_alt_text'' (path @ ''.alt_text'') ''Assigned media requires alt text''
      @ issue_if (mg_role m \<noteq> ''post'') ''x_media_role_invalid'' (path @ ''.role'') ''X media must use the post role''
      @ media_length_issues ''x'' path m)"

definition x_post_issues :: "schema_lib \<Rightarrow> nat \<Rightarrow> x_post \<Rightarrow> validation_issue list" where
  "x_post_issues lib i p =
     (let path = (\<lambda>f. ''posts.'' @ nat_str i @ f); post = ''Post '' @ int_str (xp_order p);
          weighted = x_weighted_length lib (xp_text p) in
      issue_if (xp_text p = []) ''x_post_empty'' (path ''.text'') (post @ '' must not be empty'')
      @ issue_if (weighted > X_POST_WEIGHT_MAX) ''x_post_too_long'' (path ''.text'')
          (post @ '' is '' @ ratio weighted X_POST_WEIGHT_MAX @ '' weighted characters'')
      @ issue_if (length (xp_media p) > X_MEDIA_PER_POST_MAX) ''x_too_many_media'' (path ''.media'')
          (post @ '' has '' @ ratio (length (xp_media p)) X_MEDIA_PER_POST_MAX @ '' media assignments'')
      @ issue_if (\<not> sequential (map mg_order (xp_media p))) ''x_media_order_invalid'' (path ''.media'')
          (post @ '' media order must be sequential from 1'')
      @ indexed (x_media_issues i) (xp_media p)
      @ issue_if (xp_citations p = []) ''x_post_missing_citations'' (path ''.citations'') (post @ '' requires a citation''))"

definition validate_x :: "schema_lib \<Rightarrow> x_payload \<Rightarrow> validation_issue list" where
  "validate_x lib p =
     x_package_issues p @ indexed (x_post_issues lib) (xv_posts p) @ empty_checklist_issues ''x'' (xv_manual_checklist p)
     @ [warning ''x_platform_recheck_required'' ''posts''
          ''Recheck post lengths and media limits in X before manual publishing'']"

section \<open>Blog\<close>

definition blog_copy_issues :: "blog_payload \<Rightarrow> validation_issue list" where
  "blog_copy_issues p =
     issue_if (bg_title p = []) ''blog_title_empty'' ''title'' ''Blog title must not be empty''
     @ length_issue ''Title'' BLOG_TITLE_MAX ''blog_title_too_long'' ''title'' (Some (bg_title p))
     @ length_issue ''Slug'' BLOG_SLUG_MAX ''blog_slug_too_long'' ''slug'' (Some (bg_slug p))
     @ issue_if (bg_excerpt p = []) ''blog_excerpt_empty'' ''excerpt'' ''Blog excerpt must not be empty''
     @ length_issue ''Excerpt'' BLOG_EXCERPT_MAX ''blog_excerpt_too_long'' ''excerpt'' (Some (bg_excerpt p))
     @ issue_if (length (bg_body_markdown p) < BLOG_BODY_MIN) ''blog_body_too_short'' ''body_markdown''
         (''Body is '' @ ratio (length (bg_body_markdown p)) BLOG_BODY_MIN @ '' characters'')
     @ issue_if (bg_headings p = []) ''blog_headings_missing'' ''headings'' ''Blog requires at least one heading''
     @ issue_if (length (bg_tags p) > BLOG_TAG_MAX) ''blog_too_many_tags'' ''tags''
         (''Blog has '' @ ratio (length (bg_tags p)) BLOG_TAG_MAX @ '' tags'')
     @ issue_if (bg_citations p = []) ''blog_missing_citations'' ''citations'' ''Blog content requires a citation''"

fun expected_sources :: "string list \<Rightarrow> citation_ref list \<Rightarrow> string list" where
  "expected_sources found [] = found"
| "expected_sources found (c # cs) =
     (case cr_source_url c of
        None \<Rightarrow> expected_sources found cs
      | Some u \<Rightarrow> expected_sources (if hu_text u \<in> set found then found else found @ [hu_text u]) cs)"

definition blog_source_issues :: "blog_payload \<Rightarrow> validation_issue list" where
  "blog_source_issues p =
     issue_if (map hu_text (bg_canonical_sources p) \<noteq> expected_sources [] (bg_citations p))
       ''blog_canonical_sources_mismatch'' ''canonical_sources''
       ''Canonical sources must match distinct cited URLs in first-citation order''"

definition blog_seo_issues :: "blog_payload \<Rightarrow> validation_issue list" where
  "blog_seo_issues p =
     length_issue ''SEO description'' BLOG_SEO_DESCRIPTION_MAX ''blog_seo_description_too_long'' ''seo_description''
       (Some (bg_seo_description p))
     @ issue_if (length (bg_seo_description p) < 50) ''blog_seo_description_too_short'' ''seo_description''
         (''SEO description is '' @ ratio (length (bg_seo_description p)) 50 @ '' characters'')"

definition blog_hero_issues :: "blog_payload \<Rightarrow> validation_issue list" where
  "blog_hero_issues p =
     (case bg_hero_media p of
        None \<Rightarrow> []
      | Some h \<Rightarrow>
          issue_if (mg_order h \<noteq> 1) ''blog_hero_media_order_invalid'' ''hero_media.order'' ''Hero media order must be 1''
          @ issue_if (blank (mg_alt_text h)) ''blog_missing_hero_alt_text'' ''hero_media.alt_text''
              ''Hero media requires alt text''
          @ issue_if (mg_role h \<noteq> ''hero'') ''blog_hero_role_invalid'' ''hero_media.role''
              ''Hero media must use the hero role''
          @ media_length_issues ''blog'' ''hero_media'' h)"

definition validate_blog :: "blog_payload \<Rightarrow> validation_issue list" where
  "validate_blog p =
     blog_copy_issues p @ blog_source_issues p @ blog_seo_issues p @ blog_hero_issues p
     @ empty_checklist_issues ''blog'' (bg_manual_checklist p)"

section \<open>All platforms\<close>

definition type_mismatch :: "string \<Rightarrow> string \<Rightarrow> validation_issue list" where
  "type_mismatch platform name =
     [issue ''platform_payload_type_mismatch'' ''platform'' (''Platform '' @ platform @ '' requires '' @ name)]"

text \<open>\<open>None\<close> is an exception: a Telegram payload that fails its second validation or an unknown platform.\<close>

definition validate_platform_payload :: "schema_lib \<Rightarrow> string \<Rightarrow> platform_payload \<Rightarrow> validation_issue list option" where
  "validate_platform_payload lib platform payload =
     (if platform = ''telegram'' then
        (case payload of TelegramVariantPayload c \<Rightarrow> validate_telegram lib c
         | _ \<Rightarrow> Some (type_mismatch platform ''TelegramVariantPayload''))
      else if platform = ''instagram'' then
        Some (case payload of InstagramVariantPayload p \<Rightarrow> validate_instagram p
              | _ \<Rightarrow> type_mismatch platform ''InstagramVariantPayload'')
      else if platform = ''x'' then
        Some (case payload of XVariantPayload p \<Rightarrow> validate_x lib p | _ \<Rightarrow> type_mismatch platform ''XVariantPayload'')
      else if platform = ''blog'' then
        Some (case payload of BlogVariantPayload p \<Rightarrow> validate_blog p
              | _ \<Rightarrow> type_mismatch platform ''BlogVariantPayload'')
      else None)"

definition has_error :: "validation_issue list \<Rightarrow> bool" where
  "has_error issues \<longleftrightarrow> list_ex (\<lambda>i. vi_severity i = ''error'') issues"

definition revision_gates_from_issues :: "validation_issue list \<Rightarrow> pyval list" where
  "revision_gates_from_issues issues =
     (if issues = []
      then [PDict [(KStr ''gate'', PStr ''platform_schema''), (KStr ''ok'', PBool True), (KStr ''reason'', PNone)]]
      else map (\<lambda>i. PDict [(KStr ''gate'', PStr (vi_code i)), (KStr ''ok'', PBool (vi_severity i \<noteq> ''error'')),
                           (KStr ''reason'', PStr (vi_message i))]) issues)"

end
