(* ===== verification/Platform_Validation_Spec.thy ===== *)
theory Platform_Validation_Spec
  imports Platform_Validation
begin

text \<open>
  What the validation of a payload decides.  \<open>publishable\<close> states it without the issues; the limits of the
  schema are not part of it, because a payload that was read has them.
\<close>

named_theorems error_simps \<open>when a list of issues has an error\<close>

section \<open>The reference definition\<close>

definition distinct_assets :: "media_assignment list \<Rightarrow> bool" where
  "distinct_assets ms \<longleftrightarrow> distinct (List.map_filter mg_media_asset_id ms)"

definition described_as :: "string \<Rightarrow> media_assignment \<Rightarrow> bool" where
  "described_as role m \<longleftrightarrow> mg_role m = role \<and> \<not> blank (mg_alt_text m)"

definition publishable_instagram :: "instagram_payload \<Rightarrow> bool" where
  "publishable_instagram p \<longleftrightarrow>
     \<not> blank (ig_alt_text p) \<and> list_all (\<lambda>t. \<not> blank t) (ig_hashtags p @ ig_manual_checklist p) \<and>
     map sd_order (ig_carousel p) = [1..int (length (ig_carousel p))] \<and>
     map (mg_order \<circ> sd_media) (ig_carousel p) = map sd_order (ig_carousel p) \<and>
     distinct_assets (map sd_media (ig_carousel p)) \<and> list_all (described_as ''slide'' \<circ> sd_media) (ig_carousel p)"

definition publishable_post :: "schema_lib \<Rightarrow> x_post \<Rightarrow> bool" where
  "publishable_post lib p \<longleftrightarrow>
     x_weighted_length lib (xp_text p) \<le> 280 \<and> map mg_order (xp_media p) = [1..int (length (xp_media p))] \<and>
     list_all (described_as ''post'') (xp_media p)"

definition publishable_x :: "schema_lib \<Rightarrow> x_payload \<Rightarrow> bool" where
  "publishable_x lib p \<longleftrightarrow>
     (xv_mode p = ''single'' \<longrightarrow> length (xv_posts p) = 1) \<and>
     map xp_order (xv_posts p) = [1..int (length (xv_posts p))] \<and>
     distinct_assets (concat (map xp_media (xv_posts p))) \<and> list_all (publishable_post lib) (xv_posts p) \<and>
     list_all (\<lambda>t. \<not> blank t) (xv_manual_checklist p)"

text \<open>The distinct cited URLs in the order of their first citation.\<close>

definition cited_urls :: "citation_ref list \<Rightarrow> string list" where
  "cited_urls cs = rev (remdups (rev (List.map_filter (\<lambda>c. map_option hu_text (cr_source_url c)) cs)))"

definition publishable_blog :: "blog_payload \<Rightarrow> bool" where
  "publishable_blog p \<longleftrightarrow>
     bg_citations p \<noteq> [] \<and> map hu_text (bg_canonical_sources p) = cited_urls (bg_citations p) \<and>
     (case bg_hero_media p of None \<Rightarrow> True | Some h \<Rightarrow> mg_order h = 1 \<and> described_as ''hero'' h) \<and>
     list_all (\<lambda>t. \<not> blank t) (bg_manual_checklist p)"

fun publishable :: "schema_lib \<Rightarrow> platform_payload \<Rightarrow> bool" where
  "publishable lib (TelegramVariantPayload c) = (tc_media_policy c \<noteq> ''replace_manually'')"
| "publishable lib (InstagramVariantPayload p) = publishable_instagram p"
| "publishable lib (XVariantPayload p) = publishable_x lib p"
| "publishable lib (BlogVariantPayload p) = publishable_blog p"

section \<open>Errors of issue lists\<close>

lemma has_error_basic [error_simps]:
  "has_error [] = False" "has_error (xs @ ys) = (has_error xs \<or> has_error ys)"
  "has_error (issue_if b c p m) = b" "has_error [warning c p m] = False"
  "has_error (length_issue w n c p (Some s)) = (length s > n)" "has_error (length_issue w n c p None) = False"
  by (auto simp: has_error_def issue_if_def length_issue_def issue_def warning_def)

lemma has_error_concat: "has_error (concat xss) = list_ex has_error xss"
  by (induction xss) (simp_all add: error_simps)

lemma has_error_indexed:
  assumes "\<And>i x. x \<in> set xs \<Longrightarrow> has_error (f i x) = bad x"
  shows "has_error (indexed f xs) = list_ex bad xs"
proof -
  have "list_ex (\<lambda>(i, x). has_error (f i x)) (enumerate n xs) = list_ex bad xs" for n
    using assms by (induction xs arbitrary: n) simp_all
  then show ?thesis unfolding indexed_def has_error_concat by (simp add: list_ex_iff case_prod_beta')
qed

lemma has_error_checklist [error_simps]:
  "has_error (empty_checklist_issues platform xs) = (list_ex blank xs \<or> xs = [])"
  unfolding empty_checklist_issues_def error_simps by (subst has_error_indexed [where bad = blank]) (simp_all add: error_simps)

lemma duplicate_ids_iff:
  "duplicate_ids seen ids = (\<not> distinct (List.map_filter id ids) \<or> set (List.map_filter id ids) \<inter> set seen \<noteq> {})"
  by (induction seen ids rule: duplicate_ids.induct) (auto simp: map_filter_simps)

lemma duplicate_media_iff: "duplicate_media_ids ms = (\<not> distinct_assets ms)"
  unfolding duplicate_media_ids_def distinct_assets_def duplicate_ids_iff by (simp add: List.map_filter_def comp_def filter_map)

lemma expected_sources_snoc:
  "expected_sources found (cs @ [c]) =
     (let r = expected_sources found cs in
      case cr_source_url c of None \<Rightarrow> r | Some u \<Rightarrow> if hu_text u \<in> set r then r else r @ [hu_text u])"
  by (induction found cs rule: expected_sources.induct) (auto simp: Let_def split: option.splits)

lemma expected_sources_cited: "expected_sources [] cs = cited_urls cs"
  by (induction cs rule: rev_induct)
    (auto simp: cited_urls_def expected_sources_snoc Let_def map_filter_simps List.map_filter_def split: option.splits)

section \<open>What the schemas guarantee\<close>

lemma field_bounds:
  "text_field lo hi v = Some s \<Longrightarrow> within lo hi (length s)"
  "list_field f lo hi v = Some xs \<Longrightarrow> within lo hi (length xs)"
  by (auto simp: text_field_def list_field_def split: pyval.splits option.splits if_splits)

lemma all_some_elements: "all_some ys = Some xs \<Longrightarrow> x \<in> set xs \<Longrightarrow> Some x \<in> set ys"
  by (induction ys arbitrary: xs rule: all_some.induct) auto

lemma list_field_elements:
  "list_field f lo hi v = Some xs \<Longrightarrow> within lo hi (length xs) \<and> (\<forall>x\<in>set xs. \<exists>w. f w = Some x)"
  by (auto simp: list_field_def split: pyval.splits option.splits if_splits dest!: all_some_elements) metis

lemma nullable_bounds:
  "nullable (text_field lo hi) v = Some (Some s) \<Longrightarrow> within lo hi (length s)"
  by (auto simp: nullable_def split: if_splits dest: field_bounds(1))

definition media_sized :: "media_assignment \<Rightarrow> bool" where
  "media_sized m \<longleftrightarrow> length (mg_alt_text m) \<le> 1000 \<and> (\<forall>s. mg_manual_brief m = Some s \<longrightarrow> length s \<le> 2000) \<and>
     (\<forall>s. mg_image_prompt m = Some s \<longrightarrow> length s \<le> 2000)"

lemma media_field_sized: "media_field lib v = Some m \<Longrightarrow> media_sized m"
  by (auto simp: media_field_def media_sized_def within_def Option.bind_eq_Some_conv
      dest!: field_bounds(1) nullable_bounds)

lemma media_sized_no_error [error_simps]:
  "media_sized m \<Longrightarrow> has_error (media_length_issues platform path m) = False"
  by (cases "mg_manual_brief m"; cases "mg_image_prompt m")
    (auto simp: media_sized_def media_length_issues_def error_simps)

lemma slide_field_sized:
  "slide_field lib v = Some s \<Longrightarrow>
   media_sized (sd_media s) \<and> sd_headline s \<noteq> [] \<and> sd_body s \<noteq> [] \<and> length (sd_headline s) \<le> 120 \<and> length (sd_body s) \<le> 500"
  by (auto simp: slide_field_def within_def Option.bind_eq_Some_conv dest!: field_bounds(1) media_field_sized)

lemma post_field_sized:
  assumes "post_field lib v = Some p"
  shows "xp_text p \<noteq> []" "length (xp_media p) \<le> 4" "xp_citations p \<noteq> []" "\<And>m. m \<in> set (xp_media p) \<Longrightarrow> media_sized m"
  using assms by (auto simp: post_field_def within_def Option.bind_eq_Some_conv
      dest!: field_bounds(1) list_field_elements) (metis media_field_sized)

lemma instagram_model_sized:
  assumes "instagram_model lib v = Some p"
  shows "ig_hook p \<noteq> [] \<and> ig_caption p \<noteq> [] \<and> ig_cta p \<noteq> []"
    "length (ig_hook p) \<le> 180 \<and> length (ig_caption p) \<le> 2200 \<and> length (ig_cta p) \<le> 300 \<and> length (ig_alt_text p) \<le> 1000"
    "length (ig_hashtags p) \<le> 30 \<and> length (ig_carousel p) \<le> 20 \<and> ig_citations p \<noteq> [] \<and> ig_manual_checklist p \<noteq> []"
    "\<And>s. s \<in> set (ig_carousel p) \<Longrightarrow> \<exists>w. slide_field lib w = Some s"
  using assms by (auto simp: instagram_model_def within_def Option.bind_eq_Some_conv
      dest!: field_bounds(1) list_field_elements split: if_splits)

lemma x_model_sized:
  assumes "x_model lib v = Some p"
  shows "xv_posts p \<noteq> [] \<and> length (xv_posts p) \<le> 25 \<and> xv_manual_checklist p \<noteq> []"
    "\<And>q. q \<in> set (xv_posts p) \<Longrightarrow> \<exists>w. post_field lib w = Some q"
  using assms by (auto simp: x_model_def within_def Option.bind_eq_Some_conv dest!: list_field_elements split: if_splits)

lemma slug_field_bounds: "slug_field v = Some s \<Longrightarrow> length s \<le> 120"
  by (auto simp: slug_field_def within_def dest!: field_bounds(1) split: option.splits if_splits)

lemma blog_model_sized:
  assumes "blog_model lib v = Some p"
  shows "bg_title p \<noteq> [] \<and> length (bg_title p) \<le> 120 \<and> length (bg_slug p) \<le> 120"
    "bg_excerpt p \<noteq> [] \<and> length (bg_excerpt p) \<le> 300 \<and> length (bg_body_markdown p) \<ge> 200"
    "bg_headings p \<noteq> [] \<and> length (bg_tags p) \<le> 20 \<and> bg_manual_checklist p \<noteq> []"
    "length (bg_seo_description p) \<le> 160 \<and> length (bg_seo_description p) \<ge> 50"
    "\<And>h. bg_hero_media p = Some h \<Longrightarrow> media_sized h"
  using assms by (auto simp: blog_model_def within_def Option.bind_eq_Some_conv nullable_def
      dest!: field_bounds(1) list_field_elements slug_field_bounds media_field_sized split: if_splits)

section \<open>What the validators decide\<close>

lemma slide_errors [error_simps]:
  "slide_field lib w = Some s \<Longrightarrow> has_error (instagram_slide_issues i s) = (\<not> described_as ''slide'' (sd_media s))"
  by (auto simp: instagram_slide_issues_def Let_def error_simps described_as_def dest!: slide_field_sized)

lemma post_errors:
  assumes "post_field lib w = Some p"
  shows "has_error (x_post_issues lib i p) = (\<not> publishable_post lib p)"
proof -
  have "has_error (indexed (x_media_issues i) (xp_media p)) = list_ex (\<lambda>m. \<not> described_as ''post'' m) (xp_media p)"
    using post_field_sized(4) [OF assms]
    by (intro has_error_indexed) (auto simp: x_media_issues_def Let_def error_simps described_as_def)
  then show ?thesis using post_field_sized(1-3) [OF assms]
    by (auto simp: x_post_issues_def Let_def error_simps publishable_post_def sequential_def list_ex_iff list_all_iff)
qed

lemma instagram_errors:
  assumes "instagram_model lib v = Some p"
  shows "has_error (validate_instagram p) = (\<not> publishable_instagram p)"
proof -
  note sized = instagram_model_sized [OF assms]
  have slides: "has_error (indexed instagram_slide_issues (ig_carousel p)) =
      list_ex (\<lambda>s. \<not> described_as ''slide'' (sd_media s)) (ig_carousel p)"
    using sized(4) by (intro has_error_indexed) (metis slide_errors)
  have tags: "has_error (indexed (\<lambda>i h. issue_if (blank h) c (f i) m) xs) = list_ex blank xs" for c f m xs
    by (intro has_error_indexed) (simp add: error_simps)
  have "has_error (instagram_copy_issues p) = (blank (ig_alt_text p) \<or> list_ex blank (ig_hashtags p))"
    using sized(1-3) by (auto simp: instagram_copy_issues_def error_simps tags)
  moreover have "has_error (instagram_carousel_issues p) =
      (map sd_order (ig_carousel p) \<noteq> [1..int (length (ig_carousel p))] \<or>
       map (mg_order \<circ> sd_media) (ig_carousel p) \<noteq> map sd_order (ig_carousel p) \<or>
       \<not> distinct_assets (map sd_media (ig_carousel p)) \<or>
       list_ex (\<lambda>s. \<not> described_as ''slide'' (sd_media s)) (ig_carousel p))"
    using sized(3) by (auto simp: instagram_carousel_issues_def Let_def error_simps slides sequential_def
        duplicate_media_iff list_ex_iff)
  ultimately show ?thesis using sized(3)
    by (auto simp: validate_instagram_def error_simps publishable_instagram_def list_ex_iff list_all_iff)
qed

lemma x_errors:
  assumes "x_model lib v = Some p"
  shows "has_error (validate_x lib p) = (\<not> publishable_x lib p)"
proof -
  note sized = x_model_sized [OF assms]
  have posts: "has_error (indexed (x_post_issues lib) (xv_posts p)) = list_ex (\<lambda>q. \<not> publishable_post lib q) (xv_posts p)"
    using sized(2) by (intro has_error_indexed) (metis post_errors)
  show ?thesis using sized(1)
    by (auto simp: validate_x_def x_package_issues_def Let_def error_simps posts publishable_x_def sequential_def
        duplicate_media_iff list_ex_iff list_all_iff)
qed

lemma blog_errors:
  assumes "blog_model lib v = Some p"
  shows "has_error (validate_blog p) = (\<not> publishable_blog p)"
proof -
  note sized = blog_model_sized [OF assms]
  have hero: "has_error (blog_hero_issues p) =
      (case bg_hero_media p of None \<Rightarrow> False | Some h \<Rightarrow> mg_order h \<noteq> 1 \<or> \<not> described_as ''hero'' h)"
    using sized(5) by (auto simp: blog_hero_issues_def error_simps described_as_def split: option.splits)
  have copy: "has_error (blog_copy_issues p) = (bg_citations p = [])"
    using sized(1-3) by (auto simp: blog_copy_issues_def error_simps)
  have seo: "\<not> has_error (blog_seo_issues p)" using sized(4) by (auto simp: blog_seo_issues_def error_simps)
  show ?thesis using sized(3)
    by (auto simp: validate_blog_def error_simps hero copy seo blog_source_issues_def expected_sources_cited
        publishable_blog_def list_ex_iff list_all_iff split: option.splits)
qed

text \<open>
  A content its schema has read is refused by the validator exactly when it is not publishable: the
  validator's own checks of length and emptiness never decide, those of order, role, distinct media, blank
  text, weighted length and sources do.
\<close>

theorem validation_decides_publishable:
  assumes "parse_manual_platform_payload lib platform content = Some payload"
  shows "\<exists>issues. validate_platform_payload lib platform payload = Some issues \<and>
           (has_error issues \<longleftrightarrow> \<not> publishable lib payload)"
  using assms instagram_errors x_errors blog_errors
  by (auto simp: parse_manual_platform_payload_def validate_platform_payload_def split: if_splits)

text \<open>A thread of two posts, the first with a URL that counts as 23 characters.\<close>

definition sample_schema_lib :: schema_lib where
  "sample_schema_lib =
     \<lparr>sl_url = (\<lambda>s. if starts_with ''https://'' s then Some \<lparr>hu_text = s, hu_userinfo = False, hu_host = Some ''example.org''\<rparr> else None),
      sl_int = (\<lambda>v. case v of PInt i \<Rightarrow> Some i | _ \<Rightarrow> None), sl_ip = (\<lambda>_. False), sl_idna = (\<lambda>_. True), sl_telegram = Some\<rparr>"

definition sample_citation :: pyval where
  "sample_citation =
     PDict [(KStr ''evidence_key'', PStr ''e1''), (KStr ''evidence_snapshot_id'', PUuid ''u''), (KStr ''source_url'', PNone),
            (KStr ''locator'', PStr ''p. 1''), (KStr ''excerpt_sha256'', PStr (replicate 64 CHR ''0''))]"

definition sample_post :: "int \<Rightarrow> string \<Rightarrow> pyval" where
  "sample_post i body =
     PDict [(KStr ''order'', PInt i), (KStr ''text'', PStr body), (KStr ''media'', PList []), (KStr ''citations'', PList [sample_citation])]"

definition sample_thread :: "int \<Rightarrow> pyval" where
  "sample_thread i =
     PDict [(KStr ''mode'', PStr ''thread''), (KStr ''posts'', PList [sample_post 1 ''See https://example.org/a-long-way-to-the-text.'',
              sample_post i ''And more.'']),
            (KStr ''link_strategy'', PStr ''first_post''), (KStr ''manual_checklist'', PList [PStr ''Read it again''])]"

lemma sample_weight: "x_weighted_length sample_schema_lib ''See https://example.org/a-long-way-to-the-text.'' = 28"
  by code_simp

lemma sample_thread_publishable:
  "map_option (publishable sample_schema_lib) (parse_manual_platform_payload sample_schema_lib ''x'' (sample_thread 2)) = Some True"
  by code_simp

lemma sample_thread_out_of_order:
  "map_option (publishable sample_schema_lib) (parse_manual_platform_payload sample_schema_lib ''x'' (sample_thread 3)) = Some False"
  by code_simp

text \<open>The validator lets the first thread through with its standing warning alone.\<close>

lemma validation_decides_publishable_witness:
  "\<exists>payload issues. parse_manual_platform_payload sample_schema_lib ''x'' (sample_thread 2) = Some payload \<and>
     validate_platform_payload sample_schema_lib ''x'' payload = Some issues \<and> \<not> has_error issues"
proof -
  obtain payload where p: "parse_manual_platform_payload sample_schema_lib ''x'' (sample_thread 2) = Some payload"
    "publishable sample_schema_lib payload"
    using sample_thread_publishable by (auto simp: map_option_case split: option.splits)
  with validation_decides_publishable [OF p(1)] show ?thesis by blast
qed

end
