(* ===== verification/Secret_Spec.thy ===== *)
theory Secret_Spec
  imports Secret_Store
begin

text \<open>
  What the credential store promises: a secret comes back as it was stored, also across a change of the
  master key; a ciphertext opens in its own row only; and every change of the secrets is in the audit trail.
\<close>

section \<open>The associated data tell rows apart\<close>

lemma char_eqI: "(of_char c :: nat) = of_char d \<Longrightarrow> c = d"
  by (metis char_of_char)

lemma hex_char_inj:
  assumes "0 \<le> m" "m < 16" "0 \<le> n" "n < 16" "hex_char m = hex_char n"
  shows "m = n"
proof -
  have "(of_char (hex_char m) :: int) = of_char (hex_char n)" using assms(5) by simp
  then show ?thesis using assms(1-4) by (auto simp: of_char_of split: if_splits)
qed

lemma hex_text_byte: "hex_text 4 n = [hex_char (n div 4096 mod 16), hex_char (n div 256 mod 16), hex_char (n div 16 mod 16), hex_char (n mod 16)]"
  by (simp add: numeral_eq_Suc zdiv_zmult2_eq [symmetric])

lemma hex_text_inj:
  assumes "hex_text 4 (int m) = hex_text 4 (int n)" "m < 256" "n < 256"
  shows "m = n"
proof -
  have "int m div 16 mod 16 = int n div 16 mod 16" "int m mod 16 = int n mod 16"
    using assms(1) by (auto simp: hex_text_byte simp del: hex_char.simps intro: hex_char_inj)
  then show ?thesis using assms(2,3) by (auto simp: zmod_int [symmetric] zdiv_int [symmetric]) presburger
qed

lemma json_char_not_quote: "json_char c @ ys \<noteq> CHR 0x22 # xs"
proof -
  have "hd (json_char c) \<noteq> CHR 0x22" by (auto simp: json_char.simps Let_def)
  moreover have "json_char c \<noteq> []" by (simp add: json_char.simps Let_def)
  ultimately show ?thesis by (metis hd_append2 list.sel(1))
qed

lemma json_char_form:
  "json_char c = [c] \<and> c \<noteq> CHR 0x5C \<or>
   json_char c = [CHR 0x5C, c] \<and> (c = CHR 0x22 \<or> c = CHR 0x5C) \<or>
   (\<exists>e. json_char c = [CHR 0x5C, e] \<and>
      (e, c) \<in> {(CHR ''n'', CHR 0x0A), (CHR ''r'', CHR 0x0D), (CHR ''t'', CHR 0x09), (CHR ''f'', CHR 0x0C), (CHR ''b'', CHR 0x08)}) \<or>
   json_char c = CHR 0x5C # CHR ''u'' # hex_text 4 (int (of_char c))"
  using char_eqI [of c "CHR 0x22"] char_eqI [of c "CHR 0x5C"] char_eqI [of c "CHR 0x0A"] char_eqI [of c "CHR 0x0D"]
    char_eqI [of c "CHR 0x09"] char_eqI [of c "CHR 0x0C"] char_eqI [of c "CHR 0x08"]
  by (auto simp: json_char.simps Let_def)

lemma json_char_unique:
  assumes "json_char c @ xs = json_char d @ ys"
  shows "c = d \<and> xs = ys"
proof -
  have hex: "c = d \<and> xs = ys" if "hex_text 4 (int (of_char c)) @ xs = hex_text 4 (int (of_char d)) @ ys"
  proof -
    have "hex_text 4 (int (of_char c)) = hex_text 4 (int (of_char d)) \<and> xs = ys" using that by (simp add: hex_text_byte)
    then show ?thesis using hex_text_inj [of "of_char c" "of_char d"] char_eqI by simp
  qed
  show ?thesis
    using json_char_form [of c] json_char_form [of d] assms by (elim disjE exE conjE) (auto dest: hex)
qed

lemma json_body_unique:
  "concat (map json_char s) @ CHR 0x22 # xs = concat (map json_char t) @ CHR 0x22 # ys \<Longrightarrow> s = t \<and> xs = ys"
proof (induction s arbitrary: t)
  case Nil
  then show ?case using json_char_not_quote [symmetric] by (cases t) simp_all
next
  case (Cons c s)
  show ?case
  proof (cases t)
    case Nil
    then show ?thesis using Cons.prems json_char_not_quote by simp
  next
    case (Cons d t')
    then have "json_char c @ (concat (map json_char s) @ CHR 0x22 # xs) = json_char d @ (concat (map json_char t') @ CHR 0x22 # ys)"
      using Cons.prems by simp
    from json_char_unique [OF this] Cons.IH [of t'] show ?thesis using Cons by simp
  qed
qed

lemma json_text_unique: "json_text s @ xs = json_text t @ ys \<longleftrightarrow> s = t \<and> xs = ys"
  using json_body_unique [of s xs t ys] by (auto simp: json_text_def)

lemma json_text_inject: "json_text s = json_text t \<longleftrightarrow> s = t"
  using json_text_unique [of s "[]" t "[]"] by simp

lemma aad_unique:
  "aad s v = aad t w \<longleftrightarrow> sk_id s = sk_id t \<and> v = w \<and> sk_owner_id s = sk_owner_id t \<and>
     sk_owner_type s = sk_owner_type t \<and> sk_purpose s = sk_purpose t"
  by (auto simp: aad_def json_text_unique json_text_inject)

section \<open>Keys\<close>

definition keeps_keys :: "key_ring \<Rightarrow> key_ring \<Rightarrow> bool" where
  "keeps_keys r r' \<longleftrightarrow> (\<forall>v k. ring_key r v = Inr k \<longrightarrow> ring_key r' v = Inr k)"

lemma ring_key_eq: "ring_key r v = Inr k \<longleftrightarrow> map_of (kr_keys r) v = Some k"
  by (simp add: ring_key_def split: option.splits)

lemma decode_key_length: "decode_key e = Inr k \<Longrightarrow> length k = 32"
  by (auto simp: decode_key_def split: option.splits if_splits)

lemma make_key_ring_ok:
  assumes "make_key_ring active keys = Inr r"
  shows "r = \<lparr>kr_active_version = active, kr_keys = keys\<rparr>" "active \<in> fst ` set keys"
    "\<And>v k. (v, k) \<in> set keys \<Longrightarrow> valid_key_version v \<and> length k = 32"
  using assms by (auto simp: make_key_ring_def list_all_iff split: if_splits)

lemma add_previous_keys_ok:
  assumes "add_previous_keys d keys = Inr keys'"
  shows "\<forall>v k. map_of keys v = Some k \<longrightarrow> map_of keys' v = Some k"
    and "\<forall>v e. (KStr v, PStr e) \<in> set d \<longrightarrow> (\<exists>k. decode_key e = Inr k \<and> map_of keys' v = Some k)"
  using assms
proof (induction d keys rule: add_previous_keys.induct)
  case (2 v e rest keys)
  { case 1
    then obtain k where k: "v \<notin> fst ` set keys" "decode_key e = Inr k" "add_previous_keys rest (keys @ [(v, k)]) = Inr keys'"
      by (auto simp: result_bind_eq_Inr split: if_splits)
    have "map_of (keys @ [(v, k)]) w = Some l" if "map_of keys w = Some l" for w l using that by (simp add: map_add_def)
    then show ?case using "2.IH"(1) [OF _ k(3)] k "1" by (auto split: if_splits) }
  { case 2
    then obtain k where k: "v \<notin> fst ` set keys" "decode_key e = Inr k" "add_previous_keys rest (keys @ [(v, k)]) = Inr keys'"
      by (auto simp: result_bind_eq_Inr split: if_splits)
    have "map_of (keys @ [(v, k)]) v = Some k"
      using k(1) by (simp add: map_add_def split: option.splits) (metis image_eqI fst_conv map_of_SomeD)
    then show ?case using "2.IH" [OF _ k(3)] k "2" by (auto split: if_splits) }
qed auto

lemma add_previous_keys_only:
  "add_previous_keys d keys = Inr keys' \<Longrightarrow> (v, k) \<in> set keys' \<Longrightarrow>
     (v, k) \<in> set keys \<or> (\<exists>e. (KStr v, PStr e) \<in> set d \<and> decode_key e = Inr k)"
proof (induction d keys rule: add_previous_keys.induct)
  case (2 w e rest keys)
  then obtain l where l: "decode_key e = Inr l" "add_previous_keys rest (keys @ [(w, l)]) = Inr keys'" "\<not> (w = [] \<or> w \<in> fst ` set keys)"
    by (auto simp: result_bind_eq_Inr split: if_splits)
  from "2.IH" [OF l(3) l(2) "2.prems"(2)] l(1) show ?case by auto
qed auto

text \<open>The entries of the configured previous keys.\<close>

definition previous_entries :: "(string \<Rightarrow> pyval option) \<Rightarrow> secret_settings \<Rightarrow> pydict" where
  "previous_entries json_loads cfg =
     (case sg_secret_previous_keys cfg of
        None \<Rightarrow> []
      | Some p \<Rightarrow> if strip p = [] then [] else (case json_loads (strip p) of Some (PDict d) \<Rightarrow> d | _ \<Rightarrow> []))"

lemma from_settings_keys:
  assumes "key_ring_from_settings json cfg = Inr r"
  obtains master k where "sg_secret_master_key cfg = Some master" "decode_key master = Inr k"
    "add_previous_keys (previous_entries json cfg) [(sg_secret_key_version cfg, k)] = Inr (kr_keys r)"
    "make_key_ring (sg_secret_key_version cfg) (kr_keys r) = Inr r"
proof -
  from assms obtain master k where mk: "sg_secret_master_key cfg = Some master" "decode_key master = Inr k"
    by (auto simp: key_ring_from_settings_def result_bind_eq_Inr split: option.splits)
  have "\<exists>keys. add_previous_keys (previous_entries json cfg) [(sg_secret_key_version cfg, k)] = Inr keys \<and>
      make_key_ring (sg_secret_key_version cfg) keys = Inr r"
    using assms mk
    by (auto simp: key_ring_from_settings_def previous_entries_def Let_def result_bind_eq_Inr
        split: option.splits if_splits pyval.splits)
  then show ?thesis using that mk make_key_ring_ok(1) by (metis key_ring.select_convs(2))
qed

lemma from_settings_active:
  assumes "key_ring_from_settings json cfg = Inr r"
  shows "kr_active_version r = sg_secret_key_version cfg"
  using assms
proof (cases rule: from_settings_keys)
  case (1 m k)
  from make_key_ring_ok(1) [OF "1"(4)] show ?thesis by (metis key_ring.select_convs(1))
qed

lemma from_settings_master:
  assumes "key_ring_from_settings json cfg = Inr r" "sg_secret_master_key cfg = Some master"
  shows "\<exists>k. decode_key master = Inr k \<and> ring_key r (sg_secret_key_version cfg) = Inr k"
  using assms(1)
proof (cases rule: from_settings_keys)
  case (1 m k)
  then show ?thesis using assms(2) add_previous_keys_ok(1) [OF "1"(3)] by (simp add: ring_key_eq)
qed

lemma from_settings_previous:
  assumes "key_ring_from_settings json cfg = Inr r" "(KStr v, PStr e) \<in> set (previous_entries json cfg)"
  shows "\<exists>k. decode_key e = Inr k \<and> ring_key r v = Inr k"
  using assms(1)
proof (cases rule: from_settings_keys)
  case (1 m k)
  then show ?thesis using assms(2) add_previous_keys_ok(2) [OF "1"(3)] by (simp add: ring_key_eq)
qed

lemma from_settings_only:
  assumes "key_ring_from_settings json cfg = Inr r" "ring_key r v = Inr k"
  shows "length k = 32 \<and> valid_key_version v"
    and "v = sg_secret_key_version cfg \<and> (\<exists>m. sg_secret_master_key cfg = Some m \<and> decode_key m = Inr k) \<or>
      (\<exists>e. (KStr v, PStr e) \<in> set (previous_entries json cfg) \<and> decode_key e = Inr k)"
proof -
  have k: "(v, k) \<in> set (kr_keys r)" using assms(2) by (simp add: ring_key_eq map_of_SomeD)
  from assms(1) show "length k = 32 \<and> valid_key_version v"
    using make_key_ring_ok(3) k by (elim from_settings_keys) blast
  show "v = sg_secret_key_version cfg \<and> (\<exists>m. sg_secret_master_key cfg = Some m \<and> decode_key m = Inr k) \<or>
      (\<exists>e. (KStr v, PStr e) \<in> set (previous_entries json cfg) \<and> decode_key e = Inr k)"
    using assms(1)
  proof (cases rule: from_settings_keys)
    case (1 m l)
    then show ?thesis using add_previous_keys_only [OF "1"(3) k] by auto
  qed
qed

text \<open>A new master key whose configuration lists the old one, and everything the old one listed, loses no key.\<close>

lemma rollover_keeps_keys:
  assumes "key_ring_from_settings json old = Inr r" "key_ring_from_settings json new = Inr r'"
    and master: "sg_secret_master_key old = Some m" "(KStr (sg_secret_key_version old), PStr m) \<in> set (previous_entries json new)"
    and listed: "set (previous_entries json old) \<subseteq> set (previous_entries json new)"
  shows "keeps_keys r r'"
  unfolding keeps_keys_def
proof (intro allI impI)
  fix v k assume "ring_key r v = Inr k"
  then have "\<exists>e. (KStr v, PStr e) \<in> set (previous_entries json new) \<and> decode_key e = Inr k"
    using from_settings_only(2) [OF assms(1)] master listed by fastforce
  then show "ring_key r' v = Inr k" using from_settings_previous [OF assms(2)] by fastforce
qed

section \<open>The operations\<close>

definition opens_to :: "secret_env \<Rightarrow> key_ring \<Rightarrow> encrypted_secret \<Rightarrow> string \<Rightarrow> bool" where
  "opens_to se ring s v \<longleftrightarrow> is_text v \<and>
     (\<exists>k. ring_key ring (sk_key_version s) = Inr k \<and>
          sn_open se k (sk_nonce s) (sk_ciphertext s) (aad s (sk_key_version s)) = Some v)"

text \<open>Authenticated encryption: what was sealed opens with the same key, nonce and data, and with no others.\<close>

definition authenticated :: "secret_env \<Rightarrow> bool" where
  "authenticated se \<longleftrightarrow> (\<forall>k n v a c. sn_seal se k n v a = Some c \<longrightarrow>
     (\<forall>k' a'. sn_open se k' n c a' = (if k' = k \<and> a' = a then Some v else None)))"

lemma encrypt_secret_cases:
  assumes "encrypt_secret se ring nonce s v t = Inr s'"
  obtains k c where "v \<noteq> []" "active_key ring = Inr k" "sn_seal se k nonce v (aad s (kr_active_version ring)) = Some c"
    "s' = s\<lparr>sk_nonce := nonce, sk_ciphertext := c, sk_key_version := kr_active_version ring, sk_last_rotated_at := t\<rparr>"
  using assms by (auto simp: encrypt_secret_def result_bind_eq_Inr split: if_splits option.splits)

lemma encrypt_secret_opens:
  assumes "authenticated se" "encrypt_secret se ring nonce s v t = Inr s'" "is_text v"
  shows "opens_to se ring s' v" "sk_key_version s' = kr_active_version ring"
  using assms(2)
  by (atomize (full), cases rule: encrypt_secret_cases)
     (use assms(1,3) in \<open>auto simp: opens_to_def authenticated_def active_key_def aad_def\<close>)

lemma opens_to_keeps: "opens_to se r s v \<Longrightarrow> keeps_keys r r' \<Longrightarrow> opens_to se r' s v"
  unfolding opens_to_def keeps_keys_def by blast

lemma decrypt_secret_eq:
  assumes "permits p scope" "opens_to se ring s v"
  shows "decrypt_secret se ring s p scope x = (Inr v, x)"
  using assms by (auto simp: decrypt_secret_def authorize_def opens_to_def)

lemma decrypt_secret_opens:
  assumes "decrypt_secret se ring s p scope x = (Inr v, x')"
  shows "opens_to se ring s v" "permits p scope" "x' = x"
  using assms by (auto simp: decrypt_secret_def authorize_def opens_to_def split: if_splits option.splits sum.splits)

lemma create_secret_opens:
  assumes "authenticated se" "is_text v" "create_secret se ring i nonce purpose ot owner v p scope now x = (Inr s, x')"
  shows "opens_to se ring s v"
  using assms encrypt_secret_opens(1)
  by (auto simp: create_secret_def authorize_def Let_def split: if_splits sum.splits)

lemma rotate_secret_opens:
  assumes "authenticated se" "is_text v" "rotate_secret se ring nonce s v p scope now x = (Inr s', x')"
  shows "opens_to se ring s' v"
  using assms encrypt_secret_opens(1)
  by (auto simp: rotate_secret_def authorize_def split: if_splits sum.splits)

lemma rewrap_secret_opens:
  assumes "authenticated se" "opens_to se ring s v" "rewrap_secret se ring nonce s p scope now x = (Inr (s', b), x')"
  shows "opens_to se ring s' v" "sk_key_version s' = kr_active_version ring"
proof -
  have utf: "is_text v" using assms(2) by (simp add: opens_to_def)
  have "decrypt_secret se ring s p scope x = (Inr v, x)" if "decrypt_secret se ring s p scope x = (Inr w, y)" for w y
    using decrypt_secret_eq decrypt_secret_opens(2) that assms(2) by blast
  then show "opens_to se ring s' v" "sk_key_version s' = kr_active_version ring"
    using assms encrypt_secret_opens [OF assms(1) _ utf]
    by (auto simp: rewrap_secret_def split: if_splits sum.splits prod.splits)
qed

lemma encrypt_secret_total:
  assumes "active_key ring = Inr k" "v \<noteq> []" "\<forall>k n w a. sn_seal se k n w a \<noteq> None"
  obtains s' where "encrypt_secret se ring nonce s v t = Inr s'"
proof -
  obtain c where "sn_seal se k nonce v (aad s (kr_active_version ring)) = Some c" using assms(3) by blast
  then show ?thesis using that assms(1,2) by (simp add: encrypt_secret_def)
qed

lemma create_secret_total:
  assumes "active_key ring = Inr k" "v \<noteq> []" "\<forall>k n w a. sn_seal se k n w a \<noteq> None" "permits p scope"
  obtains s x' where "create_secret se ring i nonce purpose ot owner v p scope now x = (Inr s, x')"
  using assms(4) encrypt_secret_total [OF assms(1-3)] unfolding create_secret_def authorize_def Let_def
  by (smt (verit) case_prod_conv sum.case(2))

lemma rewrap_secret_total:
  assumes "active_key ring = Inr k" "v \<noteq> []" "\<forall>k n w a. sn_seal se k n w a \<noteq> None" "permits p scope" "opens_to se ring s v"
  obtains s' b x' where "rewrap_secret se ring nonce s p scope now x = (Inr (s', b), x')"
proof (cases "sk_key_version s = kr_active_version ring")
  case True
  then show ?thesis using that [of s False x] by (simp add: rewrap_secret_def)
next
  case False
  obtain s' where "encrypt_secret se ring nonce s v now = Inr s'" using encrypt_secret_total [OF assms(1-3)] by blast
  then show ?thesis using that False decrypt_secret_eq [OF assms(4,5)] by (simp add: rewrap_secret_def)
qed

section \<open>What the store promises\<close>

text \<open>
  C9: a stored secret survives a change of the master key.  A secret created under the old configuration is
  read back as it was under the new one, which lists the old key among the previous ones; it can be rewrapped
  there, and what that leaves is readable when the old key has been dropped.
\<close>

theorem secret_survives_rollover:
  assumes crypto: "authenticated se" "\<forall>k n w a. sn_seal se k n w a \<noteq> None"
    and rings: "key_ring_from_settings json old = Inr r1" "key_ring_from_settings json new = Inr r2"
      "key_ring_from_settings json later = Inr r3"
    and listed: "sg_secret_master_key old = Some m" "(KStr (sg_secret_key_version old), PStr m) \<in> set (previous_entries json new)"
      "set (previous_entries json old) \<subseteq> set (previous_entries json new)"
    and dropped: "sg_secret_key_version later = sg_secret_key_version new" "sg_secret_master_key later = sg_secret_master_key new"
    and secret: "v \<noteq> []" "is_text v"
    and scopes: "permits p scope" "permits p' scope'" "permits q scope''"
  shows "\<exists>s x1. create_secret se r1 i n purpose ot owner v p scope t x = (Inr s, x1) \<and>
    decrypt_secret se r2 s q scope'' x2 = (Inr v, x2) \<and>
    (\<exists>s' b x3. rewrap_secret se r2 n' s p' scope' t' x2 = (Inr (s', b), x3) \<and>
       decrypt_secret se r3 s' q scope'' x3 = (Inr v, x3))"
proof -
  obtain k where k: "active_key r1 = Inr k"
    using from_settings_master [OF rings(1) listed(1)] from_settings_active [OF rings(1)] by (auto simp: active_key_def)
  obtain s x1 where s: "create_secret se r1 i n purpose ot owner v p scope t x = (Inr s, x1)"
    using create_secret_total [OF k secret(1) crypto(2) scopes(1)] by blast
  have open2: "opens_to se r2 s v"
    using opens_to_keeps [OF create_secret_opens [OF crypto(1) secret(2) s]] rollover_keeps_keys [OF rings(1,2) listed] .
  from rings(2) obtain m' k' where m': "sg_secret_master_key new = Some m'" "decode_key m' = Inr k'"
    by (cases rule: from_settings_keys)
  have k': "active_key r2 = Inr k'" "ring_key r3 (kr_active_version r2) = Inr k'"
    using from_settings_master [OF rings(2) m'(1)] from_settings_master [OF rings(3), of m'] from_settings_active [OF rings(2)]
      m' dropped by (auto simp: active_key_def)
  obtain s' b x3 where s': "rewrap_secret se r2 n' s p' scope' t' x2 = (Inr (s', b), x3)"
    using rewrap_secret_total [OF k'(1) secret(1) crypto(2) scopes(2) open2] by blast
  note wrapped = rewrap_secret_opens [OF crypto(1) open2 s']
  have "opens_to se r3 s' v" using wrapped k' by (auto simp: opens_to_def active_key_def)
  then show ?thesis using s s' decrypt_secret_eq [OF scopes(3)] open2 by blast
qed

text \<open>
  C10: a ciphertext is bound to its row.  Copied into another row, or used under another key, it does not open:
  whenever a row with the ciphertext and the nonce of an encryption is decrypted, the row has the identifier,
  the purpose and the owner it was encrypted for, and the answer is the text that was encrypted.
\<close>

theorem ciphertext_bound_to_row:
  assumes "authenticated se" "encrypt_secret se ring nonce s v t = Inr s1"
    and "sk_ciphertext u = sk_ciphertext s1" "sk_nonce u = sk_nonce s1"
    and "decrypt_secret se ring' u p scope x = (Inr w, x')"
  shows "w = v \<and> sk_id u = sk_id s \<and> sk_purpose u = sk_purpose s \<and> sk_owner_type u = sk_owner_type s \<and>
    sk_owner_id u = sk_owner_id s \<and> sk_key_version u = kr_active_version ring \<and>
    ring_key ring' (sk_key_version u) = active_key ring"
  using assms(2)
proof (cases rule: encrypt_secret_cases)
  case (1 k c)
  obtain k' where k': "ring_key ring' (sk_key_version u) = Inr k'"
    "sn_open se k' (sk_nonce u) (sk_ciphertext u) (aad u (sk_key_version u)) = Some w"
    using decrypt_secret_opens(1) [OF assms(5)] by (auto simp: opens_to_def)
  have "sn_open se k' nonce c a = (if k' = k \<and> a = aad s (kr_active_version ring) then Some v else None)" for a
    using assms(1) "1"(3) unfolding authenticated_def by blast
  with k' assms(3,4) "1" have "k' = k" "aad u (sk_key_version u) = aad s (kr_active_version ring)" "w = v"
    by (auto split: if_splits)
  then show ?thesis using k' "1"(2) by (simp add: aad_unique)
qed

text \<open>One operation of a process that holds a key ring; a rotation and a rewrap work on a stored row.\<close>

inductive secret_step :: "secret_env \<Rightarrow> secret_db \<Rightarrow> secret_db \<Rightarrow> bool" for se where
  created: "create_secret se ring i n purpose ot owner v p scope t x = (r, x') \<Longrightarrow> secret_step se x x'"
| rotated: "s \<in> set (sx_secrets x) \<Longrightarrow> rotate_secret se ring n s v p scope t x = (r, x') \<Longrightarrow> secret_step se x x'"
| read: "s \<in> set (sx_secrets x) \<Longrightarrow> decrypt_secret se ring s p scope x = (r, x') \<Longrightarrow> secret_step se x x'"
| rewrapped: "s \<in> set (sx_secrets x) \<Longrightarrow> rewrap_secret se ring n s p scope t x = (r, x') \<Longrightarrow> secret_step se x x'"

text \<open>The entry of the trail that tells of a secret as it is: its owner, its purpose and the version of its key.\<close>

definition names_secret :: "secret_env \<Rightarrow> encrypted_secret \<Rightarrow> security_event \<Rightarrow> bool" where
  "names_secret se s ev \<longleftrightarrow>
     au_outcome ev = ''succeeded'' \<and> au_resource_type ev = text_or_unknown (safe_text se 200 (sk_owner_type s)) \<and>
     au_resource_id ev = Some (safe_text se 200 (sk_owner_id s)) \<and>
     au_event_metadata ev = redact_event_data (sn_redact_string se) (secret_metadata s)"

text \<open>What an operation may do to the store: append to the trail, and change a row with an entry that names it.\<close>

definition audited_change :: "secret_env \<Rightarrow> secret_db \<Rightarrow> secret_db \<Rightarrow> bool" where
  "audited_change se x x' \<longleftrightarrow>
     (\<exists>evs. sx_audit x' = sx_audit x @ evs \<and>
        (\<forall>s\<in>set (sx_secrets x'). s \<in> set (sx_secrets x) \<or> (\<exists>ev\<in>set evs. names_secret se s ev)))"

lemma secret_event_simps [simp]:
  "sx_secrets (secret_event se p scope action s outcome reason md x) = sx_secrets x"
  "\<exists>ev. sx_audit (secret_event se p scope action s outcome reason md x) = sx_audit x @ [ev] \<and> au_outcome ev = outcome \<and>
     (outcome = ''succeeded'' \<longrightarrow> md = secret_metadata s \<longrightarrow> names_secret se s ev)"
  by (simp_all add: secret_event_def record_security_event_def names_secret_def)

lemma audited_refl: "audited_change se x x"
  by (simp add: audited_change_def)

lemma audited_event: "sx_secrets x' = sx_secrets x \<Longrightarrow> sx_audit x' = sx_audit x @ evs \<Longrightarrow> audited_change se x x'"
  by (auto simp: audited_change_def)

lemma audited_refusal: "audited_change se x (secret_event se p scope action s outcome reason md x)"
  using secret_event_simps(2) [of se p scope action s outcome reason md x] audited_event secret_event_simps(1) by metis

lemma audited_write:
  assumes "set (sx_secrets y) \<subseteq> insert s (set (sx_secrets x))" "sx_audit y = sx_audit x"
  shows "audited_change se x (secret_event se p scope action s ''succeeded'' reason (secret_metadata s) y)"
  using secret_event_simps(2) [of se p scope action s "''succeeded''" reason "secret_metadata s" y] assms
  by (auto simp: audited_change_def)

lemma audited_put: "audited_change se x (secret_event se p scope action s ''succeeded'' reason (secret_metadata s) (put_secret s x))"
  by (rule audited_write) (auto simp: put_secret_def in_set_rows)

lemma decrypt_secret_audited: "decrypt_secret se ring s p scope x = (r, x') \<Longrightarrow> audited_change se x x'"
  using audited_refl audited_refusal
  by (auto simp: decrypt_secret_def authorize_def split: if_splits option.splits sum.splits)

lemma secret_step_audited: "secret_step se x x' \<Longrightarrow> audited_change se x x'"
proof (induction rule: secret_step.induct)
  case (created ring i n purpose ot owner v p scope t x r x')
  then show ?case using audited_refl audited_refusal
    by (auto simp: create_secret_def authorize_def Let_def intro!: audited_write split: if_splits sum.splits)
next
  case (rotated s x ring n v p scope t r x')
  then show ?case using audited_refl audited_refusal audited_put
    by (auto simp: rotate_secret_def authorize_def split: if_splits sum.splits)
next
  case (read s x ring p scope r x')
  then show ?case by (blast intro: decrypt_secret_audited)
next
  case (rewrapped s x ring n p scope t r x')
  then show ?case using audited_refl decrypt_secret_audited audited_put
    by (auto simp: rewrap_secret_def dest: decrypt_secret_opens(3) split: if_splits sum.splits prod.splits)
qed

text \<open>
  C11: every stored secret is accounted for.  Whatever sequence of creations, rotations, reads and rewraps led
  to the present rows, by whatever principals and under whatever keys, the audit trail holds a successful entry
  that names the owner, the purpose and the key version each row has now, and nothing was ever taken from the trail.
\<close>

theorem stored_secrets_are_audited:
  assumes "(secret_step se)\<^sup>*\<^sup>* \<lparr>sx_secrets = [], sx_audit = trail\<rparr> x"
  shows "(\<exists>evs. sx_audit x = trail @ evs) \<and> (\<forall>s\<in>set (sx_secrets x). \<exists>ev\<in>set (sx_audit x). names_secret se s ev)"
  using assms
proof (induction rule: rtranclp_induct)
  case base
  then show ?case by simp
next
  case (step y z)
  from secret_step_audited [OF step.hyps(2)] show ?case using step.IH by (force simp: audited_change_def)
qed

text \<open>
  A concrete authenticated encryption, which only marks the key and the data, and configurations before,
  during and after a change of the master key.
\<close>

definition sample_seal :: "string \<Rightarrow> string \<Rightarrow> string \<Rightarrow> string \<Rightarrow> string option" where
  "sample_seal k n v a = Some (json_text k @ json_text a @ v)"

definition sample_open :: "string \<Rightarrow> string \<Rightarrow> string \<Rightarrow> string \<Rightarrow> string option" where
  "sample_open k n c a =
     (let mark = json_text k @ json_text a in if starts_with mark c then Some (drop (length mark) c) else None)"

definition sample_env :: secret_env where
  "sample_env = \<lparr>sn_redact_string = id, sn_db_now = 0, sn_seal = sample_seal, sn_open = sample_open\<rparr>"

lemma starts_with_iff: "starts_with p s \<longleftrightarrow> (\<exists>t. s = p @ t)"
  by (induction p s rule: starts_with.induct) auto

lemma sample_authenticated: "authenticated sample_env"
  unfolding authenticated_def
proof (intro allI impI)
  fix k n v a c k' a'
  assume "sn_seal sample_env k n v a = Some c"
  then have c: "c = json_text k @ json_text a @ v" by (simp add: sample_env_def sample_seal_def)
  have "starts_with (json_text k' @ json_text a') c \<longleftrightarrow> k' = k \<and> a' = a"
    by (auto simp: c starts_with_iff json_text_unique dest: sym)
  then show "sn_open sample_env k' n c a' = (if k' = k \<and> a' = a then Some v else None)"
    by (simp add: sample_env_def sample_open_def c Let_def)
qed

definition old_master :: string where
  "old_master = ''AAAAAAAAAAAAAAAAAAAAAAAAAAAAAAAAAAAAAAAAAAA''"

definition new_master :: string where
  "new_master = ''__________________________________________8''"

definition sample_json :: "string \<Rightarrow> pyval option" where
  "sample_json s = (if s = ''previous'' then Some (PDict [(KStr ''v1'', PStr old_master)]) else None)"

definition old_settings :: secret_settings where
  "old_settings = \<lparr>sg_secret_master_key = Some old_master, sg_secret_key_version = ''v1'', sg_secret_previous_keys = None\<rparr>"

definition new_settings :: secret_settings where
  "new_settings = \<lparr>sg_secret_master_key = Some new_master, sg_secret_key_version = ''v2'',
     sg_secret_previous_keys = Some ''previous''\<rparr>"

definition sample_ring :: "secret_settings \<Rightarrow> key_ring" where
  "sample_ring cfg = (case key_ring_from_settings sample_json cfg of Inr r \<Rightarrow> r)"

definition sample_principal :: principal where
  "sample_principal = \<lparr>pc_principal_type = ''local_owner'', pc_principal_id = ''owner'', pc_scopes = [''destinations:write'']\<rparr>"

definition later_settings :: secret_settings where
  "later_settings = new_settings\<lparr>sg_secret_previous_keys := None\<rparr>"

definition key_of :: "string \<Rightarrow> string" where
  "key_of master = (case decode_key master of Inr k \<Rightarrow> k | Inl _ \<Rightarrow> [])"

lemma master_keys:
  "decode_key old_master = Inr (key_of old_master) \<and> length (key_of old_master) = 32"
  "decode_key new_master = Inr (key_of new_master) \<and> length (key_of new_master) = 32"
  by (simp_all add: key_of_def old_master_def new_master_def decode_key_def b64decode_def Let_def)

lemma sample_rings:
  "key_ring_from_settings sample_json old_settings = Inr (sample_ring old_settings)"
  "key_ring_from_settings sample_json new_settings = Inr (sample_ring new_settings)"
  "key_ring_from_settings sample_json later_settings = Inr (sample_ring later_settings)"
  by (simp_all add: sample_ring_def key_ring_from_settings_def old_settings_def new_settings_def later_settings_def master_keys
      make_key_ring_def sample_json_def strip_def valid_key_version_def alnum_byte_def Let_def)

lemma secret_survives_rollover_witness:
  "\<exists>s x1. create_secret sample_env (sample_ring old_settings) ''i'' ''n'' ''telegram_bot_token'' ''destination'' ''d'' ''token''
       sample_principal ''destinations:write'' 1 \<lparr>sx_secrets = [], sx_audit = []\<rparr> = (Inr s, x1) \<and>
     decrypt_secret sample_env (sample_ring new_settings) s sample_principal ''destinations:write''
       \<lparr>sx_secrets = [], sx_audit = []\<rparr> = (Inr ''token'', \<lparr>sx_secrets = [], sx_audit = []\<rparr>) \<and>
     (\<exists>s' b x3. rewrap_secret sample_env (sample_ring new_settings) ''m'' s sample_principal ''destinations:write'' 2
         \<lparr>sx_secrets = [], sx_audit = []\<rparr> = (Inr (s', b), x3) \<and>
       decrypt_secret sample_env (sample_ring later_settings) s' sample_principal ''destinations:write'' x3 = (Inr ''token'', x3))"
proof (rule secret_survives_rollover [OF sample_authenticated _ sample_rings, of "old_master"])
  show "\<forall>k n w a. sn_seal sample_env k n w a \<noteq> None" by (simp add: sample_env_def sample_seal_def)
  show "sg_secret_master_key old_settings = Some old_master" by (simp add: old_settings_def)
  show "(KStr (sg_secret_key_version old_settings), PStr old_master) \<in> set (previous_entries sample_json new_settings)"
    by code_simp
  show "set (previous_entries sample_json old_settings) \<subseteq> set (previous_entries sample_json new_settings)" by code_simp
qed (simp_all add: later_settings_def sample_principal_def permits_def is_text_def)

definition sample_row :: encrypted_secret where
  "sample_row = \<lparr>sk_id = ''i'', sk_purpose = ''telegram_bot_token'', sk_owner_type = ''destination'', sk_owner_id = ''d'',
     sk_ciphertext = [], sk_nonce = [], sk_key_version = ''v1'', sk_created_at = 0, sk_last_rotated_at = 0\<rparr>"

definition sample_store :: secret_db where
  "sample_store = snd (create_secret sample_env (sample_ring old_settings) ''i'' ''n'' ''telegram_bot_token'' ''destination'' ''d''
     ''token'' sample_principal ''destinations:write'' 1 \<lparr>sx_secrets = [], sx_audit = []\<rparr>)"

definition sealed_row :: encrypted_secret where
  "sealed_row = hd (sx_secrets sample_store)"

lemmas sample_ring_simps =
  sample_ring_def key_ring_from_settings_def old_settings_def master_keys make_key_ring_def valid_key_version_def alnum_byte_def Let_def

lemma old_ring: "sample_ring old_settings = \<lparr>kr_active_version = ''v1'', kr_keys = [(''v1'', key_of old_master)]\<rparr>"
  by (simp add: sample_ring_simps)

lemma sealed_row_eq: "encrypt_secret sample_env (sample_ring old_settings) ''n'' sample_row ''token'' 1 = Inr sealed_row"
  by (simp add: sealed_row_def sample_store_def create_secret_def authorize_def permits_def sample_principal_def old_ring
      encrypt_secret_def active_key_def ring_key_def sample_env_def sample_seal_def sample_row_def aad_def secret_event_def
      record_security_event_def Let_def)

lemma ciphertext_bound_to_row_witness:
  "''token'' = ''token'' \<and> sk_id sealed_row = sk_id sample_row \<and> sk_purpose sealed_row = sk_purpose sample_row \<and>
     sk_owner_type sealed_row = sk_owner_type sample_row \<and> sk_owner_id sealed_row = sk_owner_id sample_row \<and>
     sk_key_version sealed_row = kr_active_version (sample_ring old_settings) \<and>
     ring_key (sample_ring old_settings) (sk_key_version sealed_row) = active_key (sample_ring old_settings)"
proof (rule ciphertext_bound_to_row [OF sample_authenticated sealed_row_eq refl refl])
  show "decrypt_secret sample_env (sample_ring old_settings) sealed_row sample_principal ''destinations:write'' sample_store =
    (Inr ''token'', sample_store)"
    using encrypt_secret_opens(1) [OF sample_authenticated sealed_row_eq]
    by (simp add: decrypt_secret_eq is_text_def permits_def sample_principal_def)
qed

lemma stored_secrets_are_audited_witness: "list_ex (names_secret sample_env sealed_row) (sx_audit sample_store)"
proof -
  have "secret_step sample_env \<lparr>sx_secrets = [], sx_audit = []\<rparr> sample_store"
    by (rule secret_step.created [where r = "fst (create_secret sample_env (sample_ring old_settings) ''i'' ''n''
      ''telegram_bot_token'' ''destination'' ''d'' ''token'' sample_principal ''destinations:write'' 1
      \<lparr>sx_secrets = [], sx_audit = []\<rparr>)"]) (simp add: sample_store_def)
  then have "(secret_step sample_env)\<^sup>*\<^sup>* \<lparr>sx_secrets = [], sx_audit = []\<rparr> sample_store" by (rule r_into_rtranclp)
  from stored_secrets_are_audited [OF this]
  have "\<forall>s\<in>set (sx_secrets sample_store). \<exists>ev\<in>set (sx_audit sample_store). names_secret sample_env s ev" by simp
  moreover have "sealed_row \<in> set (sx_secrets sample_store)"
    by (simp add: sealed_row_def sample_store_def create_secret_def authorize_def permits_def sample_principal_def old_ring
      encrypt_secret_def active_key_def ring_key_def sample_env_def sample_seal_def Let_def secret_event_def record_security_event_def)
  ultimately show ?thesis by (simp add: list_ex_iff)
qed

end
