(* ===== verification/Artifacts.thy ===== *)
theory Artifacts
  imports Prelude
begin

text \<open>
  Workflow artifacts, \<open>app/automations/definitions/artifacts.py\<close> and the contract classes of
  \<open>schemas.py\<close>: what a step of a workflow produces and what the next one accepts.
\<close>

section \<open>Kinds, capabilities and contracts\<close>

datatype artifact_kind = ARTICLE | RESEARCH | DRAFT | SCHEDULE_EVENT | PUBLICATION

datatype artifact_capability =
    Textual | Structured | Article | Research | Draft | Reviewable | Generatable | Approved | Publishable
  | Collection_Context | Source_Context | Schedule_Context

definition ARTIFACT_CAPABILITIES :: "artifact_capability list" where
  "ARTIFACT_CAPABILITIES =
     [Textual, Structured, Article, Research, Draft, Reviewable, Generatable, Approved, Publishable,
      Collection_Context, Source_Context, Schedule_Context]"

definition ARTIFACT_KINDS :: "artifact_kind list" where
  "ARTIFACT_KINDS = [ARTICLE, RESEARCH, DRAFT, SCHEDULE_EVENT, PUBLICATION]"

record artifact_shape =
  as_kind :: "artifact_kind option"
  as_capabilities :: "artifact_capability set"
  as_known :: bool

definition unknown_shape :: artifact_shape where
  "unknown_shape = \<lparr>as_kind = None, as_capabilities = {}, as_known = False\<rparr>"

record input_contract =
  ic_all_of :: "artifact_capability list"
  ic_any_of :: "artifact_capability list"
  ic_accepted_kinds :: "artifact_kind list"

definition input_contract_ok :: "input_contract \<Rightarrow> bool" where
  "input_contract_ok c =
     (\<not> (ic_all_of c = [] \<and> ic_any_of c = [] \<and> ic_accepted_kinds c = []) \<and>
      distinct (ic_all_of c) \<and> distinct (ic_any_of c) \<and> distinct (ic_accepted_kinds c))"

record output_contract =
  oc_kind :: "artifact_kind option"
  oc_capabilities :: "artifact_capability list"
  oc_preserves_input_artifact :: bool
  oc_adds_capabilities :: "artifact_capability list"

definition output_contract_ok :: "output_contract \<Rightarrow> bool" where
  "output_contract_ok c =
     ((oc_kind c \<noteq> None \<or> oc_preserves_input_artifact c) \<and>
      distinct (oc_capabilities c) \<and> distinct (oc_adds_capabilities c))"

section \<open>Compatibility\<close>

datatype compatibility = Compatible | Incomplete | Incompatible

definition LEGACY_ARTIFACTS :: "(string \<times> (artifact_kind \<times> artifact_capability list)) list" where
  "LEGACY_ARTIFACTS =
     (let article = [Textual, Structured, Article, Reviewable, Generatable];
          research = [Textual, Structured, Research, Reviewable, Generatable];
          draft = [Textual, Structured, Draft, Reviewable]
      in [(''package'', (DRAFT, draft)),
          (''article_package'', (ARTICLE, article)),
          (''research_package'', (RESEARCH, research)),
          (''draft_package'', (DRAFT, draft)),
          (''content_package'', (DRAFT, draft)),
          (''story.revision_ref'', (ARTICLE, article)),
          (''story.researched_revision_ref'', (RESEARCH, research)),
          (''article.collection_added'', (ARTICLE, article @ [Collection_Context])),
          (''source_item.ref'', (ARTICLE, article @ [Source_Context])),
          (''content_item.ref'', (ARTICLE, article @ [Source_Context])),
          (''run.signal'', (SCHEDULE_EVENT, [Structured, Schedule_Context])),
          (''story.revision_set_ref'', (ARTICLE, article)),
          (''draft.revision_set_ref'', (DRAFT, draft)),
          (''draft.validated_revision_set_ref'', (DRAFT, draft)),
          (''draft.telegram_revision_ref'', (DRAFT, draft)),
          (''draft.approved_telegram_revision_ref'', (DRAFT, draft @ [Approved, Publishable])),
          (''export.manual_package_ref'', (DRAFT, draft)),
          (''publication.telegram_ref'', (PUBLICATION, [Structured, Approved, Publishable]))])"

definition legacy_artifact_shape :: "string \<Rightarrow> artifact_shape" where
  "legacy_artifact_shape t =
     (case map_of LEGACY_ARTIFACTS t of
        None \<Rightarrow> unknown_shape
      | Some (k, caps) \<Rightarrow> \<lparr>as_kind = Some k, as_capabilities = set caps, as_known = True\<rparr>)"

definition or_else :: "'a option \<Rightarrow> 'a option \<Rightarrow> 'a option" where
  "or_else a b = (case a of None \<Rightarrow> b | Some x \<Rightarrow> Some x)"

definition shape_for_output_contract :: "output_contract option \<Rightarrow> artifact_shape option \<Rightarrow> artifact_shape" where
  "shape_for_output_contract contract upstream =
     (case contract of
        None \<Rightarrow> unknown_shape
      | Some c \<Rightarrow>
          if oc_preserves_input_artifact c then
            let base = (case upstream of None \<Rightarrow> unknown_shape | Some s \<Rightarrow> s)
            in \<lparr>as_kind = or_else (oc_kind c) (as_kind base),
                as_capabilities = as_capabilities base \<union> set (oc_capabilities c) \<union> set (oc_adds_capabilities c),
                as_known = (as_known base \<and> (oc_kind c \<noteq> None \<or> as_kind base \<noteq> None))\<rparr>
          else \<lparr>as_kind = oc_kind c,
                as_capabilities = set (oc_capabilities c) \<union> set (oc_adds_capabilities c),
                as_known = (oc_kind c \<noteq> None)\<rparr>)"

definition match_input_contract :: "artifact_shape \<Rightarrow> input_contract option \<Rightarrow> compatibility" where
  "match_input_contract shape contract =
     (case contract of
        None \<Rightarrow> Incompatible
      | Some c \<Rightarrow>
          if \<not> as_known shape then Incomplete
          else if ic_accepted_kinds c \<noteq> [] \<and> as_kind shape \<notin> Some ` set (ic_accepted_kinds c) then Incompatible
          else if \<not> set (ic_all_of c) \<subseteq> as_capabilities shape then Incompatible
          else if ic_any_of c \<noteq> [] \<and> set (ic_any_of c) \<inter> as_capabilities shape = {} then Incompatible
          else Compatible)"

lemma match_compatible:
  "match_input_contract shape contract = Compatible \<longleftrightarrow>
     (\<exists>c. contract = Some c \<and> as_known shape \<and>
        (ic_accepted_kinds c = [] \<or> (\<exists>k\<in>set (ic_accepted_kinds c). as_kind shape = Some k)) \<and>
        set (ic_all_of c) \<subseteq> as_capabilities shape \<and>
        (ic_any_of c = [] \<or> set (ic_any_of c) \<inter> as_capabilities shape \<noteq> {}))"
  by (auto simp: match_input_contract_def split: option.split)

section \<open>Reviewing an artifact\<close>

record workflow_artifact =
  wa_kind :: artifact_kind
  wa_capabilities :: "artifact_capability list"
  wa_payload :: pyval
  wa_source_node_id :: string
  wa_run_id :: "string option"
  wa_metadata :: "pydict option"

definition review_artifact :: "workflow_artifact \<Rightarrow> bool \<Rightarrow> bool \<Rightarrow> pydict option \<Rightarrow> workflow_artifact" where
  "review_artifact a approved eligible metadata =
     (let c1 = (if approved \<and> Approved \<notin> set (wa_capabilities a) then wa_capabilities a @ [Approved]
                else wa_capabilities a);
          c2 = (if approved \<and> eligible \<and> Publishable \<notin> set c1 then c1 @ [Publishable] else c1);
          m0 = (case wa_metadata a of None \<Rightarrow> [] | Some m \<Rightarrow> m);
          m1 = (case metadata of None \<Rightarrow> m0 | Some m \<Rightarrow> foldl (\<lambda>acc (k, v). dict_set acc k v) m0 m)
      in a\<lparr>wa_capabilities := c2,
           wa_metadata := Some (dict_set m1 (KStr ''review'') (PDict [(KStr ''approved'', PBool approved)]))\<rparr>)"

lemma review_capabilities:
  "distinct (wa_capabilities a) \<Longrightarrow>
     distinct (wa_capabilities (review_artifact a ap el m)) \<and>
     set (wa_capabilities (review_artifact a ap el m)) =
       set (wa_capabilities a) \<union> (if ap then {Approved} else {}) \<union> (if ap \<and> el then {Publishable} else {})"
  by (auto simp: review_artifact_def Let_def)

end
