(* ===== verification/Node_Registry.thy ===== *)
theory Node_Registry
  imports Artifacts
begin

text \<open>
  The node catalog, \<open>app/automations/definitions/registry.py\<close>: ports, node definitions and
  \<open>NODE_REGISTRY\<close>.  The configuration classes are given by their field names; what the schema
  library does with a configuration is a parameter of the validation.  Descriptions and interface hints are
  left out.
\<close>

record port_definition =
  pd_artifact_types :: "string list"
  pd_required :: bool
  pd_max_connections :: "nat option"
  pd_input_contract :: "input_contract option"
  pd_output_contract :: "output_contract option"

datatype runtime_status = Existing | Extension | Unavailable

datatype runtime_owner = Api | Scheduler | Source | Generation | Publishing | Compiler

record node_definition =
  nd_type :: string
  nd_family :: string
  nd_display_name :: string
  nd_config_fields :: "string list"
  nd_inputs :: "(string \<times> port_definition) list"
  nd_outputs :: "(string \<times> port_definition) list"
  nd_entry :: bool
  nd_terminal :: bool
  nd_runtime_status :: runtime_status
  nd_runtime_owner :: runtime_owner
  nd_runtime_job_types :: "string list"
  nd_input_contract :: "input_contract option"
  nd_output_contract :: "output_contract option"

section \<open>Contracts of the catalog\<close>

definition in_contract :: "artifact_capability list \<Rightarrow> artifact_capability list \<Rightarrow> artifact_kind list \<Rightarrow> input_contract" where
  "in_contract all any kinds = \<lparr>ic_all_of = all, ic_any_of = any, ic_accepted_kinds = kinds\<rparr>"

definition ARTICLE_INPUT where "ARTICLE_INPUT = in_contract [Textual] [Article, Generatable] [ARTICLE, RESEARCH]"
definition RESEARCH_INPUT where "RESEARCH_INPUT = in_contract [Textual] [Article, Generatable] [ARTICLE, RESEARCH]"
definition GENERATE_INPUT where "GENERATE_INPUT = in_contract [Generatable] [] [ARTICLE, RESEARCH]"
definition REVIEWABLE_INPUT where "REVIEWABLE_INPUT = in_contract [Reviewable] [] []"
definition DRAFT_INPUT where "DRAFT_INPUT = in_contract [Draft] [] [DRAFT]"
definition APPROVED_DRAFT_INPUT where "APPROVED_DRAFT_INPUT = in_contract [Approved, Publishable] [] [DRAFT]"
definition SCHEDULE_INPUT where "SCHEDULE_INPUT = in_contract [Schedule_Context] [] [SCHEDULE_EVENT]"

definition out_contract :: "artifact_kind option \<Rightarrow> artifact_capability list \<Rightarrow> bool \<Rightarrow> artifact_capability list \<Rightarrow> output_contract" where
  "out_contract k caps preserves adds =
     \<lparr>oc_kind = k, oc_capabilities = caps, oc_preserves_input_artifact = preserves, oc_adds_capabilities = adds\<rparr>"

definition ARTICLE_OUTPUT where
  "ARTICLE_OUTPUT = out_contract (Some ARTICLE) [Textual, Structured, Article, Reviewable, Generatable] False []"
definition COLLECTION_ARTICLE_OUTPUT where
  "COLLECTION_ARTICLE_OUTPUT =
     out_contract (Some ARTICLE) [Textual, Structured, Article, Reviewable, Generatable, Collection_Context] False []"
definition SOURCE_ARTICLE_OUTPUT where
  "SOURCE_ARTICLE_OUTPUT =
     out_contract (Some ARTICLE) [Textual, Structured, Article, Reviewable, Generatable, Source_Context] False []"
definition SCHEDULE_OUTPUT where
  "SCHEDULE_OUTPUT = out_contract (Some SCHEDULE_EVENT) [Structured, Schedule_Context] False []"
definition RESEARCH_OUTPUT where
  "RESEARCH_OUTPUT = out_contract (Some RESEARCH) [Textual, Structured, Research, Reviewable, Generatable] False []"
definition DRAFT_OUTPUT where
  "DRAFT_OUTPUT = out_contract (Some DRAFT) [Textual, Structured, Draft, Reviewable] False []"
definition PRESERVE_DRAFT_OUTPUT where
  "PRESERVE_DRAFT_OUTPUT = out_contract (Some DRAFT) [Structured] True []"
definition PRESERVE_OUTPUT where "PRESERVE_OUTPUT = out_contract None [] True []"
definition APPROVED_OUTPUT where "APPROVED_OUTPUT = out_contract None [] True [Approved, Publishable]"
definition PUBLICATION_OUTPUT where
  "PUBLICATION_OUTPUT = out_contract (Some PUBLICATION) [Structured, Approved, Publishable] False []"

section \<open>The catalog\<close>

definition input_port :: "string list \<Rightarrow> bool \<Rightarrow> input_contract \<Rightarrow> port_definition" where
  "input_port types required c =
     \<lparr>pd_artifact_types = types, pd_required = required, pd_max_connections = Some 1,
      pd_input_contract = Some c, pd_output_contract = None\<rparr>"

definition output_port :: "string list \<Rightarrow> output_contract \<Rightarrow> port_definition" where
  "output_port types c =
     \<lparr>pd_artifact_types = types, pd_required = True, pd_max_connections = None,
      pd_input_contract = None, pd_output_contract = Some c\<rparr>"

definition STORY where "STORY = [''story.revision_ref'']"
definition RESEARCHED_STORY where "RESEARCHED_STORY = [''story.researched_revision_ref'']"
definition ANY_STORY where "ANY_STORY = STORY @ RESEARCHED_STORY"
definition COLLECTION_ARTICLE where "COLLECTION_ARTICLE = [''article.collection_added'']"
definition STORY_SET where "STORY_SET = [''story.revision_set_ref'']"
definition DRAFT_SET where "DRAFT_SET = [''draft.revision_set_ref'']"
definition VALIDATED_DRAFT_SET where "VALIDATED_DRAFT_SET = [''draft.validated_revision_set_ref'']"
definition ANY_DRAFT_SET where "ANY_DRAFT_SET = DRAFT_SET @ VALIDATED_DRAFT_SET"

definition node ::
  "string \<Rightarrow> string \<Rightarrow> string \<Rightarrow> string list \<Rightarrow> (string \<times> port_definition) list \<Rightarrow> (string \<times> port_definition) list \<Rightarrow>
   bool \<Rightarrow> bool \<Rightarrow> runtime_status \<Rightarrow> runtime_owner \<Rightarrow> string list \<Rightarrow> node_definition" where
  "node ty family name params ins outs entry terminal status owner jobs =
     \<lparr>nd_type = ty, nd_family = family, nd_display_name = name, nd_config_fields = params, nd_inputs = ins,
      nd_outputs = outs, nd_entry = entry, nd_terminal = terminal, nd_runtime_status = status,
      nd_runtime_owner = owner, nd_runtime_job_types = jobs, nd_input_contract = None, nd_output_contract = None\<rparr>"

definition node_definitions :: "node_definition list" where
  "node_definitions =
     [node ''manual'' ''trigger'' ''Manual'' [''story_revision_id''] []
        [(''story'', output_port STORY ARTICLE_OUTPUT)] True False Existing Api
        [''content_pack.generate'', ''content_pack.generate_telegram''],
      node ''collection_article_added'' ''trigger'' ''Collection article added'' [''collection_id''] []
        [(''article'', output_port COLLECTION_ARTICLE COLLECTION_ARTICLE_OUTPUT)] True True Existing Compiler
        [''automation.run.start''],
      node ''new_source_item'' ''trigger'' ''New Source Item'' [''source_ids''] []
        [(''item'', output_port [''source_item.ref'', ''content_item.ref''] SOURCE_ARTICLE_OUTPUT)] True True Existing
        Source [''automation.run.start''],
      node ''schedule'' ''trigger'' ''Schedule''
        [''schedule_kind'', ''timezone'', ''local_time'', ''interval_minutes'', ''catch_up_limit''] []
        [(''tick'', output_port [''run.signal''] SCHEDULE_OUTPUT)] True False Extension Scheduler
        [''automation.run.start''],
      node ''select_content'' ''select_filter'' ''Select content''
        [''source_ids'', ''languages'', ''topics'', ''content_types'', ''minimum_score'', ''require_media'', ''sort'',
         ''max_count'']
        [(''tick'', input_port [''run.signal''] False SCHEDULE_INPUT)]
        [(''stories'', output_port [''story.revision_set_ref''] ARTICLE_OUTPUT)] False False Extension Generation
        [''automation.run.start''],
      node ''filter_content'' ''select_filter'' ''Filter content''
        [''include_terms'', ''exclude_terms'', ''min_text_characters'', ''require_media'']
        [(''story'', input_port (STORY @ COLLECTION_ARTICLE) True ARTICLE_INPUT)]
        [(''accepted'', output_port (STORY @ COLLECTION_ARTICLE) PRESERVE_OUTPUT)] False False Existing Generation
        [''telegram.route.process''],
      node ''research'' ''research'' ''AI Research''
        [''provider_profile_id'', ''prompt_template_version_id'', ''prompt_checksum_sha256'', ''mode'', ''query_budget'',
         ''page_budget'', ''time_budget_seconds'']
        [(''story'', input_port (STORY @ COLLECTION_ARTICLE) True RESEARCH_INPUT)]
        [(''story'', output_port RESEARCHED_STORY RESEARCH_OUTPUT)] False False Existing Generation
        [''research_story''],
      node ''generate_content_pack'' ''generate'' ''Generate content package''
        [''editorial_profile_id'', ''provider_profile_id'', ''prompt_version_ids'', ''prompt_checksums'', ''platforms'']
        [(''story'', input_port (ANY_STORY @ STORY_SET @ COLLECTION_ARTICLE) True GENERATE_INPUT)]
        [(''drafts'', output_port DRAFT_SET DRAFT_OUTPUT)] False False Existing Generation
        [''content_pack.generate'', ''content_pack.generate_telegram''],
      node ''validate'' ''validate'' ''Validate'' [''validator_ids'']
        [(''drafts'', input_port DRAFT_SET True DRAFT_INPUT)]
        [(''valid'', output_port VALIDATED_DRAFT_SET PRESERVE_OUTPUT)] False False Existing Compiler [],
      node ''human_review'' ''review'' ''Human Review'' [''instructions'']
        [(''draft'', input_port [''draft.telegram_revision_ref''] True REVIEWABLE_INPUT)]
        [(''approved'', output_port [''draft.approved_telegram_revision_ref''] APPROVED_OUTPUT)] False False Existing Api [],
      node ''save_drafts'' ''output'' ''Save to Drafts'' []
        [(''drafts'', input_port ANY_DRAFT_SET True DRAFT_INPUT)] [] False True Existing Compiler [],
      node ''manual_package'' ''output'' ''Manual publishing package'' [''platforms'']
        [(''drafts'', input_port DRAFT_SET True DRAFT_INPUT)]
        [(''package'', output_port [''export.manual_package_ref''] PRESERVE_DRAFT_OUTPUT)] False True Existing Generation
        [''build_export''],
      node ''telegram_publish'' ''output'' ''Publish to Telegram'' [''destination_id'', ''quiet_hours'', ''retry_policy'']
        [(''draft'', input_port [''draft.approved_telegram_revision_ref''] True APPROVED_DRAFT_INPUT)]
        [(''publication'', output_port [''publication.telegram_ref''] PUBLICATION_OUTPUT)] False True Existing Publishing
        [''telegram.publish'']]"

definition NODE_REGISTRY :: "(string \<times> node_definition) list" where
  "NODE_REGISTRY = map (\<lambda>d. (nd_type d, d)) node_definitions"

definition node_type_def :: "string \<Rightarrow> node_definition option" where
  "node_type_def ty = map_of NODE_REGISTRY ty"

lemma node_type_def_type: "node_type_def ty = Some d \<Longrightarrow> nd_type d = ty \<and> d \<in> set node_definitions"
  by (auto simp: node_type_def_def NODE_REGISTRY_def dest!: map_of_SomeD)

end
