(* ===== verification/Graph_Search.thy ===== *)
theory Graph_Search
  imports Prelude "HOL-Library.Product_Lexorder"
begin

text \<open>
  The two graph traversals of \<open>app/automations/definitions/validation.py\<close>: the breadth-first
  loop behind \<open>_ancestors\<close> and the reachability check, and the depth-first \<open>_cycle_nodes\<close>.  The
  \<open>defaultdict(list)\<close> of successors is the list of its (key, item) insertions in order.
\<close>

type_synonym links = "(string \<times> string) list"

definition succs :: "links \<Rightarrow> string \<Rightarrow> string list" where
  "succs links n = map snd (filter (\<lambda>l. fst l = n) links)"

lemma in_succs: "b \<in> set (succs links a) \<longleftrightarrow> (a, b) \<in> set links"
  by (force simp: succs_def)

section \<open>Breadth-first search\<close>

text \<open>The loop: a candidate already found, or not admitted, is skipped.\<close>

function reach_loop :: "links \<Rightarrow> (string \<Rightarrow> bool) \<Rightarrow> string list \<Rightarrow> string list \<Rightarrow> string list" where
  "reach_loop links ok [] found = found"
| "reach_loop links ok (c # queue) found =
     (if c \<in> set found \<or> \<not> ok c then reach_loop links ok queue found
      else reach_loop links ok (queue @ succs links c) (c # found))"
  by pat_completeness auto
termination
proof (relation "measures [\<lambda>(links, ok, queue, found). card ((set queue \<union> snd ` set links) - set found),
                           \<lambda>(links, ok, queue, found). length queue]", simp)
  fix links :: links and ok :: "string \<Rightarrow> bool" and c :: string and queue found :: "string list"
  assume "c \<in> set found \<or> \<not> ok c"
  have "card ((set queue \<union> snd ` set links) - set found) \<le> card ((set (c # queue) \<union> snd ` set links) - set found)"
    by (rule card_mono) auto
  then show "((links, ok, queue, found), links, ok, c # queue, found)
      \<in> measures [\<lambda>(links, ok, queue, found). card ((set queue \<union> snd ` set links) - set found),
                  \<lambda>(links, ok, queue, found). length queue]"
    by (simp add: le_less)
next
  fix links :: links and ok :: "string \<Rightarrow> bool" and c :: string and queue found :: "string list"
  assume new: "\<not> (c \<in> set found \<or> \<not> ok c)"
  have "set (succs links c) \<subseteq> snd ` set links" by (auto simp: succs_def)
  with new have "(set (queue @ succs links c) \<union> snd ` set links) - set (c # found) \<subset>
      (set (c # queue) \<union> snd ` set links) - set found" by auto
  then have "card ((set (queue @ succs links c) \<union> snd ` set links) - set (c # found)) <
      card ((set (c # queue) \<union> snd ` set links) - set found)"
    by (intro psubset_card_mono) auto
  then show "((links, ok, queue @ succs links c, c # found), links, ok, c # queue, found)
      \<in> measures [\<lambda>(links, ok, queue, found). card ((set queue \<union> snd ` set links) - set found),
                  \<lambda>(links, ok, queue, found). length queue]"
    by simp
qed

declare reach_loop.simps [simp del]

text \<open>One admitted step, and what can be reached from a start node.\<close>

definition ok_step :: "links \<Rightarrow> (string \<Rightarrow> bool) \<Rightarrow> string \<Rightarrow> string \<Rightarrow> bool" where
  "ok_step links ok a b = ((a, b) \<in> set links \<and> ok b)"

definition ok_reach :: "links \<Rightarrow> (string \<Rightarrow> bool) \<Rightarrow> string \<Rightarrow> string \<Rightarrow> bool" where
  "ok_reach links ok s v = (ok s \<and> (ok_step links ok)\<^sup>*\<^sup>* s v)"

lemma ok_reach_step: "ok c \<Longrightarrow> (c, s) \<in> set links \<Longrightarrow> ok_reach links ok s v \<Longrightarrow> ok_reach links ok c v"
  by (auto simp: ok_reach_def ok_step_def intro: converse_rtranclp_into_rtranclp)

lemma reach_loop_sound:
  "v \<in> set (reach_loop links ok queue found) \<Longrightarrow> v \<in> set found \<or> (\<exists>s\<in>set queue. ok_reach links ok s v)"
proof (induction links ok queue found rule: reach_loop.induct)
  case (2 links ok c queue found)
  show ?case
  proof (cases "c \<in> set found \<or> \<not> ok c")
    case False
    then have "v \<in> set (c # found) \<or> (\<exists>s\<in>set (queue @ succs links c). ok_reach links ok s v)"
      using 2 by (simp add: reach_loop.simps)
    then show ?thesis
    proof (elim disjE bexE)
      fix s assume "s \<in> set (queue @ succs links c)" "ok_reach links ok s v"
      then show ?thesis using False ok_reach_step [of ok c s links v] by (auto simp: in_succs)
    qed (use False in \<open>auto simp: ok_reach_def\<close>)
  qed (use 2 in \<open>auto simp: reach_loop.simps\<close>)
qed (simp add: reach_loop.simps)

lemma reach_loop_found: "set found \<subseteq> set (reach_loop links ok queue found)"
  by (induction links ok queue found rule: reach_loop.induct) (auto simp: reach_loop.simps)

lemma reach_loop_queue: "c \<in> set queue \<Longrightarrow> ok c \<Longrightarrow> c \<in> set (reach_loop links ok queue found)"
proof (induction links ok queue found rule: reach_loop.induct)
  case (2 links ok d queue found)
  then show ?case
    using reach_loop_found [of found links ok queue] reach_loop_found [of "d # found" links ok "queue @ succs links d"]
    by (auto simp: reach_loop.simps)
qed simp

lemma reach_loop_closed:
  assumes "\<forall>x\<in>set found. \<forall>y. (x, y) \<in> set links \<and> ok y \<longrightarrow> y \<in> set found \<union> set queue"
    and "x \<in> set (reach_loop links ok queue found)" "(x, y) \<in> set links" "ok y"
  shows "y \<in> set (reach_loop links ok queue found)"
  using assms
proof (induction links ok queue found rule: reach_loop.induct)
  case (2 links ok c queue found)
  show ?case
  proof (cases "c \<in> set found \<or> \<not> ok c")
    case True
    then show ?thesis using 2 by (auto simp: reach_loop.simps)
  next
    case False
    have "\<forall>x\<in>set (c # found). \<forall>y. (x, y) \<in> set links \<and> ok y \<longrightarrow>
        y \<in> set (c # found) \<union> set (queue @ succs links c)"
      using "2.prems"(1) by (auto simp: in_succs)
    with False 2 show ?thesis by (simp add: reach_loop.simps)
  qed
qed (simp add: reach_loop.simps)

lemma reach_loop_set:
  "set (reach_loop links ok queue []) = {v. \<exists>s\<in>set queue. ok_reach links ok s v}" (is "?L = ?R")
proof
  show "?L \<subseteq> ?R" using reach_loop_sound [of _ links ok queue "[]"] by auto
  have "v \<in> ?L" if "s \<in> ?L" "(ok_step links ok)\<^sup>*\<^sup>* s v" for s v
    using that(2,1) by (induction rule: rtranclp_induct) (auto simp: ok_step_def intro: reach_loop_closed)
  moreover have "s \<in> ?L" if "s \<in> set queue" "ok s" for s using that by (rule reach_loop_queue)
  ultimately show "?R \<subseteq> ?L" by (auto simp: ok_reach_def)
qed

text \<open>\<open>_ancestors\<close> of a node in the reversed links.\<close>

definition ancestors :: "string \<Rightarrow> links \<Rightarrow> string list" where
  "ancestors n reverse = reach_loop reverse (\<lambda>c. True) (succs reverse n) []"

lemma rtranclp_ok_True: "(ok_step links (\<lambda>c. True))\<^sup>*\<^sup>* = (\<lambda>a b. (a, b) \<in> (set links)\<^sup>*)"
proof -
  have "ok_step links (\<lambda>c. True) = (\<lambda>a b. (a, b) \<in> set links)" by (auto simp: ok_step_def fun_eq_iff)
  then show ?thesis by (simp add: fun_eq_iff rtranclp_rtrancl_eq)
qed

lemma ancestors_set: "a \<in> set (ancestors n (map prod.swap links)) \<longleftrightarrow> (a, n) \<in> (set links)\<^sup>+"
proof -
  let ?r = "map prod.swap links"
  have r: "set ?r = (set links)\<inverse>" by (force simp: image_iff)
  have "s \<in> set (succs ?r n) \<longleftrightarrow> (n, s) \<in> set ?r" for s by (rule in_succs)
  then have "a \<in> set (ancestors n ?r) \<longleftrightarrow> (\<exists>s. (n, s) \<in> set ?r \<and> (s, a) \<in> (set ?r)\<^sup>*)"
    by (simp only: ancestors_def reach_loop_set ok_reach_def rtranclp_ok_True mem_Collect_eq Bex_def simp_thms)
  also have "\<dots> \<longleftrightarrow> (n, a) \<in> (set ?r)\<^sup>+" by (metis tranclD rtrancl_into_trancl2)
  also have "\<dots> \<longleftrightarrow> (a, n) \<in> (set links)\<^sup>+" unfolding r by (simp add: trancl_converse)
  finally show ?thesis .
qed

section \<open>Depth-first search for cycles\<close>

text \<open>
  The recursive \<open>visit\<close> of \<open>_cycle_nodes\<close> over the three sets it shares: the nodes being
  visited, the finished nodes (latest first), and the nodes found to lead to a cycle.  A call descends to a node
  that is not being visited, so the depth is bounded by the number of nodes and the fuel never runs out.
\<close>

type_synonym dfs_state = "string list \<times> string list \<times> string list"

fun visit :: "nat \<Rightarrow> links \<Rightarrow> string \<Rightarrow> dfs_state \<Rightarrow> dfs_state"
  and visit_children :: "nat \<Rightarrow> links \<Rightarrow> string \<Rightarrow> string list \<Rightarrow> dfs_state \<Rightarrow> dfs_state" where
  "visit 0 links n (visiting, visited, cycles) = (visiting, visited, cycles)"
| "visit (Suc fuel) links n (visiting, visited, cycles) =
     (if n \<in> set visiting then (visiting, visited, List.insert n cycles)
      else if n \<in> set visited then (visiting, visited, cycles)
      else let (visiting1, visited1, cycles1) =
                 visit_children fuel links n (succs links n) (n # visiting, visited, cycles)
           in (remove1 n visiting1, n # visited1, cycles1))"
| "visit_children fuel links n [] state = state"
| "visit_children fuel links n (child # children) state =
     (let (visiting, visited, cycles) = visit fuel links child state
      in visit_children fuel links n children
           (visiting, visited, if child \<in> set cycles then List.insert n cycles else cycles))"

fun visit_all :: "nat \<Rightarrow> links \<Rightarrow> string list \<Rightarrow> dfs_state \<Rightarrow> dfs_state" where
  "visit_all fuel links [] state = state"
| "visit_all fuel links (n # ns) state = visit_all fuel links ns (visit fuel links n state)"

definition cycle_nodes :: "links \<Rightarrow> string list \<Rightarrow> string list" where
  "cycle_nodes links node_ids = snd (snd (visit_all (length node_ids + 1) links node_ids ([], [], [])))"

text \<open>Soundness: whatever is flagged leads to a cycle.\<close>

definition leads_to_cycle :: "links \<Rightarrow> string set" where
  "leads_to_cycle links = {x. \<exists>y. (x, y) \<in> (set links)\<^sup>* \<and> (y, y) \<in> (set links)\<^sup>+}"

lemma leads_step: "(x, y) \<in> set links \<Longrightarrow> y \<in> leads_to_cycle links \<Longrightarrow> x \<in> leads_to_cycle links"
  by (auto simp: leads_to_cycle_def intro: converse_rtrancl_into_rtrancl)

lemma visit_sound:
  "\<forall>p\<in>set P. (p, n) \<in> (set links)\<^sup>+ \<Longrightarrow> set C \<subseteq> leads_to_cycle links \<Longrightarrow>
     visit fuel links n (P, V, C) = (P', V', C') \<Longrightarrow> P' = P \<and> set C' \<subseteq> leads_to_cycle links"
  "\<forall>p\<in>set P. (p, n) \<in> (set links)\<^sup>* \<Longrightarrow> set C \<subseteq> leads_to_cycle links \<Longrightarrow> set cs \<subseteq> set (succs links n) \<Longrightarrow>
     visit_children fuel links n cs (P, V, C) = (P', V', C') \<Longrightarrow> P' = P \<and> set C' \<subseteq> leads_to_cycle links"
proof (induction fuel links n "(P, V, C)" and fuel links n cs "(P, V, C)" arbitrary: P V C P' V' C' and P V C P' V' C'
    rule: visit_visit_children.induct)
  case (2 fuel links n P V C)
  show ?case
  proof (cases "n \<in> set P \<or> n \<in> set V")
    case True
    moreover have "n \<in> leads_to_cycle links" if "n \<in> set P" using 2(2) that by (auto simp: leads_to_cycle_def)
    ultimately show ?thesis using 2(3,4) by (auto split: if_splits)
  next
    case False
    obtain P1 V1 C1 where c: "visit_children fuel links n (succs links n) (n # P, V, C) = (P1, V1, C1)"
      by (metis prod.exhaust)
    have "\<forall>p\<in>set (n # P). (p, n) \<in> (set links)\<^sup>*" using 2(2) by (auto intro: trancl_into_rtrancl)
    from 2(1) [OF _ _ this 2(3) subset_refl c] False 2(4) c show ?thesis by auto
  qed
next
  case (4 fuel links n child children P V C)
  obtain P1 V1 C1 where c: "visit fuel links child (P, V, C) = (P1, V1, C1)" by (metis prod.exhaust)
  have step: "(n, child) \<in> set links" using 4(5) by (auto simp: in_succs)
  have "\<forall>p\<in>set P. (p, child) \<in> (set links)\<^sup>+" using 4(3) step by (auto intro: rtrancl_into_trancl1)
  from 4(1) [OF this 4(4) c] have 1: "P1 = P" "set C1 \<subseteq> leads_to_cycle links" by auto
  let ?C = "if child \<in> set C1 then List.insert n C1 else C1"
  have "set ?C \<subseteq> leads_to_cycle links" using 1(2) leads_step [OF step] by auto
  from 4(2) [OF c [symmetric] refl refl _ this _ _] 4(3,5,6) c 1 show ?case by (simp add: Let_def)
qed auto

text \<open>Completeness: when nothing is flagged, the finishing order is a topological order.\<close>

fun topo :: "links \<Rightarrow> string list \<Rightarrow> bool" where
  "topo links [] = True"
| "topo links (x # xs) = (set (succs links x) \<subseteq> set xs \<and> topo links xs)"

lemma insert_not_Nil [simp]: "List.insert x xs \<noteq> []"
  by (simp add: List.insert_def) (metis empty_iff list.set(1))

lemma cycles_grow:
  "visit fuel links n (P, V, C) = (P', V', []) \<Longrightarrow> C = []"
  "visit_children fuel links n cs (P, V, C) = (P', V', []) \<Longrightarrow> C = []"
proof (induction fuel links n "(P, V, C)" and fuel links n cs "(P, V, C)" arbitrary: P V C P' V' and P V C P' V'
    rule: visit_visit_children.induct)
  case (2 fuel links n P V C)
  obtain P1 V1 C1 where c: "visit_children fuel links n (succs links n) (n # P, V, C) = (P1, V1, C1)"
    by (metis prod.exhaust)
  show ?case using 2 c by (auto split: if_splits)
next
  case (4 fuel links n child children P V C)
  obtain P1 V1 C1 where c: "visit fuel links child (P, V, C) = (P1, V1, C1)" by (metis prod.exhaust)
  let ?C = "if child \<in> set C1 then List.insert n C1 else C1"
  have "visit_children fuel links n children (P1, V1, ?C) = (P', V', [])" using 4(3) c by simp
  then have "?C = []" by (rule 4(2) [OF c [symmetric] refl refl])
  then have "C1 = []" by (auto split: if_splits)
  then show ?case using 4(1) c by simp
qed auto

lemma visit_topo:
  "distinct P \<Longrightarrow> set P \<subseteq> U \<Longrightarrow> finite U \<Longrightarrow> n \<in> U \<Longrightarrow> card U < length P + fuel \<Longrightarrow> snd ` set links \<subseteq> U \<Longrightarrow>
     topo links V \<Longrightarrow> visit fuel links n (P, V, C) = (P', V', []) \<Longrightarrow>
     P' = P \<and> C = [] \<and> n \<in> set V' \<and> set V \<subseteq> set V' \<and> topo links V'"
  "distinct P \<Longrightarrow> set P \<subseteq> U \<Longrightarrow> finite U \<Longrightarrow> set cs \<subseteq> U \<Longrightarrow> card U < length P + fuel \<Longrightarrow> snd ` set links \<subseteq> U \<Longrightarrow>
     topo links V \<Longrightarrow> visit_children fuel links n cs (P, V, C) = (P', V', []) \<Longrightarrow>
     P' = P \<and> C = [] \<and> set cs \<subseteq> set V' \<and> set V \<subseteq> set V' \<and> topo links V'"
proof (induction fuel links n "(P, V, C)" and fuel links n cs "(P, V, C)" arbitrary: P V C P' V' and P V C P' V'
    rule: visit_visit_children.induct)
  case (1 links n P V C)
  then have "length P \<le> card U" by (metis card_mono distinct_card)
  with 1 show ?case by simp
next
  case (2 fuel links n P V C)
  show ?case
  proof (cases "n \<in> set P \<or> n \<in> set V")
    case True
    then show ?thesis using 2(8,9) by (auto split: if_splits)
  next
    case False
    obtain P1 V1 C1 where c: "visit_children fuel links n (succs links n) (n # P, V, C) = (P1, V1, C1)"
      by (metis prod.exhaust)
    have "C1 = []" "P' = remove1 n P1" "V' = n # V1" using 2(9) c False by auto
    moreover have "set (succs links n) \<subseteq> U" using 2(7) by (force simp: in_succs)
    ultimately show ?thesis using 2(1) [of P1 V1] 2(2-8) False c by auto
  qed
next
  case (4 fuel links n child children P V C)
  obtain P1 V1 C1 where c: "visit fuel links child (P, V, C) = (P1, V1, C1)" by (metis prod.exhaust)
  let ?C = "if child \<in> set C1 then List.insert n C1 else C1"
  have rest: "visit_children fuel links n children (P1, V1, ?C) = (P', V', [])" using 4(10) c by simp
  have "?C = []" using cycles_grow(2) [OF rest] .
  then have C1: "C1 = []" by (auto split: if_splits)
  then have 1: "P1 = P \<and> C = [] \<and> child \<in> set V1 \<and> set V \<subseteq> set V1 \<and> topo links V1"
    using 4(1) [of P1 V1] 4(3-9) c by simp
  with 4(2) [OF c [symmetric] refl refl _ _ _ _ _ _ _ rest] 4(3-9) show ?case by auto
qed auto

definition acyclic_links :: "links \<Rightarrow> bool" where
  "acyclic_links links = (\<forall>x. (x, x) \<notin> (set links)\<^sup>+)"

lemma topo_path:
  assumes "topo links V" "(x, y) \<in> (set links)\<^sup>+" "V = us @ x # vs"
  shows "y \<in> set vs"
  using assms(2)
proof (induction rule: trancl_induct)
  have tail: "topo links (us @ vs) \<Longrightarrow> topo links vs" for us vs by (induction us) auto
  have "topo links (x # vs)" using assms(1,3) tail [of us "x # vs"] by simp
  then have closed: "set (succs links x) \<subseteq> set vs" "topo links vs" by auto
  have "z \<in> set vs" if "topo links vs" "y \<in> set vs" "(y, z) \<in> set links" for vs y z
    using that by (induction vs) (auto simp: in_succs)
  with closed show "\<And>y z. (x, y) \<in> (set links)\<^sup>+ \<Longrightarrow> (y, z) \<in> set links \<Longrightarrow> y \<in> set vs \<Longrightarrow> z \<in> set vs" by blast
  from closed(1) show "\<And>y. (x, y) \<in> set links \<Longrightarrow> y \<in> set vs" by (auto simp: in_succs)
qed

lemma topo_acyclic:
  assumes "topo links V" "x \<in> set V"
  shows "(x, x) \<notin> (set links)\<^sup>+"
proof
  assume "(x, x) \<in> (set links)\<^sup>+"
  moreover obtain us vs where "V = us @ x # vs" "x \<notin> set vs" using assms(2) by (metis split_list_last)
  ultimately show False using topo_path [OF assms(1)] by blast
qed

lemma visit_all_sound:
  "set C \<subseteq> leads_to_cycle links \<Longrightarrow> visit_all fuel links ns ([], V, C) = (P', V', C') \<Longrightarrow>
     P' = [] \<and> set C' \<subseteq> leads_to_cycle links"
proof (induction ns arbitrary: V C)
  case (Cons n ns)
  obtain P1 V1 C1 where v: "visit fuel links n ([], V, C) = (P1, V1, C1)" by (metis prod.exhaust)
  from visit_sound(1) [OF _ Cons.prems(1) v] have "P1 = []" "set C1 \<subseteq> leads_to_cycle links" by auto
  with Cons v show ?case by simp
qed auto

lemma visit_all_grow: "visit_all fuel links ns (P, V, C) = (P', V', []) \<Longrightarrow> C = []"
proof (induction ns arbitrary: P V C)
  case (Cons n ns)
  obtain P1 V1 C1 where v: "visit fuel links n (P, V, C) = (P1, V1, C1)" by (metis prod.exhaust)
  with Cons have "C1 = []" by simp
  with v cycles_grow(1) show ?case by simp
qed simp

lemma visit_all_topo:
  "finite U \<Longrightarrow> set ns \<subseteq> U \<Longrightarrow> card U < fuel \<Longrightarrow> snd ` set links \<subseteq> U \<Longrightarrow> topo links V \<Longrightarrow>
     visit_all fuel links ns ([], V, C) = (P', V', []) \<Longrightarrow> topo links V' \<and> set V \<subseteq> set V' \<and> set ns \<subseteq> set V'"
proof (induction ns arbitrary: V C)
  case (Cons n ns)
  obtain P1 V1 C1 where v: "visit fuel links n ([], V, C) = (P1, V1, C1)" by (metis prod.exhaust)
  with Cons.prems have rest: "visit_all fuel links ns (P1, V1, C1) = (P', V', [])" by simp
  then have C1: "C1 = []" by (rule visit_all_grow)
  have "P1 = [] \<and> C = [] \<and> n \<in> set V1 \<and> set V \<subseteq> set V1 \<and> topo links V1"
    using visit_topo(1) [of "[]" U n fuel links V C P1 V1] Cons.prems v C1 by simp
  with Cons.IH [of V1 C1] Cons.prems rest show ?case by auto
qed simp

text \<open>\<open>_cycle_nodes\<close> is empty exactly for the acyclic graphs, whatever the order of the nodes.\<close>

lemma cycle_nodes_empty:
  assumes "\<forall>(a, b)\<in>set links. a \<in> set ids \<and> b \<in> set ids"
  shows "cycle_nodes links ids = [] \<longleftrightarrow> acyclic_links links"
proof -
  obtain P V C where v: "visit_all (length ids + 1) links ids ([], [], []) = (P, V, C)" by (metis prod.exhaust)
  then have c: "cycle_nodes links ids = C" by (simp add: cycle_nodes_def)
  have "(x, x) \<notin> (set links)\<^sup>+" if "C = []" for x
  proof
    assume "(x, x) \<in> (set links)\<^sup>+"
    then obtain y where "(x, y) \<in> set links" by (metis tranclD)
    then have "x \<in> set ids" using assms by auto
    moreover have "snd ` set links \<subseteq> set ids" using assms by auto
    then have "topo links V \<and> set ids \<subseteq> set V"
      using visit_all_topo [of "set ids" ids "length ids + 1" links "[]" "[]" P V] v that card_length [of ids] by simp
    ultimately show False using topo_acyclic \<open>(x, x) \<in> (set links)\<^sup>+\<close> by blast
  qed
  moreover have "C = []" if "acyclic_links links"
  proof -
    have "leads_to_cycle links = {}" using that by (auto simp: leads_to_cycle_def acyclic_links_def)
    with visit_all_sound [of "[]" links "length ids + 1" ids "[]" P V C] v show ?thesis by simp
  qed
  ultimately show ?thesis by (auto simp: c acyclic_links_def)
qed

end
