(* ===== verification/Graph_Validation.thy ===== *)
theory Graph_Validation
  imports Node_Registry Graph_Search
begin

text \<open>
  Workflow graphs and their validation, \<open>app/automations/definitions/schemas.py\<close> and
  \<open>validation.py\<close>.  Two parts of the program's environment are arguments: the schema library's
  verdict on a node's configuration, \<open>parse type config\<close>, which gives its errors or the dumped values,
  and the hash of the canonical graph text.
\<close>

section \<open>Graphs and findings\<close>

record workflow_node =
  wn_id :: string
  wn_type :: string
  wn_config :: pydict

record workflow_edge =
  wd_source_node_id :: string
  wd_source_port :: string
  wd_target_node_id :: string
  wd_target_port :: string

record workflow_graph =
  wg_entry_node_id :: string
  wg_nodes :: "workflow_node list"
  wg_edges :: "workflow_edge list"
  wg_output_node_ids :: "string list"
  wg_layout :: "string list" \<comment> \<open>the node ids of \<open>metadata.layout\<close>\<close>

text \<open>The checks the schema classes make on a whole graph.\<close>

definition graph_schema_ok :: "workflow_graph \<Rightarrow> bool" where
  "graph_schema_ok g =
     (length (wg_nodes g) \<le> 30 \<and> length (wg_edges g) \<le> 60 \<and> length (wg_output_node_ids g) \<le> 30 \<and>
      distinct (wg_output_node_ids g) \<and>
      (wg_nodes g = [] \<longrightarrow> wg_entry_node_id g = [] \<and> wg_edges g = [] \<and> wg_output_node_ids g = [] \<and> wg_layout g = []))"

datatype severity = Error | Warning

record finding =
  vf_code :: string
  vf_severity :: severity
  vf_message :: string
  vf_node_id :: "string option"
  vf_edge_index :: "nat option"
  vf_field_path :: "string option"
  vf_recovery_action :: "string option"

record validation_result =
  vr_valid :: bool
  vr_graph_hash :: string
  vr_findings :: "finding list"

definition mk_finding ::
  "string \<Rightarrow> string \<Rightarrow> string option \<Rightarrow> nat option \<Rightarrow> string option \<Rightarrow> string \<Rightarrow> severity \<Rightarrow> finding" where
  "mk_finding code message n e path action sev =
     \<lparr>vf_code = code, vf_severity = sev, vf_message = message, vf_node_id = n, vf_edge_index = e,
      vf_field_path = path, vf_recovery_action = Some action\<rparr>"

definition is_error :: "finding \<Rightarrow> bool" where
  "is_error f = (vf_severity f = Error)"

section \<open>Node configurations\<close>

definition FORBIDDEN_CONFIG_KEYS :: "string list" where
  "FORBIDDEN_CONFIG_KEYS =
     [''api_key'', ''authorization'', ''credential'', ''credentials'', ''environment'', ''filesystem'', ''job_type'',
      ''password'', ''prompt_body'', ''roles'', ''scope'', ''scopes'', ''secret'', ''secret_ref'', ''system_template'',
      ''token'', ''user_template'']"

definition REQUIRED_RESOURCE_FIELDS :: "(string \<times> string list) list" where
  "REQUIRED_RESOURCE_FIELDS =
     [(''manual'', [''story_revision_id'']),
      (''collection_article_added'', [''collection_id'']),
      (''new_source_item'', [''source_ids'']),
      (''research'', [''provider_profile_id'']),
      (''generate_content_pack'', [''editorial_profile_id'', ''provider_profile_id'', ''prompt_version_ids'']),
      (''telegram_publish'', [''destination_id''])]"

fun key_text :: "pykey \<Rightarrow> string" where
  "key_text (KStr s) = s"
| "key_text (KObj t) = t"

definition forbidden_key :: "string \<Rightarrow> bool" where
  "forbidden_key raw =
     (let key = lower raw in key \<in> set FORBIDDEN_CONFIG_KEYS \<or> ends_with ''_secret'' key \<or>
        ends_with ''_token'' key \<or> ends_with ''_api_key'' key)"

fun forbidden_paths :: "pyval \<Rightarrow> string \<Rightarrow> string list"
  and forbidden_items :: "pydict \<Rightarrow> string \<Rightarrow> string list"
  and forbidden_list :: "pyval list \<Rightarrow> nat \<Rightarrow> string \<Rightarrow> string list" where
  "forbidden_paths (PDict d) prefix = forbidden_items d prefix"
| "forbidden_paths (PList xs) prefix = forbidden_list xs 0 prefix"
| "forbidden_paths (PStr s) prefix = (if starts_with ''bearer '' (lower s) then [prefix] else [])"
| "forbidden_paths _ prefix = []"
| "forbidden_items [] prefix = []"
| "forbidden_items ((k, v) # d) prefix =
     (let path = prefix @ ''.'' @ key_text k in
      (if forbidden_key (key_text k) then [path] else []) @ forbidden_paths v path @ forbidden_items d prefix)"
| "forbidden_list [] i prefix = []"
| "forbidden_list (x # xs) i prefix =
     forbidden_paths x (prefix @ ''.'' @ nat_str i) @ forbidden_list xs (Suc i) prefix"

definition display_config_path :: "string \<Rightarrow> string" where
  "display_config_path p = (if starts_with ''config.'' p then ''configuration.'' @ drop 7 p else p)"

text \<open>
  An error of the schema library: its location, type and message, and the bound its context names.
\<close>

record config_error =
  ce_loc :: "string list"
  ce_type :: string
  ce_msg :: string
  ce_min_length :: "int option"
  ce_max_length :: "int option"

fun word_char :: "char \<Rightarrow> bool" where
  "word_char c = (let n = (of_char c :: nat) in
     (48 \<le> n \<and> n \<le> 57) \<or> (65 \<le> n \<and> n \<le> 90) \<or> (97 \<le> n \<and> n \<le> 122) \<or> c = CHR ''_'')"

text \<open>\<open>re.search\<close> of a field name between word boundaries.\<close>

fun word_search :: "string \<Rightarrow> bool \<Rightarrow> string \<Rightarrow> bool" where
  "word_search w before [] = False"
| "word_search w before (c # cs) =
     ((\<not> before \<and> starts_with w (c # cs) \<and>
        (case drop (length w) (c # cs) of [] \<Rightarrow> True | d # ds \<Rightarrow> \<not> word_char d)) \<or>
      word_search w (word_char c) cs)"

fun join_dots :: "string list \<Rightarrow> string" where
  "join_dots [] = []"
| "join_dots [s] = s"
| "join_dots (s # ss) = s @ ''.'' @ join_dots ss"

definition error_field_path :: "node_definition \<Rightarrow> config_error \<Rightarrow> string" where
  "error_field_path d e =
     (if ce_loc e \<noteq> [] then ''config.'' @ join_dots (ce_loc e)
      else case find (\<lambda>f. word_search f False (ce_msg e)) (nd_config_fields d) of
             Some f \<Rightarrow> ''config.'' @ f
           | None \<Rightarrow> ''config'')"

definition bound_text :: "int option \<Rightarrow> string \<Rightarrow> string" where
  "bound_text b dflt = (case b of None \<Rightarrow> dflt @ '' items.'' | Some n \<Rightarrow>
     int_str n @ '' item'' @ (if n \<noteq> 1 then ''s'' else []) @ ''.'')"

definition schema_error_message :: "node_definition \<Rightarrow> string \<Rightarrow> config_error \<Rightarrow> string" where
  "schema_error_message d path e =
     nd_display_name d @ '': '' @ display_config_path path @ '' '' @
     (if ce_type e = ''missing'' then ''is required.''
      else if ce_type e = ''extra_forbidden'' then ''is not supported.''
      else if ce_type e = ''too_short'' then
        ''must contain at least '' @ bound_text (ce_min_length e) ''the minimum number of''
      else if ce_type e = ''too_long'' then
        ''must contain at most '' @ bound_text (ce_max_length e) ''the maximum number of''
      else ''is invalid.'')"

type_synonym config_parser = "string \<Rightarrow> pydict \<Rightarrow> config_error list + pydict"

definition missing_resource :: "pydict \<Rightarrow> string \<Rightarrow> bool" where
  "missing_resource values field =
     (case dict_get values field of
        None \<Rightarrow> True
      | Some v \<Rightarrow> v = PNone \<or> v = PList [] \<or> v = PStr [])"

definition validate_node_config :: "config_parser \<Rightarrow> string \<Rightarrow> string \<Rightarrow> pydict \<Rightarrow> finding list" where
  "validate_node_config parse node_id node_type config =
     (case node_type_def node_type of
        None \<Rightarrow>
          [mk_finding ''node_type_unsupported'' ''Saved workflow contains a node type that is not supported anymore.''
             (Some node_id) None (Some ''type'')
             ''Remove this step explicitly; replacement is not applied automatically.'' Error]
      | Some d \<Rightarrow>
          map (\<lambda>path. mk_finding ''node_config_invalid''
                 (nd_display_name d @ '': '' @ display_config_path path @ '' is not supported.'')
                 (Some node_id) None (Some path) ''Remove the field and select a saved resource by ID.'' Error)
            (forbidden_paths (PDict config) ''config'') @
          (case parse node_type config of
             Inl errors \<Rightarrow>
               map (\<lambda>e. let path = error_field_path d e in
                      mk_finding ''node_config_invalid'' (schema_error_message d path e) (Some node_id) None (Some path)
                        ''Correct the highlighted field.'' Error) errors
           | Inr values \<Rightarrow>
               map (\<lambda>field. mk_finding ''automation_resource_unavailable''
                      (nd_display_name d @ '': configuration.'' @ field @ '' is required.'') (Some node_id) None
                      (Some (''config.'' @ field)) ''Select a saved resource.'' Error)
                 (filter (missing_resource values)
                    (case map_of REQUIRED_RESOURCE_FIELDS node_type of None \<Rightarrow> [] | Some fs \<Rightarrow> fs))))"

definition SAVE_BLOCKING_CODES :: "string list" where
  "SAVE_BLOCKING_CODES =
     [''edge_cardinality_invalid'', ''edge_port_invalid'', ''graph_cycle'', ''graph_entry_invalid'',
      ''graph_output_invalid'', ''graph_unreachable_node'', ''node_config_invalid'', ''node_type_unsupported'']"

definition save_blocking_findings :: "validation_result \<Rightarrow> finding list" where
  "save_blocking_findings r = filter (\<lambda>f. vf_code f \<in> set SAVE_BLOCKING_CODES) (vr_findings r)"

section \<open>Artifact shapes along the graph\<close>

definition nodes_by_id :: "workflow_graph \<Rightarrow> string \<Rightarrow> workflow_node option" where
  "nodes_by_id g i = map_of (rev (map (\<lambda>n. (wn_id n, n)) (wg_nodes g))) i"

definition node_def_of :: "workflow_graph \<Rightarrow> string \<Rightarrow> node_definition option" where
  "node_def_of g i = (case nodes_by_id g i of None \<Rightarrow> None | Some n \<Rightarrow> node_type_def (wn_type n))"

type_synonym shape_cache = "((string \<times> string) \<times> artifact_shape) list"

definition incoming :: "workflow_graph \<Rightarrow> string \<Rightarrow> workflow_edge list" where
  "incoming g i = filter (\<lambda>e. wd_target_node_id e = i) (wg_edges g)"

definition source_keys :: "workflow_graph \<Rightarrow> (string \<times> string) set" where
  "source_keys g = set (map (\<lambda>e. (wd_source_node_id e, wd_source_port e)) (wg_edges g))"

definition legacy_shape :: "string list \<Rightarrow> artifact_shape" where
  "legacy_shape types =
     (case filter as_known (map legacy_artifact_shape types) of [s] \<Rightarrow> s | _ \<Rightarrow> unknown_shape)"

function output_shape ::
  "workflow_graph \<Rightarrow> string \<Rightarrow> string \<Rightarrow> shape_cache \<Rightarrow> (string \<times> string) list \<Rightarrow> artifact_shape \<times> shape_cache" where
  "output_shape g node_id port_name cache visiting =
     (case map_of cache (node_id, port_name) of
        Some shape \<Rightarrow> (shape, cache)
      | None \<Rightarrow>
          if (node_id, port_name) \<in> set visiting then (unknown_shape, cache)
          else case node_def_of g node_id of
            None \<Rightarrow> (unknown_shape, cache)
          | Some d \<Rightarrow>
              (case map_of (nd_outputs d) port_name of
                 None \<Rightarrow> (unknown_shape, cache)
               | Some port \<Rightarrow>
                   (case or_else (pd_output_contract port) (nd_output_contract d) of
                      None \<Rightarrow>
                        let shape = legacy_shape (pd_artifact_types port)
                        in (shape, ((node_id, port_name), shape) # cache)
                    | Some c \<Rightarrow>
                        (case incoming g node_id of
                           [e] \<Rightarrow>
                             let (upstream, cache1) = output_shape g (wd_source_node_id e) (wd_source_port e) cache
                                                        ((node_id, port_name) # visiting);
                                 shape = shape_for_output_contract (Some c) (Some upstream)
                             in (shape, ((node_id, port_name), shape) # cache1)
                         | _ \<Rightarrow>
                             let shape = shape_for_output_contract (Some c) None
                             in (shape, ((node_id, port_name), shape) # cache)))))"
  by pat_completeness auto
termination
proof (relation "measure (\<lambda>(g, n, p, cache, visiting).
    card (source_keys g - set visiting) + (if (n, p) \<in> source_keys g then 0 else 1))", simp)
  fix g n and p :: string and visiting and e :: workflow_edge and es and cache :: shape_cache
  assume new: "(n, p) \<notin> set visiting" and "incoming g n = e # es"
  then have "e \<in> set (incoming g n)" by simp
  then have "e \<in> set (wg_edges g)" by (simp add: incoming_def)
  then have key: "(wd_source_node_id e, wd_source_port e) \<in> source_keys g" by (auto simp: source_keys_def)
  have fin: "finite (source_keys g)" by (simp add: source_keys_def)
  have "card (source_keys g - insert (n, p) (set visiting)) <
      card (source_keys g - set visiting) + (if (n, p) \<in> source_keys g then 0 else 1)"
  proof (cases "(n, p) \<in> source_keys g")
    case True
    then have "source_keys g - insert (n, p) (set visiting) \<subset> source_keys g - set visiting" using new by auto
    then show ?thesis using True fin by (simp add: psubset_card_mono)
  next
    case False
    then have "source_keys g - insert (n, p) (set visiting) = source_keys g - set visiting" by auto
    then show ?thesis using False by simp
  qed
  then show "((g, wd_source_node_id e, wd_source_port e, cache, (n, p) # visiting), g, n, p, cache, visiting)
      \<in> measure (\<lambda>(g, n, p, cache, visiting).
          card (source_keys g - set visiting) + (if (n, p) \<in> source_keys g then 0 else 1))"
    using key by simp
qed

declare output_shape.simps [simp del]

definition edge_compatibility ::
  "workflow_graph \<Rightarrow> workflow_edge \<Rightarrow> shape_cache \<Rightarrow> compatibility \<times> shape_cache" where
  "edge_compatibility g e cache =
     (case (node_def_of g (wd_source_node_id e), node_def_of g (wd_target_node_id e)) of
        (Some sd, Some td) \<Rightarrow>
          (case (map_of (nd_outputs sd) (wd_source_port e), map_of (nd_inputs td) (wd_target_port e)) of
             (Some sp, Some tp) \<Rightarrow>
               let (shape, cache1) = output_shape g (wd_source_node_id e) (wd_source_port e) cache []
               in (match_input_contract shape (or_else (pd_input_contract tp) (nd_input_contract td)), cache1)
           | _ \<Rightarrow> (Incompatible, cache))
      | _ \<Rightarrow> (Incompatible, cache))"

section \<open>The edge pass\<close>

text \<open>
  What the loop over the edges accumulates.  A \<open>Counter\<close> is the list of its increments; the
  adjacency and its reverse are one list of accepted links.
\<close>

record edge_pass =
  ep_findings :: "finding list"
  ep_keys :: "(string \<times> string \<times> string \<times> string) list"
  ep_links :: links
  ep_inputs :: "(string \<times> string) list"
  ep_outputs :: "(string \<times> string) list"
  ep_cache :: shape_cache

definition edge_key :: "workflow_edge \<Rightarrow> string \<times> string \<times> string \<times> string" where
  "edge_key e = (wd_source_node_id e, wd_source_port e, wd_target_node_id e, wd_target_port e)"

definition report :: "finding \<Rightarrow> edge_pass \<Rightarrow> edge_pass" where
  "report f s = s\<lparr>ep_findings := ep_findings s @ [f]\<rparr>"

definition accept_edge :: "workflow_edge \<Rightarrow> edge_pass \<Rightarrow> edge_pass" where
  "accept_edge e s =
     s\<lparr>ep_links := ep_links s @ [(wd_source_node_id e, wd_target_node_id e)],
       ep_inputs := (wd_target_node_id e, wd_target_port e) # ep_inputs s,
       ep_outputs := (wd_source_node_id e, wd_source_port e) # ep_outputs s\<rparr>"

definition ports_declared :: "node_definition option \<Rightarrow> node_definition option \<Rightarrow> workflow_edge \<Rightarrow> bool" where
  "ports_declared sd td e =
     (case (sd, td) of
        (Some s, Some t) \<Rightarrow> wd_source_port e \<in> set (map fst (nd_outputs s)) \<and> wd_target_port e \<in> set (map fst (nd_inputs t))
      | _ \<Rightarrow> False)"

definition check_edge :: "workflow_graph \<Rightarrow> nat \<Rightarrow> workflow_edge \<Rightarrow> edge_pass \<Rightarrow> edge_pass" where
  "check_edge g i e s =
     (if edge_key e \<in> set (ep_keys s) then
        report (mk_finding ''edge_cardinality_invalid'' ''Duplicate edge is not allowed.'' None (Some i) None
                  ''Remove the duplicate connection.'' Error) s
      else let s1 = s\<lparr>ep_keys := edge_key e # ep_keys s\<rparr> in
        case (nodes_by_id g (wd_source_node_id e), nodes_by_id g (wd_target_node_id e)) of
          (Some src, Some tgt) \<Rightarrow>
            if wn_id src = wn_id tgt then
              report (mk_finding ''graph_cycle'' ''Self-connections are not allowed.'' (Some (wn_id src)) (Some i) None
                        ''Remove the self-connection.'' Error) s1
            else let sd = node_type_def (wn_type src); td = node_type_def (wn_type tgt) in
              if (case td of None \<Rightarrow> False | Some d \<Rightarrow> nd_entry d) then
                report (mk_finding ''edge_port_invalid'' ''Trigger nodes cannot receive incoming connections.''
                          (Some (wn_id tgt)) (Some i) None
                          ''Keep the trigger first and connect only from its output.'' Error) s1
              else if \<not> ports_declared sd td e then
                report (mk_finding ''edge_port_invalid'' ''Edge references an unsupported input or output port.'' None
                          (Some i) None ''Choose compatible ports from the node catalog.'' Error) s1
              else let (verdict, cache) = edge_compatibility g e (ep_cache s1); s2 = s1\<lparr>ep_cache := cache\<rparr> in
                case verdict of
                  Incompatible \<Rightarrow>
                    report (mk_finding ''edge_port_invalid''
                              ''Connected ports require incompatible artifact capabilities or kinds.'' None (Some i) None
                              ''Connect an output whose artifact contract satisfies the input contract.'' Error) s2
                | Incomplete \<Rightarrow>
                    accept_edge e (report (mk_finding ''edge_artifact_contract_incomplete''
                              ''Artifact compatibility is incomplete until an upstream artifact is available.'' None
                              (Some i) None ''Configure and run the upstream step before activation.'' Warning) s2)
                | Compatible \<Rightarrow> accept_edge e s2
        | _ \<Rightarrow>
            report (mk_finding ''edge_port_invalid'' ''Edge references a node that does not exist.'' None (Some i) None
                      ''Reconnect the edge to existing nodes.'' Error) s1)"

fun check_edges :: "workflow_graph \<Rightarrow> nat \<Rightarrow> workflow_edge list \<Rightarrow> edge_pass \<Rightarrow> edge_pass" where
  "check_edges g i [] s = s"
| "check_edges g i (e # es) s = check_edges g (Suc i) es (check_edge g i e s)"

definition no_edges :: edge_pass where
  "no_edges = \<lparr>ep_findings = [], ep_keys = [], ep_links = [], ep_inputs = [], ep_outputs = [], ep_cache = []\<rparr>"

section \<open>The whole graph\<close>

definition duplicate_node_findings :: "workflow_graph \<Rightarrow> finding list" where
  "duplicate_node_findings g =
     (let ids = map wn_id (wg_nodes g) in
      map (\<lambda>i. mk_finding ''node_config_invalid'' ''Node IDs must be unique.'' (Some i) None (Some ''id'')
             ''Assign a unique stable node ID.'' Error)
        (filter (\<lambda>i. count_list ids i > 1) (rev (remdups (rev ids)))))"

definition layout_findings :: "workflow_graph \<Rightarrow> finding list" where
  "layout_findings g =
     map (\<lambda>i. mk_finding ''node_config_invalid'' ''Layout references a node that does not exist.'' (Some i) None
            (Some (''metadata.layout.'' @ i)) ''Remove stale layout metadata.'' Error)
       (filter (\<lambda>i. nodes_by_id g i = None) (wg_layout g))"

definition is_entry_type :: "string \<Rightarrow> bool" where
  "is_entry_type ty = (case node_type_def ty of None \<Rightarrow> False | Some d \<Rightarrow> nd_entry d)"

definition entry_findings :: "workflow_graph \<Rightarrow> finding list" where
  "entry_findings g =
     (if (case nodes_by_id g (wg_entry_node_id g) of None \<Rightarrow> True | Some n \<Rightarrow> \<not> is_entry_type (wn_type n)) then
        [mk_finding ''graph_entry_invalid'' ''Graph entry must reference one supported trigger node.''
           (if wg_entry_node_id g = [] then None else Some (wg_entry_node_id g)) None (Some ''entry_node_id'')
           ''Select Manual, Collection article added, New Source Item, or Schedule as the entry.'' Error] else []) @
     (if length (filter (\<lambda>n. is_entry_type (wn_type n)) (wg_nodes g)) \<noteq> 1 then
        [mk_finding ''graph_entry_invalid'' ''Graph must contain exactly one trigger node.'' None None (Some ''nodes'')
           ''Keep one trigger and remove other trigger nodes.'' Error] else [])"

definition over_limit :: "port_definition \<Rightarrow> nat \<Rightarrow> bool" where
  "over_limit p n = (case pd_max_connections p of None \<Rightarrow> False | Some m \<Rightarrow> n > m)"

definition input_findings :: "edge_pass \<Rightarrow> string \<Rightarrow> string \<times> port_definition \<Rightarrow> finding list" where
  "input_findings s i np =
     (let (name, port) = np; n = count_list (ep_inputs s) (i, name) in
      (if pd_required port \<and> n = 0 then
         [mk_finding ''edge_cardinality_invalid'' ''Required input is not connected.'' (Some i) None
            (Some (''inputs.'' @ name)) ''Connect one compatible predecessor.'' Error] else []) @
      (if over_limit port n then
         [mk_finding ''edge_cardinality_invalid'' ''Input has too many connections.'' (Some i) None
            (Some (''inputs.'' @ name)) ''Remove extra incoming connections.'' Error] else []))"

definition output_findings :: "edge_pass \<Rightarrow> string \<Rightarrow> string \<times> port_definition \<Rightarrow> finding list" where
  "output_findings s i np =
     (let (name, port) = np; n = count_list (ep_outputs s) (i, name) in
      if over_limit port n then
        [mk_finding ''edge_cardinality_invalid'' ''Output has too many connections.'' (Some i) None
           (Some (''outputs.'' @ name)) ''Remove extra outgoing connections.'' Error] else [])"

definition port_findings :: "edge_pass \<Rightarrow> workflow_node \<Rightarrow> finding list" where
  "port_findings s n =
     (case node_type_def (wn_type n) of
        None \<Rightarrow> []
      | Some d \<Rightarrow> List.maps (input_findings s (wn_id n)) (nd_inputs d) @ List.maps (output_findings s (wn_id n)) (nd_outputs d))"

definition cycle_findings :: "string list \<Rightarrow> finding list" where
  "cycle_findings cycles =
     (case sort cycles of
        [] \<Rightarrow> []
      | c # _ \<Rightarrow> [mk_finding ''graph_cycle'' ''Workflow Graph v1 must be acyclic.'' (Some c) None None
                   ''Remove a connection from the cycle.'' Error])"

definition reachable :: "workflow_graph \<Rightarrow> links \<Rightarrow> string list" where
  "reachable g links = reach_loop links (\<lambda>c. nodes_by_id g c \<noteq> None) [wg_entry_node_id g] []"

definition unreachable_findings :: "workflow_graph \<Rightarrow> links \<Rightarrow> finding list" where
  "unreachable_findings g links =
     map (\<lambda>i. mk_finding ''graph_unreachable_node'' ''Node is not reachable from the graph entry.'' (Some i) None None
            ''Connect or remove the unreachable node.'' Error)
       (filter (\<lambda>i. i \<notin> set (reachable g links)) (sort (remdups (map wn_id (wg_nodes g)))))"

definition output_ok :: "workflow_graph \<Rightarrow> links \<Rightarrow> string \<Rightarrow> bool" where
  "output_ok g links i =
     (case node_def_of g i of None \<Rightarrow> False | Some d \<Rightarrow> nd_terminal d \<and> succs links i = [])"

definition terminal_findings :: "workflow_graph \<Rightarrow> links \<Rightarrow> finding list" where
  "terminal_findings g links =
     map (\<lambda>i. mk_finding ''graph_output_invalid'' ''Output must reference a terminal node with no successor.'' (Some i)
            None (Some ''output_node_ids'') ''Choose Save to Drafts, Manual package, or Telegram publish.'' Error)
       (filter (\<lambda>i. \<not> output_ok g links i) (wg_output_node_ids g))"

definition reviewed :: "workflow_graph \<Rightarrow> links \<Rightarrow> string \<Rightarrow> bool" where
  "reviewed g links i =
     list_ex (\<lambda>a. case nodes_by_id g a of None \<Rightarrow> False | Some n \<Rightarrow> wn_type n = ''human_review'')
       (ancestors i (map prod.swap links))"

definition review_findings :: "workflow_graph \<Rightarrow> links \<Rightarrow> finding list" where
  "review_findings g links =
     map (\<lambda>n. mk_finding ''automation_activation_invalid'' ''Telegram publication requires an exact Human Review boundary.''
            (Some (wn_id n)) None None ''Add Human Review before Telegram publish.'' Error)
       (filter (\<lambda>n. wn_type n = ''telegram_publish'' \<and> \<not> reviewed g links (wn_id n)) (wg_nodes g))"

definition graph_findings :: "config_parser \<Rightarrow> workflow_graph \<Rightarrow> finding list" where
  "graph_findings parse g =
     (let s = check_edges g 0 (wg_edges g) no_edges; links = ep_links s in
      duplicate_node_findings g @
      List.maps (\<lambda>n. validate_node_config parse (wn_id n) (wn_type n) (wn_config n)) (wg_nodes g) @
      layout_findings g @ entry_findings g @ ep_findings s @ List.maps (port_findings s) (wg_nodes g) @
      cycle_findings (cycle_nodes links (remdups (map wn_id (wg_nodes g)))) @
      unreachable_findings g links @ terminal_findings g links @ review_findings g links)"

definition validate_graph :: "config_parser \<Rightarrow> (workflow_graph \<Rightarrow> string) \<Rightarrow> workflow_graph \<Rightarrow> validation_result" where
  "validate_graph parse hash g =
     (let findings = graph_findings parse g in
      \<lparr>vr_valid = list_all (\<lambda>f. \<not> is_error f) findings, vr_graph_hash = hash g, vr_findings = findings\<rparr>)"

end
