(* ===== verification/Graph_Spec.thy ===== *)
theory Graph_Spec
  imports Graph_Validation
begin

text \<open>
  What the validation of a workflow graph decides: a declarative well-formedness of graphs, stated
  over the edges themselves, and the theorem that \<open>validate_graph\<close> accepts exactly the well-formed ones.
\<close>

section \<open>Well-formed graphs\<close>

definition graph_links :: "workflow_graph \<Rightarrow> links" where
  "graph_links g = map (\<lambda>e. (wd_source_node_id e, wd_target_node_id e)) (wg_edges g)"

text \<open>The shape an output carries, by recursion along the graph, without cache or visiting set.\<close>

inductive has_shape :: "workflow_graph \<Rightarrow> string \<Rightarrow> string \<Rightarrow> artifact_shape \<Rightarrow> bool" for g where
  no_node: "node_def_of g n = None \<Longrightarrow> has_shape g n p unknown_shape"
| no_port: "node_def_of g n = Some d \<Longrightarrow> map_of (nd_outputs d) p = None \<Longrightarrow> has_shape g n p unknown_shape"
| legacy: "node_def_of g n = Some d \<Longrightarrow> map_of (nd_outputs d) p = Some port \<Longrightarrow>
    or_else (pd_output_contract port) (nd_output_contract d) = None \<Longrightarrow>
    has_shape g n p (legacy_shape (pd_artifact_types port))"
| origin: "node_def_of g n = Some d \<Longrightarrow> map_of (nd_outputs d) p = Some port \<Longrightarrow>
    or_else (pd_output_contract port) (nd_output_contract d) = Some c \<Longrightarrow> length (incoming g n) \<noteq> 1 \<Longrightarrow>
    has_shape g n p (shape_for_output_contract (Some c) None)"
| flow: "node_def_of g n = Some d \<Longrightarrow> map_of (nd_outputs d) p = Some port \<Longrightarrow>
    or_else (pd_output_contract port) (nd_output_contract d) = Some c \<Longrightarrow> incoming g n = [e] \<Longrightarrow>
    has_shape g (wd_source_node_id e) (wd_source_port e) s \<Longrightarrow>
    has_shape g n p (shape_for_output_contract (Some c) (Some s))"

lemma has_shape_unique: "has_shape g n p s \<Longrightarrow> has_shape g n p s' \<Longrightarrow> s = s'"
proof (induction arbitrary: s' rule: has_shape.induct)
  case f: (flow n d p port c e s)
  from f.prems show ?case
  proof (cases rule: has_shape.cases)
    case g: (flow d' port' c' e' t)
    then have "e' = e" "c' = c" using f.hyps by simp_all
    with g f.IH show ?thesis by simp
  qed (use f.hyps in simp_all)
qed (erule has_shape.cases; simp)+

definition edge_admissible :: "workflow_graph \<Rightarrow> workflow_edge \<Rightarrow> bool" where
  "edge_admissible g e =
     (nodes_by_id g (wd_source_node_id e) \<noteq> None \<and> nodes_by_id g (wd_target_node_id e) \<noteq> None \<and>
      wd_source_node_id e \<noteq> wd_target_node_id e \<and>
      (case node_def_of g (wd_target_node_id e) of None \<Rightarrow> True | Some d \<Rightarrow> \<not> nd_entry d) \<and>
      ports_declared (node_def_of g (wd_source_node_id e)) (node_def_of g (wd_target_node_id e)) e)"

definition edge_contract :: "workflow_graph \<Rightarrow> workflow_edge \<Rightarrow> input_contract option" where
  "edge_contract g e =
     (case node_def_of g (wd_target_node_id e) of None \<Rightarrow> None
      | Some d \<Rightarrow> (case map_of (nd_inputs d) (wd_target_port e) of None \<Rightarrow> None
          | Some p \<Rightarrow> or_else (pd_input_contract p) (nd_input_contract d)))"

definition ports_ok :: "workflow_graph \<Rightarrow> workflow_node \<Rightarrow> bool" where
  "ports_ok g n =
     (case node_type_def (wn_type n) of None \<Rightarrow> True | Some d \<Rightarrow>
        (\<forall>(name, port)\<in>set (nd_inputs d).
           let k = count_list (map (\<lambda>e. (wd_target_node_id e, wd_target_port e)) (wg_edges g)) (wn_id n, name)
           in (pd_required port \<longrightarrow> k \<noteq> 0) \<and> \<not> over_limit port k) \<and>
        (\<forall>(name, port)\<in>set (nd_outputs d).
           \<not> over_limit port (count_list (map (\<lambda>e. (wd_source_node_id e, wd_source_port e)) (wg_edges g)) (wn_id n, name))))"

definition graph_wf :: "config_parser \<Rightarrow> workflow_graph \<Rightarrow> bool" where
  "graph_wf parse g =
     (let ids = set (map wn_id (wg_nodes g)); E = set (graph_links g) in
      distinct (map wn_id (wg_nodes g)) \<and>
      (\<forall>n\<in>set (wg_nodes g). validate_node_config parse (wn_id n) (wn_type n) (wn_config n) = [] \<and> ports_ok g n) \<and>
      set (wg_layout g) \<subseteq> ids \<and>
      (\<exists>n\<in>set (wg_nodes g). wn_id n = wg_entry_node_id g \<and> is_entry_type (wn_type n)) \<and>
      length (filter (\<lambda>n. is_entry_type (wn_type n)) (wg_nodes g)) = 1 \<and>
      distinct (map edge_key (wg_edges g)) \<and>
      (\<forall>e\<in>set (wg_edges g). edge_admissible g e \<and>
         (\<exists>s. has_shape g (wd_source_node_id e) (wd_source_port e) s \<and>
              match_input_contract s (edge_contract g e) \<noteq> Incompatible)) \<and>
      acyclic_links (graph_links g) \<and>
      (\<forall>i\<in>ids. (wg_entry_node_id g, i) \<in> E\<^sup>*) \<and>
      (\<forall>i\<in>set (wg_output_node_ids g). (\<exists>d. node_def_of g i = Some d \<and> nd_terminal d) \<and> (\<forall>j. (i, j) \<notin> E)) \<and>
      (\<forall>n\<in>set (wg_nodes g). wn_type n = ''telegram_publish'' \<longrightarrow>
         (\<exists>a\<in>set (wg_nodes g). wn_type a = ''human_review'' \<and> (wn_id a, wn_id n) \<in> E\<^sup>+)))"

section \<open>The cache does not change the shapes\<close>

definition cache_ok :: "workflow_graph \<Rightarrow> shape_cache \<Rightarrow> bool" where
  "cache_ok g cache = (\<forall>k s. map_of cache k = Some s \<longrightarrow> has_shape g (fst k) (snd k) s)"

lemma cache_ok_Nil [simp]: "cache_ok g []"
  by (simp add: cache_ok_def)

lemma cache_ok_Cons: "cache_ok g cache \<Longrightarrow> has_shape g n p s \<Longrightarrow> cache_ok g (((n, p), s) # cache)"
  by (simp add: cache_ok_def)

lemma incoming_link:
  assumes "incoming g n = [e]"
  shows "(wd_source_node_id e, n) \<in> set (graph_links g)"
proof -
  have "e \<in> set (incoming g n)" using assms by simp
  then have "e \<in> set (wg_edges g)" "wd_target_node_id e = n" by (simp_all add: incoming_def)
  then show ?thesis by (auto simp: graph_links_def)
qed

lemma output_shape_correct:
  "acyclic_links (graph_links g) \<Longrightarrow> cache_ok g cache \<Longrightarrow> \<forall>k\<in>set visiting. (n, fst k) \<in> (set (graph_links g))\<^sup>+ \<Longrightarrow>
     output_shape g n p cache visiting = (s, cache') \<Longrightarrow> has_shape g n p s \<and> cache_ok g cache'"
proof (induction g n p cache visiting arbitrary: s cache' rule: output_shape.induct)
  case (1 g n p cache visiting)
  have fresh: "(n, p) \<notin> set visiting" using "1.prems"(1,3) by (auto simp: acyclic_links_def)
  show ?case
  proof (cases "map_of cache (n, p)")
    case (Some t)
    then show ?thesis using "1.prems" by (auto simp: output_shape.simps [of g n p] cache_ok_def)
  next
    case None
    show ?thesis
    proof (cases "node_def_of g n")
      case d: (Some d)
      show ?thesis
      proof (cases "map_of (nd_outputs d) p")
        case port: (Some port)
        show ?thesis
        proof (cases "or_else (pd_output_contract port) (nd_output_contract d)")
          case c: None
          then show ?thesis using "1.prems" None d port fresh has_shape.legacy [OF d port c]
            by (auto simp: output_shape.simps [of g n p] Let_def intro: cache_ok_Cons)
        next
          case c: (Some c)
          show ?thesis
          proof (cases "length (incoming g n) = 1")
            case False
            have "s = shape_for_output_contract (Some c) None \<and> cache' = ((n, p), s) # cache"
              using "1.prems"(4) None d port c fresh False
              by (auto simp: output_shape.simps [of g n p] Let_def split: list.splits)
            with has_shape.origin [OF d port c False] "1.prems"(2) show ?thesis by (auto intro: cache_ok_Cons)
          next
            case True
            then obtain e where e: "incoming g n = [e]" by (auto simp: length_Suc_conv)
            obtain up cache1 where r: "output_shape g (wd_source_node_id e) (wd_source_port e) cache ((n, p) # visiting) = (up, cache1)"
              by force
            note link = incoming_link [OF e]
            have "\<forall>k\<in>set ((n, p) # visiting). (wd_source_node_id e, fst k) \<in> (set (graph_links g))\<^sup>+"
              using "1.prems"(3) link by (auto intro: trancl_into_trancl2)
            then have IH: "has_shape g (wd_source_node_id e) (wd_source_port e) up \<and> cache_ok g cache1"
              using "1.IH" [OF None fresh d port c e refl] "1.prems"(1,2) r by blast
            have "s = shape_for_output_contract (Some c) (Some up) \<and> cache' = ((n, p), s) # cache1"
              using "1.prems"(4) None d port c fresh e r by (auto simp: output_shape.simps [of g n p] Let_def)
            with IH has_shape.flow [OF d port c e] show ?thesis by (auto intro: cache_ok_Cons)
          qed
        qed
      qed (use "1.prems" None d fresh has_shape.no_port in \<open>auto simp: output_shape.simps [of g n p]\<close>)
    qed (use "1.prems" None fresh has_shape.no_node in \<open>auto simp: output_shape.simps [of g n p]\<close>)
  qed
qed

lemma edge_compatibility_correct:
  assumes "acyclic_links (graph_links g)" "cache_ok g cache" "edge_admissible g e"
    and "edge_compatibility g e cache = (verdict, cache')"
  shows "cache_ok g cache' \<and> (\<exists>s. has_shape g (wd_source_node_id e) (wd_source_port e) s \<and>
     verdict = match_input_contract s (edge_contract g e))"
proof -
  from assms(3) obtain sd td where d: "node_def_of g (wd_source_node_id e) = Some sd" "node_def_of g (wd_target_node_id e) = Some td"
    "wd_source_port e \<in> set (map fst (nd_outputs sd))" "wd_target_port e \<in> set (map fst (nd_inputs td))"
    by (auto simp: edge_admissible_def ports_declared_def split: option.splits)
  then obtain sp tp where p: "map_of (nd_outputs sd) (wd_source_port e) = Some sp" "map_of (nd_inputs td) (wd_target_port e) = Some tp"
    by (metis list.set_map map_of_eq_None_iff not_Some_eq)
  obtain s cache1 where s: "output_shape g (wd_source_node_id e) (wd_source_port e) cache [] = (s, cache1)" by force
  from output_shape_correct [OF assms(1,2) _ s] have "has_shape g (wd_source_node_id e) (wd_source_port e) s \<and> cache_ok g cache1"
    by simp
  moreover have "verdict = match_input_contract s (edge_contract g e)" "cache' = cache1"
    using assms(4) d p s by (simp_all add: edge_compatibility_def edge_contract_def Let_def)
  ultimately show ?thesis by blast
qed

section \<open>The edge pass accepts exactly the good edges\<close>

definition no_errors :: "finding list \<Rightarrow> bool" where
  "no_errors fs = list_all (\<lambda>f. \<not> is_error f) fs"

lemma no_errors_simps [simp]:
  "no_errors []" "no_errors (fs @ gs) = (no_errors fs \<and> no_errors gs)" "no_errors (f # fs) = (\<not> is_error f \<and> no_errors fs)"
  by (simp_all add: no_errors_def)

lemma is_error_mk [simp]: "is_error (mk_finding c m n e p a sev) = (sev = Error)"
  by (simp add: is_error_def mk_finding_def)

lemma no_errors_map: "no_errors (map (\<lambda>x. mk_finding (c x) (m x) (n x) (e x) (p x) (a x) Error) xs) \<longleftrightarrow> xs = []"
  by (cases xs) simp_all

lemma no_errors_concat: "no_errors (concat (map f xs)) \<longleftrightarrow> (\<forall>x\<in>set xs. no_errors (f x))"
  by (induction xs) simp_all

lemma nodes_by_id_Some: "nodes_by_id g i = Some n \<Longrightarrow> n \<in> set (wg_nodes g) \<and> wn_id n = i"
  unfolding nodes_by_id_def by (auto dest!: map_of_SomeD simp: rev_map [symmetric])

lemma nodes_by_id_None: "nodes_by_id g i = None \<longleftrightarrow> i \<notin> set (map wn_id (wg_nodes g))"
  by (simp add: nodes_by_id_def map_of_eq_None_iff rev_map [symmetric] image_image)

lemma nodes_by_id_in:
  assumes "distinct (map wn_id (wg_nodes g))" "n \<in> set (wg_nodes g)"
  shows "nodes_by_id g (wn_id n) = Some n"
  unfolding nodes_by_id_def
proof (rule map_of_is_SomeI)
  have "map fst (rev (map (\<lambda>n. (wn_id n, n)) (wg_nodes g))) = rev (map wn_id (wg_nodes g))" by (simp add: rev_map comp_def)
  then show "distinct (map fst (rev (map (\<lambda>n. (wn_id n, n)) (wg_nodes g))))" using assms(1) by simp
  show "(wn_id n, n) \<in> set (rev (map (\<lambda>n. (wn_id n, n)) (wg_nodes g)))" using assms(2) by simp
qed

definition edge_good :: "workflow_graph \<Rightarrow> workflow_edge \<Rightarrow> edge_pass \<Rightarrow> bool" where
  "edge_good g e s = (edge_key e \<notin> set (ep_keys s) \<and> edge_admissible g e \<and>
     fst (edge_compatibility g e (ep_cache s)) \<noteq> Incompatible)"

lemma check_edge_good:
  assumes "edge_good g e s"
  shows "no_errors (ep_findings (check_edge g i e s)) = no_errors (ep_findings s)"
    "ep_keys (check_edge g i e s) = edge_key e # ep_keys s"
    "ep_links (check_edge g i e s) = ep_links s @ [(wd_source_node_id e, wd_target_node_id e)]"
    "ep_inputs (check_edge g i e s) = (wd_target_node_id e, wd_target_port e) # ep_inputs s"
    "ep_outputs (check_edge g i e s) = (wd_source_node_id e, wd_source_port e) # ep_outputs s"
    "ep_cache (check_edge g i e s) = snd (edge_compatibility g e (ep_cache s))"
proof -
  from assms obtain src tgt where n: "nodes_by_id g (wd_source_node_id e) = Some src" "nodes_by_id g (wd_target_node_id e) = Some tgt"
    by (auto simp: edge_good_def edge_admissible_def)
  then have id: "wn_id src = wd_source_node_id e" "wn_id tgt = wd_target_node_id e" using nodes_by_id_Some by auto
  obtain verdict cache where v: "edge_compatibility g e (ep_cache s) = (verdict, cache)" by force
  have d: "node_def_of g (wd_source_node_id e) = node_type_def (wn_type src)"
    "node_def_of g (wd_target_node_id e) = node_type_def (wn_type tgt)" using n by (simp_all add: node_def_of_def)
  have c: "check_edge g i e s =
      (let s2 = s\<lparr>ep_keys := edge_key e # ep_keys s, ep_cache := cache\<rparr> in
       if verdict = Incomplete then accept_edge e (report (mk_finding ''edge_artifact_contract_incomplete''
                              ''Artifact compatibility is incomplete until an upstream artifact is available.'' None
                              (Some i) None ''Configure and run the upstream step before activation.'' Warning) s2)
       else accept_edge e s2)"
    using assms n id v d
    by (cases verdict; cases "node_type_def (wn_type tgt)")
      (simp_all add: check_edge_def edge_good_def edge_admissible_def Let_def)
  show "no_errors (ep_findings (check_edge g i e s)) = no_errors (ep_findings s)"
    "ep_keys (check_edge g i e s) = edge_key e # ep_keys s"
    "ep_links (check_edge g i e s) = ep_links s @ [(wd_source_node_id e, wd_target_node_id e)]"
    "ep_inputs (check_edge g i e s) = (wd_target_node_id e, wd_target_port e) # ep_inputs s"
    "ep_outputs (check_edge g i e s) = (wd_source_node_id e, wd_source_port e) # ep_outputs s"
    "ep_cache (check_edge g i e s) = snd (edge_compatibility g e (ep_cache s))"
    unfolding c by (simp_all add: Let_def accept_edge_def report_def v)
qed

lemma check_edge_bad:
  assumes "\<not> edge_good g e s"
  shows "\<not> no_errors (ep_findings (check_edge g i e s))"
proof (cases "edge_key e \<in> set (ep_keys s)")
  case False
  show ?thesis
  proof (cases "nodes_by_id g (wd_source_node_id e) = None \<or> nodes_by_id g (wd_target_node_id e) = None")
    case True
    then show ?thesis using False
      by (cases "nodes_by_id g (wd_source_node_id e)"; cases "nodes_by_id g (wd_target_node_id e)")
        (simp_all add: check_edge_def report_def Let_def)
  next
    case n: False
    then obtain src tgt where n: "nodes_by_id g (wd_source_node_id e) = Some src" "nodes_by_id g (wd_target_node_id e) = Some tgt"
      by auto
    then have id: "wn_id src = wd_source_node_id e" "wn_id tgt = wd_target_node_id e" using nodes_by_id_Some by auto
    obtain verdict cache where v: "edge_compatibility g e (ep_cache s) = (verdict, cache)" by force
    have d: "node_def_of g (wd_source_node_id e) = node_type_def (wn_type src)"
      "node_def_of g (wd_target_node_id e) = node_type_def (wn_type tgt)" using n by (simp_all add: node_def_of_def)
    show ?thesis
      using assms False n id v d
      by (cases verdict; cases "node_type_def (wn_type tgt)")
        (simp_all add: check_edge_def edge_good_def edge_admissible_def Let_def report_def, blast+)
  qed
qed (simp add: check_edge_def report_def)

lemma check_edge_keeps: "no_errors (ep_findings (check_edge g i e s)) \<Longrightarrow> no_errors (ep_findings s)"
  using check_edge_good(1) check_edge_bad by blast

lemma check_edges_keeps: "no_errors (ep_findings (check_edges g i es s)) \<Longrightarrow> no_errors (ep_findings s)"
  by (induction es arbitrary: i s) (auto dest: check_edge_keeps)

text \<open>Without an error every edge was accepted.\<close>

lemma check_edges_accepts:
  assumes "no_errors (ep_findings (check_edges g i es s))"
  shows "ep_links (check_edges g i es s) = ep_links s @ map (\<lambda>e. (wd_source_node_id e, wd_target_node_id e)) es \<and>
    ep_inputs (check_edges g i es s) = rev (map (\<lambda>e. (wd_target_node_id e, wd_target_port e)) es) @ ep_inputs s \<and>
    ep_outputs (check_edges g i es s) = rev (map (\<lambda>e. (wd_source_node_id e, wd_source_port e)) es) @ ep_outputs s \<and>
    distinct (map edge_key es) \<and> set (map edge_key es) \<inter> set (ep_keys s) = {} \<and> (\<forall>e\<in>set es. edge_admissible g e)"
  using assms
proof (induction es arbitrary: i s)
  case (Cons e es)
  then have "no_errors (ep_findings (check_edge g i e s))" using check_edges_keeps by simp
  then have good: "edge_good g e s" using check_edge_bad by blast
  with Cons.IH [of "Suc i" "check_edge g i e s"] Cons.prems check_edge_good [OF good, of i]
  show ?case by (auto simp: edge_good_def)
qed simp

definition edge_typed :: "workflow_graph \<Rightarrow> workflow_edge \<Rightarrow> bool" where
  "edge_typed g e = (\<exists>s. has_shape g (wd_source_node_id e) (wd_source_port e) s \<and>
     match_input_contract s (edge_contract g e) \<noteq> Incompatible)"

lemma check_edges_typed:
  assumes "acyclic_links (graph_links g)" "cache_ok g (ep_cache s)" "no_errors (ep_findings s)"
    "distinct (map edge_key es)" "set (map edge_key es) \<inter> set (ep_keys s) = {}" "\<forall>e\<in>set es. edge_admissible g e"
  shows "no_errors (ep_findings (check_edges g i es s)) \<longleftrightarrow> (\<forall>e\<in>set es. edge_typed g e)"
  using assms(2-)
proof (induction es arbitrary: i s)
  case (Cons e es)
  obtain verdict cache where v: "edge_compatibility g e (ep_cache s) = (verdict, cache)" by force
  have adm: "edge_admissible g e" using Cons.prems(5) by simp
  from edge_compatibility_correct [OF assms(1) Cons.prems(1) adm v]
  obtain t where t: "cache_ok g cache" "has_shape g (wd_source_node_id e) (wd_source_port e) t"
    "verdict = match_input_contract t (edge_contract g e)" by blast
  have typed: "edge_typed g e \<longleftrightarrow> verdict \<noteq> Incompatible"
    unfolding edge_typed_def t(3) using t(2) has_shape_unique [OF t(2)] by metis
  show ?case
  proof (cases "verdict = Incompatible")
    case True
    then have "\<not> edge_good g e s" using v by (simp add: edge_good_def)
    then have "\<not> no_errors (ep_findings (check_edge g i e s))" by (rule check_edge_bad)
    then show ?thesis using typed True check_edges_keeps [of g "Suc i" es "check_edge g i e s"] by auto
  next
    case False
    then have good: "edge_good g e s" using v adm Cons.prems(4) by (simp add: edge_good_def)
    then show ?thesis
      using Cons.IH [of "check_edge g i e s" "Suc i"] Cons.prems typed False t(1) v check_edge_good [OF good, of i] by auto
  qed
qed simp

section \<open>The other checks\<close>

lemma distinct_count: "distinct xs \<longleftrightarrow> (\<forall>x\<in>set xs. \<not> 1 < count_list xs x)"
proof (induction xs)
  case (Cons x xs)
  have "0 < count_list xs x \<longleftrightarrow> x \<in> set xs" using count_list_0_iff [of xs x] by (metis neq0_conv)
  with Cons show ?case by auto
qed simp

lemma filter_Nil: "filter P xs = [] \<longleftrightarrow> (\<forall>x\<in>set xs. \<not> P x)"
  by (simp add: filter_empty_conv)

lemma duplicate_nodes_iff: "no_errors (duplicate_node_findings g) \<longleftrightarrow> distinct (map wn_id (wg_nodes g))"
  unfolding duplicate_node_findings_def Let_def no_errors_map filter_Nil distinct_count [of "map wn_id (wg_nodes g)"]
  by (simp only: set_rev set_remdups)

lemma node_config_iff: "no_errors (validate_node_config parse i ty c) \<longleftrightarrow> validate_node_config parse i ty c = []"
  by (simp add: validate_node_config_def no_errors_map Let_def split: option.split sum.split)

lemma layout_iff: "no_errors (layout_findings g) \<longleftrightarrow> set (wg_layout g) \<subseteq> set (map wn_id (wg_nodes g))"
  unfolding layout_findings_def no_errors_map filter_Nil nodes_by_id_None by blast

lemma entry_iff:
  assumes "distinct (map wn_id (wg_nodes g))"
  shows "no_errors (entry_findings g) \<longleftrightarrow>
    (\<exists>n\<in>set (wg_nodes g). wn_id n = wg_entry_node_id g \<and> is_entry_type (wn_type n)) \<and>
    length (filter (\<lambda>n. is_entry_type (wn_type n)) (wg_nodes g)) = 1"
proof -
  have "(case nodes_by_id g (wg_entry_node_id g) of None \<Rightarrow> True | Some n \<Rightarrow> \<not> is_entry_type (wn_type n)) \<longleftrightarrow>
      \<not> (\<exists>n\<in>set (wg_nodes g). wn_id n = wg_entry_node_id g \<and> is_entry_type (wn_type n))"
  proof (cases "nodes_by_id g (wg_entry_node_id g)")
    case None
    then show ?thesis using nodes_by_id_None [of g "wg_entry_node_id g"] by force
  next
    case (Some n)
    have "m = n" if "m \<in> set (wg_nodes g)" "wn_id m = wg_entry_node_id g" for m
      using nodes_by_id_in [OF assms that(1)] that(2) Some by simp
    then show ?thesis using Some nodes_by_id_Some [OF Some] by auto
  qed
  then show ?thesis by (simp add: entry_findings_def)
qed

lemma cycle_iff: "no_errors (cycle_findings cs) \<longleftrightarrow> cs = []"
proof -
  have "sort cs = [] \<longleftrightarrow> cs = []" by (metis set_empty set_sort)
  then show ?thesis by (cases "sort cs") (simp_all add: cycle_findings_def)
qed

lemma input_iff: "no_errors (input_findings s i (name, port)) \<longleftrightarrow>
    (pd_required port \<longrightarrow> count_list (ep_inputs s) (i, name) \<noteq> 0) \<and> \<not> over_limit port (count_list (ep_inputs s) (i, name))"
  by (simp add: input_findings_def Let_def)

lemma output_iff: "no_errors (output_findings s i (name, port)) \<longleftrightarrow> \<not> over_limit port (count_list (ep_outputs s) (i, name))"
  by (simp add: output_findings_def Let_def)

lemma ports_iff:
  assumes "ep_inputs s = rev (map (\<lambda>e. (wd_target_node_id e, wd_target_port e)) (wg_edges g))"
    and "ep_outputs s = rev (map (\<lambda>e. (wd_source_node_id e, wd_source_port e)) (wg_edges g))"
  shows "no_errors (port_findings s n) \<longleftrightarrow> ports_ok g n"
proof (cases "node_type_def (wn_type n)")
  case (Some d)
  have "no_errors (port_findings s n) \<longleftrightarrow>
      (\<forall>x\<in>set (nd_inputs d). no_errors (input_findings s (wn_id n) x)) \<and>
      (\<forall>x\<in>set (nd_outputs d). no_errors (output_findings s (wn_id n) x))"
    using Some by (simp add: port_findings_def no_errors_concat)
  then show ?thesis
    using Some by (simp add: ports_ok_def assms count_list_rev split_def input_iff [of _ _ "fst x" "snd x" for x, simplified]
        output_iff [of _ _ "fst x" "snd x" for x, simplified] Let_def)
qed (simp add: port_findings_def ports_ok_def)

lemma unreachable_iff:
  "no_errors (unreachable_findings g links) \<longleftrightarrow> set (map wn_id (wg_nodes g)) \<subseteq> set (reachable g links)"
  unfolding unreachable_findings_def no_errors_map filter_Nil set_sort set_remdups by blast

lemma terminal_iff:
  "no_errors (terminal_findings g links) \<longleftrightarrow>
     (\<forall>i\<in>set (wg_output_node_ids g). (\<exists>d. node_def_of g i = Some d \<and> nd_terminal d) \<and> (\<forall>j. (i, j) \<notin> set links))"
proof -
  have "output_ok g links i \<longleftrightarrow> (\<exists>d. node_def_of g i = Some d \<and> nd_terminal d) \<and> (\<forall>j. (i, j) \<notin> set links)" for i
    using in_succs [of _ links i] by (cases "node_def_of g i") (auto simp: output_ok_def, metis list.set_intros(1) neq_Nil_conv)
  then show ?thesis unfolding terminal_findings_def no_errors_map filter_Nil by simp
qed

lemma review_iff:
  assumes "distinct (map wn_id (wg_nodes g))"
  shows "no_errors (review_findings g links) \<longleftrightarrow>
     (\<forall>n\<in>set (wg_nodes g). wn_type n = ''telegram_publish'' \<longrightarrow>
        (\<exists>a\<in>set (wg_nodes g). wn_type a = ''human_review'' \<and> (wn_id a, wn_id n) \<in> (set links)\<^sup>+))"
proof -
  have "reviewed g links i \<longleftrightarrow> (\<exists>a\<in>set (wg_nodes g). wn_type a = ''human_review'' \<and> (wn_id a, i) \<in> (set links)\<^sup>+)" (is "?L = ?R") for i
  proof
    assume ?L
    then obtain x n where "(x, i) \<in> (set links)\<^sup>+" "nodes_by_id g x = Some n" "wn_type n = ''human_review''"
      by (auto simp: reviewed_def list_ex_iff ancestors_set split: option.splits)
    then show ?R using nodes_by_id_Some by blast
  next
    assume ?R
    then obtain a where "a \<in> set (wg_nodes g)" "wn_type a = ''human_review''" "(wn_id a, i) \<in> (set links)\<^sup>+" by blast
    then show ?L using nodes_by_id_in [OF assms]
      by (simp add: reviewed_def list_ex_iff) (rule bexI [where x = "wn_id a"], simp_all add: ancestors_set)
  qed
  then show ?thesis unfolding review_findings_def no_errors_map filter_Nil by blast
qed

section \<open>What \<open>validate_graph\<close> accepts\<close>

lemma start_pass [simp]: "cache_ok g (ep_cache no_edges)" "no_errors (ep_findings no_edges)"
  "ep_keys no_edges = []" "ep_links no_edges = []" "ep_inputs no_edges = []" "ep_outputs no_edges = []"
  by (simp_all add: no_edges_def)

lemma edge_pass_links:
  assumes "no_errors (ep_findings (check_edges g 0 (wg_edges g) no_edges))"
  shows "ep_links (check_edges g 0 (wg_edges g) no_edges) = graph_links g"
    and "no_errors (port_findings (check_edges g 0 (wg_edges g) no_edges) n) \<longleftrightarrow> ports_ok g n"
    and "distinct (map edge_key (wg_edges g))" "\<forall>e\<in>set (wg_edges g). edge_admissible g e"
  using check_edges_accepts [OF assms] by (simp_all add: graph_links_def ports_iff)

lemma links_in_nodes:
  assumes "\<forall>e\<in>set (wg_edges g). edge_admissible g e"
  shows "\<forall>(a, b)\<in>set (graph_links g). nodes_by_id g a \<noteq> None \<and> nodes_by_id g b \<noteq> None"
  using assms by (force simp: graph_links_def edge_admissible_def)

lemma cycle_free_iff:
  assumes "\<forall>e\<in>set (wg_edges g). edge_admissible g e"
  shows "cycle_nodes (graph_links g) (remdups (map wn_id (wg_nodes g))) = [] \<longleftrightarrow> acyclic_links (graph_links g)"
proof (rule cycle_nodes_empty)
  show "\<forall>(a, b)\<in>set (graph_links g). a \<in> set (remdups (map wn_id (wg_nodes g))) \<and> b \<in> set (remdups (map wn_id (wg_nodes g)))"
    using links_in_nodes [OF assms] unfolding set_remdups nodes_by_id_None by blast
qed

lemma reachable_set:
  assumes "\<forall>e\<in>set (wg_edges g). edge_admissible g e" "nodes_by_id g (wg_entry_node_id g) \<noteq> None"
  shows "set (reachable g (graph_links g)) = {i. (wg_entry_node_id g, i) \<in> (set (graph_links g))\<^sup>*}"
proof -
  have "ok_step (graph_links g) (\<lambda>c. nodes_by_id g c \<noteq> None) = ok_step (graph_links g) (\<lambda>c. True)"
    using links_in_nodes [OF assms(1)] by (auto simp: ok_step_def fun_eq_iff)
  then show ?thesis
    unfolding reachable_def reach_loop_set ok_reach_def using assms(2) by (simp add: rtranclp_ok_True)
qed

text \<open>The edge pass, the search for cycles, the search from the entry and the review check, together.\<close>

lemma edges_and_cycles_iff:
  "no_errors (ep_findings (check_edges g 0 (wg_edges g) no_edges)) \<and>
   cycle_nodes (ep_links (check_edges g 0 (wg_edges g) no_edges)) (remdups (map wn_id (wg_nodes g))) = [] \<longleftrightarrow>
   distinct (map edge_key (wg_edges g)) \<and> (\<forall>e\<in>set (wg_edges g). edge_admissible g e \<and> edge_typed g e) \<and>
   acyclic_links (graph_links g)" (is "?L \<longleftrightarrow> ?R")
proof -
  let ?s = "check_edges g 0 (wg_edges g) no_edges"
  have typed: "no_errors (ep_findings ?s) \<longleftrightarrow> (\<forall>e\<in>set (wg_edges g). edge_typed g e)"
    if "acyclic_links (graph_links g)" "distinct (map edge_key (wg_edges g))" "\<forall>e\<in>set (wg_edges g). edge_admissible g e"
    using check_edges_typed [OF that(1), of no_edges "wg_edges g" 0] that(2,3) by simp
  show ?thesis
  proof
    assume L: ?L
    note p = edge_pass_links [of g, OF conjunct1 [OF L]]
    have "acyclic_links (graph_links g)" using L p(1) cycle_free_iff [OF p(4)] by simp
    with typed p(3,4) L show ?R by blast
  next
    assume R: ?R
    then have ne: "no_errors (ep_findings ?s)" using typed by blast
    moreover have "cycle_nodes (ep_links ?s) (remdups (map wn_id (wg_nodes g))) = []"
      using R cycle_free_iff edge_pass_links(1,4) [OF ne] by simp
    ultimately show ?L by blast
  qed
qed

lemma validate_graph_wf: "vr_valid (validate_graph parse hash g) = graph_wf parse g"
proof -
  let ?s = "check_edges g 0 (wg_edges g) no_edges" and ?ids = "map wn_id (wg_nodes g)"
  have v: "vr_valid (validate_graph parse hash g) \<longleftrightarrow>
      distinct ?ids \<and> (\<forall>n\<in>set (wg_nodes g). validate_node_config parse (wn_id n) (wn_type n) (wn_config n) = []) \<and>
      set (wg_layout g) \<subseteq> set ?ids \<and> no_errors (entry_findings g) \<and>
      (no_errors (ep_findings ?s) \<and> cycle_nodes (ep_links ?s) (remdups ?ids) = []) \<and>
      (\<forall>n\<in>set (wg_nodes g). no_errors (port_findings ?s n)) \<and>
      no_errors (unreachable_findings g (ep_links ?s)) \<and> no_errors (terminal_findings g (ep_links ?s)) \<and>
      no_errors (review_findings g (ep_links ?s))" (is "_ \<longleftrightarrow> ?V")
    unfolding validate_graph_def graph_findings_def Let_def validation_result.simps no_errors_def [symmetric]
    by (simp add: no_errors_concat node_config_iff layout_iff duplicate_nodes_iff cycle_iff) blast
  also have "?V \<longleftrightarrow> graph_wf parse g"
  proof (cases "distinct ?ids \<and> no_errors (entry_findings g) \<and> no_errors (ep_findings ?s) \<and> cycle_nodes (ep_links ?s) (remdups ?ids) = []")
    case True
    note p = edge_pass_links [of g, OF conjunct1 [OF conjunct2 [OF conjunct2 [OF True]]]]
    from True have entry: "nodes_by_id g (wg_entry_node_id g) \<noteq> None" 
      using entry_iff [of g] nodes_by_id_in [of g] by fastforce
    from True show ?thesis
      using edges_and_cycles_iff [of g] entry_iff [of g] p(3)
      unfolding graph_wf_def Let_def p(1,2) unreachable_iff terminal_iff review_iff [OF conjunct1 [OF True]]
        reachable_set [OF p(4) entry] edge_typed_def [symmetric]
      by (simp add: subset_iff ball_conj_distrib) blast
  next
    case False
    then show ?thesis
      using edges_and_cycles_iff [of g] entry_iff [of g]
      unfolding graph_wf_def Let_def edge_typed_def [symmetric] by blast
  qed
  finally show ?thesis .
qed

text \<open>
  C20: \<open>validate_graph\<close> decides well-formedness.  It reports no error exactly when the node ids are
  distinct, every node is of a known type with an accepted configuration and its required resources,
  the layout names only nodes, exactly one trigger exists and the entry names it, the edges are
  distinct, join declared ports of two different nodes, never enter a trigger and carry an artifact the
  target's contract does not refuse, every port has a permitted number of connections, the graph has no
  cycle, every node is reached from the entry, every output is a terminal node without successor, and
  every Telegram publication has a human review among its ancestors.
\<close>

theorem validate_graph_decides_wf: "vr_valid (validate_graph parse hash g) = graph_wf parse g"
  by (rule validate_graph_wf)

end
