(* ===== verification/Graph_Compiler.thy ===== *)
theory Graph_Compiler
  imports Graph_Spec
begin

text \<open>
  The compiler of workflow graphs, \<open>app/automations/definitions/compiler.py\<close>: the order of the nodes,
  the stages of a plan, the resources it refers to, and the drift check of a stored plan.  The hash of
  a plan's canonical text and the schema library's loading of a stored plan are arguments; a loop that
  does not return is the value \<open>None\<close>.
\<close>

section \<open>Plans\<close>

record compiled_stage =
  cs_ordinal :: nat
  cs_node_id :: string
  cs_node_type :: string
  cs_owner :: runtime_owner
  cs_job_types :: "string list"
  cs_config :: pydict

record plan_semantics =
  cp_compiler_version :: string
  cp_graph_hash :: string
  cp_entry_node_id :: string
  cp_trigger_kind :: string
  cp_stages :: "compiled_stage list"
  cp_output_node_ids :: "string list"
  cp_required_job_types :: "string list"
  cp_required_resources :: "string list"
  cp_publishing_node_ids :: "string list"
  cp_supports_dry_run :: bool

record compiled_workflow_plan = plan_semantics +
  cp_plan_hash :: string

datatype compile_failure =
    Compilation_Error string string "string option"
  | Key_Error \<comment> \<open>a dictionary lookup that finds nothing\<close>
  | Validation_Error \<comment> \<open>a stored plan the schema library refuses\<close>

definition COMPILER_VERSION :: string where "COMPILER_VERSION = ''workflow-v1.0''"
definition LEGACY_COMPILER_VERSION :: string where "LEGACY_COMPILER_VERSION = ''legacy-route-v1''"

definition TRIGGER_KIND :: "(string \<times> string) list" where
  "TRIGGER_KIND =
     [(''manual'', ''manual''), (''schedule'', ''schedule''), (''collection_article_added'', ''collection_article_added''),
      (''new_source_item'', ''new_source_item'')]"

section \<open>The order of the nodes\<close>

partial_function (option) order_loop :: "links \<Rightarrow> string list \<Rightarrow> string list \<Rightarrow> string list option" where
  "order_loop links queue ordered =
     (case queue of
        [] \<Rightarrow> Some ordered
      | n # rest \<Rightarrow> order_loop links (rest @ sort (succs links n)) (ordered @ [n]))"

declare order_loop.simps [code]

definition branching :: "links \<Rightarrow> bool" where
  "branching links =
     (list_ex (\<lambda>(a, b). count_list (map snd links) b > 1) links \<or> list_ex (\<lambda>(a, b). length (succs links a) > 1) links)"

definition ordered_node_ids :: "workflow_graph \<Rightarrow> (compile_failure + string list) option" where
  "ordered_node_ids g =
     (if branching (graph_links g) then
        Some (Inl (Compilation_Error ''automation_graph_not_linear''
                     ''Workflow Graph v1 runtime supports one deterministic linear path.'' None))
      else map_option
        (\<lambda>ordered. if length ordered \<noteq> length (wg_nodes g)
           then Inl (Compilation_Error ''automation_graph_not_linear'' ''Workflow contains an unsupported execution shape.'' None)
           else Inr ordered)
        (order_loop (graph_links g) [wg_entry_node_id g] []))"

section \<open>Resources\<close>

definition resource_ref :: "(pyval \<Rightarrow> string) \<Rightarrow> pykey \<times> pyval \<Rightarrow> string list" where
  "resource_ref fmt kv =
     (let field = key_text (fst kv); value = snd kv in
      if ends_with ''_id'' field \<and> value \<noteq> PNone then [field @ '':'' @ py_text fmt value]
      else if ends_with ''_ids'' field then
        (case value of PList items \<Rightarrow> map (\<lambda>i. field @ '':'' @ py_text fmt i) items | _ \<Rightarrow> [])
      else [])"

definition resource_refs :: "(pyval \<Rightarrow> string) \<Rightarrow> workflow_graph \<Rightarrow> string list" where
  "resource_refs fmt g =
     sort (remdups (concat (map (\<lambda>n. concat (map (resource_ref fmt) (wn_config n))) (wg_nodes g))))"

section \<open>Stages\<close>

record stage_loop =
  sl_stages :: "compiled_stage list"
  sl_required_jobs :: "string list"
  sl_publishing_nodes :: "string list"

fun compile_stages :: "workflow_graph \<Rightarrow> nat \<Rightarrow> string list \<Rightarrow> stage_loop \<Rightarrow> compile_failure + stage_loop" where
  "compile_stages g ordinal [] s = Inr s"
| "compile_stages g ordinal (i # is) s =
     (case nodes_by_id g i of
        None \<Rightarrow> Inl Key_Error
      | Some n \<Rightarrow>
          (case node_type_def (wn_type n) of
             None \<Rightarrow> Inl Key_Error
           | Some d \<Rightarrow>
               if nd_runtime_status d = Unavailable then
                 Inl (Compilation_Error ''automation_node_runtime_unavailable''
                        ''Workflow node has no safe runtime adapter.'' (Some (wn_id n)))
               else compile_stages g (Suc ordinal) is
                 \<lparr>sl_stages = sl_stages s @
                    [\<lparr>cs_ordinal = ordinal, cs_node_id = wn_id n, cs_node_type = wn_type n,
                      cs_owner = nd_runtime_owner d, cs_job_types = nd_runtime_job_types d, cs_config = wn_config n\<rparr>],
                  sl_required_jobs = sl_required_jobs s @ nd_runtime_job_types d,
                  sl_publishing_nodes =
                    sl_publishing_nodes s @ (if nd_runtime_owner d = Publishing then [wn_id n] else [])\<rparr>))"

definition no_stages :: stage_loop where
  "no_stages = \<lparr>sl_stages = [], sl_required_jobs = [], sl_publishing_nodes = []\<rparr>"

definition compile_blocking :: "finding \<Rightarrow> bool" where
  "compile_blocking f = (is_error f \<and> vf_code f \<noteq> ''automation_resource_unavailable'')"

definition compile_ordered ::
  "(workflow_graph \<Rightarrow> string) \<Rightarrow> (plan_semantics \<Rightarrow> string) \<Rightarrow> (pyval \<Rightarrow> string) \<Rightarrow> workflow_graph \<Rightarrow> string list \<Rightarrow>
   compile_failure + compiled_workflow_plan" where
  "compile_ordered hash plan_hash fmt g ordered =
     (case nodes_by_id g (wg_entry_node_id g) of
        None \<Rightarrow> Inl Key_Error
      | Some entry \<Rightarrow>
          (case map_of TRIGGER_KIND (wn_type entry) of
             None \<Rightarrow> Inl (Compilation_Error ''automation_trigger_unsupported''
                            ''Workflow trigger cannot start a durable run.'' None)
           | Some kind \<Rightarrow>
               (case compile_stages g 0 ordered no_stages of
                  Inl e \<Rightarrow> Inl e
                | Inr s \<Rightarrow>
                    let semantic = \<lparr>cp_compiler_version = COMPILER_VERSION, cp_graph_hash = hash g,
                          cp_entry_node_id = wg_entry_node_id g, cp_trigger_kind = kind, cp_stages = sl_stages s,
                          cp_output_node_ids = sort (wg_output_node_ids g),
                          cp_required_job_types = sort (remdups (sl_required_jobs s)),
                          cp_required_resources = resource_refs fmt g,
                          cp_publishing_node_ids = sort (sl_publishing_nodes s), cp_supports_dry_run = True\<rparr>
                    in Inr (plan_semantics.extend semantic (compiled_workflow_plan.fields (plan_hash semantic))))))"

definition compile_graph ::
  "config_parser \<Rightarrow> (workflow_graph \<Rightarrow> string) \<Rightarrow> (plan_semantics \<Rightarrow> string) \<Rightarrow> (pyval \<Rightarrow> string) \<Rightarrow> workflow_graph \<Rightarrow>
   (compile_failure + compiled_workflow_plan) option" where
  "compile_graph parse hash plan_hash fmt g =
     (case filter compile_blocking (vr_findings (validate_graph parse hash g)) of
        f # _ \<Rightarrow> Some (Inl (Compilation_Error (vf_code f) (vf_message f) (vf_node_id f)))
      | [] \<Rightarrow>
          (case ordered_node_ids g of
             None \<Rightarrow> None
           | Some (Inl e) \<Rightarrow> Some (Inl e)
           | Some (Inr ordered) \<Rightarrow> Some (compile_ordered hash plan_hash fmt g ordered)))"

definition stage :: "compiled_workflow_plan \<Rightarrow> string \<Rightarrow> compiled_stage option" where
  "stage plan node_type = find (\<lambda>s. cs_node_type s = node_type) (cp_stages plan)"

definition node_map :: "compiled_workflow_plan \<Rightarrow> (string \<times> string list) list" where
  "node_map plan =
     fold (\<lambda>s grouped. AList.update (cs_node_type s)
             ((case map_of grouped (cs_node_type s) of None \<Rightarrow> [] | Some ids \<Rightarrow> ids) @ [cs_node_id s]) grouped)
       (cp_stages plan) []"

definition verify_compiled_plan ::
  "config_parser \<Rightarrow> (workflow_graph \<Rightarrow> string) \<Rightarrow> (plan_semantics \<Rightarrow> string) \<Rightarrow> (pyval \<Rightarrow> string) \<Rightarrow>
   (pydict \<Rightarrow> compiled_workflow_plan option) \<Rightarrow> workflow_graph \<Rightarrow> pydict \<Rightarrow> (compile_failure + compiled_workflow_plan) option" where
  "verify_compiled_plan parse hash plan_hash fmt load g raw =
     (let stale = Inl (Compilation_Error ''automation_compiled_plan_stale''
                         ''Saved execution plan must be recompiled as a new version.'' None) in
      if dict_get raw ''compiler_version'' = Some (PStr LEGACY_COMPILER_VERSION) then Some stale
      else case load raw of
        None \<Rightarrow> Some (Inl Validation_Error)
      | Some saved \<Rightarrow>
          (case compile_graph parse hash plan_hash fmt g of
             None \<Rightarrow> None
           | Some (Inl e) \<Rightarrow> Some (Inl e)
           | Some (Inr current) \<Rightarrow>
               if cp_compiler_version saved \<noteq> cp_compiler_version current \<or> cp_plan_hash saved \<noteq> cp_plan_hash current
               then Some stale else Some (Inr saved)))"

section \<open>Which graphs pass the validation of the compiler\<close>

text \<open>The same parser with every required resource supplied.\<close>

definition lenient :: "config_parser \<Rightarrow> config_parser" where
  "lenient parse ty c =
     (case parse ty c of Inl e \<Rightarrow> Inl e
      | Inr _ \<Rightarrow> Inr (map (\<lambda>f. (KStr f, PInt 0)) (case map_of REQUIRED_RESOURCE_FIELDS ty of None \<Rightarrow> [] | Some fs \<Rightarrow> fs)))"

lemma supplied: "f \<in> set fs \<Longrightarrow> \<not> missing_resource (map (\<lambda>f. (KStr f, PInt 0)) fs) f"
proof -
  assume "f \<in> set fs"
  then have "map_of (map (\<lambda>f. (KStr f, PInt 0)) fs) (KStr f) = Some (PInt 0)" by (induction fs) auto
  then show ?thesis by (simp add: missing_resource_def dict_get_def)
qed

lemma blocking_mk [simp]:
  "compile_blocking (mk_finding c m n e p a sev) = (sev = Error \<and> c \<noteq> ''automation_resource_unavailable'')"
  by (simp add: compile_blocking_def) (simp add: mk_finding_def)

lemma config_blocking:
  "filter compile_blocking (validate_node_config parse i ty c) = [] \<longleftrightarrow> no_errors (validate_node_config (lenient parse) i ty c)"
proof (cases "node_type_def ty")
  case (Some d)
  show ?thesis
  proof (cases "parse ty c")
    case (Inl e)
    then show ?thesis using Some
      by (simp add: validate_node_config_def lenient_def no_errors_map filter_map comp_def Let_def)
  next
    case (Inr v)
    let ?fs = "case map_of REQUIRED_RESOURCE_FIELDS ty of None \<Rightarrow> [] | Some fs \<Rightarrow> fs"
    have "filter (missing_resource (map (\<lambda>f. (KStr f, PInt 0)) ?fs)) ?fs = []"
      using supplied [of _ ?fs] by (simp add: filter_empty_conv)
    then show ?thesis using Some Inr
      by (simp add: validate_node_config_def lenient_def no_errors_map filter_map comp_def Let_def)
  qed
qed (simp add: validate_node_config_def)

definition other_codes :: "finding list \<Rightarrow> bool" where
  "other_codes fs = list_all (\<lambda>f. vf_code f \<noteq> ''automation_resource_unavailable'') fs"

lemma other_codes_simps [simp]:
  "other_codes []" "other_codes (fs @ gs) = (other_codes fs \<and> other_codes gs)"
  "other_codes (mk_finding c m n e p a sev # fs) = (c \<noteq> ''automation_resource_unavailable'' \<and> other_codes fs)"
  by (simp_all add: other_codes_def mk_finding_def)

lemma other_codes_concat: "other_codes (concat (map f xs)) \<longleftrightarrow> (\<forall>x\<in>set xs. other_codes (f x))"
  by (induction xs) simp_all

lemma other_codes_map: "c \<noteq> ''automation_resource_unavailable'' \<Longrightarrow>
    other_codes (map (\<lambda>x. mk_finding c (m x) (n x) (e x) (p x) (a x) (sev x)) xs)"
  by (induction xs) simp_all

lemma other_codes_blocking: "other_codes fs \<Longrightarrow> filter compile_blocking fs = [] \<longleftrightarrow> no_errors fs"
  by (induction fs) (simp_all add: other_codes_def no_errors_def compile_blocking_def)

lemma other_codes_edge: "other_codes (ep_findings s) \<Longrightarrow> other_codes (ep_findings (check_edge g i e s))"
  by (simp add: check_edge_def report_def accept_edge_def Let_def split: option.split prod.split compatibility.split)

lemma other_codes_edges: "other_codes (ep_findings s) \<Longrightarrow> other_codes (ep_findings (check_edges g i es s))"
  by (induction es arbitrary: i s) (simp_all add: other_codes_edge)

lemma compile_blocking_iff:
  "filter compile_blocking (vr_findings (validate_graph parse hash g)) = [] \<longleftrightarrow> graph_wf (lenient parse) g"
proof -
  let ?s = "check_edges g 0 (wg_edges g) no_edges"
  have "other_codes (ep_findings ?s)" by (rule other_codes_edges) (simp add: no_edges_def)
  moreover have "other_codes (duplicate_node_findings g)" "other_codes (layout_findings g)" "other_codes (entry_findings g)"
    "other_codes (cycle_findings cs)" "other_codes (unreachable_findings g ls)" "other_codes (terminal_findings g ls)"
    "other_codes (review_findings g ls)" "other_codes (concat (map (port_findings s) ns))" for cs ls s ns
    by (simp_all add: duplicate_node_findings_def layout_findings_def entry_findings_def cycle_findings_def
        unreachable_findings_def terminal_findings_def review_findings_def other_codes_map other_codes_concat Let_def
        port_findings_def input_findings_def output_findings_def split: list.split option.split prod.split)
  moreover have configs: "filter compile_blocking (concat (map (\<lambda>n. validate_node_config parse (wn_id n) (wn_type n) (wn_config n)) ns)) = [] \<longleftrightarrow>
      no_errors (concat (map (\<lambda>n. validate_node_config (lenient parse) (wn_id n) (wn_type n) (wn_config n)) ns))" for ns
    by (induction ns) (simp_all add: config_blocking)
  ultimately have "filter compile_blocking (graph_findings parse g) = [] \<longleftrightarrow> no_errors (graph_findings (lenient parse) g)"
    unfolding graph_findings_def Let_def List.maps_eq filter_append append_is_Nil_conv no_errors_simps configs
    by (simp only: other_codes_blocking)
  then show ?thesis
    unfolding validate_graph_wf [symmetric, of "lenient parse" g hash] by (simp add: validate_graph_def Let_def no_errors_def)
qed

section \<open>The loop over the queue walks the path from the entry\<close>

definition chain :: "links \<Rightarrow> string list \<Rightarrow> bool" where
  "chain links p = successively (\<lambda>a b. (a, b) \<in> set links) p"

lemma not_branching_succs: "\<not> branching links \<Longrightarrow> length (succs links a) \<le> 1"
proof (cases "succs links a")
  case (Cons b bs)
  assume "\<not> branching links"
  moreover have "(a, b) \<in> set links" using in_succs [of b links a] Cons by simp
  ultimately have "\<not> length (succs links a) > 1" unfolding branching_def list_ex_iff by blast
  then show ?thesis by simp
qed simp

lemma acyclic_wf: "acyclic_links links \<Longrightarrow> wf ((set links)\<inverse>)"
  by (rule finite_acyclic_wf_converse) (simp_all add: acyclic_def acyclic_links_def)

lemma order_loop_path:
  assumes "acyclic_links links" "\<forall>a. length (succs links a) \<le> 1"
  shows "\<exists>p. order_loop links [n] ord = Some (ord @ n # p) \<and> chain links (n # p) \<and> distinct (n # p) \<and>
    set (n # p) = {m. (n, m) \<in> (set links)\<^sup>*}"
proof (induction n arbitrary: ord rule: wf_induct_rule [OF acyclic_wf [OF assms(1)]])
  case (1 n)
  let ?E = "set links"
  show ?case
  proof (cases "succs links n")
    case Nil
    have "order_loop links [] (ord @ [n]) = Some (ord @ [n])" by (simp add: order_loop.simps)
    then have "order_loop links [n] ord = Some (ord @ [n])" using Nil by (subst order_loop.simps) simp
    moreover have "m = n" if "(n, m) \<in> ?E\<^sup>*" for m
      using that Nil in_succs [of _ links n] by (cases rule: converse_rtranclE) auto
    then have "{m. (n, m) \<in> ?E\<^sup>*} = {n}" by blast
    ultimately show ?thesis by (intro exI [of _ "[]"]) (simp add: chain_def)
  next
    case (Cons m ms)
    then have only: "succs links n = [m]" using assms(2) [rule_format, of n] by simp
    then have nm: "(n, m) \<in> ?E" "\<And>y. (n, y) \<in> ?E \<Longrightarrow> y = m" using in_succs [of _ links n] by auto
    from nm(1) 1 [of m "ord @ [n]"] obtain p where
      p: "order_loop links [m] (ord @ [n]) = Some ((ord @ [n]) @ m # p)" "chain links (m # p)" "distinct (m # p)"
        "set (m # p) = {x. (m, x) \<in> ?E\<^sup>*}" by blast
    have "order_loop links [n] ord = Some (ord @ n # m # p)"
      using p(1) only by (subst order_loop.simps) simp
    moreover have "chain links (n # m # p)" using p(2) nm(1) by (simp add: chain_def)
    moreover have "n \<notin> set (m # p)"
    proof
      assume "n \<in> set (m # p)"
      then have "(n, n) \<in> ?E\<^sup>+" using p(4) nm(1) by (auto intro: rtrancl_into_trancl2)
      with assms(1) show False by (simp add: acyclic_links_def)
    qed
    moreover have "set (n # m # p) = {x. (n, x) \<in> ?E\<^sup>*}"
    proof -
      have "(n, x) \<in> ?E\<^sup>* \<longleftrightarrow> x = n \<or> (m, x) \<in> ?E\<^sup>*" for x
        using nm by (metis converse_rtranclE converse_rtrancl_into_rtrancl rtrancl.rtrancl_refl)
      then have "{x. (n, x) \<in> ?E\<^sup>*} = insert n {x. (m, x) \<in> ?E\<^sup>*}" by blast
      then show ?thesis using p(4) by simp
    qed
    ultimately show ?thesis using p(3) by (intro exI [of _ "m # p"]) simp
  qed
qed

lemma chain_before:
  assumes "chain links p" "j < i" "i < length p"
  shows "(p ! j, p ! i) \<in> (set links)\<^sup>+"
  using assms(2,3)
proof (induction i)
  case (Suc i)
  have step: "(p ! i, p ! Suc i) \<in> set links"
    using assms(1) Suc.prems(2) by (simp add: chain_def successively_conv_nth)
  show ?case
  proof (cases "j = i")
    case False
    with Suc have "(p ! j, p ! i) \<in> (set links)\<^sup>+" by simp
    then show ?thesis using step by (rule trancl_into_trancl)
  qed (use step in auto)
qed simp

section \<open>What the compiler returns\<close>

lemma catalog_available:
  "list_all (\<lambda>d. nd_runtime_status d \<noteq> Unavailable \<and> (nd_entry d \<longrightarrow> map_of TRIGGER_KIND (nd_type d) = Some (nd_type d)))
     node_definitions"
  by (simp add: node_definitions_def node_def TRIGGER_KIND_def)

lemma node_available:
  assumes "node_type_def ty = Some d"
  shows "nd_runtime_status d \<noteq> Unavailable" "nd_entry d \<Longrightarrow> map_of TRIGGER_KIND ty = Some ty"
  using node_type_def_type [OF assms] catalog_available by (auto simp: list_all_iff)

definition stage_of :: "workflow_graph \<Rightarrow> nat \<times> string \<Rightarrow> compiled_stage" where
  "stage_of g ki =
     (let n = the (nodes_by_id g (snd ki)); d = the (node_type_def (wn_type n)) in
      \<lparr>cs_ordinal = fst ki, cs_node_id = wn_id n, cs_node_type = wn_type n, cs_owner = nd_runtime_owner d,
       cs_job_types = nd_runtime_job_types d, cs_config = wn_config n\<rparr>)"

lemma compile_stages_all:
  assumes "\<forall>i\<in>set is. \<exists>n d. nodes_by_id g i = Some n \<and> node_type_def (wn_type n) = Some d"
  shows "\<exists>s'. compile_stages g k is s = Inr s' \<and> sl_stages s' = sl_stages s @ map (stage_of g) (enumerate k is)"
  using assms
proof (induction "is" arbitrary: k s)
  case (Cons i "is")
  then obtain n d where n: "nodes_by_id g i = Some n" "node_type_def (wn_type n) = Some d" by auto
  with Cons.IH Cons.prems node_available(1) [OF n(2)] show ?case
    by (fastforce simp: stage_of_def)
qed simp

lemma wf_node:
  assumes "graph_wf parse g" "i \<in> set (map wn_id (wg_nodes g))"
  shows "\<exists>n d. nodes_by_id g i = Some n \<and> node_type_def (wn_type n) = Some d \<and> n \<in> set (wg_nodes g) \<and> wn_id n = i"
proof -
  from assms(2) obtain n where n: "n \<in> set (wg_nodes g)" "wn_id n = i" by auto
  with assms(1) have "nodes_by_id g i = Some n" "validate_node_config parse (wn_id n) (wn_type n) (wn_config n) = []"
    using nodes_by_id_in [of g n] by (auto simp: graph_wf_def Let_def)
  with n show ?thesis by (cases "node_type_def (wn_type n)") (simp_all add: validate_node_config_def)
qed

text \<open>The order in a well-formed graph without branches: a path over all its nodes.\<close>

definition covering_path :: "workflow_graph \<Rightarrow> string list \<Rightarrow> bool" where
  "covering_path g p =
     (p \<noteq> [] \<and> hd p = wg_entry_node_id g \<and> chain (graph_links g) p \<and> distinct p \<and>
      set p = set (map wn_id (wg_nodes g)) \<and> length p = length (wg_nodes g))"

lemma graph_wfD:
  assumes "graph_wf parse g"
  shows "acyclic_links (graph_links g)" "distinct (map wn_id (wg_nodes g))"
    "\<forall>i\<in>set (map wn_id (wg_nodes g)). (wg_entry_node_id g, i) \<in> (set (graph_links g))\<^sup>*"
    "wg_entry_node_id g \<in> set (map wn_id (wg_nodes g))" "\<forall>e\<in>set (wg_edges g). edge_admissible g e"
proof -
  from assms show "acyclic_links (graph_links g)" "distinct (map wn_id (wg_nodes g))"
    "\<forall>i\<in>set (map wn_id (wg_nodes g)). (wg_entry_node_id g, i) \<in> (set (graph_links g))\<^sup>*"
    "\<forall>e\<in>set (wg_edges g). edge_admissible g e" unfolding graph_wf_def Let_def by blast+
  from assms obtain n where "n \<in> set (wg_nodes g)" "wn_id n = wg_entry_node_id g" unfolding graph_wf_def Let_def by blast
  then show "wg_entry_node_id g \<in> set (map wn_id (wg_nodes g))" by (metis image_eqI list.set_map)
qed

lemma ordered_path:
  assumes "graph_wf parse g" "\<not> branching (graph_links g)"
  shows "\<exists>p. ordered_node_ids g = Some (Inr p) \<and> covering_path g p"
proof -
  let ?E = "set (graph_links g)" and ?ids = "map wn_id (wg_nodes g)"
  have wf: "acyclic_links (graph_links g)" "distinct ?ids" "\<forall>i\<in>set ?ids. (wg_entry_node_id g, i) \<in> ?E\<^sup>*"
    "wg_entry_node_id g \<in> set ?ids" "\<forall>e\<in>set (wg_edges g). edge_admissible g e"
    using graph_wfD [OF assms(1)] by blast+
  obtain p where p: "order_loop (graph_links g) [wg_entry_node_id g] [] = Some (wg_entry_node_id g # p)"
    "chain (graph_links g) (wg_entry_node_id g # p)" "distinct (wg_entry_node_id g # p)"
    "set (wg_entry_node_id g # p) = {m. (wg_entry_node_id g, m) \<in> ?E\<^sup>*}"
    using order_loop_path [OF wf(1), of "wg_entry_node_id g" "[]"] not_branching_succs [OF assms(2)] by auto
  have "m \<in> set ?ids" if "(wg_entry_node_id g, m) \<in> ?E\<^sup>*" for m
    using that
  proof (cases rule: rtranclE)
    case (step y)
    then show ?thesis using links_in_nodes [OF wf(5)] nodes_by_id_None [of g m] by auto
  qed (use wf(4) in simp)
  with p(4) wf(3) have s: "set (wg_entry_node_id g # p) = set ?ids" by blast
  then have "length (wg_entry_node_id g # p) = length (wg_nodes g)"
    using distinct_card [OF p(3)] distinct_card [OF wf(2)] by simp
  with p s assms(2) show ?thesis by (auto simp: ordered_node_ids_def covering_path_def)
qed

lemma compile_graph_shape:
  assumes "graph_wf (lenient parse) g" "\<not> branching (graph_links g)"
  shows "\<exists>p plan. compile_graph parse hash plan_hash fmt g = Some (Inr plan) \<and> covering_path g p \<and>
    cp_stages plan = map (stage_of g) (enumerate 0 p) \<and> cp_entry_node_id plan = wg_entry_node_id g \<and>
    cp_plan_hash plan = plan_hash (plan_semantics.truncate plan)"
proof -
  obtain p where p: "ordered_node_ids g = Some (Inr p)" "covering_path g p" using ordered_path [OF assms] by blast
  from assms(1) obtain n where n: "n \<in> set (wg_nodes g)" "wn_id n = wg_entry_node_id g" "is_entry_type (wn_type n)"
    "distinct (map wn_id (wg_nodes g))" by (auto simp: graph_wf_def Let_def)
  then obtain d where d: "node_type_def (wn_type n) = Some d" "nd_entry d"
    by (auto simp: is_entry_type_def split: option.splits)
  have e: "nodes_by_id g (wg_entry_node_id g) = Some n" using nodes_by_id_in [OF n(4,1)] n(2) by simp
  have "\<forall>i\<in>set p. \<exists>n d. nodes_by_id g i = Some n \<and> node_type_def (wn_type n) = Some d"
    using wf_node [OF assms(1)] p(2) unfolding covering_path_def by blast
  from compile_stages_all [OF this, of 0 no_stages] obtain s where
    s: "compile_stages g 0 p no_stages = Inr s" "sl_stages s = map (stage_of g) (enumerate 0 p)"
    by (auto simp: no_stages_def)
  have f: "filter compile_blocking (vr_findings (validate_graph parse hash g)) = []"
    using assms(1) by (simp only: compile_blocking_iff)
  show ?thesis
    unfolding compile_graph_def f p(1) compile_ordered_def e
    using p(2) s node_available(2) [OF d] by (intro exI [of _ p]) (simp add: Let_def plan_semantics.defs compiled_workflow_plan.defs)
qed

lemma compile_graph_cases:
  assumes "compile_graph parse hash plan_hash fmt g = Some (Inr plan)"
  shows "graph_wf (lenient parse) g \<and> \<not> branching (graph_links g)"
proof -
  have "filter compile_blocking (vr_findings (validate_graph parse hash g)) = []"
    using assms by (auto simp: compile_graph_def split: list.splits)
  moreover have "\<not> branching (graph_links g)" using assms
    by (auto simp: compile_graph_def ordered_node_ids_def split: list.splits if_splits)
  ultimately show ?thesis unfolding compile_blocking_iff by (rule conjI)
qed

lemma compiled_shape:
  assumes "compile_graph parse hash plan_hash fmt g = Some (Inr plan)"
  shows "\<exists>p. covering_path g p \<and> cp_stages plan = map (stage_of g) (enumerate 0 p)"
    and "cp_plan_hash plan = plan_hash (plan_semantics.truncate plan)"
  using compile_graph_shape compile_graph_cases [OF assms] assms by (metis Inr_inject option.inject)+

lemma stage_of_node:
  assumes "graph_wf parse g" "covering_path g p" "k < length p"
  shows "\<exists>n d. n \<in> set (wg_nodes g) \<and> node_type_def (wn_type n) = Some d \<and> wn_id n = p ! k \<and>
    stage_of g (k, p ! k) = \<lparr>cs_ordinal = k, cs_node_id = wn_id n, cs_node_type = wn_type n,
      cs_owner = nd_runtime_owner d, cs_job_types = nd_runtime_job_types d, cs_config = wn_config n\<rparr>"
proof -
  have "p ! k \<in> set (map wn_id (wg_nodes g))" using assms(2,3) nth_mem unfolding covering_path_def by blast
  from wf_node [OF assms(1) this] obtain n d where
    n: "nodes_by_id g (p ! k) = Some n" "node_type_def (wn_type n) = Some d" "n \<in> set (wg_nodes g)" "wn_id n = p ! k" by blast
  then show ?thesis by (intro exI [of _ n] exI [of _ d]) (simp add: stage_of_def)
qed

section \<open>Properties\<close>

text \<open>
  C21: Compilation always returns, although the loop that orders the nodes would walk a cycle for ever.
  It yields a plan exactly for the graphs that are well-formed once every required resource is
  supplied and that do not branch.
\<close>

theorem compile_graph_decides:
  "\<exists>r. compile_graph parse hash plan_hash fmt g = Some r \<and>
     ((\<exists>plan. r = Inr plan) = (graph_wf (lenient parse) g \<and> \<not> branching (graph_links g)))"
proof (cases "graph_wf (lenient parse) g \<and> \<not> branching (graph_links g)")
  case True
  then obtain plan where "compile_graph parse hash plan_hash fmt g = Some (Inr plan)" using compile_graph_shape by blast
  with True show ?thesis by blast
next
  case False
  have "compile_graph parse hash plan_hash fmt g \<noteq> None"
  proof (cases "graph_wf (lenient parse) g")
    case wf: True
    then have "branching (graph_links g)" using False by blast
    then show ?thesis by (simp add: compile_graph_def ordered_node_ids_def split: list.split)
  next
    case wf: False
    then have "filter compile_blocking (vr_findings (validate_graph parse hash g)) \<noteq> []" by (simp only: compile_blocking_iff) simp
    then show ?thesis by (cases "filter compile_blocking (vr_findings (validate_graph parse hash g))") (simp_all add: compile_graph_def)
  qed
  with False compile_graph_cases show ?thesis by blast
qed

text \<open>
  C25: A compiled plan is one path.  Its stages are numbered from 0 without a gap, the first is the
  entry node, each stage is linked to the next by an edge of the graph, no node occurs twice and every
  node occurs, and each stage copies the type and the configuration of its node and the owner and job
  types of the node's catalog entry.
\<close>

theorem compiled_plan_is_a_path:
  assumes "compile_graph parse hash plan_hash fmt g = Some (Inr plan)"
  shows "let ids = map cs_node_id (cp_stages plan) in
    map cs_ordinal (cp_stages plan) = [0..<length (wg_nodes g)] \<and>
    ids \<noteq> [] \<and> hd ids = wg_entry_node_id g \<and> successively (\<lambda>a b. (a, b) \<in> set (graph_links g)) ids \<and>
    distinct ids \<and> set ids = set (map wn_id (wg_nodes g)) \<and>
    (\<forall>s\<in>set (cp_stages plan). \<exists>n\<in>set (wg_nodes g). \<exists>d. node_type_def (wn_type n) = Some d \<and>
       s = \<lparr>cs_ordinal = cs_ordinal s, cs_node_id = wn_id n, cs_node_type = wn_type n, cs_owner = nd_runtime_owner d,
            cs_job_types = nd_runtime_job_types d, cs_config = wn_config n\<rparr>)"
proof -
  note wf = conjunct1 [OF compile_graph_cases [OF assms]]
  obtain p where p: "covering_path g p" "cp_stages plan = map (stage_of g) (enumerate 0 p)"
    using compiled_shape(1) [OF assms] by blast
  have st: "\<exists>n d. n \<in> set (wg_nodes g) \<and> node_type_def (wn_type n) = Some d \<and> wn_id n = p ! k \<and>
      stage_of g (k, p ! k) = \<lparr>cs_ordinal = k, cs_node_id = wn_id n, cs_node_type = wn_type n,
        cs_owner = nd_runtime_owner d, cs_job_types = nd_runtime_job_types d, cs_config = wn_config n\<rparr>"
    if "k < length p" for k using stage_of_node [OF wf p(1) that] .
  have ids: "map cs_node_id (cp_stages plan) = p"
    unfolding p(2) by (rule nth_equalityI) (use st in \<open>auto simp: nth_enumerate_eq, metis compiled_stage.select_convs(2)\<close>)
  have "map cs_ordinal (cp_stages plan) = [0..<length p]"
    unfolding p(2) by (rule nth_equalityI) (auto simp: nth_enumerate_eq stage_of_def Let_def)
  moreover have "\<exists>n\<in>set (wg_nodes g). \<exists>d. node_type_def (wn_type n) = Some d \<and>
       s = \<lparr>cs_ordinal = cs_ordinal s, cs_node_id = wn_id n, cs_node_type = wn_type n, cs_owner = nd_runtime_owner d,
            cs_job_types = nd_runtime_job_types d, cs_config = wn_config n\<rparr>" if "s \<in> set (cp_stages plan)" for s
  proof -
    from that obtain k where k: "k < length p" "s = stage_of g (k, p ! k)"
      unfolding p(2) by (auto simp: in_set_enumerate_eq)
    with st [OF k(1)] show ?thesis by fastforce
  qed
  ultimately show ?thesis using p(1) unfolding Let_def ids covering_path_def chain_def by simp
qed

text \<open>
  C24: No plan publishes without review: before every Telegram publication stage of a compiled plan
  there is a human review stage.
\<close>

theorem publication_follows_review:
  assumes "compile_graph parse hash plan_hash fmt g = Some (Inr plan)"
    and "i < length (cp_stages plan)" "cs_node_type (cp_stages plan ! i) = ''telegram_publish''"
  shows "\<exists>j<i. cs_node_type (cp_stages plan ! j) = ''human_review''"
proof -
  note wf = conjunct1 [OF compile_graph_cases [OF assms(1)]]
  obtain p where p: "covering_path g p" "cp_stages plan = map (stage_of g) (enumerate 0 p)"
    using compiled_shape(1) [OF assms(1)] by blast
  have i: "i < length p" "cs_node_type (stage_of g (i, p ! i)) = ''telegram_publish''"
    using assms(2,3) p(2) by (simp_all add: nth_enumerate_eq)
  obtain n where n: "n \<in> set (wg_nodes g)" "wn_id n = p ! i" "wn_type n = ''telegram_publish''"
    using stage_of_node [OF wf p(1) i(1)] i(2) by (metis compiled_stage.select_convs(3))
  then obtain a where a: "a \<in> set (wg_nodes g)" "wn_type a = ''human_review''" "(wn_id a, p ! i) \<in> (set (graph_links g))\<^sup>+"
    using wf unfolding graph_wf_def Let_def by metis
  have "wn_id a \<in> set p" using a(1) p(1) by (simp add: covering_path_def)
  then obtain j where j: "j < length p" "p ! j = wn_id a" by (metis in_set_conv_nth)
  have cyc: "(x, x) \<notin> (set (graph_links g))\<^sup>+" for x using wf unfolding graph_wf_def Let_def acyclic_links_def by blast
  have "j < i"
  proof (rule ccontr)
    assume "\<not> j < i"
    then consider "j = i" | "i < j" by linarith
    then show False
    proof cases
      case 2
      have "(p ! i, wn_id a) \<in> (set (graph_links g))\<^sup>+"
        using chain_before [of "graph_links g" p i j] p(1) 2 j by (simp add: covering_path_def)
      with a(3) cyc show False by (meson trancl_trans)
    qed (use a(3) j cyc in simp)
  qed
  moreover have "cs_node_type (cp_stages plan ! j) = ''human_review''"
  proof -
    have "nodes_by_id g (p ! j) = Some a" using nodes_by_id_in [of g a] a(1) j(2) wf by (simp add: graph_wf_def Let_def)
    then show ?thesis using j a(2) by (simp add: p(2) nth_enumerate_eq stage_of_def Let_def)
  qed
  ultimately show ?thesis by blast
qed

text \<open>
  A stored plan runs only while it is the plan of the current graph.  When the stored plan came out
  of the compiler, for whatever graph, and the plan hash does not collide with the current plan's, then
  the plan \<open>verify_compiled_plan\<close> returns is the one compiling the graph gives now; a changed graph
  is refused.
\<close>

theorem verified_plan_is_current:
  assumes "load raw = Some saved" "compile_graph parse hash plan_hash fmt g0 = Some (Inr saved)"
    and no_collision: "\<And>plan. compile_graph parse hash plan_hash fmt g = Some (Inr plan) \<Longrightarrow>
      plan_hash (plan_semantics.truncate plan) = plan_hash (plan_semantics.truncate saved) \<Longrightarrow>
      plan_semantics.truncate plan = plan_semantics.truncate saved"
    and "verify_compiled_plan parse hash plan_hash fmt load g raw = Some (Inr p)"
  shows "p = saved \<and> compile_graph parse hash plan_hash fmt g = Some (Inr p)"
proof -
  from assms(1,4) obtain plan where c: "compile_graph parse hash plan_hash fmt g = Some (Inr plan)"
    "p = saved" "cp_plan_hash plan = cp_plan_hash saved"
    by (auto simp: verify_compiled_plan_def Let_def split: if_splits option.splits sum.splits)
  moreover have "plan_semantics.truncate plan = plan_semantics.truncate saved"
    using no_collision [OF c(1)] compiled_shape(2) [OF c(1)] compiled_shape(2) [OF assms(2)] c(3) by simp
  ultimately have "plan = saved" by (cases plan; cases saved) (simp add: plan_semantics.defs)
  with c show ?thesis by simp
qed

section \<open>A sample\<close>

definition sample_parse :: config_parser where
  "sample_parse ty c = (if dict_get c ''bad'' = None then Inr c else Inl [])"

definition sample_node :: "string \<Rightarrow> string \<Rightarrow> pydict \<Rightarrow> workflow_node" where
  "sample_node i ty c = \<lparr>wn_id = i, wn_type = ty, wn_config = c\<rparr>"

definition sample_edge :: "string \<Rightarrow> string \<Rightarrow> string \<Rightarrow> string \<Rightarrow> workflow_edge" where
  "sample_edge a p b q = \<lparr>wd_source_node_id = a, wd_source_port = p, wd_target_node_id = b, wd_target_port = q\<rparr>"

definition sample_graph :: workflow_graph where
  "sample_graph =
     \<lparr>wg_entry_node_id = ''n1'',
      wg_nodes = [sample_node ''n4'' ''telegram_publish'' [(KStr ''destination_id'', PStr ''d'')],
                  sample_node ''n1'' ''manual'' [(KStr ''story_revision_id'', PStr ''r'')],
                  sample_node ''n3'' ''human_review'' [], sample_node ''n2'' ''generate_content_pack'' []],
      wg_edges = [sample_edge ''n1'' ''story'' ''n2'' ''story'', sample_edge ''n2'' ''drafts'' ''n3'' ''draft'',
                  sample_edge ''n3'' ''approved'' ''n4'' ''draft''],
      wg_output_node_ids = [''n4''], wg_layout = []\<rparr>"

definition sample_plan :: "(compile_failure + compiled_workflow_plan) option" where
  "sample_plan = compile_graph sample_parse (\<lambda>_. ''g'') (\<lambda>s. concat (cp_required_resources s)) (\<lambda>_. ''?'') sample_graph"

lemma sample_compiled: "\<exists>plan. sample_plan = Some (Inr plan) \<and> length (cp_stages plan) = 4 \<and>
    cs_node_type (cp_stages plan ! 3) = ''telegram_publish''"
proof -
  have "case sample_plan of Some (Inr plan) \<Rightarrow> length (cp_stages plan) = 4 \<and>
    cs_node_type (cp_stages plan ! 3) = ''telegram_publish'' | _ \<Rightarrow> False" by code_simp
  then show ?thesis by (auto split: option.splits sum.splits)
qed

lemma compiled_plan_is_a_path_witness:
  "\<exists>plan. sample_plan = Some (Inr plan) \<and> set (map cs_node_id (cp_stages plan)) = {''n1'', ''n2'', ''n3'', ''n4''}"
proof -
  obtain plan where p: "sample_plan = Some (Inr plan)" using sample_compiled by blast
  with compiled_plan_is_a_path [OF p [unfolded sample_plan_def]]
  have "set (map cs_node_id (cp_stages plan)) = set (map wn_id (wg_nodes sample_graph))" unfolding Let_def by blast
  then show ?thesis using p by (auto simp: sample_graph_def sample_node_def)
qed

lemma publication_follows_review_witness:
  "\<exists>plan. sample_plan = Some (Inr plan) \<and> (\<exists>j<3. cs_node_type (cp_stages plan ! j) = ''human_review'')"
proof -
  obtain plan where p: "sample_plan = Some (Inr plan)" "length (cp_stages plan) = 4"
    "cs_node_type (cp_stages plan ! 3) = ''telegram_publish''" using sample_compiled by blast
  then show ?thesis using publication_follows_review [OF p(1) [unfolded sample_plan_def], of 3] by auto
qed

lemma verified_plan_is_current_witness:
  "\<exists>saved. verify_compiled_plan sample_parse (\<lambda>_. ''g'') (\<lambda>s. concat (cp_required_resources s)) (\<lambda>_. ''?'')
     (\<lambda>_. Some saved) sample_graph [] = Some (Inr saved) \<and> sample_plan = Some (Inr saved)"
proof -
  obtain plan where p: "sample_plan = Some (Inr plan)" using sample_compiled by blast
  note c = p [unfolded sample_plan_def]
  have v: "verify_compiled_plan sample_parse (\<lambda>_. ''g'') (\<lambda>s. concat (cp_required_resources s)) (\<lambda>_. ''?'')
     (\<lambda>_. Some plan) sample_graph [] = Some (Inr plan)"
    by (simp add: verify_compiled_plan_def c dict_get_def)
  from verified_plan_is_current [OF refl c _ v] c v show ?thesis unfolding sample_plan_def by auto
qed

end
