(* ===== verification/Redaction_Spec.thy ===== *)
theory Redaction_Spec
  imports Redaction
begin












end
