(* ===== verification/Workflow_States.thy ===== *)
theory Workflow_States
  imports Prelude
begin

text \<open>
  The editorial state tables of \<open>app/workflows/states.py\<close> (research runs, generation
  runs, content packs, variant approval) and of \<open>app/stories/states.py\<close> (stories).
  The locale \<open>transition_table\<close> states what the code's lookup needs of a table; each
  table of the code is an interpretation, and the facts about runs of transitions are
  proved once in the locale.
\<close>

section \<open>Decisions\<close>

record state_transition =
  st_current :: string
  st_target :: string
  st_allowed :: bool
  st_changed :: bool

datatype state_error =
    EditorialValidationError string string \<comment> \<open>message and code\<close>
  | StateKeyError string \<comment> \<open>\<open>transitions[current]\<close> with no entry\<close>

type_synonym state_table = "(string \<times> string list) list"

definition RESEARCH_RUN_STATES :: "string list" where
  "RESEARCH_RUN_STATES = [''queued'', ''running'', ''succeeded'', ''needs_review'', ''failed'']"

definition GENERATION_RUN_STATES :: "string list" where
  "GENERATION_RUN_STATES = [''running'', ''succeeded'', ''completed'', ''failed'']"

definition CONTENT_PACK_STATES :: "string list" where
  "CONTENT_PACK_STATES = [''draft'', ''ready'']"

definition VARIANT_APPROVAL_STATES :: "string list" where
  "VARIANT_APPROVAL_STATES = [''draft'', ''pending_review'', ''approved'', ''rejected'']"

definition RESEARCH_RUN_TRANSITIONS :: state_table where
  "RESEARCH_RUN_TRANSITIONS =
     [(''queued'', [''running'', ''failed'']),
      (''running'', [''succeeded'', ''needs_review'', ''failed'']),
      (''succeeded'', []),
      (''needs_review'', [''running'']),
      (''failed'', [''running''])]"

definition GENERATION_RUN_TRANSITIONS :: state_table where
  "GENERATION_RUN_TRANSITIONS =
     [(''running'', [''succeeded'', ''completed'', ''failed'']),
      (''succeeded'', []),
      (''completed'', []),
      (''failed'', [''running''])]"

definition CONTENT_PACK_TRANSITIONS :: state_table where
  "CONTENT_PACK_TRANSITIONS = [(''draft'', [''ready'']), (''ready'', [''draft''])]"

definition VARIANT_APPROVAL_TRANSITIONS :: state_table where
  "VARIANT_APPROVAL_TRANSITIONS =
     [(''draft'', [''pending_review'']),
      (''pending_review'', [''approved'', ''rejected'']),
      (''approved'', []),
      (''rejected'', [])]"

definition transition :: "string \<Rightarrow> string \<Rightarrow> string list \<Rightarrow> state_table \<Rightarrow> state_error + state_transition" where
  "transition cur target states transitions =
     (if cur \<notin> set states then
        Inr \<lparr>st_current = cur, st_target = target, st_allowed = False, st_changed = False\<rparr>
      else if cur = target then
        Inr \<lparr>st_current = cur, st_target = target, st_allowed = True, st_changed = False\<rparr>
      else case map_of transitions cur of
        None \<Rightarrow> Inl (StateKeyError cur)
      | Some targets \<Rightarrow>
          Inr \<lparr>st_current = cur, st_target = target, st_allowed = target \<in> set targets, st_changed = True\<rparr>)"

definition require_decision :: "state_transition \<Rightarrow> string \<Rightarrow> state_error + unit" where
  "require_decision d subject =
     (if st_allowed d then Inr ()
      else Inl (EditorialValidationError
        (subject @ '' cannot transition from '' @ st_current d @ '' to '' @ st_target d)
        ''state_transition_invalid''))"

definition research_run_transition :: "string \<Rightarrow> string \<Rightarrow> state_error + state_transition" where
  "research_run_transition cur target = transition cur target RESEARCH_RUN_STATES RESEARCH_RUN_TRANSITIONS"

definition generation_run_transition :: "string \<Rightarrow> string \<Rightarrow> state_error + state_transition" where
  "generation_run_transition cur target = transition cur target GENERATION_RUN_STATES GENERATION_RUN_TRANSITIONS"

definition content_pack_transition :: "string \<Rightarrow> string \<Rightarrow> state_error + state_transition" where
  "content_pack_transition cur target = transition cur target CONTENT_PACK_STATES CONTENT_PACK_TRANSITIONS"

definition variant_approval_transition :: "string \<Rightarrow> string \<Rightarrow> state_error + state_transition" where
  "variant_approval_transition cur target = transition cur target VARIANT_APPROVAL_STATES VARIANT_APPROVAL_TRANSITIONS"

definition require_research_run_transition :: "string \<Rightarrow> string \<Rightarrow> state_error + string" where
  "require_research_run_transition cur target =
     result_bind (research_run_transition cur target)
       (\<lambda>d. result_bind (require_decision d ''research run'') (\<lambda>_. Inr target))"

definition require_generation_run_transition :: "string \<Rightarrow> string \<Rightarrow> state_error + string" where
  "require_generation_run_transition cur target =
     result_bind (generation_run_transition cur target)
       (\<lambda>d. result_bind (require_decision d ''generation run'') (\<lambda>_. Inr target))"

definition require_content_pack_transition :: "string \<Rightarrow> string \<Rightarrow> state_error + string" where
  "require_content_pack_transition cur target =
     result_bind (content_pack_transition cur target)
       (\<lambda>d. result_bind (require_decision d ''content pack'') (\<lambda>_. Inr target))"

definition require_variant_approval_transition :: "string \<Rightarrow> string \<Rightarrow> state_error + string" where
  "require_variant_approval_transition cur target =
     result_bind (variant_approval_transition cur target)
       (\<lambda>d. result_bind (require_decision d ''variant approval'') (\<lambda>_. Inr target))"

section \<open>Stories\<close>

definition STORY_STATUSES :: "string list" where
  "STORY_STATUSES = [''inbox'', ''shortlisted'', ''rejected'', ''drafted'', ''telegram_provisional'']"

definition STORY_TRANSITIONS :: state_table where
  "STORY_TRANSITIONS =
     [(''inbox'', [''shortlisted'', ''rejected'', ''drafted'']),
      (''shortlisted'', [''inbox'', ''rejected'', ''drafted'']),
      (''rejected'', [''inbox'', ''shortlisted'']),
      (''drafted'', [''inbox'', ''shortlisted'', ''rejected'']),
      (''telegram_provisional'', [])]"

datatype story_reason = changed | unchanged | unknown_state | transition_not_allowed

record story_transition = state_transition +
  st_reason :: story_reason

definition decide_story_transition :: "string \<Rightarrow> string \<Rightarrow> state_error + story_transition" where
  "decide_story_transition cur target =
     (if cur \<notin> set STORY_STATUSES then
        Inr \<lparr>st_current = cur, st_target = target, st_allowed = False, st_changed = False, st_reason = unknown_state\<rparr>
      else if cur = target then
        Inr \<lparr>st_current = cur, st_target = target, st_allowed = True, st_changed = False, st_reason = unchanged\<rparr>
      else case map_of STORY_TRANSITIONS cur of
        None \<Rightarrow> Inl (StateKeyError cur)
      | Some targets \<Rightarrow>
          if target \<notin> set targets then
            Inr \<lparr>st_current = cur, st_target = target, st_allowed = False, st_changed = False,
                 st_reason = transition_not_allowed\<rparr>
          else
            Inr \<lparr>st_current = cur, st_target = target, st_allowed = True, st_changed = True, st_reason = changed\<rparr>)"

section \<open>What a table must provide\<close>

text \<open>
  The lookup \<open>transitions[current]\<close> never misses a known state, no table names a state
  it does not declare, and no state lists itself.
\<close>

definition table_ok :: "string list \<Rightarrow> state_table \<Rightarrow> bool" where
  "table_ok states table =
     (list_all (\<lambda>s. List.member (map fst table) s) states \<and>
      list_all (\<lambda>(s, ts). \<not> List.member ts s \<and> list_all (List.member states) ts) table)"

text \<open>A sequence of targets, each reached from the one before.\<close>

fun walk :: "(string \<Rightarrow> string \<Rightarrow> bool) \<Rightarrow> string \<Rightarrow> string list \<Rightarrow> bool" where
  "walk step s [] = True"
| "walk step s (t # ts) = (step s t \<and> walk step t ts)"

locale transition_table =
  fixes states :: "string list"
    and table :: state_table
    and step :: "string \<Rightarrow> string \<Rightarrow> bool"
  assumes ok: "table_ok states table"
    and step_iff: "step s t \<longleftrightarrow>
          s \<in> set states \<and> (s = t \<or> (\<exists>ts. map_of table s = Some ts \<and> t \<in> set ts))"
begin

lemma closed: "map_of table s = Some ts \<Longrightarrow> set ts \<subseteq> set states \<and> s \<notin> set ts"
  using ok by (fastforce simp: table_ok_def list_all_iff dest: map_of_SomeD)

lemma step_target: "step s t \<Longrightarrow> t \<in> set states"
  using closed by (auto simp: step_iff)

lemma walk_in_states: "s \<in> set states \<Longrightarrow> walk step s ts \<Longrightarrow> set ts \<subseteq> set states"
  by (induction ts arbitrary: s) (auto dest: step_target)

lemma terminal_stays: "map_of table s = Some [] \<Longrightarrow> walk step s ts \<Longrightarrow> t \<in> set ts \<Longrightarrow> t = s"
  by (induction ts arbitrary: s) (auto simp: step_iff)

lemma gate:
  assumes "\<And>s. step s t \<Longrightarrow> s = t \<or> s = g"
  shows "s \<noteq> t \<Longrightarrow> s \<noteq> g \<Longrightarrow> walk step s ts \<Longrightarrow> t \<in> set ts \<Longrightarrow> g \<in> set (takeWhile (\<lambda>x. x \<noteq> t) ts)"
proof (induction ts arbitrary: s)
  case (Cons u ts)
  then have u: "u \<noteq> t" using assms by auto
  with Cons show ?case by (cases "u = g") auto
qed simp

lemma unreachable:
  assumes "\<And>s. step s t \<Longrightarrow> s = t"
  shows "s \<noteq> t \<Longrightarrow> walk step s ts \<Longrightarrow> t \<notin> set ts"
proof (induction ts arbitrary: s)
  case (Cons u ts)
  then have "u \<noteq> t" using assms by auto
  with Cons show ?case by auto
qed simp

end

lemma transition_total:
  assumes "table_ok states table"
  shows "transition s t states table =
     Inr \<lparr>st_current = s, st_target = t,
          st_allowed = (s \<in> set states \<and> (s = t \<or> (\<exists>ts. map_of table s = Some ts \<and> t \<in> set ts))),
          st_changed = (s \<in> set states \<and> s \<noteq> t)\<rparr>"
proof (cases "map_of table s")
  case None
  then have "s \<notin> set states"
    using assms by (auto simp: table_ok_def list_all_iff map_of_eq_None_iff)
  then show ?thesis by (simp add: transition_def)
next
  case (Some ts)
  then show ?thesis by (simp add: transition_def)
qed

lemmas require_defs =
  require_research_run_transition_def research_run_transition_def
  require_generation_run_transition_def generation_run_transition_def
  require_content_pack_transition_def content_pack_transition_def
  require_variant_approval_transition_def variant_approval_transition_def

lemma tables_ok:
  "table_ok RESEARCH_RUN_STATES RESEARCH_RUN_TRANSITIONS"
  "table_ok GENERATION_RUN_STATES GENERATION_RUN_TRANSITIONS"
  "table_ok CONTENT_PACK_STATES CONTENT_PACK_TRANSITIONS"
  "table_ok VARIANT_APPROVAL_STATES VARIANT_APPROVAL_TRANSITIONS"
  "table_ok STORY_STATUSES STORY_TRANSITIONS"
  by code_simp+

lemmas require_simps = require_defs transition_total require_decision_def result_bind_eq_Inr tables_ok

interpretation research: transition_table RESEARCH_RUN_STATES RESEARCH_RUN_TRANSITIONS
    "\<lambda>s t. require_research_run_transition s t = Inr t"
  by unfold_locales (auto simp: require_simps)

interpretation generation: transition_table GENERATION_RUN_STATES GENERATION_RUN_TRANSITIONS
    "\<lambda>s t. require_generation_run_transition s t = Inr t"
  by unfold_locales (auto simp: require_simps)

interpretation content_pack: transition_table CONTENT_PACK_STATES CONTENT_PACK_TRANSITIONS
    "\<lambda>s t. require_content_pack_transition s t = Inr t"
  by unfold_locales (auto simp: require_simps)

interpretation approval: transition_table VARIANT_APPROVAL_STATES VARIANT_APPROVAL_TRANSITIONS
    "\<lambda>s t. require_variant_approval_transition s t = Inr t"
  by unfold_locales (auto simp: require_simps)

lemma story_total:
  "decide_story_transition s t =
     (let al = s \<in> set STORY_STATUSES \<and> (s = t \<or> (\<exists>ts. map_of STORY_TRANSITIONS s = Some ts \<and> t \<in> set ts))
      in Inr \<lparr>st_current = s, st_target = t, st_allowed = al, st_changed = (al \<and> s \<noteq> t),
              st_reason = (if s \<notin> set STORY_STATUSES then unknown_state else if s = t then unchanged
                           else if al then changed else transition_not_allowed)\<rparr>)"
proof (cases "map_of STORY_TRANSITIONS s")
  case None
  then have "s \<notin> set STORY_STATUSES"
    using tables_ok(5) by (auto simp: table_ok_def list_all_iff map_of_eq_None_iff)
  then show ?thesis by (simp add: decide_story_transition_def Let_def)
next
  case (Some ts)
  then show ?thesis by (simp add: decide_story_transition_def Let_def)
qed

interpretation story: transition_table STORY_STATUSES STORY_TRANSITIONS
    "\<lambda>s t. case decide_story_transition s t of Inr d \<Rightarrow> st_allowed d | Inl _ \<Rightarrow> False"
  by unfold_locales (auto simp: tables_ok story_total Let_def)

end
