(* ===== verification/States_Spec.thy ===== *)
theory States_Spec
  imports Workflow_States Job_Types
begin

text \<open>
  What the editorial state machines, the job snapshot and the handler table promise their callers.
\<close>

definition transition_refused :: "string \<Rightarrow> string \<Rightarrow> string \<Rightarrow> state_error" where
  "transition_refused subject s t =
     EditorialValidationError (subject @ '' cannot transition from '' @ s @ '' to '' @ t) ''state_transition_invalid''"

definition listed :: "string list \<Rightarrow> state_table \<Rightarrow> string \<Rightarrow> string \<Rightarrow> bool" where
  "listed states table s t = (s \<in> set states \<and> (s = t \<or> (\<exists>ts. map_of table s = Some ts \<and> t \<in> set ts)))"

lemmas guard_defs = require_decision_def result_bind_def listed_def transition_refused_def

text \<open>
  The guards of the four editorial state machines decide exactly their tables: a listed transition,
  or staying in a known state, returns the target, anything else, unknown states included, is refused
  with the same validation code, and the table lookup never fails.
\<close>

theorem editorial_guards_follow_tables:
  "require_research_run_transition s t =
     (if listed RESEARCH_RUN_STATES RESEARCH_RUN_TRANSITIONS s t then Inr t else Inl (transition_refused ''research run'' s t)) \<and>
   require_generation_run_transition s t =
     (if listed GENERATION_RUN_STATES GENERATION_RUN_TRANSITIONS s t then Inr t else Inl (transition_refused ''generation run'' s t)) \<and>
   require_content_pack_transition s t =
     (if listed CONTENT_PACK_STATES CONTENT_PACK_TRANSITIONS s t then Inr t else Inl (transition_refused ''content pack'' s t)) \<and>
   require_variant_approval_transition s t =
     (if listed VARIANT_APPROVAL_STATES VARIANT_APPROVAL_TRANSITIONS s t then Inr t else Inl (transition_refused ''variant approval'' s t))"
proof (intro conjI)
  show "require_research_run_transition s t = (if listed RESEARCH_RUN_STATES RESEARCH_RUN_TRANSITIONS s t then Inr t
      else Inl (transition_refused ''research run'' s t))"
    by (simp add: require_research_run_transition_def research_run_transition_def transition_total [OF tables_ok(1)] guard_defs)
  show "require_generation_run_transition s t = (if listed GENERATION_RUN_STATES GENERATION_RUN_TRANSITIONS s t then Inr t
      else Inl (transition_refused ''generation run'' s t))"
    by (simp add: require_generation_run_transition_def generation_run_transition_def transition_total [OF tables_ok(2)] guard_defs)
  show "require_content_pack_transition s t = (if listed CONTENT_PACK_STATES CONTENT_PACK_TRANSITIONS s t then Inr t
      else Inl (transition_refused ''content pack'' s t))"
    by (simp add: require_content_pack_transition_def content_pack_transition_def transition_total [OF tables_ok(3)] guard_defs)
  show "require_variant_approval_transition s t = (if listed VARIANT_APPROVAL_STATES VARIANT_APPROVAL_TRANSITIONS s t then Inr t
      else Inl (transition_refused ''variant approval'' s t))"
    by (simp add: require_variant_approval_transition_def variant_approval_transition_def transition_total [OF tables_ok(4)] guard_defs)
qed

text \<open>
  A platform variant is approved only through review: on every run of admitted transitions from
  draft, pending review comes before approved, and an approved or rejected variant never changes again.
\<close>

theorem approval_only_through_review:
  assumes "walk (\<lambda>s t. require_variant_approval_transition s t = Inr t) s ts"
  shows "(s = ''draft'' \<longrightarrow> ''approved'' \<in> set ts \<longrightarrow> ''pending_review'' \<in> set (takeWhile (\<lambda>x. x \<noteq> ''approved'') ts)) \<and>
    (s \<in> {''approved'', ''rejected''} \<longrightarrow> (\<forall>t\<in>set ts. t = s))"
proof -
  have "s = ''approved'' \<or> s = ''pending_review''" if "require_variant_approval_transition s ''approved'' = Inr ''approved''" for s
    using that by (simp add: approval.step_iff) (auto simp: VARIANT_APPROVAL_TRANSITIONS_def split: if_splits)
  then have "s = ''draft'' \<longrightarrow> ''approved'' \<in> set ts \<longrightarrow> ''pending_review'' \<in> set (takeWhile (\<lambda>x. x \<noteq> ''approved'') ts)"
    using approval.gate [of "''approved''" "''pending_review''" s ts] assms by auto
  moreover have "t = s" if "s \<in> {''approved'', ''rejected''}" "t \<in> set ts" for t
  proof (rule approval.terminal_stays [OF _ assms that(2)])
    show "map_of VARIANT_APPROVAL_TRANSITIONS s = Some []" using that(1) by (auto simp: VARIANT_APPROVAL_TRANSITIONS_def)
  qed
  ultimately show ?thesis by blast
qed

lemma approval_only_through_review_witness:
  "''pending_review'' \<in> set (takeWhile (\<lambda>x. x \<noteq> ''approved'') [''draft'', ''pending_review'', ''approved''])"
  by (rule approval_only_through_review [of "''draft''", THEN conjunct1, rule_format]) (simp_all, code_simp)

text \<open>
  The payload of a job survives the snapshot: what a handler reads from the immutable job execution
  is exactly the JSON payload the execution was built from, and a payload that redaction would change, one
  with a secret in it, never becomes an execution.
\<close>

theorem payload_snapshot_round_trip:
  assumes "json_items payload"
    and "job_execution rs i ty payload a m org own cr sch pr sen run node = Inr e"
  shows "payload_copy e = payload \<and> restore_exempt_secrets ty payload (redact_event_data rs payload) = payload"
proof -
  obtain f where f: "freeze_items payload = Inr f" "thaw_items f = payload" using freeze_thaw(2) [OF assms(1)] by blast
  with assms(2) show ?thesis
    by (auto simp: job_execution_def result_bind_eq_Inr payload_copy_def reject_secret_payload_def redact_dict
        split: if_splits option.splits)
qed

lemma payload_snapshot_round_trip_witness:
  "\<exists>e. job_execution id ''i'' ''ingest.collect'' [(KStr ''ids'', PList [PInt 1, PNone])] 1 3 ''manual'' ''w'' 0 None 0 True None None = Inr e \<and>
     payload_copy e = [(KStr ''ids'', PList [PInt 1, PNone])]"
proof -
  let ?x = "job_execution id ''i'' ''ingest.collect'' [(KStr ''ids'', PList [PInt 1, PNone])] 1 3 ''manual'' ''w'' 0 None 0 True None None"
  have "\<not> isl ?x" by code_simp
  then obtain e where e: "?x = Inr e" by (cases ?x) auto
  from payload_snapshot_round_trip [OF _ e] e show ?thesis by simp
qed

text \<open>
  The default handler table dispatches exactly the selected capabilities: a consistent configuration
  registers without a duplicate, each job type of the plan is found under its name, and any other type
  is refused as unknown.
\<close>

theorem default_registry_dispatches:
  assumes "check_registry_config c = Inr ()"
  shows "\<exists>reg. build_default_registry c = Inr reg \<and>
    (\<forall>ty. get_handler reg (job_type_value ty) =
       (if ty \<in> set (registry_plan c) then Inr ty else Inl (UnknownJobTypeError (job_type_value ty))))"
proof -
  let ?reg = "map (\<lambda>t. (job_type_value t, t)) (registry_plan c)"
  have "map_of (map (\<lambda>t. (job_type_value t, t)) ts) (job_type_value ty) = (if ty \<in> set ts then Some ty else None)" for ty ts
    by (induction ts) (auto dest: job_type_value_inj)
  then show ?thesis using build_default_registry_ok [OF assms] by (intro exI [of _ ?reg]) (simp add: get_handler_def)
qed

lemma default_registry_dispatches_witness:
  "\<exists>reg. build_default_registry \<lparr>rc_capabilities = Some [''ingestion''], rc_source_registry = False, rc_media_stager = False,
       rc_profile_resolver = False, rc_telegram_client = False, rc_secret_resolver = False, rc_research_resolver = False,
       rc_icon_service = False\<rparr> = Inr reg \<and>
     get_handler reg (job_type_value TELEGRAM_PUBLISH) = Inl (UnknownJobTypeError (job_type_value TELEGRAM_PUBLISH))"
proof -
  let ?c = "\<lparr>rc_capabilities = Some [''ingestion''], rc_source_registry = False, rc_media_stager = False,
       rc_profile_resolver = False, rc_telegram_client = False, rc_secret_resolver = False, rc_research_resolver = False,
       rc_icon_service = False\<rparr>"
  have "check_registry_config ?c = Inr ()" by code_simp
  from default_registry_dispatches [OF this] obtain reg where reg: "build_default_registry ?c = Inr reg"
    "\<forall>ty. get_handler reg (job_type_value ty) =
       (if ty \<in> set (registry_plan ?c) then Inr ty else Inl (UnknownJobTypeError (job_type_value ty)))" by blast
  have "TELEGRAM_PUBLISH \<notin> set (registry_plan ?c)" by (simp add: registry_plan_def selected_capabilities_def)
  with reg(2) [rule_format, of TELEGRAM_PUBLISH]
  have "get_handler reg (job_type_value TELEGRAM_PUBLISH) = Inl (UnknownJobTypeError (job_type_value TELEGRAM_PUBLISH))"
    by (simp only: if_False)
  with reg(1) show ?thesis by blast
qed

end
