(* ===== verification/Spec2Isabelle.thy ===== *)
theory Spec2Isabelle
  imports Continuous_Samples Telegram_Intents_Samples Telegram_Destinations_Samples Platform_Validation_Spec Secret_Spec Scheduler_Spec Graph_Compiler Redaction_Spec States_Spec
begin

text \<open>
  NewsCraft collects news, turns it into drafts with language models and publishes the approved ones.
  Its backend (\<open>src/backend/app\<close>) is a set of processes around one database: the HTTP interface and
  the scheduler enqueue jobs, workers claim and run them, and a workflow graph decides which jobs an
  automation runs.  This development models the parts that carry that logic.

  \<^bold>\<open>Conventions.\<close>  A row is a record with the columns of its class, a table a list of rows in
  storage order, a database a record of tables.  A transaction is a function of an environment and a
  database: it returns an error, and then nothing is written, or its result with the new database.  The
  environment holds what the code reads from outside: the wall clock, the database's clock, fresh
  identifiers, rows locked by other transactions (\<open>SKIP LOCKED\<close>), the text redactor, the coverage snapshot
  of the capability gate.  Times are integers counting microseconds since the epoch, identifiers and
  enumerated columns are strings, JSON values are \<open>pyval\<close>.  An exception is the left value of a sum;
  \<open>result_bind\<close> sequences fallible steps.

  \<^bold>\<open>Theories.\<close>
  \<^item> \<open>Prelude\<close>: Python values, dictionaries, UUID text, ISO dates, results and table updates.
  \<^item> \<open>Workflow_States\<close>, \<open>States_Spec\<close>: \<open>workflows/states.py\<close> and \<open>stories/states.py\<close>; the locale
    \<open>transition_table\<close> states what a guard over a table promises and is interpreted for the five machines.
  \<^item> \<open>Redaction\<close>, \<open>Redaction_Spec\<close>: \<open>core/redaction.py\<close>, \<open>jobs/events.py\<close>, \<open>jobs/secret_policy.py\<close>.
  \<^item> \<open>Job_Types\<close>: \<open>jobs/types.py\<close>, \<open>jobs/errors.py\<close>, \<open>jobs/registry.py\<close>.
  \<^item> \<open>Job_Store\<close>, \<open>Job_Repository\<close>: the rows and every method of \<open>jobs/repository.py\<close>, with
    \<open>jobs/capability_gate.py\<close> and \<open>jobs/control.py\<close>.
  \<^item> \<open>Job_Queue\<close>: the queue as a transition system: \<open>run_op\<close> dispatches an operation, \<open>queue_reach\<close> are the
    reachable databases, \<open>queue_ok\<close> is the invariant and \<open>next_status\<close> the abstract life cycle.
  \<^item> \<open>Enqueue_Contract\<close>, \<open>Job_Enqueue\<close>: what enqueueing promises its callers, as a locale proved from
    idempotency, retention and exact growth, and its interpretation on \<open>enqueue_job\<close>.
  \<^item> \<open>Job_Recovery\<close>, \<open>Job_Audit\<close>, \<open>Job_Worker\<close>: the recovery of expired leases with the rows that depend on
    a job, the event log, and \<open>jobs/worker.py\<close>.
  \<^item> \<open>Capability_Status\<close>: the projection of worker observations in \<open>jobs/credential_capabilities.py\<close>.
  \<^item> \<open>Scheduler\<close>, \<open>Scheduler_Spec\<close>: \<open>jobs/scheduler.py\<close>, from the reconciliation of sources to the tick.
  \<^item> \<open>Source_Collections\<close>, \<open>Continuous\<close>, \<open>Continuous_Spec\<close>: \<open>source_collections/\<close> with \<open>repository.py\<close> and
    \<open>continuous.py\<close>, the handlers of \<open>jobs/handlers.py\<close> and the deletion of a collection.  The cycle handler
    commits twice and keeps its objects; \<open>flush_subscription\<close> is the second flush, which writes the columns
    that differ from the ones loaded.  \<open>coll_reach\<close> are the databases every interleaving can reach.
  \<^item> \<open>Publish_Rows\<close>, \<open>Telegram_Render\<close>, \<open>Telegram_Client\<close>: the rows of \<open>publishing/\<close>, the rendering of a draft to
    a plan of Bot API calls and the client with its classification of answers; \<open>Telegram_Render_Spec\<close> shows
    that a plan carries the draft once.
  \<^item> \<open>Publish_Context\<close>, \<open>Telegram_Publish\<close>, \<open>Telegram_Reconcile\<close>: \<open>publish_telegram\<close> as a sequence of
    transactions and calls (\<open>publisher\<close> is the point between two of them, \<open>advance\<close> the next step) and the
    operator's decision on a doubtful operation.
  \<^item> \<open>Publish_Receipts\<close>, \<open>Publish_Spec\<close>: the life cycle of a receipt, the effect of every transaction on it, and
    the world of all publishers, the queue and the operator (\<open>world_step\<close>) with its invariant \<open>world_ok\<close>.
  \<^item> \<open>Telegram_Intents\<close>, \<open>Telegram_Intents_Spec\<close>: the immediate and the scheduled publish intent of
    \<open>draft_publication.py\<close>, \<open>process_support.py\<close> and \<open>scheduling.py\<close>; \<open>program_reach\<close> are the worlds reachable when
    their requests interleave with the publishers, the queue and the operator.
  \<^item> \<open>Secret_Store\<close>, \<open>Secret_Spec\<close>: \<open>security/secret_store.py\<close> with the audit trail; AES-GCM is an argument and
    \<open>authenticated\<close> what the theorems ask of it.
  \<^item> \<open>Telegram_Routing\<close>, \<open>Telegram_Destinations\<close>, \<open>Telegram_Proxies\<close>, \<open>Telegram_Checks\<close>: the normal form of targets
    and proxy addresses of \<open>routing.py\<close>, the service of \<open>lifecycle.py\<close> with the requests of
    \<open>api/telegram_destinations.py\<close> (\<open>tg_handle\<close> has one equation per request), and the handlers of
    \<open>publishing/telegram/handlers.py\<close> with the client's checks and the route resolver.  A health check is a probe
    and a settling transaction with other transactions between them; \<open>reread\<close> is the second select of a session
    that still holds the object.
  \<^item> \<open>Telegram_Routing_Spec\<close>, \<open>Telegram_Destinations_Spec\<close>, \<open>Telegram_Destinations_Run\<close>, \<open>Telegram_Checks_Spec\<close>: the round
    trip of targets, the invariant \<open>tg_ok\<close> of destinations, proxies and their secrets along the runs of \<open>tg_step\<close>,
    the setups an enabled destination keeps (\<open>setup_of\<close>), and what a health verdict rests on.
  \<^item> \<open>Platform_Schemas\<close>, \<open>Platform_Validation\<close>, \<open>Platform_Validation_Spec\<close>: the content of an Instagram, X or
    blog draft with \<open>generation/platform_schemas.py\<close>, \<open>platform_limits.py\<close> and \<open>platform_validation.py\<close>;
    \<open>publishable\<close> is the reference the validators are proved to decide on every content its schema reads.
  \<^item> \<open>Artifacts\<close>, \<open>Node_Registry\<close>, \<open>Graph_Search\<close>, \<open>Graph_Validation\<close>, \<open>Graph_Spec\<close>, \<open>Graph_Compiler\<close>:
    \<open>automations/definitions/\<close> with \<open>artifacts.py\<close>, \<open>registry.py\<close>, \<open>validation.py\<close> and \<open>compiler.py\<close>;
    \<open>graph_wf\<close> is the declarative notion of a well-formed graph the validator is proved to decide.
  \<^item> \<open>Job_Samples\<close>, \<open>Continuous_Samples\<close>, \<open>Publish_Samples\<close>, \<open>Telegram_Intents_Samples\<close>,
    \<open>Telegram_Destinations_Samples\<close> and the ends of the specification theories apply the theorems to concrete inputs.

  \<^bold>\<open>How the parts interact.\<close>  The scheduler's tick sweeps expired leases, reconciles schedules and
  enqueues through the queue; its proofs use only the laws of the locale \<open>enqueue_contract\<close>.  A worker turn is
  a claim, a handler and a terminal transaction with any other transactions between them.  The compiler
  runs the validator first, so its proofs use \<open>graph_wf\<close> rather than the findings.  A publication runs inside
  a worker turn; the sweep that recovers the lease of a lost worker marks its unfinished receipt as doubtful,
  and the operator's decision enqueues the job again through the queue.

  \<^bold>\<open>Loops and fuel.\<close>  The depth-first search for cycles recurses to a bounded depth; \<open>Graph_Search\<close> shows that
  the number of nodes is enough.  The ordering loop of the compiler would run forever on a cycle, so it is
  a partial function, and the theorem on \<open>compile_graph\<close> shows that it always returns there.  Every other
  loop recurses on its list or on a proved measure.

  \<^bold>\<open>Not modelled.\<close>  Text redaction patterns, the configuration schemas' parser, hashing, the time-zone
  database and the coverage snapshot are parameters.  Network, process and file handling, prompts and
  response parsing of language models, and request and response shaping are left out: their behaviour
  lies in third-party code or in the services behind them.  The Bot API and the HTTP library are parameters
  of a publication; \<open>sound_answer\<close> states what the theorems ask of it.  IDNA, the classification of network
  addresses, name resolution and connecting are parameters of the proxy checks.  Of the text redactor a health
  verdict asks that it makes no other text into the name \<open>id\<close>; no other theorem asks anything of it.  Reading
  URLs and integers from JSON is pydantic's and a parameter of the payload schemas.  The projection of an
  automation's run state, the dispatch of fetched posts, retention and manual publication keep state of their own
  and would be the next components; retention reads most tables of the program, of which only those of the
  components above are modelled.
\<close>

end
